(* ===== verification/Prelude.thy ===== *)
theory Prelude
  imports Main "HOL-Library.Word" "HOL-Library.Char_ord" "HOL-Library.AList"
begin

text \<open>
  Shared vocabulary of the development: bytes and strings as the client holds them, the operations
  of the Rust standard library the modelled code calls, UTF-8, and the lemmas on lists that the
  component theories share.

  A byte (\<open>u8\<close>) is a \<^typ>\<open>char\<close>, which has exactly 256 values. A byte slice \<open>&[u8]\<close> and the
  UTF-8 buffer behind a Rust \<open>String\<close> or \<open>&str\<close> are both a \<^typ>\<open>string\<close> (a list of bytes), so
  \<open>len()\<close> is \<^const>\<open>length\<close>. Where the code walks a string by scalar values, the buffer is decoded
  with \<open>chars\<close> below. A scalar value (\<open>char\<close> in Rust) is its code point, a \<^typ>\<open>nat\<close>.
\<close>

named_theorems std_simps \<open>characteristic equations of the modelled standard library\<close>
named_theorems ascii_defs \<open>definitions of the ASCII classifiers and of ASCII folding\<close>

type_synonym bytes = string
type_synonym scalar = nat

abbreviation code :: "char \<Rightarrow> nat" where
  "code c \<equiv> of_char c"

section \<open>ASCII\<close>

definition is_ascii_digit :: "char \<Rightarrow> bool" where [ascii_defs]:
  "is_ascii_digit c \<longleftrightarrow> 48 \<le> code c \<and> code c \<le> 57"

definition is_ascii_uppercase :: "char \<Rightarrow> bool" where [ascii_defs]:
  "is_ascii_uppercase c \<longleftrightarrow> 65 \<le> code c \<and> code c \<le> 90"

definition is_ascii_lowercase :: "char \<Rightarrow> bool" where [ascii_defs]:
  "is_ascii_lowercase c \<longleftrightarrow> 97 \<le> code c \<and> code c \<le> 122"

definition is_ascii_alphabetic :: "char \<Rightarrow> bool" where [ascii_defs]:
  "is_ascii_alphabetic c \<longleftrightarrow> is_ascii_uppercase c \<or> is_ascii_lowercase c"

definition is_ascii_alphanumeric :: "char \<Rightarrow> bool" where [ascii_defs]:
  "is_ascii_alphanumeric c \<longleftrightarrow> is_ascii_alphabetic c \<or> is_ascii_digit c"

definition is_ascii_byte :: "char \<Rightarrow> bool" where [ascii_defs]:
  "is_ascii_byte c \<longleftrightarrow> code c < 128"

definition ascii_lower :: "char \<Rightarrow> char" where [ascii_defs]:
  "ascii_lower c = (if is_ascii_uppercase c then char_of (code c + 32) else c)"

definition ascii_upper :: "char \<Rightarrow> char" where [ascii_defs]:
  "ascii_upper c = (if is_ascii_lowercase c then char_of (code c - 32) else c)"

definition to_ascii_lowercase :: "string \<Rightarrow> string" where
  "to_ascii_lowercase s = map ascii_lower s"

definition to_ascii_uppercase :: "bytes \<Rightarrow> bytes" where
  "to_ascii_uppercase s = map ascii_upper s"

definition eq_ignore_ascii_case :: "string \<Rightarrow> string \<Rightarrow> bool" where
  "eq_ignore_ascii_case s t \<longleftrightarrow> to_ascii_lowercase s = to_ascii_lowercase t"

lemma code_char_of [simp]: "n < 256 \<Longrightarrow> code (char_of n) = n"
  by simp

lemma code_less_256: "code c < 256"
  by simp

lemma char_eq_code: "c = d \<longleftrightarrow> code c = code d"
  by simp

lemma ascii_lower_idem [simp]: "ascii_lower (ascii_lower c) = ascii_lower c"
  by (simp add: ascii_defs)

lemma code_ascii_lower: "code (ascii_lower c) = (if is_ascii_uppercase c then code c + 32 else code c)"
  by (simp add: ascii_defs)

lemma code_ascii_upper: "code (ascii_upper c) = (if is_ascii_lowercase c then code c - 32 else code c)"
  by (auto simp: ascii_defs)

lemma ascii_upper_idem [simp]: "ascii_upper (ascii_upper c) = ascii_upper c"
  unfolding char_eq_code code_ascii_upper is_ascii_lowercase_def by auto

lemma ascii_upper_lower [simp]: "ascii_upper (ascii_lower c) = ascii_upper c"
  unfolding char_eq_code code_ascii_upper code_ascii_lower is_ascii_lowercase_def is_ascii_uppercase_def
  by auto

lemma ascii_lower_upper [simp]: "ascii_lower (ascii_upper c) = ascii_lower c"
  unfolding char_eq_code code_ascii_upper code_ascii_lower is_ascii_lowercase_def is_ascii_uppercase_def
  by auto

lemma to_ascii_lowercase_idem [simp]:
  "to_ascii_lowercase (to_ascii_lowercase s) = to_ascii_lowercase s"
  by (simp add: to_ascii_lowercase_def)

lemma length_to_ascii_lowercase [simp]: "length (to_ascii_lowercase s) = length s"
  by (simp add: to_ascii_lowercase_def)

lemma eq_ignore_ascii_case_refl [simp]: "eq_ignore_ascii_case s s"
  by (simp add: eq_ignore_ascii_case_def)

lemma to_ascii_uppercase_idem [simp]:
  "to_ascii_uppercase (to_ascii_uppercase s) = to_ascii_uppercase s"
  by (simp add: to_ascii_uppercase_def)

lemma length_to_ascii_uppercase [simp]: "length (to_ascii_uppercase s) = length s"
  by (simp add: to_ascii_uppercase_def)

lemma eq_ignore_ascii_case_sym: "eq_ignore_ascii_case s t \<Longrightarrow> eq_ignore_ascii_case t s"
  by (simp add: eq_ignore_ascii_case_def)

lemma eq_ignore_ascii_case_trans:
  "eq_ignore_ascii_case s t \<Longrightarrow> eq_ignore_ascii_case t u \<Longrightarrow> eq_ignore_ascii_case s u"
  by (simp add: eq_ignore_ascii_case_def)

section \<open>Searching and splitting slices\<close>

text \<open>\<open>iter().position(p)\<close>: the index of the first element that satisfies \<open>p\<close>.\<close>

fun position :: "('a \<Rightarrow> bool) \<Rightarrow> 'a list \<Rightarrow> nat option" where
  "position P [] = None"
| "position P (x # xs) = (if P x then Some 0 else map_option Suc (position P xs))"

text \<open>\<open>split_once(c)\<close>: the text before and after the first \<open>c\<close>.\<close>

definition split_once :: "'a \<Rightarrow> 'a list \<Rightarrow> ('a list \<times> 'a list) option" where
  "split_once c s = map_option (\<lambda>i. (take i s, drop (Suc i) s)) (position (\<lambda>x. x = c) s)"

text \<open>\<open>split(p)\<close>: the pieces between separators; there is always at least one piece.\<close>

fun split_by :: "('a \<Rightarrow> bool) \<Rightarrow> 'a list \<Rightarrow> 'a list list" where
  "split_by P [] = [[]]"
| "split_by P (x # xs) =
     (if P x then [] # split_by P xs
      else (case split_by P xs of [] \<Rightarrow> [[x]] | y # ys \<Rightarrow> (x # y) # ys))"

text \<open>\<open>join(sep)\<close>.\<close>

fun join_with :: "'a list \<Rightarrow> 'a list list \<Rightarrow> 'a list" where
  "join_with sep [] = []"
| "join_with sep [x] = x"
| "join_with sep (x # y # zs) = x @ sep @ join_with sep (y # zs)"

text \<open>\<open>starts_with\<close>, \<open>strip_prefix\<close> and \<open>strip_suffix\<close>.\<close>

definition starts_with :: "'a list \<Rightarrow> 'a list \<Rightarrow> bool" where
  "starts_with pat s \<longleftrightarrow> take (length pat) s = pat"

definition strip_prefix :: "'a list \<Rightarrow> 'a list \<Rightarrow> 'a list option" where
  "strip_prefix pat s = (if starts_with pat s then Some (drop (length pat) s) else None)"

definition strip_suffix :: "'a list \<Rightarrow> 'a list \<Rightarrow> 'a list option" where
  "strip_suffix pat s = map_option rev (strip_prefix (rev pat) (rev s))"

definition ends_with :: "'a list \<Rightarrow> 'a list \<Rightarrow> bool" where
  "ends_with pat s \<longleftrightarrow> starts_with (rev pat) (rev s)"

text \<open>\<open>find(pattern)\<close>: the offset of the first occurrence of \<open>pat\<close>.\<close>

fun find_sub :: "'a list \<Rightarrow> 'a list \<Rightarrow> nat option" where
  "find_sub pat [] = (if pat = [] then Some 0 else None)"
| "find_sub pat (x # xs) =
     (if starts_with pat (x # xs) then Some 0 else map_option Suc (find_sub pat xs))"

lemma position_None: "position P xs = None \<longleftrightarrow> (\<forall>x \<in> set xs. \<not> P x)"
  by (induction xs) auto

lemma position_Some:
  "position P xs = Some i \<longleftrightarrow> i < length xs \<and> P (xs ! i) \<and> (\<forall>x \<in> set (take i xs). \<not> P x)"
proof (induction xs arbitrary: i)
  case Nil
  then show ?case by simp
next
  case (Cons x xs)
  then show ?case by (cases i) auto
qed

lemma position_append_notin [simp]:
  "(\<forall>x \<in> set xs. \<not> P x) \<Longrightarrow> position P (xs @ ys) = map_option ((+) (length xs)) (position P ys)"
  by (induction xs) (auto simp: map_option_case split: option.splits)

lemma position_eq_append [simp]:
  "c \<notin> set us \<Longrightarrow> position (\<lambda>x. x = c) (us @ ys) = map_option ((+) (length us)) (position (\<lambda>x. x = c) ys)"
  by (rule position_append_notin) auto

lemma position_eq_notin [simp]: "c \<notin> set us \<Longrightarrow> position (\<lambda>x. x = c) us = None"
  by (auto simp: position_None)

lemma position_append_in:
  "position P xs = Some i \<Longrightarrow> position P (xs @ ys) = Some i"
  by (induction xs arbitrary: i) (auto simp: map_option_case split: option.splits if_splits)

lemma position_split:
  "position P xs = Some i \<longleftrightarrow>
     (\<exists>us x vs. xs = us @ x # vs \<and> length us = i \<and> P x \<and> (\<forall>u \<in> set us. \<not> P u))"
proof
  assume "position P xs = Some i"
  then have "xs = take i xs @ xs ! i # drop (Suc i) xs" "length (take i xs) = i" "P (xs ! i)"
    "\<forall>u \<in> set (take i xs). \<not> P u"
    by (auto simp: position_Some id_take_nth_drop)
  then show "\<exists>us x vs. xs = us @ x # vs \<and> length us = i \<and> P x \<and> (\<forall>u \<in> set us. \<not> P u)"
    by blast
qed auto

lemma split_once_append [simp]: "c \<notin> set us \<Longrightarrow> split_once c (us @ c # vs) = Some (us, vs)"
  by (simp add: split_once_def)

lemma split_once_None: "split_once c s = None \<longleftrightarrow> c \<notin> set s"
  by (auto simp: split_once_def position_None)

lemma split_once_notin [simp]: "c \<notin> set s \<Longrightarrow> split_once c s = None"
  by (simp add: split_once_None)

lemma split_once_Some: "split_once c s = Some (us, vs) \<longleftrightarrow> s = us @ c # vs \<and> c \<notin> set us"
proof
  assume "split_once c s = Some (us, vs)"
  then obtain i where "position (\<lambda>x. x = c) s = Some i" "us = take i s" "vs = drop (Suc i) s"
    by (auto simp: split_once_def)
  then show "s = us @ c # vs \<and> c \<notin> set us"
    by (auto simp: position_Some id_take_nth_drop)
qed auto

lemma split_by_nonempty [simp]: "split_by P xs \<noteq> []"
  by (induction xs) (auto split: list.splits)

lemma split_by_pieces: "y \<in> set (split_by P xs) \<Longrightarrow> z \<in> set y \<Longrightarrow> \<not> P z"
  by (induction xs arbitrary: y) (fastforce split: list.splits if_splits)+

lemma split_by_set: "y \<in> set (split_by P xs) \<Longrightarrow> set y \<subseteq> set xs"
  by (induction xs arbitrary: y) (force split: list.splits if_splits)+

lemma split_by_none [simp]: "(\<forall>x \<in> set xs. \<not> P x) \<Longrightarrow> split_by P xs = [xs]"
  by (induction xs) auto

lemma split_by_append [simp]:
  "(\<forall>x \<in> set xs. \<not> P x) \<Longrightarrow> P c \<Longrightarrow> split_by P (xs @ c # ys) = xs # split_by P ys"
  by (induction xs) auto

lemma split_by_eq_none [simp]: "c \<notin> set xs \<Longrightarrow> split_by (\<lambda>x. x = c) xs = [xs]"
  by (rule split_by_none) auto

lemma split_by_eq_append [simp]:
  "c \<notin> set xs \<Longrightarrow> split_by (\<lambda>x. x = c) (xs @ c # ys) = xs # split_by (\<lambda>x. x = c) ys"
  by (rule split_by_append) auto

lemma split_by_join:
  "xs \<noteq> [] \<Longrightarrow> (\<forall>x \<in> set xs. c \<notin> set x) \<Longrightarrow> split_by (\<lambda>x. x = c) (join_with [c] xs) = xs"
  by (induction "[c]" xs rule: join_with.induct) auto

lemma join_split_by: "join_with [c] (split_by (\<lambda>x. x = c) xs) = xs"
proof (induction xs)
  case Nil
  then show ?case by simp
next
  case (Cons x xs)
  obtain y ys where sp: "split_by (\<lambda>x. x = c) xs = y # ys"
    by (cases "split_by (\<lambda>x. x = c) xs") auto
  with Cons show ?case by (cases ys) auto
qed

lemma starts_with_append [simp]: "starts_with pat (pat @ s)"
  by (simp add: starts_with_def)

lemma starts_with_iff: "starts_with pat s \<longleftrightarrow> (\<exists>r. s = pat @ r)"
  by (metis append_take_drop_id starts_with_append starts_with_def)

lemma starts_with_singleton [simp]: "starts_with [c] s \<longleftrightarrow> s \<noteq> [] \<and> hd s = c"
  by (cases s) (auto simp: starts_with_def)

lemma strip_prefix_Some [std_simps]: "strip_prefix pat s = Some r \<longleftrightarrow> s = pat @ r"
  by (auto simp: strip_prefix_def starts_with_iff)

lemma strip_suffix_Some [std_simps]: "strip_suffix pat s = Some r \<longleftrightarrow> s = r @ pat"
  unfolding strip_suffix_def map_option_eq_Some strip_prefix_Some
  by (metis rev_append rev_rev_ident)

lemma ends_with_iff [std_simps]: "ends_with pat s \<longleftrightarrow> (\<exists>r. s = r @ pat)"
  unfolding ends_with_def starts_with_iff by (metis rev_append rev_rev_ident)

lemma join_with_length_singleton:
  "xs \<noteq> [] \<Longrightarrow> length (join_with [c] xs) + 1 = sum_list (map length xs) + length xs"
  by (induction "[c]" xs rule: join_with.induct) auto

lemma set_join_with: "set (join_with sep xs) \<subseteq> set sep \<union> (\<Union>x \<in> set xs. set x)"
  by (induction sep xs rule: join_with.induct) auto

lemma set_join_with_in: "x \<in> set xs \<Longrightarrow> b \<in> set x \<Longrightarrow> b \<in> set (join_with sep xs)"
  by (induction sep xs rule: join_with.induct) auto

section \<open>Loops over slices\<close>

text \<open>A \<open>for\<close> loop that updates state is a \<^const>\<open>foldl\<close> of its body; an invariant of the body is an
  invariant of the loop.\<close>

lemma foldl_invariant:
  "P a \<Longrightarrow> (\<And>a x. P a \<Longrightarrow> x \<in> set xs \<Longrightarrow> P (f a x)) \<Longrightarrow> P (foldl f a xs)"
  by (induction xs arbitrary: a) auto

lemma foldl_stable: "(\<And>x. x \<in> set xs \<Longrightarrow> f a x = a) \<Longrightarrow> foldl f a xs = a"
  by (induction xs) auto

section \<open>Hash maps\<close>

text \<open>A Rust \<open>HashMap\<close> or \<open>BTreeMap\<close> is an association list with distinct keys: lookups see a partial
  map, and the code can still iterate over its entries.\<close>

type_synonym ('k, 'v) hashmap = "('k \<times> 'v) list"

definition hm_get :: "('k, 'v) hashmap \<Rightarrow> 'k \<Rightarrow> 'v option" where
  "hm_get m k = map_of m k"

definition hm_insert :: "'k \<Rightarrow> 'v \<Rightarrow> ('k, 'v) hashmap \<Rightarrow> ('k, 'v) hashmap" where
  "hm_insert k v m = AList.update k v m"

definition hm_remove :: "'k \<Rightarrow> ('k, 'v) hashmap \<Rightarrow> ('k, 'v) hashmap" where
  "hm_remove k m = AList.delete k m"

definition hm_wf :: "('k, 'v) hashmap \<Rightarrow> bool" where
  "hm_wf m \<longleftrightarrow> distinct (map fst m)"

lemma hm_get_insert [simp]: "hm_get (hm_insert k v m) k' = (if k' = k then Some v else hm_get m k')"
  by (simp add: hm_get_def hm_insert_def update_conv')

lemma hm_get_remove [simp]: "hm_get (hm_remove k m) k' = (if k' = k then None else hm_get m k')"
  by (simp add: hm_get_def hm_remove_def delete_conv')

lemma hm_get_empty [simp]: "hm_get [] k = None"
  by (simp add: hm_get_def)

lemma hm_wf_simps [simp]: "hm_wf []" "hm_wf m \<Longrightarrow> hm_wf (hm_insert k v m)" "hm_wf m \<Longrightarrow> hm_wf (hm_remove k m)"
  by (simp_all add: hm_wf_def hm_insert_def hm_remove_def distinct_update distinct_delete)

lemma hm_values: "hm_wf m \<Longrightarrow> (\<exists>v \<in> set (map snd m). P v) \<longleftrightarrow> (\<exists>k v. hm_get m k = Some v \<and> P v)"
  by (force simp: hm_wf_def hm_get_def dest: map_of_SomeD)

section \<open>Vectors\<close>

text \<open>\<open>Vec::remove\<close> at an index that is in range.\<close>

definition vec_remove :: "nat \<Rightarrow> 'a list \<Rightarrow> 'a list" where
  "vec_remove i xs = take i xs @ drop (Suc i) xs"

lemma length_vec_remove: "i < length xs \<Longrightarrow> length (vec_remove i xs) = length xs - 1"
  by (simp add: vec_remove_def)

lemma set_vec_remove: "set (vec_remove i xs) \<subseteq> set xs"
  by (auto simp: vec_remove_def dest: in_set_takeD in_set_dropD)

lemma vec_remove_0 [simp]: "vec_remove 0 (x # xs) = xs"
  by (simp add: vec_remove_def)

lemma vec_remove_Suc [simp]: "vec_remove (Suc i) (x # xs) = x # vec_remove i xs"
  by (simp add: vec_remove_def)

section \<open>Numbers in text\<close>

text \<open>The value of a string of ASCII digits, and \<open>str::parse::<i64>\<close>: an optional sign, at least one digit,
  and an error on overflow.\<close>

definition decimal_value :: "string \<Rightarrow> nat" where
  "decimal_value s = foldl (\<lambda>n c. n * 10 + (code c - 48)) 0 s"

definition all_digits :: "string \<Rightarrow> bool" where
  "all_digits s \<longleftrightarrow> (\<forall>c \<in> set s. is_ascii_digit c)"

definition parse_i64 :: "string \<Rightarrow> int option" where
  "parse_i64 s =
     (let (negative, digits) =
        (case s of [] \<Rightarrow> (False, [])
         | c # cs \<Rightarrow> if c = CHR ''-'' then (True, cs) else if c = CHR ''+'' then (False, cs) else (False, s));
        value = (if negative then - int (decimal_value digits) else int (decimal_value digits))
      in if digits = [] \<or> \<not> all_digits digits \<or> value < - (2 ^ 63) \<or> value \<ge> 2 ^ 63 then None else Some value)"

lemma parse_i64_range: "parse_i64 s = Some v \<Longrightarrow> - (2 ^ 63) \<le> v \<and> v < 2 ^ 63"
  by (simp add: parse_i64_def Let_def split: prod.splits if_splits)

text \<open>\<open>i64::saturating_add\<close>.\<close>

definition saturating_add_i64 :: "int \<Rightarrow> int \<Rightarrow> int" where
  "saturating_add_i64 a b = max (- (2 ^ 63)) (min (2 ^ 63 - 1) (a + b))"

end
