(* ===== verification/Utf8.thy ===== *)
theory Utf8
  imports Prelude
begin

text \<open>
  UTF-8 as the Rust standard library implements it: \<open>str::from_utf8\<close> (the well-formedness table of
  the Unicode standard, no overlong forms, no surrogates), \<open>chars()\<close>, \<open>char::len_utf8\<close>, \<open>trim\<close> and
  \<open>char::is_whitespace\<close>. The lemmas give the round trip between scalars and bytes and show that a
  cut at a byte which is not a continuation byte leaves both halves well formed, the fact that
  keeps \<open>&s[i..j]\<close> from panicking.
\<close>

definition is_cont :: "char \<Rightarrow> bool" where
  "is_cont c \<longleftrightarrow> 128 \<le> code c \<and> code c < 192"

definition cont_value :: "char \<Rightarrow> nat" where
  "cont_value c = code c - 128"

fun utf8_next :: "bytes \<Rightarrow> (scalar \<times> bytes) option" where
  "utf8_next [] = None"
| "utf8_next (b0 # r) =
     (let n = code b0 in
      if n < 128 then Some (n, r)
      else if 194 \<le> n \<and> n < 224 then
        (case r of
           b1 # r' \<Rightarrow>
             if is_cont b1 then Some ((n - 192) * 64 + cont_value b1, r') else None
         | [] \<Rightarrow> None)
      else if 224 \<le> n \<and> n < 240 then
        (case r of
           b1 # b2 # r' \<Rightarrow>
             if is_cont b1 \<and> is_cont b2 \<and> (n = 224 \<longrightarrow> 160 \<le> code b1) \<and> (n = 237 \<longrightarrow> code b1 < 160)
             then Some ((n - 224) * 4096 + cont_value b1 * 64 + cont_value b2, r') else None
         | _ \<Rightarrow> None)
      else if 240 \<le> n \<and> n < 245 then
        (case r of
           b1 # b2 # b3 # r' \<Rightarrow>
             if is_cont b1 \<and> is_cont b2 \<and> is_cont b3 \<and> (n = 240 \<longrightarrow> 144 \<le> code b1)
                \<and> (n = 244 \<longrightarrow> code b1 < 144)
             then Some ((n - 240) * 262144 + cont_value b1 * 4096 + cont_value b2 * 64
                        + cont_value b3, r')
             else None
         | _ \<Rightarrow> None)
      else None)"

declare utf8_next.simps(2) [simp del]

lemma utf8_next_split:
  assumes "utf8_next s = Some (c, r)"
  obtains l where "s = l @ r" and "l \<noteq> []" and "\<forall>b \<in> set (tl l). is_cont b" and "\<not> is_cont (hd l)"
    and "\<And>r'. utf8_next (l @ r') = Some (c, r')" and "length l \<le> 4"
proof (cases s)
  case Nil
  with assms show ?thesis by simp
next
  case (Cons b0 t)
  note s = this
  consider (one) "code b0 < 128" | (two) "194 \<le> code b0" "code b0 < 224"
    | (three) "224 \<le> code b0" "code b0 < 240" | (four) "240 \<le> code b0" "code b0 < 245"
    using assms s by (fastforce simp: utf8_next.simps(2) Let_def split: if_splits)
  then show ?thesis
  proof cases
    case one
    with assms s show ?thesis
      by (intro that [of "[b0]"]) (auto simp: utf8_next.simps(2) Let_def is_cont_def)
  next
    case two
    with assms s obtain b1 where "t = b1 # r" "is_cont b1" "c = (code b0 - 192) * 64 + cont_value b1"
      by (auto simp: utf8_next.simps(2) Let_def split: list.splits if_splits)
    with two s show ?thesis
      by (intro that [of "[b0, b1]"]) (auto simp: utf8_next.simps(2) Let_def is_cont_def)
  next
    case three
    with assms s obtain b1 b2 where t: "t = b1 # b2 # r"
      by (auto simp: utf8_next.simps(2) Let_def split: list.splits if_splits)
    with three s assms show ?thesis
      by (intro that [of "[b0, b1, b2]"])
        (auto simp: utf8_next.simps(2) Let_def is_cont_def split: if_splits)
  next
    case four
    with assms s obtain b1 b2 b3 where t: "t = b1 # b2 # b3 # r"
      by (auto simp: utf8_next.simps(2) Let_def split: list.splits if_splits)
    with four s assms show ?thesis
      by (intro that [of "[b0, b1, b2, b3]"])
        (auto simp: utf8_next.simps(2) Let_def is_cont_def split: if_splits)
  qed
qed

lemma utf8_next_length: "utf8_next s = Some (c, r) \<Longrightarrow> length r < length s"
  by (erule utf8_next_split) auto

text \<open>\<open>from_utf8\<close> decodes the whole buffer; \<open>None\<close> is its error.\<close>

function decode_utf8 :: "bytes \<Rightarrow> scalar list option" where
  "decode_utf8 s =
     (if s = [] then Some []
      else case utf8_next s of
             None \<Rightarrow> None
           | Some (c, r) \<Rightarrow> map_option ((#) c) (decode_utf8 r))"
  by pat_completeness auto
termination
  by (relation "measure length") (auto dest: utf8_next_length)

declare decode_utf8.simps [simp del]

definition utf8_valid :: "bytes \<Rightarrow> bool" where
  "utf8_valid s \<longleftrightarrow> decode_utf8 s \<noteq> None"

text \<open>\<open>chars()\<close> of a string whose buffer is well formed.\<close>

definition chars :: "string \<Rightarrow> scalar list" where
  "chars s = (case decode_utf8 s of None \<Rightarrow> [] | Some cs \<Rightarrow> cs)"

definition is_scalar :: "nat \<Rightarrow> bool" where
  "is_scalar c \<longleftrightarrow> c < 55296 \<or> (57344 \<le> c \<and> c < 1114112)"

definition encode_scalar :: "scalar \<Rightarrow> bytes" where
  "encode_scalar c =
     (if c < 128 then [char_of c]
      else if c < 2048 then [char_of (192 + c div 64), char_of (128 + c mod 64)]
      else if c < 65536 then
        [char_of (224 + c div 4096), char_of (128 + c div 64 mod 64), char_of (128 + c mod 64)]
      else [char_of (240 + c div 262144), char_of (128 + c div 4096 mod 64),
            char_of (128 + c div 64 mod 64), char_of (128 + c mod 64)])"

definition encode_utf8 :: "scalar list \<Rightarrow> string" where
  "encode_utf8 cs = concat (map encode_scalar cs)"

lemma decode_utf8_Nil [simp]: "decode_utf8 [] = Some []"
  by (simp add: decode_utf8.simps)

lemma utf8_valid_Nil [simp]: "utf8_valid []"
  by (simp add: utf8_valid_def)

lemma decode_utf8_step:
  "utf8_next s = Some (c, r) \<Longrightarrow> decode_utf8 s = map_option ((#) c) (decode_utf8 r)"
  by (subst decode_utf8.simps) auto

lemma decode_utf8_append:
  "decode_utf8 s = Some cs \<Longrightarrow> decode_utf8 (s @ t) = map_option ((@) cs) (decode_utf8 t)"
proof (induction s arbitrary: cs rule: decode_utf8.induct)
  case (1 s)
  show ?case
  proof (cases "s = []")
    case True
    with "1.prems" show ?thesis by (simp add: option.map_ident)
  next
    case False
    with "1.prems" obtain c r cs' where n: "utf8_next s = Some (c, r)"
      and d: "decode_utf8 r = Some cs'" and cs: "cs = c # cs'"
      by (auto simp: decode_utf8.simps [of s] split: option.splits)
    from n obtain l where l: "s = l @ r" "\<And>r'. utf8_next (l @ r') = Some (c, r')"
      by (elim utf8_next_split) blast
    have "utf8_next (s @ t) = Some (c, r @ t)"
      using l by simp
    then have "decode_utf8 (s @ t) = map_option ((#) c) (decode_utf8 (r @ t))"
      by (rule decode_utf8_step)
    also have "\<dots> = map_option ((@) cs) (decode_utf8 t)"
      using "1.IH" [OF False n refl d] cs by (cases "decode_utf8 t") auto
    finally show ?thesis .
  qed
qed

lemma utf8_valid_append: "utf8_valid s \<Longrightarrow> utf8_valid (s @ t) = utf8_valid t"
  by (auto simp: utf8_valid_def decode_utf8_append)

lemma chars_append: "utf8_valid s \<Longrightarrow> utf8_valid t \<Longrightarrow> chars (s @ t) = chars s @ chars t"
  by (auto simp: utf8_valid_def chars_def decode_utf8_append)

lemma utf8_ascii_Cons:
  "code c < 128 \<Longrightarrow> decode_utf8 (c # s) = map_option ((#) (code c)) (decode_utf8 s)"
  by (rule decode_utf8_step) (simp add: utf8_next.simps(2) Let_def)

lemma utf8_valid_ascii_Cons [simp]: "code c < 128 \<Longrightarrow> utf8_valid (c # s) = utf8_valid s"
  by (simp add: utf8_valid_def utf8_ascii_Cons)

lemma decode_utf8_ascii: "(\<forall>c \<in> set s. code c < 128) \<Longrightarrow> decode_utf8 s = Some (map of_char s)"
  by (induction s) (auto simp: utf8_ascii_Cons)

lemma utf8_valid_ascii: "(\<forall>c \<in> set s. code c < 128) \<Longrightarrow> utf8_valid s"
  by (simp add: utf8_valid_def decode_utf8_ascii)

lemma utf8_valid_hd: "utf8_valid (c # s) \<Longrightarrow> \<not> is_cont c"
  by (auto simp: utf8_valid_def decode_utf8.simps [of "c # s"] utf8_next.simps(2) Let_def is_cont_def
      split: option.splits if_splits)

lemma utf8_valid_cut:
  assumes "utf8_valid s" and "i \<le> length s" and "i = length s \<or> \<not> is_cont (s ! i)"
  shows "utf8_valid (take i s) \<and> utf8_valid (drop i s)"
  using assms
proof (induction s arbitrary: i rule: decode_utf8.induct)
  case (1 s)
  show ?case
  proof (cases "i = 0 \<or> s = []")
    case True
    with "1.prems" show ?thesis by auto
  next
    case False
    with "1.prems"(1) obtain c r cs' where n: "utf8_next s = Some (c, r)"
      and d: "decode_utf8 r = Some cs'"
      by (auto simp: utf8_valid_def decode_utf8.simps [of s] split: option.splits)
    from n obtain l where l: "s = l @ r" "l \<noteq> []" "\<forall>b \<in> set (tl l). is_cont b"
      "\<And>r'. utf8_next (l @ r') = Some (c, r')"
      by (elim utf8_next_split) blast
    have vl: "utf8_valid (l @ t) = utf8_valid t" for t
      using decode_utf8_step [OF l(4)] by (simp add: utf8_valid_def)
    have le: "length l \<le> i"
    proof (rule ccontr)
      assume "\<not> length l \<le> i"
      then have "s ! i = tl l ! (i - 1)" "i - 1 < length (tl l)" "i < length s"
        using False l by (auto simp: nth_append nth_tl)
      with l(3) "1.prems"(3) show False
        by (metis nth_mem nat_neq_iff)
    qed
    from "1.prems"(2,3) le l(1) have "i - length l \<le> length r"
      "i - length l = length r \<or> \<not> is_cont (r ! (i - length l))"
      by (auto simp: nth_append)
    moreover have "utf8_valid r"
      using d by (simp add: utf8_valid_def)
    ultimately have "utf8_valid (take (i - length l) r) \<and> utf8_valid (drop (i - length l) r)"
      using "1.IH" False n by blast
    with le l(1) vl show ?thesis by simp
  qed
qed

lemma base64_digits:
  fixes c :: nat
  shows "c div 4096 * 4096 + c div 64 mod 64 * 64 + c mod 64 = c"
    and "c div 262144 * 262144 + c div 4096 mod 64 * 4096 + c div 64 mod 64 * 64 + c mod 64 = c"
proof -
  have q: "c div 4096 = c div 64 div 64" "c div 262144 = c div 64 div 64 div 64"
    by (simp_all add: div_mult2_eq [symmetric])
  have "c div 64 * 64 + c mod 64 = c" "c div 64 div 64 * 64 + c div 64 mod 64 = c div 64"
    "c div 64 div 64 div 64 * 64 + c div 64 div 64 mod 64 = c div 64 div 64"
    by (simp_all only: div_mult_mod_eq)
  then show "c div 4096 * 4096 + c div 64 mod 64 * 64 + c mod 64 = c"
    and "c div 262144 * 262144 + c div 4096 mod 64 * 4096 + c div 64 mod 64 * 64 + c mod 64 = c"
    unfolding q by linarith+
qed

lemma utf8_next_encode [simp]:
  assumes "is_scalar c"
  shows "utf8_next (encode_scalar c @ r) = Some (c, r)"
proof -
  consider "c < 128" | "128 \<le> c" "c < 2048" | "2048 \<le> c" "c < 65536" | "65536 \<le> c" "c < 1114112"
    using assms by (force simp: is_scalar_def)
  then show ?thesis
  proof cases
    case 1
    then show ?thesis by (simp add: encode_scalar_def utf8_next.simps(2))
  next
    case 2
    then have "2 \<le> c div 64" "c div 64 < 32" by auto
    with 2 show ?thesis
      by (simp add: encode_scalar_def utf8_next.simps(2) Let_def is_cont_def cont_value_def)
  next
    case 3
    define h m l where "h = c div 4096" and "m = c div 64 mod 64" and "l = c mod 64"
    have e: "h * 4096 + m * 64 + l = c"
      using base64_digits(1) [of c] by (simp add: h_def m_def l_def)
    have b: "h < 16" "m < 64" "l < 64"
      using 3 by (auto simp: h_def m_def l_def)
    with e 3 assms have "h = 0 \<Longrightarrow> 32 \<le> m" "h = 13 \<Longrightarrow> m < 32"
      by (auto simp: is_scalar_def)
    with 3 b e show ?thesis
      by (simp add: encode_scalar_def utf8_next.simps(2) Let_def is_cont_def cont_value_def
          h_def [symmetric] m_def [symmetric] l_def [symmetric])
  next
    case 4
    define g h m l where "g = c div 262144" and "h = c div 4096 mod 64"
      and "m = c div 64 mod 64" and "l = c mod 64"
    have e: "g * 262144 + h * 4096 + m * 64 + l = c"
      using base64_digits(2) [of c] by (simp add: g_def h_def m_def l_def)
    have b: "g < 5" "h < 64" "m < 64" "l < 64"
      using 4 by (auto simp: g_def h_def m_def l_def)
    with e 4 have "g = 0 \<Longrightarrow> 16 \<le> h" "g = 4 \<Longrightarrow> h < 16"
      by auto
    with 4 b e show ?thesis
      by (simp add: encode_scalar_def utf8_next.simps(2) Let_def is_cont_def cont_value_def
          g_def [symmetric] h_def [symmetric] m_def [symmetric] l_def [symmetric])
  qed
qed

lemma encode_utf8_append: "encode_utf8 (cs @ ds) = encode_utf8 cs @ encode_utf8 ds"
  by (simp add: encode_utf8_def)

lemma decode_encode_utf8: "(\<forall>c \<in> set cs. is_scalar c) \<Longrightarrow> decode_utf8 (encode_utf8 cs) = Some cs"
  by (induction cs) (auto simp: encode_utf8_def decode_utf8_step [OF utf8_next_encode])

lemma cont_code: "is_cont b \<Longrightarrow> code b = 128 + cont_value b \<and> cont_value b < 64"
  by (auto simp: is_cont_def cont_value_def)

lemma char_of_cont: "is_cont b \<Longrightarrow> char_of (128 + cont_value b) = b"
  using cont_code [of b] by (metis char_of_char)

lemma digit_div_mod:
  "(l::nat) < 64 \<Longrightarrow> (h * 64 + l) div 64 = h" "l < 64 \<Longrightarrow> (h * 64 + l) mod 64 = l"
  by simp_all

text \<open>Decoding reads only the shortest form, so encoding the scalar again gives the bytes read.\<close>

lemma utf8_next_shortest:
  assumes "utf8_next s = Some (c, r)"
  shows "s = encode_scalar c @ r \<and> is_scalar c"
proof (cases s)
  case Nil
  with assms show ?thesis by simp
next
  case (Cons b0 t)
  note s = this
  consider (one) "code b0 < 128" | (two) "194 \<le> code b0" "code b0 < 224"
    | (three) "224 \<le> code b0" "code b0 < 240" | (four) "240 \<le> code b0" "code b0 < 245"
    using assms s by (fastforce simp: utf8_next.simps(2) Let_def split: if_splits)
  then show ?thesis
  proof cases
    case one
    with assms s show ?thesis
      by (auto simp: utf8_next.simps(2) Let_def encode_scalar_def is_scalar_def)
  next
    case two
    with assms s obtain b1 where t: "t = b1 # r" "is_cont b1"
      and c: "c = (code b0 - 192) * 64 + cont_value b1"
      by (auto simp: utf8_next.simps(2) Let_def split: list.splits if_splits)
    define n where "n = code b0 - 192"
    have n: "code b0 = 192 + n" "2 \<le> n" "n < 32" using two by (auto simp: n_def)
    then have b0: "char_of (192 + n) = b0" by (metis char_of_char)
    show ?thesis
      using s t c n two cont_code [OF t(2)] b0 char_of_cont [OF t(2)]
      by (simp add: encode_scalar_def is_scalar_def digit_div_mod)
  next
    case three
    with assms s obtain b1 b2 where t: "t = b1 # b2 # r" "is_cont b1" "is_cont b2"
      and lim: "code b0 = 224 \<longrightarrow> 160 \<le> code b1" "code b0 = 237 \<longrightarrow> code b1 < 160"
      and c: "c = (code b0 - 224) * 4096 + cont_value b1 * 64 + cont_value b2"
      by (auto simp: utf8_next.simps(2) Let_def split: list.splits if_splits)
    define n where "n = code b0 - 224"
    have n: "code b0 = 224 + n" "n < 16" using three by (auto simp: n_def)
    then have b0: "char_of (224 + n) = b0" by (metis char_of_char)
    note v = cont_code [OF t(2)] cont_code [OF t(3)]
    have c': "c = (n * 64 + cont_value b1) * 64 + cont_value b2" using c n by simp
    have d: "c mod 64 = cont_value b2" "c div 64 mod 64 = cont_value b1" "c div 4096 = n"
    proof -
      show "c mod 64 = cont_value b2" using c' v by (simp only: digit_div_mod)
      have q: "c div 64 = n * 64 + cont_value b1" using c' v by (simp only: digit_div_mod)
      then show "c div 64 mod 64 = cont_value b1" using v by (simp only: digit_div_mod)
      have "c div 4096 = c div 64 div 64" by (simp add: div_mult2_eq [symmetric])
      then show "c div 4096 = n" using q v by (simp only: digit_div_mod)
    qed
    have e: "n = 0 \<Longrightarrow> 32 \<le> cont_value b1" "n = 13 \<Longrightarrow> cont_value b1 < 32"
      using lim n v by auto
    have "2048 \<le> c" "c < 65536"
      using c' n v e(1) by (cases "n = 0"; auto)+
    moreover have "is_scalar c"
    proof -
      have "c < 55296 \<or> 57344 \<le> c"
        using c' n v e(2) by (cases "n \<le> 12"; cases "n = 13"; simp)
      moreover have "c < 65536" using c' n v by simp
      ultimately show ?thesis by (auto simp: is_scalar_def)
    qed
    ultimately show ?thesis
      using s t d b0 char_of_cont [OF t(2)] char_of_cont [OF t(3)] by (simp add: encode_scalar_def)
  next
    case four
    with assms s obtain b1 b2 b3 where t: "t = b1 # b2 # b3 # r" "is_cont b1" "is_cont b2" "is_cont b3"
      and lim: "code b0 = 240 \<longrightarrow> 144 \<le> code b1" "code b0 = 244 \<longrightarrow> code b1 < 144"
      and c: "c = (code b0 - 240) * 262144 + cont_value b1 * 4096 + cont_value b2 * 64 + cont_value b3"
      by (auto simp: utf8_next.simps(2) Let_def split: list.splits if_splits)
    define n where "n = code b0 - 240"
    have n: "code b0 = 240 + n" "n < 5" using four by (auto simp: n_def)
    then have b0: "char_of (240 + n) = b0" by (metis char_of_char)
    note v = cont_code [OF t(2)] cont_code [OF t(3)] cont_code [OF t(4)]
    have c': "c = ((n * 64 + cont_value b1) * 64 + cont_value b2) * 64 + cont_value b3"
      using c n by simp
    have d: "c mod 64 = cont_value b3" "c div 64 mod 64 = cont_value b2"
      "c div 4096 mod 64 = cont_value b1" "c div 262144 = n"
    proof -
      show "c mod 64 = cont_value b3" using c' v by (simp only: digit_div_mod)
      have q: "c div 64 = (n * 64 + cont_value b1) * 64 + cont_value b2"
        using c' v by (simp only: digit_div_mod)
      then show "c div 64 mod 64 = cont_value b2" using v by (simp only: digit_div_mod)
      have "c div 4096 = c div 64 div 64" by (simp add: div_mult2_eq [symmetric])
      then have q2: "c div 4096 = n * 64 + cont_value b1" using q v by (simp only: digit_div_mod)
      then show "c div 4096 mod 64 = cont_value b1" using v by (simp only: digit_div_mod)
      have "c div 262144 = c div 4096 div 64" by (simp add: div_mult2_eq [symmetric])
      then show "c div 262144 = n" using q2 v by (simp only: digit_div_mod)
    qed
    have "65536 \<le> c" "c < 1114112" "is_scalar c"
      using c' n v lim by (auto simp: is_scalar_def)
    then show ?thesis
      using s t d b0 char_of_cont [OF t(2)] char_of_cont [OF t(3)] char_of_cont [OF t(4)]
      by (simp add: encode_scalar_def)
  qed
qed

lemma decode_utf8_shortest:
  "decode_utf8 s = Some cs \<Longrightarrow> s = encode_utf8 cs \<and> (\<forall>c \<in> set cs. is_scalar c)"
proof (induction s arbitrary: cs rule: decode_utf8.induct)
  case (1 s)
  show ?case
  proof (cases "s = []")
    case True
    with "1.prems" show ?thesis by (auto simp: encode_utf8_def)
  next
    case False
    with "1.prems" obtain c r cs' where n: "utf8_next s = Some (c, r)"
      and d: "decode_utf8 r = Some cs'" and cs: "cs = c # cs'"
      by (auto simp: decode_utf8.simps [of s] split: option.splits)
    from "1.IH" [OF False n refl d] utf8_next_shortest [OF n] cs show ?thesis
      by (auto simp: encode_utf8_def)
  qed
qed

lemma utf8_valid_obtain:
  assumes "utf8_valid s"
  obtains cs where "s = encode_utf8 cs" and "\<forall>c \<in> set cs. is_scalar c" and "chars s = cs"
  using assms decode_utf8_shortest [of s] by (auto simp: utf8_valid_def chars_def)

lemma encode_chars: "utf8_valid s \<Longrightarrow> encode_utf8 (chars s) = s"
  by (erule utf8_valid_obtain) simp

lemma utf8_valid_encode: "(\<forall>c \<in> set cs. is_scalar c) \<Longrightarrow> utf8_valid (encode_utf8 cs)"
  by (simp add: utf8_valid_def decode_encode_utf8)

lemma chars_encode [simp]: "(\<forall>c \<in> set cs. is_scalar c) \<Longrightarrow> chars (encode_utf8 cs) = cs"
  by (simp add: chars_def decode_encode_utf8)

lemma chars_scalars: "c \<in> set (chars s) \<Longrightarrow> is_scalar c"
  by (auto simp: chars_def dest!: sym [of "Some _"] decode_utf8_shortest split: option.splits)

lemma chars_ascii: "(\<forall>c \<in> set s. code c < 128) \<Longrightarrow> chars s = map of_char s"
  by (simp add: chars_def decode_utf8_ascii)

lemma encode_scalar_ascii:
  assumes "b \<in> set (encode_scalar c)" "code b < 128" "is_scalar c"
  shows "code b = c"
proof (cases "c < 128")
  case True
  then show ?thesis using assms(1) by (simp add: encode_scalar_def)
next
  case False
  then have "\<forall>b \<in> set (encode_scalar c). 128 \<le> code b"
    using assms(3) by (auto simp: encode_scalar_def is_scalar_def of_char_of mod_less)
  then show ?thesis using assms(1,2) by force
qed

lemma ascii_in_chars:
  assumes "utf8_valid s" "b \<in> set s" "code b < 128"
  shows "code b \<in> set (chars s)"
proof -
  obtain c where "c \<in> set (chars s)" "b \<in> set (encode_scalar c)"
  proof -
    have "b \<in> set (encode_utf8 (chars s))" using assms(2) encode_chars [OF assms(1)] by simp
    then show thesis using that by (auto simp: encode_utf8_def)
  qed
  then show ?thesis using encode_scalar_ascii assms(3) chars_scalars by metis
qed

section \<open>White space and trimming\<close>

definition is_whitespace :: "scalar \<Rightarrow> bool" where
  "is_whitespace c \<longleftrightarrow> (9 \<le> c \<and> c \<le> 13) \<or> c = 32 \<or> c = 133 \<or> c = 160 \<or> c = 5760
     \<or> (8192 \<le> c \<and> c \<le> 8202) \<or> c = 8232 \<or> c = 8233 \<or> c = 8239 \<or> c = 8287 \<or> c = 12288"

definition trim :: "string \<Rightarrow> string" where
  "trim s = encode_utf8 (rev (dropWhile is_whitespace (rev (dropWhile is_whitespace (chars s)))))"

lemma trim_valid: "utf8_valid (trim s)"
  unfolding trim_def
  by (rule utf8_valid_encode) (auto dest!: set_dropWhileD chars_scalars)

lemma chars_trim:
  "chars (trim s) = rev (dropWhile is_whitespace (rev (dropWhile is_whitespace (chars s))))"
  unfolding trim_def
  by (rule chars_encode) (auto dest!: set_dropWhileD chars_scalars)

lemma trim_id:
  assumes "utf8_valid s" "chars s = [] \<or> (\<not> is_whitespace (hd (chars s)) \<and> \<not> is_whitespace (last (chars s)))"
  shows "trim s = s"
proof -
  have "dropWhile is_whitespace (chars s) = chars s"
    using assms(2) by (cases "chars s") auto
  moreover have "dropWhile is_whitespace (rev (chars s)) = rev (chars s)"
    using assms(2) by (cases "chars s" rule: rev_cases) auto
  ultimately show ?thesis using encode_chars [OF assms(1)] by (simp add: trim_def)
qed

end
