(* ===== verification/Message.thy ===== *)
theory Message
  imports Utf8
begin

text \<open>
  The vocabulary of a parsed line: \<^verbatim>\<open>client/src/irc/message.rs\<close> (frame limits, the error taxonomy,
  tags, prefixes, messages and their accessors), \<^verbatim>\<open>wiretext.rs\<close> (decoding wire bytes for display)
  and \<^verbatim>\<open>prefixnick.rs\<close> (the nick a message came from). Fields that are \<open>Vec<u8>\<close> in the source and
  fields that are \<open>String\<close> are both \<^typ>\<open>string\<close>; the latter are proved well-formed UTF-8 where the
  code builds them.
\<close>

section \<open>Limits and errors\<close>

definition MAX_CLASSIC_FRAME_BYTES :: nat where
  "MAX_CLASSIC_FRAME_BYTES = 512"

definition MAX_INBOUND_CLASSIC_FRAME_BYTES :: nat where
  "MAX_INBOUND_CLASSIC_FRAME_BYTES = 4096"

definition MAX_TAG_SECTION_BYTES :: nat where
  "MAX_TAG_SECTION_BYTES = 8191"

definition MAX_PARAMETERS :: nat where
  "MAX_PARAMETERS = 15"

lemmas limit_defs = MAX_CLASSIC_FRAME_BYTES_def MAX_INBOUND_CLASSIC_FRAME_BYTES_def
  MAX_TAG_SECTION_BYTES_def MAX_PARAMETERS_def

datatype IrcError = EmptyInput | InvalidCharacter | InvalidTags | InvalidPrefix | InvalidCommand
  | TooManyBytes | InvalidField

fun error_name :: "IrcError \<Rightarrow> string" where
  "error_name EmptyInput = ''empty input''"
| "error_name InvalidCharacter = ''invalid character''"
| "error_name InvalidTags = ''invalid tags''"
| "error_name InvalidPrefix = ''invalid prefix''"
| "error_name InvalidCommand = ''invalid command''"
| "error_name TooManyBytes = ''too many bytes''"
| "error_name InvalidField = ''invalid field''"

section \<open>Parsed lines\<close>

record IrcTag =
  tag_name :: string
  tag_value :: "bytes option"

record IrcPrefix =
  pfx_raw :: bytes
  pfx_nick :: bytes
  pfx_user :: bytes
  pfx_host :: bytes

definition is_user :: "IrcPrefix \<Rightarrow> bool" where
  "is_user p \<longleftrightarrow> pfx_nick p \<noteq> [] \<and> pfx_user p \<noteq> []"

record IrcMessage =
  msg_tags :: "IrcTag list"
  msg_prefix :: "IrcPrefix option"
  msg_command :: string
  msg_params :: "bytes list"

definition default_message :: IrcMessage where
  "default_message = \<lparr>msg_tags = [], msg_prefix = None, msg_command = [], msg_params = []\<rparr>"

section \<open>Wire text\<close>

definition wire_text :: "bytes \<Rightarrow> string" where
  "wire_text raw = (if utf8_valid raw then raw else concat (map (\<lambda>b. encode_scalar (code b)) raw))"

definition contains_dot :: "string \<Rightarrow> bool" where
  "contains_dot text \<longleftrightarrow> CHR ''.'' \<in> set text"

section \<open>Accessors\<close>

definition param :: "IrcMessage \<Rightarrow> nat \<Rightarrow> bytes option" where
  "param m index = (if index < length (msg_params m) then Some (msg_params m ! index) else None)"

definition text_param :: "IrcMessage \<Rightarrow> nat \<Rightarrow> string" where
  "text_param m index = (case param m index of None \<Rightarrow> [] | Some raw \<Rightarrow> wire_text raw)"

definition param_index :: "IrcMessage \<Rightarrow> string \<Rightarrow> nat option" where
  "param_index m value =
     position (\<lambda>index. eq_ignore_ascii_case (text_param m index) value) [0..<length (msg_params m)]"

definition tag_text :: "IrcMessage \<Rightarrow> string \<Rightarrow> string option" where
  "tag_text m name =
     map_option wire_text
       (case List.map_filter tag_value (filter (\<lambda>tag. tag_name tag = name) (msg_tags m)) of
          [] \<Rightarrow> None
        | v # _ \<Rightarrow> Some v)"

definition has_tag :: "IrcMessage \<Rightarrow> string \<Rightarrow> bool" where
  "has_tag m name \<longleftrightarrow> (\<exists>tag \<in> set (msg_tags m). tag_name tag = name)"

definition msgid :: "IrcMessage \<Rightarrow> string" where
  "msgid m = (case tag_text m ''msgid'' of None \<Rightarrow> [] | Some v \<Rightarrow> v)"

text \<open>\<^verbatim>\<open>prefixnick.rs\<close>.\<close>

definition prefix_nick :: "IrcMessage \<Rightarrow> string" where
  "prefix_nick m =
     (case msg_prefix m of
        None \<Rightarrow> []
      | Some p \<Rightarrow>
          if pfx_nick p \<noteq> [] then wire_text (pfx_nick p)
          else let raw = wire_text (pfx_raw p) in
               if contains_dot raw then [] else raw)"

section \<open>Facts\<close>

lemma latin1_is_scalar [simp]: "is_scalar (code b)"
  unfolding is_scalar_def using code_less_256 [of b] by linarith

lemma latin1_encode: "concat (map (\<lambda>b. encode_scalar (code b)) raw) = encode_utf8 (map of_char raw)"
  by (simp add: encode_utf8_def comp_def)

lemma wire_text_decoded:
  "decode_utf8 (wire_text raw) = (case decode_utf8 raw of Some cs \<Rightarrow> Some cs | None \<Rightarrow> Some (map of_char raw))"
  by (auto simp: wire_text_def utf8_valid_def latin1_encode decode_encode_utf8 split: option.splits)

lemma wire_text_valid [simp]: "utf8_valid (wire_text raw)"
  by (simp add: utf8_valid_def wire_text_decoded split: option.splits)

lemma wire_text_id: "utf8_valid raw \<Longrightarrow> wire_text raw = raw"
  by (simp add: wire_text_def)

lemma text_param_valid [simp]: "utf8_valid (text_param m i)"
  by (simp add: text_param_def split: option.splits)

lemma prefix_nick_valid [simp]: "utf8_valid (prefix_nick m)"
  by (simp add: prefix_nick_def Let_def split: option.splits)

end
