(* ===== verification/Parser.thy ===== *)
theory Parser
  imports Message
begin

text \<open>
  \<^verbatim>\<open>client/src/irc/parser.rs\<close>: \<open>parse\<close> turns one line, without its CRLF, into an \<^typ>\<open>IrcMessage\<close>;
  \<open>serialize\<close> writes a message back. The source walks the line with a byte index \<open>position\<close>; the model
  carries the slice \<open>line[position..]\<close> instead. The lemmas show that every line \<open>parse\<close> accepts gives
  a canonical message, that a canonical message always serializes, and that parsing what was
  serialized gives the message back.
\<close>

abbreviation SP :: char where "SP \<equiv> CHR '' ''"
abbreviation CR :: char where "CR \<equiv> CHR 0x0D"
abbreviation LF :: char where "LF \<equiv> CHR 0x0A"
abbreviation NUL :: char where "NUL \<equiv> CHR 0x00"
abbreviation BSL :: char where "BSL \<equiv> CHR 0x5C"

section \<open>Definitions\<close>

definition contains_forbidden :: "bytes \<Rightarrow> bool" where
  "contains_forbidden bs \<longleftrightarrow> (\<exists>b \<in> set bs. b = CR \<or> b = LF \<or> b = NUL)"

definition is_valid_command :: "bytes \<Rightarrow> bool" where
  "is_valid_command command \<longleftrightarrow>
     (length command = 3 \<and> (\<forall>b \<in> set command. is_ascii_digit b))
     \<or> (command \<noteq> [] \<and> (\<forall>b \<in> set command. is_ascii_alphabetic b))"

fun skip_spaces :: "bytes \<Rightarrow> bytes" where
  "skip_spaces [] = []"
| "skip_spaces (b # rest) = (if b = SP then skip_spaces rest else b # rest)"

definition unescape_byte :: "char \<Rightarrow> char" where
  "unescape_byte e =
     (if e = CHR '':'' then CHR '';''
      else if e = CHR ''s'' then SP
      else if e = BSL then BSL
      else if e = CHR ''r'' then CR
      else if e = CHR ''n'' then LF
      else e)"

fun unescape_tag_value :: "bytes \<Rightarrow> bytes" where
  "unescape_tag_value [] = []"
| "unescape_tag_value [b] = (if b = BSL then [] else [b])"
| "unescape_tag_value (b # e # rest) =
     (if b = BSL then unescape_byte e # unescape_tag_value rest
      else b # unescape_tag_value (e # rest))"

definition escape_byte :: "char \<Rightarrow> bytes" where
  "escape_byte b =
     (if b = CHR '';'' then [BSL, CHR '':'']
      else if b = SP then [BSL, CHR ''s'']
      else if b = BSL then [BSL, BSL]
      else if b = CR then [BSL, CHR ''r'']
      else if b = LF then [BSL, CHR ''n'']
      else [b])"

definition escape_tag_value :: "bytes \<Rightarrow> bytes" where
  "escape_tag_value v = concat (map escape_byte v)"

definition is_valid_tag_key :: "bytes \<Rightarrow> bool" where
  "is_valid_tag_key key \<longleftrightarrow>
     key \<noteq> [] \<and> (\<forall>b \<in> set key. is_ascii_alphanumeric b \<or> b = CHR ''-'')"

definition is_valid_tag_vendor :: "bytes \<Rightarrow> bool" where
  "is_valid_tag_vendor vendor \<longleftrightarrow>
     vendor \<noteq> [] \<and> (\<forall>b \<in> set vendor. is_ascii_alphanumeric b \<or> b = CHR ''-'' \<or> b = CHR ''.'')"

definition is_valid_tag_name :: "bytes \<Rightarrow> bool" where
  "is_valid_tag_name full =
     (let name = (case strip_prefix ''+'' full of Some n \<Rightarrow> n | None \<Rightarrow> full) in
      name \<noteq> [] \<and>
      (case split_once (CHR ''/'') name of
         None \<Rightarrow> is_valid_tag_key name
       | Some (vendor, key) \<Rightarrow>
           CHR ''/'' \<notin> set key \<and> is_valid_tag_key key \<and> is_valid_tag_vendor vendor))"

definition parse_tag :: "bytes \<Rightarrow> IrcTag option" where
  "parse_tag tag =
     (let (name, value) =
        (case split_once (CHR ''='') tag of
           Some (n, v) \<Rightarrow> (n, Some (unescape_tag_value v))
         | None \<Rightarrow> (tag, None))
      in if is_valid_tag_name name \<and> utf8_valid name
         then Some \<lparr>tag_name = name, tag_value = value\<rparr> else None)"

definition parse_tags :: "bytes \<Rightarrow> IrcTag list option" where
  "parse_tags section = those (map parse_tag (split_by (\<lambda>b. b = CHR '';'') section))"

definition parse_nick_part :: "bool \<Rightarrow> bytes \<Rightarrow> (bytes \<times> bytes) option" where
  "parse_nick_part has_at nick_part =
     (case split_once (CHR ''!'') nick_part of
        Some (n, u) \<Rightarrow> if n = [] \<or> u = [] \<or> CHR ''!'' \<in> set u then None else Some (n, u)
      | None \<Rightarrow> Some (if has_at then nick_part else [], []))"

definition parse_prefix :: "bytes \<Rightarrow> IrcPrefix option" where
  "parse_prefix raw =
     (if raw = [] \<or> contains_forbidden raw then None
      else case split_once (CHR ''@'') raw of
        Some (nick_part, host) \<Rightarrow>
          if nick_part = [] \<or> host = [] \<or> CHR ''@'' \<in> set host then None
          else map_option (\<lambda>(n, u). \<lparr>pfx_raw = raw, pfx_nick = n, pfx_user = u, pfx_host = host\<rparr>)
                 (parse_nick_part True nick_part)
      | None \<Rightarrow>
          map_option (\<lambda>(n, u). \<lparr>pfx_raw = raw, pfx_nick = n, pfx_user = u, pfx_host = []\<rparr>)
            (parse_nick_part False raw))"

lemma length_skip_spaces: "length (skip_spaces bs) \<le> length bs"
  by (induction bs) auto

function parse_parameters_from :: "bytes list \<Rightarrow> bytes \<Rightarrow> bytes list" where
  "parse_parameters_from parameters input =
     (let rest = skip_spaces input in
      if rest = [] then parameters
      else if length parameters = MAX_PARAMETERS - 1 then
        parameters @ [if hd rest = CHR '':'' then tl rest else rest]
      else if hd rest = CHR '':'' then parameters @ [tl rest]
      else case split_once SP rest of
             None \<Rightarrow> parameters @ [rest]
           | Some (p, rest') \<Rightarrow> parse_parameters_from (parameters @ [p]) rest')"
  by pat_completeness auto
termination
proof (relation "measure (\<lambda>(ps, input). length input)", goal_cases)
  case (2 parameters input rest x p rest')
  have "length (skip_spaces input) = length p + Suc (length rest')"
    using 2 by (auto simp: split_once_Some dest: sym)
  with length_skip_spaces [of input] show ?case by simp
qed simp

declare parse_parameters_from.simps [simp del]

definition parse_parameters :: "bytes \<Rightarrow> bytes list" where
  "parse_parameters input = parse_parameters_from [] input"

definition parse_tag_section :: "bytes \<Rightarrow> IrcError + (IrcTag list \<times> bytes)" where
  "parse_tag_section line =
     (if hd line = CHR ''@'' then
        (case split_once SP (tl line) of
           None \<Rightarrow> Inl InvalidTags
         | Some (section, rest) \<Rightarrow>
             if section = [] \<or> length section > MAX_TAG_SECTION_BYTES then Inl InvalidTags
             else (case parse_tags section of
                     None \<Rightarrow> Inl InvalidTags
                   | Some tags \<Rightarrow> Inr (tags, skip_spaces rest)))
      else Inr ([], line))"

definition parse_source :: "bytes \<Rightarrow> IrcError + (IrcPrefix option \<times> bytes)" where
  "parse_source rest =
     (case rest of
        [] \<Rightarrow> Inr (None, rest)
      | b # tail \<Rightarrow>
          if b = CHR '':'' then
            (case split_once SP tail of
               None \<Rightarrow> Inl InvalidPrefix
             | Some (raw, rest') \<Rightarrow>
                 if raw = [] then Inl InvalidPrefix
                 else (case parse_prefix raw of
                         None \<Rightarrow> Inl InvalidPrefix
                       | Some p \<Rightarrow> Inr (Some p, skip_spaces rest')))
          else Inr (None, rest))"

definition parse_command :: "bytes \<Rightarrow> IrcError + (string \<times> bytes list)" where
  "parse_command rest =
     (if rest = [] then Inl InvalidCommand
      else
        let (command, tail) = (case split_once SP rest of
              None \<Rightarrow> (rest, None) | Some (c, t) \<Rightarrow> (c, Some t))
        in if \<not> is_valid_command command \<or> \<not> utf8_valid (to_ascii_uppercase command)
           then Inl InvalidCommand
           else Inr (to_ascii_uppercase command,
                     case tail of None \<Rightarrow> [] | Some t \<Rightarrow> parse_parameters t))"

definition parse :: "bytes \<Rightarrow> IrcError + IrcMessage" where
  "parse line =
     (if line = [] then Inl EmptyInput
      else if contains_forbidden line then Inl InvalidCharacter
      else case parse_tag_section line of
        Inl e \<Rightarrow> Inl e
      | Inr (tags, rest) \<Rightarrow>
          (case parse_source rest of
             Inl e \<Rightarrow> Inl e
           | Inr (source, rest') \<Rightarrow>
               (case parse_command rest' of
                  Inl e \<Rightarrow> Inl e
                | Inr (command, parameters) \<Rightarrow>
                    Inr \<lparr>msg_tags = tags, msg_prefix = source, msg_command = command,
                         msg_params = parameters\<rparr>)))"

text \<open>\<open>serialize\<close>, block by block in the order of the source.\<close>

definition tag_bytes :: "IrcTag \<Rightarrow> bytes" where
  "tag_bytes tag = tag_name tag @
     (case tag_value tag of None \<Rightarrow> [] | Some v \<Rightarrow> CHR ''='' # escape_tag_value v)"

definition tag_section_bytes :: "IrcTag list \<Rightarrow> bytes" where
  "tag_section_bytes tags = join_with '';'' (map tag_bytes tags)"

definition serialize_tags :: "IrcTag list \<Rightarrow> IrcError + bytes" where
  "serialize_tags tags =
     (if tags = [] then Inr []
      else if \<exists>tag \<in> set tags. \<not> is_valid_tag_name (tag_name tag) then Inl InvalidTags
      else let section = tag_section_bytes tags in
           if length section > MAX_TAG_SECTION_BYTES then Inl InvalidTags
           else Inr (CHR ''@'' # section @ [SP]))"

definition serialize_source :: "IrcPrefix option \<Rightarrow> IrcError + bytes" where
  "serialize_source source =
     (case source of
        None \<Rightarrow> Inr []
      | Some p \<Rightarrow>
          if SP \<in> set (pfx_raw p) \<or> parse_prefix (pfx_raw p) = None then Inl InvalidPrefix
          else Inr (CHR '':'' # pfx_raw p @ [SP]))"

definition needs_colon :: "bytes \<Rightarrow> bool" where
  "needs_colon p \<longleftrightarrow> p = [] \<or> hd p = CHR '':'' \<or> SP \<in> set p"

fun serialize_params :: "bytes list \<Rightarrow> IrcError + bytes" where
  "serialize_params [] = Inr []"
| "serialize_params [p] = Inr (SP # (if needs_colon p then CHR '':'' # p else p))"
| "serialize_params (p # q # ps) =
     (if needs_colon p then Inl InvalidField
      else case serialize_params (q # ps) of Inl e \<Rightarrow> Inl e | Inr r \<Rightarrow> Inr (SP # p @ r))"

definition serialize :: "IrcMessage \<Rightarrow> IrcError + bytes" where
  "serialize m =
     (if length (msg_params m) > MAX_PARAMETERS then Inl InvalidField
      else case serialize_tags (msg_tags m) of
        Inl e \<Rightarrow> Inl e
      | Inr t \<Rightarrow>
          (case serialize_source (msg_prefix m) of
             Inl e \<Rightarrow> Inl e
           | Inr s \<Rightarrow>
               if \<not> is_valid_command (msg_command m) then Inl InvalidCommand
               else (case serialize_params (msg_params m) of
                       Inl e \<Rightarrow> Inl e
                     | Inr ps \<Rightarrow>
                         let line = t @ s @ msg_command m @ ps in
                         if contains_forbidden line then Inl InvalidCharacter else Inr line)))"

section \<open>Canonical messages\<close>

text \<open>What a parsed message always satisfies, and what makes a message writable.\<close>

fun params_ok :: "bytes list \<Rightarrow> bool" where
  "params_ok [] \<longleftrightarrow> True"
| "params_ok [p] \<longleftrightarrow> True"
| "params_ok (p # q # ps) \<longleftrightarrow> \<not> needs_colon p \<and> params_ok (q # ps)"

definition tag_ok :: "IrcTag \<Rightarrow> bool" where
  "tag_ok t \<longleftrightarrow> is_valid_tag_name (tag_name t) \<and> (\<forall>v. tag_value t = Some v \<longrightarrow> NUL \<notin> set v)"

definition source_ok :: "IrcPrefix option \<Rightarrow> bool" where
  "source_ok source \<longleftrightarrow> (\<forall>p. source = Some p \<longrightarrow> SP \<notin> set (pfx_raw p) \<and> parse_prefix (pfx_raw p) = Some p)"

definition canonical :: "IrcMessage \<Rightarrow> bool" where
  "canonical m \<longleftrightarrow>
     (\<forall>t \<in> set (msg_tags m). tag_ok t) \<and>
     length (tag_section_bytes (msg_tags m)) \<le> MAX_TAG_SECTION_BYTES \<and>
     source_ok (msg_prefix m) \<and>
     is_valid_command (msg_command m) \<and> to_ascii_uppercase (msg_command m) = msg_command m \<and>
     length (msg_params m) \<le> MAX_PARAMETERS \<and> params_ok (msg_params m) \<and>
     (\<forall>p \<in> set (msg_params m). \<not> contains_forbidden p)"

section \<open>Escaping\<close>

lemma unescape_escape_byte:
  "unescape_tag_value (escape_byte b @ rest) = b # unescape_tag_value rest"
  by (cases rest) (auto simp: escape_byte_def unescape_byte_def)

lemma unescape_escape [simp]: "unescape_tag_value (escape_tag_value v) = v"
  by (induction v) (auto simp: escape_tag_value_def unescape_escape_byte)

lemma escape_byte_set: "b' \<in> set (escape_byte b) \<Longrightarrow>
    b' \<noteq> SP \<and> b' \<noteq> CHR '';'' \<and> b' \<noteq> CR \<and> b' \<noteq> LF \<and> (b' = NUL \<longrightarrow> b = NUL)"
  by (auto simp: escape_byte_def split: if_splits)

lemma escape_tag_value_set: "b \<in> set (escape_tag_value v) \<Longrightarrow>
    b \<noteq> SP \<and> b \<noteq> CHR '';'' \<and> b \<noteq> CR \<and> b \<noteq> LF \<and> (b = NUL \<longrightarrow> NUL \<in> set v)"
  by (auto simp: escape_tag_value_def dest: escape_byte_set)

lemma unescape_set: "b \<in> set (unescape_tag_value v) \<Longrightarrow>
   b \<in> set v \<or> b \<in> {CHR '';'', SP, BSL, CR, LF}"
  by (induction v rule: unescape_tag_value.induct)
    (auto simp: unescape_byte_def split: if_splits)

text \<open>Writing an unescaped value again never needs more room than the wire form had, as long as the
  wire form is one a tag section can hold.\<close>

lemma length_escape_byte: "length (escape_byte b) \<le> 2"
  by (simp add: escape_byte_def)

lemma escape_plain_byte:
  "b \<notin> {SP, CHR '';'', BSL, CR, LF} \<Longrightarrow> escape_byte b = [b]"
  by (simp add: escape_byte_def)

lemma escape_unescape_length:
  "set v \<inter> {SP, CHR '';'', CR, LF} = {} \<Longrightarrow>
     length (escape_tag_value (unescape_tag_value v)) \<le> length v"
proof (induction v rule: unescape_tag_value.induct)
  case 1
  then show ?case by (simp add: escape_tag_value_def)
next
  case (2 b)
  then show ?case by (cases "b = BSL") (auto simp: escape_tag_value_def escape_plain_byte)
next
  case (3 b e rest)
  show ?case
  proof (cases "b = BSL")
    case True
    with 3 have "length (escape_tag_value (unescape_tag_value rest)) \<le> length rest"
      by simp
    with True length_escape_byte [of "unescape_byte e"] show ?thesis
      by (simp add: escape_tag_value_def)
  next
    case False
    with 3 have "length (escape_tag_value (unescape_tag_value (e # rest))) \<le> length (e # rest)"
      by simp
    moreover have "escape_byte b = [b]"
      using 3 False by (intro escape_plain_byte) auto
    ultimately show ?thesis using False by (simp add: escape_tag_value_def)
  qed
qed

section \<open>Tag names\<close>

lemma alnum_ascii: "is_ascii_alphanumeric c \<Longrightarrow> code c < 128"
  by (auto simp: ascii_defs)

lemma tag_name_byte:
  "is_valid_tag_name n \<Longrightarrow> b \<in> set n \<Longrightarrow>
     is_ascii_alphanumeric b \<or> b = CHR ''-'' \<or> b = CHR ''.'' \<or> b = CHR ''/'' \<or> b = CHR ''+''"
  by (fastforce simp: is_valid_tag_name_def is_valid_tag_key_def is_valid_tag_vendor_def Let_def
      std_simps split_once_Some split: option.splits)

lemma tag_name_nonempty: "is_valid_tag_name n \<Longrightarrow> n \<noteq> []"
  by (auto simp: is_valid_tag_name_def Let_def std_simps split: option.splits)

lemma tag_name_excludes:
  assumes "is_valid_tag_name n"
  shows "CHR ''='' \<notin> set n" "CHR '';'' \<notin> set n" "SP \<notin> set n" "CR \<notin> set n" "LF \<notin> set n"
    "NUL \<notin> set n"
  using tag_name_byte [OF assms] by (fastforce simp: ascii_defs)+

lemma tag_name_utf8: "is_valid_tag_name n \<Longrightarrow> utf8_valid n"
  by (rule utf8_valid_ascii) (auto dest!: tag_name_byte simp: alnum_ascii)

lemma command_byte: "is_valid_command c \<Longrightarrow> b \<in> set c \<Longrightarrow> is_ascii_alphanumeric b"
  by (auto simp: is_valid_command_def is_ascii_alphanumeric_def)

lemma command_excludes:
  assumes "is_valid_command c"
  shows "SP \<notin> set c" "CR \<notin> set c" "LF \<notin> set c" "NUL \<notin> set c" "c \<noteq> []"
    "hd c \<noteq> CHR ''@''" "hd c \<noteq> CHR '':''" "hd c \<noteq> SP"
proof -
  show "c \<noteq> []" using assms by (auto simp: is_valid_command_def)
  then have "hd c \<in> set c" by simp
  then show "hd c \<noteq> CHR ''@''" "hd c \<noteq> CHR '':''" "hd c \<noteq> SP"
    using command_byte [OF assms] by (fastforce simp: ascii_defs)+
  show "SP \<notin> set c" "CR \<notin> set c" "LF \<notin> set c" "NUL \<notin> set c"
    using command_byte [OF assms] by (fastforce simp: ascii_defs)+
qed

lemma upper_alnum: "is_ascii_alphanumeric b \<Longrightarrow> code (ascii_upper b) < 128"
  by (auto simp: code_ascii_upper dest: alnum_ascii)

lemma upper_command:
  assumes "is_valid_command c"
  shows "is_valid_command (to_ascii_uppercase c)" and "utf8_valid (to_ascii_uppercase c)"
proof -
  have d: "is_ascii_digit b \<Longrightarrow> is_ascii_digit (ascii_upper b)" for b
    by (auto simp: ascii_defs)
  have a: "is_ascii_alphabetic b \<Longrightarrow> is_ascii_alphabetic (ascii_upper b)" for b
    unfolding is_ascii_alphabetic_def is_ascii_uppercase_def is_ascii_lowercase_def code_ascii_upper
    by auto
  show "is_valid_command (to_ascii_uppercase c)"
    using assms d a by (auto simp: is_valid_command_def to_ascii_uppercase_def)
  show "utf8_valid (to_ascii_uppercase c)"
    by (rule utf8_valid_ascii)
      (auto simp: to_ascii_uppercase_def dest!: command_byte [OF assms] upper_alnum)
qed

section \<open>Parsing what was written\<close>

text \<open>The line \<open>serialize\<close> writes when no check refuses the message.\<close>

fun render_params :: "bytes list \<Rightarrow> bytes" where
  "render_params [] = []"
| "render_params [p] = SP # (if needs_colon p then CHR '':'' # p else p)"
| "render_params (p # q # ps) = SP # p @ render_params (q # ps)"

definition render_tags :: "IrcTag list \<Rightarrow> bytes" where
  "render_tags tags = (if tags = [] then [] else CHR ''@'' # tag_section_bytes tags @ [SP])"

definition render_source :: "IrcPrefix option \<Rightarrow> bytes" where
  "render_source source = (case source of None \<Rightarrow> [] | Some p \<Rightarrow> CHR '':'' # pfx_raw p @ [SP])"

definition render :: "IrcMessage \<Rightarrow> bytes" where
  "render m = render_tags (msg_tags m) @ render_source (msg_prefix m) @ msg_command m
     @ render_params (msg_params m)"

lemma skip_spaces_id: "bs = [] \<or> hd bs \<noteq> SP \<Longrightarrow> skip_spaces bs = bs"
  by (cases bs) auto

lemma tag_bytes_set:
  assumes "tag_ok t" and "b \<in> set (tag_bytes t)"
  shows "b \<noteq> SP \<and> b \<noteq> CHR '';'' \<and> b \<noteq> CR \<and> b \<noteq> LF \<and> b \<noteq> NUL"
proof -
  from assms(1) have n: "is_valid_tag_name (tag_name t)"
    by (simp add: tag_ok_def)
  show ?thesis
    using assms tag_name_excludes [OF n] escape_tag_value_set
    by (fastforce simp: tag_bytes_def tag_ok_def split: option.splits)
qed

lemma parse_tag_bytes: "tag_ok t \<Longrightarrow> parse_tag (tag_bytes t) = Some t"
  by (cases t; cases "tag_value t")
    (auto simp: parse_tag_def tag_bytes_def tag_ok_def tag_name_excludes tag_name_utf8
      split: option.splits)

lemma parse_tag_section_bytes:
  assumes "tags \<noteq> []" and "\<forall>t \<in> set tags. tag_ok t"
  shows "parse_tags (tag_section_bytes tags) = Some tags"
proof -
  have "split_by (\<lambda>b. b = CHR '';'') (tag_section_bytes tags) = map tag_bytes tags"
    unfolding tag_section_bytes_def
    using assms by (intro split_by_join) (auto dest: tag_bytes_set)
  moreover have "those (map parse_tag (map tag_bytes tags)) = Some tags"
    using assms(2) by (induction tags) (auto simp: parse_tag_bytes)
  ultimately show ?thesis by (simp add: parse_tags_def)
qed

lemma tag_section_bytes_set:
  assumes "\<forall>t \<in> set tags. tag_ok t" and "b \<in> set (tag_section_bytes tags)"
  shows "b \<noteq> SP \<and> b \<noteq> CR \<and> b \<noteq> LF \<and> b \<noteq> NUL"
  using assms set_join_with [of "'';''" "map tag_bytes tags"]
  by (fastforce simp: tag_section_bytes_def dest: tag_bytes_set)

lemma tag_section_bytes_nonempty:
  assumes "tags \<noteq> []" and "\<forall>t \<in> set tags. tag_ok t"
  shows "tag_section_bytes tags \<noteq> []"
proof -
  obtain t ts where tags: "tags = t # ts" using assms(1) by (cases tags) auto
  with assms(2) have "tag_name t \<noteq> []" by (simp add: tag_ok_def tag_name_nonempty)
  with tags show ?thesis by (cases ts) (auto simp: tag_section_bytes_def tag_bytes_def)
qed

lemma parse_tag_section_render:
  assumes ok: "\<forall>t \<in> set tags. tag_ok t" "length (tag_section_bytes tags) \<le> MAX_TAG_SECTION_BYTES"
    and x: "x \<noteq> []" "hd x \<noteq> CHR ''@''" "hd x \<noteq> SP"
  shows "parse_tag_section (render_tags tags @ x) = Inr (tags, x)"
proof (cases "tags = []")
  case True
  with x show ?thesis by (simp add: parse_tag_section_def render_tags_def)
next
  case False
  have "SP \<notin> set (tag_section_bytes tags)"
    using tag_section_bytes_set [OF ok(1)] by blast
  then have "split_once SP (tag_section_bytes tags @ SP # x) = Some (tag_section_bytes tags, x)"
    by simp
  with False ok x show ?thesis
    by (simp add: parse_tag_section_def render_tags_def parse_tag_section_bytes
        tag_section_bytes_nonempty skip_spaces_id not_less)
qed

lemma parse_source_render:
  assumes ok: "source_ok source" and x: "x \<noteq> []" "hd x \<noteq> CHR '':''" "hd x \<noteq> SP"
  shows "parse_source (render_source source @ x) = Inr (source, x)"
proof (cases source)
  case None
  with x show ?thesis by (cases x) (auto simp: parse_source_def render_source_def)
next
  case (Some p)
  with ok have "SP \<notin> set (pfx_raw p)" "parse_prefix (pfx_raw p) = Some p" "pfx_raw p \<noteq> []"
    by (auto simp: source_ok_def parse_prefix_def split: if_splits)
  with Some x show ?thesis
    by (simp add: parse_source_def render_source_def skip_spaces_id)
qed

lemma needs_colon_False: "\<not> needs_colon p \<longleftrightarrow> p \<noteq> [] \<and> hd p \<noteq> CHR '':'' \<and> SP \<notin> set p"
  by (simp add: needs_colon_def)

lemma skip_spaces_param: "\<not> needs_colon p \<Longrightarrow> skip_spaces (p @ r) = p @ r"
  by (cases p) (auto simp: needs_colon_def)

lemma parse_parameters_render:
  "params_ok ps \<Longrightarrow> length acc + length ps \<le> MAX_PARAMETERS \<Longrightarrow>
     parse_parameters_from acc (drop 1 (render_params ps)) = acc @ ps"
proof (induction ps arbitrary: acc rule: params_ok.induct)
  case 1
  then show ?case by (simp add: parse_parameters_from.simps)
next
  case (2 p)
  show ?case
  proof (cases "needs_colon p")
    case True
    then show ?thesis by (simp add: parse_parameters_from.simps Let_def)
  next
    case False
    with skip_spaces_param [OF False, of "[]"] show ?thesis
      by (auto simp: parse_parameters_from.simps needs_colon_False split_once_None)
  qed
next
  case (3 p q ps)
  then have nc: "\<not> needs_colon p" by simp
  obtain r where r: "render_params (q # ps) = SP # r"
    by (cases ps) auto
  have len: "length acc \<noteq> MAX_PARAMETERS - 1"
    using "3.prems" by simp
  have "parse_parameters_from acc (p @ SP # r) = parse_parameters_from (acc @ [p]) r"
    using nc len
    by (subst parse_parameters_from.simps)
      (auto simp: skip_spaces_param needs_colon_False Let_def)
  also have "\<dots> = (acc @ [p]) @ q # ps"
    using "3.IH" [of "acc @ [p]"] "3.prems" r by simp
  finally show ?case using r by simp
qed

lemma render_params_shape: "render_params ps = [] \<or> hd (render_params ps) = SP"
  by (cases ps rule: render_params.cases) auto

lemma render_params_Nil: "render_params ps = [] \<longleftrightarrow> ps = []"
  by (cases ps rule: render_params.cases) auto

lemma parse_command_render:
  assumes "is_valid_command c" "to_ascii_uppercase c = c" "params_ok ps" "length ps \<le> MAX_PARAMETERS"
  shows "parse_command (c @ render_params ps) = Inr (c, ps)"
proof (cases "ps = []")
  case True
  with assms(1,2) command_excludes [OF assms(1)] upper_command [OF assms(1)] show ?thesis
    by (simp add: parse_command_def)
next
  case False
  then obtain r where r: "render_params ps = SP # r"
    using render_params_shape [of ps] render_params_Nil [of ps]
    by (cases "render_params ps") auto
  have "parse_parameters r = ps"
    using parse_parameters_render [of ps "[]"] assms r by (simp add: parse_parameters_def)
  with r assms(1,2) command_excludes [OF assms(1)] upper_command [OF assms(1)] show ?thesis
    by (simp add: parse_command_def)
qed

lemma contains_forbidden_append [simp]:
  "contains_forbidden (a @ b) \<longleftrightarrow> contains_forbidden a \<or> contains_forbidden b"
  by (auto simp: contains_forbidden_def)

lemma contains_forbidden_Cons [simp]:
  "contains_forbidden (b # bs) \<longleftrightarrow> b = CR \<or> b = LF \<or> b = NUL \<or> contains_forbidden bs"
  by (auto simp: contains_forbidden_def)

lemma contains_forbidden_Nil [simp]: "\<not> contains_forbidden []"
  by (simp add: contains_forbidden_def)

lemma render_params_forbidden:
  "contains_forbidden (render_params ps) \<longleftrightarrow> (\<exists>p \<in> set ps. contains_forbidden p)"
  by (induction ps rule: render_params.induct) auto

lemma render_clean:
  assumes "canonical m"
  shows "\<not> contains_forbidden (render m)"
proof -
  have "\<not> contains_forbidden (render_tags (msg_tags m))"
    using assms tag_section_bytes_set
    by (auto simp: canonical_def render_tags_def contains_forbidden_def)
  moreover have "\<not> contains_forbidden (render_source (msg_prefix m))"
    using assms
    by (auto simp: canonical_def render_source_def source_ok_def parse_prefix_def
        split: option.splits if_splits)
  moreover have "\<not> contains_forbidden (msg_command m)"
    using assms command_excludes [of "msg_command m"]
    by (auto simp: canonical_def contains_forbidden_def)
  ultimately show ?thesis
    using assms by (auto simp: render_def canonical_def render_params_forbidden)
qed

lemma parse_render:
  assumes "canonical m"
  shows "parse (render m) = Inr m"
proof -
  let ?c = "msg_command m @ render_params (msg_params m)"
  from assms have cmd: "is_valid_command (msg_command m)" by (simp add: canonical_def)
  note ex = command_excludes [OF cmd]
  have x: "?c \<noteq> []" "hd ?c \<noteq> CHR '':''" "hd ?c \<noteq> SP" "hd ?c \<noteq> CHR ''@''"
    using ex by auto
  let ?s = "render_source (msg_prefix m) @ ?c"
  have s: "?s \<noteq> []" "hd ?s \<noteq> CHR ''@''" "hd ?s \<noteq> SP"
    using x by (auto simp: render_source_def split: option.splits)
  have "parse_tag_section (render m) = Inr (msg_tags m, ?s)"
    unfolding render_def using assms s by (intro parse_tag_section_render) (auto simp: canonical_def)
  moreover have "parse_source ?s = Inr (msg_prefix m, ?c)"
    using assms x by (intro parse_source_render) (auto simp: canonical_def)
  moreover have "parse_command ?c = Inr (msg_command m, msg_params m)"
    using assms by (intro parse_command_render) (auto simp: canonical_def)
  moreover have "render m \<noteq> []" using s by (simp add: render_def)
  ultimately show ?thesis
    using render_clean [OF assms] by (simp add: parse_def)
qed

section \<open>Serializing\<close>

lemma serialize_params_ok: "params_ok ps \<Longrightarrow> serialize_params ps = Inr (render_params ps)"
  by (induction ps rule: params_ok.induct) auto

lemma serialize_params_Inr: "serialize_params ps = Inr r \<Longrightarrow> params_ok ps \<and> r = render_params ps"
  by (induction ps arbitrary: r rule: params_ok.induct) (auto split: sum.splits if_splits)

lemma serialize_canonical: "canonical m \<Longrightarrow> serialize m = Inr (render m)"
  using render_clean [of m]
  by (auto simp: canonical_def serialize_def serialize_tags_def serialize_source_def
      serialize_params_ok render_def render_tags_def render_source_def source_ok_def tag_ok_def
      Let_def not_less split: option.splits if_splits)

lemma serialize_Inr:
  assumes "serialize m = Inr line"
    and "to_ascii_uppercase (msg_command m) = msg_command m"
    and "\<forall>p. msg_prefix m = Some p \<longrightarrow> parse_prefix (pfx_raw p) = Some p"
  shows "canonical m \<and> line = render m"
proof -
  obtain t s ps where t: "serialize_tags (msg_tags m) = Inr t"
    and s: "serialize_source (msg_prefix m) = Inr s"
    and ps: "serialize_params (msg_params m) = Inr ps"
    and c: "is_valid_command (msg_command m)"
    and n: "length (msg_params m) \<le> MAX_PARAMETERS"
    and l: "line = t @ s @ msg_command m @ ps" "\<not> contains_forbidden line"
    using assms(1) by (auto simp: serialize_def Let_def split: sum.splits if_splits)
  have t': "t = render_tags (msg_tags m)" "\<forall>x \<in> set (msg_tags m). is_valid_tag_name (tag_name x)"
    "length (tag_section_bytes (msg_tags m)) \<le> MAX_TAG_SECTION_BYTES"
    using t by (auto simp: serialize_tags_def render_tags_def Let_def tag_section_bytes_def
        split: if_splits)
  have s': "s = render_source (msg_prefix m)" "source_ok (msg_prefix m)"
    using s assms(3) by (auto simp: serialize_source_def render_source_def source_ok_def
        split: option.splits if_splits)
  note ps' = serialize_params_Inr [OF ps]
  have "NUL \<notin> set v" if tg: "tg \<in> set (msg_tags m)" "tag_value tg = Some v" for tg v
  proof
    assume "NUL \<in> set v"
    then have "NUL \<in> set (tag_bytes tg)"
      using tg(2) by (force simp: tag_bytes_def escape_tag_value_def escape_byte_def)
    then have "NUL \<in> set (tag_section_bytes (msg_tags m))"
      using tg(1) unfolding tag_section_bytes_def by (intro set_join_with_in [of "tag_bytes tg"]) auto
    then show False
      using l t'(1) tg(1) by (auto simp: render_tags_def contains_forbidden_def split: if_splits)
  qed
  with t'(2) have tags: "\<forall>x \<in> set (msg_tags m). tag_ok x"
    by (auto simp: tag_ok_def)
  have "\<forall>p \<in> set (msg_params m). \<not> contains_forbidden p"
    using l ps' by (auto simp: render_params_forbidden)
  with tags t'(3) s'(2) c n assms(2) ps' have "canonical m"
    by (simp add: canonical_def)
  with l(1) t'(1) s'(1) ps' show ?thesis
    by (simp add: render_def)
qed

section \<open>Every parsed line is canonical\<close>

lemma those_map_Some:
  "those (map f xs) = Some ys \<Longrightarrow> length ys = length xs \<and> (\<forall>i < length xs. f (xs ! i) = Some (ys ! i))"
proof (induction xs arbitrary: ys)
  case Nil
  then show ?case by simp
next
  case (Cons x xs)
  then obtain z zs where "f x = Some z" "those (map f xs) = Some zs" "ys = z # zs"
    by (auto split: option.splits)
  with Cons.IH [of zs] show ?case by (auto simp: nth_Cons split: nat.splits)
qed

lemma parse_tag_Some:
  assumes "parse_tag b = Some t" and "set b \<inter> {SP, CHR '';'', CR, LF, NUL} = {}"
  shows "tag_ok t \<and> length (tag_bytes t) \<le> length b"
proof (cases "split_once (CHR ''='') b")
  case None
  with assms show ?thesis
    by (auto simp: parse_tag_def tag_ok_def tag_bytes_def split: if_splits)
next
  case (Some nv)
  obtain n v where nv: "nv = (n, v)" by (cases nv)
  with Some have b: "b = n @ CHR ''='' # v" by (simp add: split_once_Some)
  have t: "t = \<lparr>tag_name = n, tag_value = Some (unescape_tag_value v)\<rparr>" "is_valid_tag_name n"
    using assms(1) Some nv by (auto simp: parse_tag_def split: if_splits)
  have "NUL \<notin> set (unescape_tag_value v)"
    using assms(2) b unescape_set [of NUL v] by auto
  moreover have "length (escape_tag_value (unescape_tag_value v)) \<le> length v"
    using assms(2) b by (intro escape_unescape_length) auto
  ultimately show ?thesis
    using t b by (simp add: tag_ok_def tag_bytes_def)
qed

lemma parse_tags_Some:
  assumes "parse_tags section = Some tags" and "set section \<inter> {SP, CR, LF, NUL} = {}"
  shows "(\<forall>t \<in> set tags. tag_ok t) \<and> length (tag_section_bytes tags) \<le> length section"
proof -
  let ?ps = "split_by (\<lambda>b. b = CHR '';'') section"
  have th: "length tags = length ?ps" "\<forall>i < length ?ps. parse_tag (?ps ! i) = Some (tags ! i)"
    using those_map_Some [of parse_tag ?ps tags] assms(1) by (auto simp: parse_tags_def)
  have each: "tag_ok (tags ! i) \<and> length (tag_bytes (tags ! i)) \<le> length (?ps ! i)"
    if "i < length ?ps" for i
  proof (rule parse_tag_Some)
    show "parse_tag (?ps ! i) = Some (tags ! i)" using th that by blast
    have m: "?ps ! i \<in> set ?ps" using that by simp
    show "set (?ps ! i) \<inter> {SP, CHR '';'', CR, LF, NUL} = {}"
      using split_by_set [OF m] split_by_pieces [OF m, of "CHR '';''"] assms(2) by blast
  qed
  then have oks: "\<forall>t \<in> set tags. tag_ok t"
    using th(1) by (metis in_set_conv_nth)
  have "sum_list (map length (map tag_bytes tags)) \<le> sum_list (map length ?ps)"
    unfolding sum_list_sum_nth using th(1) each by (auto intro!: sum_mono)
  moreover have "tags \<noteq> []" using th(1) by auto
  ultimately have "length (join_with '';'' (map tag_bytes tags)) \<le> length (join_with '';'' ?ps)"
    using join_with_length_singleton [of "map tag_bytes tags" "CHR '';''"]
      join_with_length_singleton [of ?ps "CHR '';''"] th(1) by simp
  then show ?thesis
    using oks by (simp add: tag_section_bytes_def join_split_by)
qed

lemma skip_spaces_set: "set (skip_spaces bs) \<subseteq> set bs"
  by (induction bs) auto

lemma skip_spaces_hd: "skip_spaces bs = [] \<or> hd (skip_spaces bs) \<noteq> SP"
  by (induction bs) auto

lemma parse_prefix_raw: "parse_prefix raw = Some p \<Longrightarrow> pfx_raw p = raw"
  by (auto simp: parse_prefix_def split: if_splits option.splits)

text \<open>The parameter loop keeps its accumulator, adds at most up to the limit, and only the last
  parameter may need a colon.\<close>

lemma params_ok_snoc: "params_ok (ps @ [p]) \<longleftrightarrow> (\<forall>q \<in> set ps. \<not> needs_colon q)"
  by (induction ps rule: params_ok.induct) auto

lemma parse_parameters_from_ok:
  assumes "\<forall>q \<in> set acc. \<not> needs_colon q" and "length acc < MAX_PARAMETERS"
    and "\<not> contains_forbidden input" and "\<forall>q \<in> set acc. \<not> contains_forbidden q"
  shows "let ps = parse_parameters_from acc input in
           params_ok ps \<and> length ps \<le> MAX_PARAMETERS \<and> (\<forall>q \<in> set ps. \<not> contains_forbidden q)"
  using assms
proof (induction acc input rule: parse_parameters_from.induct)
  case (1 acc input)
  let ?rest = "skip_spaces input"
  have clean: "\<not> contains_forbidden ?rest"
    using "1.prems"(3) skip_spaces_set [of input] by (auto simp: contains_forbidden_def)
  have okacc: "params_ok acc"
    using "1.prems"(1) by (cases acc rule: rev_cases) (auto simp: params_ok_snoc)
  show ?case
  proof (cases "?rest = [] \<or> length acc = MAX_PARAMETERS - 1 \<or> hd ?rest = CHR '':''
      \<or> split_once SP ?rest = None")
    case True
    have "\<not> contains_forbidden (tl ?rest)"
      using clean by (cases ?rest) auto
    with True clean okacc "1.prems" show ?thesis
      by (subst parse_parameters_from.simps) (auto simp: Let_def params_ok_snoc)
  next
    case False
    then obtain p rest' where sp: "split_once SP ?rest = Some (p, rest')" by auto
    then have r: "?rest = p @ SP # rest'" "SP \<notin> set p" by (auto simp: split_once_Some)
    have "p \<noteq> []" using skip_spaces_hd [of input] r(1) by auto
    with r False have "\<not> needs_colon p" by (auto simp: needs_colon_def)
    moreover have "\<not> contains_forbidden p" "\<not> contains_forbidden rest'"
      using clean r(1) by auto
    moreover have "length (acc @ [p]) < MAX_PARAMETERS"
      using False "1.prems"(2) by auto
    ultimately have "let ps = parse_parameters_from (acc @ [p]) rest' in
        params_ok ps \<and> length ps \<le> MAX_PARAMETERS \<and> (\<forall>q \<in> set ps. \<not> contains_forbidden q)"
      using "1.prems" False sp by (intro "1.IH") auto
    moreover have "parse_parameters_from acc input = parse_parameters_from (acc @ [p]) rest'"
      using False sp by (subst parse_parameters_from.simps) (simp add: Let_def)
    ultimately show ?thesis by simp
  qed
qed

lemma parse_parameters_ok:
  assumes "\<not> contains_forbidden input"
  shows "params_ok (parse_parameters input)" "length (parse_parameters input) \<le> MAX_PARAMETERS"
    "\<forall>q \<in> set (parse_parameters input). \<not> contains_forbidden q"
  using parse_parameters_from_ok [of "[]" input] assms
  by (auto simp: parse_parameters_def Let_def limit_defs)

lemma parse_tag_section_Inr:
  assumes "parse_tag_section line = Inr (tags, rest)" and "line \<noteq> []" and "\<not> contains_forbidden line"
  shows "(\<forall>t \<in> set tags. tag_ok t) \<and> length (tag_section_bytes tags) \<le> MAX_TAG_SECTION_BYTES
     \<and> \<not> contains_forbidden rest"
proof (cases "hd line = CHR ''@''")
  case False
  with assms show ?thesis
    by (simp add: parse_tag_section_def tag_section_bytes_def)
next
  case True
  with assms(1) obtain sect rest' where sp: "split_once SP (tl line) = Some (sect, rest')"
    and pt: "parse_tags sect = Some tags" "length sect \<le> MAX_TAG_SECTION_BYTES"
    and rest: "rest = skip_spaces rest'"
    by (auto simp: parse_tag_section_def split: option.splits if_splits)
  from sp have tl: "tl line = sect @ SP # rest'" "SP \<notin> set sect"
    by (auto simp: split_once_Some)
  then have line: "line = hd line # sect @ SP # rest'"
    using assms(2) by (metis list.collapse)
  with assms(3) have clean: "\<not> contains_forbidden (hd line # sect @ SP # rest')"
    by simp
  then have "set sect \<inter> {SP, CR, LF, NUL} = {}"
    using tl(2) by (auto simp: contains_forbidden_def)
  from parse_tags_Some [OF pt(1) this] pt(2) clean rest skip_spaces_set [of rest'] show ?thesis
    by (auto simp: contains_forbidden_def)
qed

lemma parse_source_Inr:
  assumes "parse_source rest = Inr (source, rest')" and "\<not> contains_forbidden rest"
  shows "source_ok source \<and> \<not> contains_forbidden rest'"
proof (cases rest)
  case Nil
  with assms show ?thesis by (auto simp: parse_source_def source_ok_def)
next
  case (Cons b tail)
  show ?thesis
  proof (cases "b = CHR '':''")
    case False
    with assms Cons show ?thesis by (auto simp: parse_source_def source_ok_def)
  next
    case True
    with assms(1) Cons obtain raw r p where sp: "split_once SP tail = Some (raw, r)"
      and p: "parse_prefix raw = Some p" "source = Some p" and r: "rest' = skip_spaces r"
      by (auto simp: parse_source_def split: option.splits if_splits dest: sym)
    from sp have "tail = raw @ SP # r" "SP \<notin> set raw" by (auto simp: split_once_Some)
    with p r parse_prefix_raw [OF p(1)] assms(2) Cons skip_spaces_set [of r] show ?thesis
      by (auto simp: source_ok_def contains_forbidden_def)
  qed
qed

lemma parse_command_Inr:
  assumes "parse_command rest = Inr (c, ps)" and "\<not> contains_forbidden rest"
  shows "is_valid_command c \<and> to_ascii_uppercase c = c \<and> params_ok ps
    \<and> length ps \<le> MAX_PARAMETERS \<and> (\<forall>q \<in> set ps. \<not> contains_forbidden q)"
proof (cases "split_once SP rest")
  case None
  with assms show ?thesis
    by (auto simp: parse_command_def Let_def upper_command limit_defs split: if_splits)
next
  case (Some ct)
  obtain c0 t where ct: "ct = (c0, t)" by (cases ct)
  with Some have "rest = c0 @ SP # t" by (simp add: split_once_Some)
  then have "\<not> contains_forbidden t" using assms(2) by simp
  with assms(1) Some ct show ?thesis
    by (auto simp: parse_command_def Let_def upper_command parse_parameters_ok split: if_splits)
qed

lemma parse_canonical:
  assumes "parse line = Inr m"
  shows "canonical m"
proof -
  from assms have line: "line \<noteq> []" "\<not> contains_forbidden line"
    by (auto simp: parse_def split: if_splits)
  with assms obtain tags rest source rest' c ps
    where st: "parse_tag_section line = Inr (tags, rest)" "parse_source rest = Inr (source, rest')"
      "parse_command rest' = Inr (c, ps)"
      and m: "m = \<lparr>msg_tags = tags, msg_prefix = source, msg_command = c, msg_params = ps\<rparr>"
    by (auto simp: parse_def split: sum.splits)
  note t = parse_tag_section_Inr [OF st(1) line]
  then have s: "source_ok source" "\<not> contains_forbidden rest'"
    using parse_source_Inr [OF st(2)] by auto
  from t s parse_command_Inr [OF st(3) s(2)] show ?thesis
    by (simp add: m canonical_def)
qed

section \<open>Properties\<close>

text \<open>C1. Whatever line the parser accepts, the message it returns can be written back, the written
  line has no CR, LF or NUL, and parsing it again returns the same message: accepted lines have a
  stable canonical form.\<close>

theorem parse_serialize_parse:
  assumes "parse line = Inr m"
  shows "\<exists>line'. serialize m = Inr line' \<and> parse line' = Inr m \<and> \<not> contains_forbidden line'"
  using parse_canonical [OF assms] serialize_canonical parse_render render_clean by blast

text \<open>\<open>parse(serialize(m))\<close> returns \<open>m\<close> for a message the serializer accepts, provided the command
  is upper case and the prefix fields are the ones its raw source parses to.\<close>

theorem serialize_parse:
  assumes "serialize m = Inr line"
    and "to_ascii_uppercase (msg_command m) = msg_command m"
    and "\<forall>p. msg_prefix m = Some p \<longrightarrow> parse_prefix (pfx_raw p) = Some p"
  shows "parse line = Inr m"
  using serialize_Inr [OF assms] parse_render by blast

text \<open>C3. A parsed message is within bounds: at most fifteen parameters, none with a CR, LF or NUL,
  every parameter but the last free of spaces, and a command of three digits or of upper-case
  letters.\<close>

theorem parse_bounds:
  assumes "parse line = Inr m"
  shows "length (msg_params m) \<le> 15 \<and> (\<forall>p \<in> set (msg_params m). \<not> contains_forbidden p)
    \<and> (\<forall>p \<in> set (butlast (msg_params m)). p \<noteq> [] \<and> SP \<notin> set p)
    \<and> (\<forall>b \<in> set (msg_command m). is_ascii_digit b \<or> is_ascii_uppercase b) \<and> msg_command m \<noteq> []"
proof -
  have c: "canonical m" using parse_canonical [OF assms] .
  then have ok: "params_ok (msg_params m)" and cmd: "is_valid_command (msg_command m)"
    and up: "map ascii_upper (msg_command m) = msg_command m"
    by (auto simp: canonical_def to_ascii_uppercase_def)
  have "\<forall>q \<in> set (butlast (msg_params m)). \<not> needs_colon q"
    using ok by (cases "msg_params m" rule: rev_cases) (auto simp: params_ok_snoc)
  moreover have "is_ascii_digit b \<or> is_ascii_uppercase b" if "b \<in> set (msg_command m)" for b
  proof -
    have "ascii_upper b = b" using up that by (metis map_eq_conv map_ident)
    then have "\<not> is_ascii_lowercase b"
      unfolding char_eq_code code_ascii_upper by (auto simp: is_ascii_lowercase_def split: if_splits)
    with command_byte [OF cmd that] show ?thesis
      by (auto simp: is_ascii_alphanumeric_def is_ascii_alphabetic_def)
  qed
  ultimately show ?thesis
    using c command_excludes(5) [OF cmd] by (auto simp: canonical_def limit_defs needs_colon_False)
qed

section \<open>Witnesses\<close>

definition sample_line :: bytes where
  "sample_line = (''@msgid=a'' @ BSL # '':b;+x/y :bob!u@h privmsg #c :hi there'')"

definition sample_message :: IrcMessage where
  "sample_message = \<lparr>msg_tags = [\<lparr>tag_name = ''msgid'', tag_value = Some ''a;b''\<rparr>,
       \<lparr>tag_name = ''+x/y'', tag_value = None\<rparr>],
     msg_prefix = Some \<lparr>pfx_raw = ''bob!u@h'', pfx_nick = ''bob'', pfx_user = ''u'', pfx_host = ''h''\<rparr>,
     msg_command = ''PRIVMSG'', msg_params = [''#c'', ''hi there'']\<rparr>"

lemma sample_parse: "parse sample_line = Inr sample_message"
  by code_simp

theorem parse_serialize_parse_witness:
  "\<exists>line'. serialize sample_message = Inr line' \<and> parse line' = Inr sample_message
     \<and> \<not> contains_forbidden line'"
  using parse_serialize_parse [OF sample_parse] .

theorem serialize_parse_witness:
  "parse (''@msgid=a'' @ BSL # '':b;+x/y :bob!u@h PRIVMSG #c :hi there'') = Inr sample_message"
proof (rule serialize_parse)
  show "serialize sample_message = Inr (''@msgid=a'' @ BSL # '':b;+x/y :bob!u@h PRIVMSG #c :hi there'')"
    by code_simp
  show "to_ascii_uppercase (msg_command sample_message) = msg_command sample_message"
    by code_simp
  show "\<forall>p. msg_prefix sample_message = Some p \<longrightarrow> parse_prefix (pfx_raw p) = Some p"
    unfolding sample_message_def by (simp, code_simp)
qed

theorem parse_bounds_witness:
  "length (msg_params sample_message) \<le> 15"
  using parse_bounds [OF sample_parse] by blast

text \<open>Without upper case the round trip of \<open>serialize\<close> fails: the serializer writes a lower-case command
  as it stands, and the parser folds it.\<close>

lemma serialize_lowercase_not_roundtrip:
  "serialize (sample_message\<lparr>msg_command := ''privmsg''\<rparr>) =
     Inr (''@msgid=a'' @ BSL # '':b;+x/y :bob!u@h privmsg #c :hi there'')
   \<and> parse (''@msgid=a'' @ BSL # '':b;+x/y :bob!u@h privmsg #c :hi there'') \<noteq> Inr (sample_message\<lparr>msg_command := ''privmsg''\<rparr>)"
  by code_simp

end
