(* ===== verification/Framer.thy ===== *)
theory Framer
  imports Parser
begin

text \<open>
  \<^verbatim>\<open>client/src/irc/framer.rs\<close>: reassembling CRLF-terminated frames from a byte stream that arrives in
  arbitrary pieces. A frame with a NUL, or one past the limits, becomes a fault and the rest of it is
  discarded up to its CRLF. The state is the record \<open>IrcFramer\<close> of the source; the loop of \<open>feed\<close>
  carries \<open>rest\<close>, the slice \<open>data[position..]\<close>.

  The locale \<open>stream_decoder\<close> is the contract the session relies on: how a stream is cut into reads
  does not matter. The framer is interpreted in it twice, for the frames it delivers and for the
  number of frames it rejects.
\<close>

section \<open>Definitions\<close>

definition FAULT_PREVIEW_BYTES :: nat where
  "FAULT_PREVIEW_BYTES = 160"

record IrcFrameFault =
  fault_error :: IrcError
  fault_preview :: bytes
  fault_byte_count :: nat

record IrcFrameResult =
  frames :: "bytes list"
  faults :: "IrcFrameFault list"

record IrcFramer =
  pending :: bytes
  discarding :: bool

definition new_framer :: IrcFramer where
  "new_framer = \<lparr>pending = [], discarding = False\<rparr>"

definition find_crlf :: "bytes \<Rightarrow> nat option" where
  "find_crlf bs = find_sub [CR, LF] bs"

definition retained_carriage_return :: "bytes \<Rightarrow> bytes" where
  "retained_carriage_return rest = (if rest \<noteq> [] \<and> last rest = CR then [CR] else [])"

definition record_fault :: "IrcFrameResult \<Rightarrow> IrcError \<Rightarrow> bytes \<Rightarrow> IrcFrameResult" where
  "record_fault result e raw =
     result\<lparr>faults := faults result @
       [\<lparr>fault_error = e, fault_preview = take (min (length raw) FAULT_PREVIEW_BYTES) raw,
         fault_byte_count = length raw\<rparr>]\<rparr>"

definition complete_frame_is_valid :: "bytes \<Rightarrow> bool" where
  "complete_frame_is_valid frame =
     (let plain_fits = length frame + 2 \<le> MAX_INBOUND_CLASSIC_FRAME_BYTES in
      if frame = [] \<or> hd frame \<noteq> CHR ''@'' then plain_fits
      else case position (\<lambda>b. b = SP) frame of
             None \<Rightarrow> plain_fits
           | Some space \<Rightarrow>
               space - 1 \<le> MAX_TAG_SECTION_BYTES
               \<and> length frame - space - 1 + 2 \<le> MAX_INBOUND_CLASSIC_FRAME_BYTES)"

definition pending_frame_is_overlong :: "bytes \<Rightarrow> bool" where
  "pending_frame_is_overlong rest =
     (if rest = [] \<or> hd rest \<noteq> CHR ''@'' then length rest \<ge> MAX_INBOUND_CLASSIC_FRAME_BYTES
      else case position (\<lambda>b. b = SP) rest of
             None \<Rightarrow> length rest > 1 + MAX_TAG_SECTION_BYTES
           | Some space \<Rightarrow>
               space - 1 > MAX_TAG_SECTION_BYTES
               \<or> length rest - space - 1 \<ge> MAX_INBOUND_CLASSIC_FRAME_BYTES)"

text \<open>The two dispositions inside the loop of \<open>feed\<close>: of a complete frame, and of what is left when no
  delimiter has arrived.\<close>

definition resolve_frame :: "IrcFrameResult \<Rightarrow> bytes \<Rightarrow> IrcFrameResult" where
  "resolve_frame result frame =
     (if NUL \<in> set frame then record_fault result InvalidCharacter frame
      else if \<not> complete_frame_is_valid frame then record_fault result TooManyBytes frame
      else result\<lparr>frames := frames result @ [frame]\<rparr>)"

definition pending_fault :: "bytes \<Rightarrow> IrcError option" where
  "pending_fault rest =
     (if NUL \<in> set rest then Some InvalidCharacter
      else if pending_frame_is_overlong rest then Some TooManyBytes
      else None)"

lemma find_sub_length: "find_sub pat xs = Some d \<Longrightarrow> d + length pat \<le> length xs"
proof (induction xs arbitrary: d)
  case (Cons x xs)
  then show ?case
    by (auto simp: starts_with_iff split: if_splits dest: arg_cong [where f = length])
qed (auto split: if_splits)

lemma find_crlf_length: "find_crlf xs = Some d \<Longrightarrow> d + 2 \<le> length xs"
  using find_sub_length [of "[CR, LF]" xs d] by (simp add: find_crlf_def)

lemma retained_length: "length (retained_carriage_return rest) \<le> length rest"
  by (cases rest) (auto simp: retained_carriage_return_def)

function feed_loop :: "bool \<Rightarrow> bytes \<Rightarrow> IrcFrameResult \<Rightarrow> IrcFramer \<times> IrcFrameResult" where
  "feed_loop disc rest result =
     (if disc then
        (case find_crlf rest of
           Some delimiter \<Rightarrow> feed_loop False (drop (delimiter + 2) rest) result
         | None \<Rightarrow> (\<lparr>pending = retained_carriage_return rest, discarding = True\<rparr>, result))
      else
        (case find_crlf rest of
           Some delimiter \<Rightarrow>
             feed_loop False (drop (delimiter + 2) rest) (resolve_frame result (take delimiter rest))
         | None \<Rightarrow>
             (case pending_fault rest of
                None \<Rightarrow> (\<lparr>pending = rest, discarding = False\<rparr>, result)
              | Some e \<Rightarrow>
                  feed_loop True (retained_carriage_return rest) (record_fault result e rest))))"
  by pat_completeness auto
termination
proof (relation "measure (\<lambda>(disc, rest, result). 2 * length rest + (if disc then 0 else 1))",
    goal_cases)
  case (2 disc rest result d)
  then show ?case using find_crlf_length [of rest d] by auto
next
  case (3 disc rest result e)
  then show ?case using retained_length [of rest] by auto
next
  case (4 disc rest result d)
  then show ?case using find_crlf_length [of rest d] by auto
qed simp

declare feed_loop.simps [simp del]

definition feed :: "IrcFramer \<Rightarrow> bytes \<Rightarrow> IrcFramer \<times> IrcFrameResult" where
  "feed framer incoming =
     feed_loop (discarding framer) (pending framer @ incoming) \<lparr>frames = [], faults = []\<rparr>"

section \<open>Delimiters\<close>

lemma find_crlf_Nil [simp]: "find_crlf [] = None"
  by (simp add: find_crlf_def)

lemma find_crlf_single [simp]: "find_crlf [c] = None"
  by (simp add: find_crlf_def starts_with_def)

lemma find_crlf_Cons:
  "find_crlf (x # xs) =
     (if x = CR \<and> xs \<noteq> [] \<and> hd xs = LF then Some 0 else map_option Suc (find_crlf xs))"
  by (cases xs) (auto simp: find_crlf_def starts_with_def)

lemma find_crlf_append: "find_crlf r = Some d \<Longrightarrow> find_crlf (r @ y) = Some d"
proof (induction r arbitrary: d)
  case (Cons x r)
  then show ?case by (cases r) (auto simp: find_crlf_Cons split: if_splits)
qed simp

text \<open>Without a CRLF in what was read before, a later CRLF starts at its end, or at its final CR.\<close>

lemma find_crlf_append_None:
  assumes "find_crlf r = None"
  shows "find_crlf (r @ y) =
    (if r \<noteq> [] \<and> last r = CR \<and> y \<noteq> [] \<and> hd y = LF then Some (length r - 1)
     else map_option ((+) (length r)) (find_crlf y))"
  using assms
proof (induction r)
  case Nil
  then show ?case by (cases "find_crlf y") auto
next
  case (Cons x r)
  show ?case
  proof (cases r)
    case Nil
    with Cons.prems show ?thesis by (cases "find_crlf y") (auto simp: find_crlf_Cons)
  next
    case (Cons z zs)
    then have "find_crlf r = None" using Cons.prems by (auto simp: find_crlf_Cons split: if_splits)
    with Cons.IH [OF this] Cons Cons.prems show ?thesis
      by (auto simp: find_crlf_Cons option.map_comp comp_def split: if_splits)
  qed
qed

lemma retained_no_crlf [simp]: "find_crlf (retained_carriage_return r) = None"
  by (simp add: retained_carriage_return_def)

lemma retained_idem [simp]:
  "retained_carriage_return (retained_carriage_return r) = retained_carriage_return r"
  by (simp add: retained_carriage_return_def)

lemma retained_append:
  "retained_carriage_return (retained_carriage_return r @ y) = retained_carriage_return (r @ y)"
  by (cases "y = []") (auto simp: retained_carriage_return_def)

section \<open>Limits are monotone\<close>

text \<open>Bytes that already exceed the limits stay refused, whatever follows: a longer pending buffer is
  still overlong, and the frame they end up in is not valid.\<close>

lemma overlong_append:
  assumes "pending_frame_is_overlong r"
  shows "pending_frame_is_overlong (r @ y)"
proof -
  have ne: "r \<noteq> []"
    using assms by (auto simp: pending_frame_is_overlong_def limit_defs)
  show ?thesis
  proof (cases "position (\<lambda>b. b = SP) r")
    case None
    then have "SP \<notin> set r" by (auto simp: position_None)
    then show ?thesis
      using assms ne None
      by (cases "position (\<lambda>b. b = SP) y")
        (auto simp: pending_frame_is_overlong_def limit_defs split: if_splits)
  next
    case (Some i)
    with ne assms position_append_in [OF Some, of y] show ?thesis
      by (auto simp: pending_frame_is_overlong_def split: if_splits)
  qed
qed

lemma pending_fault_append:
  "pending_fault r \<noteq> None \<Longrightarrow> pending_fault (r @ y) \<noteq> None"
  by (auto simp: pending_fault_def overlong_append split: if_splits)

lemma complete_invalid_append:
  assumes "pending_frame_is_overlong r"
  shows "\<not> complete_frame_is_valid (r @ y)"
proof -
  have ne: "r \<noteq> []"
    using assms by (auto simp: pending_frame_is_overlong_def limit_defs)
  show ?thesis
  proof (cases "position (\<lambda>b. b = SP) r")
    case None
    then have "SP \<notin> set r" by (auto simp: position_None)
    then show ?thesis
      using assms ne None
      by (cases "position (\<lambda>b. b = SP) y")
        (auto simp: pending_frame_is_overlong_def complete_frame_is_valid_def limit_defs Let_def
          split: if_splits)
  next
    case (Some i)
    then have "i < length r" by (simp add: position_Some)
    with Some ne assms position_append_in [OF Some, of y] show ?thesis
      by (auto simp: pending_frame_is_overlong_def complete_frame_is_valid_def limit_defs Let_def
          split: if_splits)
  qed
qed

lemma complete_invalid_butlast:
  assumes "pending_frame_is_overlong (r @ [CR])"
  shows "\<not> complete_frame_is_valid r"
proof -
  have ne: "r \<noteq> []"
    using assms by (auto simp: pending_frame_is_overlong_def limit_defs)
  show ?thesis
  proof (cases "position (\<lambda>b. b = SP) r")
    case None
    then have "SP \<notin> set r" by (auto simp: position_None)
    then show ?thesis
      using assms ne None
      by (auto simp: pending_frame_is_overlong_def complete_frame_is_valid_def limit_defs Let_def
          split: if_splits)
  next
    case (Some i)
    then have "i < length r" by (simp add: position_Some)
    with Some ne assms position_append_in [OF Some, of "[CR]"] show ?thesis
      by (auto simp: pending_frame_is_overlong_def complete_frame_is_valid_def limit_defs Let_def
          split: if_splits)
  qed
qed

section \<open>The stream specification\<close>

text \<open>What the session sees of one result: the frames, and how many were rejected.\<close>

type_synonym seen_result = "bytes list \<times> nat"

definition seen :: "IrcFrameResult \<Rightarrow> seen_result" where
  "seen res = (frames res, length (faults res))"

definition add_seen :: "seen_result \<Rightarrow> seen_result \<Rightarrow> seen_result" where
  "add_seen a b = (fst a @ fst b, snd a + snd b)"

lemma add_seen_simps [simp]:
  "add_seen ([], 0) b = b" "add_seen a ([], 0) = a"
  "add_seen (add_seen a b) c = add_seen a (add_seen b c)"
  by (simp_all add: add_seen_def)

definition frame_accepted :: "bytes \<Rightarrow> bool" where
  "frame_accepted frame \<longleftrightarrow> NUL \<notin> set frame \<and> complete_frame_is_valid frame"

definition frame_outcome :: "bytes \<Rightarrow> seen_result" where
  "frame_outcome frame = (if frame_accepted frame then ([frame], 0) else ([], 1))"

text \<open>The same machine without an accumulator and without fault details: cut at the next CRLF, judge
  the frame, go on; with no CRLF left, wait or give up on the frame.\<close>

function run_stream :: "bool \<Rightarrow> bytes \<Rightarrow> IrcFramer \<times> seen_result" where
  "run_stream disc rest =
     (case find_crlf rest of
        Some d \<Rightarrow>
          (let (s, seen') = run_stream False (drop (d + 2) rest)
           in (s, if disc then seen' else add_seen (frame_outcome (take d rest)) seen'))
      | None \<Rightarrow>
          if disc then (\<lparr>pending = retained_carriage_return rest, discarding = True\<rparr>, ([], 0))
          else if pending_fault rest = None then (\<lparr>pending = rest, discarding = False\<rparr>, ([], 0))
          else (\<lparr>pending = retained_carriage_return rest, discarding = True\<rparr>, ([], 1)))"
  by pat_completeness auto
termination
  by (relation "measure (\<lambda>(disc, rest). length rest)") (auto dest: find_crlf_length)

declare run_stream.simps [simp del]

lemma run_stream_Some:
  "find_crlf rest = Some d \<Longrightarrow> run_stream disc rest =
     (fst (run_stream False (drop (d + 2) rest)),
      if disc then snd (run_stream False (drop (d + 2) rest))
      else add_seen (frame_outcome (take d rest)) (snd (run_stream False (drop (d + 2) rest))))"
  by (simp add: run_stream.simps [of disc rest] case_prod_beta)

lemma run_stream_None:
  "find_crlf rest = None \<Longrightarrow> run_stream disc rest =
     (if disc then (\<lparr>pending = retained_carriage_return rest, discarding = True\<rparr>, ([], 0))
      else if pending_fault rest = None then (\<lparr>pending = rest, discarding = False\<rparr>, ([], 0))
      else (\<lparr>pending = retained_carriage_return rest, discarding = True\<rparr>, ([], 1)))"
  by (simp add: run_stream.simps [of disc rest])

lemma seen_resolve_frame: "seen (resolve_frame res f) = add_seen (seen res) (frame_outcome f)"
  by (simp add: seen_def resolve_frame_def frame_outcome_def frame_accepted_def add_seen_def
      record_fault_def)

lemma seen_record_fault: "seen (record_fault res e raw) = add_seen (seen res) ([], 1)"
  by (simp add: seen_def record_fault_def add_seen_def)

text \<open>The loop of \<open>feed\<close> refines the specification.\<close>

lemma feed_loop_refines:
  "fst (feed_loop disc rest res) = fst (run_stream disc rest)
   \<and> seen (snd (feed_loop disc rest res)) = add_seen (seen res) (snd (run_stream disc rest))"
proof (induction disc rest res rule: feed_loop.induct)
  case (1 disc rest res)
  show ?case
  proof (cases "find_crlf rest")
    case None
    show ?thesis
    proof (cases disc)
      case True
      with None show ?thesis by (simp add: feed_loop.simps [of True rest] run_stream_None)
    next
      case False
      with None show ?thesis
        by (cases "pending_fault rest")
          (simp_all add: feed_loop.simps [of False rest] feed_loop.simps [of True "retained_carriage_return rest"]
            run_stream_None seen_record_fault)
    qed
  next
    case (Some d)
    show ?thesis
    proof (cases disc)
      case True
      with Some "1.IH"(1) [OF True Some] show ?thesis
        by (simp add: feed_loop.simps [of True rest] run_stream_Some)
    next
      case False
      with Some "1.IH"(3) [OF False Some] show ?thesis
        by (simp add: feed_loop.simps [of False rest] run_stream_Some seen_resolve_frame)
    qed
  qed
qed

lemma feed_refines:
  "fst (feed s x) = fst (run_stream (discarding s) (pending s @ x))"
  "seen (snd (feed s x)) = snd (run_stream (discarding s) (pending s @ x))"
  using feed_loop_refines [of "discarding s" "pending s @ x"] by (auto simp: feed_def seen_def)

section \<open>Reads may be cut anywhere\<close>

text \<open>Giving up on a frame early and judging it when complete come to the same.\<close>

lemma fault_then_complete:
  assumes r: "find_crlf r = None" "pending_fault r \<noteq> None" and d: "find_crlf (r @ y) = Some d"
  shows "\<not> frame_accepted (take d (r @ y))"
proof (cases "r \<noteq> [] \<and> last r = CR \<and> y \<noteq> [] \<and> hd y = LF")
  case True
  then have "d = length r - 1" using d find_crlf_append_None [OF r(1), of y] by simp
  then have f: "take d (r @ y) = butlast r"
    by (simp add: butlast_conv_take)
  have split: "butlast r @ [CR] = r"
    using True by (metis append_butlast_last_id)
  show ?thesis
  proof (cases "NUL \<in> set r")
    case True
    have "NUL \<in> set (butlast r @ [CR])" using True unfolding split .
    then have "NUL \<in> set (butlast r)" by simp
    with f show ?thesis by (simp add: frame_accepted_def)
  next
    case False
    with r(2) have "pending_frame_is_overlong (butlast r @ [CR])"
      unfolding split by (auto simp: pending_fault_def split: if_splits)
    with f show ?thesis by (simp add: frame_accepted_def complete_invalid_butlast)
  qed
next
  case False
  then obtain k where "d = length r + k"
    using d find_crlf_append_None [OF r(1), of y] by (auto split: if_splits)
  then have "take d (r @ y) = r @ take k y" by simp
  with r(2) show ?thesis
    by (auto simp: frame_accepted_def pending_fault_def complete_invalid_append split: if_splits)
qed

text \<open>While discarding, only a trailing CR of what was read matters.\<close>

lemma discard_retained:
  assumes "find_crlf r = None"
  shows "run_stream True (retained_carriage_return r @ y) = run_stream True (r @ y)"
proof (cases "find_crlf (r @ y)")
  case None
  then have "find_crlf (retained_carriage_return r @ y) = None"
    using find_crlf_append_None [OF assms, of y]
      find_crlf_append_None [OF retained_no_crlf [of r], of y]
    by (auto simp: retained_carriage_return_def split: if_splits)
  with None show ?thesis by (simp add: run_stream_None retained_append)
next
  case (Some d)
  let ?k = "retained_carriage_return r"
  have "find_crlf (?k @ y) = Some (d + length ?k - length r)"
    and "drop (d + length ?k - length r + 2) (?k @ y) = drop (d + 2) (r @ y)"
    using Some find_crlf_append_None [OF assms, of y]
      find_crlf_append_None [OF retained_no_crlf [of r], of y]
    by (auto simp: retained_carriage_return_def split: if_splits)
  with Some show ?thesis by (simp add: run_stream_Some)
qed

lemma run_stream_append:
  "run_stream disc (r @ y) =
     (let (s, out) = run_stream disc r;
          (s', out') = run_stream (discarding s) (pending s @ y)
      in (s', add_seen out out'))"
proof (induction disc r rule: run_stream.induct)
  case (1 disc r)
  show ?case
  proof (cases "find_crlf r")
    case (Some d)
    then have "d + 2 \<le> length r" by (rule find_crlf_length)
    with Some "1.IH" [OF Some] find_crlf_append [OF Some, of y] show ?thesis
      by (simp add: run_stream_Some [OF Some] run_stream_Some case_prod_beta Let_def)
  next
    case None
    consider (wait) "disc" | (idle) "\<not> disc" "pending_fault r = None"
      | (fault) "\<not> disc" "pending_fault r \<noteq> None" by blast
    then show ?thesis
    proof cases
      case wait
      with None show ?thesis
        by (simp add: run_stream_None [OF None] discard_retained case_prod_beta)
    next
      case idle
      with None show ?thesis by (simp add: run_stream_None [OF None] case_prod_beta)
    next
      case fault
      have "run_stream False (r @ y) =
          (fst (run_stream True (r @ y)), add_seen ([], 1) (snd (run_stream True (r @ y))))"
      proof (cases "find_crlf (r @ y)")
        case (Some d)
        with fault None show ?thesis
          using fault_then_complete [OF None fault(2) Some] by (simp add: run_stream_Some frame_outcome_def)
      next
        case None
        with fault show ?thesis
          using pending_fault_append [OF fault(2), of y] by (simp add: run_stream_None)
      qed
      with fault None show ?thesis
        by (simp add: run_stream_None [OF None] discard_retained case_prod_beta Let_def)
    qed
  qed
qed

section \<open>The contract of a stream decoder\<close>

text \<open>A sequence of reads, each handed to the decoder in turn, and everything it emitted.\<close>

primrec run_chunks :: "('s \<Rightarrow> 'b list \<Rightarrow> 's) \<Rightarrow> ('s \<Rightarrow> 'b list \<Rightarrow> 'o list) \<Rightarrow> 's \<Rightarrow> 'b list list \<Rightarrow> 's \<times> 'o list" where
  "run_chunks step emit s [] = (s, [])"
| "run_chunks step emit s (x # xs) =
     (fst (run_chunks step emit (step s x) xs), emit s x @ snd (run_chunks step emit (step s x) xs))"

text \<open>The session feeds whatever each socket read returns. The contract: two reads in a row amount to
  one read of both, so what is emitted depends on the bytes alone.\<close>

locale stream_decoder =
  fixes step :: "'s \<Rightarrow> 'b list \<Rightarrow> 's"
    and emit :: "'s \<Rightarrow> 'b list \<Rightarrow> 'o list"
  assumes step_append: "step s (x @ y) = step (step s x) y"
    and emit_append: "emit s (x @ y) = emit s x @ emit (step s x) y"
begin

lemma run_chunks_concat: "xs \<noteq> [] \<Longrightarrow> run_chunks step emit s xs = (step s (concat xs), emit s (concat xs))"
proof (induction xs arbitrary: s)
  case (Cons x xs)
  then show ?case by (cases "xs = []") (simp_all add: step_append emit_append)
qed simp

lemma chunking_irrelevant:
  "xs \<noteq> [] \<Longrightarrow> ys \<noteq> [] \<Longrightarrow> concat xs = concat ys \<Longrightarrow>
     run_chunks step emit s xs = run_chunks step emit s ys"
  by (simp add: run_chunks_concat)

end

definition feed_state :: "IrcFramer \<Rightarrow> bytes \<Rightarrow> IrcFramer" where
  "feed_state s x = fst (feed s x)"

definition feed_frames :: "IrcFramer \<Rightarrow> bytes \<Rightarrow> bytes list" where
  "feed_frames s x = frames (snd (feed s x))"

definition feed_rejections :: "IrcFramer \<Rightarrow> bytes \<Rightarrow> unit list" where
  "feed_rejections s x = map (\<lambda>_. ()) (faults (snd (feed s x)))"

lemma feed_frames_spec: "feed_frames s x = fst (snd (run_stream (discarding s) (pending s @ x)))"
  using feed_refines(2) [of s x] by (simp add: feed_frames_def seen_def prod_eq_iff)

lemma feed_rejections_spec:
  "feed_rejections s x = replicate (snd (snd (run_stream (discarding s) (pending s @ x)))) ()"
  using feed_refines(2) [of s x] by (simp add: feed_rejections_def seen_def prod_eq_iff map_replicate_const)

lemma feed_append:
  "feed_state s (x @ y) = feed_state (feed_state s x) y"
  "feed_frames s (x @ y) = feed_frames s x @ feed_frames (feed_state s x) y"
  "feed_rejections s (x @ y) = feed_rejections s x @ feed_rejections (feed_state s x) y"
  using run_stream_append [of "discarding s" "pending s @ x" y]
  by (simp_all add: feed_state_def feed_refines(1) feed_frames_spec feed_rejections_spec case_prod_beta
      Let_def add_seen_def replicate_add)

interpretation framer_frames: stream_decoder feed_state feed_frames
  by unfold_locales (simp_all add: feed_append)

interpretation framer_rejections: stream_decoder feed_state feed_rejections
  by unfold_locales (simp_all add: feed_append)

section \<open>Whole lines\<close>

definition crlf_terminated :: "bytes list \<Rightarrow> bytes" where
  "crlf_terminated ls = concat (map (\<lambda>l. l @ [CR, LF]) ls)"

lemma find_crlf_line: "find_crlf l = None \<Longrightarrow> find_crlf (l @ CR # LF # x) = Some (length l)"
  by (simp add: find_crlf_append_None find_crlf_Cons)

lemma run_stream_lines:
  "(\<forall>l \<in> set ls. find_crlf l = None) \<Longrightarrow>
     run_stream False (crlf_terminated ls) =
       (new_framer, filter frame_accepted ls, length (filter (\<lambda>l. \<not> frame_accepted l) ls))"
proof (induction ls)
  case Nil
  have "pending_fault [] = None"
    by (simp add: pending_fault_def pending_frame_is_overlong_def limit_defs)
  then show ?case by (simp add: crlf_terminated_def run_stream_None new_framer_def)
next
  case (Cons l ls)
  have "crlf_terminated (l # ls) = l @ CR # LF # crlf_terminated ls"
    by (simp add: crlf_terminated_def)
  with Cons show ?case
    by (simp add: run_stream_Some [OF find_crlf_line] add_seen_def frame_outcome_def)
qed

section \<open>Bounded memory\<close>

definition framer_bounded :: "IrcFramer \<Rightarrow> bool" where
  "framer_bounded s \<longleftrightarrow> length (pending s) \<le> 2 + MAX_TAG_SECTION_BYTES + (MAX_INBOUND_CLASSIC_FRAME_BYTES - 1)
     \<and> find_crlf (pending s) = None \<and> NUL \<notin> set (pending s)"

lemma not_overlong_length:
  "\<not> pending_frame_is_overlong r \<Longrightarrow>
     length r \<le> 2 + MAX_TAG_SECTION_BYTES + (MAX_INBOUND_CLASSIC_FRAME_BYTES - 1)"
  by (auto simp: pending_frame_is_overlong_def limit_defs split: if_splits option.splits)

lemma run_stream_bounded: "framer_bounded (fst (run_stream disc rest))"
proof (induction disc rest rule: run_stream.induct)
  case (1 disc rest)
  show ?case
  proof (cases "find_crlf rest")
    case (Some d)
    with "1.IH" [OF Some] show ?thesis by (simp add: run_stream_Some)
  next
    case None
    then show ?thesis
      using not_overlong_length [of rest]
      by (auto simp: run_stream_None framer_bounded_def retained_carriage_return_def pending_fault_def
          limit_defs split: if_splits)
  qed
qed

section \<open>Properties\<close>

text \<open>C4. How the byte stream is cut into reads is irrelevant: two ways of cutting the same bytes leave
  the framer in the same state, deliver the same frames in the same order and reject the same number
  of frames.\<close>

theorem framer_chunking:
  assumes "xs \<noteq> []" and "ys \<noteq> []" and "concat xs = concat ys"
  shows "run_chunks feed_state feed_frames s xs = run_chunks feed_state feed_frames s ys
    \<and> run_chunks feed_state feed_rejections s xs = run_chunks feed_state feed_rejections s ys"
  using assms framer_frames.chunking_irrelevant framer_rejections.chunking_irrelevant by blast

text \<open>C5. On a stream of whole lines a fresh framer delivers exactly the lines without a NUL that respect
  the limits, in order, records one fault for each other line, and ends with nothing pending.\<close>

theorem framer_lines:
  assumes "\<forall>l \<in> set ls. find_crlf l = None"
  shows "feed_frames new_framer (crlf_terminated ls) = filter frame_accepted ls
    \<and> length (feed_rejections new_framer (crlf_terminated ls)) = length (filter (\<lambda>l. \<not> frame_accepted l) ls)
    \<and> feed_state new_framer (crlf_terminated ls) = new_framer"
  using run_stream_lines [OF assms]
  by (simp add: feed_state_def feed_refines(1) feed_frames_spec feed_rejections_spec)
    (simp add: new_framer_def)

text \<open>C6. After any read from any state the framer holds at most 12288 bytes, with no NUL and no complete
  line among them: a peer cannot make it buffer without bound.\<close>

theorem framer_memory_bound:
  "length (pending (feed_state s x)) \<le> 12288 \<and> NUL \<notin> set (pending (feed_state s x))
   \<and> find_crlf (pending (feed_state s x)) = None"
  using run_stream_bounded [of "discarding s" "pending s @ x"]
  by (simp add: feed_state_def feed_refines(1) framer_bounded_def limit_defs)

section \<open>Witnesses\<close>

theorem framer_chunking_witness:
  "run_chunks feed_state feed_frames new_framer [''PIN'', ''G a'' @ [CR], LF # ''x''] =
   run_chunks feed_state feed_frames new_framer [''PING a'' @ [CR, LF] @ ''x'']"
  using framer_chunking [of "[''PIN'', ''G a'' @ [CR], LF # ''x'']" "[''PING a'' @ [CR, LF] @ ''x'']" new_framer]
  by simp

theorem framer_lines_witness:
  "feed_frames new_framer (crlf_terminated [''PING a'', [NUL], ''PING b'']) = [''PING a'', ''PING b'']"
proof -
  have "\<forall>l \<in> set [''PING a'', [NUL], ''PING b'']. find_crlf l = None" by code_simp
  from framer_lines [OF this]
  have "feed_frames new_framer (crlf_terminated [''PING a'', [NUL], ''PING b'']) =
      filter frame_accepted [''PING a'', [NUL], ''PING b'']" by blast
  also have "\<dots> = [''PING a'', ''PING b'']" by code_simp
  finally show ?thesis .
qed

end
