(* ===== verification/CaseMapping.thy ===== *)
theory CaseMapping
  imports Utf8
begin

text \<open>
  \<^verbatim>\<open>client/src/irc/casemapping.rs\<close>: comparison of nicks and channel names under the CASEMAPPING rule
  a server advertises. \<open>normalize_name\<close> maps scalar by scalar, as the source does; on a well-formed string
  it is a map over bytes. The locales \<open>name_equality\<close> and \<open>name_folding\<close> are the contract the clients
  of a mapping rely on; the mapping is interpreted in them below.
\<close>

section \<open>Definitions\<close>

datatype IrcCaseMappingKind = Rfc1459 | Ascii | Rfc1459Strict

record IrcCaseMapping =
  kind :: IrcCaseMappingKind

definition default_mapping :: IrcCaseMapping where
  "default_mapping = \<lparr>kind = Rfc1459\<rparr>"

definition from_name :: "string \<Rightarrow> IrcCaseMapping option" where
  "from_name name =
     (let lower = to_ascii_lowercase name in
      if lower = ''rfc1459'' then Some \<lparr>kind = Rfc1459\<rparr>
      else if lower = ''ascii'' then Some \<lparr>kind = Ascii\<rparr>
      else if lower = ''rfc1459-strict'' \<or> lower = ''strict-rfc1459'' then Some \<lparr>kind = Rfc1459Strict\<rparr>
      else None)"

definition normalized_character :: "scalar \<Rightarrow> IrcCaseMappingKind \<Rightarrow> scalar" where
  "normalized_character c k =
     (if 65 \<le> c \<and> c \<le> 90 then c + 32
      else if k = Ascii then c
      else if c = 91 then 123
      else if c = 93 then 125
      else if c = 92 then 124
      else if c = 94 \<and> k = Rfc1459 then 126
      else c)"

definition normalize_name :: "IrcCaseMapping \<Rightarrow> string \<Rightarrow> string" where
  "normalize_name mapping identifier =
     encode_utf8 (map (\<lambda>c. normalized_character c (kind mapping)) (chars identifier))"

definition equals :: "IrcCaseMapping \<Rightarrow> string \<Rightarrow> string \<Rightarrow> bool" where
  "equals mapping left right \<longleftrightarrow> normalize_name mapping left = normalize_name mapping right"

section \<open>Contracts\<close>

text \<open>Names are compared by an equivalence; a client that keeps at most one entry per name needs no
  more than this.\<close>

locale name_equality =
  fixes same :: "'n \<Rightarrow> 'n \<Rightarrow> bool"
  assumes same_refl [simp, intro]: "same x x"
    and same_sym: "same x y \<Longrightarrow> same y x"
    and same_trans: "same x y \<Longrightarrow> same y z \<Longrightarrow> same x z"
begin

lemma same_commute: "same x y \<longleftrightarrow> same y x"
  by (blast intro: same_sym)

lemma same_cong: "same x y \<Longrightarrow> same x z \<longleftrightarrow> same y z"
  by (blast intro: same_sym same_trans)

lemma remove_same_none: "\<not> (\<exists>y \<in> set (filter (\<lambda>y. \<not> same y x) ys). same x y)"
  by (auto intro: same_sym)

text \<open>A list holds each name at most once.\<close>

definition names_distinct :: "'n list \<Rightarrow> bool" where
  "names_distinct xs \<longleftrightarrow> (\<forall>i j. i < j \<longrightarrow> j < length xs \<longrightarrow> \<not> same (xs ! i) (xs ! j))"

lemma names_distinct_Cons:
  "names_distinct (x # xs) \<longleftrightarrow> (\<forall>y \<in> set xs. \<not> same x y) \<and> names_distinct xs"
proof
  assume d: "names_distinct (x # xs)"
  have "\<not> same x y" if "y \<in> set xs" for y
  proof -
    from that obtain j where "j < length xs" "xs ! j = y" by (auto simp: in_set_conv_nth)
    with d [unfolded names_distinct_def, rule_format, of 0 "Suc j"] show ?thesis by simp
  qed
  moreover have "names_distinct xs"
    unfolding names_distinct_def
    using d [unfolded names_distinct_def, rule_format, of "Suc _" "Suc _"] by simp
  ultimately show "(\<forall>y \<in> set xs. \<not> same x y) \<and> names_distinct xs" by blast
next
  assume "(\<forall>y \<in> set xs. \<not> same x y) \<and> names_distinct xs"
  then show "names_distinct (x # xs)"
    by (auto simp: names_distinct_def nth_Cons less_Suc_eq_0_disj split: nat.splits)
qed

lemma names_distinct_Nil [simp]: "names_distinct []"
  by (simp add: names_distinct_def)

end

text \<open>The stronger contract of a mapping: equality is decided by folding to a comparison form that is
  itself one of the names.\<close>

locale name_folding =
  fixes fold_name :: "'n \<Rightarrow> 'n" and same :: "'n \<Rightarrow> 'n \<Rightarrow> bool"
  assumes same_iff: "same x y \<longleftrightarrow> fold_name x = fold_name y"
    and fold_idem: "fold_name (fold_name x) = fold_name x"
begin

lemma same_fold: "same x (fold_name x)"
  by (simp add: same_iff fold_idem)

end

sublocale name_folding \<subseteq> name_equality same
  by unfold_locales (auto simp: same_iff)

section \<open>Facts\<close>

lemma normalized_character_idem [simp]:
  "normalized_character (normalized_character c k) k = normalized_character c k"
  by (auto simp: normalized_character_def)

lemma normalized_character_scalar: "is_scalar c \<Longrightarrow> is_scalar (normalized_character c k)"
  by (auto simp: normalized_character_def is_scalar_def)

lemma normalized_character_ascii: "normalized_character c k < 128 \<longleftrightarrow> c < 128"
  by (auto simp: normalized_character_def)

lemma chars_normalize: "chars (normalize_name m s) = map (\<lambda>c. normalized_character c (kind m)) (chars s)"
  unfolding normalize_name_def
  by (rule chars_encode) (auto dest: chars_scalars simp: normalized_character_scalar)

lemma normalize_name_idem: "normalize_name m (normalize_name m s) = normalize_name m s"
  by (simp add: normalize_name_def [of m "normalize_name m s"] chars_normalize comp_def)
    (simp add: normalize_name_def)

interpretation mapping: name_folding "normalize_name m" "equals m" for m
  by unfold_locales (simp_all add: equals_def normalize_name_idem)

lemma normalize_valid: "utf8_valid (normalize_name m s)"
  unfolding normalize_name_def
  by (rule utf8_valid_encode) (auto dest: chars_scalars simp: normalized_character_scalar)

definition normalized_byte :: "IrcCaseMappingKind \<Rightarrow> char \<Rightarrow> char" where
  "normalized_byte k b = (if code b < 128 then char_of (normalized_character (code b) k) else b)"

lemma encode_normalized:
  "is_scalar c \<Longrightarrow> encode_scalar (normalized_character c k) = map (normalized_byte k) (encode_scalar c)"
proof (cases "c < 128")
  case True
  then show ?thesis
    using normalized_character_ascii [of c k] by (simp add: encode_scalar_def normalized_byte_def)
next
  case False
  assume sc: "is_scalar c"
  from False have n: "normalized_character c k = c"
    by (auto simp: normalized_character_def)
  have "\<forall>b \<in> set (encode_scalar c). 128 \<le> code b"
  proof -
    have "128 + x < 256" if "x < 64" for x :: nat using that by simp
    moreover have "c < 2048 \<Longrightarrow> 192 + c div 64 < 256" "c < 65536 \<Longrightarrow> 224 + c div 4096 < 256"
      "240 + c div 262144 < 256"
      using sc by (auto simp: is_scalar_def)
    ultimately show ?thesis using False by (auto simp: encode_scalar_def)
  qed
  then have "map (normalized_byte k) (encode_scalar c) = encode_scalar c"
    by (intro map_idI) (auto simp: normalized_byte_def)
  with n show ?thesis by simp
qed

lemma normalize_bytewise:
  assumes "utf8_valid s"
  shows "normalize_name m s = map (normalized_byte (kind m)) s"
proof -
  from assms obtain cs where cs: "s = encode_utf8 cs" "\<forall>c \<in> set cs. is_scalar c" "chars s = cs"
    by (rule utf8_valid_obtain)
  show ?thesis
    unfolding normalize_name_def cs(3) unfolding cs(1)
    using cs(2) by (induction cs) (auto simp: encode_utf8_def encode_normalized)
qed

lemma equals_valid_length: "utf8_valid s \<Longrightarrow> utf8_valid t \<Longrightarrow> equals m s t \<Longrightarrow> length s = length t"
  by (metis equals_def length_map normalize_bytewise)

section \<open>Properties\<close>

text \<open>Under every mapping, comparison is an equivalence whose comparison form is idempotent and
  equal to the name it came from; on well-formed strings folding works byte by byte, so equal names
  have equal length and bytes outside ASCII never fold.\<close>

theorem case_mapping_equivalence:
  "equals m s s \<and> (equals m s t \<longrightarrow> equals m t s) \<and> (equals m s t \<and> equals m t u \<longrightarrow> equals m s u)
   \<and> equals m s (normalize_name m s) \<and> normalize_name m (normalize_name m s) = normalize_name m s
   \<and> (utf8_valid s \<longrightarrow> normalize_name m s = map (normalized_byte (kind m)) s)"
  using mapping.same_trans mapping.same_sym mapping.same_fold normalize_name_idem normalize_bytewise
  by blast

text \<open>The three rules are nested: what ASCII folding identifies, strict RFC 1459 identifies, and
  what strict RFC 1459 identifies, RFC 1459 identifies.\<close>

theorem case_mapping_nested:
  "(equals \<lparr>kind = Ascii\<rparr> s t \<longrightarrow> equals \<lparr>kind = Rfc1459Strict\<rparr> s t)
   \<and> (equals \<lparr>kind = Rfc1459Strict\<rparr> s t \<longrightarrow> equals \<lparr>kind = Rfc1459\<rparr> s t)"
proof -
  have step: "equals m' s t" if m: "equals m s t"
    and n: "\<And>c. normalized_character (normalized_character c (kind m)) (kind m') = normalized_character c (kind m')"
    for m m' :: IrcCaseMapping
  proof -
    have "normalize_name m' (normalize_name m x) = normalize_name m' x" for x
      by (simp add: normalize_name_def [of m' "normalize_name m x"] chars_normalize comp_def n)
        (simp add: normalize_name_def)
    then show ?thesis using m by (metis equals_def)
  qed
  show ?thesis
    by (auto intro!: step [of "\<lparr>kind = Ascii\<rparr>" "\<lparr>kind = Rfc1459Strict\<rparr>"]
        step [of "\<lparr>kind = Rfc1459Strict\<rparr>" "\<lparr>kind = Rfc1459\<rparr>"] simp: normalized_character_def)
qed

section \<open>Witnesses\<close>

theorem case_mapping_equivalence_witness:
  "equals \<lparr>kind = Rfc1459\<rparr> ''nick{}~'' ''Nick[]^''
   \<and> normalize_name \<lparr>kind = Rfc1459\<rparr> ''Nick[]^'' = map (normalized_byte Rfc1459) ''Nick[]^''"
proof -
  have "equals \<lparr>kind = Rfc1459\<rparr> ''Nick[]^'' ''nick{}~''" by code_simp
  moreover have "utf8_valid ''Nick[]^''" by code_simp
  ultimately show ?thesis
    using case_mapping_equivalence [of "\<lparr>kind = Rfc1459\<rparr>" "''Nick[]^''" "''nick{}~''" "''nick{}~''"]
    by simp
qed

theorem case_mapping_nested_witness:
  "equals \<lparr>kind = Rfc1459Strict\<rparr> ''Nick'' ''nICK''"
proof -
  have "equals \<lparr>kind = Ascii\<rparr> ''Nick'' ''nICK''" by code_simp
  then show ?thesis using case_mapping_nested by blast
qed

end
