(* ===== verification/Capability.thy ===== *)
theory Capability
  imports Prelude
begin

text \<open>
  \<^verbatim>\<open>client/src/irc/capability.rs\<close>: the IRCv3 capabilities the client knows, and a set of them packed into
  the bits of a \<open>u32\<close>. The locale \<open>packed_set\<close> is what the users of such a set rely on: inserting and
  removing act as on a set. It is interpreted on the capability set here and on the rank set of
  \<^verbatim>\<open>serverfeatures.rs\<close> in its own theory.
\<close>

unbundle bit_operations_syntax

section \<open>Definitions\<close>

datatype IrcCapability = Sasl | AwayNotify | Batch | MemberMetadata | MessageTags | MultiPrefix
  | Chghost | CapNotify | EchoMessage | ChatHistory | ServerTime | LabeledResponse | AccountTag
  | AccountNotify | ExtendedJoin | ReadMarker | ZncPlayback

text \<open>The discriminant of each variant, \<open>self as u32\<close>.\<close>

fun discriminant :: "IrcCapability \<Rightarrow> nat" where
  "discriminant Sasl = 0"
| "discriminant AwayNotify = 1"
| "discriminant Batch = 2"
| "discriminant MemberMetadata = 3"
| "discriminant MessageTags = 4"
| "discriminant MultiPrefix = 5"
| "discriminant Chghost = 6"
| "discriminant CapNotify = 7"
| "discriminant EchoMessage = 8"
| "discriminant ChatHistory = 9"
| "discriminant ServerTime = 10"
| "discriminant LabeledResponse = 11"
| "discriminant AccountTag = 12"
| "discriminant AccountNotify = 13"
| "discriminant ExtendedJoin = 14"
| "discriminant ReadMarker = 15"
| "discriminant ZncPlayback = 16"

definition capability_bit :: "IrcCapability \<Rightarrow> 32 word" where
  "capability_bit c = push_bit (discriminant c) 1"

type_synonym IrcCapabilitySet = "32 word"

definition empty_capabilities :: IrcCapabilitySet where
  "empty_capabilities = 0"

definition cap_contains :: "IrcCapabilitySet \<Rightarrow> IrcCapability \<Rightarrow> bool" where
  "cap_contains s c \<longleftrightarrow> s AND capability_bit c \<noteq> 0"

definition cap_insert :: "IrcCapability \<Rightarrow> IrcCapabilitySet \<Rightarrow> IrcCapabilitySet" where
  "cap_insert c s = s OR capability_bit c"

definition cap_remove :: "IrcCapability \<Rightarrow> IrcCapabilitySet \<Rightarrow> IrcCapabilitySet" where
  "cap_remove c s = s AND NOT (capability_bit c)"

definition cap_is_empty :: "IrcCapabilitySet \<Rightarrow> bool" where
  "cap_is_empty s \<longleftrightarrow> s = 0"

section \<open>The contract of a packed set\<close>

locale packed_set =
  fixes none :: 's and put :: "'e \<Rightarrow> 's \<Rightarrow> 's" and erase :: "'e \<Rightarrow> 's \<Rightarrow> 's"
    and has :: "'s \<Rightarrow> 'e \<Rightarrow> bool"
  assumes has_none [simp]: "\<not> has none e"
    and has_put [simp]: "has (put e s) x \<longleftrightarrow> x = e \<or> has s x"
    and has_erase [simp]: "has (erase e s) x \<longleftrightarrow> x \<noteq> e \<and> has s x"
begin

lemma has_fold_put: "has (fold put es s) x \<longleftrightarrow> x \<in> set es \<or> has s x"
  by (induction es arbitrary: s) auto

lemma has_put_list: "has (fold put es none) x \<longleftrightarrow> x \<in> set es"
  by (simp add: has_fold_put)

lemma put_twice: "has (put e (put e s)) = has (put e s)"
  by auto

end

section \<open>Facts\<close>

lemma discriminant_bound: "discriminant c < 17"
  by (cases c) auto

lemma discriminant_inj: "discriminant c = discriminant d \<longleftrightarrow> c = d"
  by (cases c; cases d) auto

lemma cap_contains_bit: "cap_contains s c \<longleftrightarrow> bit s (discriminant c)"
  by (simp add: cap_contains_def capability_bit_def bit_iff_and_push_bit_not_eq_0)

lemma discriminant_less_32: "discriminant c < 32"
  using discriminant_bound [of c] by simp

lemma bit_capability_bit: "bit (capability_bit c) n \<longleftrightarrow> n = discriminant c"
  using discriminant_less_32 [of c] by (auto simp: capability_bit_def bit_exp_iff possible_bit_def)

interpretation capabilities: packed_set empty_capabilities cap_insert cap_remove cap_contains
  by unfold_locales
    (auto simp: cap_contains_bit empty_capabilities_def cap_insert_def cap_remove_def bit_or_iff
      bit_and_iff bit_not_iff bit_capability_bit discriminant_inj discriminant_less_32 possible_bit_def)

end
