(* ===== verification/Negotiation.thy ===== *)
theory Negotiation
  imports Capability
begin

text \<open>
  \<^verbatim>\<open>client/src/irc/capabilitynegotiation.rs\<close>: one CAP LS / REQ / ACK / NAK exchange as a state machine over
  the tokens of a fixed policy table. Each operation over a slice of tokens is a fold of its loop body.
  The step relation \<open>neg_step\<close> has one rule per operation; \<open>neg_inv\<close> is its invariant.
\<close>

section \<open>Data\<close>

record IrcCapabilityRequest =
  req_lines :: "string list"
  requests_sasl :: bool
  sasl_mechanism :: "string option"

datatype TokenState = Advertised | Requested | Enabled | Refused

record Wanted =
  w_capability :: IrcCapability
  w_token :: string
  w_dependency :: "IrcCapability option"
  w_needs_credentials :: bool
  w_own_request_line :: bool
  w_accepts_value :: "string \<Rightarrow> bool"

section \<open>Policy\<close>

definition accepts_any_value :: "string \<Rightarrow> bool" where
  "accepts_any_value value \<longleftrightarrow> True"

definition sasl_value_lists :: "string \<Rightarrow> string \<Rightarrow> bool" where
  "sasl_value_lists value mechanism \<longleftrightarrow>
     (\<exists>offered \<in> set (split_by (\<lambda>c. c = CHR '','') value).
        offered \<noteq> [] \<and> eq_ignore_ascii_case offered mechanism)"

definition accepts_sasl_value :: "string \<Rightarrow> bool" where
  "accepts_sasl_value value \<longleftrightarrow>
     value = [] \<or> sasl_value_lists value ''PLAIN'' \<or> sasl_value_lists value ''SCRAM-SHA-256''"

definition chosen_sasl_mechanism :: "string \<Rightarrow> string" where
  "chosen_sasl_mechanism value =
     (if sasl_value_lists value ''SCRAM-SHA-256'' then ''SCRAM-SHA-256'' else ''PLAIN'')"

definition wanted_new :: "IrcCapability \<Rightarrow> string \<Rightarrow> Wanted" where
  "wanted_new c t = \<lparr>w_capability = c, w_token = t, w_dependency = None, w_needs_credentials = False,
     w_own_request_line = False, w_accepts_value = accepts_any_value\<rparr>"

definition depends_on :: "IrcCapability \<Rightarrow> Wanted \<Rightarrow> Wanted" where
  "depends_on d w = w\<lparr>w_dependency := Some d\<rparr>"

definition needs_credentials :: "Wanted \<Rightarrow> Wanted" where
  "needs_credentials w = w\<lparr>w_needs_credentials := True\<rparr>"

definition own_line :: "Wanted \<Rightarrow> Wanted" where
  "own_line w = w\<lparr>w_own_request_line := True\<rparr>"

definition accepts :: "(string \<Rightarrow> bool) \<Rightarrow> Wanted \<Rightarrow> Wanted" where
  "accepts p w = w\<lparr>w_accepts_value := p\<rparr>"

definition WANTED :: "Wanted list" where
  "WANTED =
    [accepts accepts_sasl_value (own_line (needs_credentials (wanted_new Sasl ''sasl''))),
     wanted_new AwayNotify ''away-notify'',
     wanted_new Batch ''batch'',
     depends_on Batch (wanted_new MemberMetadata ''draft/metadata-2''),
     own_line (wanted_new MessageTags ''message-tags''),
     wanted_new MultiPrefix ''multi-prefix'',
     wanted_new Chghost ''chghost'',
     wanted_new CapNotify ''cap-notify'',
     wanted_new EchoMessage ''echo-message'',
     own_line (wanted_new ServerTime ''server-time''),
     depends_on Batch (wanted_new ChatHistory ''chathistory''),
     depends_on Batch (wanted_new ChatHistory ''draft/chathistory''),
     own_line (depends_on Batch (wanted_new ZncPlayback ''znc.in/playback'')),
     own_line (depends_on MessageTags (wanted_new LabeledResponse ''labeled-response'')),
     depends_on MessageTags (wanted_new AccountTag ''account-tag''),
     wanted_new AccountNotify ''account-notify'',
     wanted_new ExtendedJoin ''extended-join'',
     wanted_new ReadMarker ''draft/read-marker'',
     wanted_new ReadMarker ''soju.im/read'']"

definition wanted_for :: "string \<Rightarrow> Wanted option" where
  "wanted_for name = List.find (\<lambda>w. eq_ignore_ascii_case (w_token w) name) WANTED"

definition token_name :: "string \<Rightarrow> string" where
  "token_name token =
     (let name = (case split_once (CHR ''='') token of None \<Rightarrow> token | Some (n, _) \<Rightarrow> n)
      in case strip_prefix ''-'' name of Some n \<Rightarrow> n | None \<Rightarrow> name)"

definition token_value :: "string \<Rightarrow> string" where
  "token_value token = (case split_once (CHR ''='') token of None \<Rightarrow> [] | Some (_, v) \<Rightarrow> v)"

section \<open>State and operations\<close>

record IrcCapabilityNegotiation =
  tokens :: "(string, TokenState) hashmap"
  sasl_advertised_value :: string
  sasl_credentials_available :: bool

definition new_negotiation :: "bool \<Rightarrow> IrcCapabilityNegotiation" where
  "new_negotiation credentials =
     \<lparr>tokens = [], sasl_advertised_value = [], sasl_credentials_available = credentials\<rparr>"

definition reset_negotiation :: "IrcCapabilityNegotiation \<Rightarrow> bool \<Rightarrow> IrcCapabilityNegotiation" where
  "reset_negotiation n credentials = new_negotiation credentials"

definition state_of :: "IrcCapabilityNegotiation \<Rightarrow> string \<Rightarrow> TokenState option" where
  "state_of n token = hm_get (tokens n) token"

definition set_state :: "string \<Rightarrow> TokenState \<Rightarrow> IrcCapabilityNegotiation \<Rightarrow> IrcCapabilityNegotiation" where
  "set_state token st n = n\<lparr>tokens := hm_insert token st (tokens n)\<rparr>"

definition any_token :: "IrcCapabilityNegotiation \<Rightarrow> IrcCapability \<Rightarrow> TokenState list \<Rightarrow> bool" where
  "any_token n c states \<longleftrightarrow>
     (\<exists>w \<in> set (filter (\<lambda>w. w_capability w = c) WANTED).
        case state_of n (w_token w) of None \<Rightarrow> False | Some st \<Rightarrow> st \<in> set states)"

definition is_requestable :: "IrcCapabilityNegotiation \<Rightarrow> Wanted \<Rightarrow> bool" where
  "is_requestable n w \<longleftrightarrow>
     state_of n (w_token w) = Some Advertised
     \<and> \<not> any_token n (w_capability w) [Enabled, Requested]
     \<and> \<not> (w_needs_credentials w \<and> \<not> sasl_credentials_available n)
     \<and> (case w_dependency w of
          None \<Rightarrow> True
        | Some d \<Rightarrow> any_token n d [Advertised, Requested, Enabled])"

definition advertise_one :: "IrcCapabilityNegotiation \<Rightarrow> string \<Rightarrow> IrcCapabilityNegotiation" where
  "advertise_one n token =
     (case wanted_for (token_name token) of
        None \<Rightarrow> n
      | Some w \<Rightarrow>
          let value = token_value token in
          if \<not> w_accepts_value w value then n
          else if state_of n (w_token w) \<in> {Some Enabled, Some Requested} then n
          else let n' = (if w_capability w = Sasl then n\<lparr>sasl_advertised_value := value\<rparr> else n)
               in set_state (w_token w) Advertised n')"

definition advertise :: "IrcCapabilityNegotiation \<Rightarrow> string list \<Rightarrow> IrcCapabilityNegotiation" where
  "advertise n toks = foldl advertise_one n toks"

definition withdraw_one :: "IrcCapabilityNegotiation \<Rightarrow> string \<Rightarrow> IrcCapabilityNegotiation" where
  "withdraw_one n token =
     (case wanted_for (token_name token) of
        None \<Rightarrow> n
      | Some w \<Rightarrow>
          let n' = (if w_capability w = Sasl then n\<lparr>sasl_advertised_value := []\<rparr> else n)
          in n'\<lparr>tokens := hm_remove (w_token w) (tokens n')\<rparr>)"

definition withdraw :: "IrcCapabilityNegotiation \<Rightarrow> string list \<Rightarrow> IrcCapabilityNegotiation" where
  "withdraw n toks = foldl withdraw_one n toks"

definition take_request_one ::
  "IrcCapabilityNegotiation \<times> IrcCapabilityRequest \<times> string list \<Rightarrow> Wanted \<Rightarrow>
   IrcCapabilityNegotiation \<times> IrcCapabilityRequest \<times> string list" where
  "take_request_one acc w =
     (case acc of (n, request, presence) \<Rightarrow>
        if \<not> is_requestable n w then (n, request, presence)
        else
          let request1 = (if w_own_request_line w
                then request\<lparr>req_lines := req_lines request @ [w_token w]\<rparr> else request);
              presence1 = (if w_own_request_line w then presence else presence @ [w_token w]);
              request2 = (if w_capability w = Sasl
                then request1\<lparr>requests_sasl := True,
                       sasl_mechanism := Some (chosen_sasl_mechanism (sasl_advertised_value n))\<rparr>
                else request1)
          in (set_state (w_token w) Requested n, request2, presence1))"

definition empty_request :: IrcCapabilityRequest where
  "empty_request = \<lparr>req_lines = [], requests_sasl = False, sasl_mechanism = None\<rparr>"

definition take_request :: "IrcCapabilityNegotiation \<Rightarrow> IrcCapabilityNegotiation \<times> IrcCapabilityRequest" where
  "take_request n =
     (case foldl take_request_one (n, empty_request, []) WANTED of
        (n', request, presence) \<Rightarrow>
          (n', if presence = [] then request
               else request\<lparr>req_lines := req_lines request @ [join_with '' '' presence]\<rparr>))"

definition acknowledge_one ::
  "IrcCapabilityNegotiation \<times> IrcCapabilitySet \<Rightarrow> string \<Rightarrow> IrcCapabilityNegotiation \<times> IrcCapabilitySet" where
  "acknowledge_one acc token =
     (case acc of (n, newly) \<Rightarrow>
        case wanted_for (token_name token) of
          None \<Rightarrow> (n, newly)
        | Some w \<Rightarrow>
            let st = state_of n (w_token w) in
            if starts_with ''-'' token then
              (if st = Some Enabled then set_state (w_token w) Refused n else n, newly)
            else if st \<noteq> Some Requested then (n, newly)
            else let was_enabled = any_token n (w_capability w) [Enabled]
                 in (set_state (w_token w) Enabled n,
                     if was_enabled then newly else cap_insert (w_capability w) newly))"

definition acknowledge ::
  "IrcCapabilityNegotiation \<Rightarrow> string list \<Rightarrow> IrcCapabilityNegotiation \<times> IrcCapabilitySet" where
  "acknowledge n toks = foldl acknowledge_one (n, empty_capabilities) toks"

definition reject_one ::
  "IrcCapabilityNegotiation \<times> IrcCapabilitySet \<Rightarrow> string \<Rightarrow> IrcCapabilityNegotiation \<times> IrcCapabilitySet" where
  "reject_one acc token =
     (case acc of (n, refused) \<Rightarrow>
        case wanted_for (token_name token) of
          None \<Rightarrow> (n, refused)
        | Some w \<Rightarrow>
            if state_of n (w_token w) \<noteq> Some Requested then (n, refused)
            else (set_state (w_token w) Refused n, cap_insert (w_capability w) refused))"

definition reject ::
  "IrcCapabilityNegotiation \<Rightarrow> string list \<Rightarrow> IrcCapabilityNegotiation \<times> IrcCapabilitySet" where
  "reject n toks = foldl reject_one (n, empty_capabilities) toks"

definition abandon_one ::
  "IrcCapabilityNegotiation \<times> IrcCapabilitySet \<Rightarrow> Wanted \<Rightarrow> IrcCapabilityNegotiation \<times> IrcCapabilitySet" where
  "abandon_one acc w =
     (case acc of (n, abandoned) \<Rightarrow>
        if state_of n (w_token w) \<noteq> Some Requested then (n, abandoned)
        else (set_state (w_token w) Refused n, cap_insert (w_capability w) abandoned))"

definition abandon_outstanding :: "IrcCapabilityNegotiation \<Rightarrow> IrcCapabilityNegotiation \<times> IrcCapabilitySet" where
  "abandon_outstanding n = foldl abandon_one (n, empty_capabilities) WANTED"

definition settled :: "IrcCapabilityNegotiation \<Rightarrow> bool" where
  "settled n \<longleftrightarrow> \<not> (\<exists>st \<in> set (map snd (tokens n)). st = Requested)"

definition enabled :: "IrcCapabilityNegotiation \<Rightarrow> IrcCapabilitySet" where
  "enabled n = foldl (\<lambda>s w. if state_of n (w_token w) = Some Enabled
                            then cap_insert (w_capability w) s else s) empty_capabilities WANTED"

section \<open>Basic facts\<close>

named_theorems neg_simps \<open>how the token operations change what can be observed\<close>

lemma state_of_set_state [simp, neg_simps]:
  "state_of (set_state t st n) t' = (if t' = t then Some st else state_of n t')"
  by (simp add: state_of_def set_state_def)

lemma set_state_other [simp, neg_simps]:
  "sasl_credentials_available (set_state t st n) = sasl_credentials_available n"
  "sasl_advertised_value (set_state t st n) = sasl_advertised_value n"
  by (simp_all add: set_state_def)

lemma state_of_sasl_value [simp, neg_simps]:
  "state_of (n\<lparr>sasl_advertised_value := v\<rparr>) t = state_of n t"
  by (simp add: state_of_def)

lemma state_of_remove [simp, neg_simps]:
  "state_of (n\<lparr>tokens := hm_remove t (tokens n)\<rparr>) t' = (if t' = t then None else state_of n t')"
  by (simp add: state_of_def)

lemma WANTED_tokens_distinct: "distinct (map w_token WANTED)"
  by code_simp

lemma WANTED_token_eq: "w \<in> set WANTED \<Longrightarrow> w' \<in> set WANTED \<Longrightarrow> w_token w = w_token w' \<longleftrightarrow> w = w'"
  using WANTED_tokens_distinct by (auto simp: distinct_map inj_on_def)

lemma WANTED_token_nospace: "w \<in> set WANTED \<Longrightarrow> CHR '' '' \<notin> set (w_token w) \<and> w_token w \<noteq> []"
proof -
  have "\<forall>t \<in> set (map w_token WANTED). CHR '' '' \<notin> set t \<and> t \<noteq> []" by code_simp
  then show "w \<in> set WANTED \<Longrightarrow> CHR '' '' \<notin> set (w_token w) \<and> w_token w \<noteq> []" by auto
qed

lemma wanted_for_in: "wanted_for name = Some w \<Longrightarrow> w \<in> set WANTED"
  by (auto simp: wanted_for_def find_Some_iff)

lemma any_token_iff:
  "any_token n c states \<longleftrightarrow>
     (\<exists>w \<in> set WANTED. w_capability w = c \<and> (\<exists>st \<in> set states. state_of n (w_token w) = Some st))"
  by (auto simp: any_token_def split: option.splits)

lemma enabled_iff:
  "cap_contains (enabled n) c \<longleftrightarrow>
     (\<exists>w \<in> set WANTED. w_capability w = c \<and> state_of n (w_token w) = Some Enabled)"
proof -
  have "cap_contains (foldl (\<lambda>s w. if state_of n (w_token w) = Some Enabled
      then cap_insert (w_capability w) s else s) s ws) c
    \<longleftrightarrow> cap_contains s c \<or> (\<exists>w \<in> set ws. w_capability w = c \<and> state_of n (w_token w) = Some Enabled)"
    for s ws
    by (induction ws arbitrary: s) auto
  from this [of empty_capabilities WANTED] show ?thesis
    unfolding enabled_def by (simp only: capabilities.has_none simp_thms)
qed

section \<open>The invariant\<close>

definition active :: "IrcCapabilityNegotiation \<Rightarrow> Wanted \<Rightarrow> bool" where
  "active n w \<longleftrightarrow> state_of n (w_token w) = Some Requested \<or> state_of n (w_token w) = Some Enabled"

definition neg_inv :: "IrcCapabilityNegotiation \<Rightarrow> bool" where
  "neg_inv n \<longleftrightarrow>
     hm_wf (tokens n) \<and>
     (\<forall>t. state_of n t \<noteq> None \<longrightarrow> t \<in> w_token ` set WANTED) \<and>
     (\<forall>w \<in> set WANTED. \<forall>w' \<in> set WANTED.
        w_capability w = w_capability w' \<longrightarrow> active n w \<longrightarrow> active n w' \<longrightarrow> w = w') \<and>
     (\<forall>w \<in> set WANTED. w_needs_credentials w \<longrightarrow> active n w \<longrightarrow> sasl_credentials_available n)"

lemma active_set_state:
  "w \<in> set WANTED \<Longrightarrow> w' \<in> set WANTED \<Longrightarrow>
     active (set_state (w_token w) st n) w' \<longleftrightarrow>
       (if w' = w then st = Requested \<or> st = Enabled else active n w')"
  by (auto simp: active_def WANTED_token_eq)

lemma neg_inv_new: "neg_inv (new_negotiation c)"
  by (simp add: neg_inv_def new_negotiation_def state_of_def active_def)

lemma hm_wf_set_state [simp]: "hm_wf (tokens n) \<Longrightarrow> hm_wf (tokens (set_state t st n))"
  by (simp add: set_state_def)

lemma neg_inv_set_inactive:
  "neg_inv n \<Longrightarrow> w \<in> set WANTED \<Longrightarrow> st \<noteq> Requested \<Longrightarrow> st \<noteq> Enabled \<Longrightarrow>
     neg_inv (set_state (w_token w) st n)"
  by (auto simp: neg_inv_def active_set_state)

lemma neg_inv_set_active:
  "neg_inv n \<Longrightarrow> w \<in> set WANTED \<Longrightarrow> active n w \<Longrightarrow> neg_inv (set_state (w_token w) st n)"
  by (auto simp: neg_inv_def active_set_state)

lemma is_requestable_inactive:
  "is_requestable n w \<Longrightarrow> w' \<in> set WANTED \<Longrightarrow> w_capability w' = w_capability w \<Longrightarrow> \<not> active n w'"
  by (auto simp: is_requestable_def any_token_iff active_def)

lemma neg_inv_request:
  assumes "neg_inv n" "w \<in> set WANTED" "is_requestable n w"
  shows "neg_inv (set_state (w_token w) Requested n)"
proof -
  have "w_needs_credentials w \<Longrightarrow> sasl_credentials_available n"
    using assms(3) by (auto simp: is_requestable_def)
  with assms is_requestable_inactive [OF assms(3)] show ?thesis
    by (auto simp: neg_inv_def active_set_state)
qed

lemma neg_inv_sasl_value: "neg_inv n \<Longrightarrow> neg_inv (n\<lparr>sasl_advertised_value := v\<rparr>)"
  by (simp add: neg_inv_def active_def)

lemma neg_inv_remove:
  "neg_inv n \<Longrightarrow> neg_inv (n\<lparr>tokens := hm_remove t (tokens n)\<rparr>)"
  by (simp add: neg_inv_def active_def)

lemma neg_inv_advertise_one: "neg_inv n \<Longrightarrow> neg_inv (advertise_one n tok)"
  by (auto simp: advertise_one_def Let_def dest: wanted_for_in
      intro!: neg_inv_set_inactive neg_inv_sasl_value split: option.splits)

lemma neg_inv_withdraw_one: "neg_inv n \<Longrightarrow> neg_inv (withdraw_one n tok)"
  by (auto simp: withdraw_one_def Let_def intro: neg_inv_remove neg_inv_remove [of "_\<lparr>sasl_advertised_value := _\<rparr>", simplified] neg_inv_sasl_value
      split: option.splits)

lemma neg_inv_acknowledge_one: "neg_inv (fst acc) \<Longrightarrow> neg_inv (fst (acknowledge_one acc tok))"
  by (cases acc) (auto simp: acknowledge_one_def Let_def active_def dest: wanted_for_in
      intro!: neg_inv_set_inactive neg_inv_set_active split: option.splits)

lemma neg_inv_reject_one: "neg_inv (fst acc) \<Longrightarrow> neg_inv (fst (reject_one acc tok))"
  by (cases acc) (auto simp: reject_one_def dest: wanted_for_in intro!: neg_inv_set_inactive
      split: option.splits)

lemma neg_inv_abandon_one:
  "neg_inv (fst acc) \<Longrightarrow> w \<in> set WANTED \<Longrightarrow> neg_inv (fst (abandon_one acc w))"
  by (cases acc) (auto simp: abandon_one_def intro!: neg_inv_set_inactive)

lemma neg_inv_take_request_one:
  "neg_inv (fst acc) \<Longrightarrow> w \<in> set WANTED \<Longrightarrow> neg_inv (fst (take_request_one acc w))"
  by (cases acc) (auto simp: take_request_one_def Let_def intro: neg_inv_request)

lemma fst_take_request: "fst (take_request n) = fst (foldl take_request_one (n, empty_request, []) WANTED)"
  by (simp add: take_request_def case_prod_beta)

lemma neg_inv_ops:
  assumes "neg_inv n"
  shows "neg_inv (advertise n toks)" "neg_inv (withdraw n toks)" "neg_inv (fst (take_request n))"
    "neg_inv (fst (acknowledge n toks))" "neg_inv (fst (reject n toks))"
    "neg_inv (fst (abandon_outstanding n))"
  unfolding advertise_def withdraw_def acknowledge_def reject_def abandon_outstanding_def fst_take_request
  using assms
  by (auto intro!: foldl_invariant [where P = neg_inv] foldl_invariant [where P = "\<lambda>acc. neg_inv (fst acc)"]
      neg_inv_advertise_one neg_inv_withdraw_one neg_inv_acknowledge_one neg_inv_reject_one
      neg_inv_abandon_one neg_inv_take_request_one)

section \<open>The step relation\<close>

inductive neg_step :: "IrcCapabilityNegotiation \<Rightarrow> IrcCapabilityNegotiation \<Rightarrow> bool" where
  ls: "neg_step n (advertise n toks)"
| del: "neg_step n (withdraw n toks)"
| req: "neg_step n (fst (take_request n))"
| ack: "neg_step n (fst (acknowledge n toks))"
| nak: "neg_step n (fst (reject n toks))"
| timeout: "neg_step n (fst (abandon_outstanding n))"
| reconnect: "neg_step n (reset_negotiation n credentials)"

inductive neg_reachable :: "IrcCapabilityNegotiation \<Rightarrow> bool" where
  start: "neg_reachable (new_negotiation credentials)"
| step: "neg_reachable n \<Longrightarrow> neg_step n n' \<Longrightarrow> neg_reachable n'"

inductive_cases neg_stepE: "neg_step n n'"

lemma neg_step_inv: "neg_step n n' \<Longrightarrow> neg_inv n \<Longrightarrow> neg_inv n'"
  by (erule neg_stepE) (auto simp: neg_inv_ops reset_negotiation_def neg_inv_new)

lemma neg_reachable_inv: "neg_reachable n \<Longrightarrow> neg_inv n"
  by (induction rule: neg_reachable.induct) (auto simp: neg_inv_new intro: neg_step_inv)

section \<open>Requests\<close>

lemma any_token_request:
  assumes "w \<in> set WANTED" "state_of n (w_token w) = Some Advertised"
  shows "any_token (set_state (w_token w) Requested n) d [Advertised, Requested, Enabled]
       \<longleftrightarrow> any_token n d [Advertised, Requested, Enabled]"
    and "any_token n d [Enabled, Requested] \<Longrightarrow>
       any_token (set_state (w_token w) Requested n) d [Enabled, Requested]"
  using assms by (auto simp: any_token_iff)

lemma not_requestable_step:
  assumes "w \<in> set WANTED" "w' \<in> set WANTED" "\<not> is_requestable n w" "is_requestable n w'"
  shows "\<not> is_requestable (set_state (w_token w') Requested n) w"
proof
  assume req: "is_requestable (set_state (w_token w') Requested n) w"
  then have ne: "w_token w \<noteq> w_token w'" by (auto simp: is_requestable_def)
  have adv: "state_of n (w_token w') = Some Advertised"
    using assms(4) by (simp add: is_requestable_def)
  have "is_requestable n w"
    using req ne any_token_request [OF assms(2) adv]
    by (auto simp: is_requestable_def split: option.splits)
  with assms(3) show False by contradiction
qed

lemma requested_not_requestable: "\<not> is_requestable (set_state (w_token w) Requested n) w"
  by (simp add: is_requestable_def)

lemma fst_take_request_one:
  "fst (take_request_one acc w) =
     (if is_requestable (fst acc) w then set_state (w_token w) Requested (fst acc) else fst acc)"
  by (cases acc) (simp add: take_request_one_def Let_def)

lemma take_request_exhausts_list:
  "D \<union> set ws \<subseteq> set WANTED \<Longrightarrow> (\<forall>w \<in> D. \<not> is_requestable (fst acc) w) \<Longrightarrow>
     \<forall>w \<in> D \<union> set ws. \<not> is_requestable (fst (foldl take_request_one acc ws)) w"
proof (induction ws arbitrary: acc D)
  case Nil
  then show ?case by simp
next
  case (Cons w ws)
  have "\<not> is_requestable (fst (take_request_one acc w)) v" if v: "v \<in> insert w D" for v
  proof (cases "is_requestable (fst acc) w")
    case True
    have "\<not> is_requestable (set_state (w_token w) Requested (fst acc)) v"
    proof (cases "v = w")
      case False
      with v Cons.prems True show ?thesis by (intro not_requestable_step) auto
    qed (simp add: requested_not_requestable)
    with True show ?thesis by (simp add: fst_take_request_one)
  next
    case False
    with v Cons.prems(2) show ?thesis by (auto simp: fst_take_request_one)
  qed
  then have "\<forall>v \<in> insert w D. \<not> is_requestable (fst (take_request_one acc w)) v" by blast
  with Cons.IH [of "insert w D" "take_request_one acc w"] Cons.prems(1) show ?case by auto
qed

lemma take_request_exhausts: "w \<in> set WANTED \<Longrightarrow> \<not> is_requestable (fst (take_request n)) w"
  using take_request_exhausts_list [of "{}" WANTED "(n, empty_request, [])"]
  by (simp add: fst_take_request)

lemma take_request_nothing:
  assumes "\<forall>w \<in> set WANTED. \<not> is_requestable n w"
  shows "take_request n = (n, empty_request)"
proof -
  have "foldl take_request_one (n, empty_request, []) WANTED = (n, empty_request, [])"
    using assms by (intro foldl_stable) (simp add: take_request_one_def)
  then show ?thesis by (simp add: take_request_def)
qed

text \<open>The tokens a request names, word by word.\<close>

definition request_words :: "IrcCapabilityRequest \<Rightarrow> string list" where
  "request_words r = concat (map (split_by (\<lambda>c. c = CHR '' '')) (req_lines r))"

definition request_loop_inv where
  "request_loop_inv n0 acc \<longleftrightarrow>
     (case acc of (n, r, presence) \<Rightarrow>
        (\<forall>t. state_of n t \<noteq> state_of n0 t \<longrightarrow> state_of n t = Some Requested) \<and>
        set (req_lines r) \<union> set presence =
          {t. state_of n t = Some Requested \<and> state_of n0 t \<noteq> Some Requested} \<and>
        set (req_lines r) \<union> set presence \<subseteq> w_token ` set WANTED \<and>
        sasl_credentials_available n = sasl_credentials_available n0 \<and>
        sasl_advertised_value n = sasl_advertised_value n0 \<and>
        (requests_sasl r \<longrightarrow> sasl_credentials_available n0) \<and>
        sasl_mechanism r = (if requests_sasl r then Some (chosen_sasl_mechanism (sasl_advertised_value n0))
                            else None))"

lemma sasl_needs_credentials: "w \<in> set WANTED \<Longrightarrow> w_capability w = Sasl \<Longrightarrow> w_needs_credentials w"
proof -
  have "\<forall>w \<in> set WANTED. w_capability w = Sasl \<longrightarrow> w_needs_credentials w" by code_simp
  then show "w \<in> set WANTED \<Longrightarrow> w_capability w = Sasl \<Longrightarrow> w_needs_credentials w" by blast
qed

lemma request_loop_step:
  assumes inv: "request_loop_inv n0 acc" and w: "w \<in> set WANTED"
  shows "request_loop_inv n0 (take_request_one acc w)"
proof -
  obtain n r presence where acc: "acc = (n, r, presence)" by (cases acc)
  show ?thesis
  proof (cases "is_requestable n w")
    case False
    with inv acc show ?thesis by (simp add: take_request_one_def)
  next
    case True
    then have adv: "state_of n (w_token w) = Some Advertised"
      and cred: "w_capability w = Sasl \<Longrightarrow> sasl_credentials_available n"
      using sasl_needs_credentials [OF w] by (auto simp: is_requestable_def)
    have "\<forall>t. state_of n t \<noteq> state_of n0 t \<longrightarrow> state_of n t = Some Requested"
      using inv acc by (simp add: request_loop_inv_def)
    with adv have adv0: "state_of n0 (w_token w) \<noteq> Some Requested"
      by (metis TokenState.distinct(1) option.inject)
    have set: "insert (w_token w) {t. state_of n t = Some Requested \<and> state_of n0 t \<noteq> Some Requested} =
        {t. (t \<noteq> w_token w \<longrightarrow> state_of n t = Some Requested) \<and> state_of n0 t \<noteq> Some Requested}"
      using adv0 by auto
    show ?thesis
      using inv acc True w adv cred adv0
      by (auto simp: request_loop_inv_def take_request_one_def Let_def set [symmetric])
  qed
qed

lemma request_loop:
  "request_loop_inv n (foldl take_request_one (n, empty_request, []) WANTED)"
proof (rule foldl_invariant [where P = "request_loop_inv n"])
  show "request_loop_inv n (n, empty_request, [])"
    by (simp add: request_loop_inv_def empty_request_def)
qed (rule request_loop_step)

lemma words_of_tokens:
  "set ts \<subseteq> w_token ` set WANTED \<Longrightarrow> concat (map (split_by (\<lambda>c. c = CHR '' '')) ts) = ts"
  by (induction ts) (auto dest: WANTED_token_nospace)

lemma take_request_words:
  assumes "take_request n = (n', r)"
  shows "set (request_words r) = {t. state_of n' t = Some Requested \<and> state_of n t \<noteq> Some Requested}"
proof -
  obtain n1 r1 presence where f: "foldl take_request_one (n, empty_request, []) WANTED = (n1, r1, presence)"
    by (cases "foldl take_request_one (n, empty_request, []) WANTED")
  from request_loop [of n] f have inv: "request_loop_inv n (n1, r1, presence)" by simp
  then have sub: "set (req_lines r1) \<subseteq> w_token ` set WANTED" "set presence \<subseteq> w_token ` set WANTED"
    by (auto simp: request_loop_inv_def)
  have n': "n' = n1" and r: "r = (if presence = [] then r1
      else r1\<lparr>req_lines := req_lines r1 @ [join_with '' '' presence]\<rparr>)"
    using assms f by (auto simp: take_request_def)
  have "set (request_words r) = set (req_lines r1) \<union> set presence"
  proof (cases "presence = []")
    case True
    then show ?thesis using r sub(1) by (simp add: request_words_def words_of_tokens)
  next
    case False
    then have "split_by (\<lambda>c. c = CHR '' '') (join_with '' '' presence) = presence"
      using sub(2) by (intro split_by_join) (auto dest: WANTED_token_nospace)
    then show ?thesis using False r sub(1) by (simp add: request_words_def words_of_tokens)
  qed
  with inv n' show ?thesis by (simp add: request_loop_inv_def)
qed

lemma take_request_sasl:
  assumes "take_request n = (n', r)"
  shows "(requests_sasl r \<longrightarrow> sasl_credentials_available n)
    \<and> sasl_mechanism r = (if requests_sasl r then Some (chosen_sasl_mechanism (sasl_advertised_value n)) else None)"
  using request_loop [of n] assms
  by (auto simp: take_request_def request_loop_inv_def split: prod.splits if_splits)

section \<open>Answers\<close>

lemma acknowledge_states:
  assumes "state_of (fst (acknowledge n toks)) t = Some Enabled"
  shows "state_of n t = Some Enabled \<or> state_of n t = Some Requested"
proof -
  have "\<forall>t. state_of (fst (foldl acknowledge_one acc toks)) t = Some Enabled \<longrightarrow>
      state_of (fst acc) t = Some Enabled \<or> state_of (fst acc) t = Some Requested" for acc
  proof (induction toks arbitrary: acc)
    case Nil
    then show ?case by simp
  next
    case (Cons tok toks)
    have "\<forall>t. (state_of (fst (acknowledge_one acc tok)) t = Some Enabled \<longrightarrow>
          state_of (fst acc) t = Some Enabled \<or> state_of (fst acc) t = Some Requested) \<and>
        (state_of (fst (acknowledge_one acc tok)) t = Some Requested \<longrightarrow> state_of (fst acc) t = Some Requested)"
      by (cases acc) (auto simp: acknowledge_one_def Let_def split: option.splits)
    with Cons.IH [of "acknowledge_one acc tok"] show ?case by auto
  qed
  from this [of "(n, empty_capabilities)"] assms show ?thesis
    by (auto simp: acknowledge_def)
qed

lemma abandon_states:
  "state_of (fst (abandon_outstanding n)) t =
     (if state_of n t = Some Requested \<and> t \<in> w_token ` set WANTED then Some Refused else state_of n t)"
proof -
  have "state_of (fst (foldl abandon_one acc ws)) t =
     (if state_of (fst acc) t = Some Requested \<and> t \<in> w_token ` set ws then Some Refused
      else state_of (fst acc) t)" for acc ws
  proof (induction ws arbitrary: acc)
    case (Cons w ws)
    have "state_of (fst (abandon_one acc w)) t =
        (if state_of (fst acc) t = Some Requested \<and> t = w_token w then Some Refused else state_of (fst acc) t)"
      by (cases acc) (auto simp: abandon_one_def)
    with Cons.IH [of "abandon_one acc w"] show ?case by auto
  qed simp
  from this [of "(n, empty_capabilities)" WANTED] show ?thesis by (simp add: abandon_outstanding_def)
qed

lemma settled_iff: "neg_inv n \<Longrightarrow> settled n \<longleftrightarrow> (\<forall>t. state_of n t \<noteq> Some Requested)"
  using hm_values [of "tokens n" "\<lambda>st. st = Requested"]
  by (auto simp: settled_def neg_inv_def state_of_def)

section \<open>Properties\<close>

text \<open>C9. In every reachable negotiation, at most one spelling of a capability is requested or enabled at a
  time, and a token that needs credentials is requested or enabled only when credentials are
  configured.\<close>

theorem negotiation_invariant:
  assumes "neg_reachable n" and "w \<in> set WANTED" and "w' \<in> set WANTED" and "active n w"
  shows "(w_capability w = w_capability w' \<and> active n w' \<longrightarrow> w_token w = w_token w')
    \<and> (w_needs_credentials w \<longrightarrow> sasl_credentials_available n)"
  using neg_reachable_inv [OF assms(1)] assms(2-4) by (auto simp: neg_inv_def)

text \<open>A CAP REQ names exactly the tokens it newly marks as requested; asking again at once requests
  nothing and changes nothing; SASL is requested only with credentials, and the mechanism is
  SCRAM-SHA-256 exactly when the server listed it.\<close>

theorem take_request_correct:
  assumes "take_request n = (n', r)"
  shows "set (request_words r) = {t. state_of n' t = Some Requested \<and> state_of n t \<noteq> Some Requested}
    \<and> take_request n' = (n', empty_request)
    \<and> (requests_sasl r \<longrightarrow> sasl_credentials_available n)
    \<and> sasl_mechanism r = (if \<not> requests_sasl r then None
         else if sasl_value_lists (sasl_advertised_value n) ''SCRAM-SHA-256'' then Some ''SCRAM-SHA-256''
         else Some ''PLAIN'')"
proof -
  have "n' = fst (take_request n)" using assms by simp
  then have "take_request n' = (n', empty_request)"
    using take_request_exhausts by (intro take_request_nothing) blast
  then show ?thesis
    using take_request_words [OF assms] take_request_sasl [OF assms] by (simp add: chosen_sasl_mechanism_def)
qed

text \<open>Once the outstanding tokens of a reachable negotiation are abandoned, nothing is outstanding,
  and no later acknowledgement, whatever it lists, enables a capability that was not enabled
  before.\<close>

theorem abandoned_stays_abandoned:
  assumes "neg_reachable n"
  shows "settled (fst (abandon_outstanding n))
    \<and> (cap_contains (enabled (fst (acknowledge (fst (abandon_outstanding n)) toks))) c
         \<longrightarrow> cap_contains (enabled n) c)"
proof -
  have inv: "neg_inv n" by (rule neg_reachable_inv [OF assms])
  then have keys: "\<And>t. state_of n t = Some Requested \<Longrightarrow> t \<in> w_token ` set WANTED"
    by (auto simp: neg_inv_def)
  have quiet: "state_of (fst (abandon_outstanding n)) t \<noteq> Some Requested" for t
    using keys [of t] by (auto simp: abandon_states)
  then have "settled (fst (abandon_outstanding n))"
    using settled_iff [OF neg_inv_ops(6) [OF inv]] by simp
  moreover have "state_of n t = Some Enabled"
    if "state_of (fst (acknowledge (fst (abandon_outstanding n)) toks)) t = Some Enabled" for t
    using acknowledge_states [OF that] quiet [of t] by (auto simp: abandon_states split: if_splits)
  ultimately show ?thesis by (auto simp: enabled_iff)
qed

section \<open>Witnesses\<close>

definition sample_negotiation :: IrcCapabilityNegotiation where
  "sample_negotiation = advertise (new_negotiation True) [''sasl=PLAIN'', ''batch'']"

lemma sample_reachable: "neg_reachable (fst (take_request sample_negotiation))"
  unfolding sample_negotiation_def
  by (intro neg_reachable.step [OF _ neg_step.req] neg_reachable.step [OF _ neg_step.ls] neg_reachable.start)

theorem negotiation_invariant_witness:
  "active (fst (take_request sample_negotiation)) (WANTED ! 0)
   \<and> sasl_credentials_available (fst (take_request sample_negotiation))"
proof -
  have i: "WANTED ! 0 \<in> set WANTED" by (simp add: WANTED_def)
  have a: "active (fst (take_request sample_negotiation)) (WANTED ! 0)" by code_simp
  moreover have "w_needs_credentials (WANTED ! 0)"
    by (simp add: WANTED_def accepts_def own_line_def needs_credentials_def)
  ultimately show ?thesis using negotiation_invariant [OF sample_reachable i i] by blast
qed

theorem take_request_correct_witness:
  "req_lines (snd (take_request sample_negotiation)) = [''sasl'', ''batch'']
   \<and> sasl_mechanism (snd (take_request sample_negotiation)) = Some ''PLAIN''
   \<and> take_request (fst (take_request sample_negotiation)) = (fst (take_request sample_negotiation), empty_request)"
proof -
  have "req_lines (snd (take_request sample_negotiation)) = [''sasl'', ''batch'']
      \<and> requests_sasl (snd (take_request sample_negotiation))
      \<and> \<not> sasl_value_lists (sasl_advertised_value sample_negotiation) ''SCRAM-SHA-256''"
    by code_simp
  moreover obtain n' r where t: "take_request sample_negotiation = (n', r)"
    by (cases "take_request sample_negotiation")
  ultimately show ?thesis using take_request_correct [OF t] unfolding t fst_conv snd_conv by simp
qed

theorem abandoned_stays_abandoned_witness:
  "settled (fst (abandon_outstanding (fst (take_request sample_negotiation))))"
  using abandoned_stays_abandoned [OF sample_reachable] by blast

end
