(* ===== verification/ServerFeatures.thy ===== *)
theory ServerFeatures
  imports Message CaseMapping
begin

text \<open>
  \<^verbatim>\<open>client/src/irc/serverfeatures.rs\<close>: the ISUPPORT state of one network. Tokens change it one at a time;
  it answers what counts as a channel, how long a line may be, which ranks a NAMES token or a MODE line
  carries, and where files may be uploaded. The fixed array \<open>mode_rules\<close> is a function on bytes.
\<close>

unbundle bit_operations_syntax

section \<open>Data\<close>

type_synonym IrcPrefixSet = "32 word"

record IrcPrefixChange =
  chg_nick :: string
  chg_letter :: char
  chg_grant :: bool

record IrcParsedName =
  pn_nick :: string
  pn_ranks :: IrcPrefixSet

datatype ModeParamRule = Never | Always | SetOnly | Prefix

record PrefixPair =
  pair_mode :: char
  pair_symbol :: char

definition DEFAULT_PREFIX :: "(char \<times> char) list" where
  "DEFAULT_PREFIX = [(CHR ''q'', CHR ''~''), (CHR ''a'', CHR ''&''), (CHR ''o'', CHR ''@''),
     (CHR ''h'', CHR ''%''), (CHR ''v'', CHR ''+'')]"

record IrcServerFeatures =
  case_mapping :: IrcCaseMapping
  case_mapping_known :: bool
  channel_types :: string
  prefix_pairs :: "PrefixPair list"
  prefix_modes :: string
  prefix_symbols :: string
  nick_length :: "nat option"
  line_length :: nat
  monitor_advertised :: bool
  monitor_limit :: "nat option"
  chan_modes :: "string \<times> string \<times> string \<times> string"
  icon_url :: "string option"
  file_hosts :: "string list"
  mode_rules :: "char \<Rightarrow> ModeParamRule"

section \<open>Helpers\<close>

definition bit_for :: "char \<Rightarrow> 32 word" where
  "bit_for letter = (if is_ascii_lowercase letter then push_bit (code letter - 97) 1 else 0)"

definition split_chan_modes :: "string \<Rightarrow> (string \<times> string \<times> string \<times> string) option" where
  "split_chan_modes value =
     (case split_by (\<lambda>c. c = CHR '','') value of
        [a, b, c, d] \<Rightarrow> Some (a, b, c, d)
      | _ \<Rightarrow> None)"

definition positive_decimal :: "string \<Rightarrow> nat option" where
  "positive_decimal value =
     (if value = [] \<or> \<not> (\<forall>c \<in> set value. is_ascii_digit c) then None
      else let n = decimal_value value in
           if n < 2 ^ 64 \<and> n > 0 then Some n else None)"

definition hex_value :: "char \<Rightarrow> nat option" where
  "hex_value b =
     (if is_ascii_digit b then Some (code b - 48)
      else if 97 \<le> code b \<and> code b \<le> 102 then Some (code b - 97 + 10)
      else if 65 \<le> code b \<and> code b \<le> 70 then Some (code b - 65 + 10)
      else None)"

fun unescape_isupport_value :: "string \<Rightarrow> bytes" where
  "unescape_isupport_value [] = []"
| "unescape_isupport_value [b] = [b]"
| "unescape_isupport_value (b # n # rest) =
     (if b \<noteq> CHR 0x5C then b # unescape_isupport_value (n # rest)
      else if n = CHR 0x5C then CHR 0x5C # unescape_isupport_value rest
      else case rest of
             h # l # rest' \<Rightarrow>
               (case (if n = CHR ''x'' then (hex_value h, hex_value l) else (None, None)) of
                  (Some high, Some low) \<Rightarrow> char_of (high * 16 + low) # unescape_isupport_value rest'
                | _ \<Rightarrow> b # unescape_isupport_value (n # rest))
           | _ \<Rightarrow> b # unescape_isupport_value (n # rest))"

definition scheme_is :: "string \<Rightarrow> string \<Rightarrow> bool" where
  "scheme_is uri scheme \<longleftrightarrow>
     length uri \<ge> length scheme \<and> eq_ignore_ascii_case (take (length scheme) uri) scheme"

definition usable_file_host_uri :: "string \<Rightarrow> bool" where
  "usable_file_host_uri uri =
     (if uri = [] \<or> \<not> (\<forall>b \<in> set uri. code b > 32 \<and> code b < 127) then False
      else
        (case (if scheme_is uri ''https://'' then Some (drop 8 uri)
               else if scheme_is uri ''http://'' then Some (drop 7 uri)
               else None) of
           None \<Rightarrow> False
         | Some rest \<Rightarrow>
             if rest = [] then False
             else let authority = hd (split_by (\<lambda>c. c = CHR ''/'') rest) in
                  if authority = [] \<or> CHR ''@'' \<in> set authority then False
                  else hd (split_by (\<lambda>c. c = CHR '':'') authority) \<noteq> []))"

definition parse_file_host_list :: "string \<Rightarrow> string list" where
  "parse_file_host_list value =
     filter usable_file_host_uri
       (filter utf8_valid
         (filter (\<lambda>t. t \<noteq> [])
           (split_by (\<lambda>b. b = CHR '' '' \<or> b = CHR 0x09) (unescape_isupport_value value))))"

text \<open>\<open>char::from(u8)\<close> collected into a string.\<close>

definition from_latin1 :: "bytes \<Rightarrow> string" where
  "from_latin1 bs = concat (map (\<lambda>b. encode_scalar (code b)) bs)"

definition set_rules :: "string \<Rightarrow> ModeParamRule \<Rightarrow> (char \<Rightarrow> ModeParamRule) \<Rightarrow> (char \<Rightarrow> ModeParamRule)" where
  "set_rules letters rule table = foldl (\<lambda>t letter. t(letter := rule)) table letters"

section \<open>Operations\<close>

definition rebuild_mode_rules :: "IrcServerFeatures \<Rightarrow> IrcServerFeatures" where
  "rebuild_mode_rules f =
     (case chan_modes f of (a, b, c, d) \<Rightarrow>
        f\<lparr>mode_rules :=
            set_rules (map pair_mode (prefix_pairs f)) Prefix
              (set_rules d Never (set_rules c SetOnly (set_rules b Always (set_rules a Always (\<lambda>_. Never)))))\<rparr>)"

definition rebuild_prefix_dumps :: "IrcServerFeatures \<Rightarrow> IrcServerFeatures" where
  "rebuild_prefix_dumps f =
     rebuild_mode_rules
       (f\<lparr>prefix_modes := from_latin1 (map pair_mode (prefix_pairs f)),
          prefix_symbols := from_latin1 (map pair_symbol (prefix_pairs f))\<rparr>)"

definition new_features :: IrcServerFeatures where
  "new_features = rebuild_prefix_dumps
     \<lparr>case_mapping = default_mapping, case_mapping_known = False, channel_types = ''#&'',
      prefix_pairs = map (\<lambda>(m, s). \<lparr>pair_mode = m, pair_symbol = s\<rparr>) DEFAULT_PREFIX,
      prefix_modes = [], prefix_symbols = [], nick_length = None,
      line_length = MAX_CLASSIC_FRAME_BYTES, monitor_advertised = False, monitor_limit = None,
      chan_modes = (''b'', ''k'', ''l'', ''imnpst''), icon_url = None, file_hosts = [],
      mode_rules = (\<lambda>_. Never)\<rparr>"

definition apply_prefix :: "string \<Rightarrow> IrcServerFeatures \<Rightarrow> IrcServerFeatures" where
  "apply_prefix value f =
     (if length value < 4 \<or> hd value \<noteq> CHR ''('' then f
      else case position (\<lambda>b. b = CHR '')'') value of
        None \<Rightarrow> f
      | Some close \<Rightarrow>
          if close < 2 then f
          else let modes = take (close - 1) (drop 1 value); symbols = drop (close + 1) value in
               if length modes \<noteq> length symbols \<or> \<not> (\<forall>b \<in> set modes. is_ascii_byte b)
                  \<or> \<not> (\<forall>b \<in> set symbols. is_ascii_byte b) then f
               else rebuild_prefix_dumps
                      (f\<lparr>prefix_pairs := map (\<lambda>(m, s). \<lparr>pair_mode = ascii_lower m, pair_symbol = s\<rparr>)
                                           (zip modes symbols)\<rparr>))"

definition apply_monitor :: "string \<Rightarrow> IrcServerFeatures \<Rightarrow> IrcServerFeatures" where
  "apply_monitor value f =
     (if value = [] then f\<lparr>monitor_advertised := True, monitor_limit := None\<rparr>
      else case positive_decimal value of
             None \<Rightarrow> f
           | Some limit \<Rightarrow> f\<lparr>monitor_advertised := True, monitor_limit := Some limit\<rparr>)"

definition remove_token :: "string \<Rightarrow> IrcServerFeatures \<Rightarrow> IrcServerFeatures" where
  "remove_token removed f =
     (let name = (case split_once (CHR ''='') removed of None \<Rightarrow> removed | Some (n, _) \<Rightarrow> n) in
      if name = ''draft/ICON'' then f\<lparr>icon_url := None\<rparr>
      else if name = ''soju.im/FILEHOST'' \<or> name = ''draft/FILEHOST'' then f\<lparr>file_hosts := []\<rparr>
      else if name = ''MONITOR'' then f\<lparr>monitor_advertised := False, monitor_limit := None\<rparr>
      else if name = ''LINELEN'' then f\<lparr>line_length := MAX_CLASSIC_FRAME_BYTES\<rparr>
      else f)"

definition set_token :: "string \<Rightarrow> string \<Rightarrow> IrcServerFeatures \<Rightarrow> IrcServerFeatures" where
  "set_token name value f =
     (if name = ''CASEMAPPING'' then
        (case from_name value of
           None \<Rightarrow> f | Some mapping \<Rightarrow> f\<lparr>case_mapping := mapping, case_mapping_known := True\<rparr>)
      else if name = ''CHANTYPES'' then f\<lparr>channel_types := value\<rparr>
      else if name = ''PREFIX'' then apply_prefix value f
      else if name = ''CHANMODES'' then
        (case split_chan_modes value of
           None \<Rightarrow> f | Some groups \<Rightarrow> rebuild_mode_rules (f\<lparr>chan_modes := groups\<rparr>))
      else if name = ''NICKLEN'' then
        (case positive_decimal value of None \<Rightarrow> f | Some n \<Rightarrow> f\<lparr>nick_length := Some n\<rparr>)
      else if name = ''LINELEN'' then
        (case positive_decimal value of None \<Rightarrow> f | Some n \<Rightarrow> f\<lparr>line_length := n\<rparr>)
      else if name = ''MONITOR'' then apply_monitor value f
      else if name = ''draft/ICON'' then (if value \<noteq> [] then f\<lparr>icon_url := Some value\<rparr> else f)
      else if name = ''soju.im/FILEHOST'' \<or> name = ''draft/FILEHOST'' then
        f\<lparr>file_hosts := parse_file_host_list value\<rparr>
      else f)"

definition apply_token :: "IrcServerFeatures \<Rightarrow> string \<Rightarrow> IrcServerFeatures" where
  "apply_token f token =
     (if token = [] then f
      else case strip_prefix ''-'' token of
        Some removed \<Rightarrow> remove_token removed f
      | None \<Rightarrow>
          (case split_once (CHR ''='') token of
             None \<Rightarrow> set_token token [] f
           | Some (name, value) \<Rightarrow> set_token name value f))"

definition apply_tokens :: "IrcServerFeatures \<Rightarrow> string list \<Rightarrow> IrcServerFeatures" where
  "apply_tokens f toks = foldl apply_token f toks"

definition mark_case_mapping_known :: "IrcServerFeatures \<Rightarrow> IrcServerFeatures" where
  "mark_case_mapping_known f = f\<lparr>case_mapping_known := True\<rparr>"

definition is_channel :: "IrcServerFeatures \<Rightarrow> string \<Rightarrow> bool" where
  "is_channel f target = (case target of [] \<Rightarrow> False | first # _ \<Rightarrow> first \<in> set (channel_types f))"

fun file_host_loop :: "string option \<Rightarrow> string list \<Rightarrow> string option \<times> string option" where
  "file_host_loop cleartext [] = (None, cleartext)"
| "file_host_loop cleartext (uri # rest) =
     (if scheme_is uri ''https://'' then (Some uri, cleartext)
      else file_host_loop (if cleartext = None \<and> scheme_is uri ''http://'' then Some uri else cleartext) rest)"

definition file_host :: "IrcServerFeatures \<Rightarrow> bool \<Rightarrow> string option" where
  "file_host f encrypted =
     (case file_host_loop None (file_hosts f) of
        (Some uri, _) \<Rightarrow> Some uri
      | (None, cleartext) \<Rightarrow> if encrypted then None else cleartext)"

definition letter_for_symbol :: "IrcServerFeatures \<Rightarrow> char \<Rightarrow> char" where
  "letter_for_symbol f symbol =
     (case List.find (\<lambda>p. pair_symbol p = symbol) (prefix_pairs f) of
        None \<Rightarrow> CHR 0x00 | Some p \<Rightarrow> pair_mode p)"

fun names_rank_loop :: "IrcServerFeatures \<Rightarrow> IrcPrefixSet \<Rightarrow> string \<Rightarrow> IrcPrefixSet \<times> string" where
  "names_rank_loop f bits [] = (bits, [])"
| "names_rank_loop f bits (b # rest) =
     (let letter = letter_for_symbol f b in
      if letter = CHR 0x00 then (bits, b # rest)
      else names_rank_loop f (bits OR bit_for letter) rest)"

text \<open>\<open>token.get(index..)\<close> is \<open>None\<close> when the index is inside a multi-byte character.\<close>

definition parse_names_token :: "IrcServerFeatures \<Rightarrow> string \<Rightarrow> IrcParsedName option" where
  "parse_names_token f token =
     (case names_rank_loop f 0 token of (bits, nick) \<Rightarrow>
        if nick = [] \<or> is_cont (hd nick) then None
        else Some \<lparr>pn_nick = nick, pn_ranks = bits\<rparr>)"

definition rule_for :: "IrcServerFeatures \<Rightarrow> char \<Rightarrow> ModeParamRule" where
  "rule_for f raw =
     (if mode_rules f (ascii_lower raw) = Prefix then Prefix else mode_rules f raw)"

fun prefix_changes_loop :: "IrcServerFeatures \<Rightarrow> bool \<Rightarrow> string \<Rightarrow> string list \<Rightarrow> IrcPrefixChange list" where
  "prefix_changes_loop f grant [] arguments = []"
| "prefix_changes_loop f grant (raw # modes) arguments =
     (if raw = CHR ''+'' then prefix_changes_loop f True modes arguments
      else if raw = CHR ''-'' then prefix_changes_loop f False modes arguments
      else
        let rule = rule_for f raw in
        if rule = Prefix then
          (case arguments of
             [] \<Rightarrow> prefix_changes_loop f grant modes arguments
           | nick # rest \<Rightarrow>
               \<lparr>chg_nick = nick, chg_letter = ascii_lower raw, chg_grant = grant\<rparr>
               # prefix_changes_loop f grant modes rest)
        else
          let consumes = rule = Always \<or> (rule = SetOnly \<and> grant) in
          prefix_changes_loop f grant modes (if consumes then drop 1 arguments else arguments))"

definition prefix_changes :: "IrcServerFeatures \<Rightarrow> string \<Rightarrow> string list \<Rightarrow> IrcPrefixChange list" where
  "prefix_changes f mode arguments = prefix_changes_loop f True mode arguments"

definition apply_change :: "IrcPrefixSet \<Rightarrow> IrcPrefixChange \<Rightarrow> IrcPrefixSet" where
  "apply_change ranks change =
     (let b = bit_for (chg_letter change) in
      if b = 0 then ranks
      else if chg_grant change then ranks OR b
      else ranks AND NOT b)"

definition rank_priority :: "IrcServerFeatures \<Rightarrow> IrcPrefixSet \<Rightarrow> nat" where
  "rank_priority f ranks =
     (case position (\<lambda>p. ranks AND bit_for (pair_mode p) \<noteq> 0) (prefix_pairs f) of
        None \<Rightarrow> length (prefix_pairs f) | Some i \<Rightarrow> i)"

definition member_label :: "IrcServerFeatures \<Rightarrow> IrcPrefixSet \<Rightarrow> string \<Rightarrow> string" where
  "member_label f ranks nick =
     (let i = rank_priority f ranks in
      if i < length (prefix_pairs f) then from_latin1 [pair_symbol (prefix_pairs f ! i)] @ nick
      else nick)"

section \<open>What a sequence of tokens leaves behind\<close>

text \<open>The derived fields agree with what they are derived from, and every advertised limit is usable.\<close>

definition prefix_ok :: "IrcServerFeatures \<Rightarrow> bool" where
  "prefix_ok f \<longleftrightarrow>
     prefix_pairs f \<noteq> [] \<and>
     list_all (\<lambda>p. is_ascii_byte (pair_mode p) \<and> is_ascii_byte (pair_symbol p)
                  \<and> \<not> is_ascii_uppercase (pair_mode p)) (prefix_pairs f) \<and>
     prefix_modes f = map pair_mode (prefix_pairs f) \<and>
     prefix_symbols f = map pair_symbol (prefix_pairs f)"

definition limits_ok :: "IrcServerFeatures \<Rightarrow> bool" where
  "limits_ok f \<longleftrightarrow>
     0 < line_length f \<and> line_length f < 2 ^ 64 \<and> nick_length f \<noteq> Some 0 \<and> monitor_limit f \<noteq> Some 0 \<and>
     (monitor_advertised f \<or> monitor_limit f = None)"

definition urls_ok :: "IrcServerFeatures \<Rightarrow> bool" where
  "urls_ok f \<longleftrightarrow> icon_url f \<noteq> Some [] \<and> list_all usable_file_host_uri (file_hosts f)"

definition rules_ok :: "IrcServerFeatures \<Rightarrow> bool" where
  "rules_ok f \<longleftrightarrow> rebuild_mode_rules f = f"

definition features_inv :: "IrcServerFeatures \<Rightarrow> bool" where
  "features_inv f \<longleftrightarrow> prefix_ok f \<and> limits_ok f \<and> urls_ok f \<and> rules_ok f"

lemmas features_inv_defs = features_inv_def prefix_ok_def limits_ok_def urls_ok_def rules_ok_def

lemma from_latin1_ascii: "list_all is_ascii_byte s \<Longrightarrow> from_latin1 s = s"
  by (induction s) (auto simp: from_latin1_def encode_scalar_def ascii_defs)

lemma ascii_lower_not_upper [simp]: "\<not> is_ascii_uppercase (ascii_lower c)"
  by (auto simp: is_ascii_uppercase_def code_ascii_lower)

lemma ascii_lower_ascii: "is_ascii_byte c \<Longrightarrow> is_ascii_byte (ascii_lower c)"
  by (auto simp: ascii_defs code_ascii_lower)

lemma rebuild_mode_rules_idem: "rebuild_mode_rules (rebuild_mode_rules f) = rebuild_mode_rules f"
  by (simp add: rebuild_mode_rules_def split: prod.splits)

lemma rebuild_mode_rules_fields [simp]:
  "case_mapping (rebuild_mode_rules f) = case_mapping f" "channel_types (rebuild_mode_rules f) = channel_types f"
  "prefix_pairs (rebuild_mode_rules f) = prefix_pairs f" "prefix_modes (rebuild_mode_rules f) = prefix_modes f"
  "prefix_symbols (rebuild_mode_rules f) = prefix_symbols f" "nick_length (rebuild_mode_rules f) = nick_length f"
  "line_length (rebuild_mode_rules f) = line_length f"
  "monitor_advertised (rebuild_mode_rules f) = monitor_advertised f"
  "monitor_limit (rebuild_mode_rules f) = monitor_limit f" "chan_modes (rebuild_mode_rules f) = chan_modes f"
  "icon_url (rebuild_mode_rules f) = icon_url f" "file_hosts (rebuild_mode_rules f) = file_hosts f"
  by (simp_all add: rebuild_mode_rules_def split: prod.splits)

lemma rebuild_prefix_dumps_inv:
  assumes "list_all (\<lambda>p. is_ascii_byte (pair_mode p) \<and> is_ascii_byte (pair_symbol p)
                       \<and> \<not> is_ascii_uppercase (pair_mode p)) (prefix_pairs f)"
    and "prefix_pairs f \<noteq> []" "limits_ok f" "urls_ok f"
  shows "features_inv (rebuild_prefix_dumps f)"
proof -
  have "from_latin1 (map pair_mode (prefix_pairs f)) = map pair_mode (prefix_pairs f)"
    "from_latin1 (map pair_symbol (prefix_pairs f)) = map pair_symbol (prefix_pairs f)"
    using assms(1) by (auto intro!: from_latin1_ascii simp: list_all_iff)
  then show ?thesis
    using assms by (simp add: features_inv_defs rebuild_prefix_dumps_def rebuild_mode_rules_idem)
qed

lemma rules_ok_update:
  assumes "rules_ok f" "prefix_pairs g = prefix_pairs f" "chan_modes g = chan_modes f" "mode_rules g = mode_rules f"
  shows "rules_ok g"
proof -
  have "mode_rules (rebuild_mode_rules g) = mode_rules (rebuild_mode_rules f)"
    using assms(2,3) by (simp add: rebuild_mode_rules_def split: prod.splits)
  then have "mode_rules (rebuild_mode_rules g) = mode_rules g" using assms(1,4) by (simp add: rules_ok_def)
  moreover have "rebuild_mode_rules g = g\<lparr>mode_rules := mode_rules (rebuild_mode_rules g)\<rparr>"
    by (simp add: rebuild_mode_rules_def split: prod.splits)
  ultimately show ?thesis by (simp add: rules_ok_def)
qed

lemma features_inv_keep:
  assumes "features_inv f"
    and "prefix_pairs g = prefix_pairs f" "prefix_modes g = prefix_modes f" "prefix_symbols g = prefix_symbols f"
    and "chan_modes g = chan_modes f" "mode_rules g = mode_rules f" "limits_ok g" "urls_ok g"
  shows "features_inv g"
  using assms rules_ok_update [of f g] by (simp add: features_inv_def prefix_ok_def)

lemma positive_decimal_Some: "positive_decimal v = Some n \<Longrightarrow> 0 < n \<and> n < 2 ^ 64"
  by (simp add: positive_decimal_def Let_def split: if_splits)

lemma apply_prefix_inv: assumes "features_inv f" shows "features_inv (apply_prefix v f)"
proof -
  have built: "features_inv (rebuild_prefix_dumps
      (f\<lparr>prefix_pairs := map (\<lambda>(m, s). \<lparr>pair_mode = ascii_lower m, pair_symbol = s\<rparr>) (zip ms ss)\<rparr>))"
    if "length ms = length ss" "ms \<noteq> []" "\<forall>b\<in>set ms. is_ascii_byte b" "\<forall>b\<in>set ss. is_ascii_byte b" for ms ss
  proof (rule rebuild_prefix_dumps_inv)
    show "list_all (\<lambda>p. is_ascii_byte (pair_mode p) \<and> is_ascii_byte (pair_symbol p)
        \<and> \<not> is_ascii_uppercase (pair_mode p))
        (prefix_pairs (f\<lparr>prefix_pairs := map (\<lambda>(m, s). \<lparr>pair_mode = ascii_lower m, pair_symbol = s\<rparr>) (zip ms ss)\<rparr>))"
      using that(3,4) by (auto simp: list_all_iff ascii_lower_ascii dest: set_zip_leftD set_zip_rightD)
  qed (use assms that in \<open>auto simp: features_inv_defs\<close>)
  have ne: "take (close - 1) (drop 1 v) \<noteq> []" if "close \<ge> 2" "length v \<ge> 4" for close
    using that by (cases v) auto
  show ?thesis
    unfolding apply_prefix_def Let_def
    using assms by (auto split: option.splits intro!: built dest: ne)
qed

lemma set_token_inv: assumes "features_inv f" shows "features_inv (set_token name v f)"
proof -
  have hosts: "list_all usable_file_host_uri (parse_file_host_list x)" for x
    by (auto simp: parse_file_host_list_def list_all_iff)
  note keep = features_inv_keep [OF assms]
  have lim: "limits_ok f" and url: "urls_ok f" using assms by (simp_all add: features_inv_def)
  have "features_inv (apply_monitor v f)"
    by (rule keep) (use lim url in \<open>auto simp: apply_monitor_def limits_ok_def urls_ok_def
        split: option.splits dest: positive_decimal_Some\<close>)
  moreover have "features_inv (rebuild_mode_rules (f\<lparr>chan_modes := g\<rparr>))" for g
    using assms by (simp add: features_inv_defs rebuild_mode_rules_idem)
  moreover have "features_inv (f\<lparr>nick_length := Some n\<rparr>)" "features_inv (f\<lparr>line_length := n\<rparr>)"
    if "positive_decimal v = Some n" for n
    by (rule keep; use lim url positive_decimal_Some [OF that] in \<open>simp add: limits_ok_def urls_ok_def\<close>)+
  moreover have "features_inv (f\<lparr>icon_url := Some v\<rparr>)" if "v \<noteq> []"
    by (rule keep) (use lim url that in \<open>simp_all add: limits_ok_def urls_ok_def\<close>)
  moreover have "features_inv (f\<lparr>file_hosts := parse_file_host_list x\<rparr>)" for x
    by (rule keep) (use lim url hosts in \<open>simp_all add: limits_ok_def urls_ok_def\<close>)
  moreover have "features_inv (f\<lparr>channel_types := v\<rparr>)"
    "features_inv (f\<lparr>case_mapping := cm, case_mapping_known := True\<rparr>)" for cm
    by (rule keep; use lim url in \<open>simp add: limits_ok_def urls_ok_def\<close>)+
  ultimately show ?thesis
    using assms apply_prefix_inv [OF assms] by (simp add: set_token_def split: option.splits)
qed

lemma remove_token_inv: assumes "features_inv f" shows "features_inv (remove_token name f)"
  by (rule features_inv_keep [OF assms])
     (use assms in \<open>auto simp: remove_token_def Let_def features_inv_def limits_ok_def urls_ok_def MAX_CLASSIC_FRAME_BYTES_def\<close>)

lemma apply_token_inv: "features_inv f \<Longrightarrow> features_inv (apply_token f token)"
  by (auto simp: apply_token_def set_token_inv remove_token_inv split: option.splits prod.splits)

lemma new_features_inv: "features_inv new_features"
  unfolding new_features_def
  by (rule rebuild_prefix_dumps_inv)
     (simp_all add: DEFAULT_PREFIX_def limits_ok_def urls_ok_def ascii_defs MAX_CLASSIC_FRAME_BYTES_def)

lemma line_length_new: "line_length new_features = 512"
  by (simp add: new_features_def rebuild_prefix_dumps_def MAX_CLASSIC_FRAME_BYTES_def)

lemma apply_tokens_inv: "features_inv f \<Longrightarrow> features_inv (apply_tokens f toks)"
  unfolding apply_tokens_def by (rule foldl_invariant [where P = features_inv]) (simp_all add: apply_token_inv)

lemma reachable_features_inv: "features_inv (apply_tokens new_features toks)"
  by (rule apply_tokens_inv [OF new_features_inv])


section \<open>Mode lines\<close>

lemma set_rules_apply: "set_rules ls r t c = (if c \<in> set ls then r else t c)"
  unfolding set_rules_def by (induction ls arbitrary: t) auto

text \<open>The rule a letter has, read off the advertised groups.\<close>

definition advertised_rule :: "IrcServerFeatures \<Rightarrow> char \<Rightarrow> ModeParamRule" where
  "advertised_rule f c =
     (case chan_modes f of (a, b, s, d) \<Rightarrow>
        if ascii_lower c \<in> set (prefix_modes f) then Prefix
        else if c \<in> set d then Never
        else if c \<in> set s then SetOnly
        else if c \<in> set a \<or> c \<in> set b then Always
        else Never)"

lemma mode_rules_apply:
  assumes "features_inv f"
  shows "mode_rules f c =
    (case chan_modes f of (a, b, s, d) \<Rightarrow>
       if c \<in> set (prefix_modes f) then Prefix else if c \<in> set d then Never
       else if c \<in> set s then SetOnly else if c \<in> set a \<or> c \<in> set b then Always else Never)"
proof -
  have "mode_rules f = mode_rules (rebuild_mode_rules f)" and "prefix_modes f = map pair_mode (prefix_pairs f)"
    using assms by (simp_all add: features_inv_defs)
  then show ?thesis by (simp add: rebuild_mode_rules_def set_rules_apply split: prod.splits)
qed

lemma prefix_mode_lower: "features_inv f \<Longrightarrow> c \<in> set (prefix_modes f) \<Longrightarrow> ascii_lower c = c"
  by (auto simp: features_inv_defs list_all_iff ascii_lower_def)

lemma rule_for_advertised:
  assumes "features_inv f"
  shows "rule_for f c = advertised_rule f c"
proof (cases "ascii_lower c \<in> set (prefix_modes f)")
  case True
  then show ?thesis
    by (simp add: rule_for_def advertised_rule_def mode_rules_apply [OF assms] split: prod.splits)
next
  case False
  then have "c \<notin> set (prefix_modes f)" using prefix_mode_lower [OF assms, of c] by auto
  with False show ?thesis
    by (simp add: rule_for_def advertised_rule_def mode_rules_apply [OF assms] split: prod.splits)
qed

text \<open>A mode string as letters with their sign, and the reference reading of its arguments: the argument of a
  letter is found by counting the letters before it that take one.\<close>

fun signed_letters :: "bool \<Rightarrow> string \<Rightarrow> (char \<times> bool) list" where
  "signed_letters g [] = []"
| "signed_letters g (c # cs) =
     (if c = CHR ''+'' then signed_letters True cs
      else if c = CHR ''-'' then signed_letters False cs
      else (c, g) # signed_letters g cs)"

definition takes_argument :: "IrcServerFeatures \<Rightarrow> char \<times> bool \<Rightarrow> bool" where
  "takes_argument f l \<longleftrightarrow> advertised_rule f (fst l) \<in> {Prefix, Always} \<or> (advertised_rule f (fst l) = SetOnly \<and> snd l)"

definition rank_change_at ::
  "IrcServerFeatures \<Rightarrow> (char \<times> bool) list \<Rightarrow> string list \<Rightarrow> nat \<Rightarrow> IrcPrefixChange list" where
  "rank_change_at f ls arguments i =
     (let k = length (filter (takes_argument f) (take i ls)) in
      if advertised_rule f (fst (ls ! i)) = Prefix \<and> k < length arguments
      then [\<lparr>chg_nick = arguments ! k, chg_letter = ascii_lower (fst (ls ! i)), chg_grant = snd (ls ! i)\<rparr>]
      else [])"

definition rank_changes_spec :: "IrcServerFeatures \<Rightarrow> string \<Rightarrow> string list \<Rightarrow> IrcPrefixChange list" where
  "rank_changes_spec f mode arguments =
     (let ls = signed_letters True mode in
      concat (map (rank_change_at f ls arguments) [0..<length ls]))"

lemma rank_change_at_Cons:
  "rank_change_at f (l # ls) arguments (Suc i) =
     rank_change_at f ls (if takes_argument f l then drop 1 arguments else arguments) i"
  by (cases arguments) (auto simp: rank_change_at_def Let_def)

lemma prefix_changes_loop_Prefix:
  "raw \<noteq> CHR ''+'' \<Longrightarrow> raw \<noteq> CHR ''-'' \<Longrightarrow> features_inv f \<Longrightarrow>
   prefix_changes_loop f g (raw # modes) arguments =
     rank_change_at f ((raw, g) # ls) arguments 0 @
     prefix_changes_loop f g modes (if takes_argument f (raw, g) then drop 1 arguments else arguments)"
  by (cases arguments) (auto simp: rank_change_at_def takes_argument_def rule_for_advertised Let_def)

lemma prefix_changes_loop_spec:
  assumes "features_inv f"
  shows "prefix_changes_loop f g mode arguments =
    concat (map (rank_change_at f (signed_letters g mode) arguments) [0..<length (signed_letters g mode)])"
proof (induction mode arbitrary: g arguments)
  case (Cons c cs)
  show ?case
  proof (cases "c = CHR ''+'' \<or> c = CHR ''-''")
    case True then show ?thesis using Cons.IH by auto
  next
    case False
    let ?ls = "signed_letters g cs" and ?rest = "if takes_argument f (c, g) then drop 1 arguments else arguments"
    have "concat (map (rank_change_at f ((c, g) # ?ls) arguments) [0..<length ((c, g) # ?ls)]) =
        rank_change_at f ((c, g) # ?ls) arguments 0
        @ concat (map (rank_change_at f ?ls ?rest) [0..<length ?ls])"
      by (simp add: upt_conv_Cons map_Suc_upt [symmetric] rank_change_at_Cons comp_def del: upt_Suc)
    then show ?thesis
      using False by (simp add: prefix_changes_loop_Prefix [OF _ _ assms, of c g cs arguments ?ls] Cons.IH
        del: prefix_changes_loop.simps)
  qed
qed simp

text \<open>
  C13. On every state tokens can produce, the walk over a MODE line that consumes arguments as it goes reports
  the same rank changes as the reference reading, in which the argument of a letter is the one at the position
  counted by the letters before it that take an argument.
\<close>

theorem prefix_changes_reference:
  "prefix_changes (apply_tokens new_features toks) mode arguments =
     rank_changes_spec (apply_tokens new_features toks) mode arguments"
  by (simp add: prefix_changes_def rank_changes_spec_def Let_def
      prefix_changes_loop_spec [OF reachable_features_inv])

section \<open>Ranks\<close>

definition has_rank :: "IrcPrefixSet \<Rightarrow> char \<Rightarrow> bool" where
  "has_rank ranks letter \<longleftrightarrow> ranks AND bit_for letter \<noteq> 0"

lemma has_rank_bit: "is_ascii_lowercase m \<Longrightarrow> has_rank r m \<longleftrightarrow> bit r (code m - 97)"
  by (simp add: has_rank_def bit_for_def bit_iff_and_push_bit_not_eq_0)

lemma has_rank_lowercase: "has_rank r m \<Longrightarrow> is_ascii_lowercase m"
  by (rule ccontr) (simp add: has_rank_def bit_for_def)

lemma bit_bit_for:
  assumes "is_ascii_lowercase m"
  shows "bit (bit_for c) (code m - 97) \<longleftrightarrow> c = m"
proof (cases "is_ascii_lowercase c")
  case True
  have "code m - 97 = code c - 97 \<longleftrightarrow> c = m"
  proof -
    have "97 \<le> code m" "97 \<le> code c" using assms True by (simp_all add: is_ascii_lowercase_def)
    then have "code m - 97 = code c - 97 \<longleftrightarrow> code c = code m" by linarith
    then show ?thesis by simp
  qed
  moreover have "code m - 97 < 32" using assms unfolding is_ascii_lowercase_def by linarith
  ultimately show ?thesis
    using True by (auto simp: bit_for_def bit_exp_iff possible_bit_def)
next
  case False then show ?thesis using assms by (auto simp: bit_for_def)
qed

lemma has_rank_or: "has_rank (r OR bit_for c) m \<longleftrightarrow> has_rank r m \<or> (c = m \<and> is_ascii_lowercase m)"
  by (cases "is_ascii_lowercase m") (auto simp: has_rank_bit bit_or_iff bit_bit_for dest: has_rank_lowercase)

lemma has_rank_0 [simp]: "\<not> has_rank 0 m"
  by (simp add: has_rank_def)

lemma has_rank_and_not: "is_ascii_lowercase m \<Longrightarrow> has_rank (r AND NOT (bit_for c)) m \<longleftrightarrow> has_rank r m \<and> c \<noteq> m"
  using bit_bit_for [of m m]
  by (auto simp: has_rank_bit bit_and_iff bit_not_iff bit_bit_for is_ascii_lowercase_def)

lemma bit_for_eq_0: "bit_for c = 0 \<longleftrightarrow> \<not> is_ascii_lowercase c"
proof
  assume "bit_for c = 0"
  then show "\<not> is_ascii_lowercase c" using bit_bit_for [of c c] by auto
qed (simp add: bit_for_def)

text \<open>
  Applying a rank change sets exactly the rank it names: afterwards the member has that rank when the change
  is a grant and does not when it is a revoke, every other rank is as before, and applying it again changes nothing.
\<close>

theorem apply_change_effect:
  assumes "is_ascii_lowercase m"
  shows "(has_rank (apply_change r c) m \<longleftrightarrow> (if chg_letter c = m then chg_grant c else has_rank r m))
    \<and> apply_change (apply_change r c) c = apply_change r c"
  using assms
  by (auto simp: apply_change_def Let_def bit_for_eq_0 has_rank_or has_rank_and_not)

theorem apply_change_effect_witness:
  "has_rank (apply_change 0 \<lparr>chg_nick = ''bo'', chg_letter = CHR ''o'', chg_grant = True\<rparr>) (CHR ''o'')
   \<and> \<not> has_rank (apply_change 0 \<lparr>chg_nick = ''bo'', chg_letter = CHR ''o'', chg_grant = True\<rparr>) (CHR ''v'')"
  using apply_change_effect [of "CHR ''o''" 0 "\<lparr>chg_nick = ''bo'', chg_letter = CHR ''o'', chg_grant = True\<rparr>"]
    apply_change_effect [of "CHR ''v''" 0 "\<lparr>chg_nick = ''bo'', chg_letter = CHR ''o'', chg_grant = True\<rparr>"]
  by (simp add: ascii_defs)

lemma letter_for_symbol_in:
  assumes "distinct (map pair_symbol (prefix_pairs f))" "p \<in> set (prefix_pairs f)"
  shows "letter_for_symbol f (pair_symbol p) = pair_mode p"
proof -
  obtain q where q: "List.find (\<lambda>q. pair_symbol q = pair_symbol p) (prefix_pairs f) = Some q"
    using assms(2) by (cases "List.find (\<lambda>q. pair_symbol q = pair_symbol p) (prefix_pairs f)")
      (auto simp: find_None_iff)
  then have "q \<in> set (prefix_pairs f)" "pair_symbol q = pair_symbol p"
    by (auto simp: find_Some_iff)
  then have "q = p" using assms by (auto simp: distinct_map inj_on_def)
  then show ?thesis using q by (simp add: letter_for_symbol_def)
qed

lemma letter_for_symbol_notin: "c \<notin> pair_symbol ` set (prefix_pairs f) \<Longrightarrow> letter_for_symbol f c = CHR 0x00"
  by (auto simp: letter_for_symbol_def find_None_iff split: option.splits dest!: find_Some_iff [THEN iffD1])

lemma names_rank_loop_symbols:
  assumes "distinct (map pair_symbol (prefix_pairs f))" "\<forall>p \<in> set (prefix_pairs f). pair_mode p \<noteq> CHR 0x00"
    and "set ps \<subseteq> set (prefix_pairs f)" "nick = [] \<or> hd nick \<notin> pair_symbol ` set (prefix_pairs f)"
  shows "names_rank_loop f bits (map pair_symbol ps @ nick) = (foldl (\<lambda>b p. b OR bit_for (pair_mode p)) bits ps, nick)"
  using assms(3)
proof (induction ps arbitrary: bits)
  case Nil
  then show ?case using assms(4) by (cases nick) (simp_all add: letter_for_symbol_notin)
next
  case (Cons p ps)
  then show ?case using assms(1,2) by (simp add: letter_for_symbol_in Let_def)
qed

lemma has_rank_foldl:
  "has_rank (foldl (\<lambda>b p. b OR bit_for (pair_mode p)) bits ps) m
     \<longleftrightarrow> has_rank bits m \<or> (m \<in> pair_mode ` set ps \<and> is_ascii_lowercase m)"
  by (induction ps arbitrary: bits) (auto simp: has_rank_or)

text \<open>
  A NAMES token made of rank symbols in any number and order followed by a nick is split into that nick and
  exactly the ranks of those symbols, when PREFIX gives each rank its own symbol and the nick starts with none.
\<close>

theorem parse_names_token_correct:
  assumes "distinct (map pair_symbol (prefix_pairs f))" "\<forall>p \<in> set (prefix_pairs f). is_ascii_lowercase (pair_mode p)"
    and "set ps \<subseteq> set (prefix_pairs f)"
    and "nick \<noteq> []" "hd nick \<notin> pair_symbol ` set (prefix_pairs f)" "utf8_valid nick"
  shows "\<exists>ranks. parse_names_token f (map pair_symbol ps @ nick) = Some \<lparr>pn_nick = nick, pn_ranks = ranks\<rparr>
    \<and> (\<forall>m. has_rank ranks m \<longleftrightarrow> m \<in> pair_mode ` set ps)"
proof -
  have nul: "\<forall>p \<in> set (prefix_pairs f). pair_mode p \<noteq> CHR 0x00"
    using assms(2) by (auto simp: is_ascii_lowercase_def)
  have "\<not> is_cont (hd nick)" using assms(4,6) by (cases nick) (auto dest: utf8_valid_hd)
  then show ?thesis
    using assms names_rank_loop_symbols [OF assms(1) nul assms(3), of nick 0]
    by (auto simp: parse_names_token_def has_rank_foldl)
qed

theorem parse_names_token_correct_witness:
  "\<exists>ranks. parse_names_token new_features ''@+bo'' = Some \<lparr>pn_nick = ''bo'', pn_ranks = ranks\<rparr>
    \<and> (\<forall>m. has_rank ranks m \<longleftrightarrow> m \<in> {CHR ''o'', CHR ''v''})"
proof -
  let ?p = "\<lambda>m s. \<lparr>pair_mode = m, pair_symbol = s\<rparr>"
  have pairs: "prefix_pairs new_features = [?p (CHR ''q'') (CHR ''~''), ?p (CHR ''a'') (CHR ''&''), ?p (CHR ''o'') (CHR ''@''),
      ?p (CHR ''h'') (CHR ''%''), ?p (CHR ''v'') (CHR ''+'')]"
    by (simp add: new_features_def rebuild_prefix_dumps_def DEFAULT_PREFIX_def)
  show ?thesis
    using parse_names_token_correct [of new_features "[?p (CHR ''o'') (CHR ''@''), ?p (CHR ''v'') (CHR ''+'')]" "''bo''"]
    by (simp add: pairs is_ascii_lowercase_def)
qed

section \<open>Upload hosts\<close>

lemma file_host_loop_https:
  "file_host_loop ct us = (x, y) \<Longrightarrow> x = List.find (\<lambda>u. scheme_is u ''https://'') us"
  by (induction ct us rule: file_host_loop.induct) (auto split: if_splits)

lemma file_host_loop_cleartext:
  "file_host_loop ct us = (None, y) \<Longrightarrow> y = (if ct = None then List.find (\<lambda>u. scheme_is u ''http://'') us else ct)"
  by (induction ct us rule: file_host_loop.induct) (auto split: if_splits)

lemma file_host_find:
  "file_host f encrypted =
     (case List.find (\<lambda>u. scheme_is u ''https://'') (file_hosts f) of
        Some u \<Rightarrow> Some u
      | None \<Rightarrow> if encrypted then None else List.find (\<lambda>u. scheme_is u ''http://'') (file_hosts f))"
  using file_host_loop_https file_host_loop_cleartext
  by (fastforce simp: file_host_def split: prod.splits option.splits)

text \<open>
  The upload address of a connection is one the server listed and a usable URI, and on an encrypted
  connection it is an https address; a cleartext address is offered only to a cleartext connection, and only
  when the server lists no https address.
\<close>

theorem file_host_safe:
  assumes "file_host (apply_tokens new_features toks) encrypted = Some uri"
  shows "uri \<in> set (file_hosts (apply_tokens new_features toks)) \<and> usable_file_host_uri uri
    \<and> (scheme_is uri ''https://'' \<or>
       (\<not> encrypted \<and> (\<forall>u \<in> set (file_hosts (apply_tokens new_features toks)). \<not> scheme_is u ''https://'')))"
proof -
  let ?f = "apply_tokens new_features toks"
  have found: "u \<in> set (file_hosts ?f) \<and> P u" if "List.find P (file_hosts ?f) = Some u" for P u
    using that by (auto simp: find_Some_iff)
  have mem: "uri \<in> set (file_hosts ?f)"
    using assms found by (fastforce simp: file_host_find split: option.splits if_splits)
  moreover have "usable_file_host_uri uri"
    using mem reachable_features_inv [of toks] by (auto simp: features_inv_defs list_all_iff)
  moreover have "scheme_is uri ''https://'' \<or>
      (\<not> encrypted \<and> (\<forall>u \<in> set (file_hosts ?f). \<not> scheme_is u ''https://''))"
    using assms found by (fastforce simp: file_host_find find_None_iff split: option.splits if_splits)
  ultimately show ?thesis by blast
qed

theorem file_host_safe_witness:
  "scheme_is ''https://a/'' ''https://'' \<and>
   file_host (apply_tokens new_features [''draft/FILEHOST=https://a/'']) True = Some ''https://a/''"
proof -
  have "file_host (apply_tokens new_features [''draft/FILEHOST=https://a/'']) True = Some ''https://a/''"
    by code_simp
  with file_host_safe [OF this] show ?thesis by simp
qed

end
