(* ===== verification/CommandBuilder.thy ===== *)
theory CommandBuilder
  imports Parser ServerFeatures
begin

text \<open>
  \<^verbatim>\<open>client/src/irc/commandbuilder.rs\<close>: the outbound line builders and the byte budgets of the composer.
  Every frame size is the network's LINELEN. A slice of a string that is not cut at character boundaries
  panics in the source; the splitting loop keeps that case as the outcome \<open>Panicked\<close>.
\<close>

section \<open>Lines and budgets\<close>

definition CRLF_BYTES :: nat where "CRLF_BYTES = 2"
definition ACTION_WRAPPER_BYTES :: nat where "ACTION_WRAPPER_BYTES = 9"
definition ME_PREFIX_BYTES :: nat where "ME_PREFIX_BYTES = 4"

lemmas budget_defs = CRLF_BYTES_def ACTION_WRAPPER_BYTES_def ME_PREFIX_BYTES_def

definition build_line :: "string \<Rightarrow> IrcServerFeatures \<Rightarrow> IrcError + string" where
  "build_line command features =
     (let frame = line_length features in
      if command = [] then Inl EmptyInput
      else if contains_forbidden command then Inl InvalidCharacter
      else if frame < CRLF_BYTES \<or> length command + CRLF_BYTES > frame then Inl TooManyBytes
      else Inr (command @ [CR, LF]))"

definition composer_byte_budget :: "string \<Rightarrow> IrcServerFeatures \<Rightarrow> nat" where
  "composer_byte_budget target features =
     (let frame = line_length features in
      if frame < CRLF_BYTES then 0
      else if target = [] then frame - CRLF_BYTES
      else let prefix_len = length ''PRIVMSG '' + length target + length '' :'' in
           if prefix_len + 3 > frame then 0
           else frame - prefix_len - CRLF_BYTES)"

definition action_composer_byte_budget :: "string \<Rightarrow> IrcServerFeatures \<Rightarrow> nat" where
  "action_composer_byte_budget target features =
     (let privmsg = composer_byte_budget target features in
      if privmsg < ACTION_WRAPPER_BYTES then 0
      else privmsg - ACTION_WRAPPER_BYTES + ME_PREFIX_BYTES)"

definition draft_is_action :: "string \<Rightarrow> bool" where
  "draft_is_action draft =
     (let trimmed = dropWhile (\<lambda>c. c = CHR '' '' \<or> c = CHR 0x09) draft in
      if \<not> starts_with ''/'' trimmed then False
      else case position (\<lambda>c. c = CHR '' '') trimmed of
        None \<Rightarrow> False
      | Some space \<Rightarrow>
          let token = take space trimmed in
          length token = 3 \<and> (token ! 1 = CHR ''m'' \<or> token ! 1 = CHR ''M'')
            \<and> (token ! 2 = CHR ''e'' \<or> token ! 2 = CHR ''E''))"

definition composer_byte_budget_for_draft :: "string \<Rightarrow> string \<Rightarrow> IrcServerFeatures \<Rightarrow> nat" where
  "composer_byte_budget_for_draft target draft features =
     (if target = [] \<or> \<not> draft_is_action draft then composer_byte_budget target features
      else action_composer_byte_budget target features)"

text \<open>The loop of \<open>clamp_utf8_prefix\<close>: \<open>index\<close> is the byte offset of the next character, \<open>stop\<close> the source's \<open>end\<close>.\<close>

fun clamp_loop :: "nat \<Rightarrow> nat \<Rightarrow> nat \<Rightarrow> scalar list \<Rightarrow> nat" where
  "clamp_loop max_bytes index stop [] = stop"
| "clamp_loop max_bytes index stop (c # cs) =
     (let nxt = index + length (encode_scalar c) in
      if nxt > max_bytes then stop
      else clamp_loop max_bytes nxt nxt cs)"

definition clamp_utf8_prefix :: "string \<Rightarrow> nat \<Rightarrow> string" where
  "clamp_utf8_prefix text_in max_bytes = take (clamp_loop max_bytes 0 0 (chars text_in)) text_in"

section \<open>Splitting a body over several lines\<close>

datatype split_outcome = Chunks "string list" | Unsendable | Panicked

definition is_char_boundary :: "string \<Rightarrow> nat \<Rightarrow> bool" where
  "is_char_boundary s i \<longleftrightarrow> i = 0 \<or> i = length s \<or> (i < length s \<and> \<not> is_cont (s ! i))"

definition str_slice :: "string \<Rightarrow> nat \<Rightarrow> nat \<Rightarrow> string option" where
  "str_slice s a b =
     (if a \<le> b \<and> b \<le> length s \<and> is_char_boundary s a \<and> is_char_boundary s b
      then Some (take (b - a) (drop a s)) else None)"

definition push_chunk :: "string option \<Rightarrow> split_outcome \<Rightarrow> split_outcome" where
  "push_chunk chunk rest =
     (case chunk of
        None \<Rightarrow> Panicked
      | Some c \<Rightarrow> (case rest of Chunks cs \<Rightarrow> Chunks (c # cs) | other \<Rightarrow> other))"

fun rposition :: "(char \<Rightarrow> bool) \<Rightarrow> string \<Rightarrow> nat option" where
  "rposition P [] = None"
| "rposition P (x # xs) =
     (case rposition P xs of Some i \<Rightarrow> Some (Suc i) | None \<Rightarrow> if P x then Some 0 else None)"

lemma rposition_Some: "rposition P xs = Some i \<Longrightarrow> i < length xs \<and> P (xs ! i)"
  by (induction xs arbitrary: i) (auto split: option.splits if_splits)

text \<open>The back-up loop: the largest cut at or before \<open>take\<close> that does not start with a continuation byte, or 0.\<close>

fun back_up :: "bytes \<Rightarrow> nat \<Rightarrow> nat \<Rightarrow> nat" where
  "back_up bytes offset 0 = 0"
| "back_up bytes offset (Suc t) = (if is_cont (bytes ! (offset + Suc t)) then back_up bytes offset t else Suc t)"

lemma back_up_le: "back_up bytes offset t \<le> t"
  by (induction t) auto

function split_loop :: "nat \<Rightarrow> string \<Rightarrow> nat \<Rightarrow> split_outcome" where
  "split_loop max_body body offset =
     (if offset \<ge> length body then Chunks []
      else let remaining = length body - offset in
        if remaining \<le> max_body then push_chunk (str_slice body offset (length body)) (Chunks [])
        else case (case rposition (\<lambda>b. b = CHR '' '') (take max_body (drop offset body)) of
                     Some last_space \<Rightarrow> if last_space > 0 then Some last_space else None
                   | None \<Rightarrow> None) of
          Some last_space \<Rightarrow>
            push_chunk (str_slice body offset (offset + last_space))
              (split_loop max_body body (offset + (last_space + 1)))
        | None \<Rightarrow>
            let cut = back_up body offset max_body in
            if cut = 0 then Unsendable
            else push_chunk (str_slice body offset (offset + cut)) (split_loop max_body body (offset + cut)))"
  by pat_completeness auto
termination
  by (relation "measure (\<lambda>(m, body, offset). length body - offset)") auto

declare split_loop.simps [simp del]

definition split_trailing_param :: "string \<Rightarrow> string \<Rightarrow> string \<Rightarrow> IrcServerFeatures \<Rightarrow> string list option" where
  "split_trailing_param prefix body suffix features =
     (let frame = line_length features in
      if body = [] \<or> contains_forbidden prefix \<or> contains_forbidden body \<or> contains_forbidden suffix then Some []
      else if frame < 3 \<or> length prefix + length suffix + 3 > frame then Some []
      else let max_body = frame - length prefix - length suffix - CRLF_BYTES in
           case split_loop max_body body 0 of
             Chunks chunks \<Rightarrow> Some chunks
           | Unsendable \<Rightarrow> Some []
           | Panicked \<Rightarrow> None)"

section \<open>Line builders\<close>

definition is_single_field :: "string \<Rightarrow> bool" where
  "is_single_field field \<longleftrightarrow> field \<noteq> [] \<and> \<not> contains_forbidden field \<and> CHR '' '' \<notin> set field"

definition is_join_field :: "string \<Rightarrow> bool" where
  "is_join_field field \<longleftrightarrow>
     field \<noteq> [] \<and> \<not> starts_with '':'' field
     \<and> \<not> (\<exists>c \<in> set (chars field). is_whitespace c \<or> c = 44 \<or> c = 0)"

definition nick_command :: "string \<Rightarrow> IrcServerFeatures \<Rightarrow> IrcError + string" where
  "nick_command nickname features =
     (if \<not> is_single_field nickname then Inl InvalidField
      else build_line (''NICK '' @ nickname) features)"

definition user_command :: "string \<Rightarrow> string \<Rightarrow> IrcServerFeatures \<Rightarrow> IrcError + string" where
  "user_command username realname features =
     (if \<not> is_single_field username \<or> realname = [] \<or> contains_forbidden realname then Inl InvalidField
      else build_line (''USER '' @ username @ '' 8 * :'' @ realname) features)"

definition pass_command :: "string \<Rightarrow> IrcServerFeatures \<Rightarrow> IrcError + string" where
  "pass_command password features =
     (if \<not> is_single_field password then Inl InvalidField
      else build_line (''PASS '' @ password) features)"

definition join_command :: "string \<Rightarrow> string \<Rightarrow> IrcServerFeatures \<Rightarrow> IrcError + string" where
  "join_command channel key features =
     (if \<not> is_join_field channel then Inl InvalidField
      else if key = [] then build_line (''JOIN '' @ channel) features
      else if \<not> is_join_field key then Inl InvalidField
      else build_line (''JOIN '' @ channel @ '' '' @ key) features)"

section \<open>Facts about lines and budgets\<close>

lemma build_line_Inr: "build_line c f = Inr l \<longleftrightarrow>
    c \<noteq> [] \<and> \<not> contains_forbidden c \<and> length c + 2 \<le> line_length f \<and> l = c @ [CR, LF]"
  by (auto simp: build_line_def Let_def CRLF_BYTES_def)

lemma clamp_loop_spec:
  "\<exists>k. clamp_loop mx index index cs = index + length (encode_utf8 (take k cs)) \<and> k \<le> length cs
     \<and> (index \<le> mx \<longrightarrow> index + length (encode_utf8 (take k cs)) \<le> mx)
     \<and> (k < length cs \<longrightarrow> index + length (encode_utf8 (take (Suc k) cs)) > mx)"
proof (induction cs arbitrary: index)
  case Nil
  show ?case by (simp add: encode_utf8_def)
next
  case (Cons c cs)
  let ?n = "index + length (encode_scalar c)"
  show ?case
  proof (cases "?n > mx")
    case True
    then show ?thesis by (intro exI [of _ 0]) (simp add: encode_utf8_def)
  next
    case False
    from Cons [of ?n] obtain k where "clamp_loop mx ?n ?n cs = ?n + length (encode_utf8 (take k cs))"
      "k \<le> length cs" "?n \<le> mx \<longrightarrow> ?n + length (encode_utf8 (take k cs)) \<le> mx"
      "k < length cs \<longrightarrow> ?n + length (encode_utf8 (take (Suc k) cs)) > mx" by blast
    then show ?thesis using False by (intro exI [of _ "Suc k"]) (simp add: encode_utf8_def add.assoc)
  qed
qed

lemma clamp_utf8_prefix_take:
  assumes "utf8_valid s"
  obtains k where "clamp_utf8_prefix s mx = encode_utf8 (take k (chars s))" "k \<le> length (chars s)"
    "length (clamp_utf8_prefix s mx) \<le> mx"
    "k < length (chars s) \<longrightarrow> length (encode_utf8 (take (Suc k) (chars s))) > mx"
proof -
  obtain k where k: "clamp_loop mx 0 0 (chars s) = length (encode_utf8 (take k (chars s)))" "k \<le> length (chars s)"
      "length (encode_utf8 (take k (chars s))) \<le> mx"
      "k < length (chars s) \<longrightarrow> length (encode_utf8 (take (Suc k) (chars s))) > mx"
    using clamp_loop_spec [of mx 0 "chars s"] by auto
  have "s = encode_utf8 (take k (chars s)) @ encode_utf8 (drop k (chars s))"
    using encode_chars [OF assms] by (simp flip: encode_utf8_append)
  then have "clamp_utf8_prefix s mx = encode_utf8 (take k (chars s))"
    unfolding clamp_utf8_prefix_def k(1) by (metis append_eq_conv_conj)
  then show ?thesis using that [of k] k by simp
qed

section \<open>Splitting is correct\<close>

text \<open>What the pieces must give back: the body, less at most one space at each cut.\<close>

fun rejoins :: "string list \<Rightarrow> string \<Rightarrow> bool" where
  "rejoins [] body \<longleftrightarrow> body = []"
| "rejoins [c] body \<longleftrightarrow> body = c"
| "rejoins (c # d # cs) body \<longleftrightarrow>
     (case strip_prefix c body of
        None \<Rightarrow> False
      | Some r \<Rightarrow> rejoins (d # cs) r \<or> (r \<noteq> [] \<and> hd r = CHR '' '' \<and> rejoins (d # cs) (tl r)))"

definition chunk_ok :: "nat \<Rightarrow> string \<Rightarrow> bool" where
  "chunk_ok m c \<longleftrightarrow> c \<noteq> [] \<and> length c \<le> m \<and> utf8_valid c"

definition split_good :: "nat \<Rightarrow> string \<Rightarrow> split_outcome \<Rightarrow> bool" where
  "split_good m s out \<longleftrightarrow>
     (case out of
        Panicked \<Rightarrow> False
      | Unsendable \<Rightarrow> m < 4
      | Chunks cs \<Rightarrow> cs \<noteq> [] \<and> rejoins cs s \<and> list_all (chunk_ok m) cs)"

lemma strip_prefix_append [simp]: "strip_prefix c (c @ r) = Some r"
  by (simp add: std_simps)

lemma split_good_push:
  assumes "split_good m s' out" "chunk_ok m c" "s = c @ s' \<or> s = c @ CHR '' '' # s'"
  shows "split_good m s (push_chunk (Some c) out)"
proof (cases out)
  case (Chunks cs)
  then obtain d ds where "cs = d # ds" "rejoins (d # ds) s'" "list_all (chunk_ok m) (d # ds)"
    using assms(1) by (cases cs) (auto simp: split_good_def)
  then show ?thesis using Chunks assms(2,3) by (auto simp: split_good_def push_chunk_def)
qed (use assms in \<open>auto simp: split_good_def push_chunk_def\<close>)

lemma str_slice_valid:
  assumes "utf8_valid body" "a \<le> b" "b \<le> length body" "is_char_boundary body a" "is_char_boundary body b"
  shows "str_slice body a b = Some (take (b - a) (drop a body)) \<and> utf8_valid (take (b - a) (drop a body))"
proof -
  have cut: "utf8_valid (take i body) \<and> utf8_valid (drop i body)" if "is_char_boundary body i" "i \<le> length body" for i
    using that assms(1) utf8_valid_cut [OF assms(1), of i] by (auto simp: is_char_boundary_def)
  have "take b body = take a body @ take (b - a) (drop a body)"
    using assms(2) by (metis append_take_drop_id le_add_diff_inverse take_add)
  then have "utf8_valid (take (b - a) (drop a body))"
    using cut [OF assms(5,3)] cut [OF assms(4)] assms(2,3) utf8_valid_append [of "take a body"] by auto
  then show ?thesis using assms by (simp add: str_slice_def)
qed

lemma utf8_cont_run:
  assumes "utf8_valid s" "i + 3 < length s"
  shows "\<exists>j \<le> 3. \<not> is_cont (s ! (i + j))"
  using assms
proof (induction s arbitrary: i rule: decode_utf8.induct)
  case (1 s)
  then have "s \<noteq> []" by auto
  with "1.prems"(1) obtain c r cs where n: "utf8_next s = Some (c, r)" and d: "decode_utf8 r = Some cs"
    by (auto simp: utf8_valid_def decode_utf8.simps [of s] split: option.splits)
  from n obtain l where l: "s = l @ r" "l \<noteq> []" "length l \<le> 4"
    by (elim utf8_next_split) blast
  have r: "utf8_valid r" using d by (simp add: utf8_valid_def)
  show ?case
  proof (cases "i < length l")
    case False
    then have "\<exists>j \<le> 3. \<not> is_cont (r ! (i - length l + j))"
      using "1.prems"(2) l by (intro "1.IH" [OF \<open>s \<noteq> []\<close> n refl r]) auto
    moreover have "s ! (i + j) = r ! (i - length l + j)" for j
      using False by (simp add: l(1) nth_append)
    ultimately show ?thesis by simp
  next
    case True
    show ?thesis
    proof (cases "i = 0")
      case True
      then show ?thesis using "1.prems"(1) \<open>s \<noteq> []\<close> by (intro exI [of _ 0]) (cases s, auto dest: utf8_valid_hd)
    next
      case F: False
      then have "r \<noteq> []" "length l - i \<le> 3" using True "1.prems"(2) l by auto
      then have "\<not> is_cont (s ! (i + (length l - i)))"
        using True r l(1) by (cases r) (auto simp: nth_append dest: utf8_valid_hd)
      then show ?thesis using \<open>length l - i \<le> 3\<close> by blast
    qed
  qed
qed

lemma back_up_cont: "back_up body offset t < j \<Longrightarrow> j \<le> t \<Longrightarrow> is_cont (body ! (offset + j))"
  by (induction t) (auto simp: le_Suc_eq split: if_splits)

lemma back_up_boundary: "back_up body offset t \<noteq> 0 \<Longrightarrow> \<not> is_cont (body ! (offset + back_up body offset t))"
  by (induction t) auto

lemma back_up_zero:
  assumes "utf8_valid body" "back_up body offset m = 0" "offset + m < length body"
  shows "m < 4"
proof (rule ccontr)
  assume "\<not> m < 4"
  then obtain j where "j \<le> 3" "\<not> is_cont (body ! (offset + 1 + j))"
    using utf8_cont_run [OF assms(1), of "offset + 1"] assms(3) by auto
  then show False using back_up_cont [of body offset m "Suc j"] assms(2) \<open>\<not> m < 4\<close> by simp
qed

lemma boundary_offset: "offset + k < length body \<Longrightarrow> \<not> is_cont (body ! (offset + k)) \<Longrightarrow> is_char_boundary body (offset + k)"
  by (simp add: is_char_boundary_def)

lemma drop_at_space:
  assumes "i < length (drop a s)" "drop a s ! i = CHR '' ''"
  shows "drop a s = take i (drop a s) @ CHR '' '' # drop (a + (i + 1)) s"
  using id_take_nth_drop [OF assms(1)] assms(2) by (simp add: add.commute add.left_commute)

lemma after_space_boundary:
  assumes "utf8_valid body" "i < length body" "body ! i = CHR '' ''" "Suc i < length body"
  shows "\<not> is_cont (body ! Suc i)"
proof -
  have "utf8_valid (drop i body)"
    using utf8_valid_cut [OF assms(1), of i] assms(2,3) by (simp add: is_cont_def)
  then have "utf8_valid (drop (Suc i) body)"
    using assms(2,3) by (simp flip: Cons_nth_drop_Suc)
  then show ?thesis using assms(4) by (metis Cons_nth_drop_Suc utf8_valid_hd)
qed

lemma split_loop_good:
  assumes "utf8_valid body" "offset < length body" "is_char_boundary body offset"
  shows "split_good m (drop offset body) (split_loop m body offset)"
  using assms
proof (induction m body offset rule: split_loop.induct)
  case (1 m body offset)
  let ?w = "take m (drop offset body)" and ?sp = "\<lambda>b. b = CHR '' ''"
  note prems = "1.prems"
  show ?case
  proof (cases "length body - offset \<le> m")
    case True
    then show ?thesis
      using prems str_slice_valid [OF prems(1), of offset "length body"]
      by (simp add: split_loop.simps [of m body offset] split_good_def push_chunk_def chunk_ok_def is_char_boundary_def)
  next
    case big: False
    show ?thesis
    proof (cases "\<exists>i > 0. rposition ?sp ?w = Some i")
      case True
      then obtain i where i: "rposition ?sp ?w = Some i" "i > 0" by blast
      from rposition_Some [OF i(1)] big have at: "i < m" "body ! (offset + i) = CHR '' ''" "Suc (offset + i) < length body"
        by auto
      have b: "is_char_boundary body (offset + i)" "is_char_boundary body (offset + (i + 1))"
        using at after_space_boundary [OF prems(1), of "offset + i"] by (auto simp: is_char_boundary_def is_cont_def)
      have "split_good m (drop (offset + (i + 1)) body) (split_loop m body (offset + (i + 1)))"
        by (rule "1.IH"(2)) (use i big prems b at in auto)
      moreover have "chunk_ok m (take i (drop offset body))"
        using str_slice_valid [OF prems(1), of offset "offset + i"] b at i(2) prems by (auto simp: chunk_ok_def)
      moreover have "drop offset body = take i (drop offset body) @ CHR '' '' # drop (offset + (i + 1)) body"
        using at by (intro drop_at_space) auto
      ultimately show ?thesis
        using str_slice_valid [OF prems(1), of offset "offset + i"] b at i big prems
        by (simp add: split_loop.simps [of m body offset]) (blast intro: split_good_push)
    next
      case False
      then have none: "(case rposition ?sp ?w of Some k \<Rightarrow> if k > 0 then Some k else None | None \<Rightarrow> None) = None"
        by (cases "rposition ?sp ?w") auto
      let ?k = "back_up body offset m"
      show ?thesis
      proof (cases "?k = 0")
        case True
        then have "m < 4" by (rule back_up_zero [OF prems(1)]) (use big in auto)
        then show ?thesis using True none big prems(2) by (simp add: split_loop.simps [of m body offset] split_good_def)
      next
        case k: False
        have le: "?k \<le> m" by (rule back_up_le)
        have b: "is_char_boundary body (offset + ?k)"
          using back_up_boundary [OF k] le big by (intro boundary_offset) auto
        have "split_good m (drop (offset + ?k) body) (split_loop m body (offset + ?k))"
          by (rule "1.IH"(1)) (use none k big prems b le in auto)
        moreover have "chunk_ok m (take ?k (drop offset body))"
          using str_slice_valid [OF prems(1), of offset "offset + ?k"] b le k big prems by (auto simp: chunk_ok_def)
        moreover have "drop offset body = take ?k (drop offset body) @ drop (offset + ?k) body"
          by (metis add.commute append_take_drop_id drop_drop)
        ultimately show ?thesis
          using str_slice_valid [OF prems(1), of offset "offset + ?k"] b le big k none prems
          by (simp add: split_loop.simps [of m body offset] Let_def) (blast intro: split_good_push)
      qed
    qed
  qed
qed

lemma rejoins_set: "rejoins cs body \<Longrightarrow> c \<in> set cs \<Longrightarrow> set c \<subseteq> set body"
proof (induction cs body rule: rejoins.induct)
  case (3 a d cs body)
  then obtain r where "body = a @ r" "rejoins (d # cs) r \<or> (r \<noteq> [] \<and> rejoins (d # cs) (tl r))"
    by (auto simp: std_simps split: option.splits)
  then show ?case using 3 by (cases r) (fastforce simp: std_simps)+
qed auto



section \<open>Budgets\<close>

definition privmsg_line :: "string \<Rightarrow> string \<Rightarrow> string" where
  "privmsg_line target body = ''PRIVMSG '' @ target @ '' :'' @ body"

definition action_body :: "string \<Rightarrow> string" where
  "action_body body = CHR 0x01 # ''ACTION '' @ body @ [CHR 0x01]"

lemma privmsg_fits:
  "target \<noteq> [] \<Longrightarrow> body \<noteq> [] \<Longrightarrow> \<not> contains_forbidden (target @ body) \<Longrightarrow>
   isl (build_line (privmsg_line target body) f) \<longleftrightarrow> length body > composer_byte_budget target f"
proof -
  assume a: "target \<noteq> []" "body \<noteq> []" "\<not> contains_forbidden (target @ body)"
  have "\<not> contains_forbidden (privmsg_line target body)" "privmsg_line target body \<noteq> []"
    "length (privmsg_line target body) = 10 + length target + length body"
    using a(3) by (simp_all add: privmsg_line_def)
  then have "isl (build_line (privmsg_line target body) f) \<longleftrightarrow> length body + (12 + length target) > line_length f"
    by (auto simp: build_line_def Let_def CRLF_BYTES_def)
  also have "\<dots> \<longleftrightarrow> length body > composer_byte_budget target f"
    using a(1,2) by (cases body) (auto simp: composer_byte_budget_def Let_def CRLF_BYTES_def)
  finally show ?thesis .
qed

text \<open>
  C18. The composer budget is exact: a non-empty clean message to a target can be sent as one line if and only if
  its length is within the budget, and a \<open>/me\<close> draft is within the action budget if and only if the CTCP ACTION
  it becomes can be sent as one build_line.
\<close>

theorem composer_budget_exact:
  assumes "target \<noteq> []" "body \<noteq> []" "\<not> contains_forbidden (target @ body)"
  shows "(isl (build_line (privmsg_line target body) f) \<longleftrightarrow> length body > composer_byte_budget target f)
    \<and> (isl (build_line (privmsg_line target (action_body body)) f)
         \<longleftrightarrow> length (''/me '' @ body) > composer_byte_budget_for_draft target (''/me '' @ body) f)"
proof -
  have "\<not> contains_forbidden (target @ action_body body)"
    using assms(3) by (auto simp: action_body_def contains_forbidden_def)
  moreover have "draft_is_action (''/me '' @ body)" by (simp add: draft_is_action_def Let_def starts_with_def)
  ultimately show ?thesis
    using assms privmsg_fits [of target body f] privmsg_fits [of target "action_body body" f]
    by (auto simp: composer_byte_budget_for_draft_def action_composer_byte_budget_def Let_def budget_defs action_body_def)
qed

theorem composer_budget_exact_witness:
  "isl (build_line (privmsg_line ''#a'' ''hello'') (new_features\<lparr>line_length := 18\<rparr>))
   \<and> \<not> isl (build_line (privmsg_line ''#a'' ''hello'') (new_features\<lparr>line_length := 19\<rparr>))"
proof -
  have ok: "''#a'' \<noteq> []" "''hello'' \<noteq> []" "\<not> contains_forbidden (''#a'' @ ''hello'')"
    by (simp_all add: contains_forbidden_def)
  show ?thesis
    using composer_budget_exact [OF ok, of "new_features\<lparr>line_length := 18\<rparr>"]
      composer_budget_exact [OF ok, of "new_features\<lparr>line_length := 19\<rparr>"]
    by (simp add: composer_byte_budget_def CRLF_BYTES_def)
qed

text \<open>
  \<open>clamp_utf8_prefix\<close> returns a well-formed prefix within the limit, and no longer well-formed prefix is
  within the limit.
\<close>

theorem clamp_utf8_prefix_longest:
  assumes "utf8_valid s"
  shows "\<exists>rest. s = clamp_utf8_prefix s mx @ rest \<and> utf8_valid (clamp_utf8_prefix s mx)
    \<and> length (clamp_utf8_prefix s mx) \<le> mx
    \<and> (\<forall>p q. s = p @ q \<and> utf8_valid p \<and> length p \<le> mx \<longrightarrow> length p \<le> length (clamp_utf8_prefix s mx))"
proof -
  obtain k where k: "clamp_utf8_prefix s mx = encode_utf8 (take k (chars s))" "k \<le> length (chars s)"
    "length (clamp_utf8_prefix s mx) \<le> mx" "k < length (chars s) \<longrightarrow> length (encode_utf8 (take (Suc k) (chars s))) > mx"
    by (rule clamp_utf8_prefix_take [OF assms])
  have "s = clamp_utf8_prefix s mx @ encode_utf8 (drop k (chars s))"
    using encode_chars [OF assms] by (simp add: k(1) flip: encode_utf8_append)
  moreover have "utf8_valid (clamp_utf8_prefix s mx)"
    unfolding k(1) by (rule utf8_valid_encode) (meson chars_scalars in_set_takeD)
  moreover have "length p \<le> length (clamp_utf8_prefix s mx)" if "s = p @ q" "utf8_valid p" "length p \<le> mx" for p q
  proof -
    have "utf8_valid q" using assms that(1,2) utf8_valid_append [of p q] by simp
    then have c: "chars s = chars p @ chars q" using that(1,2) chars_append by simp
    have "length (chars p) \<le> k"
    proof (rule ccontr)
      assume "\<not> length (chars p) \<le> k"
      then have "Suc k \<le> length (chars p)" "k < length (chars s)" using c by auto
      then have "length (encode_utf8 (take (Suc k) (chars s))) \<le> length (encode_utf8 (chars p))"
        using c encode_utf8_append [of "take (Suc k) (chars p)" "drop (Suc k) (chars p)"] by simp
      then show False using k(4) \<open>k < length (chars s)\<close> that(2,3) by (simp add: encode_chars)
    qed
    then have "take k (chars s) = chars p @ take (k - length (chars p)) (chars q)" using c by simp
    then show ?thesis using that(2) by (simp add: k(1) encode_utf8_append encode_chars)
  qed
  ultimately show ?thesis using k(3) by blast
qed

theorem clamp_utf8_prefix_longest_witness:
  "utf8_valid ''abc'' \<and> length (clamp_utf8_prefix ''abc'' 2) \<le> 2 \<and> clamp_utf8_prefix ''abc'' 2 = ''ab''"
proof -
  have v: "utf8_valid ''abc''" by code_simp
  moreover have "clamp_utf8_prefix ''abc'' 2 = ''ab''" by code_simp
  ultimately show ?thesis using clamp_utf8_prefix_longest [OF v, of 2] by blast
qed

section \<open>What a server reads\<close>

text \<open>A built line is a CRLF-terminated line that the parser reads as the given command and parameters.\<close>

definition command_message :: "string \<Rightarrow> bytes list \<Rightarrow> IrcMessage" where
  "command_message cmd ps = \<lparr>msg_tags = [], msg_prefix = None, msg_command = cmd, msg_params = ps\<rparr>"

definition carries :: "string \<Rightarrow> string \<Rightarrow> bytes list \<Rightarrow> bool" where
  "carries l cmd ps \<longleftrightarrow>
     l = take (length l - 2) l @ [CR, LF] \<and> parse (take (length l - 2) l) = Inr (command_message cmd ps)"

lemma parse_plain:
  assumes "is_valid_command cmd" "to_ascii_uppercase cmd = cmd" "\<not> contains_forbidden t"
  shows "parse (cmd @ SP # t) = Inr (command_message cmd (parse_parameters t))"
proof -
  note ex = command_excludes [OF assms(1)]
  have "\<not> contains_forbidden (cmd @ SP # t)" using ex assms(3) by (auto simp: contains_forbidden_def)
  moreover have "parse_tag_section (cmd @ SP # t) = Inr ([], cmd @ SP # t)"
    using ex by (simp add: parse_tag_section_def)
  moreover have "parse_source (cmd @ SP # t) = Inr (None, cmd @ SP # t)"
    using ex by (cases cmd) (auto simp: parse_source_def)
  moreover have "parse_command (cmd @ SP # t) = Inr (cmd, parse_parameters t)"
    using ex assms upper_command [OF assms(1)] by (simp add: parse_command_def)
  ultimately show ?thesis by (simp add: parse_def command_message_def)
qed

lemma parse_parameters_trailing:
  "list_all (\<lambda>p. \<not> needs_colon p) ps \<Longrightarrow> length acc + length ps < MAX_PARAMETERS \<Longrightarrow>
     parse_parameters_from acc (concat (map (\<lambda>p. p @ [SP]) ps) @ CHR '':'' # t) = acc @ ps @ [t]"
proof (induction ps arbitrary: acc)
  case Nil
  show ?case by (simp add: parse_parameters_from.simps Let_def)
next
  case (Cons p ps)
  let ?r = "concat (map (\<lambda>p. p @ [SP]) ps) @ CHR '':'' # t"
  have "parse_parameters_from acc (p @ SP # ?r) = parse_parameters_from (acc @ [p]) ?r"
    using Cons.prems by (subst parse_parameters_from.simps) (auto simp: skip_spaces_param needs_colon_False Let_def)
  then show ?case using Cons by simp
qed

lemma line_carries:
  assumes "build_line (cmd @ render_params ps) f = Inr l"
    and "is_valid_command cmd" "to_ascii_uppercase cmd = cmd" "length ps \<le> 15" "params_ok ps"
    and "list_all (\<lambda>p. \<not> contains_forbidden p) ps"
  shows "carries l cmd ps"
proof -
  have l: "l = (cmd @ render_params ps) @ [CR, LF]" using assms(1) by (simp add: build_line_Inr)
  have "canonical (command_message cmd ps)"
    using assms by (simp add: canonical_def command_message_def source_ok_def limit_defs list_all_iff tag_section_bytes_def)
  from parse_render [OF this] have "parse (cmd @ render_params ps) = Inr (command_message cmd ps)"
    by (simp add: render_def render_tags_def render_source_def command_message_def)
  then show ?thesis unfolding carries_def l by simp
qed

lemma line_carries_trailing:
  assumes "build_line (cmd @ SP # concat (map (\<lambda>p. p @ [SP]) ps) @ CHR '':'' # t) f = Inr l"
    and "is_valid_command cmd" "to_ascii_uppercase cmd = cmd" "length ps < 15" "list_all (\<lambda>p. \<not> needs_colon p) ps"
  shows "carries l cmd (ps @ [t])"
proof -
  let ?t = "concat (map (\<lambda>p. p @ [SP]) ps) @ CHR '':'' # t"
  have l: "l = (cmd @ SP # ?t) @ [CR, LF]" and "\<not> contains_forbidden ?t" using assms(1) by (simp_all add: build_line_Inr)
  then have "parse (cmd @ SP # ?t) = Inr (command_message cmd (ps @ [t]))"
    using parse_plain [OF assms(2,3)] parse_parameters_trailing [OF assms(5), of "[]" t] assms(4)
    by (simp add: parse_parameters_def limit_defs)
  then show ?thesis unfolding carries_def l by simp
qed

lemma single_field_param:
  "is_single_field p \<Longrightarrow> \<not> starts_with '':'' p \<Longrightarrow> \<not> needs_colon p \<and> \<not> contains_forbidden p"
  by (cases p) (auto simp: is_single_field_def needs_colon_def starts_with_def)

lemma join_field_param:
  assumes "is_join_field p" "utf8_valid p"
  shows "\<not> needs_colon p \<and> \<not> contains_forbidden p"
proof -
  have out: "c \<notin> set p" if "is_whitespace (code c) \<or> code c = 0" "code c < 128" for c
    using assms ascii_in_chars [OF assms(2), of c] that by (auto simp: is_join_field_def)
  have "SP \<notin> set p" "CR \<notin> set p" "LF \<notin> set p" "NUL \<notin> set p"
    by (rule out; simp add: is_whitespace_def)+
  then show ?thesis using assms(1)
    by (cases p) (auto simp: is_join_field_def needs_colon_def contains_forbidden_def starts_with_def)
qed

lemma join_command_carries:
  assumes "utf8_valid channel" "utf8_valid key" "join_command channel key f = Inr l"
  shows "carries l ''JOIN'' (if key = [] then [channel] else [channel, key])"
proof -
  have "is_valid_command ''JOIN''" "to_ascii_uppercase ''JOIN'' = ''JOIN''"
    by (simp_all add: is_valid_command_def to_ascii_uppercase_def ascii_defs)
  then show ?thesis
    using assms join_field_param [of channel] join_field_param [of key]
    by (intro line_carries [where f = f]) (auto simp: join_command_def split: if_splits)
qed

text \<open>
  What the builders send is what the server reads: whenever a builder returns a line, that line parses as its
  command with exactly the given fields as parameters. The nickname, user name and password must not start with a
  colon; JOIN needs no such condition, because its builder refuses one.
\<close>

theorem builders_carry:
  assumes "utf8_valid channel" "utf8_valid key"
    and "\<not> starts_with '':'' nickname" "\<not> starts_with '':'' username" "\<not> starts_with '':'' password"
  shows "(nick_command nickname f = Inr l \<longrightarrow> carries l ''NICK'' [nickname])
    \<and> (pass_command password f = Inr l \<longrightarrow> carries l ''PASS'' [password])
    \<and> (user_command username realname f = Inr l \<longrightarrow> carries l ''USER'' [username, ''8'', ''*'', realname])
    \<and> (join_command channel key f = Inr l \<longrightarrow> carries l ''JOIN'' (if key = [] then [channel] else [channel, key]))"
proof -
  have cmds: "is_valid_command c" "to_ascii_uppercase c = c" if "c \<in> {''NICK'', ''PASS'', ''USER'', ''JOIN''}" for c
    using that by (auto simp: is_valid_command_def to_ascii_uppercase_def ascii_defs)
  have "carries l ''NICK'' [nickname]" if "nick_command nickname f = Inr l"
    using that assms(3) single_field_param [of nickname]
    by (intro line_carries [where f = f]) (auto simp: nick_command_def cmds split: if_splits)
  moreover have "carries l ''PASS'' [password]" if "pass_command password f = Inr l"
    using that assms(5) single_field_param [of password]
    by (intro line_carries [where f = f]) (auto simp: pass_command_def cmds split: if_splits)
  moreover have "carries l ''USER'' [username, ''8'', ''*'', realname]" if "user_command username realname f = Inr l"
    using that assms(4) single_field_param [of username] line_carries_trailing [of "''USER''" "[username, ''8'', ''*'']" realname f l]
    by (auto simp: user_command_def cmds needs_colon_def split: if_splits)
  ultimately show ?thesis using join_command_carries [OF assms(1,2)] by blast
qed

theorem builders_carry_witness:
  "carries (''NICK bo'' @ [CR, LF]) ''NICK'' [''bo''] \<and> carries (''PASS pw'' @ [CR, LF]) ''PASS'' [''pw'']
   \<and> carries (''USER u 8 * :r'' @ [CR, LF]) ''USER'' [''u'', ''8'', ''*'', ''r'']
   \<and> carries (''JOIN #a k'' @ [CR, LF]) ''JOIN'' [''#a'', ''k'']"
proof -
  have built: "nick_command ''bo'' new_features = Inr (''NICK bo'' @ [CR, LF])" "pass_command ''pw'' new_features = Inr (''PASS pw'' @ [CR, LF])"
    "user_command ''u'' ''r'' new_features = Inr (''USER u 8 * :r'' @ [CR, LF])"
    "join_command ''#a'' ''k'' new_features = Inr (''JOIN #a k'' @ [CR, LF])"
    by (simp_all add: nick_command_def pass_command_def user_command_def join_command_def build_line_def line_length_new is_single_field_def
        is_join_field_def chars_ascii is_whitespace_def starts_with_def CRLF_BYTES_def)
  have ok: "utf8_valid ''#a''" "utf8_valid ''k''" "\<not> starts_with '':'' ''bo''" "\<not> starts_with '':'' ''u''" "\<not> starts_with '':'' ''pw''"
    by code_simp+
  from builders_carry [OF ok, of new_features _ "''r''"] built show ?thesis by auto
qed

text \<open>A password that starts with a colon passes the field check, and the server reads it without the colon.\<close>

lemma pass_leading_colon:
  "pass_command '':pw'' new_features = Inr (''PASS :pw'' @ [CR, LF]) \<and> carries (''PASS :pw'' @ [CR, LF]) ''PASS'' [''pw'']"
proof -
  have built: "pass_command '':pw'' new_features = Inr (''PASS :pw'' @ [CR, LF])"
    by (simp add: pass_command_def build_line_def line_length_new is_single_field_def CRLF_BYTES_def)
  then have "build_line (''PASS'' @ SP # concat (map (\<lambda>p. p @ [SP]) []) @ CHR '':'' # ''pw'') new_features = Inr (''PASS :pw'' @ [CR, LF])"
    by (simp add: pass_command_def split: if_splits)
  from line_carries_trailing [OF this] have "carries (''PASS :pw'' @ [CR, LF]) ''PASS'' [''pw'']"
    by (simp add: is_valid_command_def to_ascii_uppercase_def ascii_defs)
  with built show ?thesis by blast
qed

end
