(* ===== verification/ByteBudget.thy ===== *)
theory ByteBudget
  imports CommandBuilder
begin

text \<open>
  \<^verbatim>\<open>client/src/model/byte_budget.rs\<close>: how much of an insertion the composer accepts so that the whole draft
  still fits one send. The loop shortens the insertion until it fits; its termination is part of the definition.
\<close>

record SendLimit =
  sl_target :: string
  sl_features :: IrcServerFeatures

definition new_send_limit :: "string option \<Rightarrow> IrcServerFeatures \<Rightarrow> SendLimit" where
  "new_send_limit target features =
     \<lparr>sl_target = (case target of None \<Rightarrow> [] | Some t \<Rightarrow> t), sl_features = features\<rparr>"

lemma clamp_loop_bound: "stop \<le> mx \<Longrightarrow> clamp_loop mx index stop cs \<le> mx"
  by (induction mx index stop cs rule: clamp_loop.induct) (auto simp: Let_def)

lemma clamp_utf8_prefix_bound: "length (clamp_utf8_prefix s mx) \<le> mx"
  using clamp_loop_bound [of 0 mx 0 "chars s"] by (simp add: clamp_utf8_prefix_def)

text \<open>\<open>&inserted[..keep]\<close> panics off a character boundary; \<open>None\<close> is that panic.\<close>

function insert_fit_loop :: "string \<Rightarrow> IrcServerFeatures \<Rightarrow> string \<Rightarrow> string \<Rightarrow> string \<Rightarrow> nat \<Rightarrow> nat option" where
  "insert_fit_loop target features before inserted after keep =
     (case str_slice inserted 0 keep of
        None \<Rightarrow> None
      | Some kept \<Rightarrow>
          let draft = before @ kept @ after;
              budget = composer_byte_budget_for_draft target draft features;
              room = budget - (length before + length after) in
          if keep \<le> room then Some keep
          else insert_fit_loop target features before inserted after (length (clamp_utf8_prefix inserted room)))"
  by pat_completeness auto
termination
  by (relation "measure (\<lambda>(t, f, b, i, a, keep). keep)")
     (auto intro: le_less_trans [OF clamp_utf8_prefix_bound])

declare insert_fit_loop.simps [simp del]

definition insert_fit_len :: "string \<Rightarrow> IrcServerFeatures \<Rightarrow> string \<Rightarrow> string \<Rightarrow> string \<Rightarrow> nat option" where
  "insert_fit_len target features before inserted after =
     insert_fit_loop target features before inserted after (length inserted)"

definition send_limit_fit_len :: "SendLimit \<Rightarrow> string \<Rightarrow> string \<Rightarrow> string \<Rightarrow> nat option" where
  "send_limit_fit_len limit before inserted after =
     insert_fit_len (sl_target limit) (sl_features limit) before inserted after"

lemma clamp_boundary:
  assumes "utf8_valid s"
  shows "is_char_boundary s (length (clamp_utf8_prefix s mx)) \<and> length (clamp_utf8_prefix s mx) \<le> length s"
proof -
  obtain k where k: "clamp_utf8_prefix s mx = encode_utf8 (take k (chars s))"
    by (rule clamp_utf8_prefix_take [OF assms])
  have s: "s = clamp_utf8_prefix s mx @ encode_utf8 (drop k (chars s))"
    using encode_chars [OF assms] by (simp add: k flip: encode_utf8_append)
  have "utf8_valid (encode_utf8 (drop k (chars s)))"
    by (rule utf8_valid_encode) (meson chars_scalars in_set_dropD)
  moreover define p q where "p = clamp_utf8_prefix s mx" and "q = encode_utf8 (drop k (chars s))"
  ultimately have "s = p @ q" "utf8_valid q" using s by simp_all
  then show ?thesis
    unfolding p_def [symmetric] by (cases q) (auto simp: is_char_boundary_def dest: utf8_valid_hd)
qed

definition fit_good :: "string \<Rightarrow> IrcServerFeatures \<Rightarrow> string \<Rightarrow> string \<Rightarrow> string \<Rightarrow> nat \<Rightarrow> bool" where
  "fit_good target features before inserted after keep \<longleftrightarrow>
     keep \<le> length inserted \<and> is_char_boundary inserted keep \<and>
     (keep = 0 \<or> length (before @ take keep inserted @ after)
        \<le> composer_byte_budget_for_draft target (before @ take keep inserted @ after) features)"

lemma insert_fit_loop_good:
  assumes "utf8_valid inserted" "keep \<le> length inserted" "is_char_boundary inserted keep"
  shows "\<exists>k. insert_fit_loop target features before inserted after keep = Some k
    \<and> fit_good target features before inserted after k \<and> k \<le> keep"
  using assms
proof (induction target features before inserted after keep rule: insert_fit_loop.induct)
  case (1 target features before inserted after keep)
  have slice: "str_slice inserted 0 keep = Some (take keep inserted)"
    using "1.prems" by (simp add: str_slice_def is_char_boundary_def)
  define room where "room = composer_byte_budget_for_draft target (before @ take keep inserted @ after) features
    - (length before + length after)"
  note step = insert_fit_loop.simps [of target features before inserted after keep]
  show ?case
  proof (cases "keep \<le> room")
    case True
    then have "fit_good target features before inserted after keep"
      using "1.prems" by (auto simp: fit_good_def room_def)
    then show ?thesis using True by (simp add: step slice Let_def flip: room_def)
  next
    case False
    let ?k = "length (clamp_utf8_prefix inserted room)"
    have "\<exists>k. insert_fit_loop target features before inserted after ?k = Some k
        \<and> fit_good target features before inserted after k \<and> k \<le> ?k"
      unfolding room_def using False clamp_boundary [OF "1.prems"(1)]
      by (intro "1.IH" [OF slice refl refl refl _ "1.prems"(1)]) (auto simp: room_def)
    then show ?thesis using False clamp_utf8_prefix_bound [of inserted room]
      by (fastforce simp: step slice Let_def simp flip: room_def)
  qed
qed

text \<open>
  C21. The insertion loop always returns: with a well-formed insertion it yields, without a panic, a character
  boundary of it such that keeping that much makes the whole draft fit its own budget, or keeps nothing.
\<close>

theorem insert_fit_len_fits:
  assumes "utf8_valid inserted"
  shows "\<exists>k. insert_fit_len target features before inserted after = Some k
    \<and> k \<le> length inserted \<and> is_char_boundary inserted k
    \<and> (k = 0 \<or> length (before @ take k inserted @ after)
         \<le> composer_byte_budget_for_draft target (before @ take k inserted @ after) features)"
  using insert_fit_loop_good [OF assms, of "length inserted" target features before after]
  by (auto simp: insert_fit_len_def fit_good_def is_char_boundary_def)

theorem insert_fit_len_fits_witness:
  "utf8_valid ''lo'' \<and> insert_fit_len ''#a'' (new_features\<lparr>line_length := 18\<rparr>) ''hel'' ''lo'' [] = Some 1
   \<and> is_char_boundary ''lo'' 1"
proof -
  have v: "utf8_valid ''lo''" by code_simp
  moreover have "insert_fit_len ''#a'' (new_features\<lparr>line_length := 18\<rparr>) ''hel'' ''lo'' [] = Some 1" by code_simp
  ultimately show ?thesis
    using insert_fit_len_fits [OF v, of "''#a''" "new_features\<lparr>line_length := 18\<rparr>" "''hel''" "[]"] by auto
qed

end
