(* ===== verification/Inbox.thy ===== *)
theory Inbox
  imports CaseMapping
begin

text \<open>
  \<^verbatim>\<open>client/src/irc/inbox.rs\<close>: the waiting list of mentions, messages, invites, presence and kicks, newest first
  and capped. Time stamps are integers. The locale \<open>superseding\<close> is the contract of a list that keeps one row
  per key while a new row replaces the old one; its client lemmas are used through the interpretation \<open>inbox\<close>.
\<close>

section \<open>Data and operations\<close>

type_synonym timestamp = int

definition MAX_INBOX_ITEMS :: nat where "MAX_INBOX_ITEMS = 50"

datatype InboxKind = Mention | Highlight | Direct | Invite | MonitorOnline | Kick

fun inbox_kind_name :: "InboxKind \<Rightarrow> string" where
  "inbox_kind_name Mention = ''mention''"
| "inbox_kind_name Highlight = ''highlight''"
| "inbox_kind_name Direct = ''direct''"
| "inbox_kind_name Invite = ''invite''"
| "inbox_kind_name MonitorOnline = ''monitorOnline''"
| "inbox_kind_name Kick = ''kick''"

definition is_conversation_kind :: "InboxKind \<Rightarrow> bool" where
  "is_conversation_kind k \<longleftrightarrow> k = Mention \<or> k = Highlight \<or> k = Direct \<or> k = Kick"

record InboxIdentity =
  id_kind :: InboxKind
  id_network_id :: string
  id_actor :: string
  id_target :: string
  id_msgid :: string
  id_timestamp :: timestamp

record InboxItem =
  ib_kind :: InboxKind
  ib_timestamp :: timestamp
  ib_network_id :: string
  ib_actor :: string
  ib_target :: string
  ib_preview :: string
  ib_msgid :: string

definition identity :: "InboxItem \<Rightarrow> InboxIdentity" where
  "identity i = \<lparr>id_kind = ib_kind i, id_network_id = ib_network_id i, id_actor = ib_actor i,
     id_target = ib_target i, id_msgid = ib_msgid i, id_timestamp = ib_timestamp i\<rparr>"

definition inbox_label :: "InboxItem \<Rightarrow> string" where
  "inbox_label i =
     (case ib_kind i of
        Mention \<Rightarrow> ib_actor i @ '' mentioned you in '' @ ib_target i
      | Highlight \<Rightarrow> ''Highlight in '' @ ib_target i
      | Direct \<Rightarrow> ''Message from '' @ ib_actor i
      | Invite \<Rightarrow> ib_actor i @ '' invited you to '' @ ib_target i
      | MonitorOnline \<Rightarrow> ib_actor i @ '' is online''
      | Kick \<Rightarrow> ''You were kicked from '' @ ib_target i)"

record Inbox =
  items :: "InboxItem list"

definition new_inbox :: Inbox where "new_inbox = \<lparr>items = []\<rparr>"

definition replaces :: "IrcCaseMapping \<Rightarrow> InboxItem \<Rightarrow> InboxItem \<Rightarrow> bool" where
  "replaces mapping item existing \<longleftrightarrow>
     ib_network_id existing = ib_network_id item \<and>
     (case ib_kind item of
        Invite \<Rightarrow> ib_kind existing = Invite \<and> equals mapping (ib_target existing) (ib_target item)
      | MonitorOnline \<Rightarrow> ib_kind existing = MonitorOnline \<and> equals mapping (ib_actor existing) (ib_actor item)
      | _ \<Rightarrow> False)"

definition inbox_append :: "InboxItem \<Rightarrow> IrcCaseMapping \<Rightarrow> Inbox \<Rightarrow> Inbox" where
  "inbox_append item mapping box =
     (let kept = (case position (replaces mapping item) (items box) of
                    Some index \<Rightarrow> vec_remove index (items box) | None \<Rightarrow> items box)
      in box\<lparr>items := take MAX_INBOX_ITEMS (item # kept)\<rparr>)"

definition remove_at :: "nat \<Rightarrow> Inbox \<Rightarrow> Inbox \<times> InboxItem option" where
  "remove_at index box =
     (if index < length (items box)
      then (box\<lparr>items := vec_remove index (items box)\<rparr>, Some (items box ! index)) else (box, None))"

definition remove_identity :: "InboxIdentity \<Rightarrow> Inbox \<Rightarrow> Inbox \<times> InboxItem option" where
  "remove_identity ident box =
     (case position (\<lambda>item. identity item = ident) (items box) of
        None \<Rightarrow> (box, None)
      | Some index \<Rightarrow> (box\<lparr>items := vec_remove index (items box)\<rparr>, Some (items box ! index)))"

definition consume_matching :: "(InboxItem \<Rightarrow> bool) \<Rightarrow> Inbox \<Rightarrow> Inbox" where
  "consume_matching matches box = box\<lparr>items := filter (\<lambda>item. \<not> matches item) (items box)\<rparr>"

definition consume_conversation :: "string \<Rightarrow> string \<Rightarrow> IrcCaseMapping \<Rightarrow> Inbox \<Rightarrow> Inbox" where
  "consume_conversation network_id target mapping =
     consume_matching (\<lambda>item. ib_network_id item = network_id \<and> is_conversation_kind (ib_kind item)
       \<and> equals mapping (ib_target item) target)"

definition consume_invite :: "string \<Rightarrow> string \<Rightarrow> IrcCaseMapping \<Rightarrow> Inbox \<Rightarrow> Inbox" where
  "consume_invite network_id channel mapping =
     consume_matching (\<lambda>item. ib_kind item = Invite \<and> ib_network_id item = network_id
       \<and> equals mapping (ib_target item) channel)"

definition consume_monitor :: "string \<Rightarrow> string \<Rightarrow> IrcCaseMapping \<Rightarrow> Inbox \<Rightarrow> Inbox" where
  "consume_monitor network_id nick mapping =
     consume_matching (\<lambda>item. ib_kind item = MonitorOnline \<and> ib_network_id item = network_id
       \<and> equals mapping (ib_actor item) nick)"

definition purge_network :: "string \<Rightarrow> Inbox \<Rightarrow> Inbox" where
  "purge_network network_id = consume_matching (\<lambda>item. ib_network_id item = network_id)"

section \<open>Rows that supersede one another\<close>

locale superseding =
  fixes supersedes :: "'r \<Rightarrow> 'r \<Rightarrow> bool"
  assumes sup_sym: "supersedes x y \<Longrightarrow> supersedes y x"
    and sup_trans: "supersedes x y \<Longrightarrow> supersedes y z \<Longrightarrow> supersedes x z"
begin

fun one_each :: "'r list \<Rightarrow> bool" where
  "one_each [] \<longleftrightarrow> True"
| "one_each (x # xs) \<longleftrightarrow> (\<forall>y \<in> set xs. \<not> supersedes x y) \<and> one_each xs"

lemma one_each_filter: "one_each xs \<Longrightarrow> one_each (filter P xs)"
  by (induction xs) auto

lemma one_each_take: "one_each xs \<Longrightarrow> one_each (take n xs)"
  by (induction xs arbitrary: n) (auto simp: take_Cons' dest: in_set_takeD)

lemma one_each_remove: "one_each xs \<Longrightarrow> one_each (vec_remove i xs)"
proof (induction xs arbitrary: i)
  case (Cons x xs)
  then show ?case using set_vec_remove [of "i - 1" xs] by (cases i) auto
qed (simp add: vec_remove_def)

text \<open>Removing the first row the new one supersedes removes every such row.\<close>

lemma remove_first_all:
  "one_each xs \<Longrightarrow>
     (case position (supersedes x) xs of Some i \<Rightarrow> vec_remove i xs | None \<Rightarrow> xs)
       = filter (\<lambda>y. \<not> supersedes x y) xs"
proof (induction xs)
  case (Cons y ys)
  show ?case
  proof (cases "supersedes x y")
    case True
    then have "\<not> supersedes x z" if "z \<in> set ys" for z
      using Cons.prems that sup_sym sup_trans by (meson one_each.simps(2))
    then have "filter (\<lambda>y. \<not> supersedes x y) ys = ys" by (simp add: filter_id_conv)
    then show ?thesis using True by simp
  next
    case False
    then show ?thesis using Cons by (simp split: option.splits)
  qed
qed simp

lemma one_each_push: "one_each xs \<Longrightarrow> one_each (x # filter (\<lambda>y. \<not> supersedes x y) xs)"
  by (simp add: one_each_filter)

end

text \<open>Every network has one mapping, which its rows are compared under.\<close>

definition row_supersedes :: "(string \<Rightarrow> IrcCaseMapping) \<Rightarrow> InboxItem \<Rightarrow> InboxItem \<Rightarrow> bool" where
  "row_supersedes M a b \<longleftrightarrow> replaces (M (ib_network_id a)) a b"

interpretation inbox: superseding "row_supersedes M" for M
proof
  fix x y z
  show "row_supersedes M x y \<Longrightarrow> row_supersedes M y x"
    by (auto simp: row_supersedes_def replaces_def mapping.same_commute split: InboxKind.splits)
  show "row_supersedes M x y \<Longrightarrow> row_supersedes M y z \<Longrightarrow> row_supersedes M x z"
    by (auto simp: row_supersedes_def replaces_def split: InboxKind.splits intro: mapping.same_trans)
qed

section \<open>Invariant\<close>

definition inbox_inv :: "(string \<Rightarrow> IrcCaseMapping) \<Rightarrow> Inbox \<Rightarrow> bool" where
  "inbox_inv M box \<longleftrightarrow> length (items box) \<le> MAX_INBOX_ITEMS \<and> inbox.one_each M (items box)"

inductive inbox_step :: "(string \<Rightarrow> IrcCaseMapping) \<Rightarrow> Inbox \<Rightarrow> Inbox \<Rightarrow> bool" for M where
  arrive: "inbox_step M box (inbox_append item (M (ib_network_id item)) box)"
| take_at: "inbox_step M box (fst (remove_at index box))"
| take_identity: "inbox_step M box (fst (remove_identity ident box))"
| selected: "inbox_step M box (consume_conversation n t (M n) box)"
| joined: "inbox_step M box (consume_invite n t (M n) box)"
| presence: "inbox_step M box (consume_monitor n t (M n) box)"
| purged: "inbox_step M box (purge_network n box)"

inductive inbox_reachable :: "(string \<Rightarrow> IrcCaseMapping) \<Rightarrow> Inbox \<Rightarrow> bool" for M where
  start: "inbox_reachable M new_inbox"
| step: "inbox_reachable M box \<Longrightarrow> inbox_step M box box' \<Longrightarrow> inbox_reachable M box'"

inductive_cases inbox_stepE: "inbox_step M box box'"

lemma inbox_append_spec:
  assumes "inbox_inv M box"
  shows "items (inbox_append item (M (ib_network_id item)) box) =
    take MAX_INBOX_ITEMS (item # filter (\<lambda>old. \<not> replaces (M (ib_network_id item)) item old) (items box))"
  using inbox.remove_first_all [of M "items box" item] assms
  by (simp add: inbox_append_def inbox_inv_def row_supersedes_def [abs_def] Let_def)

lemma inbox_append_inv:
  assumes "inbox_inv M box"
  shows "inbox_inv M (inbox_append item (M (ib_network_id item)) box)"
proof -
  have "inbox.one_each M (item # filter (\<lambda>old. \<not> replaces (M (ib_network_id item)) item old) (items box))"
    using inbox.one_each_push [of M "items box" item] assms by (simp add: inbox_inv_def row_supersedes_def)
  then show ?thesis
    using inbox.one_each_take by (auto simp: inbox_inv_def inbox_append_spec [OF assms])
qed

lemma consume_matching_inv: "inbox_inv M box \<Longrightarrow> inbox_inv M (consume_matching P box)"
  by (auto simp: inbox_inv_def consume_matching_def inbox.one_each_filter intro: le_trans [OF length_filter_le])

lemma remove_inv:
  "inbox_inv M box \<Longrightarrow> index < length (items box) \<Longrightarrow> inbox_inv M (box\<lparr>items := vec_remove index (items box)\<rparr>)"
  by (auto simp: inbox_inv_def inbox.one_each_remove length_vec_remove)

lemma inbox_step_inv: "inbox_step M box box' \<Longrightarrow> inbox_inv M box \<Longrightarrow> inbox_inv M box'"
  by (erule inbox_stepE)
     (auto simp: inbox_append_inv consume_matching_inv consume_conversation_def consume_invite_def
        consume_monitor_def purge_network_def remove_at_def remove_identity_def
        intro!: remove_inv dest: position_Some [THEN iffD1] split: option.splits)

lemma inbox_reachable_inv: "inbox_reachable M box \<Longrightarrow> inbox_inv M box"
  by (induction rule: inbox_reachable.induct) (auto simp: inbox_inv_def new_inbox_def MAX_INBOX_ITEMS_def dest: inbox_step_inv)


definition sample_invite :: "string \<Rightarrow> timestamp \<Rightarrow> InboxItem" where
  "sample_invite channel at = \<lparr>ib_kind = Invite, ib_timestamp = at, ib_network_id = ''n'', ib_actor = ''bo'',
     ib_target = channel, ib_preview = [], ib_msgid = []\<rparr>"


end
