(* ===== verification/Typing.thy ===== *)
theory Typing
  imports Parser
begin

text \<open>
  \<^verbatim>\<open>client/src/irc/typing.rs\<close>: the phases of the \<open>+typing\<close> client tag, how long a received hint is kept, and the
  TAGMSG line that announces a phase. Instants are integers in nanoseconds, as everywhere in the development.
\<close>

type_synonym instant_ns = int

definition TYPING_ACTIVE_HOLD_MS :: int where "TYPING_ACTIVE_HOLD_MS = 6000"
definition TYPING_PAUSED_HOLD_MS :: int where "TYPING_PAUSED_HOLD_MS = 30000"
definition TYPING_SEND_INTERVAL_MS :: int where "TYPING_SEND_INTERVAL_MS = 3000"

datatype TypingClock = ActiveClock | PausedClock

datatype TypingPhase = PhaseActive | PhasePaused | PhaseDone

fun typing_tag_value :: "TypingPhase \<Rightarrow> string" where
  "typing_tag_value PhaseActive = ''active''"
| "typing_tag_value PhasePaused = ''paused''"
| "typing_tag_value PhaseDone = ''done''"

record TypingHint =
  clock :: TypingClock
  received_at :: "instant_ns option"
  display_nick :: string

definition stored_typing_hint :: "TypingPhase \<Rightarrow> instant_ns \<Rightarrow> string \<Rightarrow> TypingHint option" where
  "stored_typing_hint phase at nick =
     (if phase = PhaseDone then None
      else Some \<lparr>clock = (if phase = PhasePaused then PausedClock else ActiveClock),
                 received_at = Some at, display_nick = nick\<rparr>)"

definition typing_expires_at :: "TypingHint \<Rightarrow> instant_ns option" where
  "typing_expires_at hint =
     (let hold_ms = (case clock hint of ActiveClock \<Rightarrow> TYPING_ACTIVE_HOLD_MS | PausedClock \<Rightarrow> TYPING_PAUSED_HOLD_MS)
      in map_option (\<lambda>received. received + hold_ms * 1000000) (received_at hint))"

definition typing_hint_retained :: "TypingHint \<Rightarrow> instant_ns \<Rightarrow> bool" where
  "typing_hint_retained hint now =
     (case typing_expires_at hint of None \<Rightarrow> False | Some expires \<Rightarrow> now < expires)"

definition typing_shows_indicator :: "TypingHint \<Rightarrow> instant_ns \<Rightarrow> bool" where
  "typing_shows_indicator hint now = typing_hint_retained hint now"

definition typing_phase_from_tag :: "string \<Rightarrow> TypingPhase option" where
  "typing_phase_from_tag value =
     (if eq_ignore_ascii_case value ''active'' then Some PhaseActive
      else if eq_ignore_ascii_case value ''paused'' then Some PhasePaused
      else if eq_ignore_ascii_case value ''done'' then Some PhaseDone
      else None)"

definition typing_tagmsg :: "string \<Rightarrow> TypingPhase \<Rightarrow> string option" where
  "typing_tagmsg target phase =
     (if target = [] \<or> (\<exists>byte \<in> set target. byte = SP \<or> byte = CR \<or> byte = LF) then None
      else Some (''@+typing='' @ typing_tag_value phase @ '' TAGMSG '' @ target @ [CR, LF]))"

section \<open>Round trip\<close>

definition typing_message :: "string \<Rightarrow> TypingPhase \<Rightarrow> IrcMessage" where
  "typing_message target phase =
     \<lparr>msg_tags = [\<lparr>tag_name = ''+typing'', tag_value = Some (typing_tag_value phase)\<rparr>], msg_prefix = None,
      msg_command = ''TAGMSG'', msg_params = [target]\<rparr>"

lemma typing_phase_tag [simp]: "typing_phase_from_tag (typing_tag_value phase) = Some phase"
proof -
  have "typing_phase_from_tag ''active'' = Some PhaseActive" "typing_phase_from_tag ''paused'' = Some PhasePaused"
    "typing_phase_from_tag ''done'' = Some PhaseDone"
    by code_simp+
  then show ?thesis by (cases phase) simp_all
qed

lemma typing_value_plain: "escape_tag_value (typing_tag_value phase) = typing_tag_value phase"
proof -
  have "escape_tag_value ''active'' = ''active''" "escape_tag_value ''paused'' = ''paused''"
    "escape_tag_value ''done'' = ''done''"
    by code_simp+
  then show ?thesis by (cases phase) simp_all
qed

lemma typing_value_valid: "utf8_valid (typing_tag_value phase)"
  by (rule utf8_valid_ascii) (cases phase; simp)

lemma typing_tag_name_ok: "is_valid_tag_name ''+typing''"
  by code_simp

lemma typing_render:
  "\<not> needs_colon target \<Longrightarrow>
   render (typing_message target phase) = ''@+typing='' @ typing_tag_value phase @ '' TAGMSG '' @ target"
  by (simp add: render_def typing_message_def render_tags_def render_source_def tag_section_bytes_def tag_bytes_def
      typing_value_plain)

lemma typing_canonical:
  assumes "target \<noteq> []" "\<not> contains_forbidden target"
  shows "canonical (typing_message target phase)"
proof -
  have "NUL \<notin> set (typing_tag_value phase)" "length (typing_tag_value phase) \<le> 6" by (cases phase; simp)+
  moreover have "is_valid_command ''TAGMSG''" "to_ascii_uppercase ''TAGMSG'' = ''TAGMSG''" by code_simp+
  ultimately show ?thesis
    using assms typing_tag_name_ok
    by (simp add: canonical_def typing_message_def tag_ok_def source_ok_def tag_section_bytes_def tag_bytes_def
        typing_value_plain limit_defs)
qed

lemma typing_hint_shown:
  "case stored_typing_hint phase at nick of
     None \<Rightarrow> phase = PhaseDone
   | Some hint \<Rightarrow> \<forall>now. typing_shows_indicator hint now \<longleftrightarrow> now < at + (if phase = PhaseActive then 6000000000 else 30000000000)"
  by (cases phase) (auto simp: stored_typing_hint_def typing_shows_indicator_def
      typing_hint_retained_def typing_expires_at_def TYPING_ACTIVE_HOLD_MS_def TYPING_PAUSED_HOLD_MS_def)

text \<open>
  A typing announcement is read back as it was meant: for a target that is one parameter, the line that
  announces a phase parses to a TAGMSG to that target whose \<open>+typing\<close> tag resolves to the same phase; the hint a
  receiver stores for it is shown exactly until the hold of the phase has passed, and Done stores nothing.
\<close>

theorem typing_roundtrip:
  assumes "typing_tagmsg target phase = Some l" "\<not> starts_with '':'' target" "NUL \<notin> set target"
  shows "\<exists>m v. parse (take (length l - 2) l) = Inr m \<and> msg_command m = ''TAGMSG'' \<and> msg_params m = [target]
    \<and> tag_text m ''+typing'' = Some v \<and> typing_phase_from_tag v = Some phase
    \<and> (case stored_typing_hint phase at nick of
         None \<Rightarrow> phase = PhaseDone
       | Some hint \<Rightarrow> \<forall>now. typing_shows_indicator hint now \<longleftrightarrow> now < at + (if phase = PhaseActive then 6000000000 else 30000000000))"
proof -
  have out: "target \<noteq> []" "SP \<notin> set target" "CR \<notin> set target" "LF \<notin> set target"
    using assms(1) unfolding typing_tagmsg_def by (auto split: if_splits)
  have t: "target \<noteq> []" "\<not> needs_colon target" "\<not> contains_forbidden target"
    using out assms(2,3) by (cases target; auto simp: needs_colon_def starts_with_def contains_forbidden_def)+
  have l: "l = render (typing_message target phase) @ [CR, LF]"
    using assms(1) by (simp add: typing_render [OF t(2)] typing_tagmsg_def split: if_splits)
  have "parse (take (length l - 2) l) = Inr (typing_message target phase)"
    using parse_render [OF typing_canonical [OF t(1,3)]] by (simp add: l)
  moreover have "tag_text (typing_message target phase) ''+typing'' = Some (typing_tag_value phase)"
    by (simp add: tag_text_def typing_message_def wire_text_id typing_value_valid List.map_filter_simps)
  moreover have "msg_command (typing_message target phase) = ''TAGMSG''" "msg_params (typing_message target phase) = [target]"
    by (simp_all add: typing_message_def)
  ultimately show ?thesis using typing_phase_tag typing_hint_shown by blast
qed

theorem typing_roundtrip_witness:
  "\<exists>m. parse (''@+typing=active TAGMSG #a'') = Inr m \<and> msg_params m = [''#a'']"
proof -
  have b: "typing_tagmsg ''#a'' PhaseActive = Some (''@+typing=active TAGMSG #a'' @ [CR, LF])"
    "\<not> starts_with '':'' ''#a''" "NUL \<notin> set ''#a''"
    by (simp_all add: typing_tagmsg_def starts_with_def)
  from typing_roundtrip [OF b] show ?thesis by auto
qed

end
