(* ===== verification/JoinTarget.thy ===== *)
theory JoinTarget
  imports CommandBuilder
begin

text \<open>
  \<^verbatim>\<open>client/src/irc/jointarget.rs\<close>: a validated JOIN target and the parser of the \<open>/join\<close> argument. The property
  connects it to the line builder: a validated target is never refused for its fields.
\<close>

record IrcJoinTarget =
  jt_channel :: string
  jt_key :: "string option"

definition utf16_len :: "string \<Rightarrow> nat" where
  "utf16_len s = sum_list (map (\<lambda>c. if c < 65536 then 1 else 2) (chars s))"

definition has_field_breakers :: "string \<Rightarrow> bool" where
  "has_field_breakers token \<longleftrightarrow> (\<exists>c \<in> set (chars token). is_whitespace c \<or> c = 44 \<or> c = 0)"

definition is_safe_join_key :: "string \<Rightarrow> bool" where
  "is_safe_join_key key \<longleftrightarrow> key \<noteq> [] \<and> \<not> starts_with '':'' key \<and> \<not> has_field_breakers key"

definition split_ascii_whitespace_runs :: "string \<Rightarrow> string list" where
  "split_ascii_whitespace_runs s =
     filter (\<lambda>t. t \<noteq> []) (split_by (\<lambda>c. code c = 32 \<or> (9 \<le> code c \<and> code c \<le> 13)) s)"

definition make_join_target :: "string \<Rightarrow> string option \<Rightarrow> IrcServerFeatures \<Rightarrow> IrcJoinTarget option" where
  "make_join_target channel key features =
     (let trimmed_channel = trim channel in
      if trimmed_channel = [] then None
      else
        let name = (if is_channel features trimmed_channel then trimmed_channel else CHR ''#'' # trimmed_channel) in
        if utf16_len name < 2 \<or> has_field_breakers name then None
        else case key of
          None \<Rightarrow> Some \<lparr>jt_channel = name, jt_key = None\<rparr>
        | Some raw \<Rightarrow>
            let trimmed = trim raw in
            if \<not> is_safe_join_key trimmed then None
            else Some \<lparr>jt_channel = name, jt_key = Some trimmed\<rparr>)"

definition has_key :: "IrcJoinTarget \<Rightarrow> bool" where
  "has_key t \<longleftrightarrow> jt_key t \<noteq> None"

text \<open>The loop over the comma-separated entries; \<open>None\<close> is its early return.\<close>

fun parse_join_entries :: "IrcServerFeatures \<Rightarrow> string list \<Rightarrow> IrcJoinTarget list option" where
  "parse_join_entries features [] = Some []"
| "parse_join_entries features (entry # rest) =
     (let trimmed = trim entry in
      if trimmed = [] then parse_join_entries features rest
      else
        let toks = split_ascii_whitespace_runs trimmed in
        if toks = [] \<or> length toks > 2 then None
        else
          let key = (if 1 < length toks then Some (toks ! 1) else None) in
          case make_join_target (toks ! 0) key features of
            None \<Rightarrow> None
          | Some t \<Rightarrow> map_option ((#) t) (parse_join_entries features rest))"

definition parse_join_targets :: "string \<Rightarrow> IrcServerFeatures \<Rightarrow> IrcJoinTarget list option" where
  "parse_join_targets argument features =
     (case parse_join_entries features (split_by (\<lambda>c. c = CHR '','') argument) of
        None \<Rightarrow> None
      | Some targets \<Rightarrow> if targets = [] then None else Some targets)"

section \<open>Validated targets can be sent\<close>

definition target_ok :: "IrcJoinTarget \<Rightarrow> bool" where
  "target_ok t \<longleftrightarrow> is_join_field (jt_channel t) \<and> utf8_valid (jt_channel t)
     \<and> (\<forall>k. jt_key t = Some k \<longrightarrow> is_join_field k \<and> utf8_valid k)"

lemma make_join_target_ok:
  assumes "make_join_target channel key features = Some t" "CHR '':'' \<notin> set (channel_types features)"
  shows "target_ok t"
proof -
  define name where "name = (if is_channel features (trim channel) then trim channel else CHR ''#'' # trim channel)"
  have t: "trim channel \<noteq> []" "\<not> has_field_breakers name" "jt_channel t = name"
    using assms(1) by (auto simp: make_join_target_def Let_def name_def split: if_splits option.splits)
  have "\<not> starts_with '':'' name"
    using t(1) assms(2) by (cases "trim channel") (auto simp: name_def is_channel_def starts_with_def)
  moreover have "name \<noteq> []" using t(1) by (simp add: name_def)
  moreover have "utf8_valid name" using trim_valid [of channel] by (simp add: name_def)
  moreover have "is_join_field k \<and> utf8_valid k" if "jt_key t = Some k" for k
    using assms(1) that trim_valid
    by (auto simp: make_join_target_def Let_def is_safe_join_key_def has_field_breakers_def is_join_field_def
        split: if_splits option.splits)
  ultimately show ?thesis
    using t by (auto simp: target_ok_def is_join_field_def has_field_breakers_def)
qed

lemma parse_join_entries_ok:
  "parse_join_entries features es = Some ts \<Longrightarrow> CHR '':'' \<notin> set (channel_types features) \<Longrightarrow> list_all target_ok ts"
  by (induction features es arbitrary: ts rule: parse_join_entries.induct)
     (auto simp: Let_def make_join_target_ok split: if_splits option.splits)



end
