(* ===== verification/Sts.thy ===== *)
theory Sts
  imports Prelude Utf8
begin

text \<open>
  \<^verbatim>\<open>client/src/session/sts.rs\<close>: strict transport security. The \<open>sts\<close> capability value and the policy cache.
  The cache key hashes the folded host name; the digest and Unicode lower-casing are parameters. The trait
  \<open>StsStore\<close> is the locale \<open>sts_store\<close>, and \<open>MemoryStsStore\<close> is its interpretation \<open>memory\<close>.
\<close>

section \<open>Advertisements\<close>

record StsAdvertisement =
  adv_port :: "nat option"
  adv_duration_seconds :: "int option"

record StsCached =
  cached_port :: nat
  cached_duration_seconds :: int
  cached_expiry_epoch_seconds :: int

definition sts_token_name :: "string \<Rightarrow> string" where
  "sts_token_name token = (case split_once (CHR ''='') token of None \<Rightarrow> token | Some (name, _) \<Rightarrow> name)"

definition sts_token_value :: "string \<Rightarrow> string" where
  "sts_token_value token = (case split_once (CHR ''='') token of None \<Rightarrow> [] | Some (_, value) \<Rightarrow> value)"

definition parse_port :: "string \<Rightarrow> nat option" where
  "parse_port raw =
     (if \<not> all_digits raw \<or> raw = [] then None
      else let n = decimal_value raw in if 1 \<le> n \<and> n < 65536 then Some n else None)"

definition parse_duration :: "string \<Rightarrow> int option" where
  "parse_duration raw = (case parse_i64 raw of None \<Rightarrow> None | Some s \<Rightarrow> if s \<ge> 0 then Some s else None)"

definition parse_sts_part :: "StsAdvertisement \<Rightarrow> string \<Rightarrow> StsAdvertisement" where
  "parse_sts_part a part =
     (let raw = sts_token_value part; name = to_ascii_lowercase (sts_token_name part) in
      if name = ''port'' \<and> adv_port a = None then a\<lparr>adv_port := parse_port raw\<rparr>
      else if name = ''duration'' \<and> adv_duration_seconds a = None
        then a\<lparr>adv_duration_seconds := parse_duration raw\<rparr>
      else a)"

definition empty_advertisement :: StsAdvertisement where
  "empty_advertisement = \<lparr>adv_port = None, adv_duration_seconds = None\<rparr>"

definition parse_sts_value :: "string \<Rightarrow> StsAdvertisement" where
  "parse_sts_value value =
     foldl parse_sts_part empty_advertisement (filter (\<lambda>p. p \<noteq> []) (split_by (\<lambda>c. c = CHR '','') value))"

definition parse_sts_advertisement :: "string list \<Rightarrow> StsAdvertisement option" where
  "parse_sts_advertisement toks =
     foldl (\<lambda>advertisement token.
              if eq_ignore_ascii_case (sts_token_name token) ''sts''
              then Some (parse_sts_value (sts_token_value token)) else advertisement) None toks"

definition advertisement_ok :: "StsAdvertisement \<Rightarrow> bool" where
  "advertisement_ok a \<longleftrightarrow>
     (\<forall>p. adv_port a = Some p \<longrightarrow> 1 \<le> p \<and> p < 65536) \<and> (\<forall>d. adv_duration_seconds a = Some d \<longrightarrow> 0 \<le> d \<and> d < 2 ^ 63)"

lemma parse_sts_part_ok: "advertisement_ok a \<Longrightarrow> advertisement_ok (parse_sts_part a part)"
  by (auto simp: advertisement_ok_def parse_sts_part_def Let_def parse_port_def parse_duration_def
      dest: parse_i64_range split: if_splits option.splits)

lemma parse_sts_value_ok: "advertisement_ok (parse_sts_value value)"
  unfolding parse_sts_value_def
  by (rule foldl_invariant [where P = advertisement_ok])
    (simp_all add: parse_sts_part_ok, simp add: advertisement_ok_def empty_advertisement_def)

lemma parse_sts_advertisement_ok: "parse_sts_advertisement toks = Some a \<Longrightarrow> advertisement_ok a"
proof -
  have "pred_option advertisement_ok (parse_sts_advertisement toks)"
    unfolding parse_sts_advertisement_def
    by (rule foldl_invariant [where P = "pred_option advertisement_ok"]) (simp_all add: parse_sts_value_ok)
  then show "parse_sts_advertisement toks = Some a \<Longrightarrow> advertisement_ok a" by simp
qed

section \<open>The cache\<close>

definition hex_digit :: "nat \<Rightarrow> char" where
  "hex_digit n = (if n < 10 then char_of (48 + n) else char_of (87 + n))"

definition hex_text :: "bytes \<Rightarrow> string" where
  "hex_text bs = concat (map (\<lambda>b. [hex_digit (code b div 16), hex_digit (code b mod 16)]) bs)"

record sts_env =
  sha256 :: "bytes \<Rightarrow> bytes"
  to_lowercase :: "string \<Rightarrow> string"

definition sts_group_key :: "sts_env \<Rightarrow> string \<Rightarrow> string option" where
  "sts_group_key env host =
     (let folded = to_lowercase env (trim host) in
      if folded = [] then None else Some (hex_text (sha256 env folded)))"

definition is_sts_group_key :: "string \<Rightarrow> bool" where
  "is_sts_group_key key \<longleftrightarrow>
     length key = 64 \<and> (\<forall>b \<in> set key. is_ascii_digit b \<or> (97 \<le> code b \<and> code b \<le> 102))"

type_synonym MemoryStsStore = "(string, StsCached) hashmap"

definition sts_lookup :: "sts_env \<Rightarrow> MemoryStsStore \<Rightarrow> string \<Rightarrow> int \<Rightarrow> MemoryStsStore \<times> StsCached option" where
  "sts_lookup env entries host now =
     (case sts_group_key env host of
        None \<Rightarrow> (entries, None)
      | Some key \<Rightarrow>
          (case hm_get entries key of
             None \<Rightarrow> (entries, None)
           | Some cached \<Rightarrow>
               if cached_expiry_epoch_seconds cached \<le> now then (hm_remove key entries, None)
               else (entries, Some cached)))"

definition sts_clear :: "sts_env \<Rightarrow> MemoryStsStore \<Rightarrow> string \<Rightarrow> MemoryStsStore" where
  "sts_clear env entries host =
     (case sts_group_key env host of None \<Rightarrow> entries | Some key \<Rightarrow> hm_remove key entries)"

definition sts_store_policy :: "sts_env \<Rightarrow> MemoryStsStore \<Rightarrow> string \<Rightarrow> nat \<Rightarrow> int \<Rightarrow> int \<Rightarrow> MemoryStsStore" where
  "sts_store_policy env entries host port duration now =
     (if duration = 0 then sts_clear env entries host
      else case sts_group_key env host of
        None \<Rightarrow> entries
      | Some key \<Rightarrow>
          if port = 0 then entries
          else hm_insert key
            \<lparr>cached_port = port, cached_duration_seconds = duration,
             cached_expiry_epoch_seconds = saturating_add_i64 now duration\<rparr> entries)"

definition sts_refresh :: "sts_env \<Rightarrow> MemoryStsStore \<Rightarrow> string \<Rightarrow> int \<Rightarrow> int \<Rightarrow> MemoryStsStore" where
  "sts_refresh env entries host duration now =
     (case sts_group_key env host of
        None \<Rightarrow> entries
      | Some key \<Rightarrow>
          (case hm_get entries key of
             None \<Rightarrow> entries
           | Some cached \<Rightarrow>
               if cached_duration_seconds cached = duration
               then hm_insert key (cached\<lparr>cached_expiry_epoch_seconds := saturating_add_i64 now duration\<rparr>) entries
               else entries))"

section \<open>The contract of a policy cache\<close>

text \<open>A host has at most one policy. Looking it up hides an expired policy; storing replaces it, or clears it for
  a zero duration; refreshing moves the expiry of a policy that still has the given duration and nothing else.
  \<open>key\<close> says which hosts share a policy, \<open>policy\<close> what is cached, expired or not.\<close>

locale sts_store =
  fixes key :: "string \<Rightarrow> string option"
    and policy :: "'s \<Rightarrow> string \<Rightarrow> StsCached option"
    and lookup :: "'s \<Rightarrow> string \<Rightarrow> int \<Rightarrow> 's \<times> StsCached option"
    and store :: "'s \<Rightarrow> string \<Rightarrow> nat \<Rightarrow> int \<Rightarrow> int \<Rightarrow> 's"
    and refresh :: "'s \<Rightarrow> string \<Rightarrow> int \<Rightarrow> int \<Rightarrow> 's"
    and clear :: "'s \<Rightarrow> string \<Rightarrow> 's"
  assumes policy_key: "key h = None \<Longrightarrow> policy s h = None" "key h = key h' \<Longrightarrow> policy s h = policy s h'"
    and lookup_value: "snd (lookup s h now) =
      (case policy s h of Some c \<Rightarrow> if cached_expiry_epoch_seconds c \<le> now then None else Some c | None \<Rightarrow> None)"
    and lookup_keeps: "policy (fst (lookup s h now)) h' =
      (case policy s h' of
         Some c \<Rightarrow> if key h = key h' \<and> cached_expiry_epoch_seconds c \<le> now then None else Some c | None \<Rightarrow> None)"
    and store_policy: "policy (store s h p d now) h' =
      (if key h' = key h \<and> key h \<noteq> None \<and> d = 0 then None
       else if key h' = key h \<and> key h \<noteq> None \<and> p \<noteq> 0
       then Some \<lparr>cached_port = p, cached_duration_seconds = d, cached_expiry_epoch_seconds = saturating_add_i64 now d\<rparr>
       else policy s h')"
    and refresh_policy: "policy (refresh s h d now) h' =
      (case policy s h' of
         Some c \<Rightarrow> Some (if key h' = key h \<and> cached_duration_seconds c = d
                       then c\<lparr>cached_expiry_epoch_seconds := saturating_add_i64 now d\<rparr> else c)
       | None \<Rightarrow> None)"
    and clear_policy: "policy (clear s h) h' = (if key h' = key h then None else policy s h')"
begin

text \<open>Refreshing neither creates a policy nor changes a port or a duration.\<close>

lemma refresh_only_expiry:
  "map_option cached_port (policy (refresh s h d now) h') = map_option cached_port (policy s h')"
  "map_option cached_duration_seconds (policy (refresh s h d now) h') = map_option cached_duration_seconds (policy s h')"
  by (auto simp: refresh_policy split: option.splits)

lemma stored_until_expiry:
  assumes "key h \<noteq> None" "p \<noteq> 0" "0 < d" "0 \<le> now" "now + d < 2 ^ 63"
  shows "snd (lookup (store s h p d now) h later) =
    (if later < now + d then Some \<lparr>cached_port = p, cached_duration_seconds = d, cached_expiry_epoch_seconds = now + d\<rparr>
     else None)"
  using assms by (auto simp: lookup_value store_policy saturating_add_i64_def)

lemma refreshed_until_expiry:
  assumes "policy s h = Some c" "0 \<le> now" "0 < cached_duration_seconds c" "now + cached_duration_seconds c < 2 ^ 63"
  shows "map_option cached_port (snd (lookup (refresh s h (cached_duration_seconds c) now) h later)) =
    (if later < now + cached_duration_seconds c then Some (cached_port c) else None)"
  using assms by (auto simp: lookup_value refresh_policy saturating_add_i64_def)

end

definition memory_policy :: "sts_env \<Rightarrow> MemoryStsStore \<Rightarrow> string \<Rightarrow> StsCached option" where
  "memory_policy env entries host =
     (case sts_group_key env host of None \<Rightarrow> None | Some key \<Rightarrow> hm_get entries key)"

interpretation memory: sts_store "sts_group_key env" "memory_policy env" "sts_lookup env" "sts_store_policy env"
    "sts_refresh env" "sts_clear env" for env
  by unfold_locales
    (auto simp: memory_policy_def sts_lookup_def sts_store_policy_def sts_refresh_def sts_clear_def split: option.splits)

section \<open>Properties\<close>


definition sample_env :: sts_env where
  "sample_env = \<lparr>sha256 = (\<lambda>b. b), to_lowercase = to_ascii_lowercase\<rparr>"


end
