(* ===== verification/Connection.thy ===== *)
theory Connection
  imports Prelude
begin

text \<open>
  \<^verbatim>\<open>client/src/session/connection.rs\<close>, with the state and error kinds of \<^verbatim>\<open>session/events.rs\<close> and the settings of
  \<^verbatim>\<open>session/config.rs\<close> it reads: why the transport is going away, what its disconnect means, and how long the next
  reconnect waits. Millisecond values are naturals; the doubling wraps at 64 bits as in a release build.
\<close>

unbundle bit_operations_syntax

datatype SessionState = Idle | Connecting | StsUpgrading | CapLs | CapReq | SaslAuth | Registering | Registered
  | Closing | Reconnecting | Failed

datatype ErrorKind = Protocol | Authentication | Tls | Network | Registration

fun error_index :: "ErrorKind \<Rightarrow> nat" where
  "error_index Protocol = 0"
| "error_index Authentication = 1"
| "error_index Tls = 2"
| "error_index Network = 3"
| "error_index Registration = 4"

record SessionConfig =
  network_id :: string
  cfg_name :: string
  cfg_host :: string
  cfg_port :: nat
  cfg_tls_enabled :: bool
  cfg_nick :: string
  cfg_username :: string
  cfg_realname :: string
  cfg_password :: string
  cfg_nickserv_password :: string
  cfg_sasl_account :: string
  cfg_autojoin_channels :: "string list"
  cfg_autojoin_keys :: "(string \<times> string) list"
  reconnect_enabled :: bool
  reconnect_base_delay_ms :: nat
  reconnect_maximum_delay_ms :: nat
  capability_timeout_ms :: nat
  registration_timeout_ms :: nat
  ping_timeout_ms :: nat
  labeled_response_timeout_ms :: nat

definition REGISTRATION_TIMEOUT_MS :: nat where "REGISTRATION_TIMEOUT_MS = 60000"

definition config_with_defaults :: "string \<Rightarrow> string \<Rightarrow> string \<Rightarrow> string \<Rightarrow> SessionConfig" where
  "config_with_defaults net name host nick =
     \<lparr>network_id = net, cfg_name = name, cfg_host = host, cfg_port = 6697, cfg_tls_enabled = True, cfg_nick = nick,
      cfg_username = nick, cfg_realname = nick, cfg_password = [], cfg_nickserv_password = [], cfg_sasl_account = [],
      cfg_autojoin_channels = [], cfg_autojoin_keys = [], reconnect_enabled = True, reconnect_base_delay_ms = 1000,
      reconnect_maximum_delay_ms = 30000, capability_timeout_ms = 10000,
      registration_timeout_ms = REGISTRATION_TIMEOUT_MS, ping_timeout_ms = 60000, labeled_response_timeout_ms = 45000\<rparr>"

definition sasl_account_name :: "SessionConfig \<Rightarrow> string" where
  "sasl_account_name c = (if cfg_sasl_account c = [] then cfg_nick c else cfg_sasl_account c)"

definition sasl_secret :: "SessionConfig \<Rightarrow> string" where
  "sasl_secret c = (if cfg_nickserv_password c = [] then cfg_password c else cfg_nickserv_password c)"

section \<open>Disconnects\<close>

datatype DisconnectIntent = Unexpected | Stopping | IntentReconnecting

datatype DisconnectOutcome = ScheduleReconnect | SettleIdle | FailUnexpected | FinishStsUpgrade | Ignore

record Connection =
  intent :: DisconnectIntent
  reconnect_attempt :: nat
  reported_retry_errors :: "32 word"

definition default_connection :: Connection where
  "default_connection = \<lparr>intent = Unexpected, reconnect_attempt = 0, reported_retry_errors = 0\<rparr>"

definition reset_retries :: "Connection \<Rightarrow> Connection" where
  "reset_retries c = c\<lparr>reconnect_attempt := 0, reported_retry_errors := 0\<rparr>"

definition begin_start :: "Connection \<Rightarrow> Connection" where
  "begin_start c = reset_retries (c\<lparr>intent := Unexpected\<rparr>)"

definition begin_stop :: "Connection \<Rightarrow> Connection" where
  "begin_stop c = reset_retries (c\<lparr>intent := Stopping\<rparr>)"

definition reconnect_on_disconnect :: "Connection \<Rightarrow> Connection" where
  "reconnect_on_disconnect c = (if intent c = Unexpected then c\<lparr>intent := IntentReconnecting\<rparr> else c)"

definition end_on_disconnect :: "Connection \<Rightarrow> Connection" where
  "end_on_disconnect c = c\<lparr>intent := Stopping\<rparr>"

definition is_stopping :: "Connection \<Rightarrow> bool" where
  "is_stopping c \<longleftrightarrow> intent c = Stopping"

definition on_disconnect :: "SessionState \<Rightarrow> Connection \<Rightarrow> Connection \<times> DisconnectOutcome" where
  "on_disconnect state c =
     (case intent c of
        IntentReconnecting \<Rightarrow> (c\<lparr>intent := Unexpected\<rparr>, ScheduleReconnect)
      | Stopping \<Rightarrow> (c, if state = Closing then SettleIdle else Ignore)
      | Unexpected \<Rightarrow> (c, if state = StsUpgrading then FinishStsUpgrade else FailUnexpected))"

definition report_bit :: "ErrorKind \<Rightarrow> 32 word" where
  "report_bit kind = push_bit (error_index kind) 1"

definition first_report_of :: "ErrorKind \<Rightarrow> Connection \<Rightarrow> Connection \<times> bool" where
  "first_report_of kind c =
     (if reported_retry_errors c AND report_bit kind \<noteq> 0 then (c, False)
      else (c\<lparr>reported_retry_errors := reported_retry_errors c OR report_bit kind\<rparr>, True))"

definition count_scheduled_reconnect :: "Connection \<Rightarrow> Connection \<times> nat" where
  "count_scheduled_reconnect c =
     (let n = (reconnect_attempt c + 1) mod 2 ^ 32 in (c\<lparr>reconnect_attempt := n\<rparr>, n))"

function backoff_loop :: "nat \<Rightarrow> nat \<Rightarrow> nat \<Rightarrow> nat \<Rightarrow> nat" where
  "backoff_loop attempt maximum step delay =
     (if step < attempt \<and> delay < maximum
      then backoff_loop attempt maximum (step + 1) (min (delay * 2 mod 2 ^ 64) maximum)
      else delay)"
  by pat_completeness auto
termination by (relation "measure (\<lambda>(attempt, maximum, step, delay). attempt - step)") auto

declare backoff_loop.simps [simp del]

definition next_delay :: "SessionConfig \<Rightarrow> Connection \<Rightarrow> nat" where
  "next_delay config c =
     (let base = reconnect_base_delay_ms config; maximum = max (reconnect_maximum_delay_ms config) base
      in min (backoff_loop (reconnect_attempt c) maximum 1 base) (2 ^ 31 - 1))"

section \<open>Backoff\<close>

lemma min_mult_cap: "1 \<le> p \<Longrightarrow> min (min a m * p) m = min (a * p) (m :: nat)"
proof (cases "a \<le> m")
  case False
  moreover assume "1 \<le> p"
  then have "m \<le> m * p" "a \<le> a * p" by simp_all
  ultimately show ?thesis by linarith
qed simp

lemma backoff_loop_power:
  assumes "maximum \<le> 2 ^ 63" "delay \<le> maximum"
  shows "backoff_loop attempt maximum step delay = min (delay * 2 ^ (attempt - step)) maximum"
  using assms
proof (induction attempt maximum step delay rule: backoff_loop.induct)
  case (1 attempt maximum step delay)
  show ?case
  proof (cases "step < attempt \<and> delay < maximum")
    case True
    then have "delay * 2 < 2 ^ 64" using "1.prems" by simp
    then have next1: "min (delay * 2 mod 2 ^ 64) maximum = min (delay * 2) maximum" by simp
    have exp: "attempt - step = Suc (attempt - (step + 1))" using True by auto
    have "backoff_loop attempt maximum step delay = min (min (delay * 2) maximum * 2 ^ (attempt - (step + 1))) maximum"
      using "1.IH" [OF True] "1.prems" True by (subst backoff_loop.simps) (simp add: next1)
    also have "\<dots> = min (delay * 2 ^ (attempt - step)) maximum"
      unfolding exp by (simp add: min_mult_cap mult.assoc)
    finally show ?thesis .
  next
    case False
    then have "backoff_loop attempt maximum step delay = delay" by (subst backoff_loop.simps) auto
    moreover have "delay * 2 ^ (attempt - step) \<ge> delay" by simp
    moreover have "attempt - step = 0 \<or> delay = maximum" using False "1.prems" by auto
    ultimately show ?thesis using "1.prems" by auto
  qed
qed

text \<open>
  The delay before reconnect attempt \<open>n\<close> is the base delay doubled \<open>n - 1\<close> times and cut off at the configured
  maximum (or the base, when that is larger), as long as both are below \<open>2 ^ 31\<close> milliseconds; it is never
  below the base.
\<close>

theorem next_delay_backoff:
  assumes "max (reconnect_maximum_delay_ms config) (reconnect_base_delay_ms config) < 2 ^ 31" "0 < reconnect_attempt c"
  shows "next_delay config c =
      min (reconnect_base_delay_ms config * 2 ^ (reconnect_attempt c - 1))
          (max (reconnect_maximum_delay_ms config) (reconnect_base_delay_ms config))
    \<and> reconnect_base_delay_ms config \<le> next_delay config c"
proof -
  let ?m = "max (reconnect_maximum_delay_ms config) (reconnect_base_delay_ms config)"
  have le: "?m \<le> 2 ^ 63" using assms(1) by (rule less_imp_le [OF less_le_trans]) simp
  have "backoff_loop (reconnect_attempt c) ?m 1 (reconnect_base_delay_ms config) =
      min (reconnect_base_delay_ms config * 2 ^ (reconnect_attempt c - 1)) ?m"
    by (rule backoff_loop_power [OF le]) simp
  moreover have "min x ?m \<le> 2 ^ 31 - 1" for x using assms(1) by (simp add: min_le_iff_disj)
  ultimately have "next_delay config c = min (reconnect_base_delay_ms config * 2 ^ (reconnect_attempt c - 1)) ?m"
    by (simp add: next_delay_def Let_def)
  then show ?thesis by simp
qed

theorem next_delay_backoff_witness:
  "next_delay (config_with_defaults [] [] [] []) (default_connection\<lparr>reconnect_attempt := 3\<rparr>) = 4000
   \<and> next_delay (config_with_defaults [] [] [] []) (default_connection\<lparr>reconnect_attempt := 9\<rparr>) = 30000"
  using next_delay_backoff [of "config_with_defaults [] [] [] []" "default_connection\<lparr>reconnect_attempt := 3\<rparr>"]
    next_delay_backoff [of "config_with_defaults [] [] [] []" "default_connection\<lparr>reconnect_attempt := 9\<rparr>"]
  by (simp add: config_with_defaults_def default_connection_def)

section \<open>Reports\<close>

lemma reported_bit: "x AND report_bit kind \<noteq> 0 \<longleftrightarrow> bit x (error_index kind)"
  by (simp add: report_bit_def bit_iff_and_push_bit_not_eq_0)

lemma bit_report_bit: "bit (report_bit kind) (error_index kind') \<longleftrightarrow> kind = kind'"
  by (cases kind; cases kind'; simp add: report_bit_def bit_exp_iff)

lemma first_report_once:
  "snd (first_report_of kind' (fst (first_report_of kind c))) \<longleftrightarrow> kind' \<noteq> kind \<and> snd (first_report_of kind' c)"
  by (auto simp: first_report_of_def reported_bit bit_or_iff bit_report_bit)

end
