(* ===== verification/Scram.thy ===== *)
theory Scram
  imports Prelude
begin

text \<open>
  \<^verbatim>\<open>client/src/session/saslscram.rs\<close> and \<^verbatim>\<open>saslscram/attrs.rs\<close>: the SCRAM-SHA-256 client, its attribute parser, the SASL
  framing, and the exchange the session drives. The primitives of the crates it calls (HMAC-SHA-256, SHA-256,
  PBKDF2, standard base64) are the fields of the parameter \<open>crypto\<close>; the random nonce is an argument.
\<close>

section \<open>Primitives\<close>

record crypto =
  hmac_sha256 :: "bytes \<Rightarrow> bytes \<Rightarrow> bytes"
  sha256_digest :: "bytes \<Rightarrow> bytes"
  pbkdf2_hmac :: "bytes \<Rightarrow> bytes \<Rightarrow> nat \<Rightarrow> bytes"
  b64_encode :: "bytes \<Rightarrow> bytes"
  b64_decode :: "bytes \<Rightarrow> bytes option"

definition byte_xor :: "char \<Rightarrow> char \<Rightarrow> char" where
  "byte_xor a b = char_of (Bit_Operations.xor (code a) (code b))"

definition bytes_xor :: "bytes \<Rightarrow> bytes \<Rightarrow> bytes" where
  "bytes_xor xs ys = map2 byte_xor xs ys"

definition SASL_AUTHENTICATE_CHUNK :: nat where "SASL_AUTHENTICATE_CHUNK = 400"
definition INCOMING_ENCODED_LIMIT :: nat where "INCOMING_ENCODED_LIMIT = 4096"
definition KEY_LEN :: nat where "KEY_LEN = 32"
definition MIN_ITERATIONS :: nat where "MIN_ITERATIONS = 4096"
definition MAX_ITERATIONS :: nat where "MAX_ITERATIONS = 1000000"

datatype ScramFailure = AccountUnsendable | ClientNonce | NotAwaitingFirst | NotAwaitingFinal | MissingAttributes
  | MalformedAttribute | RepeatedAttribute | ServerRejected | NonceNotContinued | IterationsRange
  | SignatureMismatch | MalformedChallenge

fun failure_text :: "ScramFailure \<Rightarrow> string" where
  "failure_text AccountUnsendable = ''account or password cannot be sent''"
| "failure_text ClientNonce = ''client nonce cannot be sent''"
| "failure_text NotAwaitingFirst = ''SCRAM exchange is not waiting for the server first message''"
| "failure_text NotAwaitingFinal = ''SCRAM exchange is not waiting for the server final message''"
| "failure_text MissingAttributes = ''server message is missing SCRAM attributes''"
| "failure_text MalformedAttribute = ''server message has a malformed SCRAM attribute''"
| "failure_text RepeatedAttribute = ''server message repeats a SCRAM attribute''"
| "failure_text ServerRejected = ''the server rejected authentication''"
| "failure_text NonceNotContinued = ''server nonce does not continue the client nonce''"
| "failure_text IterationsRange = ''iteration count is outside the allowed range''"
| "failure_text SignatureMismatch = ''server signature does not match''"
| "failure_text MalformedChallenge = ''SASL challenge is malformed''"

section \<open>Attributes\<close>

record Attributes =
  attr_nonce :: "bytes option"
  attr_salt :: "bytes option"
  attr_iterations :: "bytes option"
  attr_verifier :: "bytes option"
  attr_server_error :: bool

definition default_attributes :: Attributes where
  "default_attributes = \<lparr>attr_nonce = None, attr_salt = None, attr_iterations = None, attr_verifier = None,
     attr_server_error = False\<rparr>"

text \<open>One part of the comma-separated list: the body of the loop.\<close>

definition take_attribute :: "bytes \<Rightarrow> Attributes \<Rightarrow> bytes \<Rightarrow> ScramFailure + Attributes" where
  "take_attribute allowed a part =
     (if length part < 3 \<or> part ! 1 \<noteq> CHR ''='' then Inl MalformedAttribute
      else
        let key = part ! 0; value = drop 2 part in
        if value = [] then Inl MalformedAttribute
        else if key = CHR ''e'' then
          (if attr_server_error a then Inl RepeatedAttribute else Inr (a\<lparr>attr_server_error := True\<rparr>))
        else if key \<notin> set allowed then Inl MalformedAttribute
        else if key = CHR ''r'' then
          (if attr_nonce a \<noteq> None then Inl RepeatedAttribute else Inr (a\<lparr>attr_nonce := Some value\<rparr>))
        else if key = CHR ''s'' then
          (if attr_salt a \<noteq> None then Inl RepeatedAttribute else Inr (a\<lparr>attr_salt := Some value\<rparr>))
        else if key = CHR ''i'' then
          (if attr_iterations a \<noteq> None then Inl RepeatedAttribute else Inr (a\<lparr>attr_iterations := Some value\<rparr>))
        else if key = CHR ''v'' then
          (if attr_verifier a \<noteq> None then Inl RepeatedAttribute else Inr (a\<lparr>attr_verifier := Some value\<rparr>))
        else Inl MalformedAttribute)"

fun take_attributes :: "bytes \<Rightarrow> Attributes \<Rightarrow> bytes list \<Rightarrow> ScramFailure + Attributes" where
  "take_attributes allowed a [] = Inr a"
| "take_attributes allowed a (part # parts) =
     (case take_attribute allowed a part of Inl e \<Rightarrow> Inl e | Inr a' \<Rightarrow> take_attributes allowed a' parts)"

definition parse_attributes :: "bytes \<Rightarrow> bytes \<Rightarrow> ScramFailure + Attributes" where
  "parse_attributes message allowed =
     (if message = [] then Inl MissingAttributes
      else take_attributes allowed default_attributes (split_by (\<lambda>b. b = CHR '','') message))"

definition parse_iterations :: "bytes \<Rightarrow> ScramFailure + nat" where
  "parse_iterations digits =
     (if digits = [] \<or> \<not> all_digits digits then Inl MalformedAttribute
      else let count = decimal_value digits in
           if count \<ge> 2 ^ 63 then Inl MalformedAttribute
           else if count < MIN_ITERATIONS \<or> count > MAX_ITERATIONS then Inl IterationsRange
           else Inr count)"

definition decode_base64 :: "crypto \<Rightarrow> bytes \<Rightarrow> ScramFailure + bytes" where
  "decode_base64 cr s =
     (if s = [] then Inl MalformedAttribute
      else case b64_decode cr s of None \<Rightarrow> Inl MalformedAttribute | Some raw \<Rightarrow> Inr raw)"

section \<open>The client\<close>

datatype Step = StepIdle | StepAwaitServerFirst | StepAwaitServerFinal

record SaslScram =
  scram_step :: Step
  scram_password :: string
  client_nonce :: bytes
  client_first_bare :: bytes
  auth_message :: bytes
  server_key :: bytes

definition scram_reset :: SaslScram where
  "scram_reset = \<lparr>scram_step = StepIdle, scram_password = [], client_nonce = [], client_first_bare = [],
     auth_message = [], server_key = []\<rparr>"

definition contains_unsendable :: "string \<Rightarrow> bool" where
  "contains_unsendable s \<longleftrightarrow> (\<exists>b \<in> set s. code b = 0 \<or> code b = 13 \<or> code b = 10)"

definition acceptable_nonce :: "bytes \<Rightarrow> bool" where
  "acceptable_nonce nonce \<longleftrightarrow>
     nonce \<noteq> [] \<and> (\<forall>b \<in> set nonce. 33 \<le> code b \<and> code b \<le> 126 \<and> b \<noteq> CHR '','')"

definition generate_nonce :: "crypto \<Rightarrow> bytes option \<Rightarrow> bytes" where
  "generate_nonce cr random = (case random of None \<Rightarrow> [] | Some raw \<Rightarrow> b64_encode cr raw)"

definition escape_sasl_name :: "string \<Rightarrow> bytes" where
  "escape_sasl_name name =
     concat (map (\<lambda>b. if b = CHR ''='' then ''=3D'' else if b = CHR '','' then ''=2C'' else [b]) name)"

definition scram_start :: "crypto \<Rightarrow> string \<Rightarrow> string \<Rightarrow> bytes option \<Rightarrow> SaslScram \<times> (ScramFailure + bytes)" where
  "scram_start cr account password random =
     (if account = [] \<or> contains_unsendable account \<or> contains_unsendable password
      then (scram_reset, Inl AccountUnsendable)
      else
        let nonce = generate_nonce cr random in
        if \<not> acceptable_nonce nonce then (scram_reset, Inl ClientNonce)
        else
          let bare = ''n='' @ escape_sasl_name account @ '',r='' @ nonce in
          (scram_reset\<lparr>client_nonce := nonce, client_first_bare := bare, scram_password := password,
             scram_step := StepAwaitServerFirst\<rparr>, Inr (''n,,'' @ bare)))"

definition client_final_for :: "crypto \<Rightarrow> SaslScram \<Rightarrow> bytes \<Rightarrow> SaslScram \<times> (ScramFailure + bytes)" where
  "client_final_for cr s message =
     (case parse_attributes message ''rsi'' of
        Inl e \<Rightarrow> (s, Inl e)
      | Inr a \<Rightarrow>
          if attr_server_error a then (s, Inl ServerRejected)
          else case (attr_nonce a, attr_salt a, attr_iterations a) of
            (Some nonce, Some salt, Some iterations) \<Rightarrow>
              if length nonce \<le> length (client_nonce s) \<or> \<not> starts_with (client_nonce s) nonce
              then (s, Inl NonceNotContinued)
              else (case parse_iterations iterations of
                Inl e \<Rightarrow> (s, Inl e)
              | Inr n \<Rightarrow>
                  (case decode_base64 cr salt of
                     Inl e \<Rightarrow> (s, Inl e)
                   | Inr raw_salt \<Rightarrow>
                       let salted = pbkdf2_hmac cr (scram_password s) raw_salt n;
                           client_key = hmac_sha256 cr salted ''Client Key'';
                           stored_key = sha256_digest cr client_key;
                           without_proof = ''c=biws,r='' @ nonce;
                           auth = client_first_bare s @ '','' @ message @ '','' @ without_proof;
                           proof_bytes = bytes_xor client_key (hmac_sha256 cr stored_key auth)
                       in (s\<lparr>scram_password := [], server_key := hmac_sha256 cr salted ''Server Key'',
                             auth_message := auth, scram_step := StepAwaitServerFinal\<rparr>,
                           Inr (without_proof @ '',p='' @ b64_encode cr proof_bytes))))
          | _ \<Rightarrow> (s, Inl MissingAttributes))"

definition take_server_first :: "crypto \<Rightarrow> SaslScram \<Rightarrow> bytes \<Rightarrow> SaslScram \<times> (ScramFailure + bytes)" where
  "take_server_first cr s message =
     (if scram_step s \<noteq> StepAwaitServerFirst then (s, Inl NotAwaitingFirst)
      else case client_final_for cr s message of
        (s', Inl e) \<Rightarrow> (scram_reset, Inl e)
      | (s', Inr m) \<Rightarrow> (s', Inr m))"

definition verify_server_final :: "crypto \<Rightarrow> SaslScram \<Rightarrow> bytes \<Rightarrow> ScramFailure option" where
  "verify_server_final cr s message =
     (case parse_attributes message ''v'' of
        Inl e \<Rightarrow> Some e
      | Inr a \<Rightarrow>
          if attr_server_error a then Some ServerRejected
          else case attr_verifier a of
            None \<Rightarrow> Some MissingAttributes
          | Some v \<Rightarrow>
              (case decode_base64 cr v of
                 Inl e \<Rightarrow> Some e
               | Inr verifier \<Rightarrow>
                   if hmac_sha256 cr (server_key s) (auth_message s) = verifier then None else Some SignatureMismatch))"

definition take_server_final :: "crypto \<Rightarrow> SaslScram \<Rightarrow> bytes \<Rightarrow> SaslScram \<times> (ScramFailure + bytes)" where
  "take_server_final cr s message =
     (if scram_step s \<noteq> StepAwaitServerFinal then (s, Inl NotAwaitingFinal)
      else (scram_reset, case verify_server_final cr s message of Some e \<Rightarrow> Inl e | None \<Rightarrow> Inr []))"

section \<open>SASL framing\<close>

definition frame_payloads_tail :: "bytes \<Rightarrow> bytes list" where
  "frame_payloads_tail encoded = (if length encoded mod SASL_AUTHENTICATE_CHUNK = 0 then [''+''] else [])"

function chunks_of :: "nat \<Rightarrow> bytes \<Rightarrow> bytes list" where
  "chunks_of n bs = (if bs = [] \<or> n = 0 then [] else take n bs # chunks_of n (drop n bs))"
  by pat_completeness auto
termination by (relation "measure (\<lambda>(n, bs). length bs)") auto

declare chunks_of.simps [simp del]

definition authenticate_frame :: "bytes \<Rightarrow> bytes" where
  "authenticate_frame chunk = ''AUTHENTICATE '' @ chunk @ [CHR 0x0D, CHR 0x0A]"

definition frame_payloads :: "crypto \<Rightarrow> bytes \<Rightarrow> bytes list" where
  "frame_payloads cr raw =
     (let encoded = b64_encode cr raw in
      if encoded = [] then [''+'']
      else chunks_of SASL_AUTHENTICATE_CHUNK encoded @ frame_payloads_tail encoded)"

definition encode_sasl_frames :: "crypto \<Rightarrow> bytes \<Rightarrow> bytes list" where
  "encode_sasl_frames cr raw = map authenticate_frame (frame_payloads cr raw)"

record ChallengeBuffer =
  accumulated :: bytes

definition challenge_take ::
  "crypto \<Rightarrow> ChallengeBuffer \<Rightarrow> bytes \<Rightarrow> ChallengeBuffer \<times> (ScramFailure + bytes option)" where
  "challenge_take cr b payload =
     (let bare_plus = payload = ''+'';
          mid_chunk = accumulated b \<noteq> [] \<and> length (accumulated b) mod SASL_AUTHENTICATE_CHUNK \<noteq> 0;
          overflows = \<not> bare_plus \<and>
            (length payload > INCOMING_ENCODED_LIMIT \<or> length (accumulated b) > INCOMING_ENCODED_LIMIT - length payload)
      in if payload = [] \<or> mid_chunk \<or> overflows then (b\<lparr>accumulated := []\<rparr>, Inl MalformedChallenge)
         else
           let encoded = (if bare_plus then accumulated b else accumulated b @ payload) in
           if \<not> bare_plus \<and> length payload = SASL_AUTHENTICATE_CHUNK then (b\<lparr>accumulated := encoded\<rparr>, Inr None)
           else (b\<lparr>accumulated := []\<rparr>,
                 if encoded = [] then Inr (Some [])
                 else case b64_decode cr encoded of None \<Rightarrow> Inl MalformedChallenge | Some raw \<Rightarrow> Inr (Some raw)))"

section \<open>The exchange\<close>

datatype Phase = AwaitPrompt | AwaitServerFirst | AwaitServerFinal | Verified

datatype ScramReply = Send bytes | Continue | Fail

record ScramExchange =
  phase :: Phase
  scram :: SaslScram
  incoming :: ChallengeBuffer

definition default_exchange :: ScramExchange where
  "default_exchange = \<lparr>phase = AwaitPrompt, scram = scram_reset, incoming = \<lparr>accumulated = []\<rparr>\<rparr>"

definition is_verified :: "ScramExchange \<Rightarrow> bool" where
  "is_verified x \<longleftrightarrow> phase x = Verified"

definition take_payload ::
  "crypto \<Rightarrow> string \<Rightarrow> string \<Rightarrow> bytes option \<Rightarrow> ScramExchange \<Rightarrow> bytes \<Rightarrow> ScramExchange \<times> ScramReply" where
  "take_payload cr account password random x payload =
     (case phase x of
        AwaitPrompt \<Rightarrow>
          if payload \<noteq> ''+'' then (x, Fail)
          else (case scram_start cr account password random of
                  (s, Inr message) \<Rightarrow> (x\<lparr>scram := s, phase := AwaitServerFirst\<rparr>, Send message)
                | (s, Inl e) \<Rightarrow> (x\<lparr>scram := s\<rparr>, Fail))
      | Verified \<Rightarrow> (x, Continue)
      | _ \<Rightarrow>
          (case challenge_take cr (incoming x) payload of
             (b, Inr None) \<Rightarrow> (x\<lparr>incoming := b\<rparr>, Continue)
           | (b, Inl e) \<Rightarrow> (x\<lparr>incoming := b\<rparr>, Fail)
           | (b, Inr (Some message)) \<Rightarrow>
               if phase x = AwaitServerFirst then
                 (case take_server_first cr (scram x) message of
                    (s, Inr client_final) \<Rightarrow> (x\<lparr>incoming := b, scram := s, phase := AwaitServerFinal\<rparr>, Send client_final)
                  | (s, Inl e) \<Rightarrow> (x\<lparr>incoming := b, scram := s\<rparr>, Fail))
               else
                 (case take_server_final cr (scram x) message of
                    (s, Inr _) \<Rightarrow> (x\<lparr>incoming := b, scram := s, phase := Verified\<rparr>, Send [])
                  | (s, Inl e) \<Rightarrow> (x\<lparr>incoming := b, scram := s\<rparr>, Fail))))"

section \<open>Facts about bytes and chunks\<close>

lemma code_byte_xor: "code (byte_xor a b) = Bit_Operations.xor (code a) (code b)"
proof -
  have "take_bit 8 (code c) = code c" for c by (simp add: take_bit_nat_eq_self_iff code_less_256)
  then have "take_bit 8 (Bit_Operations.xor (code a) (code b)) = Bit_Operations.xor (code a) (code b)"
    by (simp add: take_bit_xor)
  then show ?thesis by (simp add: byte_xor_def of_char_of take_bit_eq_mod)
qed

lemma byte_xor_cancel [simp]: "byte_xor (byte_xor a b) b = a"
proof -
  have "code (byte_xor (byte_xor a b) b) = code a" by (simp add: code_byte_xor xor.assoc)
  then show ?thesis by simp
qed

lemma bytes_xor_cancel: "length xs = length ys \<Longrightarrow> bytes_xor (bytes_xor xs ys) ys = xs"
  by (induction xs ys rule: list_induct2) (simp_all add: bytes_xor_def)

lemma chunks_of_Nil [simp]: "chunks_of n [] = []"
  by (simp add: chunks_of.simps)

lemma chunks_of_step: "bs \<noteq> [] \<Longrightarrow> 0 < n \<Longrightarrow> chunks_of n bs = take n bs # chunks_of n (drop n bs)"
  by (simp add: chunks_of.simps [of n bs])

lemma chunks_of_length: "0 < n \<Longrightarrow> c \<in> set (chunks_of n bs) \<Longrightarrow> length c \<le> n"
proof (induction n bs rule: chunks_of.induct)
  case (1 n bs)
  then show ?case by (cases "bs = []") (auto simp: chunks_of_step)
qed

section \<open>Framing is read back\<close>

fun challenge_run :: "crypto \<Rightarrow> ChallengeBuffer \<Rightarrow> bytes list \<Rightarrow> ChallengeBuffer \<times> (ScramFailure + bytes option) list" where
  "challenge_run cr b [] = (b, [])"
| "challenge_run cr b (p # ps) =
     (case challenge_take cr b p of (b', r) \<Rightarrow>
        case challenge_run cr b' ps of (b'', rs) \<Rightarrow> (b'', r # rs))"

lemma challenge_run_length: "length (snd (challenge_run cr b ps)) = length ps"
  by (induction ps arbitrary: b) (auto split: prod.splits, metis snd_conv)

definition b64_shape :: "bytes \<Rightarrow> bool" where
  "b64_shape e \<longleftrightarrow> length e mod 4 = 0"

lemma challenge_take_plus:
  "acc \<noteq> [] \<Longrightarrow> length acc mod 400 = 0 \<Longrightarrow> b64_decode cr acc = Some raw \<Longrightarrow>
   challenge_take cr \<lparr>accumulated = acc\<rparr> ''+'' = (\<lparr>accumulated = []\<rparr>, Inr (Some raw))"
  by (simp add: challenge_take_def SASL_AUTHENTICATE_CHUNK_def)

lemma challenge_take_whole:
  "length p = 400 \<Longrightarrow> length acc mod 400 = 0 \<Longrightarrow> length acc + 400 \<le> 4096 \<Longrightarrow>
   challenge_take cr \<lparr>accumulated = acc\<rparr> p = (\<lparr>accumulated = acc @ p\<rparr>, Inr None)"
  by (auto simp: challenge_take_def SASL_AUTHENTICATE_CHUNK_def INCOMING_ENCODED_LIMIT_def Let_def)

lemma challenge_take_last:
  "p \<noteq> [] \<Longrightarrow> p \<noteq> ''+'' \<Longrightarrow> length p < 400 \<Longrightarrow> length acc mod 400 = 0 \<Longrightarrow> length acc + length p \<le> 4096 \<Longrightarrow>
   b64_decode cr (acc @ p) = Some raw \<Longrightarrow>
   challenge_take cr \<lparr>accumulated = acc\<rparr> p = (\<lparr>accumulated = []\<rparr>, Inr (Some raw))"
  by (auto simp: challenge_take_def SASL_AUTHENTICATE_CHUNK_def INCOMING_ENCODED_LIMIT_def Let_def)

lemma challenge_run_chunks:
  assumes "b64_shape e" "length acc mod 400 = 0" "acc @ e \<noteq> []" "length acc + length e \<le> 4096"
    and "b64_decode cr (acc @ e) = Some raw"
  shows "challenge_run cr \<lparr>accumulated = acc\<rparr> (chunks_of 400 e @ frame_payloads_tail e) =
    (\<lparr>accumulated = []\<rparr>, replicate (length e div 400) (Inr None) @ [Inr (Some raw)])"
  using assms
proof (induction "length e" arbitrary: e acc rule: less_induct)
  case less
  show ?case
  proof (cases "length e < 400")
    case True
    show ?thesis
    proof (cases "e = []")
      case True
      then show ?thesis using less.prems by (simp add: frame_payloads_tail_def challenge_take_plus)
    next
      case False
      have "e \<noteq> ''+''" using less.prems(1) by (auto simp: b64_shape_def)
      then show ?thesis
        using less.prems False True
        by (simp add: chunks_of_step frame_payloads_tail_def SASL_AUTHENTICATE_CHUNK_def challenge_take_last)
    qed
  next
    case False
    let ?e = "drop 400 e"
    have acc: "length (acc @ take 400 e) mod 400 = 0" using False less.prems(2) by simp
    have "b64_shape ?e" using less.prems(1) False by (simp add: b64_shape_def mod_simps) presburger
    then have run: "challenge_run cr \<lparr>accumulated = acc @ take 400 e\<rparr> (chunks_of 400 ?e @ frame_payloads_tail ?e) =
        (\<lparr>accumulated = []\<rparr>, replicate (length ?e div 400) (Inr None) @ [Inr (Some raw)])"
      using less.prems False acc by (intro less.hyps) auto
    have tail: "frame_payloads_tail e = frame_payloads_tail ?e"
      using False by (simp add: frame_payloads_tail_def SASL_AUTHENTICATE_CHUNK_def le_mod_geq)
    have count: "length e div 400 = Suc (length ?e div 400)" using False by (simp add: le_div_geq)
    have "e \<noteq> []" using False by auto
    then show ?thesis
      using False less.prems(2,4) run
      by (simp add: chunks_of_step tail count challenge_take_whole)
  qed
qed


section \<open>Mutual authentication\<close>

text \<open>The laws of the primitives that the exchange relies on.\<close>

definition crypto_laws :: "crypto \<Rightarrow> bool" where
  "crypto_laws cr \<longleftrightarrow>
     (\<forall>x. b64_decode cr (b64_encode cr x) = Some x \<and> CHR '','' \<notin> set (b64_encode cr x) \<and> (b64_encode cr x = [] \<longrightarrow> x = []))
     \<and> (\<forall>k m. length (hmac_sha256 cr k m) = 32)"

text \<open>What an honest server does with the keys it stores for a user.\<close>

definition server_first :: "crypto \<Rightarrow> bytes \<Rightarrow> bytes \<Rightarrow> bytes \<Rightarrow> bytes" where
  "server_first cr nonce salt iterations = ''r='' @ nonce @ '',s='' @ b64_encode cr salt @ '',i='' @ iterations"

definition server_accepts :: "crypto \<Rightarrow> bytes \<Rightarrow> bytes \<Rightarrow> bytes \<Rightarrow> bool" where
  "server_accepts cr stored_key auth proof_bytes \<longleftrightarrow>
     sha256_digest cr (bytes_xor proof_bytes (hmac_sha256 cr stored_key auth)) = stored_key"

lemma split_by_comma_three:
  assumes "CHR '','' \<notin> set a" "CHR '','' \<notin> set b" "CHR '','' \<notin> set c"
  shows "split_by (\<lambda>x. x = CHR '','') (a @ CHR '','' # b @ CHR '','' # c) = [a, b, c]"
proof -
  have "split_by (\<lambda>x. x = CHR '','') (join_with '','' [a, b, c]) = [a, b, c]"
    using assms by (intro split_by_join) auto
  then show ?thesis by simp
qed

lemma split_by_comma_one: "CHR '','' \<notin> set a \<Longrightarrow> split_by (\<lambda>x. x = CHR '','') a = [a]"
  using split_by_join [of "[a]" "CHR '',''"] by simp

lemma parse_server_first:
  assumes "nonce \<noteq> []" "salt \<noteq> []" "iterations \<noteq> []"
    and "CHR '','' \<notin> set nonce" "CHR '','' \<notin> set salt" "CHR '','' \<notin> set iterations"
  shows "parse_attributes (''r='' @ nonce @ '',s='' @ salt @ '',i='' @ iterations) ''rsi'' =
    Inr (default_attributes\<lparr>attr_nonce := Some nonce, attr_salt := Some salt, attr_iterations := Some iterations\<rparr>)"
proof -
  have len: "3 \<le> length (''r='' @ nonce)" "3 \<le> length (''s='' @ salt)" "3 \<le> length (''i='' @ iterations)"
    using assms(1-3) by (cases nonce; cases salt; cases iterations; simp)+
  have "split_by (\<lambda>x. x = CHR '','') ((''r='' @ nonce) @ CHR '','' # (''s='' @ salt) @ CHR '','' # ''i='' @ iterations) =
      [''r='' @ nonce, ''s='' @ salt, ''i='' @ iterations]"
    using assms(4-6) by (intro split_by_comma_three) auto
  then show ?thesis
    using assms(1-3) len by (simp add: parse_attributes_def take_attribute_def Let_def default_attributes_def)
qed

lemma parse_server_final:
  assumes "v \<noteq> []" "CHR '','' \<notin> set v"
  shows "parse_attributes (''v='' @ v) ''v'' = Inr (default_attributes\<lparr>attr_verifier := Some v\<rparr>)"
proof -
  have "3 \<le> length (''v='' @ v)" using assms(1) by (cases v) auto
  then show ?thesis
    using assms split_by_comma_one [of "''v='' @ v"]
    by (simp add: parse_attributes_def take_attribute_def Let_def default_attributes_def)
qed

lemma digits_no_comma: "parse_iterations it = Inr n \<Longrightarrow> it \<noteq> [] \<and> CHR '','' \<notin> set it"
  by (auto simp: parse_iterations_def all_digits_def is_ascii_digit_def split: if_splits)

text \<open>
  C28. SCRAM authenticates both sides. When the client has started an exchange and the server continues its nonce
  with a salt and an allowed iteration count, the client answers with a proof that a server holding the stored key
  of the same password accepts; and the client then accepts a server signature if and only if it is the one
  computed with the server key of that password over this very conversation.
\<close>

theorem scram_mutual:
  assumes "crypto_laws cr" "scram_start cr account password random = (s0, Inr first)"
    and "acceptable_nonce server_part" "salt \<noteq> []" "parse_iterations iterations = Inr n" "sig \<noteq> []"
    and "nonce = client_nonce s0 @ server_part" "salted = pbkdf2_hmac cr password salt n"
    and "stored = sha256_digest cr (hmac_sha256 cr salted ''Client Key'')"
    and "auth = drop 3 first @ '','' @ server_first cr nonce salt iterations @ '','' @ ''c=biws,r='' @ nonce"
  shows "\<exists>s1 proof_bytes.
    take_server_first cr s0 (server_first cr nonce salt iterations) =
      (s1, Inr (''c=biws,r='' @ nonce @ '',p='' @ b64_encode cr proof_bytes))
    \<and> server_accepts cr stored auth proof_bytes
    \<and> (snd (take_server_final cr s1 (''v='' @ b64_encode cr sig)) = Inr []
         \<longleftrightarrow> sig = hmac_sha256 cr (hmac_sha256 cr salted ''Server Key'') auth)"
proof -
  note laws = assms(1) [unfolded crypto_laws_def]
  have s0: "acceptable_nonce (client_nonce s0)" "scram_password s0 = password" "client_first_bare s0 = drop 3 first"
      "scram_step s0 = StepAwaitServerFirst"
    using assms(2) by (auto simp: scram_start_def Let_def split: if_splits)
  have nonce: "nonce \<noteq> []" "CHR '','' \<notin> set nonce" "\<not> length nonce \<le> length (client_nonce s0)"
      "starts_with (client_nonce s0) nonce"
    using s0(1) assms(3,7) by (auto simp: acceptable_nonce_def starts_with_def)
  have parsed: "parse_attributes (server_first cr nonce salt iterations) ''rsi'' =
      Inr (default_attributes\<lparr>attr_nonce := Some nonce, attr_salt := Some (b64_encode cr salt),
                              attr_iterations := Some iterations\<rparr>)"
    unfolding server_first_def using nonce laws assms(4) digits_no_comma [OF assms(5)]
    by (intro parse_server_first) auto
  have salt: "decode_base64 cr (b64_encode cr salt) = Inr salt" using laws assms(4) by (auto simp: decode_base64_def)
  define client_key where "client_key = hmac_sha256 cr salted ''Client Key''"
  define proof_bytes where "proof_bytes = bytes_xor client_key (hmac_sha256 cr stored auth)"
  define s1 where "s1 = s0\<lparr>scram_password := [], server_key := hmac_sha256 cr salted ''Server Key'',
      auth_message := auth, scram_step := StepAwaitServerFinal\<rparr>"
  have first: "take_server_first cr s0 (server_first cr nonce salt iterations) =
      (s1, Inr (''c=biws,r='' @ nonce @ '',p='' @ b64_encode cr proof_bytes))"
    using nonce s0 assms(5,8,9,10)
    by (simp add: take_server_first_def client_final_for_def parsed salt default_attributes_def s1_def proof_bytes_def
        client_key_def Let_def)
  have "server_accepts cr stored auth proof_bytes"
    using laws assms(9) by (simp add: server_accepts_def proof_bytes_def bytes_xor_cancel client_key_def)
  moreover have sig_text: "b64_encode cr sig \<noteq> []" "CHR '','' \<notin> set (b64_encode cr sig)"
    and "b64_decode cr (b64_encode cr sig) = Some sig"
    using laws assms(6) by auto
  then have "verify_server_final cr s1 (''v='' @ b64_encode cr sig) =
      (if hmac_sha256 cr (hmac_sha256 cr salted ''Server Key'') auth = sig then None else Some SignatureMismatch)"
    unfolding verify_server_final_def parse_server_final [OF sig_text]
    by (simp add: decode_base64_def s1_def default_attributes_def)
  then have "snd (take_server_final cr s1 (''v='' @ b64_encode cr sig)) = Inr []
      \<longleftrightarrow> sig = hmac_sha256 cr (hmac_sha256 cr salted ''Server Key'') auth"
    by (auto simp: take_server_final_def s1_def)
  ultimately show ?thesis using first by blast
qed

section \<open>The exchange verifies before it is done\<close>

lemma verified_only_by_signature:
  assumes "take_payload cr account password random x payload = (x', reply)" "\<not> is_verified x" "is_verified x'"
  shows "\<exists>b message. challenge_take cr (incoming x) payload = (b, Inr (Some message)) \<and> phase x = AwaitServerFinal
    \<and> scram_step (scram x) = StepAwaitServerFinal \<and> verify_server_final cr (scram x) message = None \<and> reply = Send []"
  using assms
  by (auto simp: take_payload_def is_verified_def take_server_final_def
      split: Phase.splits prod.splits sum.splits option.splits if_splits)

section \<open>Witnesses\<close>

text \<open>A text encoding with the laws of base64 that are used: four characters for every byte.\<close>

definition sample_encode :: "bytes \<Rightarrow> bytes" where
  "sample_encode bs = concat (map (\<lambda>b. [CHR ''x'', CHR ''x'', char_of (48 + code b div 16), char_of (48 + code b mod 16)]) bs)"

fun sample_decode :: "bytes \<Rightarrow> bytes option" where
  "sample_decode [] = Some []"
| "sample_decode (a # b # h # l # rest) = map_option ((#) (char_of ((code h - 48) * 16 + (code l - 48)))) (sample_decode rest)"
| "sample_decode _ = None"

definition sample_crypto :: crypto where
  "sample_crypto = \<lparr>hmac_sha256 = (\<lambda>k m. replicate 32 (CHR ''k'')), sha256_digest = (\<lambda>m. m),
     pbkdf2_hmac = (\<lambda>p salt n. p), b64_encode = sample_encode, b64_decode = sample_decode\<rparr>"

lemma sample_encode_Cons: "sample_encode (b # bs) =
    CHR ''x'' # CHR ''x'' # char_of (48 + code b div 16) # char_of (48 + code b mod 16) # sample_encode bs"
  by (simp add: sample_encode_def)

lemma sample_decode_encode [simp]: "sample_decode (sample_encode bs) = Some bs"
proof (induction bs)
  case (Cons b bs)
  have "code b div 16 < 16" using code_less_256 [of b] by linarith
  then have "code (char_of (48 + code b div 16)) = 48 + code b div 16"
    "code (char_of (48 + code b mod 16)) = 48 + code b mod 16" by (simp_all add: of_char_of)
  then show ?case using Cons by (simp add: sample_encode_Cons)
qed (simp add: sample_encode_def)

lemma sample_no_comma: "CHR '','' \<notin> set (sample_encode bs)"
proof (induction bs)
  case (Cons b bs)
  have "code b div 16 < 16" using code_less_256 [of b] by linarith
  then have "char_of (48 + code b div 16) \<noteq> CHR '',''" "char_of (48 + code b mod 16) \<noteq> CHR '',''"
    by (simp_all add: char_eq_code of_char_of del: of_char_eq_iff)
  then show ?case using Cons by (simp add: sample_encode_Cons)
qed (simp add: sample_encode_def)

lemma sample_laws: "crypto_laws sample_crypto"
proof -
  have "sample_encode x = [] \<Longrightarrow> x = []" for x by (cases x) (simp_all add: sample_encode_Cons)
  then show ?thesis using sample_no_comma by (auto simp: crypto_laws_def sample_crypto_def)
qed


theorem scram_mutual_witness:
  "\<exists>s0 first s1 m. scram_start sample_crypto ''bo'' ''pw'' (Some ''r'') = (s0, Inr first)
     \<and> take_server_first sample_crypto s0
         (server_first sample_crypto (client_nonce s0 @ ''S'') ''salt'' ''4096'') = (s1, Inr m)"
proof -
  have n: "acceptable_nonce (generate_nonce sample_crypto (Some ''r''))"
    by (simp add: generate_nonce_def sample_crypto_def sample_encode_def acceptable_nonce_def of_char_of char_eq_code
        del: of_char_eq_iff)
  then obtain s0 first where s: "scram_start sample_crypto ''bo'' ''pw'' (Some ''r'') = (s0, Inr first)"
    by (simp add: scram_start_def contains_unsendable_def Let_def)
  have "acceptable_nonce ''S''" "parse_iterations ''4096'' = Inr 4096"
    by (simp_all add: acceptable_nonce_def parse_iterations_def all_digits_def is_ascii_digit_def decimal_value_def
        MIN_ITERATIONS_def MAX_ITERATIONS_def)
  from scram_mutual [OF sample_laws s this(1) _ this(2) _ refl refl refl refl, of "''salt''" "''x''"] s
  show ?thesis by blast
qed

end
