(* ===== verification/ServiceNick.thy ===== *)
theory ServiceNick
  imports Message ServerFeatures
begin

text \<open>
  \<open>irc/servicenick.rs\<close>: which sources are network services rather than people, and which targets look like
  channels before the server has advertised its CHANTYPES.

  \<open>str::to_lowercase\<close> and \<open>char::to_uppercase\<close> use the Unicode tables of the Rust standard library. The tables
  are the parameter \<open>unicode\<close>; what the code relies on is that they act on ASCII as the ASCII conversions do.
\<close>

record unicode =
  lower_text :: "string \<Rightarrow> string"
  upper_text :: "string \<Rightarrow> string"
  upper_char :: "scalar \<Rightarrow> scalar list"

definition unicode_laws :: "unicode \<Rightarrow> bool" where
  "unicode_laws u \<longleftrightarrow>
     (\<forall>s. list_all is_ascii_byte s \<longrightarrow> lower_text u s = to_ascii_lowercase s \<and> upper_text u s = to_ascii_uppercase s)
     \<and> (\<forall>c. is_ascii_byte c \<longrightarrow> upper_char u (code c) = [code (ascii_upper c)])"

text \<open>Tables that leave everything but ASCII alone, for concrete runs.\<close>

definition ascii_unicode :: unicode where
  "ascii_unicode = \<lparr>lower_text = to_ascii_lowercase, upper_text = to_ascii_uppercase,
     upper_char = (\<lambda>n. [if 97 \<le> n \<and> n \<le> 122 then n - 32 else n])\<rparr>"

lemma ascii_unicode_laws: "unicode_laws ascii_unicode"
  by (simp add: unicode_laws_def ascii_unicode_def code_ascii_upper is_ascii_lowercase_def)

definition can_start_nick :: "scalar \<Rightarrow> bool" where
  "can_start_nick mark \<longleftrightarrow>
     (65 \<le> mark \<and> mark \<le> 90) \<or> (97 \<le> mark \<and> mark \<le> 122)
     \<or> mark \<in> set (map of_char [CHR ''-'', CHR ''['', CHR '']'', CHR 0x5C, CHR 0x60, CHR ''_'', CHR ''^'', CHR ''{'', CHR ''|'', CHR ''}''])"

definition looks_like_channel :: "string \<Rightarrow> string \<Rightarrow> bool" where
  "looks_like_channel target ctypes =
     (case chars target of
        [] \<Rightarrow> False
      | mark # _ \<Rightarrow> if ctypes \<noteq> [] then mark \<in> set (chars ctypes) else \<not> can_start_nick mark)"

definition ends_with_fold :: "string \<Rightarrow> string \<Rightarrow> bool" where
  "ends_with_fold text suffix \<longleftrightarrow>
     length text \<ge> length suffix \<and> eq_ignore_ascii_case (drop (length text - length suffix) text) suffix"

definition is_service_identity :: "unicode \<Rightarrow> string \<Rightarrow> string \<Rightarrow> string \<Rightarrow> bool" where
  "is_service_identity u nick host ctypes =
     (if nick \<noteq> [] \<and> \<not> looks_like_channel nick ctypes \<and> ends_with_fold nick ''serv'' then True
      else if host = [] then False
      else let folded = lower_text u host in folded = ''services'' \<or> starts_with ''services.'' folded)"

definition is_service_source :: "unicode \<Rightarrow> IrcMessage \<Rightarrow> IrcServerFeatures \<Rightarrow> bool" where
  "is_service_source u message features =
     (case msg_prefix message of
        None \<Rightarrow> False
      | Some p \<Rightarrow> is_service_identity u (wire_text (pfx_nick p)) (wire_text (pfx_host p)) (channel_types features))"

definition is_network_notice_target :: "string \<Rightarrow> bool" where
  "is_network_notice_target target \<longleftrightarrow> target = [] \<or> target = ''*'' \<or> eq_ignore_ascii_case target ''AUTH''"

definition nick_is_routable :: "string \<Rightarrow> bool" where
  "nick_is_routable nick \<longleftrightarrow>
     nick \<noteq> [] \<and> \<not> (\<exists>mark \<in> set (chars nick). mark < 32 \<or> mark \<in> set (chars '' ,*?!@.$:''))"

text \<open>A nick that ends in \<open>serv\<close> in any case is a service, unless it is a channel name.\<close>

lemma service_suffix:
  assumes "eq_ignore_ascii_case s ''serv''" "\<not> looks_like_channel (n @ s) ct"
  shows "is_service_identity u (n @ s) host ct"
proof -
  have "length s = 4" using arg_cong [OF assms(1) [unfolded eq_ignore_ascii_case_def], of length] by simp
  then show ?thesis using assms by (auto simp: is_service_identity_def ends_with_fold_def)
qed

end
