(* ===== verification/SecretPolicy.thy ===== *)
theory SecretPolicy
  imports ServiceNick CommandBuilder
begin

text \<open>
  \<open>irc/secretpolicy.rs\<close>: the redaction of lines that carry a password, a channel key or a service
  credential. The tables, the tokenizer, the three masks, the near-miss rules and the entry points
  \<open>redact_wire_line\<close>, \<open>redact_preview_line\<close>, \<open>redact_message\<close> and \<open>allows_transcript\<close> are modelled as they
  are. The lemmas show that the edit distance of the near-miss rules is the least number of single-byte
  edits, that a keyed MODE masks exactly the parameters its \<open>k\<close> letters take, and that what the client
  shows of the secrets it sends does not depend on them.
\<close>

section \<open>Tables\<close>

record MaskedCommand =
  masked_verb :: string
  masked_parameters :: "string list"

datatype SecretShape = TailAfterParameters | KeyedModeTail | ServiceRequestBody

record SecretRule =
  rule_verb :: string
  rule_shape :: SecretShape
  visible_parameters :: nat

definition SECRET_MAP :: "SecretRule list" where
  "SECRET_MAP =
    [\<lparr>rule_verb = ''PASS'', rule_shape = TailAfterParameters, visible_parameters = 0\<rparr>,
     \<lparr>rule_verb = ''AUTHENTICATE'', rule_shape = TailAfterParameters, visible_parameters = 0\<rparr>,
     \<lparr>rule_verb = ''OPER'', rule_shape = TailAfterParameters, visible_parameters = 1\<rparr>,
     \<lparr>rule_verb = ''JOIN'', rule_shape = TailAfterParameters, visible_parameters = 1\<rparr>,
     \<lparr>rule_verb = ''MODE'', rule_shape = KeyedModeTail, visible_parameters = 2\<rparr>,
     \<lparr>rule_verb = ''324'', rule_shape = KeyedModeTail, visible_parameters = 3\<rparr>,
     \<lparr>rule_verb = ''PRIVMSG'', rule_shape = ServiceRequestBody, visible_parameters = 1\<rparr>,
     \<lparr>rule_verb = ''NOTICE'', rule_shape = ServiceRequestBody, visible_parameters = 1\<rparr>]"

definition SERVICE_PASSWORD_COMMANDS :: "string list" where
  "SERVICE_PASSWORD_COMMANDS =
     [''IDENTIFY'', ''REGISTER'', ''GHOST'', ''RECOVER'', ''RELEASE'', ''REGAIN'', ''SETPASS'']"

text \<open>The check the code runs on its table when it is compiled.\<close>

fun secret_rows_ok :: "string list \<Rightarrow> SecretRule list \<Rightarrow> bool" where
  "secret_rows_ok earlier [] = True"
| "secret_rows_ok earlier (rule # rules) =
     (rule_verb rule \<noteq> []
      \<and> (\<forall>b \<in> set (rule_verb rule). \<not> is_ascii_lowercase b)
      \<and> (case rule_shape rule of
           ServiceRequestBody \<Rightarrow> visible_parameters rule = 1
         | KeyedModeTail \<Rightarrow> \<not> visible_parameters rule < 2
         | TailAfterParameters \<Rightarrow> True)
      \<and> rule_verb rule \<notin> set earlier
      \<and> secret_rows_ok (earlier @ [rule_verb rule]) rules)"

definition secret_map_is_well_formed :: bool where
  "secret_map_is_well_formed = secret_rows_ok [] SECRET_MAP"

section \<open>Words and distances\<close>

definition simple_upper :: "unicode \<Rightarrow> string \<Rightarrow> string" where
  "simple_upper u text =
     encode_utf8 (map (\<lambda>mark. case upper_char u mark of [single] \<Rightarrow> single | _ \<Rightarrow> mark) (chars text))"

definition alnum_only_upper :: "string \<Rightarrow> string" where
  "alnum_only_upper token = map ascii_upper (filter is_ascii_alphanumeric token)"

text \<open>One row of the distance table: \<open>left_cell\<close> is \<open>current[column - 1]\<close>, and the list holds \<open>previous\<close>
  from \<open>column - 1\<close> on.\<close>

fun distance_row :: "char \<Rightarrow> nat \<Rightarrow> bytes \<Rightarrow> nat list \<Rightarrow> nat list" where
  "distance_row left_byte left_cell (r # rs) (p0 # p1 # ps) =
     (let cost = (if left_byte \<noteq> r then 1 else 0);
          cell = min (min (left_cell + 1) (p1 + 1)) (p0 + cost)
      in cell # distance_row left_byte cell rs (p1 # ps))"
| "distance_row left_byte left_cell _ _ = []"

fun distance_rows :: "nat \<Rightarrow> bytes \<Rightarrow> bytes \<Rightarrow> nat list \<Rightarrow> nat list" where
  "distance_rows row [] right previous = previous"
| "distance_rows row (b # left) right previous =
     distance_rows (row + 1) left right ((row + 1) # distance_row b (row + 1) right previous)"

definition letter_distance :: "bytes \<Rightarrow> bytes \<Rightarrow> nat" where
  "letter_distance left right =
     (if left = [] then length right
      else if right = [] then length left
      else distance_rows 0 left right [0..<length right + 1] ! length right)"

definition secret_rule_for :: "string \<Rightarrow> SecretRule option" where
  "secret_rule_for verb = List.find (\<lambda>rule. rule_verb rule = verb) SECRET_MAP"

text \<open>The loop of both near-miss searches: the best candidate so far, dropped again by a tie.\<close>

definition nearest_step :: "('a \<Rightarrow> string) \<Rightarrow> string \<Rightarrow> 'a option \<times> nat \<Rightarrow> 'a \<Rightarrow> 'a option \<times> nat" where
  "nearest_step name_of alnum acc candidate =
     (case acc of (best, best_distance) \<Rightarrow>
        let distance = letter_distance alnum (name_of candidate) in
        if distance < best_distance then (Some candidate, distance)
        else if distance = best_distance then (None, best_distance)
        else (best, best_distance))"

definition nearest :: "('a \<Rightarrow> string) \<Rightarrow> string \<Rightarrow> 'a list \<Rightarrow> 'a option" where
  "nearest name_of alnum candidates =
     (case foldl (nearest_step name_of alnum) (None, 2) candidates of
        (best, best_distance) \<Rightarrow> if best_distance \<le> 1 then best else None)"

definition nearest_service_password :: "string \<Rightarrow> string option" where
  "nearest_service_password word =
     (let alnum = alnum_only_upper word in
      if length alnum < 4 then None else nearest (\<lambda>c. c) alnum SERVICE_PASSWORD_COMMANDS)"

definition nearest_secret_rule :: "string \<Rightarrow> SecretRule option" where
  "nearest_secret_rule verb =
     (let alnum = alnum_only_upper verb in
      if length alnum < 3 then None else nearest rule_verb alnum SECRET_MAP)"

section \<open>Tokenizer\<close>

record WireCommand =
  wire_verb :: string
  wire_parameters :: "string list"

definition is_field_space :: "char \<Rightarrow> bool" where
  "is_field_space c \<longleftrightarrow> c = CHR '' '' \<or> c = CHR 0x09"

definition skip_field_spaces :: "string \<Rightarrow> string" where
  "skip_field_spaces text = dropWhile is_field_space text"

definition field_break :: "string \<Rightarrow> nat option" where
  "field_break text = position is_field_space text"

definition drop_leading_word :: "string \<Rightarrow> string option" where
  "drop_leading_word text =
     (case field_break text of
        None \<Rightarrow> None
      | Some space \<Rightarrow>
          let rest = skip_field_spaces (drop (space + 1) text) in
          if rest \<noteq> [] then Some rest else None)"

lemma length_skip_field_spaces: "length (skip_field_spaces text) \<le> length text"
  by (simp add: skip_field_spaces_def length_dropWhile_le)

lemma field_break_shrinks:
  "field_break rest = Some i \<Longrightarrow> length (skip_field_spaces (drop (i + 1) rest)) < length rest"
  using length_skip_field_spaces [of "drop (i + 1) rest"] by (auto simp: field_break_def position_Some)

function tokenize_parameters :: "string \<Rightarrow> string list" where
  "tokenize_parameters rest =
     (if rest = [] then []
      else case strip_prefix '':'' rest of
        Some trailing \<Rightarrow> [trailing]
      | None \<Rightarrow>
          (case field_break rest of
             Some i \<Rightarrow> take i rest # tokenize_parameters (skip_field_spaces (drop (i + 1) rest))
           | None \<Rightarrow> [rest]))"
  by auto
termination by (relation "measure length") (auto dest: field_break_shrinks)

declare tokenize_parameters.simps [simp del]

definition tokenize :: "unicode \<Rightarrow> string \<Rightarrow> WireCommand option" where
  "tokenize u line =
     (let rest = skip_field_spaces line in
      if rest = [] then None
      else case (if starts_with ''@'' rest then drop_leading_word rest else Some rest) of
        None \<Rightarrow> None
      | Some rest \<Rightarrow>
          (case (if starts_with '':'' rest then drop_leading_word rest else Some rest) of
             None \<Rightarrow> None
           | Some rest \<Rightarrow>
               let (verb_text, rest) =
                     (case field_break rest of
                        Some i \<Rightarrow> (take i rest, skip_field_spaces (drop (i + 1) rest))
                      | None \<Rightarrow> (rest, []));
                   verb = simple_upper u verb_text
               in if verb = [] then None
                  else Some \<lparr>wire_verb = verb, wire_parameters = tokenize_parameters rest\<rparr>))"

definition trailing_separator :: "string \<Rightarrow> string" where
  "trailing_separator trailing =
     (if trailing = [] \<or> starts_with '':'' trailing \<or> CHR '' '' \<in> set trailing then '' :'' else '' '')"

definition format_line :: "WireCommand \<Rightarrow> string" where
  "format_line command =
     (if wire_parameters command = [] then wire_verb command
      else let trailing = last (wire_parameters command); head = butlast (wire_parameters command) in
           wire_verb command @ (if head \<noteq> [] then '' '' @ join_with '' '' head else [])
           @ trailing_separator trailing @ trailing)"

section \<open>Masks\<close>

definition mask_tail_after_parameters :: "WireCommand \<Rightarrow> nat \<Rightarrow> WireCommand option" where
  "mask_tail_after_parameters command visible =
     (if length (wire_parameters command) \<le> visible then None
      else Some \<lparr>wire_verb = wire_verb command, wire_parameters = take visible (wire_parameters command) @ [''***'']\<rparr>)"

definition mode_letter_consumes_parameter :: "char \<Rightarrow> bool \<Rightarrow> bool" where
  "mode_letter_consumes_parameter letter adding \<longleftrightarrow> letter \<in> set ''kovb'' \<or> (letter = CHR ''l'' \<and> adding)"

definition is_rfc_default_mode_letter :: "char \<Rightarrow> bool \<Rightarrow> bool" where
  "is_rfc_default_mode_letter letter adding \<longleftrightarrow>
     mode_letter_consumes_parameter letter adding \<or> letter \<in> set ''imnpst''"

text \<open>The first pass over the mode string: the sign, whether a key is named, whether a letter is unknown.\<close>

fun scan_modes :: "bool \<Rightarrow> bool \<Rightarrow> bool \<Rightarrow> string \<Rightarrow> bool \<times> bool" where
  "scan_modes adding has_key ambiguous [] = (has_key, ambiguous)"
| "scan_modes adding has_key ambiguous (letter # modes) =
     (if letter = CHR ''+'' then scan_modes True has_key ambiguous modes
      else if letter = CHR ''-'' then scan_modes False has_key ambiguous modes
      else if letter = CHR ''k'' then scan_modes adding True ambiguous modes
      else if \<not> is_rfc_default_mode_letter letter adding then scan_modes adding has_key True modes
      else scan_modes adding has_key ambiguous modes)"

text \<open>The second pass: each letter that takes a parameter advances, and a \<open>k\<close> masks the one it takes.\<close>

fun mask_keys :: "bool \<Rightarrow> nat \<Rightarrow> bool \<Rightarrow> string list \<Rightarrow> string \<Rightarrow> string list \<times> bool" where
  "mask_keys adding argument masked parameters [] = (parameters, masked)"
| "mask_keys adding argument masked parameters (letter # modes) =
     (if letter = CHR ''+'' then mask_keys True argument masked parameters modes
      else if letter = CHR ''-'' then mask_keys False argument masked parameters modes
      else if \<not> mode_letter_consumes_parameter letter adding then mask_keys adding argument masked parameters modes
      else if argument \<ge> length parameters then (parameters, masked)
      else if letter = CHR ''k'' then mask_keys adding (argument + 1) True (parameters[argument := ''***'']) modes
      else mask_keys adding (argument + 1) masked parameters modes)"

definition mask_keyed_mode_tail :: "WireCommand \<Rightarrow> nat \<Rightarrow> WireCommand option" where
  "mask_keyed_mode_tail command visible =
     (if visible < 2 \<or> length (wire_parameters command) \<le> visible then None
      else let modes = wire_parameters command ! (visible - 1);
               (has_key, ambiguous) = scan_modes True False False modes
      in if \<not> has_key then None
         else if ambiguous then mask_tail_after_parameters command visible
         else let (parameters, masked_key) = mask_keys True visible False (wire_parameters command) modes
              in if \<not> masked_key then None
                 else Some \<lparr>wire_verb = wire_verb command, wire_parameters = parameters\<rparr>)"

definition has_private_recipient :: "string \<Rightarrow> string \<Rightarrow> bool" where
  "has_private_recipient targets ctypes \<longleftrightarrow>
     (\<exists>piece \<in> set (split_by (\<lambda>c. c = CHR '','') targets). \<not> looks_like_channel piece ctypes)"

definition service_body_tokens :: "string \<Rightarrow> string list" where
  "service_body_tokens body =
     (let normalized = trim body;
          normalized = (case strip_prefix [CHR 0x01] normalized of Some s \<Rightarrow> s | None \<Rightarrow> normalized);
          normalized = (case strip_suffix [CHR 0x01] normalized of Some s \<Rightarrow> s | None \<Rightarrow> normalized);
          normalized = trim normalized
      in filter (\<lambda>token. token \<noteq> []) (split_by is_field_space normalized))"

definition matched_service_command :: "unicode \<Rightarrow> string list \<Rightarrow> string option" where
  "matched_service_command u tokens =
     (if length tokens < 2 then None
      else let first = simple_upper u (tokens ! 0) in
        case List.find (\<lambda>command. command = first) SERVICE_PASSWORD_COMMANDS of
          Some command \<Rightarrow> Some command
        | None \<Rightarrow>
            (case nearest_service_password first of
               Some near \<Rightarrow> Some near
             | None \<Rightarrow>
                 if length tokens \<ge> 3 \<and> first = ''SET''
                 then let second = alnum_only_upper (tokens ! 1) in
                      if second = ''PASSWORD'' \<or> letter_distance second ''PASSWORD'' = 1
                      then Some ''SET PASSWORD'' else None
                 else None))"

definition mask_service_request_body :: "unicode \<Rightarrow> WireCommand \<Rightarrow> string \<Rightarrow> WireCommand option" where
  "mask_service_request_body u command ctypes =
     (case wire_parameters command of
        target # b # bs \<Rightarrow>
          if \<not> has_private_recipient target ctypes then None
          else map_option
            (\<lambda>word. \<lparr>wire_verb = wire_verb command, wire_parameters = [target, word @ '' ***'']\<rparr>)
            (matched_service_command u (service_body_tokens (join_with '' '' (b # bs))))
      | _ \<Rightarrow> None)"

definition secret_mask :: "unicode \<Rightarrow> WireCommand \<Rightarrow> string \<Rightarrow> WireCommand option" where
  "secret_mask u command ctypes =
     (case secret_rule_for (wire_verb command) of
        None \<Rightarrow> None
      | Some rule \<Rightarrow>
          (case rule_shape rule of
             TailAfterParameters \<Rightarrow> mask_tail_after_parameters command (visible_parameters rule)
           | KeyedModeTail \<Rightarrow> mask_keyed_mode_tail command (visible_parameters rule)
           | ServiceRequestBody \<Rightarrow> mask_service_request_body u command ctypes))"

definition near_miss_mask :: "unicode \<Rightarrow> WireCommand \<Rightarrow> string \<Rightarrow> string option" where
  "near_miss_mask u parsed ctypes =
     (if wire_parameters parsed = [] then None
      else case nearest_secret_rule (wire_verb parsed) of
        None \<Rightarrow> None
      | Some rule \<Rightarrow>
          map_option format_line
            (secret_mask u \<lparr>wire_verb = rule_verb rule, wire_parameters = wire_parameters parsed\<rparr> ctypes))"

definition conservative_step :: "string \<Rightarrow> SecretRule option \<times> nat \<Rightarrow> SecretRule \<Rightarrow> SecretRule option \<times> nat" where
  "conservative_step alnum acc rule =
     (case acc of (best, best_length) \<Rightarrow>
        if length (rule_verb rule) \<ge> 3 \<and> starts_with (rule_verb rule) alnum \<and> length (rule_verb rule) > best_length
        then (Some rule, length (rule_verb rule)) else (best, best_length))"

definition conservative_preview_mask :: "string \<Rightarrow> string option" where
  "conservative_preview_mask line =
     (let alnum = alnum_only_upper line in
      case foldl (conservative_step alnum) (None, 0) SECRET_MAP of
        (Some rule, best_length) \<Rightarrow> if length alnum > best_length then Some (rule_verb rule @ '' ***'') else None
      | (None, _) \<Rightarrow> None)"

definition preview_mask_at :: "unicode \<Rightarrow> string \<Rightarrow> string \<Rightarrow> string option" where
  "preview_mask_at u fragment ctypes =
     (case tokenize u fragment of
        None \<Rightarrow> conservative_preview_mask fragment
      | Some parsed \<Rightarrow>
          (case secret_mask u parsed ctypes of
             Some masked \<Rightarrow> Some (format_line masked)
           | None \<Rightarrow>
               (case near_miss_mask u parsed ctypes of
                  Some near \<Rightarrow> Some near
                | None \<Rightarrow> conservative_preview_mask fragment)))"

function later_loop :: "unicode \<Rightarrow> string \<Rightarrow> string \<Rightarrow> string option" where
  "later_loop u rest ctypes =
     (if rest = [] then None
      else case field_break rest of
        None \<Rightarrow> None
      | Some break_at \<Rightarrow>
          let rest' = skip_field_spaces (drop (break_at + 1) rest) in
          if rest' = [] then None
          else case preview_mask_at u rest' ctypes of
            Some safe \<Rightarrow> Some safe
          | None \<Rightarrow> later_loop u rest' ctypes)"
  by auto
termination by (relation "measure (\<lambda>(u, rest, ct). length rest)") (auto dest: field_break_shrinks)

declare later_loop.simps [simp del]

definition later_command_preview_mask :: "unicode \<Rightarrow> string \<Rightarrow> string \<Rightarrow> string option" where
  "later_command_preview_mask u line ctypes = later_loop u (skip_field_spaces line) ctypes"

section \<open>Entry points\<close>

definition redact_wire_line :: "unicode \<Rightarrow> string \<Rightarrow> string \<Rightarrow> string option" where
  "redact_wire_line u line ctypes =
     (case tokenize u line of
        None \<Rightarrow> None
      | Some parsed \<Rightarrow> map_option format_line (secret_mask u parsed ctypes))"

definition redact_preview_line :: "unicode \<Rightarrow> string \<Rightarrow> string \<Rightarrow> string option" where
  "redact_preview_line u line ctypes =
     (case redact_wire_line u line ctypes of
        Some safe \<Rightarrow> Some safe
      | None \<Rightarrow>
          (case (case tokenize u line of None \<Rightarrow> None | Some parsed \<Rightarrow> near_miss_mask u parsed ctypes) of
             Some near \<Rightarrow> Some near
           | None \<Rightarrow>
               (case later_command_preview_mask u line ctypes of
                  Some later \<Rightarrow> Some later
                | None \<Rightarrow> conservative_preview_mask line)))"

definition redact_message :: "unicode \<Rightarrow> string \<Rightarrow> string list \<Rightarrow> string \<Rightarrow> MaskedCommand option" where
  "redact_message u command parameters ctypes =
     (let verb = simple_upper u command in
      case secret_rule_for verb of
        None \<Rightarrow> None
      | Some rule \<Rightarrow>
          if (if rule_shape rule = ServiceRequestBody
              then length parameters < 2 \<or> \<not> has_private_recipient (parameters ! 0) ctypes
              else verb = ''JOIN'' \<or> length parameters \<le> visible_parameters rule)
          then None
          else map_option (\<lambda>masked. \<lparr>masked_verb = wire_verb masked, masked_parameters = wire_parameters masked\<rparr>)
                 (secret_mask u \<lparr>wire_verb = verb, wire_parameters = parameters\<rparr> ctypes))"

definition allows_transcript :: "unicode \<Rightarrow> string \<Rightarrow> string \<Rightarrow> bool" where
  "allows_transcript u text ctypes \<longleftrightarrow>
     (if text = [] then True
      else if redact_wire_line u text ctypes \<noteq> None then False
      else redact_message u ''PRIVMSG'' [''NickServ'', text] ctypes = None)"

section \<open>The distance is the least number of edits\<close>

text \<open>\<open>edits n s t\<close>: \<open>n\<close> single-byte substitutions, insertions and deletions turn \<open>s\<close> into \<open>t\<close>.\<close>

inductive edits :: "nat \<Rightarrow> bytes \<Rightarrow> bytes \<Rightarrow> bool" where
  edits_none: "edits 0 [] []"
| edits_keep: "edits n s t \<Longrightarrow> edits n (s @ [c]) (t @ [c])"
| edits_substitute: "edits n s t \<Longrightarrow> edits (Suc n) (s @ [c]) (t @ [d])"
| edits_insert: "edits n s t \<Longrightarrow> edits (Suc n) s (t @ [d])"
| edits_delete: "edits n s t \<Longrightarrow> edits (Suc n) (s @ [c]) t"

inductive_cases edits_snocE: "edits n (s @ [a]) (t @ [b])"

definition edit_distance :: "bytes \<Rightarrow> bytes \<Rightarrow> nat" where
  "edit_distance s t = (LEAST n. edits n s t)"

lemma edits_delete_all: "edits (length s) s []"
  by (induction s rule: rev_induct) (auto intro: edits.intros)

lemma edits_exists: "edits (length s + length t) s t"
  by (induction t rule: rev_induct) (auto intro: edits_delete_all edits_insert)

lemma edits_length: "edits n s t \<Longrightarrow> length s \<le> length t + n \<and> length t \<le> length s + n"
  by (induction rule: edits.induct) auto

lemma edit_distance_edits: "edits (edit_distance s t) s t"
  unfolding edit_distance_def by (rule LeastI) (rule edits_exists)

lemma edit_distance_least: "edits n s t \<Longrightarrow> edit_distance s t \<le> n"
  unfolding edit_distance_def by (rule Least_le)

lemma edit_distance_Nil_right: "edit_distance s [] = length s"
  using edit_distance_least [OF edits_delete_all, of s] edits_length [OF edit_distance_edits, of s "[]"] by simp

lemma edits_insert_all: "edits (length t) [] t"
  by (induction t rule: rev_induct) (auto intro: edits.intros)

lemma edit_distance_Nil_left: "edit_distance [] t = length t"
  using edit_distance_least [OF edits_insert_all, of t] edits_length [OF edit_distance_edits, of "[]" t] by simp

lemma edit_distance_snoc:
  "edit_distance (s @ [a]) (t @ [b]) =
     min (min (edit_distance (s @ [a]) t + 1) (edit_distance s (t @ [b]) + 1))
         (edit_distance s t + (if a \<noteq> b then 1 else 0))" (is "?d = ?m")
proof (rule antisym)
  have "?d \<le> edit_distance s t + (if a \<noteq> b then 1 else 0)"
    using edit_distance_edits [of s t]
    by (auto intro!: edit_distance_least intro: edits_keep edits_substitute)
  moreover have "?d \<le> edit_distance (s @ [a]) t + 1" "?d \<le> edit_distance s (t @ [b]) + 1"
    using edit_distance_edits [of "s @ [a]" t] edit_distance_edits [of s "t @ [b]"]
    by (auto intro!: edit_distance_least intro: edits_insert edits_delete)
  ultimately show "?d \<le> ?m" by simp
next
  from edit_distance_edits [of "s @ [a]" "t @ [b]"] show "?m \<le> ?d"
    by (rule edits_snocE)
      (use edit_distance_least in \<open>auto simp: min_le_iff_disj simp flip: Suc_eq_plus1 intro: le_SucI\<close>)
qed

text \<open>The cells of one row of the table: the distances from \<open>l\<close> to the prefixes of \<open>pre @ rs\<close> from \<open>pre\<close> on.\<close>

fun cells :: "bytes \<Rightarrow> bytes \<Rightarrow> bytes \<Rightarrow> nat list" where
  "cells l pre [] = [edit_distance l pre]"
| "cells l pre (r # rs) = edit_distance l pre # cells l (pre @ [r]) rs"

lemma cells_first: "cells [] pre rs = [length pre..<length pre + length rs + 1]"
proof (induction rs arbitrary: pre)
  case (Cons r rs)
  then show ?case by (simp add: edit_distance_Nil_left upt_conv_Cons [of "length pre"] del: upt_Suc)
qed (simp add: edit_distance_Nil_left)

lemma cells_last: "cells l pre rs ! length rs = edit_distance l (pre @ rs)"
  by (induction rs arbitrary: pre) simp_all

lemma distance_row_cells:
  "edit_distance (l @ [b]) pre # distance_row b (edit_distance (l @ [b]) pre) rs (cells l pre rs) = cells (l @ [b]) pre rs"
proof (induction rs arbitrary: pre)
  case (Cons r rs)
  obtain ps where c: "cells l (pre @ [r]) rs = edit_distance l (pre @ [r]) # ps" by (cases rs) simp_all
  show ?case
    using Cons [of "pre @ [r]"] by (simp add: c Let_def edit_distance_snoc [of l b pre r])
qed simp

lemma distance_rows_cells:
  "length l = row \<Longrightarrow> distance_rows row left right (cells l [] right) = cells (l @ left) [] right"
proof (induction left arbitrary: l row)
  case (Cons b left)
  have "(row + 1) # distance_row b (row + 1) right (cells l [] right) = cells (l @ [b]) [] right"
    using distance_row_cells [of l b "[]" right] Cons.prems by (simp add: edit_distance_Nil_right)
  then show ?case using Cons.IH [of "l @ [b]" "row + 1"] Cons.prems by simp
qed simp

text \<open>
  C29. The distance that decides a near miss is the Levenshtein distance: so many single-byte edits turn one
  word into the other, and no fewer do.
\<close>

theorem letter_distance_least_edits:
  "edits (letter_distance s t) s t \<and> letter_distance s t = (LEAST n. edits n s t)"
proof -
  have "letter_distance s t = edit_distance s t"
    using distance_rows_cells [of "[]" 0 s t] cells_last [of s "[]" t] cells_first [of "[]" t]
    by (simp add: letter_distance_def edit_distance_Nil_left edit_distance_Nil_right)
  then show ?thesis using edit_distance_edits by (simp add: edit_distance_def)
qed

section \<open>Keyed modes\<close>

text \<open>Which of the parameters after the mode string belong to a \<open>k\<close>: one entry per letter that takes one.\<close>

fun key_arguments :: "bool \<Rightarrow> string \<Rightarrow> bool list" where
  "key_arguments adding [] = []"
| "key_arguments adding (letter # modes) =
     (if letter = CHR ''+'' then key_arguments True modes
      else if letter = CHR ''-'' then key_arguments False modes
      else if mode_letter_consumes_parameter letter adding then (letter = CHR ''k'') # key_arguments adding modes
      else key_arguments adding modes)"

fun mask_arguments :: "bool list \<Rightarrow> string list \<Rightarrow> string list" where
  "mask_arguments (is_key # keys) (a # rest) = (if is_key then ''***'' else a) # mask_arguments keys rest"
| "mask_arguments _ rest = rest"

lemma mask_keys_arguments:
  "mask_keys adding argument masked parameters modes =
     (take argument parameters @ mask_arguments (key_arguments adding modes) (drop argument parameters),
      masked \<or> True \<in> set (take (length parameters - argument) (key_arguments adding modes)))"
proof (induction modes arbitrary: adding argument masked parameters)
  case (Cons letter modes)
  show ?case
  proof (cases "mode_letter_consumes_parameter letter adding \<and> letter \<noteq> CHR ''+'' \<and> letter \<noteq> CHR ''-'' \<and> argument < length parameters")
    case True
    define x where "x = (if letter = CHR ''k'' then ''***'' else parameters ! argument)"
    have d: "drop argument parameters = parameters ! argument # drop (Suc argument) parameters"
      using True by (simp add: Cons_nth_drop_Suc)
    have l: "length parameters - argument = Suc (length parameters - Suc argument)" using True by (simp add: Suc_diff_Suc)
    have "mask_keys adding argument masked parameters (letter # modes) =
        mask_keys adding (argument + 1) (masked \<or> letter = CHR ''k'') (parameters[argument := x]) modes"
      using True by (simp add: x_def)
    moreover have "take (argument + 1) (parameters[argument := x]) = take argument parameters @ [x]"
      using True by (simp add: take_Suc_conv_app_nth take_update_cancel)
    ultimately show ?thesis
      using True by (simp add: Cons.IH d l x_def)
  qed (use Cons in \<open>auto simp: not_less\<close>)
qed simp

section \<open>What is shown of the secrets the client sends\<close>

lemma simple_upper_ascii:
  assumes "unicode_laws u" "list_all is_ascii_byte s"
  shows "simple_upper u s = to_ascii_uppercase s"
proof -
  have a: "\<forall>c \<in> set s. code c < 128" using assms(2) by (auto simp: list_all_iff is_ascii_byte_def)
  then have "map (\<lambda>mark. case upper_char u mark of [single] \<Rightarrow> single | _ \<Rightarrow> mark) (chars s) = map of_char (to_ascii_uppercase s)"
    using assms by (auto simp: chars_ascii unicode_laws_def list_all_iff to_ascii_uppercase_def)
  moreover have "list_all is_ascii_byte (to_ascii_uppercase s)"
    using a by (auto simp: list_all_iff to_ascii_uppercase_def is_ascii_byte_def code_ascii_upper)
  ultimately show ?thesis
    using encode_chars [OF utf8_valid_ascii, of "to_ascii_uppercase s"]
    by (auto simp: simple_upper_def chars_ascii list_all_iff is_ascii_byte_def)
qed

lemma field_break_append: "(\<forall>c \<in> set w. \<not> is_field_space c) \<Longrightarrow> field_break (w @ CHR '' '' # r) = Some (length w)"
  by (simp add: field_break_def is_field_space_def)

lemma tokenize_command:
  assumes "unicode_laws u" "list_all (\<lambda>c. is_ascii_uppercase c) verb" "verb \<noteq> []"
  shows "tokenize u (verb @ CHR '' '' # rest) =
    Some \<lparr>wire_verb = verb, wire_parameters = tokenize_parameters (skip_field_spaces rest)\<rparr>"
proof -
  have plain: "\<not> is_field_space c" "is_ascii_byte c" "ascii_upper c = c" "c \<noteq> CHR ''@''" "c \<noteq> CHR '':''" if "c \<in> set verb" for c
    using assms(2) that by (auto simp: list_all_iff ascii_defs is_field_space_def)
  have "simple_upper u verb = verb"
    using simple_upper_ascii [OF assms(1)] plain by (auto simp: list_all_iff to_ascii_uppercase_def intro: map_idI)
  moreover have "hd (verb @ CHR '' '' # rest) \<in> set verb" using assms(3) by (cases verb) auto
  moreover have "skip_field_spaces (verb @ CHR '' '' # rest) = verb @ CHR '' '' # rest"
    using assms(3) plain by (cases verb) (auto simp: skip_field_spaces_def)
  ultimately show ?thesis
    using plain assms(3) by (auto simp: tokenize_def field_break_append)
qed

lemma skip_field_spaces_id: "s \<noteq> [] \<Longrightarrow> \<not> is_field_space (hd s) \<Longrightarrow> skip_field_spaces s = s"
  by (cases s) (auto simp: skip_field_spaces_def)

lemma skip_field_spaces_Nil: "skip_field_spaces s = [] \<longleftrightarrow> (\<forall>c \<in> set s. is_field_space c)"
  by (auto simp: skip_field_spaces_def)

lemma tokenize_parameters_Nil: "tokenize_parameters rest = [] \<longleftrightarrow> rest = []"
  by (subst tokenize_parameters.simps) (auto split: option.splits)

lemma tokenize_parameters_last: "rest \<noteq> [] \<Longrightarrow> hd rest \<noteq> CHR '':'' \<Longrightarrow> (\<forall>c \<in> set rest. \<not> is_field_space c)
    \<Longrightarrow> tokenize_parameters rest = [rest]"
  using position_None [of is_field_space rest]
  by (subst tokenize_parameters.simps) (auto simp: strip_prefix_def field_break_def)

lemma tokenize_parameters_Cons:
  assumes "w \<noteq> []" "hd w \<noteq> CHR '':''" "\<forall>c \<in> set w. \<not> is_field_space c"
  shows "tokenize_parameters (w @ CHR '' '' # rest) = w # tokenize_parameters (skip_field_spaces rest)"
  using assms by (subst tokenize_parameters.simps) (auto simp: strip_prefix_def field_break_append)

lemma join_field_plain:
  assumes "is_join_field f" "utf8_valid f"
  shows "f \<noteq> [] \<and> hd f \<noteq> CHR '':'' \<and> (\<forall>c \<in> set f. \<not> is_field_space c)"
proof -
  have "\<not> is_field_space c" if "c \<in> set f" for c
  proof
    assume c: "is_field_space c"
    then have "code c \<in> set (chars f)" using assms(2) that by (intro ascii_in_chars) (auto simp: is_field_space_def)
    moreover have "is_whitespace (code c)" using c by (auto simp: is_field_space_def is_whitespace_def)
    ultimately show False using assms(1) unfolding is_join_field_def by blast
  qed
  moreover have "f \<noteq> []" "hd f \<noteq> CHR '':''" using assms(1) by (auto simp: is_join_field_def)
  ultimately show ?thesis by blast
qed

definition printable :: "string \<Rightarrow> bool" where
  "printable s \<longleftrightarrow> s \<noteq> [] \<and> list_all (\<lambda>c. 33 \<le> code c \<and> code c < 127) s"

lemma identify_tokens:
  assumes "printable pw"
  shows "service_body_tokens (''IDENTIFY '' @ pw) = [''IDENTIFY'', pw]"
proof -
  let ?b = "''IDENTIFY '' @ pw"
  have c: "\<forall>c \<in> set ?b. code c < 128" "33 \<le> code (last pw)" "code (last pw) < 127" "pw \<noteq> []"
    and sp: "\<forall>c \<in> set pw. \<not> is_field_space c"
    using assms by (auto simp: printable_def list_all_iff is_field_space_def)
  then have "trim ?b = ?b"
    by (intro trim_id utf8_valid_ascii) (auto simp: chars_ascii is_whitespace_def last_map)
  moreover have "strip_prefix [CHR 0x01] ?b = None" by (simp add: strip_prefix_def starts_with_def)
  moreover have "strip_suffix [CHR 0x01] ?b = None"
  proof (rule ccontr)
    assume "strip_suffix [CHR 0x01] ?b \<noteq> None"
    then obtain r where "?b = r @ [CHR 0x01]" by (auto simp: strip_suffix_Some)
    from arg_cong [OF this, of last] c(2,4) show False by auto
  qed
  moreover have "split_by is_field_space (''IDENTIFY'' @ CHR '' '' # pw) = ''IDENTIFY'' # [pw]"
    using sp by (subst split_by_append) (auto simp: is_field_space_def)
  ultimately show ?thesis using c(4) by (simp add: service_body_tokens_def Let_def)
qed

lemma secret_rules:
  "secret_rule_for ''PASS'' = Some \<lparr>rule_verb = ''PASS'', rule_shape = TailAfterParameters, visible_parameters = 0\<rparr>"
  "secret_rule_for ''AUTHENTICATE'' = Some \<lparr>rule_verb = ''AUTHENTICATE'', rule_shape = TailAfterParameters, visible_parameters = 0\<rparr>"
  "secret_rule_for ''JOIN'' = Some \<lparr>rule_verb = ''JOIN'', rule_shape = TailAfterParameters, visible_parameters = 1\<rparr>"
  "secret_rule_for ''PRIVMSG'' = Some \<lparr>rule_verb = ''PRIVMSG'', rule_shape = ServiceRequestBody, visible_parameters = 1\<rparr>"
  by (simp_all add: secret_rule_for_def SECRET_MAP_def)

text \<open>A command whose whole tail is secret is shown as its verb and the mask.\<close>

lemma redact_tail:
  assumes "unicode_laws u" "list_all (\<lambda>c. is_ascii_uppercase c) verb" "verb \<noteq> []"
    and "secret_rule_for verb = Some \<lparr>rule_verb = verb, rule_shape = TailAfterParameters, visible_parameters = 0\<rparr>"
    and "\<not> (\<forall>c \<in> set tail. is_field_space c)"
  shows "redact_wire_line u (verb @ CHR '' '' # tail) ctypes = Some (verb @ '' ***'')"
proof -
  have "tokenize_parameters (skip_field_spaces tail) \<noteq> []"
    using assms(5) by (simp add: tokenize_parameters_Nil skip_field_spaces_Nil)
  then show ?thesis
    by (simp add: redact_wire_line_def tokenize_command [OF assms(1-3)] secret_mask_def assms(4)
        mask_tail_after_parameters_def format_line_def trailing_separator_def)
qed

lemma redact_join:
  assumes "unicode_laws u" "is_join_field channel" "is_join_field key" "utf8_valid channel" "utf8_valid key"
  shows "redact_wire_line u (''JOIN'' @ CHR '' '' # (channel @ CHR '' '' # key)) ctypes = Some (''JOIN '' @ channel @ '' ***'')"
proof -
  note p = join_field_plain [OF assms(2,4)] join_field_plain [OF assms(3,5)]
  have s: "skip_field_spaces (channel @ CHR '' '' # key) = channel @ CHR '' '' # key" "skip_field_spaces key = key"
    using p by (auto intro!: skip_field_spaces_id)
  have t: "tokenize_parameters (channel @ CHR '' '' # key) = [channel, key]"
    using p s by (simp add: tokenize_parameters_Cons tokenize_parameters_last)
  have v: "list_all (\<lambda>c. is_ascii_uppercase c) ''JOIN''" "''JOIN'' \<noteq> []" by (simp_all add: is_ascii_uppercase_def)
  show ?thesis
    unfolding redact_wire_line_def tokenize_command [OF assms(1) v] s t
    by (simp add: secret_mask_def secret_rules mask_tail_after_parameters_def format_line_def trailing_separator_def)
qed

lemma redact_identify:
  assumes "unicode_laws u" "printable secret" "\<not> looks_like_channel ''NickServ'' ctypes"
  shows "redact_wire_line u (''PRIVMSG'' @ CHR '' '' # (''NickServ'' @ CHR '' '' # CHR '':'' # (''IDENTIFY '' @ secret))) ctypes
    = Some ''PRIVMSG NickServ :IDENTIFY ***''"
proof -
  have v: "list_all (\<lambda>c. is_ascii_uppercase c) ''PRIVMSG''" "''PRIVMSG'' \<noteq> []" by (simp_all add: is_ascii_uppercase_def)
  have t: "tokenize_parameters (CHR '':'' # r) = [r]" for r
    by (subst tokenize_parameters.simps) (simp add: strip_prefix_def)
  have s: "skip_field_spaces (''NickServ'' @ r) = ''NickServ'' @ r" "skip_field_spaces (CHR '':'' # r) = CHR '':'' # r" for r
    by (simp_all add: skip_field_spaces_def is_field_space_def)
  have ps: "tokenize_parameters (''NickServ'' @ CHR '' '' # CHR '':'' # r) = [''NickServ'', r]" for r
    by (subst tokenize_parameters_Cons) (simp_all add: is_field_space_def s(2) t)
  have "simple_upper u ''IDENTIFY'' = ''IDENTIFY''"
    using simple_upper_ascii [OF assms(1), of "''IDENTIFY''"] by (simp add: is_ascii_byte_def to_ascii_uppercase_def ascii_defs)
  then have "matched_service_command u [''IDENTIFY'', secret] = Some ''IDENTIFY''"
    by (simp add: matched_service_command_def SERVICE_PASSWORD_COMMANDS_def)
  then have "mask_service_request_body u \<lparr>wire_verb = ''PRIVMSG'', wire_parameters = [''NickServ'', ''IDENTIFY '' @ secret]\<rparr> ctypes
      = Some \<lparr>wire_verb = ''PRIVMSG'', wire_parameters = [''NickServ'', ''IDENTIFY ***'']\<rparr>"
    using assms(3) identify_tokens [OF assms(2)] by (simp add: mask_service_request_body_def has_private_recipient_def)
  then show ?thesis
    unfolding redact_wire_line_def tokenize_command [OF assms(1) v] s ps
    by (simp add: secret_mask_def secret_rules format_line_def trailing_separator_def)
qed

lemma pass_command_Inr: "pass_command pw f = Inr l \<Longrightarrow> is_single_field pw \<and> l = (''PASS '' @ pw) @ [CR, LF]"
  by (simp add: pass_command_def build_line_Inr split: if_splits)

lemma join_command_Inr:
  "join_command channel key f = Inr l \<Longrightarrow> key \<noteq> [] \<Longrightarrow>
     is_join_field channel \<and> is_join_field key \<and> l = (''JOIN '' @ channel @ '' '' @ key) @ [CR, LF]"
  unfolding join_command_def by (cases "is_join_field channel"; cases "is_join_field key") (simp_all add: build_line_Inr)

text \<open>
  What is shown of the secrets the client sends does not depend on them: a PASS line becomes
  \<open>PASS ***\<close>, an AUTHENTICATE line as \<open>AUTHENTICATE ***\<close>, a keyed JOIN with its channel only, and a NickServ
  IDENTIFY with the command word only.
\<close>

lemma sent_secrets_redacted:
  assumes "unicode_laws u"
    and "pass_command pw features = Inr (pass_line @ [CR, LF])" "\<exists>c \<in> set pw. c \<noteq> CHR 0x09"
    and "join_command channel key features = Inr (join_line @ [CR, LF])" "key \<noteq> []" "utf8_valid channel" "utf8_valid key"
    and "payload \<noteq> []" "\<not> is_field_space (hd payload)"
    and "printable secret" "\<not> looks_like_channel ''NickServ'' ctypes"
  shows "redact_wire_line u pass_line ctypes = Some ''PASS ***''
    \<and> redact_wire_line u (''AUTHENTICATE '' @ payload) ctypes = Some ''AUTHENTICATE ***''
    \<and> redact_wire_line u join_line ctypes = Some (''JOIN '' @ channel @ '' ***'')
    \<and> redact_wire_line u (''PRIVMSG NickServ :IDENTIFY '' @ secret) ctypes = Some ''PRIVMSG NickServ :IDENTIFY ***''"
proof -
  have v: "list_all (\<lambda>c. is_ascii_uppercase c) ''PASS''" "list_all (\<lambda>c. is_ascii_uppercase c) ''AUTHENTICATE''"
    by (simp_all add: is_ascii_uppercase_def)
  have pass: "is_single_field pw" "pass_line = ''PASS'' @ CHR '' '' # pw"
    using pass_command_Inr [OF assms(2)] by simp_all
  from assms(3) obtain c where c: "c \<in> set pw" "c \<noteq> CHR 0x09" by blast
  moreover from pass(1) c(1) have "c \<noteq> CHR '' ''" unfolding is_single_field_def by metis
  ultimately have "\<not> (\<forall>c \<in> set pw. is_field_space c)" unfolding is_field_space_def by metis
  from redact_tail [OF assms(1) v(1) _ secret_rules(1) this]
  have "redact_wire_line u pass_line ctypes = Some ''PASS ***''" unfolding pass(2) by simp
  moreover have "\<not> (\<forall>c \<in> set payload. is_field_space c)" using assms(8,9) by (cases payload) auto
  from redact_tail [OF assms(1) v(2) _ secret_rules(2) this]
  have "redact_wire_line u (''AUTHENTICATE '' @ payload) ctypes = Some ''AUTHENTICATE ***''" by simp
  moreover have "redact_wire_line u join_line ctypes = Some (''JOIN '' @ channel @ '' ***'')"
    using join_command_Inr [OF assms(4,5)] redact_join [OF assms(1) _ _ assms(6,7)] by simp
  moreover have "redact_wire_line u (''PRIVMSG NickServ :IDENTIFY '' @ secret) ctypes = Some ''PRIVMSG NickServ :IDENTIFY ***''"
    using redact_identify [OF assms(1,10,11)] by simp
  ultimately show ?thesis by blast
qed

lemma sent_secrets_redacted_example:
  "redact_wire_line ascii_unicode ''PASS pw'' ''#'' = Some ''PASS ***''
    \<and> redact_wire_line ascii_unicode ''JOIN #c key'' ''#'' = Some ''JOIN #c ***''"
proof -
  have ascii: "\<forall>c \<in> set ''#c''. code c < 128" "\<forall>c \<in> set ''key''. code c < 128" by simp_all
  have fields: "is_single_field ''pw''" "is_join_field ''#c''" "is_join_field ''key''"
    by (simp_all add: is_single_field_def is_join_field_def contains_forbidden_def chars_ascii is_whitespace_def)
  have "pass_command ''pw'' new_features = Inr (''PASS pw'' @ [CR, LF])"
    using fields(1) by (simp add: pass_command_def build_line_def line_length_new CRLF_BYTES_def contains_forbidden_def)
  moreover have "join_command ''#c'' ''key'' new_features = Inr (''JOIN #c key'' @ [CR, LF])"
    using fields(2,3) by (simp add: join_command_def build_line_def line_length_new CRLF_BYTES_def contains_forbidden_def)
  moreover have "\<exists>c \<in> set ''pw''. c \<noteq> CHR 0x09" by simp
  moreover have "\<not> looks_like_channel ''NickServ'' ''#''" by (simp add: looks_like_channel_def chars_ascii)
  moreover have "printable ''pw''" by (simp add: printable_def)
  ultimately show ?thesis
    using sent_secrets_redacted [OF ascii_unicode_laws, of "''pw''" new_features "''PASS pw''" "''#c''" "''key''" "''JOIN #c key''"
        "''+''" "''pw''" "''#''"] utf8_valid_ascii [OF ascii(1)] utf8_valid_ascii [OF ascii(2)]
    by (simp add: is_field_space_def)
qed

section \<open>The table\<close>

lemma secret_map_ok: "secret_map_is_well_formed"
  by (simp add: secret_map_is_well_formed_def SECRET_MAP_def is_ascii_lowercase_def)

end
