(* ===== verification/BTree.thy ===== *)
theory BTree
  imports Prelude "HOL-Library.List_Lexorder"
begin

text \<open>
  The ordered containers of the Rust standard library. A \<open>BTreeMap\<close> is its list of entries in increasing key
  order and a \<open>BTreeSet\<close> its list of elements in increasing order, because the code iterates over them. The
  order of \<open>String\<close> keys is the bytewise lexicographic one.
\<close>

type_synonym ('k, 'v) btree_map = "('k \<times> 'v) list"
type_synonym 'k btree_set = "'k list"

definition bt_get :: "('k, 'v) btree_map \<Rightarrow> 'k \<Rightarrow> 'v option" where
  "bt_get m k = map_of m k"

definition bt_contains :: "('k, 'v) btree_map \<Rightarrow> 'k \<Rightarrow> bool" where
  "bt_contains m k \<longleftrightarrow> bt_get m k \<noteq> None"

fun bt_insert :: "'k::linorder \<Rightarrow> 'v \<Rightarrow> ('k, 'v) btree_map \<Rightarrow> ('k, 'v) btree_map" where
  "bt_insert k v [] = [(k, v)]"
| "bt_insert k v ((k', v') # m) =
     (if k < k' then (k, v) # (k', v') # m
      else if k = k' then (k, v) # m
      else (k', v') # bt_insert k v m)"

definition bt_remove :: "'k \<Rightarrow> ('k, 'v) btree_map \<Rightarrow> ('k, 'v) btree_map" where
  "bt_remove k m = filter (\<lambda>e. fst e \<noteq> k) m"

definition bt_keys :: "('k, 'v) btree_map \<Rightarrow> 'k list" where
  "bt_keys m = map fst m"

definition bt_retain :: "('k \<Rightarrow> 'v \<Rightarrow> bool) \<Rightarrow> ('k, 'v) btree_map \<Rightarrow> ('k, 'v) btree_map" where
  "bt_retain P m = filter (\<lambda>(k, v). P k v) m"

definition bt_map_values :: "('v \<Rightarrow> 'w) \<Rightarrow> ('k, 'v) btree_map \<Rightarrow> ('k, 'w) btree_map" where
  "bt_map_values f m = map (\<lambda>(k, v). (k, f v)) m"

definition bt_wf :: "('k::linorder, 'v) btree_map \<Rightarrow> bool" where
  "bt_wf m \<longleftrightarrow> sorted_wrt (<) (map fst m)"

fun bs_insert :: "'k::linorder \<Rightarrow> 'k btree_set \<Rightarrow> 'k btree_set" where
  "bs_insert k [] = [k]"
| "bs_insert k (k' # s) = (if k < k' then k # k' # s else if k = k' then k # s else k' # bs_insert k s)"

definition bs_remove :: "'k \<Rightarrow> 'k btree_set \<Rightarrow> 'k btree_set" where
  "bs_remove k s = filter (\<lambda>x. x \<noteq> k) s"

section \<open>Maps\<close>

lemma bt_get_Nil [simp]: "bt_get [] k = None"
  by (simp add: bt_get_def)

lemma bt_get_insert [simp]: "bt_get (bt_insert k v m) k' = (if k' = k then Some v else bt_get m k')"
  unfolding bt_get_def by (induction k v m rule: bt_insert.induct) auto

lemma bt_get_remove [simp]: "bt_get (bt_remove k m) k' = (if k' = k then None else bt_get m k')"
  unfolding bt_get_def bt_remove_def by (induction m) auto

lemma bt_contains_iff: "bt_contains m k \<longleftrightarrow> k \<in> set (bt_keys m)"
  by (force simp: bt_contains_def bt_get_def bt_keys_def map_of_eq_None_iff)

lemma bt_keys_Nil [simp]: "bt_keys [] = []"
  by (simp add: bt_keys_def)

lemma set_bt_keys_insert [simp]: "set (bt_keys (bt_insert k v m)) = insert k (set (bt_keys m))"
  unfolding bt_keys_def by (induction k v m rule: bt_insert.induct) auto

lemma set_bt_keys_remove [simp]: "set (bt_keys (bt_remove k m)) = set (bt_keys m) - {k}"
  by (auto simp: bt_keys_def bt_remove_def)

lemma bt_wf_Nil [simp]: "bt_wf []"
  by (simp add: bt_wf_def)

lemma bt_wf_insert [simp]: "bt_wf m \<Longrightarrow> bt_wf (bt_insert k v m)"
proof (induction k v m rule: bt_insert.induct)
  case (2 k v k' v' m)
  have s: "set (map fst (bt_insert k v m)) = insert k (set (map fst m))"
    using set_bt_keys_insert [of k v m] by (simp add: bt_keys_def)
  with 2 show ?case by (auto simp: bt_wf_def)
qed (simp add: bt_wf_def)

lemma sorted_wrt_map_filter: "sorted_wrt P (map f xs) \<Longrightarrow> sorted_wrt P (map f (filter Q xs))"
  by (induction xs) auto

lemma bt_wf_remove [simp]: "bt_wf m \<Longrightarrow> bt_wf (bt_remove k m)"
  unfolding bt_wf_def bt_remove_def by (rule sorted_wrt_map_filter)

lemma bt_wf_retain [simp]: "bt_wf m \<Longrightarrow> bt_wf (bt_retain P m)"
  unfolding bt_wf_def bt_retain_def by (rule sorted_wrt_map_filter)

lemma bt_wf_distinct: "bt_wf m \<Longrightarrow> distinct (bt_keys m)"
  unfolding bt_wf_def bt_keys_def by (simp add: strict_sorted_iff)

lemma bt_get_Some_in: "bt_wf m \<Longrightarrow> bt_get m k = Some v \<longleftrightarrow> (k, v) \<in> set m"
  using bt_wf_distinct [of m] by (simp add: bt_get_def bt_keys_def)

lemma bt_get_in: "bt_get m k = Some v \<Longrightarrow> (k, v) \<in> set m"
  by (simp add: bt_get_def map_of_SomeD)

lemma set_bt_insert: "set (bt_insert k v m) \<subseteq> insert (k, v) (set m)"
  by (induction k v m rule: bt_insert.induct) auto

lemma set_bt_remove: "set (bt_remove k m) \<subseteq> set m"
  by (auto simp: bt_remove_def)

lemma bt_remove_absent: "bt_get m k = None \<Longrightarrow> bt_remove k m = m"
  by (auto simp: bt_get_def bt_remove_def map_of_eq_None_iff intro: filter_True)

lemma bt_get_retain: "bt_wf m \<Longrightarrow> bt_get (bt_retain P m) k =
    (case bt_get m k of None \<Rightarrow> None | Some v \<Rightarrow> if P k v then Some v else None)"
proof -
  assume wf: "bt_wf m"
  have "bt_get (bt_retain P m) k = Some v \<longleftrightarrow> bt_get m k = Some v \<and> P k v" for v
    using wf bt_wf_retain [OF wf, of P] by (auto simp: bt_get_Some_in bt_retain_def)
  note iff = this
  show ?thesis
  proof (cases "bt_get (bt_retain P m) k")
    case None
    then show ?thesis using iff by (simp split: option.splits)
  next
    case (Some v)
    then show ?thesis using iff [of v] by simp
  qed
qed

lemma bt_get_map_values: "bt_get (bt_map_values f m) k = map_option f (bt_get m k)"
  unfolding bt_get_def bt_map_values_def by (induction m) auto

lemma bt_keys_map_values [simp]: "bt_keys (bt_map_values f m) = bt_keys m"
  by (induction m) (auto simp: bt_keys_def bt_map_values_def)

lemma bt_wf_map_values [simp]: "bt_wf (bt_map_values f m) = bt_wf m"
  using bt_keys_map_values [of f m] by (simp add: bt_wf_def bt_keys_def)

lemma length_bt_remove: "bt_wf m \<Longrightarrow> bt_contains m k \<Longrightarrow> length (bt_remove k m) < length m"
  unfolding bt_contains_iff bt_keys_def bt_remove_def by (auto intro: length_filter_less)

lemma length_bt_remove_le: "length (bt_remove k m) \<le> length m"
  by (simp add: bt_remove_def)

lemma length_bt_insert: "length (bt_insert k v m) \<le> Suc (length m)"
  by (induction k v m rule: bt_insert.induct) auto

lemma length_bt_insert_new: "bt_get m k = None \<Longrightarrow> length (bt_insert k v m) = Suc (length m)"
  unfolding bt_get_def by (induction k v m rule: bt_insert.induct) (auto split: if_splits)

section \<open>Sets\<close>

lemma set_bs_insert [simp]: "set (bs_insert k s) = insert k (set s)"
  by (induction k s rule: bs_insert.induct) auto

lemma set_bs_remove [simp]: "set (bs_remove k s) = set s - {k}"
  by (auto simp: bs_remove_def)

lemma length_bs_insert: "length (bs_insert k s) \<le> Suc (length s)"
  by (induction k s rule: bs_insert.induct) auto

lemma length_bs_remove: "length (bs_remove k s) \<le> length s"
  by (simp add: bs_remove_def)

end
