(* ===== verification/Presence.thy ===== *)
theory Presence
  imports BTree Message ServiceNick
begin

text \<open>
  \<open>irc/presence.rs\<close>: the vocabulary of draft/metadata-2, the facts a network keeps about a nick, the store
  that holds them, and the rules that decide what of them is shown. The store keeps an entry only for a nick with
  some fact; the lemmas show that it therefore behaves as a total function from nicks to facts, each operation a
  pointwise update of it.
\<close>

section \<open>Metadata vocabulary\<close>

definition MAXIMUM_VALUE_BYTES :: nat where "MAXIMUM_VALUE_BYTES = 512"

definition STATUS_KEY :: string where "STATUS_KEY = ''status''"
definition AVATAR_KEY :: string where "AVATAR_KEY = ''avatar''"
definition BOT_KEY :: string where "BOT_KEY = ''bot''"

definition SUBSCRIBED_KEYS :: "string list" where
  "SUBSCRIBED_KEYS = [STATUS_KEY, AVATAR_KEY, BOT_KEY, ''display-name'', ''pronouns'', ''homepage'', ''color'']"

record MetadataCapability =
  max_subs :: "nat option"
  max_value_bytes :: "nat option"

definition default_metadata :: MetadataCapability where
  "default_metadata = \<lparr>max_subs = None, max_value_bytes = None\<rparr>"

definition subscription_keys :: "nat option \<Rightarrow> string list" where
  "subscription_keys limit =
     (case limit of None \<Rightarrow> SUBSCRIBED_KEYS | Some n \<Rightarrow> if n = 0 then [] else take n SUBSCRIBED_KEYS)"

definition canonical_key :: "string \<Rightarrow> string option" where
  "canonical_key key = List.find (\<lambda>known. eq_ignore_ascii_case known key) SUBSCRIBED_KEYS"

definition is_known_key :: "string \<Rightarrow> bool" where
  "is_known_key key \<longleftrightarrow> canonical_key key \<noteq> None"

text \<open>\<open>str::encode_utf16\<close> and \<open>String::from_utf16_lossy\<close>: an unpaired surrogate decodes to U+FFFD.\<close>

definition utf16_units :: "scalar \<Rightarrow> nat list" where
  "utf16_units c =
     (if c < 0x10000 then [c] else [0xD800 + (c - 0x10000) div 0x400, 0xDC00 + (c - 0x10000) mod 0x400])"

fun from_utf16_lossy :: "nat list \<Rightarrow> scalar list" where
  "from_utf16_lossy [] = []"
| "from_utf16_lossy [unit] = [if 0xD800 \<le> unit \<and> unit < 0xE000 then 0xFFFD else unit]"
| "from_utf16_lossy (unit # next_unit # rest) =
     (if unit < 0xD800 \<or> 0xE000 \<le> unit then unit # from_utf16_lossy (next_unit # rest)
      else if unit < 0xDC00 \<and> 0xDC00 \<le> next_unit \<and> next_unit < 0xE000
      then (0x10000 + (unit - 0xD800) * 0x400 + (next_unit - 0xDC00)) # from_utf16_lossy rest
      else 0xFFFD # from_utf16_lossy (next_unit # rest))"

fun clamp_units :: "nat list \<Rightarrow> nat \<Rightarrow> nat \<Rightarrow> string" where
  "clamp_units units max_bytes end_at =
     (let text = encode_utf8 (from_utf16_lossy (take end_at units)) in
      if length text \<le> max_bytes \<or> end_at = 0 then text else clamp_units units max_bytes (end_at - 1))"

declare clamp_units.simps [simp del]

definition clamped_to :: "string \<Rightarrow> nat \<Rightarrow> string" where
  "clamped_to value max_bytes =
     (if max_bytes = 0 then []
      else let units = concat (map utf16_units (chars value)) in clamp_units units max_bytes (length units))"

definition clamped :: "string \<Rightarrow> string" where
  "clamped value = clamped_to value MAXIMUM_VALUE_BYTES"

definition effective_max_value_bytes :: "nat option \<Rightarrow> nat" where
  "effective_max_value_bytes advertised =
     (case advertised of
        Some limit \<Rightarrow> if limit < MAXIMUM_VALUE_BYTES then limit else MAXIMUM_VALUE_BYTES
      | None \<Rightarrow> MAXIMUM_VALUE_BYTES)"

definition metadata_token_name :: "string \<Rightarrow> string" where
  "metadata_token_name token = (case split_once (CHR ''='') token of None \<Rightarrow> token | Some (name, _) \<Rightarrow> name)"

definition metadata_token_value :: "string \<Rightarrow> string" where
  "metadata_token_value token = (case split_once (CHR ''='') token of None \<Rightarrow> [] | Some (_, value) \<Rightarrow> value)"

text \<open>\<open>usize::try_from(i64)\<close> succeeds on every non-negative value of the 64-bit targets.\<close>

definition parse_non_negative :: "string \<Rightarrow> nat option" where
  "parse_non_negative raw =
     (if raw = [] then None
      else case parse_i64 (trim raw) of
        None \<Rightarrow> None
      | Some value \<Rightarrow> if value < 0 then None else Some (nat value))"

definition metadata_part :: "unicode \<Rightarrow> MetadataCapability \<Rightarrow> string \<Rightarrow> MetadataCapability" where
  "metadata_part u current part =
     (if part = [] then current
      else let key = lower_text u (metadata_token_name part) in
        case parse_non_negative (metadata_token_value part) of
          None \<Rightarrow> current
        | Some value \<Rightarrow>
            if key = ''max-subs'' \<and> max_subs current = None then current\<lparr>max_subs := Some value\<rparr>
            else if key = ''max-value-bytes'' \<and> max_value_bytes current = None
            then current\<lparr>max_value_bytes := Some value\<rparr>
            else current)"

definition metadata_token :: "unicode \<Rightarrow> MetadataCapability option \<Rightarrow> string \<Rightarrow> MetadataCapability option" where
  "metadata_token u result token =
     (if \<not> eq_ignore_ascii_case (metadata_token_name token) ''draft/metadata-2'' then result
      else Some (foldl (metadata_part u) default_metadata
             (split_by (\<lambda>c. c = CHR '','') (metadata_token_value token))))"

definition parse_metadata_capability :: "unicode \<Rightarrow> string list \<Rightarrow> MetadataCapability option" where
  "parse_metadata_capability u tokens = foldl (metadata_token u) None tokens"

section \<open>Facts about a nick\<close>

record Away =
  away_reason :: string

record NickPresence =
  np_away :: "Away option"
  np_keys :: "(string, string) btree_map"
  np_account :: string
  np_account_known :: bool
  np_realname :: string
  np_server_operator :: bool

definition default_presence :: NickPresence where
  "default_presence = \<lparr>np_away = None, np_keys = [], np_account = [], np_account_known = False, np_realname = [],
     np_server_operator = False\<rparr>"

definition metadata_of :: "NickPresence \<Rightarrow> string \<Rightarrow> string" where
  "metadata_of p key =
     (case canonical_key key of
        None \<Rightarrow> []
      | Some stored \<Rightarrow> (case bt_get (np_keys p) stored of None \<Rightarrow> [] | Some v \<Rightarrow> v))"

definition is_bot :: "NickPresence \<Rightarrow> bool" where
  "is_bot p =
     (let raw = metadata_of p BOT_KEY in
      if raw = [] then False
      else \<not> (\<exists>off \<in> set [''0'', ''false'', ''no'']. eq_ignore_ascii_case (trim raw) off))"

definition presence_status :: "NickPresence \<Rightarrow> string" where
  "presence_status p = metadata_of p STATUS_KEY"

definition presence_avatar :: "NickPresence \<Rightarrow> string" where
  "presence_avatar p = metadata_of p AVATAR_KEY"

definition is_default :: "NickPresence \<Rightarrow> bool" where
  "is_default p \<longleftrightarrow>
     np_away p = None \<and> np_keys p = [] \<and> np_account p = [] \<and> \<not> np_account_known p \<and> np_realname p = []
     \<and> \<not> np_server_operator p"

definition meaningful_realname :: "unicode \<Rightarrow> string \<Rightarrow> string \<Rightarrow> bool" where
  "meaningful_realname u realname nick =
     (if realname = [] \<or> realname = nick then False
      else lower_text u realname \<notin> set [''realname'', ''unknown'', ''fullname''])"

definition displayed_realname :: "unicode \<Rightarrow> string \<Rightarrow> string \<Rightarrow> string" where
  "displayed_realname u realname nick =
     (let trimmed = trim realname in
      if trimmed = [] \<or> eq_ignore_ascii_case trimmed nick then []
      else if lower_text u trimmed \<in> set [''realname'', ''unknown'', ''fullname''] then [] else trimmed)"

definition peer_fact_labels :: "NickPresence \<Rightarrow> bool \<Rightarrow> string list" where
  "peer_fact_labels facts account_matches_nick =
     (if np_account facts \<noteq> [] \<and> \<not> account_matches_nick then [np_account facts]
      else if np_account_known facts \<and> np_account facts = [] then [''unauthenticated''] else [])
     @ (if np_server_operator facts then [''server operator''] else [])
     @ (if is_bot facts then [''bot''] else [])"

section \<open>The store\<close>

type_synonym NetworkPresence = "(string, NickPresence) btree_map"

definition presence_lookup :: "NetworkPresence \<Rightarrow> string \<Rightarrow> NickPresence" where
  "presence_lookup nicks nick = (case bt_get nicks nick of None \<Rightarrow> default_presence | Some p \<Rightarrow> p)"

definition presence_knows :: "NetworkPresence \<Rightarrow> string \<Rightarrow> bool" where
  "presence_knows nicks nick \<longleftrightarrow> bt_contains nicks nick"

definition erase_if_default :: "string \<Rightarrow> NetworkPresence \<Rightarrow> NetworkPresence" where
  "erase_if_default nick nicks =
     (case bt_get nicks nick of
        Some p \<Rightarrow> if is_default p then bt_remove nick nicks else nicks
      | None \<Rightarrow> nicks)"

text \<open>\<open>entry(nick).or_default()\<close> followed by an assignment to one field.\<close>

definition presence_entry :: "(NickPresence \<Rightarrow> NickPresence) \<Rightarrow> string \<Rightarrow> NetworkPresence \<Rightarrow> NetworkPresence" where
  "presence_entry f nick nicks = bt_insert nick (f (presence_lookup nicks nick)) nicks"

text \<open>\<open>get_mut(nick)\<close> and an assignment when there is an entry.\<close>

definition presence_modify :: "(NickPresence \<Rightarrow> NickPresence) \<Rightarrow> string \<Rightarrow> NetworkPresence \<Rightarrow> NetworkPresence" where
  "presence_modify f nick nicks =
     (case bt_get nicks nick of None \<Rightarrow> nicks | Some p \<Rightarrow> bt_insert nick (f p) nicks)"

definition presence_set_away :: "string \<Rightarrow> Away option \<Rightarrow> NetworkPresence \<Rightarrow> NetworkPresence" where
  "presence_set_away nick a nicks =
     (if nick = [] then nicks
      else erase_if_default nick (presence_entry (\<lambda>p. p\<lparr>np_away := a\<rparr>) nick nicks))"

definition set_metadata :: "string \<Rightarrow> string \<Rightarrow> string \<Rightarrow> NetworkPresence \<Rightarrow> NetworkPresence" where
  "set_metadata nick key value nicks =
     (if nick = [] then nicks
      else case canonical_key key of
        None \<Rightarrow> nicks
      | Some stored \<Rightarrow>
          if value = []
          then erase_if_default nick (presence_modify (\<lambda>p. p\<lparr>np_keys := bt_remove stored (np_keys p)\<rparr>) nick nicks)
          else presence_entry (\<lambda>p. p\<lparr>np_keys := bt_insert stored value (np_keys p)\<rparr>) nick nicks)"

definition set_account :: "string \<Rightarrow> string \<Rightarrow> NetworkPresence \<Rightarrow> NetworkPresence" where
  "set_account nick account nicks =
     (if nick = [] then nicks
      else erase_if_default nick
        (presence_entry (\<lambda>p. p\<lparr>np_account_known := True,
             np_account := if account = [] \<or> account = ''*'' then [] else account\<rparr>) nick nicks))"

definition set_server_operator :: "string \<Rightarrow> bool \<Rightarrow> NetworkPresence \<Rightarrow> NetworkPresence" where
  "set_server_operator nick operator nicks =
     (if nick = [] then nicks
      else erase_if_default nick (presence_entry (\<lambda>p. p\<lparr>np_server_operator := operator\<rparr>) nick nicks))"

definition set_realname :: "string \<Rightarrow> string \<Rightarrow> NetworkPresence \<Rightarrow> NetworkPresence" where
  "set_realname nick realname nicks =
     (if nick = [] then nicks
      else if realname = [] then erase_if_default nick (presence_modify (\<lambda>p. p\<lparr>np_realname := []\<rparr>) nick nicks)
      else presence_entry (\<lambda>p. p\<lparr>np_realname := realname\<rparr>) nick nicks)"

definition rekey :: "string \<Rightarrow> string \<Rightarrow> NetworkPresence \<Rightarrow> NetworkPresence" where
  "rekey from_nick to_nick nicks =
     (if from_nick = to_nick then nicks
      else let nicks = bt_remove to_nick nicks in
        case bt_get nicks from_nick of
          None \<Rightarrow> nicks
        | Some p \<Rightarrow> bt_insert to_nick p (bt_remove from_nick nicks))"

definition forget :: "string \<Rightarrow> NetworkPresence \<Rightarrow> NetworkPresence" where
  "forget nick nicks = bt_remove nick nicks"

definition presence_clear :: "NetworkPresence \<Rightarrow> NetworkPresence" where
  "presence_clear nicks = []"

definition clear_away :: "NetworkPresence \<Rightarrow> NetworkPresence" where
  "clear_away nicks = bt_retain (\<lambda>_ p. \<not> is_default p) (bt_map_values (\<lambda>p. p\<lparr>np_away := None\<rparr>) nicks)"

definition clear_metadata :: "NetworkPresence \<Rightarrow> NetworkPresence" where
  "clear_metadata nicks = bt_retain (\<lambda>_ p. \<not> is_default p) (bt_map_values (\<lambda>p. p\<lparr>np_keys := []\<rparr>) nicks)"

section \<open>What the transcript shows\<close>

record NickFacts =
  facts_account :: string
  facts_realname :: string
  facts_bot :: bool
  facts_avatar :: "string option"

definition absorb :: "string \<Rightarrow> string \<Rightarrow> bool \<Rightarrow> string option \<Rightarrow> NickFacts \<Rightarrow> NickFacts" where
  "absorb account realname marked avatar f =
     f\<lparr>facts_account := if facts_account f = [] then account else facts_account f,
       facts_realname := if facts_realname f = [] then realname else facts_realname f,
       facts_bot := facts_bot f \<or> marked,
       facts_avatar := if facts_avatar f = None then avatar else facts_avatar f\<rparr>"

section \<open>Values fit their limit\<close>

lemma clamp_units_fits: "length (clamp_units units max_bytes end_at) \<le> max_bytes"
proof (induction units max_bytes end_at rule: clamp_units.induct)
  case (1 units max_bytes end_at)
  then show ?case by (subst clamp_units.simps) (auto simp: Let_def encode_utf8_def)
qed

lemma clamped_to_fits: "length (clamped_to value max_bytes) \<le> max_bytes"
  by (simp add: clamped_to_def Let_def clamp_units_fits)

lemma utf16_lossy_units:
  "is_scalar c \<Longrightarrow> from_utf16_lossy (utf16_units c @ rest) = c # from_utf16_lossy rest"
  by (cases rest) (auto simp: utf16_units_def is_scalar_def)

lemma from_utf16_lossy_encode:
  "(\<forall>c \<in> set cs. is_scalar c) \<Longrightarrow> from_utf16_lossy (concat (map utf16_units cs)) = cs"
  by (induction cs) (simp_all add: utf16_lossy_units)

text \<open>A value that fits is not changed.\<close>

lemma clamped_to_id:
  assumes "utf8_valid value" "length value \<le> max_bytes"
  shows "clamped_to value max_bytes = value"
  using assms from_utf16_lossy_encode [of "chars value"] chars_scalars
  by (subst clamped_to_def, subst clamp_units.simps) (auto simp: encode_chars Let_def)

section \<open>The store is a function from nicks to facts\<close>

lemma is_default_iff: "is_default p \<longleftrightarrow> p = default_presence"
  by (cases p) (auto simp: is_default_def default_presence_def)

definition presence_ok :: "NetworkPresence \<Rightarrow> bool" where
  "presence_ok nicks \<longleftrightarrow> bt_wf nicks \<and> (\<forall>n. bt_get nicks n \<noteq> Some default_presence)"

definition presence_ok_but :: "string \<Rightarrow> NetworkPresence \<Rightarrow> bool" where
  "presence_ok_but nick nicks \<longleftrightarrow> bt_wf nicks \<and> (\<forall>n. n \<noteq> nick \<longrightarrow> bt_get nicks n \<noteq> Some default_presence)"

lemma presence_entry_ok: "presence_ok nicks \<Longrightarrow> presence_ok_but n (presence_entry f n nicks)"
  by (auto simp: presence_ok_def presence_ok_but_def presence_entry_def)

lemma presence_modify_ok: "presence_ok nicks \<Longrightarrow> presence_ok_but n (presence_modify f n nicks)"
  by (auto simp: presence_ok_def presence_ok_but_def presence_modify_def split: option.splits)

lemma erase_if_default_ok: "presence_ok_but n nicks \<Longrightarrow> presence_ok (erase_if_default n nicks)"
proof (cases "bt_get nicks n = Some default_presence")
  case False
  then have "erase_if_default n nicks = nicks" by (auto simp: erase_if_default_def is_default_iff split: option.splits)
  then show "presence_ok_but n nicks \<Longrightarrow> presence_ok (erase_if_default n nicks)"
    using False unfolding presence_ok_def presence_ok_but_def by metis
qed (simp add: presence_ok_def presence_ok_but_def erase_if_default_def is_default_iff)

lemma presence_entry_keeps: "presence_ok nicks \<Longrightarrow> f (presence_lookup nicks n) \<noteq> default_presence
    \<Longrightarrow> presence_ok (presence_entry f n nicks)"
  by (auto simp: presence_ok_def presence_entry_def)

lemma lookup_erase: "presence_lookup (erase_if_default n nicks) = presence_lookup nicks"
  by (auto simp: fun_eq_iff presence_lookup_def erase_if_default_def is_default_iff split: option.splits)

lemma lookup_entry: "presence_lookup (presence_entry f n nicks) = (presence_lookup nicks)(n := f (presence_lookup nicks n))"
  by (auto simp: fun_eq_iff presence_lookup_def presence_entry_def)

lemma lookup_modify: "f default_presence = default_presence \<Longrightarrow>
    presence_lookup (presence_modify f n nicks) = (presence_lookup nicks)(n := f (presence_lookup nicks n))"
  by (auto simp: fun_eq_iff presence_lookup_def presence_modify_def split: option.splits)

lemma lookup_remove: "presence_lookup (bt_remove n nicks) = (presence_lookup nicks)(n := default_presence)"
  by (simp add: fun_eq_iff presence_lookup_def)

lemma lookup_Nil [simp]: "presence_lookup [] = (\<lambda>_. default_presence)"
  by (simp add: fun_eq_iff presence_lookup_def)

lemma lookup_retain_map:
  assumes "bt_wf nicks" "f default_presence = default_presence"
  shows "presence_lookup (bt_retain (\<lambda>_ p. \<not> is_default p) (bt_map_values f nicks)) = f \<circ> presence_lookup nicks"
  using assms by (auto simp: fun_eq_iff presence_lookup_def bt_get_retain bt_get_map_values is_default_iff split: option.splits)

lemma retain_map_ok: "bt_wf nicks \<Longrightarrow> presence_ok (bt_retain (\<lambda>_ p. \<not> is_default p) (bt_map_values f nicks))"
  by (auto simp: presence_ok_def bt_get_retain is_default_iff split: option.splits)

datatype PresenceOp = OpAway string "Away option" | OpMetadata string string string | OpAccount string string
  | OpOperator string bool | OpRealname string string | OpRekey string string | OpForget string | OpClear
  | OpClearAway | OpClearMetadata

fun run_op :: "NetworkPresence \<Rightarrow> PresenceOp \<Rightarrow> NetworkPresence" where
  "run_op nicks (OpAway n a) = presence_set_away n a nicks"
| "run_op nicks (OpMetadata n k v) = set_metadata n k v nicks"
| "run_op nicks (OpAccount n a) = set_account n a nicks"
| "run_op nicks (OpOperator n b) = set_server_operator n b nicks"
| "run_op nicks (OpRealname n r) = set_realname n r nicks"
| "run_op nicks (OpRekey from_nick to_nick) = rekey from_nick to_nick nicks"
| "run_op nicks (OpForget n) = forget n nicks"
| "run_op nicks OpClear = presence_clear nicks"
| "run_op nicks OpClearAway = clear_away nicks"
| "run_op nicks OpClearMetadata = clear_metadata nicks"

text \<open>The specification: the same operations on a total function, with no entries to create or forget.\<close>

fun spec_op :: "(string \<Rightarrow> NickPresence) \<Rightarrow> PresenceOp \<Rightarrow> string \<Rightarrow> NickPresence" where
  "spec_op F (OpAway n a) = (if n = [] then F else F(n := (F n)\<lparr>np_away := a\<rparr>))"
| "spec_op F (OpMetadata n k v) =
     (case canonical_key k of
        None \<Rightarrow> F
      | Some stored \<Rightarrow>
          if n = [] then F
          else F(n := (F n)\<lparr>np_keys := (if v = [] then bt_remove stored else bt_insert stored v) (np_keys (F n))\<rparr>))"
| "spec_op F (OpAccount n a) =
     (if n = [] then F
      else F(n := (F n)\<lparr>np_account_known := True, np_account := if a = ''*'' then [] else a\<rparr>))"
| "spec_op F (OpOperator n b) = (if n = [] then F else F(n := (F n)\<lparr>np_server_operator := b\<rparr>))"
| "spec_op F (OpRealname n r) = (if n = [] then F else F(n := (F n)\<lparr>np_realname := r\<rparr>))"
| "spec_op F (OpRekey from_nick to_nick) =
     (if from_nick = to_nick then F else F(to_nick := F from_nick, from_nick := default_presence))"
| "spec_op F (OpForget n) = F(n := default_presence)"
| "spec_op F OpClear = (\<lambda>_. default_presence)"
| "spec_op F OpClearAway = (\<lambda>p. p\<lparr>np_away := None\<rparr>) \<circ> F"
| "spec_op F OpClearMetadata = (\<lambda>p. p\<lparr>np_keys := []\<rparr>) \<circ> F"

lemma bt_insert_nonempty: "bt_insert k v m \<noteq> []"
  by (induction k v m rule: bt_insert.induct) simp_all

lemma default_updates:
  "p\<lparr>np_keys := bt_insert k v m\<rparr> \<noteq> default_presence" "r \<noteq> [] \<Longrightarrow> p\<lparr>np_realname := r\<rparr> \<noteq> default_presence"
  "default_presence\<lparr>np_away := None\<rparr> = default_presence" "default_presence\<lparr>np_keys := []\<rparr> = default_presence"
  "default_presence\<lparr>np_realname := []\<rparr> = default_presence"
  "default_presence\<lparr>np_keys := bt_remove k (np_keys default_presence)\<rparr> = default_presence"
  by (cases p; auto simp: default_presence_def bt_insert_nonempty bt_remove_def)+

lemma presence_ok_simps [simp]:
  "presence_ok []" "presence_ok nicks \<Longrightarrow> presence_ok (bt_remove n nicks)"
  by (simp_all add: presence_ok_def)

lemma presence_ok_wf: "presence_ok nicks \<Longrightarrow> bt_wf nicks"
  by (simp add: presence_ok_def)

lemmas store_ops = presence_set_away_def set_metadata_def set_account_def set_server_operator_def set_realname_def
  forget_def presence_clear_def clear_away_def clear_metadata_def
lemmas store_ok = erase_if_default_ok presence_entry_ok presence_modify_ok retain_map_ok presence_ok_wf default_updates

lemma run_op_ok:
  assumes "presence_ok nicks"
  shows "presence_ok (run_op nicks operation)"
proof (cases operation)
  case (OpRekey from_nick to_nick)
  then show ?thesis using assms by (auto simp: rekey_def presence_ok_def Let_def split: option.splits if_splits)
qed (use assms in \<open>auto simp: store_ops store_ok intro!: presence_entry_keeps split: option.splits\<close>)

lemma run_op_lookup:
  assumes "presence_ok nicks"
  shows "presence_lookup (run_op nicks operation) = spec_op (presence_lookup nicks) operation"
proof (cases operation)
  case (OpRekey from_nick to_nick)
  then show ?thesis by (auto simp: rekey_def presence_lookup_def fun_eq_iff Let_def split: option.splits)
qed (use assms in \<open>simp_all add: store_ops lookup_erase lookup_entry lookup_modify lookup_retain_map lookup_remove
        presence_ok_wf default_updates split: option.splits\<close>)

lemma knows_iff: "presence_ok nicks \<Longrightarrow> presence_knows nicks n \<longleftrightarrow> presence_lookup nicks n \<noteq> default_presence"
  by (auto simp: presence_ok_def presence_knows_def presence_lookup_def bt_contains_def split: option.splits)

text \<open>
  C31. After any sequence of operations the presence store is the function from nicks to facts that the same
  sequence computes on a total function, it keeps its entries in key order, and it holds an entry exactly for
  the nicks with some fact.
\<close>

theorem presence_refines:
  "presence_lookup (foldl run_op [] operations) = foldl spec_op (\<lambda>_. default_presence) operations
   \<and> bt_wf (foldl run_op [] operations)
   \<and> (presence_knows (foldl run_op [] operations) n \<longleftrightarrow> foldl spec_op (\<lambda>_. default_presence) operations n \<noteq> default_presence)"
proof -
  have "presence_ok (foldl run_op [] operations)
      \<and> presence_lookup (foldl run_op [] operations) = foldl spec_op (\<lambda>_. default_presence) operations"
    by (induction operations rule: rev_induct) (auto simp: run_op_ok run_op_lookup)
  then show ?thesis using knows_iff presence_ok_wf by auto
qed

end
