(* ===== verification/SessionWire.thy ===== *)
theory SessionWire
  imports SecretPolicy Framer BTree
begin

text \<open>
  The small readers the session is built on: \<open>irc/ctcp.rs\<close>, the timestamp and verb rules of
  \<open>irc/readmarker.rs\<close>, the time readers of \<open>irc/translator/context.rs\<close>, \<open>session/wire.rs\<close> and
  \<open>session/malformed.rs\<close>.

  A \<open>DateTime<Utc>\<close> is its number of nanoseconds since the epoch. Formatting and parsing of dates is the chrono
  crate, the parameter \<open>time_lib\<close>.
\<close>

type_synonym instant = int

record time_lib =
  format_millis :: "instant \<Rightarrow> string"
  format_local :: "instant \<Rightarrow> string"
  parse_rfc3339 :: "string \<Rightarrow> instant option"
  parse_with_ms :: "string \<Rightarrow> instant option"
  parse_without_ms :: "string \<Rightarrow> instant option"

definition NANOS_PER_MS :: int where "NANOS_PER_MS = 1000000"
definition NANOS_PER_SECOND :: int where "NANOS_PER_SECOND = 1000000000"

lemmas nanos_defs = NANOS_PER_MS_def NANOS_PER_SECOND_def

section \<open>Integers as text\<close>

text \<open>\<open>format!("{n}")\<close> of an unsigned integer.\<close>

fun decimal :: "nat \<Rightarrow> string" where
  "decimal n = (if n < 10 then [char_of (48 + n)] else decimal (n div 10) @ [char_of (48 + n mod 10)])"

declare decimal.simps [simp del]

lemma decimal_value_snoc: "decimal_value (s @ [c]) = decimal_value s * 10 + (code c - 48)"
  by (simp add: decimal_value_def)

lemma decimal_value_decimal [simp]: "decimal_value (decimal n) = n"
proof (induction n rule: decimal.induct)
  case (1 n)
  show ?case
  proof (cases "n < 10")
    case True
    then show ?thesis by (subst decimal.simps) (simp add: decimal_value_def)
  next
    case False
    moreover have "code (char_of (48 + n mod 10)) = 48 + n mod 10" by simp
    ultimately show ?thesis using 1 by (subst decimal.simps) (simp add: decimal_value_snoc)
  qed
qed

lemma decimal_inject [simp]: "decimal m = decimal n \<longleftrightarrow> m = n"
  by (metis decimal_value_decimal)

definition decimal_int :: "int \<Rightarrow> string" where
  "decimal_int i = (if i < 0 then ''-'' @ decimal (nat (- i)) else decimal (nat i))"

section \<open>CTCP\<close>

definition CTCP_DELIMITER :: char where "CTCP_DELIMITER = CHR 0x01"
definition DAY_MILLIS :: int where "DAY_MILLIS = 24 * 60 * 60 * 1000"

record CtcpRequest =
  ctcp_command :: string
  ctcp_argument :: string

definition parse_ctcp_request :: "unicode \<Rightarrow> string \<Rightarrow> CtcpRequest option" where
  "parse_ctcp_request u body =
     (case strip_prefix [CTCP_DELIMITER] body of
        None \<Rightarrow> None
      | Some rest \<Rightarrow>
          (case strip_suffix [CTCP_DELIMITER] rest of
             None \<Rightarrow> None
           | Some payload \<Rightarrow>
               let (raw_command, argument) =
                     (case split_once (CHR '' '') payload of Some p \<Rightarrow> p | None \<Rightarrow> (payload, []));
                   command = upper_text u (trim raw_command)
               in if command = [] then None
                  else Some \<lparr>ctcp_command = command, ctcp_argument = argument\<rparr>))"

definition ctcp_payload :: "CtcpRequest \<Rightarrow> string" where
  "ctcp_payload request =
     (let body = (if ctcp_argument request = [] then ctcp_command request
                  else ctcp_command request @ '' '' @ ctcp_argument request)
      in [CTCP_DELIMITER] @ body @ [CTCP_DELIMITER])"

definition ctcp_version_reply_text :: string where
  "ctcp_version_reply_text = ''https://omairc.app''"

definition format_ctcp_reply_text :: "string \<Rightarrow> string \<Rightarrow> string \<Rightarrow> int \<Rightarrow> string" where
  "format_ctcp_reply_text command nick argument now_unix_millis =
     (if command = ''PING'' then
        (case parse_i64 argument of
           Some sent_millis \<Rightarrow>
             let lag = now_unix_millis - sent_millis in
             if - (2 ^ 63) \<le> lag \<and> lag < 2 ^ 63 \<and> 0 \<le> lag \<and> lag < DAY_MILLIS
             then ''PING reply from '' @ nick @ '': '' @ decimal_int lag @ '' ms''
             else if argument = [] then ''PING reply from '' @ nick
             else ''PING reply from '' @ nick @ '': '' @ argument
         | None \<Rightarrow>
             if argument = [] then ''PING reply from '' @ nick
             else ''PING reply from '' @ nick @ '': '' @ argument)
      else if argument = [] then command @ '' reply from '' @ nick
      else command @ '' reply from '' @ nick @ '': '' @ argument)"

text \<open>Wrapping a query and reading it back returns it, when its command is a word the reader leaves alone.\<close>

lemma ctcp_roundtrip:
  assumes "ctcp_command r \<noteq> []" "CHR '' '' \<notin> set (ctcp_command r)"
    and "upper_text u (trim (ctcp_command r)) = ctcp_command r"
  shows "parse_ctcp_request u (ctcp_payload r) = Some r"
proof -
  have "strip_prefix [CTCP_DELIMITER] (CTCP_DELIMITER # s) = Some s" for s by (simp add: strip_prefix_def)
  moreover have "strip_suffix [CTCP_DELIMITER] (s @ [CTCP_DELIMITER]) = Some s" for s by (simp add: strip_suffix_Some)
  ultimately show ?thesis
    using assms split_once_append [of "CHR '' ''" "ctcp_command r" "ctcp_argument r"]
    by (cases r) (auto simp: parse_ctcp_request_def ctcp_payload_def Let_def append_assoc [symmetric] simp del: append_assoc)
qed

section \<open>Read markers\<close>

definition DRAFT_READ_MARKER_TOKEN :: string where "DRAFT_READ_MARKER_TOKEN = ''draft/read-marker''"
definition SOJU_READ_TOKEN :: string where "SOJU_READ_TOKEN = ''soju.im/read''"

definition read_marker_verb :: "string option \<Rightarrow> string" where
  "read_marker_verb enabled_token =
     (if enabled_token = Some DRAFT_READ_MARKER_TOKEN then ''MARKREAD''
      else if enabled_token = Some SOJU_READ_TOKEN then ''READ'' else [])"

definition read_marker_time_millis :: "instant \<Rightarrow> instant" where
  "read_marker_time_millis at = (at div NANOS_PER_MS) * NANOS_PER_MS"

definition read_marker_time_after :: "instant \<Rightarrow> instant \<Rightarrow> bool" where
  "read_marker_time_after left right \<longleftrightarrow> read_marker_time_millis left > read_marker_time_millis right"

definition format_read_marker_time :: "time_lib \<Rightarrow> instant \<Rightarrow> string" where
  "format_read_marker_time lib at = format_millis lib (read_marker_time_millis at)"

definition parse_read_marker_time :: "time_lib \<Rightarrow> string \<Rightarrow> instant option" where
  "parse_read_marker_time lib value =
     (let value = trim value in
      if value = [] \<or> \<not> ends_with ''Z'' value then None
      else map_option read_marker_time_millis (parse_rfc3339 lib value))"

definition parse_read_marker_parameter :: "time_lib \<Rightarrow> string \<Rightarrow> instant option option" where
  "parse_read_marker_parameter lib parameter =
     (let parameter = trim parameter in
      if parameter = ''*'' then Some None
      else case strip_prefix ''timestamp='' parameter of
        None \<Rightarrow> None
      | Some value \<Rightarrow> map_option Some (parse_read_marker_time lib value))"

lemma millis_idem [simp]: "read_marker_time_millis (read_marker_time_millis t) = read_marker_time_millis t"
  by (simp add: read_marker_time_millis_def NANOS_PER_MS_def)

lemma marker_after_irrefl [simp]: "\<not> read_marker_time_after t t"
  by (simp add: read_marker_time_after_def)

section \<open>Server times\<close>

definition parse_qt_iso_time :: "time_lib \<Rightarrow> string \<Rightarrow> instant option" where
  "parse_qt_iso_time lib raw = (case parse_with_ms lib raw of Some t \<Rightarrow> Some t | None \<Rightarrow> parse_without_ms lib raw)"

definition server_time_of :: "time_lib \<Rightarrow> IrcMessage \<Rightarrow> instant option" where
  "server_time_of lib message =
     (case tag_text message ''time'' of
        None \<Rightarrow> None
      | Some raw \<Rightarrow> if raw = [] then None else parse_qt_iso_time lib raw)"

definition parse_history_target_time :: "time_lib \<Rightarrow> string \<Rightarrow> instant option" where
  "parse_history_target_time lib raw =
     (let raw = (case strip_prefix ''timestamp='' raw of Some r \<Rightarrow> r | None \<Rightarrow> raw) in
      if raw = [] then None else parse_qt_iso_time lib raw)"

section \<open>Message readers\<close>

definition capability_tokens :: "IrcMessage \<Rightarrow> nat \<Rightarrow> string list" where
  "capability_tokens message subcommand_index =
     (if length (msg_params message) \<le> subcommand_index + 1 then []
      else filter (\<lambda>field. field \<noteq> [])
        (split_by (\<lambda>c. c = CHR '' '') (wire_text (msg_params message ! (length (msg_params message) - 1)))))"

definition claimed_nick :: "IrcMessage \<Rightarrow> string" where
  "claimed_nick message =
     (case msg_prefix message of
        None \<Rightarrow> []
      | Some p \<Rightarrow> if pfx_nick p \<noteq> [] then wire_text (pfx_nick p) else wire_text (pfx_raw p))"

definition ctcp_reply_host :: "IrcMessage \<Rightarrow> string" where
  "ctcp_reply_host message =
     (case msg_prefix message of
        None \<Rightarrow> []
      | Some p \<Rightarrow>
          if pfx_host p \<noteq> [] then wire_text (pfx_host p)
          else if pfx_nick p = [] then wire_text (pfx_raw p) else [])"

section \<open>Malformed frames\<close>

definition is_preview_byte :: "char \<Rightarrow> bool" where
  "is_preview_byte b \<longleftrightarrow> b = CHR 0x09 \<or> (0x20 \<le> code b \<and> code b < 0x7F)"

definition ellipsis :: string where
  "ellipsis = encode_utf8 [0x2026]"

definition preview_wire :: "unicode \<Rightarrow> bytes \<Rightarrow> nat \<Rightarrow> string \<Rightarrow> string" where
  "preview_wire u preview byte_count ctypes =
     (let display = map (\<lambda>b. if is_preview_byte b then b else CHR ''?'') preview;
          spaced = map (\<lambda>b. if is_preview_byte b then b else CHR '' '') preview;
          stripped = filter is_preview_byte preview;
          result = (case redact_preview_line u (wire_text stripped) ctypes of
                      Some safe \<Rightarrow> safe
                    | None \<Rightarrow>
                        (case redact_preview_line u (wire_text spaced) ctypes of
                           Some safe \<Rightarrow> safe
                         | None \<Rightarrow> wire_text display))
      in if byte_count > length preview then result @ ellipsis else result)"

definition describe_malformed :: "unicode \<Rightarrow> string \<Rightarrow> IrcError \<Rightarrow> bytes \<Rightarrow> nat \<Rightarrow> string \<Rightarrow> string" where
  "describe_malformed u what err preview byte_count ctypes =
     (let text = ''Malformed IRC '' @ what @ '': '' @ error_name err @ '' ('' @ decimal byte_count @ '' bytes)'';
          shown = preview_wire u preview byte_count ctypes
      in if shown = [] then text else text @ ''. Preview: '' @ shown)"

definition registration_sentence :: "IrcMessage \<Rightarrow> string option" where
  "registration_sentence message =
     (let count = length (msg_params message);
          minimum = (if msg_command message \<in> set [''432'', ''433'', ''436'', ''437''] then 3
                     else if msg_command message \<in> set [''451'', ''462'', ''465''] then 2 else 1)
      in if count < minimum then None
         else let reason = trim (wire_text (msg_params message ! (count - 1))) in
              if reason = [] then None else Some reason)"

text \<open>The preview of a malformed frame is printable ASCII, unless a mask replaces it.\<close>

lemma preview_printable:
  assumes "redact_preview_line u (wire_text (filter is_preview_byte preview)) ctypes = None"
    and "redact_preview_line u (wire_text (map (\<lambda>b. if is_preview_byte b then b else CHR '' '') preview)) ctypes = None"
  shows "preview_wire u preview (length preview) ctypes = map (\<lambda>b. if is_preview_byte b then b else CHR ''?'') preview"
proof -
  have "utf8_valid (map (\<lambda>b. if is_preview_byte b then b else CHR ''?'') preview)"
    by (rule utf8_valid_ascii) (auto simp: is_preview_byte_def)
  then show ?thesis using assms by (simp add: preview_wire_def Let_def wire_text_id)
qed

end
