(* ===== verification/SessionCore.thy ===== *)
theory SessionCore
  imports SessionWire Presence Negotiation Sts Connection Scram Typing JoinTarget
begin

text \<open>
  The state of a session and its lifecycle: \<open>session/session.rs\<close> (the struct \<open>Core\<close> and its methods),
  \<open>session/events.rs\<close>, \<open>session/timers.rs\<close>, \<open>session/labels.rs\<close>, \<open>session/send.rs\<close>, \<open>session/watchdog.rs\<close>
  and \<open>session/stsflow.rs\<close>.

  Every method of \<open>Core\<close> is a function on the record \<open>Core\<close>. What the code reads from its surroundings is a field:
  the clock, the state of the transport and the random bytes of a nonce; what it asks of them is a queue of
  \<open>Effect\<close>s, as in the code. The owner drains \<open>events\<close>; here they accumulate, so the list is the whole history.
  A timer handle is the id and the instant the clock was asked to fire at; stopping a handle and dropping it are
  the same, since a callback whose id is not the slot's current one is ignored. Libraries are the parameter
  \<open>session_env\<close>.
\<close>

section \<open>Parameters and values\<close>

record session_env =
  env_unicode :: unicode
  env_time :: time_lib
  env_crypto :: crypto
  env_sts :: sts_env

datatype HistoryKind = Chat | BouncerPlayback | Targets
datatype Severity = Info | Alert

record PendingInvite =
  invite_nick :: string
  invite_channel :: string

record HistoryTarget =
  ht_name :: string
  ht_latest :: "instant option"

record HistoryBatch =
  hb_target :: string
  hb_lines :: "IrcMessage list"
  hb_kind :: "HistoryKind option"
  hb_older_page :: bool
  hb_history_ended :: bool
  hb_after_request :: bool
  hb_targets :: "HistoryTarget list"

definition default_history_batch :: HistoryBatch where
  "default_history_batch = \<lparr>hb_target = [], hb_lines = [], hb_kind = None, hb_older_page = False,
     hb_history_ended = False, hb_after_request = False, hb_targets = []\<rparr>"

datatype SessionEvent =
    StateChanged string SessionState
  | ErrorOccurred string ErrorKind string
  | RegisteredEvent string
  | ReconnectScheduled string nat nat
  | Inbound string IrcMessage string string string instant
  | Outbound string bytes string instant
  | Lifecycle string Severity string string instant
  | MessageReceived string IrcMessage
  | HistoryBatchReceived string HistoryBatch
  | ChatHistoryRequestFinished string string bool bool
  | ChatHistoryFailed string string string
  | CapabilitiesChanged string IrcCapabilitySet
  | RequestLabelFinished string string
  | AutojoinChannelsChanged string "string list" "(string, string) btree_map"
  | ReadMarkerReceived string string "instant option"

datatype Effect = Write bytes | Connect string nat bool | Shutdown | SettleStop

datatype ConnectionState = TIdle | TConnecting | TConnected | TEncrypted | TClosing | TDisconnected | TFailed

datatype RegistrationNick = ConfiguredNick | UnderscoreNick | DigitNick

datatype TimerSlot = ReconnectTimer | CapabilityTimer | RegistrationTimer | PingTimer | LabelTimer

record ArmedTimer =
  timer_id :: nat
  timer_due :: instant

datatype PingState = PingOff | PingWatching | PingProbing
datatype PingExpiry = Probe | Timeout | Nothing

datatype HistoryRequestKind = Latest | Before | After | AfterTail

record HistoryCursor =
  cursor_msgid :: string
  cursor_when :: "instant option"

record HistoryLedger =
  hl_generation :: "(string, nat) btree_map"
  hl_asked :: "string btree_set"
  hl_pending :: "(string, nat) btree_map"
  hl_pending_before :: "string btree_set"
  hl_pending_kind :: "(string, HistoryRequestKind) btree_map"
  hl_exhausted :: "string btree_set"
  hl_after_pages :: "(string, nat) btree_map"
  hl_after_cursor :: "(string, HistoryCursor) btree_map"
  hl_after_page_cap :: nat
  hl_targets_pending :: bool

record OpenBatch =
  replay_root :: string
  batch_kind :: "HistoryKind option"
  collected :: HistoryBatch
  batch_generation :: nat
  batch_request_label :: string
  batch_history_ended :: bool
  history_request :: "HistoryRequestKind option"

record BatchLedger =
  open_batches :: "(string, OpenBatch) btree_map"
  ignored_batches :: "string btree_set"

record ReadMarkerQueue =
  queue_target :: string
  queue_timestamp :: instant

record ReadMarkerLedger =
  rm_pending :: "(string, ReadMarkerQueue) btree_map"
  rm_in_flight :: "(string, instant) btree_map"
  rm_last_known :: "(string, instant) btree_map"

record TargetClock =
  last_sent_at :: "instant option"
  last_phase :: TypingPhase
  suppress_done :: bool

record SaslState =
  sasl_requested :: bool
  sasl_pending :: bool
  sasl_succeeded :: bool
  sasl_chosen :: "string option"
  exchange_started :: bool
  sasl_scram :: "ScramExchange option"

definition HISTORY_LIMIT :: nat where "HISTORY_LIMIT = 100"
definition HISTORY_AFTER_PAGE_CAP :: nat where "HISTORY_AFTER_PAGE_CAP = 10"
definition HISTORY_BUFFER_CEILING :: nat where "HISTORY_BUFFER_CEILING = 256"
definition MAX_OPEN_BATCHES :: nat where "MAX_OPEN_BATCHES = 16"
definition MAX_IGNORED_BATCHES :: nat where "MAX_IGNORED_BATCHES = 32"
definition CTCP_PING_PAYLOAD_MAX_BYTES :: nat where "CTCP_PING_PAYLOAD_MAX_BYTES = 32"
definition CTCP_REPLY_INTERVAL :: int where "CTCP_REPLY_INTERVAL = 5000 * NANOS_PER_MS"

record Core =
  core_config :: SessionConfig
  core_now :: instant
  core_transport_state :: ConnectionState
  core_random :: "bytes option"
  core_port :: nat
  core_tls_enabled :: bool
  core_nickname :: string
  core_channel_types :: string
  core_features :: IrcServerFeatures
  core_history_limit :: nat
  core_autojoin_channels :: "string list"
  core_autojoin_keys :: "(string, string) btree_map"
  core_pending_join_keys :: "(string, string) btree_map"
  core_caps :: IrcCapabilityNegotiation
  core_read_marker_token :: "string option"
  core_metadata :: MetadataCapability
  core_published_caps :: IrcCapabilitySet
  core_typing :: "(string, TargetClock) btree_map"
  core_framer :: IrcFramer
  core_batches :: BatchLedger
  core_history :: HistoryLedger
  core_read_markers :: ReadMarkerLedger
  core_pending_labels :: "(string, instant) btree_map"
  core_next_request_label :: nat
  core_ctcp_reply_clock :: "(string, instant) btree_map"
  core_ping :: PingState
  core_connection :: Connection
  core_registration_sent :: bool
  core_registration_nick :: RegistrationNick
  core_sasl :: SaslState
  core_capability_negotiation_ended :: bool
  core_capability_list_seen :: bool
  core_pending_sts :: "StsAdvertisement option"
  core_sts_duration :: "int option"
  core_sts :: MemoryStsStore
  core_state :: SessionState
  core_ignore_filter :: "(IrcMessage \<Rightarrow> string \<Rightarrow> string \<Rightarrow> bool) option"
  core_pending_invite :: "PendingInvite option"
  core_history_resume :: "(string \<Rightarrow> IrcCaseMapping \<Rightarrow> instant option) option"
  core_timers :: "TimerSlot \<Rightarrow> ArmedTimer option"
  core_timer_sequence :: nat
  core_sync_timers :: "(instant \<times> string) list"
  core_events :: "SessionEvent list"
  core_effects :: "Effect list"
  core_received_log :: "IrcMessage list option"

definition default_sasl :: SaslState where
  "default_sasl = \<lparr>sasl_requested = False, sasl_pending = False, sasl_succeeded = False, sasl_chosen = None,
     exchange_started = False, sasl_scram = None\<rparr>"

definition default_batches :: BatchLedger where
  "default_batches = \<lparr>open_batches = [], ignored_batches = []\<rparr>"

definition new_history_ledger :: "nat \<Rightarrow> HistoryLedger" where
  "new_history_ledger after_page_cap =
     \<lparr>hl_generation = [], hl_asked = [], hl_pending = [], hl_pending_before = [], hl_pending_kind = [],
      hl_exhausted = [], hl_after_pages = [], hl_after_cursor = [], hl_after_page_cap = after_page_cap,
      hl_targets_pending = False\<rparr>"

definition reset_history_ledger :: "HistoryLedger \<Rightarrow> HistoryLedger" where
  "reset_history_ledger h = new_history_ledger (hl_after_page_cap h)"

definition default_read_markers :: ReadMarkerLedger where
  "default_read_markers = \<lparr>rm_pending = [], rm_in_flight = [], rm_last_known = []\<rparr>"

definition new_core :: "SessionConfig \<Rightarrow> MemoryStsStore \<Rightarrow> Core" where
  "new_core config store =
     \<lparr>core_config = config, core_now = 0, core_transport_state = TIdle, core_random = None,
      core_port = cfg_port config, core_tls_enabled = cfg_tls_enabled config, core_nickname = cfg_nick config,
      core_channel_types = [], core_features = new_features, core_history_limit = HISTORY_LIMIT,
      core_autojoin_channels = cfg_autojoin_channels config, core_autojoin_keys = cfg_autojoin_keys config,
      core_pending_join_keys = [], core_caps = new_negotiation (sasl_secret config \<noteq> []),
      core_read_marker_token = None, core_metadata = default_metadata, core_published_caps = empty_capabilities,
      core_typing = [], core_framer = new_framer, core_batches = default_batches,
      core_history = new_history_ledger HISTORY_AFTER_PAGE_CAP, core_read_markers = default_read_markers,
      core_pending_labels = [], core_next_request_label = 0, core_ctcp_reply_clock = [], core_ping = PingOff,
      core_connection = default_connection, core_registration_sent = False,
      core_registration_nick = ConfiguredNick, core_sasl = default_sasl, core_capability_negotiation_ended = False,
      core_capability_list_seen = False, core_pending_sts = None, core_sts_duration = None, core_sts = store,
      core_state = Idle, core_ignore_filter = None, core_pending_invite = None, core_history_resume = None,
      core_timers = (\<lambda>_. None), core_timer_sequence = 0, core_sync_timers = [], core_events = [],
      core_effects = [], core_received_log = None\<rparr>"

section \<open>Events, effects and state\<close>

abbreviation core_network_id :: "Core \<Rightarrow> string" where
  "core_network_id c \<equiv> network_id (core_config c)"

definition emit :: "SessionEvent \<Rightarrow> Core \<Rightarrow> Core" where
  "emit event c = c\<lparr>core_events := core_events c @ [event]\<rparr>"

definition push_effect :: "Effect \<Rightarrow> Core \<Rightarrow> Core" where
  "push_effect effect c = c\<lparr>core_effects := core_effects c @ [effect]\<rparr>"

definition session_set_state :: "SessionState \<Rightarrow> Core \<Rightarrow> Core" where
  "session_set_state st c =
     (if core_state c = st then c
      else let c = (if core_state c = Registered \<and> st \<noteq> Registered then c\<lparr>core_pending_invite := None\<rparr> else c)
           in emit (StateChanged (core_network_id c) st) (c\<lparr>core_state := st\<rparr>))"

definition emit_message_received :: "IrcMessage \<Rightarrow> Core \<Rightarrow> Core" where
  "emit_message_received message c =
     emit (MessageReceived (core_network_id c) message)
       (c\<lparr>core_received_log := map_option (\<lambda>log. log @ [message]) (core_received_log c)\<rparr>)"

definition nicks_equal :: "Core \<Rightarrow> string \<Rightarrow> string \<Rightarrow> bool" where
  "nicks_equal c left right = equals (case_mapping (core_features c)) left right"

definition is_self :: "Core \<Rightarrow> string \<Rightarrow> bool" where
  "is_self c nick \<longleftrightarrow> nick \<noteq> [] \<and> nicks_equal c nick (core_nickname c)"

definition self_prefixed :: "Core \<Rightarrow> IrcMessage \<Rightarrow> bool" where
  "self_prefixed c message = is_self c (claimed_nick message)"

definition fold_channel :: "Core \<Rightarrow> string \<Rightarrow> string" where
  "fold_channel c channel = wire_text (normalize_name (case_mapping (core_features c)) channel)"

text \<open>\<open>char::is_control\<close>: the C0 and C1 controls and delete.\<close>

definition is_control :: "scalar \<Rightarrow> bool" where
  "is_control ch \<longleftrightarrow> ch < 32 \<or> (127 \<le> ch \<and> ch < 160)"

definition is_valid_privmsg_target :: "string \<Rightarrow> bool" where
  "is_valid_privmsg_target target \<longleftrightarrow>
     target \<noteq> [] \<and> \<not> starts_with '':'' target \<and> \<not> (\<exists>ch \<in> set (chars target). is_whitespace ch \<or> is_control ch)"

definition replay_kind_for :: "session_env \<Rightarrow> string \<Rightarrow> HistoryKind option" where
  "replay_kind_for E batch_type =
     (let lowered = lower_text (env_unicode E) batch_type in
      if lowered = ''chathistory'' \<or> lowered = ''draft/chathistory'' then Some Chat
      else if lowered = ''draft/chathistory-targets'' then Some Targets
      else if lowered = ''znc.in/playback'' then Some BouncerPlayback else None)"

section \<open>Timers\<close>

definition cancel_timer :: "TimerSlot \<Rightarrow> Core \<Rightarrow> Core" where
  "cancel_timer slot c = c\<lparr>core_timers := (core_timers c)(slot := None)\<rparr>"

definition arm_timer :: "TimerSlot \<Rightarrow> int \<Rightarrow> Core \<Rightarrow> Core" where
  "arm_timer slot delay c =
     (let c = cancel_timer slot c; sequence = core_timer_sequence c + 1 in
      c\<lparr>core_timer_sequence := sequence,
        core_timers := (core_timers c)(slot := Some \<lparr>timer_id = sequence, timer_due = core_now c + delay\<rparr>)\<rparr>)"

definition millis :: "nat \<Rightarrow> int" where
  "millis ms = int ms * NANOS_PER_MS"

section \<open>Labeled requests\<close>

definition earliest_deadline :: "(string, instant) btree_map \<Rightarrow> instant option" where
  "earliest_deadline labels = (if labels = [] then None else Some (Min (snd ` set labels)))"

definition arm_label_timer :: "Core \<Rightarrow> Core" where
  "arm_label_timer c =
     (case earliest_deadline (core_pending_labels c) of
        None \<Rightarrow> cancel_timer LabelTimer c
      | Some earliest \<Rightarrow> arm_timer LabelTimer (max 0 (earliest - core_now c)) c)"

definition begin_labeled_request :: "Core \<Rightarrow> Core \<times> string" where
  "begin_labeled_request c =
     (let n = core_next_request_label c + 1;
          label = ''lr'' @ decimal n;
          deadline = core_now c + millis (min (labeled_response_timeout_ms (core_config c)) (2 ^ 63 - 1));
          c = c\<lparr>core_next_request_label := n, core_pending_labels := bt_insert label deadline (core_pending_labels c)\<rparr>
      in (arm_label_timer c, label))"

definition has_pending_request_label :: "Core \<Rightarrow> string \<Rightarrow> bool" where
  "has_pending_request_label c label \<longleftrightarrow> label \<noteq> [] \<and> bt_contains (core_pending_labels c) label"

definition drop_request_label :: "string \<Rightarrow> Core \<Rightarrow> Core" where
  "drop_request_label label c =
     (if label = [] \<or> \<not> bt_contains (core_pending_labels c) label then c
      else arm_label_timer (c\<lparr>core_pending_labels := bt_remove label (core_pending_labels c)\<rparr>))"

definition finish_request_label :: "string \<Rightarrow> Core \<Rightarrow> Core" where
  "finish_request_label label c =
     (if label = [] \<or> \<not> bt_contains (core_pending_labels c) label then c
      else emit (RequestLabelFinished (core_network_id c) label)
             (arm_label_timer (c\<lparr>core_pending_labels := bt_remove label (core_pending_labels c)\<rparr>)))"

definition clear_pending_request_labels :: "bool \<Rightarrow> Core \<Rightarrow> Core" where
  "clear_pending_request_labels notify c =
     (let labels = bt_keys (core_pending_labels c);
          c = cancel_timer LabelTimer (c\<lparr>core_pending_labels := []\<rparr>)
      in if \<not> notify then c
         else foldl (\<lambda>c label. emit (RequestLabelFinished (core_network_id c) label) c) c labels)"

definition on_label_timer_fired :: "Core \<Rightarrow> Core" where
  "on_label_timer_fired c =
     (let expired = map fst (filter (\<lambda>(_, deadline). deadline \<le> core_now c) (core_pending_labels c));
          c = foldl (\<lambda>c label. c\<lparr>core_pending_labels := bt_remove label (core_pending_labels c)\<rparr>) c expired;
          c = foldl (\<lambda>c label. emit (RequestLabelFinished (core_network_id c) label) c) c expired
      in arm_label_timer c)"

section \<open>Writing lines\<close>

definition send_line :: "bytes \<Rightarrow> Core \<Rightarrow> Core" where
  "send_line line c =
     (if line = [] then c
      else push_effect (Write line)
             (emit (Outbound (core_network_id c) line (core_channel_types c) (core_now c)) c))"

definition is_tag_safe_label :: "string \<Rightarrow> bool" where
  "is_tag_safe_label label \<longleftrightarrow>
     label \<noteq> [] \<and> length label \<le> 64
     \<and> (\<forall>byte \<in> set label. is_ascii_alphanumeric byte \<or> byte = CHR ''-'' \<or> byte = CHR ''_'')"

definition send_command :: "string \<Rightarrow> string \<Rightarrow> Core \<Rightarrow> Core \<times> bool" where
  "send_command command label c =
     (if core_state c \<noteq> Registered then (c, False)
      else if label \<noteq> [] \<and> \<not> is_tag_safe_label label then (c, False)
      else let wire = (if label = [] then command else ''@label='' @ label @ '' '' @ command) in
        case build_line wire (core_features c) of
          Inl _ \<Rightarrow> (c, False)
        | Inr line \<Rightarrow> (send_line line c, True))"

fun send_chunks :: "string \<Rightarrow> string \<Rightarrow> string \<Rightarrow> string list \<Rightarrow> Core \<Rightarrow> Core \<times> bool" where
  "send_chunks prefix suffix label [] c = (c, True)"
| "send_chunks prefix suffix label (chunk # chunks) c =
     (case send_command (prefix @ chunk @ suffix) label c of
        (c, sent) \<Rightarrow> if \<not> sent then (c, False) else send_chunks prefix suffix label chunks c)"

text \<open>A split that would slice inside a character is \<open>None\<close>; it does not happen on a UTF-8 body.\<close>

definition send_trailing_body :: "string \<Rightarrow> string \<Rightarrow> string \<Rightarrow> string \<Rightarrow> Core \<Rightarrow> Core \<times> bool" where
  "send_trailing_body prefix body suffix label c =
     (case split_trailing_param prefix body suffix (core_features c) of
        None \<Rightarrow> (c, False)
      | Some chunks \<Rightarrow>
          if chunks = [] then (c, False)
          else if label \<noteq> [] \<and> length chunks \<noteq> 1 then (c, False)
          else send_chunks prefix suffix label chunks c)"

section \<open>The ping watchdog\<close>

definition PING_WATCHDOG_TOKEN :: string where "PING_WATCHDOG_TOKEN = ''omairc-watchdog''"

definition answers_probe :: "PingState \<Rightarrow> IrcMessage \<Rightarrow> bool" where
  "answers_probe ping message \<longleftrightarrow>
     ping = PingProbing \<and> msg_params message \<noteq> [] \<and> last (msg_params message) = PING_WATCHDOG_TOKEN"

fun ping_expire :: "PingState \<Rightarrow> PingState \<times> PingExpiry" where
  "ping_expire PingWatching = (PingProbing, Probe)"
| "ping_expire PingProbing = (PingProbing, Timeout)"
| "ping_expire PingOff = (PingOff, Nothing)"

definition arm_ping_watchdog :: "Core \<Rightarrow> Core" where
  "arm_ping_watchdog c =
     (if core_state c \<noteq> Registered then c
      else arm_timer PingTimer (millis (ping_timeout_ms (core_config c))) (c\<lparr>core_ping := PingWatching\<rparr>))"

definition cancel_ping_watchdog :: "Core \<Rightarrow> Core" where
  "cancel_ping_watchdog c = cancel_timer PingTimer (c\<lparr>core_ping := PingOff\<rparr>)"

section \<open>Capabilities that are published, and the STS cache\<close>

definition publish_capabilities :: "Core \<Rightarrow> Core" where
  "publish_capabilities c =
     (let now_enabled = enabled (core_caps c) in
      if now_enabled = core_published_caps c then c
      else emit (CapabilitiesChanged (core_network_id c) now_enabled) (c\<lparr>core_published_caps := now_enabled\<rparr>))"

definition core_epoch :: "Core \<Rightarrow> int" where
  "core_epoch c = core_now c div NANOS_PER_SECOND"

definition apply_cached_sts :: "session_env \<Rightarrow> Core \<Rightarrow> Core" where
  "apply_cached_sts E c =
     (case sts_lookup (env_sts E) (core_sts c) (cfg_host (core_config c)) (core_epoch c) of
        (store, None) \<Rightarrow> c\<lparr>core_sts := store\<rparr>
      | (store, Some cached) \<Rightarrow> c\<lparr>core_sts := store, core_port := cached_port cached, core_tls_enabled := True\<rparr>)"

definition reschedule_sts_expiry :: "session_env \<Rightarrow> Core \<Rightarrow> Core" where
  "reschedule_sts_expiry E c =
     (if \<not> core_tls_enabled c then c
      else case core_sts_duration c of
        None \<Rightarrow> c
      | Some duration \<Rightarrow>
          c\<lparr>core_sts_duration := None,
            core_sts := sts_refresh (env_sts E) (core_sts c) (cfg_host (core_config c)) duration (core_epoch c)\<rparr>)"

definition begin_sts_upgrade :: "nat \<Rightarrow> Core \<Rightarrow> Core" where
  "begin_sts_upgrade port c =
     (let c = session_set_state StsUpgrading (c\<lparr>core_port := port, core_tls_enabled := True\<rparr>)
      in push_effect Shutdown
           (emit (Lifecycle (core_network_id c) Info ''sts'' (''Upgraded to TLS on port '' @ decimal port) (core_now c)) c))"

definition handle_sts_advertisement :: "session_env \<Rightarrow> StsAdvertisement option \<Rightarrow> Core \<Rightarrow> Core" where
  "handle_sts_advertisement E advertisement c =
     (case advertisement of
        None \<Rightarrow> c
      | Some adv \<Rightarrow>
          if \<not> core_tls_enabled c then
            (case adv_port adv of
               None \<Rightarrow> c
             | Some port \<Rightarrow> if core_state c \<noteq> StsUpgrading then begin_sts_upgrade port c else c)
          else (case adv_duration_seconds adv of
               None \<Rightarrow> c
             | Some duration \<Rightarrow>
                 if duration = 0
                 then c\<lparr>core_sts := sts_clear (env_sts E) (core_sts c) (cfg_host (core_config c)), core_sts_duration := None\<rparr>
                 else c\<lparr>core_sts := sts_store_policy (env_sts E) (core_sts c) (cfg_host (core_config c)) (core_port c) duration (core_epoch c),
                        core_sts_duration := Some duration\<rparr>))"

section \<open>Connecting, failing and stopping\<close>

definition connect_transport :: "Core \<Rightarrow> Core" where
  "connect_transport c = push_effect (Connect (cfg_host (core_config c)) (core_port c) (core_tls_enabled c)) c"

definition schedule_reconnect :: "Core \<Rightarrow> Core" where
  "schedule_reconnect c =
     (if \<not> reconnect_enabled (core_config c) then session_set_state Failed c
      else if core_state c = Reconnecting then c
      else let (connection, attempt) = count_scheduled_reconnect (core_connection c);
               delay = next_delay (core_config c) connection;
               c = session_set_state Reconnecting (c\<lparr>core_connection := connection\<rparr>)
           in emit (ReconnectScheduled (core_network_id c) delay attempt) (arm_timer ReconnectTimer (millis delay) c))"

definition transport_is_open :: "ConnectionState \<Rightarrow> bool" where
  "transport_is_open ts \<longleftrightarrow> ts \<in> {TConnecting, TConnected, TEncrypted, TClosing}"

definition fail :: "ErrorKind \<Rightarrow> string \<Rightarrow> bool \<Rightarrow> Core \<Rightarrow> Core" where
  "fail error_kind message reconnect c =
     (let c = clear_pending_request_labels True (cancel_ping_watchdog (cancel_timer RegistrationTimer c)) in
      if reconnect then
        (let (connection, first) = first_report_of error_kind (core_connection c);
             c = c\<lparr>core_connection := connection\<rparr>;
             c = (if first then emit (ErrorOccurred (core_network_id c) error_kind message) c else c)
         in if transport_is_open (core_transport_state c)
            then push_effect Shutdown (c\<lparr>core_connection := reconnect_on_disconnect (core_connection c)\<rparr>)
            else schedule_reconnect c)
      else
        (let c = emit (ErrorOccurred (core_network_id c) error_kind message) c;
             c = c\<lparr>core_connection := end_on_disconnect (core_connection c)\<rparr>
         in push_effect Shutdown (session_set_state Failed (cancel_timer ReconnectTimer c))))"

definition reset_for_connection :: "Core \<Rightarrow> Core" where
  "reset_for_connection c =
     (let c = c\<lparr>core_framer := new_framer, core_batches := default_batches,
                core_history := reset_history_ledger (core_history c), core_history_limit := HISTORY_LIMIT,
                core_features := new_features, core_nickname := cfg_nick (core_config c),
                core_registration_sent := False, core_registration_nick := ConfiguredNick,
                core_sasl := default_sasl, core_capability_negotiation_ended := False,
                core_capability_list_seen := False, core_pending_sts := None, core_pending_invite := None,
                core_pending_join_keys := [], core_channel_types := []\<rparr>;
          c = clear_pending_request_labels True
                (cancel_ping_watchdog (cancel_timer RegistrationTimer (cancel_timer CapabilityTimer c)));
          c = c\<lparr>core_caps := reset_negotiation (core_caps c) (sasl_secret (core_config c) \<noteq> []),
                core_read_marker_token := None,
                core_read_markers := (core_read_markers c)\<lparr>rm_in_flight := [], rm_pending := []\<rparr>,
                core_metadata := default_metadata, core_typing := []\<rparr>
      in publish_capabilities c)"

definition finish_sts_upgrade :: "Core \<Rightarrow> Core" where
  "finish_sts_upgrade c = connect_transport (reset_for_connection c)"

definition config_incomplete :: "SessionConfig \<Rightarrow> bool" where
  "config_incomplete config \<longleftrightarrow>
     network_id config = [] \<or> cfg_host config = [] \<or> cfg_port config = 0 \<or> cfg_nick config = []
     \<or> cfg_username config = [] \<or> cfg_realname config = []"

definition start :: "session_env \<Rightarrow> Core \<Rightarrow> Core" where
  "start E c =
     (if core_state c \<noteq> Idle \<and> core_state c \<noteq> Failed then c
      else if config_incomplete (core_config c)
      then fail Registration ''IRC session configuration is incomplete'' False c
      else let c = c\<lparr>core_connection := begin_start (core_connection c), core_port := cfg_port (core_config c),
                     core_tls_enabled := cfg_tls_enabled (core_config c), core_sts_duration := None\<rparr>
           in connect_transport (session_set_state Connecting (reset_for_connection (apply_cached_sts E c))))"

definition stop :: "session_env \<Rightarrow> Core \<Rightarrow> Core" where
  "stop E c =
     (let c = reschedule_sts_expiry E c;
          c = c\<lparr>core_connection := begin_stop (core_connection c)\<rparr>;
          c = cancel_ping_watchdog (cancel_timer RegistrationTimer (cancel_timer CapabilityTimer (cancel_timer ReconnectTimer c)));
          c = clear_pending_request_labels True c
      in if core_state c = Idle then c
         else if core_state c = Reconnecting \<or> core_state c = Failed then session_set_state Idle c
         else push_effect SettleStop (push_effect Shutdown (session_set_state Closing c)))"

definition quit :: "session_env \<Rightarrow> string \<Rightarrow> Core \<Rightarrow> Core \<times> bool" where
  "quit E reason c =
     (if core_state c = Idle then (c, False)
      else let (c, sent) = (if core_state c = Registered
                            then send_command (if reason = [] then ''QUIT'' else ''QUIT :'' @ reason) [] c
                            else (c, True))
           in if \<not> sent then (c, False) else (stop E c, True))"

text \<open>The deferred effect of a stop: Idle once the transport has settled.\<close>

definition settle_stop :: "Core \<Rightarrow> Core" where
  "settle_stop c =
     (if core_transport_state c \<in> {TIdle, TDisconnected, TFailed} then session_set_state Idle c else c)"

definition begin_reconnect_attempt :: "session_env \<Rightarrow> Core \<Rightarrow> Core" where
  "begin_reconnect_attempt E c =
     (if core_state c \<noteq> Reconnecting then c
      else connect_transport (session_set_state Connecting
             (reset_for_connection (apply_cached_sts E (cancel_timer ReconnectTimer c)))))"

definition on_ping_watchdog_fired :: "Core \<Rightarrow> Core" where
  "on_ping_watchdog_fired c =
     (if core_state c \<noteq> Registered then c
      else case ping_expire (core_ping c) of
        (ping, expiry) \<Rightarrow>
          let c = c\<lparr>core_ping := ping\<rparr> in
          case expiry of
            Probe \<Rightarrow> arm_timer PingTimer (millis (ping_timeout_ms (core_config c)))
                       (send_line (''PING :'' @ PING_WATCHDOG_TOKEN @ [CR, LF]) c)
          | Timeout \<Rightarrow> fail Network ''Ping timeout'' True c
          | Nothing \<Rightarrow> c)"

end
