(* ===== verification/SessionHistory.thy ===== *)
theory SessionHistory
  imports SessionCore
begin

text \<open>
  \<open>session/batch.rs\<close> and \<open>session/history.rs\<close>: the ledger of open and ignored batches, the CHATHISTORY requests
  and the generations that make a late answer recognisable.
\<close>

section \<open>Generations and pending requests\<close>

definition replay_enabled :: "Core \<Rightarrow> HistoryKind \<Rightarrow> bool" where
  "replay_enabled c history_kind =
     (let on = enabled (core_caps c) in
      if \<not> cap_contains on Batch then False
      else if history_kind = BouncerPlayback then True
      else cap_contains on ChatHistory)"

definition history_generation :: "Core \<Rightarrow> string \<Rightarrow> nat" where
  "history_generation c channel =
     (case bt_get (hl_generation (core_history c)) (fold_channel c channel) of None \<Rightarrow> 0 | Some g \<Rightarrow> g)"

definition drop_pending :: "string \<Rightarrow> HistoryLedger \<Rightarrow> HistoryLedger" where
  "drop_pending folded h =
     h\<lparr>hl_pending := bt_remove folded (hl_pending h), hl_pending_before := bs_remove folded (hl_pending_before h),
       hl_pending_kind := bt_remove folded (hl_pending_kind h)\<rparr>"

definition bump_history_generation :: "string \<Rightarrow> Core \<Rightarrow> Core" where
  "bump_history_generation channel c =
     (let folded = fold_channel c channel; next_generation = history_generation c channel + 1; h = core_history c in
      c\<lparr>core_history := drop_pending folded (h\<lparr>hl_generation := bt_insert folded next_generation (hl_generation h)\<rparr>)\<rparr>)"

definition history_inflight :: "Core \<Rightarrow> string \<Rightarrow> bool" where
  "history_inflight c target \<longleftrightarrow>
     target \<noteq> [] \<and> bt_get (hl_pending (core_history c)) (fold_channel c target) = Some (history_generation c target)"

definition has_open_current_history_batch :: "Core \<Rightarrow> string \<Rightarrow> bool" where
  "has_open_current_history_batch c channel \<longleftrightarrow>
     (\<exists>(reference, batch) \<in> set (open_batches (core_batches c)).
        replay_root batch = reference \<and> batch_kind batch = Some Chat
        \<and> fold_channel c (hb_target (collected batch)) = fold_channel c channel
        \<and> batch_generation batch = history_generation c channel)"

definition answers_pending_history :: "Core \<Rightarrow> string \<Rightarrow> bool" where
  "answers_pending_history c channel \<longleftrightarrow>
     channel \<noteq> []
     \<and> bt_get (hl_pending (core_history c)) (fold_channel c channel) = Some (history_generation c channel)
     \<and> \<not> has_open_current_history_batch c channel"

definition clear_history_pending :: "string \<Rightarrow> Core \<Rightarrow> Core" where
  "clear_history_pending channel c = c\<lparr>core_history := drop_pending (fold_channel c channel) (core_history c)\<rparr>"

section \<open>Ignored batches\<close>

definition ignore_batch :: "string \<Rightarrow> Core \<Rightarrow> Core" where
  "ignore_batch reference c =
     (if reference = [] then c
      else let b = core_batches c; b = b\<lparr>open_batches := bt_remove reference (open_batches b)\<rparr> in
        if reference \<in> set (ignored_batches b) \<or> length (ignored_batches b) \<ge> MAX_IGNORED_BATCHES
        then c\<lparr>core_batches := b\<rparr>
        else c\<lparr>core_batches := b\<lparr>ignored_batches := bs_insert reference (ignored_batches b)\<rparr>\<rparr>)"

definition is_history_batch :: "session_env \<Rightarrow> Core \<Rightarrow> string \<Rightarrow> string \<Rightarrow> bool" where
  "is_history_batch E c batch_type parent =
     (if replay_kind_for E batch_type \<noteq> None then True
      else if parent = [] then False
      else if parent \<in> set (ignored_batches (core_batches c)) then True
      else case bt_get (open_batches (core_batches c)) parent of
             None \<Rightarrow> False | Some batch \<Rightarrow> replay_root batch \<noteq> [])"

definition drop_history_batches :: "string \<Rightarrow> Core \<Rightarrow> Core" where
  "drop_history_batches channel c =
     (let folded = fold_channel c channel;
          roots = map fst (filter (\<lambda>(reference, batch). replay_root batch = reference
                     \<and> fold_channel c (hb_target (collected batch)) = folded) (open_batches (core_batches c)))
      in if roots = [] then c
         else let gone = map fst (filter (\<lambda>(reference, batch). reference \<in> set roots \<or> replay_root batch \<in> set roots)
                                    (open_batches (core_batches c)));
                  c = foldl (\<lambda>c reference. c\<lparr>core_batches := (core_batches c)\<lparr>open_batches :=
                                bt_remove reference (open_batches (core_batches c))\<rparr>\<rparr>) c gone
              in foldl (\<lambda>c reference. ignore_batch reference c) c gone)"

definition forget_channel_history :: "string \<Rightarrow> Core \<Rightarrow> Core" where
  "forget_channel_history channel c =
     (let folded = fold_channel c channel; h = core_history c in
      drop_history_batches channel
        (c\<lparr>core_history := drop_pending folded
             (h\<lparr>hl_asked := bs_remove folded (hl_asked h), hl_exhausted := bs_remove folded (hl_exhausted h),
                hl_after_pages := bt_remove folded (hl_after_pages h),
                hl_after_cursor := bt_remove folded (hl_after_cursor h)\<rparr>)\<rparr>))"

definition abandon_history_requests :: "Core \<Rightarrow> Core" where
  "abandon_history_requests c =
     (let targets = foldl (\<lambda>s target. bs_insert target s) []
            (map (\<lambda>(_, batch). hb_target (collected batch))
               (filter (\<lambda>(reference, batch). replay_root batch = reference \<and> hb_target (collected batch) \<noteq> [])
                  (open_batches (core_batches c))));
          c = foldl (\<lambda>c target. drop_history_batches target c) c targets
      in c\<lparr>core_history := (core_history c)\<lparr>hl_pending := [], hl_pending_before := [], hl_pending_kind := [],
             hl_targets_pending := False, hl_after_pages := [], hl_after_cursor := []\<rparr>\<rparr>)"

section \<open>Requests\<close>

definition format_chat_history_timestamp :: "session_env \<Rightarrow> instant \<Rightarrow> string" where
  "format_chat_history_timestamp E at = format_millis (env_time E) at"

definition history_selector :: "session_env \<Rightarrow> HistoryCursor \<Rightarrow> string option" where
  "history_selector E cursor =
     (if cursor_msgid cursor \<noteq> [] then Some (''msgid='' @ cursor_msgid cursor)
      else map_option (\<lambda>at. ''timestamp='' @ format_chat_history_timestamp E at) (cursor_when cursor))"

definition default_cursor :: HistoryCursor where
  "default_cursor = \<lparr>cursor_msgid = [], cursor_when = None\<rparr>"

definition cursor_from_after_page :: "session_env \<Rightarrow> IrcMessage list \<Rightarrow> HistoryCursor" where
  "cursor_from_after_page E history_lines =
     (if history_lines = [] then default_cursor
      else let tail_msgid = msgid (last history_lines);
               ids = filter (\<lambda>i. i \<noteq> []) (map msgid history_lines) in
        if tail_msgid \<noteq> [] then \<lparr>cursor_msgid = tail_msgid, cursor_when = None\<rparr>
        else if ids \<noteq> [] then \<lparr>cursor_msgid = last ids, cursor_when = None\<rparr>
        else case server_time_of (env_time E) (last history_lines) of
               Some at \<Rightarrow> \<lparr>cursor_msgid = [], cursor_when = Some at\<rparr>
             | None \<Rightarrow>
                 (case List.map_filter (server_time_of (env_time E)) (rev history_lines) of
                    [] \<Rightarrow> default_cursor
                  | at # _ \<Rightarrow> \<lparr>cursor_msgid = [], cursor_when = Some at\<rparr>))"

definition put_pending :: "string \<Rightarrow> nat \<Rightarrow> HistoryRequestKind \<Rightarrow> HistoryLedger \<Rightarrow> HistoryLedger" where
  "put_pending key gen request h =
     h\<lparr>hl_pending := bt_insert key gen (hl_pending h), hl_pending_kind := bt_insert key request (hl_pending_kind h)\<rparr>"

definition request_history_latest :: "string \<Rightarrow> Core \<Rightarrow> Core \<times> bool" where
  "request_history_latest target c =
     (if target = [] \<or> \<not> replay_enabled c Chat then (c, False)
      else let key = fold_channel c target; h = core_history c in
        if key \<in> set (hl_asked h) \<or> history_inflight c target then (c, False)
        else let c = c\<lparr>core_history := put_pending key (history_generation c target) Latest (h\<lparr>hl_asked := bs_insert key (hl_asked h)\<rparr>)\<rparr>;
                 (c, sent) = send_command (''CHATHISTORY LATEST '' @ target @ '' * '' @ decimal (core_history_limit c)) [] c
             in if \<not> sent
                then (let h = core_history c in
                      c\<lparr>core_history := h\<lparr>hl_asked := bs_remove key (hl_asked h), hl_pending := bt_remove key (hl_pending h),
                           hl_pending_kind := bt_remove key (hl_pending_kind h)\<rparr>\<rparr>, False)
                else (c, True))"

definition clear_history_after_attempt :: "string \<Rightarrow> Core \<Rightarrow> Core" where
  "clear_history_after_attempt key c =
     (let h = core_history c in
      c\<lparr>core_history := h\<lparr>hl_pending := bt_remove key (hl_pending h), hl_pending_kind := bt_remove key (hl_pending_kind h),
           hl_asked := bs_remove key (hl_asked h), hl_after_pages := bt_remove key (hl_after_pages h),
           hl_after_cursor := bt_remove key (hl_after_cursor h)\<rparr>\<rparr>)"

text \<open>The body of \<open>send_history_after\<close> and \<open>send_history_latest_bound\<close>, which differ in the verb and the kind.\<close>

definition send_history_page :: "session_env \<Rightarrow> string \<Rightarrow> HistoryRequestKind \<Rightarrow> string \<Rightarrow> HistoryCursor \<Rightarrow> Core \<Rightarrow> Core \<times> bool" where
  "send_history_page E verb request target cursor c =
     (case history_selector E cursor of
        None \<Rightarrow> (c, False)
      | Some selector \<Rightarrow>
          let key = fold_channel c target;
              c = c\<lparr>core_history := put_pending key (history_generation c target) request (core_history c)\<rparr>;
              (c, sent) = send_command (verb @ target @ '' '' @ selector @ '' '' @ decimal (core_history_limit c)) [] c
          in if \<not> sent then (clear_history_after_attempt key c, False) else (c, True))"

definition send_history_after :: "session_env \<Rightarrow> string \<Rightarrow> HistoryCursor \<Rightarrow> Core \<Rightarrow> Core \<times> bool" where
  "send_history_after E target cursor c = send_history_page E ''CHATHISTORY AFTER '' After target cursor c"

definition send_history_latest_bound :: "session_env \<Rightarrow> string \<Rightarrow> HistoryCursor \<Rightarrow> Core \<Rightarrow> Core \<times> bool" where
  "send_history_latest_bound E target cursor c = send_history_page E ''CHATHISTORY LATEST '' AfterTail target cursor c"

definition request_history_after :: "session_env \<Rightarrow> string \<Rightarrow> instant \<Rightarrow> Core \<Rightarrow> Core \<times> bool" where
  "request_history_after E target after c =
     (if target = [] \<or> \<not> replay_enabled c Chat then (c, False)
      else if history_inflight c target then (c, False)
      else let key = fold_channel c target; h = core_history c; cursor = \<lparr>cursor_msgid = [], cursor_when = Some after\<rparr>;
               c = c\<lparr>core_history := h\<lparr>hl_asked := bs_insert key (hl_asked h), hl_after_pages := bt_insert key 1 (hl_after_pages h),
                        hl_after_cursor := bt_insert key cursor (hl_after_cursor h)\<rparr>\<rparr>
           in send_history_after E target cursor c)"

definition request_channel_history :: "session_env \<Rightarrow> string \<Rightarrow> Core \<Rightarrow> Core" where
  "request_channel_history E channel c =
     (if channel = [] \<or> \<not> replay_enabled c Chat then c
      else if fold_channel c channel \<in> set (hl_asked (core_history c)) then c
      else let resumed = (case core_history_resume c of
                            None \<Rightarrow> None | Some resume \<Rightarrow> resume channel (case_mapping (core_features c)));
               (c, done) = (case resumed of None \<Rightarrow> (c, False) | Some at \<Rightarrow> request_history_after E channel at c)
           in if done then c else fst (request_history_latest channel c))"

definition maybe_chain_history_after :: "session_env \<Rightarrow> string \<Rightarrow> HistoryBatch \<Rightarrow> bool \<Rightarrow> Core \<Rightarrow> Core" where
  "maybe_chain_history_after E target batch ended c =
     (if target = [] \<or> ended \<or> length (hb_lines batch) < core_history_limit c then c
      else let next_cursor = cursor_from_after_page E (hb_lines batch) in
        if cursor_msgid next_cursor = [] \<and> cursor_when next_cursor = None then c
        else let key = fold_channel c target; h = core_history c;
                 pages = max 1 (case bt_get (hl_after_pages h) key of None \<Rightarrow> 1 | Some n \<Rightarrow> n);
                 cap = (if hl_after_page_cap h = 0 then HISTORY_AFTER_PAGE_CAP else hl_after_page_cap h)
             in if pages \<ge> cap then fst (send_history_latest_bound E target next_cursor c)
                else let previous = (case bt_get (hl_after_cursor h) key of None \<Rightarrow> default_cursor | Some p \<Rightarrow> p) in
                  if cursor_msgid next_cursor = []
                     \<and> (case (cursor_when previous, cursor_when next_cursor) of
                          (Some previous_when, Some next_when) \<Rightarrow> next_when \<le> previous_when | _ \<Rightarrow> False)
                  then c
                  else fst (send_history_after E target next_cursor
                         (c\<lparr>core_history := h\<lparr>hl_after_pages := bt_insert key (pages + 1) (hl_after_pages h),
                              hl_after_cursor := bt_insert key next_cursor (hl_after_cursor h)\<rparr>\<rparr>)))"

definition request_history_targets :: "session_env \<Rightarrow> instant \<Rightarrow> instant \<Rightarrow> Core \<Rightarrow> Core \<times> bool" where
  "request_history_targets E from_time until_time c =
     (if \<not> replay_enabled c Chat \<or> hl_targets_pending (core_history c) then (c, False)
      else if until_time \<le> from_time then (c, False)
      else let (c, sent) = send_command
                 (''CHATHISTORY TARGETS timestamp='' @ format_chat_history_timestamp E from_time @ '' timestamp=''
                  @ format_chat_history_timestamp E until_time @ '' '' @ decimal (core_history_limit c)) [] c
           in if \<not> sent then (c, False)
              else (c\<lparr>core_history := (core_history c)\<lparr>hl_targets_pending := True\<rparr>\<rparr>, True))"

definition request_older_history :: "session_env \<Rightarrow> string \<Rightarrow> string \<Rightarrow> instant option \<Rightarrow> Core \<Rightarrow> Core \<times> bool" where
  "request_older_history E target before_msgid timestamp c =
     (if target = [] \<or> \<not> replay_enabled c Chat then (c, False)
      else let key = fold_channel c target; h = core_history c in
        if key \<in> set (hl_exhausted h) \<or> history_inflight c target then (c, False)
        else if is_channel (core_features c) target \<and> key \<notin> set (hl_asked h) then (c, False)
        else case (if before_msgid \<noteq> [] then Some (''msgid='' @ before_msgid)
                   else map_option (\<lambda>at. ''timestamp='' @ format_chat_history_timestamp E at) timestamp) of
               None \<Rightarrow> (c, False)
             | Some cursor \<Rightarrow>
                 let c = c\<lparr>core_history := put_pending key (history_generation c target) Before
                             (h\<lparr>hl_pending_before := bs_insert key (hl_pending_before h)\<rparr>)\<rparr>;
                     (c, sent) = send_command
                       (''CHATHISTORY BEFORE '' @ target @ '' '' @ cursor @ '' '' @ decimal (core_history_limit c)) [] c
                 in if \<not> sent then (c\<lparr>core_history := drop_pending key (core_history c)\<rparr>, False) else (c, True))"

fun history_fail_loop :: "IrcMessage \<Rightarrow> nat list \<Rightarrow> Core \<Rightarrow> Core" where
  "history_fail_loop message [] c = c"
| "history_fail_loop message (index # indices) c =
     (let channel = text_param message index in
      if \<not> answers_pending_history c channel then history_fail_loop message indices c
      else let folded = fold_channel c channel; h = core_history c;
               before = folded \<in> set (hl_pending_before h);
               request = (case bt_get (hl_pending_kind h) folded of None \<Rightarrow> Latest | Some k \<Rightarrow> k);
               h = drop_pending folded h;
               h = (if request \<noteq> After \<and> request \<noteq> AfterTail then h\<lparr>hl_exhausted := bs_insert folded (hl_exhausted h)\<rparr> else h);
               c = emit (ChatHistoryRequestFinished (core_network_id c) channel True before) (c\<lparr>core_history := h\<rparr>)
           in if request = After then emit (ChatHistoryFailed (core_network_id c) ''AFTER'' channel) c else c)"

definition handle_chat_history_fail :: "IrcMessage \<Rightarrow> Core \<Rightarrow> Core" where
  "handle_chat_history_fail message c =
     (if \<not> eq_ignore_ascii_case (text_param message 0) ''CHATHISTORY'' then c
      else if length (msg_params message) < 4 then c
      else if eq_ignore_ascii_case (text_param message 2) ''TARGETS''
      then emit (ChatHistoryFailed (core_network_id c) ''TARGETS'' [])
             (c\<lparr>core_history := (core_history c)\<lparr>hl_targets_pending := False\<rparr>\<rparr>)
      else history_fail_loop message [2..<length (msg_params message) - 1] c)"

section \<open>Batches\<close>

definition default_open_batch :: OpenBatch where
  "default_open_batch = \<lparr>replay_root = [], batch_kind = None, collected = default_history_batch, batch_generation = 0,
     batch_request_label = [], batch_history_ended = False, history_request = None\<rparr>"

definition or_empty :: "string option \<Rightarrow> string" where
  "or_empty v = (case v of None \<Rightarrow> [] | Some s \<Rightarrow> s)"

definition history_targets_from :: "session_env \<Rightarrow> IrcMessage list \<Rightarrow> HistoryTarget list" where
  "history_targets_from E history_lines =
     List.map_filter
       (\<lambda>line. let name = text_param line 1 in
          if name = [] then None
          else Some \<lparr>ht_name = name, ht_latest = parse_history_target_time (env_time E) (text_param line 2)\<rparr>)
       (filter (\<lambda>line. eq_ignore_ascii_case (text_param line 0) ''TARGETS'')
          (filter (\<lambda>line. eq_ignore_ascii_case (msg_command line) ''CHATHISTORY'') history_lines))"

text \<open>The frame a new batch gets, once it has been decided that it is opened.\<close>

definition open_frame :: "IrcMessage \<Rightarrow> string \<Rightarrow> string \<Rightarrow> HistoryKind option \<Rightarrow> Core \<Rightarrow> OpenBatch" where
  "open_frame message reference parent history_kind c =
     (let frame = default_open_batch;
          frame = (if eq_ignore_ascii_case (text_param message 1) ''labeled-response''
                   then frame\<lparr>batch_request_label := or_empty (tag_text message ''label'')\<rparr> else frame);
          parent_root = (case bt_get (open_batches (core_batches c)) parent of None \<Rightarrow> [] | Some b \<Rightarrow> replay_root b);
          frame = (if parent_root \<noteq> [] then frame\<lparr>replay_root := parent_root\<rparr>
                   else if history_kind \<noteq> None then frame\<lparr>replay_root := reference\<rparr> else frame)
      in if replay_root frame = reference
         then let target_arg = text_param message 2;
                  frame = frame\<lparr>batch_kind := history_kind,
                                batch_history_ended := has_tag message ''draft/chathistory-end'',
                                collected := (collected frame)\<lparr>hb_target := target_arg\<rparr>,
                                batch_generation := history_generation c target_arg\<rparr>
              in if history_kind = Some Chat \<and> answers_pending_history c target_arg
                 then frame\<lparr>history_request := bt_get (hl_pending_kind (core_history c)) (fold_channel c target_arg)\<rparr>
                 else frame
         else frame)"

definition open_batch :: "session_env \<Rightarrow> IrcMessage \<Rightarrow> string \<Rightarrow> Core \<Rightarrow> Core" where
  "open_batch E message reference c =
     (let parent = or_empty (tag_text message ''batch'');
          batch_type = text_param message 1;
          carried_label = or_empty (tag_text message ''label'');
          labeled_response = eq_ignore_ascii_case batch_type ''labeled-response'';
          history_kind = replay_kind_for E batch_type
      in if bt_contains (open_batches (core_batches c)) reference then c
         else if (case history_kind of None \<Rightarrow> False | Some k \<Rightarrow> \<not> replay_enabled c k) then ignore_batch reference c
         else
           let target_arg = text_param message 2;
               solicited = (history_kind = Some Targets \<and> hl_targets_pending (core_history c))
                           \<or> (history_kind = Some Chat \<and> answers_pending_history c target_arg);
               pending_labeled_response = labeled_response \<and> has_pending_request_label c carried_label;
               over_open_cap = \<not> solicited \<and> \<not> pending_labeled_response
                               \<and> length (open_batches (core_batches c)) \<ge> MAX_OPEN_BATCHES;
               is_ignored = reference \<in> set (ignored_batches (core_batches c));
               parent_ignored = parent \<noteq> [] \<and> parent \<in> set (ignored_batches (core_batches c))
           in if is_ignored \<or> parent_ignored \<or> (over_open_cap \<and> is_history_batch E c batch_type parent)
              then let c = ignore_batch reference c;
                       c = (if history_kind = Some Chat then clear_history_pending target_arg c else c)
                   in if history_kind = Some Targets
                      then c\<lparr>core_history := (core_history c)\<lparr>hl_targets_pending := False\<rparr>\<rparr> else c
              else if over_open_cap then c
              else c\<lparr>core_batches := (core_batches c)\<lparr>open_batches :=
                       bt_insert reference (open_frame message reference parent history_kind c) (open_batches (core_batches c))\<rparr>\<rparr>)"

text \<open>The last part of \<open>close_batch\<close>: what a closed replay root delivers.\<close>

definition deliver_batch :: "session_env \<Rightarrow> OpenBatch \<Rightarrow> Core \<Rightarrow> Core" where
  "deliver_batch E frame c =
     (let target = hb_target (collected frame);
          current = (batch_generation frame = history_generation c target);
          folded = fold_channel c target;
          after = (history_request frame = Some After);
          after_tail = (history_request frame = Some AfterTail);
          c = (if current \<and> batch_kind frame = Some Chat \<and> history_request frame \<noteq> None
               then let h = core_history c;
                        h = h\<lparr>hl_pending := bt_remove folded (hl_pending h), hl_pending_kind := bt_remove folded (hl_pending_kind h)\<rparr>;
                        h = (if hb_lines (collected frame) = [] \<and> \<not> after \<and> \<not> after_tail
                             then h\<lparr>hl_exhausted := bs_insert folded (hl_exhausted h)\<rparr> else h)
                    in c\<lparr>core_history := h\<rparr>
               else c)
      in if batch_kind frame \<noteq> Some BouncerPlayback \<and> \<not> current then c
         else
           let batch = (collected frame)\<lparr>hb_kind := batch_kind frame\<rparr>;
               (c, batch) =
                 (if batch_kind frame = Some Chat
                  then let batch = batch\<lparr>hb_older_page := (history_request frame = Some Before)\<rparr>;
                           h = core_history c;
                           c = c\<lparr>core_history := h\<lparr>hl_pending_before := bs_remove folded (hl_pending_before h)\<rparr>\<rparr>;
                           c = (if current \<and> after then maybe_chain_history_after E target batch (batch_history_ended frame) c else c)
                       in (c, batch\<lparr>hb_after_request := (current \<and> after), hb_history_ended := batch_history_ended frame\<rparr>)
                  else (c, batch))
           in emit (HistoryBatchReceived (core_network_id c) batch) c)"

definition close_batch :: "session_env \<Rightarrow> string \<Rightarrow> Core \<Rightarrow> Core" where
  "close_batch E reference c =
     (if reference \<in> set (ignored_batches (core_batches c))
      then c\<lparr>core_batches := (core_batches c)\<lparr>ignored_batches := bs_remove reference (ignored_batches (core_batches c))\<rparr>\<rparr>
      else case bt_get (open_batches (core_batches c)) reference of
        None \<Rightarrow> c
      | Some frame \<Rightarrow>
          let c = c\<lparr>core_batches := (core_batches c)\<lparr>open_batches := bt_remove reference (open_batches (core_batches c))\<rparr>\<rparr>;
              children = map fst (filter (\<lambda>(_, batch). replay_root batch = reference) (open_batches (core_batches c)));
              c = foldl (\<lambda>c child. ignore_batch child
                    (c\<lparr>core_batches := (core_batches c)\<lparr>open_batches := bt_remove child (open_batches (core_batches c))\<rparr>\<rparr>)) c children;
              c = (if batch_request_label frame \<noteq> [] then finish_request_label (batch_request_label frame) c else c);
              is_root = (replay_root frame = reference)
          in if is_root \<and> batch_kind frame = Some Targets
             then let c = c\<lparr>core_history := (core_history c)\<lparr>hl_targets_pending := False\<rparr>\<rparr>
                  in emit (HistoryBatchReceived (core_network_id c)
                       (default_history_batch\<lparr>hb_kind := Some Targets, hb_history_ended := batch_history_ended frame,
                          hb_targets := history_targets_from E (hb_lines (collected frame))\<rparr>)) c
             else if is_root \<and> hb_target (collected frame) \<noteq> [] then deliver_batch E frame c
             else c)"

definition handle_batch :: "session_env \<Rightarrow> IrcMessage \<Rightarrow> Core \<Rightarrow> Core" where
  "handle_batch E message c =
     (if msg_params message = [] then c
      else let token = text_param message 0 in
        if length token < 2 then c
        else if hd token \<noteq> CHR ''+'' \<and> hd token \<noteq> CHR ''-'' then c
        else let reference = drop 1 token in
          if reference = [] then c
          else if hd token = CHR ''-'' then close_batch E reference c
          else open_batch E message reference c)"

text \<open>One line into a replay root: a full buffer drops its oldest line first.\<close>

definition capture_line :: "IrcMessage \<Rightarrow> OpenBatch \<Rightarrow> OpenBatch" where
  "capture_line message root =
     (let kept = hb_lines (collected root);
          kept = (if length kept \<ge> HISTORY_BUFFER_CEILING then vec_remove 0 kept else kept)
      in root\<lparr>collected := (collected root)\<lparr>hb_lines := kept @ [message]\<rparr>\<rparr>)"

definition capture_in_batch :: "IrcMessage \<Rightarrow> Core \<Rightarrow> Core \<times> bool" where
  "capture_in_batch message c =
     (let batch = or_empty (tag_text message ''batch'') in
      if batch = [] then (c, False)
      else if batch \<in> set (ignored_batches (core_batches c)) then (c, True)
      else case bt_get (open_batches (core_batches c)) batch of
        None \<Rightarrow> (c, False)
      | Some found \<Rightarrow>
          if replay_root found = [] then (c, False)
          else case bt_get (open_batches (core_batches c)) (replay_root found) of
            None \<Rightarrow> (c, False)
          | Some root \<Rightarrow>
              (c\<lparr>core_batches := (core_batches c)\<lparr>open_batches :=
                  bt_insert (replay_root found) (capture_line message root) (open_batches (core_batches c))\<rparr>\<rparr>, True))"

end
