(* ===== verification/SessionOutbound.thy ===== *)
theory SessionOutbound
  imports SessionHistory
begin

text \<open>
  What the session writes on behalf of its owner, and the ledgers behind it: \<open>session/outbound.rs\<close>,
  \<open>session/typing.rs\<close>, \<open>session/metadata.rs\<close>, \<open>session/autojoin.rs\<close>, \<open>session/readmarker.rs\<close>,
  \<open>session/ctcp.rs\<close> and \<open>irc/channelmode.rs\<close>. A method that reports whether it sent returns the new state and
  that flag.
\<close>

section \<open>Autojoin\<close>

definition lookup_autojoin_key :: "(string, string) btree_map \<Rightarrow> IrcCaseMapping \<Rightarrow> string \<Rightarrow> string option" where
  "lookup_autojoin_key keys mapping channel =
     map_option snd (List.find (\<lambda>(key, _). equals mapping key channel) keys)"

definition erase_autojoin_key ::
  "(string, string) btree_map \<Rightarrow> IrcCaseMapping \<Rightarrow> string \<Rightarrow> (string, string) btree_map \<times> bool" where
  "erase_autojoin_key keys mapping channel =
     (case List.find (\<lambda>key. equals mapping key channel) (bt_keys keys) of
        Some key \<Rightarrow> (bt_remove key keys, True)
      | None \<Rightarrow> (keys, False))"

definition emit_autojoin_changed :: "Core \<Rightarrow> Core" where
  "emit_autojoin_changed c =
     emit (AutojoinChannelsChanged (core_network_id c) (core_autojoin_channels c) (core_autojoin_keys c)) c"

definition record_autojoin :: "string \<Rightarrow> bool \<Rightarrow> Core \<Rightarrow> Core" where
  "record_autojoin channel joined c =
     (if channel = [] then c
      else let mapping = case_mapping (core_features c);
               found_index = position (\<lambda>existing. equals mapping existing channel) (core_autojoin_channels c);
               folded = fold_channel c channel
      in if joined then
           (let (c, listed, name_changed) =
                  (case found_index of
                     None \<Rightarrow> (c\<lparr>core_autojoin_channels := core_autojoin_channels c @ [channel]\<rparr>, channel, True)
                   | Some index \<Rightarrow> (c, core_autojoin_channels c ! index, False));
                pending_key = or_empty (bt_get (core_pending_join_keys c) folded);
                c = c\<lparr>core_pending_join_keys := bt_remove folded (core_pending_join_keys c)\<rparr>;
                (c, key_changed) =
                  (if pending_key \<noteq> [] \<and> lookup_autojoin_key (core_autojoin_keys c) mapping listed \<noteq> Some pending_key
                   then (c\<lparr>core_autojoin_keys := bt_insert listed pending_key
                            (fst (erase_autojoin_key (core_autojoin_keys c) mapping listed))\<rparr>, True)
                   else (c, False))
            in if \<not> name_changed \<and> \<not> key_changed then c else emit_autojoin_changed c)
         else
           (let (keys, had_key) = erase_autojoin_key (core_autojoin_keys c) mapping channel;
                c = c\<lparr>core_autojoin_keys := keys, core_pending_join_keys := bt_remove folded (core_pending_join_keys c)\<rparr>
            in if found_index = None \<and> \<not> had_key then c
               else let c = (case found_index of
                               None \<Rightarrow> c
                             | Some index \<Rightarrow> c\<lparr>core_autojoin_channels := vec_remove index (core_autojoin_channels c)\<rparr>)
                    in emit_autojoin_changed c))"

definition drop_stored_autojoin_key :: "string \<Rightarrow> Core \<Rightarrow> Core" where
  "drop_stored_autojoin_key channel c =
     (if channel = [] then c
      else let c = c\<lparr>core_pending_join_keys := bt_remove (fold_channel c channel) (core_pending_join_keys c)\<rparr>;
               (keys, erased) = erase_autojoin_key (core_autojoin_keys c) (case_mapping (core_features c)) channel;
               c = c\<lparr>core_autojoin_keys := keys\<rparr>
           in if \<not> erased then c else emit_autojoin_changed c)"

definition autojoin_key_for :: "Core \<Rightarrow> string \<Rightarrow> string option" where
  "autojoin_key_for c channel = lookup_autojoin_key (core_autojoin_keys c) (case_mapping (core_features c)) channel"

section \<open>Typing\<close>

definition default_target_clock :: TargetClock where
  "default_target_clock = \<lparr>last_sent_at = None, last_phase = PhaseActive, suppress_done = False\<rparr>"

definition should_send :: "(string, TargetClock) btree_map \<Rightarrow> string \<Rightarrow> TypingPhase \<Rightarrow> instant \<Rightarrow> bool" where
  "should_send targets target ph now =
     (if ph = PhasePaused then False
      else case bt_get targets target of
        None \<Rightarrow> ph = PhaseActive
      | Some clk \<Rightarrow>
          if ph = PhaseDone \<and> suppress_done clk then False
          else if ph = PhaseDone \<and> last_phase clk \<noteq> PhaseActive then False
          else case last_sent_at clk of
                 Some sent \<Rightarrow> \<not> now - sent < TYPING_SEND_INTERVAL_MS * NANOS_PER_MS
               | None \<Rightarrow> True)"

definition target_clock :: "(string, TargetClock) btree_map \<Rightarrow> string \<Rightarrow> TargetClock" where
  "target_clock targets target = (case bt_get targets target of None \<Rightarrow> default_target_clock | Some clk \<Rightarrow> clk)"

definition record_sent ::
  "string \<Rightarrow> TypingPhase \<Rightarrow> instant \<Rightarrow> (string, TargetClock) btree_map \<Rightarrow> (string, TargetClock) btree_map" where
  "record_sent target ph now targets =
     (let clk = target_clock targets target;
          clk = clk\<lparr>last_sent_at := Some now, last_phase := ph\<rparr>;
          clk = (if ph \<noteq> PhaseDone then clk\<lparr>suppress_done := False\<rparr> else clk)
      in bt_insert target clk targets)"

definition note_message_sent :: "string \<Rightarrow> Core \<Rightarrow> Core" where
  "note_message_sent target c =
     c\<lparr>core_typing := bt_insert target ((target_clock (core_typing c) target)\<lparr>suppress_done := True\<rparr>) (core_typing c)\<rparr>"

definition send_typing :: "string \<Rightarrow> TypingPhase \<Rightarrow> Core \<Rightarrow> Core \<times> bool" where
  "send_typing target ph c =
     (if core_state c \<noteq> Registered then (c, False)
      else if \<not> cap_contains (enabled (core_caps c)) MessageTags then (c, False)
      else if \<not> should_send (core_typing c) target ph (core_now c) then (c, False)
      else case typing_tagmsg target ph of
        None \<Rightarrow> (c, False)
      | Some line \<Rightarrow>
          (let c = push_effect (Write line) c
           in c\<lparr>core_typing := record_sent target ph (core_now c) (core_typing c)\<rparr>, True))"

section \<open>Metadata\<close>

definition metadata_enabled :: "Core \<Rightarrow> bool" where
  "metadata_enabled c \<longleftrightarrow>
     cap_contains (enabled (core_caps c)) MemberMetadata \<and> cap_contains (enabled (core_caps c)) Batch"

definition subscribe_to_member_metadata :: "Core \<Rightarrow> Core" where
  "subscribe_to_member_metadata c =
     (if \<not> metadata_enabled c then c
      else let keys = subscription_keys (max_subs (core_metadata c)) in
        if keys = [] then c
        else send_line (''METADATA * SUB '' @ join_with '' '' keys @ [CR, LF]) c)"

definition set_own_metadata :: "string \<Rightarrow> string \<Rightarrow> Core \<Rightarrow> Core \<times> string option" where
  "set_own_metadata key value c =
     (if core_state c \<noteq> Registered \<or> \<not> metadata_enabled c \<or> key = [] then (c, None)
      else case canonical_key key of
        None \<Rightarrow> (c, None)
      | Some stored \<Rightarrow>
          if value = [] then
            (case send_command (''METADATA * SET '' @ stored) [] c of (c, sent) \<Rightarrow> (c, if sent then Some [] else None))
          else
            let prefix = ''METADATA * SET '' @ stored @ '' :'';
                wire_budget = MAX_CLASSIC_FRAME_BYTES - length prefix - 2;
                max_bytes = min (effective_max_value_bytes (max_value_bytes (core_metadata c))) wire_budget;
                clamped_value = clamped_to value max_bytes
            in if max_bytes = 0 \<or> clamped_value = [] then (c, None)
               else (case send_command (prefix @ clamped_value) [] c of
                       (c, sent) \<Rightarrow> (c, if sent then Some clamped_value else None)))"

text \<open>A 774 schedules a SYNC on the clock; such a timer is not one of the session's slots and is never cancelled.\<close>

definition handle_metadata_sync_later :: "IrcMessage \<Rightarrow> Core \<Rightarrow> Core" where
  "handle_metadata_sync_later message c =
     (let target = text_param message 1 in
      if target = [] then c
      else let retry_after = max 0 (min 60 (case parse_i64 (trim (text_param message 2)) of None \<Rightarrow> 0 | Some n \<Rightarrow> n))
           in c\<lparr>core_sync_timers := core_sync_timers c @ [(core_now c + retry_after * NANOS_PER_SECOND, target)]\<rparr>)"

definition metadata_sync_fired :: "string \<Rightarrow> Core \<Rightarrow> Core" where
  "metadata_sync_fired target c = fst (send_command (''METADATA '' @ target @ '' SYNC'') [] c)"

section \<open>Read markers\<close>

definition read_marker_command :: "Core \<Rightarrow> string" where
  "read_marker_command c = read_marker_verb (core_read_marker_token c)"

definition fold_read_marker_target :: "Core \<Rightarrow> string \<Rightarrow> string" where
  "fold_read_marker_target c target =
     (if target = [] then []
      else if is_channel (core_features c) target then fold_channel c target
      else normalize_name (case_mapping (core_features c)) target)"

definition set_markers :: "(ReadMarkerLedger \<Rightarrow> ReadMarkerLedger) \<Rightarrow> Core \<Rightarrow> Core" where
  "set_markers f c = c\<lparr>core_read_markers := f (core_read_markers c)\<rparr>"

definition advance_last_known :: "string \<Rightarrow> instant \<Rightarrow> Core \<Rightarrow> Core" where
  "advance_last_known folded at c =
     (if (case bt_get (rm_last_known (core_read_markers c)) folded of
            None \<Rightarrow> False | Some known \<Rightarrow> \<not> read_marker_time_after at known)
      then c
      else set_markers (\<lambda>m. m\<lparr>rm_last_known := bt_insert folded at (rm_last_known m)\<rparr>) c)"

definition flush_read_marker_set :: "session_env \<Rightarrow> string \<Rightarrow> Core \<Rightarrow> Core" where
  "flush_read_marker_set E folded c =
     (if bt_contains (rm_in_flight (core_read_markers c)) folded then c
      else case bt_get (rm_pending (core_read_markers c)) folded of
        None \<Rightarrow> c
      | Some queued \<Rightarrow>
          let dropped = set_markers (\<lambda>m. m\<lparr>rm_pending := bt_remove folded (rm_pending m)\<rparr>) c in
          if (case bt_get (rm_last_known (core_read_markers c)) folded of
                None \<Rightarrow> False | Some known \<Rightarrow> \<not> read_marker_time_after (queue_timestamp queued) known)
          then dropped
          else if read_marker_command c = [] then dropped
          else let line = read_marker_command c @ '' '' @ queue_target queued @ '' timestamp=''
                          @ format_read_marker_time (env_time E) (queue_timestamp queued);
                   (c, sent) = send_command line [] dropped
               in if \<not> sent then c
                  else set_markers (\<lambda>m. m\<lparr>rm_in_flight := bt_insert folded (queue_timestamp queued) (rm_in_flight m)\<rparr>) c)"

definition release_marker :: "session_env \<Rightarrow> string \<Rightarrow> Core \<Rightarrow> Core" where
  "release_marker E folded c =
     flush_read_marker_set E folded (set_markers (\<lambda>m. m\<lparr>rm_in_flight := bt_remove folded (rm_in_flight m)\<rparr>) c)"

definition deliver_read_marker :: "session_env \<Rightarrow> IrcMessage \<Rightarrow> Core \<Rightarrow> Core \<times> bool" where
  "deliver_read_marker E message c =
     (if msg_command message \<noteq> ''MARKREAD'' \<and> msg_command message \<noteq> ''READ'' then (c, False)
      else if msg_params message = [] then (c, True)
      else let target = text_param message 0 in
        if target = [] then (c, True)
        else let folded = fold_read_marker_target c target; none = ReadMarkerReceived (core_network_id c) target None in
          if length (msg_params message) < 2 then (emit none c, True)
          else case parse_read_marker_parameter (env_time E) (text_param message 1) of
            None \<Rightarrow> (emit none (release_marker E folded c), True)
          | Some None \<Rightarrow> (emit none c, True)
          | Some (Some marker) \<Rightarrow>
              let echoed = read_marker_time_millis marker;
                  c = emit (ReadMarkerReceived (core_network_id c) target (Some echoed)) (advance_last_known folded echoed c)
              in case bt_get (rm_in_flight (core_read_markers c)) folded of
                   None \<Rightarrow> (c, True)
                 | Some in_flight \<Rightarrow>
                     if read_marker_time_after in_flight echoed then (c, True)
                     else let c = set_markers (\<lambda>m. m\<lparr>rm_in_flight := bt_remove folded (rm_in_flight m)\<rparr>) c;
                              c = (case bt_get (rm_pending (core_read_markers c)) folded of
                                     None \<Rightarrow> c
                                   | Some queued \<Rightarrow>
                                       if \<not> read_marker_time_after (queue_timestamp queued) echoed
                                       then set_markers (\<lambda>m. m\<lparr>rm_pending := bt_remove folded (rm_pending m)\<rparr>) c else c)
                          in (flush_read_marker_set E folded c, True))"

definition handle_read_marker_fail :: "session_env \<Rightarrow> IrcMessage \<Rightarrow> Core \<Rightarrow> Core" where
  "handle_read_marker_fail E message c =
     (let command = text_param message 0 in
      if \<not> eq_ignore_ascii_case command ''MARKREAD'' \<and> \<not> eq_ignore_ascii_case command ''READ'' then c
      else if length (msg_params message) < 4
      then emit (ReadMarkerReceived (core_network_id c) [] None)
             (foldl (\<lambda>c key. release_marker E key c) c (bt_keys (rm_in_flight (core_read_markers c))))
      else let target = text_param message 2; folded = fold_read_marker_target c target in
        if folded = [] then c
        else emit (ReadMarkerReceived (core_network_id c) target None) (release_marker E folded c))"

definition request_read_marker_get :: "string \<Rightarrow> Core \<Rightarrow> Core \<times> bool" where
  "request_read_marker_get target c =
     (if target = [] \<or> read_marker_command c = [] then (c, False)
      else send_command (read_marker_command c @ '' '' @ target) [] c)"

definition queue_read_marker_set :: "session_env \<Rightarrow> string \<Rightarrow> instant \<Rightarrow> Core \<Rightarrow> Core" where
  "queue_read_marker_set E target at c =
     (if target = [] \<or> read_marker_command c = [] then c
      else let folded = fold_read_marker_target c target in
        if folded = [] then c
        else let at = read_marker_time_millis at; m = core_read_markers c;
                 stale = (\<lambda>v. case v of None \<Rightarrow> False | Some t \<Rightarrow> \<not> read_marker_time_after at t)
             in if stale (bt_get (rm_last_known m) folded) \<or> stale (bt_get (rm_in_flight m) folded)
                   \<or> stale (map_option queue_timestamp (bt_get (rm_pending m) folded))
                then c
                else flush_read_marker_set E folded
                  (set_markers (\<lambda>m. m\<lparr>rm_pending := bt_insert folded \<lparr>queue_target = target, queue_timestamp = at\<rparr> (rm_pending m)\<rparr>) c))"

section \<open>CTCP\<close>

definition allow_ctcp_reply :: "session_env \<Rightarrow> string \<Rightarrow> Core \<Rightarrow> Core \<times> bool" where
  "allow_ctcp_reply E nick c =
     (let key = lower_text (env_unicode E) nick in
      if (case bt_get (core_ctcp_reply_clock c) key of
            None \<Rightarrow> False | Some last_reply \<Rightarrow> core_now c - last_reply < CTCP_REPLY_INTERVAL)
      then (c, False)
      else (c\<lparr>core_ctcp_reply_clock := bt_insert key (core_now c) (core_ctcp_reply_clock c)\<rparr>, True))"

definition ctcp_answer :: "session_env \<Rightarrow> CtcpRequest \<Rightarrow> instant \<Rightarrow> string option" where
  "ctcp_answer E request now =
     (if ctcp_command request = ''PING'' then
        (if length (ctcp_argument request) > CTCP_PING_PAYLOAD_MAX_BYTES then None
         else Some (ctcp_payload \<lparr>ctcp_command = ''PING'', ctcp_argument = ctcp_argument request\<rparr>))
      else if ctcp_command request = ''TIME'' then
        Some (ctcp_payload \<lparr>ctcp_command = ''TIME'', ctcp_argument = format_local (env_time E) now\<rparr>)
      else if ctcp_command request = ''VERSION'' then
        Some (ctcp_payload \<lparr>ctcp_command = ''VERSION'', ctcp_argument = ctcp_version_reply_text\<rparr>)
      else None)"

definition answer_ctcp :: "session_env \<Rightarrow> IrcMessage \<Rightarrow> Core \<Rightarrow> Core \<times> bool" where
  "answer_ctcp E message c =
     (case parse_ctcp_request (env_unicode E) (text_param message 1) of
        None \<Rightarrow> (c, False)
      | Some request \<Rightarrow>
          if ctcp_command request = ''ACTION'' then (c, False)
          else let sender = prefix_nick message in
            if sender = [] \<or> is_service_identity (env_unicode E) sender (ctcp_reply_host message) (core_channel_types c)
            then (c, True)
            else case ctcp_answer E request (core_now c) of
              None \<Rightarrow> (c, True)
            | Some payload \<Rightarrow>
                (case allow_ctcp_reply E sender c of
                   (c, allowed) \<Rightarrow>
                     if \<not> allowed then (c, True)
                     else (fst (send_trailing_body (''NOTICE '' @ sender @ '' :'') payload [] [] c), True)))"

definition send_ctcp :: "session_env \<Rightarrow> string \<Rightarrow> string \<Rightarrow> string \<Rightarrow> string \<Rightarrow> Core \<Rightarrow> Core \<times> bool" where
  "send_ctcp E target command argument label c =
     (let verb = upper_text (env_unicode E) (trim command) in
      if \<not> is_valid_privmsg_target target \<or> verb = [] \<or> CHR '' '' \<in> set verb then (c, False)
      else send_trailing_body (''PRIVMSG '' @ target @ '' :'') (ctcp_payload \<lparr>ctcp_command = verb, ctcp_argument = argument\<rparr>) [] label c)"

section \<open>Channel modes\<close>

record IrcChannelModeRequest =
  mode_channel :: string
  mode_modes :: string
  mode_parameters :: "string list"
  mode_query :: bool

definition parse_channel_mode_request :: "string \<Rightarrow> IrcServerFeatures \<Rightarrow> IrcChannelModeRequest option" where
  "parse_channel_mode_request argument features =
     (case filter (\<lambda>token. token \<noteq> []) (split_by (\<lambda>c. c = CHR '' '') argument) of
        [] \<Rightarrow> None
      | channel # rest \<Rightarrow>
          if (\<exists>token \<in> set (channel # rest). contains_forbidden token) then None
          else if \<not> is_channel features channel then None
          else case rest of
            [] \<Rightarrow> Some \<lparr>mode_channel = channel, mode_modes = [], mode_parameters = [], mode_query = True\<rparr>
          | modes # parameters \<Rightarrow>
              Some \<lparr>mode_channel = channel, mode_modes = modes, mode_parameters = parameters, mode_query = False\<rparr>)"

section \<open>Writers\<close>

definition send_privmsg_locked :: "string \<Rightarrow> string \<Rightarrow> Core \<Rightarrow> Core \<times> bool" where
  "send_privmsg_locked target body c =
     (if \<not> is_valid_privmsg_target target \<or> body = [] then (c, False)
      else case send_trailing_body (''PRIVMSG '' @ target @ '' :'') body [] [] c of
        (c, sent) \<Rightarrow> (if sent then note_message_sent target c else c, sent))"

definition send_notice :: "string \<Rightarrow> string \<Rightarrow> Core \<Rightarrow> Core \<times> bool" where
  "send_notice target body c =
     (if target = [] \<or> body = [] then (c, False)
      else send_trailing_body (''NOTICE '' @ target @ '' :'') body [] [] c)"

definition send_action :: "string \<Rightarrow> string \<Rightarrow> Core \<Rightarrow> Core \<times> bool" where
  "send_action target body c =
     (if \<not> is_valid_privmsg_target target \<or> body = [] then (c, False)
      else case send_trailing_body (''PRIVMSG '' @ target @ '' :'' @ [CHR 0x01] @ ''ACTION '') body [CHR 0x01] [] c of
        (c, sent) \<Rightarrow> (if sent then note_message_sent target c else c, sent))"

definition send_channel_mode :: "IrcChannelModeRequest \<Rightarrow> Core \<Rightarrow> Core \<times> bool" where
  "send_channel_mode request c =
     (if mode_query request then send_command (''MODE '' @ mode_channel request) [] c
      else send_command (join_with '' '' ([''MODE'', mode_channel request, mode_modes request] @ mode_parameters request)) [] c)"

definition join_locked :: "IrcJoinTarget \<Rightarrow> Core \<Rightarrow> Core \<times> bool" where
  "join_locked target c =
     (if core_state c \<noteq> Registered then (c, False)
      else let channel = jt_channel target; key = or_empty (jt_key target) in
        case join_command channel key (core_features c) of
          Inl _ \<Rightarrow> (c, False)
        | Inr line \<Rightarrow>
            let c = (if has_key target
                     then c\<lparr>core_pending_join_keys := bt_insert (fold_channel c channel) key (core_pending_join_keys c)\<rparr>
                     else c)
            in (send_line line c, True))"

definition part :: "string \<Rightarrow> Core \<Rightarrow> Core \<times> bool" where
  "part channel c = (if channel = [] then (c, False) else send_command (''PART '' @ channel) [] c)"

definition kick :: "string \<Rightarrow> string \<Rightarrow> string \<Rightarrow> Core \<Rightarrow> Core \<times> bool" where
  "kick channel nick reason c =
     (if channel = [] \<or> nick = [] then (c, False)
      else send_command (if reason = [] then ''KICK '' @ channel @ '' '' @ nick
                         else ''KICK '' @ channel @ '' '' @ nick @ '' :'' @ reason) [] c)"

definition kickban :: "string \<Rightarrow> string \<Rightarrow> string \<Rightarrow> string \<Rightarrow> Core \<Rightarrow> Core \<times> bool" where
  "kickban channel list_mask nick reason c =
     (if channel = [] \<or> list_mask = [] \<or> nick = [] then (c, False)
      else case send_channel_mode \<lparr>mode_channel = channel, mode_modes = ''+b'', mode_parameters = [list_mask], mode_query = False\<rparr> c of
        (c, sent) \<Rightarrow> if \<not> sent then (c, False) else kick channel nick reason c)"

definition invite :: "string \<Rightarrow> string \<Rightarrow> Core \<Rightarrow> Core \<times> bool" where
  "invite nick channel c =
     (if nick = [] \<or> channel = [] then (c, False) else send_command (''INVITE '' @ nick @ '' '' @ channel) [] c)"

definition set_topic :: "string \<Rightarrow> string \<Rightarrow> Core \<Rightarrow> Core \<times> bool" where
  "set_topic channel topic c =
     (if channel = [] \<or> topic = [] then (c, False) else send_command (''TOPIC '' @ channel @ '' :'' @ topic) [] c)"

definition set_away_locked :: "string \<Rightarrow> Core \<Rightarrow> Core \<times> bool" where
  "set_away_locked reason c =
     (let trimmed = trim reason in
      if trimmed = [] then send_command ''AWAY'' [] c else send_command (''AWAY :'' @ trimmed) [] c)"

definition mark_away :: "string \<Rightarrow> Core \<Rightarrow> Core \<times> bool" where
  "mark_away reason c =
     (let trimmed = trim reason in
      if trimmed = [] then send_command ''AWAY :'' [] c else send_command (''AWAY :'' @ trimmed) [] c)"

definition change_nick :: "string \<Rightarrow> Core \<Rightarrow> Core \<times> bool" where
  "change_nick nick c = (if nick = [] then (c, False) else send_command (''NICK '' @ nick) [] c)"

definition whois :: "string \<Rightarrow> string \<Rightarrow> Core \<Rightarrow> Core \<times> bool" where
  "whois nick label c =
     (let trimmed = trim nick in
      if trimmed = [] then (c, False) else send_command (''WHOIS '' @ trimmed @ '' '' @ trimmed) label c)"

definition start_labeled_request :: "Core \<Rightarrow> Core \<times> string" where
  "start_labeled_request c =
     (if \<not> cap_contains (enabled (core_caps c)) LabeledResponse then (c, []) else begin_labeled_request c)"

definition send_list :: "string \<Rightarrow> Core \<Rightarrow> Core \<times> bool" where
  "send_list list_mask c =
     (let trimmed = trim list_mask in
      if (\<exists>ch \<in> set trimmed. ch = CR \<or> ch = LF) then (c, False)
      else if trimmed = [] then send_command ''LIST'' [] c else send_command (''LIST '' @ trimmed) [] c)"

definition send_raw :: "string \<Rightarrow> Core \<Rightarrow> Core \<times> bool" where
  "send_raw line c = send_command line [] c"

text \<open>The loop of \<open>send_monitor_locked\<close>: the nicks packed into the line so far, and those still to pack.\<close>

fun monitor_loop :: "string \<Rightarrow> string list \<Rightarrow> string list \<Rightarrow> Core \<Rightarrow> Core \<times> bool" where
  "monitor_loop prefix packed [] c =
     (if packed = [] then (c, False) else send_command (prefix @ join_with '','' packed) [] c)"
| "monitor_loop prefix packed (nick # nicks) c =
     (if nick = [] then (c, False)
      else if length (prefix @ join_with '','' (packed @ [nick])) + 2 > MAX_CLASSIC_FRAME_BYTES
      then (if packed = [] then (c, False)
            else case send_command (prefix @ join_with '','' packed) [] c of
              (c, sent) \<Rightarrow>
                if \<not> sent then (c, False)
                else if length prefix + length nick + 2 > MAX_CLASSIC_FRAME_BYTES then (c, False)
                else monitor_loop prefix [nick] nicks c)
      else monitor_loop prefix (packed @ [nick]) nicks c)"

definition send_monitor_locked :: "char \<Rightarrow> string list \<Rightarrow> Core \<Rightarrow> Core \<times> bool" where
  "send_monitor_locked modifier nicks c =
     (let mark = ascii_upper modifier in
      if mark \<in> set ''CLS'' then (if nicks \<noteq> [] then (c, False) else send_command (''MONITOR '' @ [mark]) [] c)
      else if mark \<notin> set ''+-'' then (c, False)
      else if nicks = [] then (c, False)
      else monitor_loop (''MONITOR '' @ [mark] @ '' '') [] nicks c)"

end
