(* ===== verification/SessionCaps.thy ===== *)
theory SessionCaps
  imports SessionOutbound
begin

text \<open>
  \<open>session/caps.rs\<close> and \<open>session/registration.rs\<close>: capability negotiation, SASL and the registration burst.
\<close>

definition SASL_SCRAM :: string where "SASL_SCRAM = ''SCRAM-SHA-256''"

definition scram_unverified :: "SaslState \<Rightarrow> bool" where
  "scram_unverified s \<longleftrightarrow>
     sasl_chosen s = Some SASL_SCRAM \<and> \<not> (case sasl_scram s of None \<Rightarrow> False | Some x \<Rightarrow> is_verified x)"

section \<open>Registration burst\<close>

definition send_registration :: "Core \<Rightarrow> Core" where
  "send_registration c =
     (if core_registration_sent c then c
      else let cfg = core_config c; features = core_features c;
               send_pass = cfg_password cfg \<noteq> [] \<and> (\<not> sasl_requested (core_sasl c) \<or> cfg_nickserv_password cfg \<noteq> [])
      in case (if send_pass then pass_command (cfg_password cfg) features else Inr [],
               nick_command (cfg_nick cfg) features,
               user_command (cfg_username cfg) (cfg_realname cfg) features) of
           (Inr pass_line, Inr nick_line, Inr user_line) \<Rightarrow>
             let c = (if send_pass then send_line pass_line c else c);
                 c = send_line user_line (send_line nick_line c)
             in session_set_state Registering (c\<lparr>core_registration_sent := True\<rparr>)
         | _ \<Rightarrow> fail Registration ''IRC registration fields contain invalid characters'' False c)"

definition try_registration_nick_fallback :: "Core \<Rightarrow> Core \<times> bool" where
  "try_registration_nick_fallback c =
     (if \<not> core_registration_sent c then (c, False)
      else case (case core_registration_nick c of
                   ConfiguredNick \<Rightarrow> Some (cfg_nick (core_config c) @ ''_'', UnderscoreNick)
                 | UnderscoreNick \<Rightarrow> Some (cfg_nick (core_config c) @ ''2'', DigitNick)
                 | DigitNick \<Rightarrow> None) of
             None \<Rightarrow> (c, False)
           | Some (fallback, next_nick) \<Rightarrow>
               (case nick_command fallback (core_features c) of
                  Inl _ \<Rightarrow> (c, False)
                | Inr line \<Rightarrow>
                    (send_line line (c\<lparr>core_registration_nick := next_nick, core_nickname := fallback\<rparr>), True)))"

section \<open>ISUPPORT\<close>

definition apply_isupport_token :: "Core \<Rightarrow> string \<Rightarrow> Core" where
  "apply_isupport_token c token =
     (let c = c\<lparr>core_features := apply_token (core_features c) token\<rparr> in
      case strip_prefix ''CHANTYPES='' token of
        Some value \<Rightarrow> c\<lparr>core_channel_types := value\<rparr>
      | None \<Rightarrow>
          (case strip_prefix ''CHATHISTORY='' token of
             None \<Rightarrow> c
           | Some value \<Rightarrow>
               (case parse_i64 value of
                  None \<Rightarrow> c
                | Some maximum \<Rightarrow>
                    c\<lparr>core_history_limit := if maximum > 0 then min HISTORY_LIMIT (nat maximum) else HISTORY_LIMIT\<rparr>)))"

definition apply_isupport :: "IrcMessage \<Rightarrow> Core \<Rightarrow> Core" where
  "apply_isupport message c =
     (if msg_command message \<noteq> ''005'' \<or> length (msg_params message) \<le> 2 then c
      else foldl apply_isupport_token c (map (text_param message) [1..<length (msg_params message) - 1]))"

section \<open>Negotiation\<close>

definition begin_capability_negotiation :: "Core \<Rightarrow> Core" where
  "begin_capability_negotiation c =
     (let c = send_line (''CAP LS 302'' @ [CR, LF]) (session_set_state CapLs c)
      in arm_timer RegistrationTimer (millis (registration_timeout_ms (core_config c))) c)"

definition end_capability_negotiation :: "Core \<Rightarrow> Core" where
  "end_capability_negotiation c =
     (if core_capability_negotiation_ended c \<or> core_state c = Registered then c
      else if \<not> core_registration_sent c \<or> \<not> settled (core_caps c) \<or> sasl_pending (core_sasl c) then c
      else send_line (''CAP END'' @ [CR, LF])
             (cancel_timer CapabilityTimer (c\<lparr>core_capability_negotiation_ended := True\<rparr>)))"

text \<open>A request that asks for SASL commits the mechanism, unless an exchange is already under way.\<close>

definition sasl_request :: "IrcCapabilityRequest \<Rightarrow> SaslState \<Rightarrow> SaslState" where
  "sasl_request request s =
     (if requests_sasl request
      then let s = s\<lparr>sasl_requested := True, sasl_pending := True\<rparr>
           in if exchange_started s then s else s\<lparr>sasl_chosen := sasl_mechanism request\<rparr>
      else s)"

definition request_capabilities :: "Core \<Rightarrow> Core" where
  "request_capabilities c =
     (let (caps, request) = take_request (core_caps c);
          c = c\<lparr>core_caps := caps, core_sasl := sasl_request request (core_sasl c)\<rparr>;
          c = (if req_lines request \<noteq> []
               then let c = (if \<not> core_registration_sent c then session_set_state CapReq c else c);
                        c = foldl (\<lambda>c line. send_line (''CAP REQ :'' @ line @ [CR, LF]) c) c (req_lines request)
                    in arm_timer CapabilityTimer (millis (capability_timeout_ms (core_config c))) c
               else c)
      in end_capability_negotiation (send_registration c))"

definition on_capability_timeout :: "Core \<Rightarrow> Core" where
  "on_capability_timeout c =
     (let (caps, abandoned) = abandon_outstanding (core_caps c);
          c = c\<lparr>core_caps := caps\<rparr>;
          c = (if cap_contains abandoned Sasl then c\<lparr>core_sasl := (core_sasl c)\<lparr>sasl_pending := False\<rparr>\<rparr> else c)
      in end_capability_negotiation (publish_capabilities c))"

text \<open>The spelling of the read-marker capability that an ACK grants: the first of the two in the line.\<close>

definition note_read_marker_ack :: "string list \<Rightarrow> IrcCapabilitySet \<Rightarrow> Core \<Rightarrow> Core" where
  "note_read_marker_ack toks granted c =
     (if \<not> cap_contains granted ReadMarker \<or> core_read_marker_token c \<noteq> None then c
      else case List.find (\<lambda>token. token = ''draft/read-marker'' \<or> token = ''soju.im/read'') toks of
        None \<Rightarrow> c
      | Some token \<Rightarrow> c\<lparr>core_read_marker_token := Some token\<rparr>)"

definition learn_metadata :: "session_env \<Rightarrow> string list \<Rightarrow> Core \<Rightarrow> Core" where
  "learn_metadata E toks c =
     (case parse_metadata_capability (env_unicode E) toks of None \<Rightarrow> c | Some m \<Rightarrow> c\<lparr>core_metadata := m\<rparr>)"

definition handle_cap_ls :: "session_env \<Rightarrow> IrcMessage \<Rightarrow> nat \<Rightarrow> Core \<Rightarrow> Core" where
  "handle_cap_ls E message ls_index c =
     (let toks = capability_tokens message ls_index;
          c = c\<lparr>core_capability_list_seen := True, core_caps := advertise (core_caps c) toks\<rparr>;
          c = (case parse_sts_advertisement toks of None \<Rightarrow> c | Some adv \<Rightarrow> c\<lparr>core_pending_sts := Some adv\<rparr>);
          c = learn_metadata E toks c
      in if length (msg_params message) > ls_index + 1 \<and> text_param message (ls_index + 1) = ''*'' then c
         else let c = handle_sts_advertisement E (core_pending_sts c) c
              in if core_state c = StsUpgrading then c else request_capabilities c)"

definition handle_cap_new :: "session_env \<Rightarrow> IrcMessage \<Rightarrow> nat \<Rightarrow> Core \<Rightarrow> Core" where
  "handle_cap_new E message new_index c =
     (let toks = capability_tokens message new_index;
          c = c\<lparr>core_caps := advertise (core_caps c) toks\<rparr>;
          c = handle_sts_advertisement E (parse_sts_advertisement toks) c;
          c = learn_metadata E toks c
      in if core_state c = StsUpgrading then c else request_capabilities c)"

definition handle_cap_del :: "IrcMessage \<Rightarrow> nat \<Rightarrow> Core \<Rightarrow> Core" where
  "handle_cap_del message del_index c =
     (let toks = capability_tokens message del_index;
          c = c\<lparr>core_caps := withdraw (core_caps c) toks\<rparr>;
          c = (case core_read_marker_token c of
                 None \<Rightarrow> c
               | Some token \<Rightarrow> if token \<in> set toks then c\<lparr>core_read_marker_token := None\<rparr> else c);
          c = publish_capabilities c;
          c = (if \<not> cap_contains (enabled (core_caps c)) MemberMetadata then c\<lparr>core_metadata := default_metadata\<rparr> else c);
          c = (if \<not> replay_enabled c Chat then abandon_history_requests c else c)
      in request_capabilities c)"

text \<open>The AUTHENTICATE dialogue opens: the state moves to SASL and a SCRAM exchange is prepared.\<close>

definition start_exchange :: "Core \<Rightarrow> Core" where
  "start_exchange c =
     (let c = session_set_state SaslAuth (c\<lparr>core_sasl := (core_sasl c)\<lparr>exchange_started := True\<rparr>\<rparr>)
      in if sasl_chosen (core_sasl c) = Some SASL_SCRAM
         then c\<lparr>core_sasl := (core_sasl c)\<lparr>sasl_scram := Some default_exchange\<rparr>\<rparr> else c)"

definition handle_cap_ack :: "session_env \<Rightarrow> IrcMessage \<Rightarrow> nat \<Rightarrow> Core \<Rightarrow> Core" where
  "handle_cap_ack E message ack_index c =
     (let toks = capability_tokens message ack_index;
          (caps, granted) = acknowledge (core_caps c) toks;
          c = note_read_marker_ack toks granted (c\<lparr>core_caps := caps\<rparr>);
          c = (case parse_metadata_capability (env_unicode E) toks of
                 None \<Rightarrow> c
               | Some m \<Rightarrow> if max_subs m \<noteq> None \<or> max_value_bytes m \<noteq> None then c\<lparr>core_metadata := m\<rparr> else c);
          c = publish_capabilities c
      in if cap_contains granted Sasl \<and> \<not> exchange_started (core_sasl c)
         then (if sasl_chosen (core_sasl c) = Some SASL_SCRAM
               then send_line (''AUTHENTICATE SCRAM-SHA-256'' @ [CR, LF]) (start_exchange c)
               else send_line (''AUTHENTICATE PLAIN'' @ [CR, LF]) (start_exchange c))
         else end_capability_negotiation
                (if core_state c = Registered then subscribe_to_member_metadata c else c))"

definition handle_cap_nak :: "IrcMessage \<Rightarrow> nat \<Rightarrow> Core \<Rightarrow> Core" where
  "handle_cap_nak message nak_index c =
     (let (caps, refused) = reject (core_caps c) (capability_tokens message nak_index);
          c = c\<lparr>core_caps := caps\<rparr>
      in if cap_contains refused Sasl
         then fail Authentication ''Server rejected the SASL capability'' False
                (c\<lparr>core_sasl := (core_sasl c)\<lparr>sasl_pending := False\<rparr>\<rparr>)
         else request_capabilities c)"

definition handle_cap :: "session_env \<Rightarrow> IrcMessage \<Rightarrow> Core \<Rightarrow> Core" where
  "handle_cap E message c =
     (case param_index message ''LS'' of
        Some ls_index \<Rightarrow> handle_cap_ls E message ls_index c
      | None \<Rightarrow>
          if \<not> core_capability_list_seen c then c
          else case param_index message ''NEW'' of
            Some new_index \<Rightarrow> handle_cap_new E message new_index c
          | None \<Rightarrow>
              (case param_index message ''DEL'' of
                 Some del_index \<Rightarrow> handle_cap_del message del_index c
               | None \<Rightarrow>
                   (case param_index message ''ACK'' of
                      Some ack_index \<Rightarrow> handle_cap_ack E message ack_index c
                    | None \<Rightarrow>
                        (case param_index message ''NAK'' of
                           Some nak_index \<Rightarrow> handle_cap_nak message nak_index c
                         | None \<Rightarrow> c))))"

section \<open>SASL\<close>

definition send_sasl_response :: "session_env \<Rightarrow> bytes \<Rightarrow> Core \<Rightarrow> Core" where
  "send_sasl_response E raw c = foldl (\<lambda>c frame. send_line frame c) c (encode_sasl_frames (env_crypto E) raw)"

definition handle_scram_authenticate :: "session_env \<Rightarrow> bytes \<Rightarrow> Core \<Rightarrow> Core" where
  "handle_scram_authenticate E payload c =
     (case sasl_scram (core_sasl c) of
        None \<Rightarrow> c
      | Some exchange \<Rightarrow>
          (case take_payload (env_crypto E) (sasl_account_name (core_config c)) (sasl_secret (core_config c))
                  (core_random c) exchange payload of
             (exchange', reply) \<Rightarrow>
               let c = c\<lparr>core_sasl := (core_sasl c)\<lparr>sasl_scram := Some exchange'\<rparr>\<rparr> in
               case reply of
                 Send raw \<Rightarrow> send_sasl_response E raw c
               | Continue \<Rightarrow> c
               | Fail \<Rightarrow> fail Authentication ''SASL authentication failed'' False c))"

definition handle_authenticate :: "session_env \<Rightarrow> IrcMessage \<Rightarrow> Core \<Rightarrow> Core" where
  "handle_authenticate E message c =
     (if core_state c \<noteq> SaslAuth \<or> msg_params message = [] then c
      else let front = text_param message 0 in
        if front = ''*'' then fail Authentication ''Server aborted SASL authentication'' False c
        else if sasl_chosen (core_sasl c) = Some SASL_SCRAM then handle_scram_authenticate E front c
        else if front \<noteq> ''+'' then c
        else let account = sasl_account_name (core_config c)
             in send_sasl_response E (account @ [NUL] @ account @ [NUL] @ sasl_secret (core_config c)) c)"

definition handle_sasl_success :: "Core \<Rightarrow> Core" where
  "handle_sasl_success c =
     (if core_state c \<noteq> SaslAuth then c
      else if \<not> sasl_pending (core_sasl c) then c
      else if scram_unverified (core_sasl c) then fail Authentication ''SASL authentication failed'' False c
      else session_set_state Registering (end_capability_negotiation
             (c\<lparr>core_sasl := (core_sasl c)\<lparr>sasl_pending := False, sasl_succeeded := True\<rparr>\<rparr>)))"

section \<open>Welcome\<close>

definition REGISTRATION_TIMEOUT_MESSAGE :: string where
  "REGISTRATION_TIMEOUT_MESSAGE = ''The server didn'' @ [CHR 0x27] @ ''t respond''"

definition join_autojoin_channel :: "Core \<Rightarrow> string \<Rightarrow> Core" where
  "join_autojoin_channel c channel =
     (let (c, joined) =
        (case make_join_target channel (autojoin_key_for c channel) new_features of
           Some target \<Rightarrow> join_locked target c
         | None \<Rightarrow> (c, False))
      in if \<not> joined then emit (ErrorOccurred (core_network_id c) Protocol ''Invalid autojoin channel'') c else c)"

definition identify_with_nickserv :: "Core \<Rightarrow> Core" where
  "identify_with_nickserv c =
     (let cfg = core_config c in
      if cfg_nickserv_password cfg \<noteq> [] \<and> \<not> sasl_succeeded (core_sasl c) \<and> sasl_chosen (core_sasl c) \<noteq> Some SASL_SCRAM
      then let c = (if \<not> core_tls_enabled c
                    then emit (Lifecycle (core_network_id c) Alert ''identify''
                                 ''NickServ identify will be sent in clear text'' (core_now c)) c
                    else c)
           in fst (send_privmsg_locked ''NickServ'' (''IDENTIFY '' @ cfg_nickserv_password cfg) c)
      else c)"

definition register_session :: "Core \<Rightarrow> Core" where
  "register_session c =
     (let c = session_set_state Registered c
      in arm_ping_watchdog (emit (RegisteredEvent (core_network_id c)) c))"

definition handle_welcome :: "IrcMessage \<Rightarrow> Core \<Rightarrow> Core" where
  "handle_welcome message c =
     (if core_state c = Registered \<or> core_state c = Failed then c
      else if sasl_chosen (core_sasl c) = Some SASL_SCRAM \<and> \<not> sasl_succeeded (core_sasl c)
              \<and> (sasl_pending (core_sasl c) \<or> core_state c = SaslAuth \<or> exchange_started (core_sasl c))
      then fail Authentication ''SASL authentication failed'' False c
      else
        let assigned = text_param message 0;
            c = (if assigned \<noteq> [] then c\<lparr>core_nickname := assigned\<rparr> else c);
            c = c\<lparr>core_connection := reset_retries (core_connection c)\<rparr>;
            c = cancel_timer RegistrationTimer (cancel_timer CapabilityTimer c);
            c = c\<lparr>core_caps := fst (abandon_outstanding (core_caps c))\<rparr>;
            c = identify_with_nickserv (subscribe_to_member_metadata (register_session c))
        in foldl join_autojoin_channel c (core_autojoin_channels c))"

definition on_registration_timeout :: "Core \<Rightarrow> Core" where
  "on_registration_timeout c =
     (if core_state c = Registered \<or> core_state c = Failed then c
      else fail Network REGISTRATION_TIMEOUT_MESSAGE True c)"

end
