(* ===== verification/SessionDispatch.thy ===== *)
theory SessionDispatch
  imports SessionCaps
begin

text \<open>
  \<open>session/dispatch.rs\<close>, \<open>session/sink.rs\<close> and the routing of \<open>session/timers.rs\<close>: what an inbound message, a
  transport callback and an expired timer do.
\<close>

section \<open>Messages\<close>

definition correlation_label :: "Core \<Rightarrow> IrcMessage \<Rightarrow> string" where
  "correlation_label c message =
     (let label = or_empty (tag_text message ''label'') in
      if label \<noteq> [] then label
      else let batch = or_empty (tag_text message ''batch'') in
        if batch = [] then []
        else case bt_get (open_batches (core_batches c)) batch of
               None \<Rightarrow> [] | Some frame \<Rightarrow> batch_request_label frame)"

definition registration_handshake :: "Core \<Rightarrow> bool" where
  "registration_handshake c \<longleftrightarrow>
     core_state c \<in> {Connecting, StsUpgrading, CapLs, CapReq, SaslAuth, Registering}"

definition probe_channel_away :: "string \<Rightarrow> Core \<Rightarrow> Core" where
  "probe_channel_away channel c =
     (if channel = [] \<or> \<not> cap_contains (enabled (core_caps c)) AwayNotify then c
      else fst (send_command (''WHO '' @ channel) [] c))"

definition server_sentence_or :: "session_env \<Rightarrow> Core \<Rightarrow> IrcMessage \<Rightarrow> string \<Rightarrow> string" where
  "server_sentence_or E c message fallback =
     (case registration_sentence message of
        None \<Rightarrow> fallback
      | Some reason \<Rightarrow>
          if \<not> allows_transcript (env_unicode E) reason (core_channel_types c) then fallback
          else if redact_preview_line (env_unicode E) reason (core_channel_types c) \<noteq> None then fallback
          else reason)"

definition is_registration_refusal :: "string \<Rightarrow> bool" where
  "is_registration_refusal command \<longleftrightarrow>
     command \<in> set [''432'', ''433'', ''436'', ''437'', ''451'', ''462'', ''465'']"

definition note_invite :: "IrcMessage \<Rightarrow> Core \<Rightarrow> Core" where
  "note_invite message c =
     (if msg_command message = ''INVITE'' \<and> length (msg_params message) \<ge> 2
      then let nick = prefix_nick message; channel = text_param message (length (msg_params message) - 1) in
        if nick \<noteq> [] \<and> channel \<noteq> [] then c\<lparr>core_pending_invite := Some \<lparr>invite_nick = nick, invite_channel = channel\<rparr>\<rparr>
        else c
      else c)"

definition note_nick_change :: "IrcMessage \<Rightarrow> Core \<Rightarrow> Core" where
  "note_nick_change message c =
     (if msg_command message = ''NICK''
      then let old_nick = claimed_nick message; new_nick = text_param message 0 in
        if old_nick \<noteq> [] \<and> new_nick \<noteq> [] \<and> nicks_equal c old_nick (core_nickname c) then c\<lparr>core_nickname := new_nick\<rparr>
        else c
      else c)"

definition leave_channel :: "string \<Rightarrow> Core \<Rightarrow> Core" where
  "leave_channel channel c =
     (if channel = [] then c
      else record_autojoin channel False (forget_channel_history channel (bump_history_generation channel c)))"

definition join_channel :: "session_env \<Rightarrow> string \<Rightarrow> Core \<Rightarrow> Core" where
  "join_channel E channel c =
     (if channel = [] then c
      else let c = record_autojoin channel True (request_channel_history E channel (bump_history_generation channel c)) in
        case core_pending_invite c of
          None \<Rightarrow> c
        | Some pending_inv \<Rightarrow>
            if fold_channel c channel = fold_channel c (invite_channel pending_inv) then c\<lparr>core_pending_invite := None\<rparr> else c)"

text \<open>The last part of \<open>handle_message\<close>: what is left once no handler has consumed the message.\<close>

definition finish_message :: "session_env \<Rightarrow> IrcMessage \<Rightarrow> Core \<Rightarrow> Core" where
  "finish_message E message c =
     (let command = msg_command message;
          c = note_nick_change message c;
          c = (if command = ''FAIL'' then handle_read_marker_fail E message (handle_chat_history_fail message c) else c);
          c = (if command = ''366'' \<and> length (msg_params message) \<ge> 2 then probe_channel_away (text_param message 1) c else c);
          c = emit_message_received message c;
          self = self_prefixed c message;
          c = (if command = ''JOIN'' \<and> self then join_channel E (text_param message 0) c
               else if command = ''PART'' \<and> self then leave_channel (text_param message 0) c
               else if command = ''KICK'' \<and> is_self c (text_param message 1) then leave_channel (text_param message 0) c
               else if command = ''475'' \<and> length (msg_params message) \<ge> 2
               then drop_stored_autojoin_key (text_param message 1) c
               else c);
          carried_label = or_empty (tag_text message ''label'')
      in if carried_label \<noteq> [] then finish_request_label carried_label c else c)"

text \<open>The middle part: registration refusals and ERROR, then the rest.\<close>

definition refuse_or_finish :: "session_env \<Rightarrow> IrcMessage \<Rightarrow> Core \<Rightarrow> Core" where
  "refuse_or_finish E message c =
     (let command = msg_command message in
      if is_registration_refusal command \<and> core_state c \<noteq> Registered
      then let (c, tried) = (if command = ''433'' then try_registration_nick_fallback c else (c, False))
           in if tried then c
              else fail Registration
                     (server_sentence_or E c message (''IRC registration was refused ('' @ wire_text command @ '')'')) False c
      else if command = ''ERROR''
      then let c = emit_message_received message c;
               text = server_sentence_or E c message ''IRC server reported an error''
           in if registration_handshake c then fail Registration text False c else fail Network text True c
      else finish_message E message c)"

definition route_command :: "session_env \<Rightarrow> IrcMessage \<Rightarrow> Core \<Rightarrow> Core" where
  "route_command E message c =
     (let command = msg_command message in
      if command = ''CAP'' then handle_cap E message c
      else if command = ''AUTHENTICATE'' then handle_authenticate E message c
      else if command = ''001'' then handle_welcome message c
      else if command = ''903'' then handle_sasl_success c
      else if command = ''774'' then handle_metadata_sync_later message c
      else if command = ''904'' \<or> command = ''905'' then fail Authentication ''SASL authentication failed'' False c
      else if command = ''421'' \<and> param_index message ''CAP'' \<noteq> None \<and> core_state c = CapLs
      then send_registration (cancel_timer CapabilityTimer (c\<lparr>core_capability_negotiation_ended := True\<rparr>))
      else if command = ''464'' then fail Authentication ''Server password or authentication was rejected'' False c
      else refuse_or_finish E message c)"

text \<open>After the batch and label routing: the protocol replies, then the commands.\<close>

definition answer_or_route :: "session_env \<Rightarrow> IrcMessage \<Rightarrow> Core \<Rightarrow> Core" where
  "answer_or_route E message c =
     (let command = msg_command message in
      if command = ''ACK'' then finish_request_label (or_empty (tag_text message ''label'')) c
      else if command = ''PING''
      then (if msg_params message = []
            then emit (ErrorOccurred (core_network_id c) Protocol ''PING message has no token'') c
            else send_line (''PONG :'' @ last (msg_params message) @ [CR, LF]) c)
      else if command = ''PONG'' \<and> answers_probe (core_ping c) message then arm_ping_watchdog c
      else let (c, consumed) = deliver_read_marker E message c in
        if consumed then c
        else let (c, answered) =
               (if command = ''PRIVMSG'' \<and> length (msg_params message) \<ge> 2 \<and> nicks_equal c (text_param message 0) (core_nickname c)
                then answer_ctcp E message c else (c, False))
             in if answered then c else route_command E message c)"

definition handle_message :: "session_env \<Rightarrow> IrcMessage \<Rightarrow> Core \<Rightarrow> Core" where
  "handle_message E message c =
     (if (case core_ignore_filter c of None \<Rightarrow> False | Some drop_it \<Rightarrow> drop_it message (core_network_id c) (core_nickname c))
      then c
      else
        let command = msg_command message;
            c = note_invite message c;
            c = emit (Inbound (core_network_id c) message (correlation_label c message) (core_nickname c)
                        (core_channel_types c) (core_now c)) c;
            c = apply_isupport message c;
            c = (if command = ''376'' \<or> command = ''422''
                 then c\<lparr>core_features := mark_case_mapping_known (core_features c)\<rparr> else c)
        in if command = ''BATCH'' then handle_batch E message c
           else let (c, captured) = capture_in_batch message c
                in if captured then c else answer_or_route E message c)"

section \<open>Bytes\<close>

definition emit_protocol_error :: "session_env \<Rightarrow> string \<Rightarrow> IrcError \<Rightarrow> bytes \<Rightarrow> nat \<Rightarrow> Core \<Rightarrow> Core" where
  "emit_protocol_error E what err preview byte_count c =
     emit (ErrorOccurred (core_network_id c) Protocol
       (describe_malformed (env_unicode E) what err preview byte_count (core_channel_types c))) c"

fun handle_frames :: "session_env \<Rightarrow> bytes list \<Rightarrow> Core \<Rightarrow> Core" where
  "handle_frames E [] c = c"
| "handle_frames E (frame # rest) c =
     (if core_state c = StsUpgrading then c
      else handle_frames E rest
        (case parse frame of
           Inr message \<Rightarrow> handle_message E message c
         | Inl err \<Rightarrow> emit_protocol_error E ''message'' err frame (length frame) c))"

definition handle_bytes :: "session_env \<Rightarrow> bytes \<Rightarrow> Core \<Rightarrow> Core" where
  "handle_bytes E bytes c =
     (let c = (if core_ping c = PingWatching then arm_ping_watchdog c else c);
          (framer, result) = feed (core_framer c) bytes;
          c = c\<lparr>core_framer := framer\<rparr>;
          c = foldl (\<lambda>c fault. emit_protocol_error E ''frame'' (fault_error fault) (fault_preview fault) (fault_byte_count fault) c)
                c (faults result)
      in handle_frames E (frames result) c)"

section \<open>Transport callbacks\<close>

datatype TransportErrorKind = ResolveError | NetworkError | TimeoutError | TlsError | CertificateError

definition awaiting_socket :: "Core \<Rightarrow> bool" where
  "awaiting_socket c \<longleftrightarrow> core_state c = Connecting \<or> core_state c = StsUpgrading"

definition on_connected :: "Core \<Rightarrow> Core" where
  "on_connected c = (if \<not> core_tls_enabled c \<and> awaiting_socket c then begin_capability_negotiation c else c)"

definition on_encrypted :: "Core \<Rightarrow> Core" where
  "on_encrypted c = (if core_tls_enabled c \<and> awaiting_socket c then begin_capability_negotiation c else c)"

definition on_disconnected :: "session_env \<Rightarrow> Core \<Rightarrow> Core" where
  "on_disconnected E c =
     (let (connection, outcome) = on_disconnect (core_state c) (core_connection c);
          c = c\<lparr>core_connection := connection\<rparr>
      in if outcome = FinishStsUpgrade then finish_sts_upgrade c
         else let c = reschedule_sts_expiry E c in
           case outcome of
             ScheduleReconnect \<Rightarrow> schedule_reconnect c
           | SettleIdle \<Rightarrow> session_set_state Idle c
           | FailUnexpected \<Rightarrow> fail Network ''Connection closed by the server'' True c
           | _ \<Rightarrow> c)"

definition transport_error_kind :: "TransportErrorKind \<Rightarrow> ErrorKind" where
  "transport_error_kind k = (if k = TlsError \<or> k = CertificateError then Tls else Network)"

definition error_occurred :: "TransportErrorKind \<Rightarrow> string \<Rightarrow> Core \<Rightarrow> Core" where
  "error_occurred k message c =
     (if is_stopping (core_connection c) then c else fail (transport_error_kind k) message True c)"

section \<open>Timers\<close>

definition timer_fired :: "session_env \<Rightarrow> TimerSlot \<Rightarrow> nat \<Rightarrow> Core \<Rightarrow> Core" where
  "timer_fired E slot fired c =
     (if \<not> (case core_timers c slot of None \<Rightarrow> False | Some armed \<Rightarrow> timer_id armed = fired) then c
      else let c = c\<lparr>core_timers := (core_timers c)(slot := None)\<rparr> in
        case slot of
          ReconnectTimer \<Rightarrow> begin_reconnect_attempt E c
        | CapabilityTimer \<Rightarrow> on_capability_timeout c
        | RegistrationTimer \<Rightarrow> on_registration_timeout c
        | PingTimer \<Rightarrow> on_ping_watchdog_fired c
        | LabelTimer \<Rightarrow> on_label_timer_fired c)"

end
