(* ===== verification/SessionInvariant.thy ===== *)
theory SessionInvariant
  imports SessionDispatch
begin

text \<open>
  How invariants of a session are proved. A session changes by a fixed set of primitive transitions: it queues an
  event or an effect, assigns a field that no invariant reads, moves between states, arms or cancels a timer, opens
  or ends a labeled request, fails, starts, stops. The locales \<open>session_ledgers\<close> and \<open>core_invariant\<close> state
  what an invariant owes for each primitive, and it is shown once that every handler, every writer and every callback
  then preserves it. An invariant of the ledgers alone owes the shorter \<open>ledger_invariant\<close>, which is a special case.
  The interpretations are in the theories that state the invariants.
\<close>

section \<open>Entry points\<close>

definition finished_labels :: "SessionEvent \<Rightarrow> string list" where
  "finished_labels event = (case event of RequestLabelFinished _ label \<Rightarrow> [label] | _ \<Rightarrow> [])"

declare finished_labels_def [simp]

text \<open>One call from the owner, the transport or the clock, or one change of what the session reads from them.\<close>

inductive session_step :: "session_env \<Rightarrow> Core \<Rightarrow> Core \<Rightarrow> bool" for E where
  step_start: "session_step E c (start E c)"
| step_stop: "session_step E c (stop E c)"
| step_quit: "session_step E c (fst (quit E reason c))"
| step_settle: "session_step E c (settle_stop c)"
| step_reachable: "session_step E c (begin_reconnect_attempt E c)"
| step_connected: "session_step E c (on_connected c)"
| step_encrypted: "session_step E c (on_encrypted c)"
| step_disconnected: "session_step E c (on_disconnected E c)"
| step_error: "session_step E c (error_occurred k message c)"
| step_bytes: "session_step E c (handle_bytes E bytes c)"
| step_timer: "session_step E c (timer_fired E slot fired c)"
| step_sync: "session_step E c (metadata_sync_fired target c)"
| step_privmsg: "session_step E c (fst (send_privmsg_locked target body c))"
| step_notice: "session_step E c (fst (send_notice target body c))"
| step_action: "session_step E c (fst (send_action target body c))"
| step_ctcp: "session_step E c (fst (send_ctcp E target command argument label c))"
| step_typing: "session_step E c (fst (send_typing target ph c))"
| step_mode: "session_step E c (fst (send_channel_mode request c))"
| step_join: "session_step E c (fst (join_locked join c))"
| step_part: "session_step E c (fst (part channel c))"
| step_kick: "session_step E c (fst (kick channel nick reason c))"
| step_kickban: "session_step E c (fst (kickban channel ban_mask nick reason c))"
| step_invite: "session_step E c (fst (invite nick channel c))"
| step_topic: "session_step E c (fst (set_topic channel topic c))"
| step_away: "session_step E c (fst (set_away_locked reason c))"
| step_mark_away: "session_step E c (fst (mark_away reason c))"
| step_metadata: "session_step E c (fst (set_own_metadata key value c))"
| step_nick: "session_step E c (fst (change_nick nick c))"
| step_whois: "session_step E c (fst (whois nick label c))"
| step_label: "session_step E c (fst (start_labeled_request c))"
| step_cancel: "session_step E c (drop_request_label label c)"
| step_monitor: "session_step E c (fst (send_monitor_locked modifier nicks c))"
| step_list: "session_step E c (fst (send_list list_mask c))"
| step_raw: "session_step E c (fst (send_raw line c))"
| step_older: "session_step E c (fst (request_older_history E target before_id stamp c))"
| step_after: "session_step E c (fst (request_history_after E target after c))"
| step_latest: "session_step E c (fst (request_history_latest target c))"
| step_targets: "session_step E c (fst (request_history_targets E from_time until_time c))"
| step_marker_get: "session_step E c (fst (request_read_marker_get target c))"
| step_marker_set: "session_step E c (queue_read_marker_set E target stamp c)"
| step_filter: "session_step E c (c\<lparr>core_ignore_filter := drop_it\<rparr>)"
| step_resume: "session_step E c (c\<lparr>core_history_resume := resume\<rparr>)"
| step_log: "session_step E c (c\<lparr>core_received_log := log\<rparr>)"
| step_effects: "session_step E c (c\<lparr>core_effects := []\<rparr>)"
| step_clock: "core_now c \<le> t \<Longrightarrow> session_step E c (c\<lparr>core_now := t\<rparr>)"
| step_transport: "session_step E c (c\<lparr>core_transport_state := ts\<rparr>)"
| step_random: "session_step E c (c\<lparr>core_random := random\<rparr>)"
| step_page_cap: "session_step E c (c\<lparr>core_history := (core_history c)\<lparr>hl_after_page_cap := cap\<rparr>\<rparr>)"
| step_store: "session_step E c (c\<lparr>core_sts := store\<rparr>)"

inductive session_reachable :: "session_env \<Rightarrow> Core \<Rightarrow> bool" for E where
  reach_new: "session_reachable E (new_core config store)"
| reach_step: "session_reachable E c \<Longrightarrow> session_step E c c' \<Longrightarrow> session_reachable E c'"

inductive_cases session_stepE: "session_step E c c'"

section \<open>The obligations of an invariant\<close>

text \<open>
  \<open>batches_good\<close> is what the invariant says of the open and the ignored batches, \<open>pending_good\<close> what it says of
  the generations and the pending history requests, \<open>I\<close> the whole of it.
\<close>

locale session_ledgers =
  fixes E :: session_env and I :: "Core \<Rightarrow> bool"
    and batches_good :: "(string, OpenBatch) btree_map \<Rightarrow> string btree_set \<Rightarrow> bool"
    and pending_good :: "(string, nat) btree_map \<Rightarrow> (string, nat) btree_map \<Rightarrow> (string, HistoryRequestKind) btree_map \<Rightarrow> bool"
  assumes inv_new: "I (new_core config store)"
    and frame [simp]:
      "I (core_now_update u_now c) = I c"
      "I (core_transport_state_update u_transport_state c) = I c"
      "I (core_random_update u_random c) = I c"
      "I (core_port_update u_port c) = I c"
      "I (core_tls_enabled_update u_tls_enabled c) = I c"
      "I (core_nickname_update u_nickname c) = I c"
      "I (core_channel_types_update u_channel_types c) = I c"
      "I (core_features_update u_features c) = I c"
      "I (core_history_limit_update u_history_limit c) = I c"
      "I (core_autojoin_channels_update u_autojoin_channels c) = I c"
      "I (core_autojoin_keys_update u_autojoin_keys c) = I c"
      "I (core_pending_join_keys_update u_pending_join_keys c) = I c"
      "I (core_caps_update u_caps c) = I c"
      "I (core_read_marker_token_update u_read_marker_token c) = I c"
      "I (core_metadata_update u_metadata c) = I c"
      "I (core_published_caps_update u_published_caps c) = I c"
      "I (core_typing_update u_typing c) = I c"
      "I (core_framer_update u_framer c) = I c"
      "I (core_read_markers_update u_read_markers c) = I c"
      "I (core_ctcp_reply_clock_update u_ctcp_reply_clock c) = I c"
      "I (core_registration_sent_update u_registration_sent c) = I c"
      "I (core_registration_nick_update u_registration_nick c) = I c"
      "I (core_capability_negotiation_ended_update u_capability_negotiation_ended c) = I c"
      "I (core_capability_list_seen_update u_capability_list_seen c) = I c"
      "I (core_pending_sts_update u_pending_sts c) = I c"
      "I (core_sts_duration_update u_sts_duration c) = I c"
      "I (core_sts_update u_sts c) = I c"
      "I (core_ignore_filter_update u_ignore_filter c) = I c"
      "I (core_pending_invite_update u_pending_invite c) = I c"
      "I (core_history_resume_update u_history_resume c) = I c"
      "I (core_sync_timers_update u_sync_timers c) = I c"
      "I (core_effects_update u_effects c) = I c"
      "I (core_received_log_update u_received_log c) = I c"
    and inv_emit [simp]: "finished_labels event = [] \<Longrightarrow> I (emit event c) = I c"
    and inv_effect [simp]: "I (push_effect effect c) = I c"
    and inv_begin_label [simp]: "I c \<Longrightarrow> I (fst (begin_labeled_request c))"
    and inv_drop_label [simp]: "I c \<Longrightarrow> I (drop_request_label label c)"
    and inv_finish_label [simp]: "I c \<Longrightarrow> I (finish_request_label label c)"
    and inv_expire_labels: "I c \<Longrightarrow> I (on_label_timer_fired (cancel_timer LabelTimer c))"
    and inv_batches [simp]: "I c \<Longrightarrow> batches_good (open_batches (core_batches c)) (ignored_batches (core_batches c))"
    and inv_set_batches [simp]: "I c \<Longrightarrow> batches_good (open_batches b) (ignored_batches b) \<Longrightarrow> I (c\<lparr>core_batches := b\<rparr>)"
    and good_close [simp]: "batches_good opened dropped \<Longrightarrow> batches_good (bt_remove r opened) dropped"
    and good_unignore [simp]: "batches_good opened dropped \<Longrightarrow> batches_good opened (bs_remove r dropped)"
    and good_ignore [simp]: "batches_good opened dropped \<Longrightarrow> length dropped < MAX_IGNORED_BATCHES \<Longrightarrow>
      batches_good opened (bs_insert r dropped)"
    and good_open [simp]: "batches_good opened dropped \<Longrightarrow> hb_lines (collected f) = [] \<Longrightarrow>
      batches_good (bt_insert r f opened) dropped"
    and good_capture [simp]: "batches_good opened dropped \<Longrightarrow> bt_get opened r = Some f \<Longrightarrow>
      batches_good (bt_insert r (capture_line captured f) opened) dropped"
    and inv_history [simp]: "I c \<Longrightarrow> pending_good (hl_generation (core_history c)) (hl_pending (core_history c)) (hl_pending_kind (core_history c))"
    and inv_set_history [simp]: "I c \<Longrightarrow> pending_good (hl_generation h) (hl_pending h) (hl_pending_kind h) \<Longrightarrow> I (c\<lparr>core_history := h\<rparr>)"
    and good_drop [simp]: "pending_good G P K \<Longrightarrow> pending_good G (bt_remove key P) (bt_remove key K)"
    and good_none [simp]: "pending_good G P K \<Longrightarrow> pending_good G [] []"
    and good_pending [simp]: "pending_good G P K \<Longrightarrow> g = (case bt_get G key of None \<Rightarrow> 0 | Some n \<Rightarrow> n) \<Longrightarrow>
      pending_good G (bt_insert key g P) (bt_insert key request K)"
    and good_bump [simp]: "pending_good G P K \<Longrightarrow> pending_good (bt_insert key g G) (bt_remove key P) (bt_remove key K)"
begin

lemma inv_foldl: "I c \<Longrightarrow> (\<And>c x. I c \<Longrightarrow> x \<in> set xs \<Longrightarrow> I (f c x)) \<Longrightarrow> I (foldl f c xs)"
  by (rule foldl_invariant)

lemma inv_caps_sasl [simp]: "I (c\<lparr>core_caps := caps, core_sasl := s\<rparr>) = I (c\<lparr>core_sasl := s\<rparr>)"
proof -
  have "c\<lparr>core_caps := caps, core_sasl := s\<rparr> = (c\<lparr>core_sasl := s\<rparr>)\<lparr>core_caps := caps\<rparr>"
    by simp
  then show ?thesis
    by (simp only: frame)
qed

section \<open>Lines\<close>

lemma inv_send_line [simp]: "I (send_line line c) = I c"
  by (simp add: send_line_def)

lemma inv_send_command [simp]: "I (fst (send_command command label c)) = I c"
  by (simp add: send_command_def Let_def split: sum.splits)

lemma inv_send_chunks [simp]: "I c \<Longrightarrow> I (fst (send_chunks prefix suffix label chunks c))"
  by (induction chunks arbitrary: c) (simp_all add: split_beta)

lemma inv_send_trailing [simp]: "I c \<Longrightarrow> I (fst (send_trailing_body prefix body suffix label c))"
  by (simp add: send_trailing_body_def split: option.splits)

lemma inv_received [simp]: "I (emit_message_received message c) = I c"
  by (simp add: emit_message_received_def)

lemma inv_publish [simp]: "I (publish_capabilities c) = I c"
  by (simp add: publish_capabilities_def Let_def)

section \<open>Batches and history\<close>

lemma inv_ignore_batch [simp]: "I c \<Longrightarrow> I (ignore_batch reference c)"
  by (simp add: ignore_batch_def Let_def)

lemma inv_drop_history_batches [simp]: "I c \<Longrightarrow> I (drop_history_batches channel c)"
  unfolding drop_history_batches_def Let_def by (auto intro!: inv_foldl)

lemma inv_bump [simp]: "I c \<Longrightarrow> I (bump_history_generation channel c)"
  by (simp add: bump_history_generation_def drop_pending_def Let_def)

lemma inv_clear_pending [simp]: "I c \<Longrightarrow> I (clear_history_pending channel c)"
  by (simp add: clear_history_pending_def drop_pending_def)

lemma inv_forget_channel [simp]: "I c \<Longrightarrow> I (forget_channel_history channel c)"
  by (simp add: forget_channel_history_def drop_pending_def Let_def)

lemma inv_abandon [simp]: "I c \<Longrightarrow> I (abandon_history_requests c)"
proof -
  assume "I c"
  then have "I (foldl (\<lambda>c target. drop_history_batches target c) c targets)" for targets
    by (rule inv_foldl) simp
  then show ?thesis
    unfolding abandon_history_requests_def Let_def by (intro inv_set_history) (auto intro: good_none inv_history)
qed

lemma inv_request_latest [simp]: "I c \<Longrightarrow> I (fst (request_history_latest target c))"
  by (simp add: request_history_latest_def put_pending_def history_generation_def Let_def split_beta)

lemma inv_clear_attempt [simp]: "I c \<Longrightarrow> I (clear_history_after_attempt key c)"
  by (simp add: clear_history_after_attempt_def Let_def)

lemma inv_history_page [simp]: "I c \<Longrightarrow> I (fst (send_history_page E verb request target cursor c))"
  by (simp add: send_history_page_def put_pending_def history_generation_def Let_def split_beta split: option.split)

lemma inv_request_after [simp]: "I c \<Longrightarrow> I (fst (request_history_after E target after c))"
  by (simp add: request_history_after_def send_history_after_def Let_def)

lemma inv_request_channel [simp]: "I c \<Longrightarrow> I (request_channel_history E channel c)"
  by (simp add: request_channel_history_def Let_def split_beta split: option.split)

lemma inv_chain [simp]: "I c \<Longrightarrow> I (maybe_chain_history_after E target batch ended c)"
  by (simp add: maybe_chain_history_after_def send_history_after_def send_history_latest_bound_def Let_def)

lemma inv_request_targets [simp]: "I c \<Longrightarrow> I (fst (request_history_targets E from_time until_time c))"
  by (simp add: request_history_targets_def Let_def split_beta)

lemma inv_request_older [simp]: "I c \<Longrightarrow> I (fst (request_older_history E target before_id stamp c))"
  by (simp add: request_older_history_def put_pending_def drop_pending_def history_generation_def Let_def split_beta
      split: option.split)

lemma inv_history_fail_loop [simp]: "I c \<Longrightarrow> I (history_fail_loop message indices c)"
  by (induction indices) (simp_all add: Let_def drop_pending_def)

lemma inv_chat_history_fail [simp]: "I c \<Longrightarrow> I (handle_chat_history_fail message c)"
  by (simp add: handle_chat_history_fail_def)

lemma open_frame_empty [simp]: "hb_lines (collected (open_frame message reference parent history_kind c)) = []"
  by (simp add: open_frame_def default_open_batch_def default_history_batch_def Let_def)

lemma inv_open_batch [simp]: "I c \<Longrightarrow> I (open_batch E message reference c)"
  by (simp add: open_batch_def Let_def split: option.split)

lemma inv_deliver_batch [simp]: "I c \<Longrightarrow> I (deliver_batch E frame c)"
  by (simp add: deliver_batch_def Let_def)

lemma inv_close_batch [simp]: "I c \<Longrightarrow> I (close_batch E reference c)"
proof -
  assume "I c"
  have children: "I c \<Longrightarrow> I (foldl (\<lambda>c child. ignore_batch child
      (c\<lparr>core_batches := (core_batches c)\<lparr>open_batches := bt_remove child (open_batches (core_batches c))\<rparr>\<rparr>)) c children)" for c children
    by (rule inv_foldl) simp_all
  from \<open>I c\<close> show ?thesis
    by (simp add: close_batch_def Let_def children split: option.split)
qed

lemma inv_handle_batch [simp]: "I c \<Longrightarrow> I (handle_batch E message c)"
  by (simp add: handle_batch_def Let_def)

lemma inv_capture [simp]: "I c \<Longrightarrow> I (fst (capture_in_batch message c))"
  by (simp add: capture_in_batch_def Let_def split: option.split)

end

text \<open>An invariant that also speaks of the state of the session, the watchdog, the connection and SASL.\<close>

locale core_invariant = session_ledgers +
  assumes inv_set_state [simp]: "I c \<Longrightarrow> st \<noteq> Registered \<Longrightarrow> st \<noteq> SaslAuth \<Longrightarrow> st \<noteq> Reconnecting \<Longrightarrow>
      I (session_set_state st c)"
    and inv_arm [simp]: "I c \<Longrightarrow> slot \<noteq> LabelTimer \<Longrightarrow> slot \<noteq> PingTimer \<Longrightarrow> I (arm_timer slot delay c)"
    and inv_cancel [simp]: "I c \<Longrightarrow> slot \<noteq> LabelTimer \<Longrightarrow> slot \<noteq> PingTimer \<Longrightarrow> slot \<noteq> ReconnectTimer \<Longrightarrow>
      I (cancel_timer slot c)"
    and inv_arm_ping [simp]: "I c \<Longrightarrow> I (arm_ping_watchdog c)"
    and inv_ping_fired: "I c \<Longrightarrow> core_timers c PingTimer \<noteq> None \<Longrightarrow> I (on_ping_watchdog_fired (cancel_timer PingTimer c))"
    and inv_fail [simp]: "I c \<Longrightarrow> I (fail error_kind error_text reconnect c)"
    and inv_start: "I c \<Longrightarrow> I (start E c)"
    and inv_stop: "I c \<Longrightarrow> I (stop E c)"
    and inv_reconnect: "I c \<Longrightarrow> I (begin_reconnect_attempt E c)"
    and inv_reconnect_fired: "I c \<Longrightarrow> I (begin_reconnect_attempt E (cancel_timer ReconnectTimer c))"
    and inv_disconnected: "I c \<Longrightarrow> I (on_disconnected E c)"
    and inv_sasl_pending [simp]: "I c \<Longrightarrow> I (c\<lparr>core_sasl := (core_sasl c)\<lparr>sasl_pending := flag\<rparr>\<rparr>)"
    and inv_sasl_request [simp]: "I c \<Longrightarrow> I (c\<lparr>core_sasl := sasl_request asked (core_sasl c)\<rparr>)"
    and inv_exchange [simp]: "I c \<Longrightarrow> \<not> exchange_started (core_sasl c) \<Longrightarrow> I (start_exchange c)"
    and inv_scram: "I c \<Longrightarrow> sasl_scram (core_sasl c) = Some x \<Longrightarrow>
      take_payload (env_crypto E) account password nonce x payload = (x', reply) \<Longrightarrow>
      I (c\<lparr>core_sasl := (core_sasl c)\<lparr>sasl_scram := Some x'\<rparr>\<rparr>)"
    and inv_sasl_done: "I c \<Longrightarrow> core_state c = SaslAuth \<Longrightarrow> \<not> scram_unverified (core_sasl c) \<Longrightarrow>
      I (c\<lparr>core_sasl := (core_sasl c)\<lparr>sasl_pending := False, sasl_succeeded := True\<rparr>\<rparr>)"
    and inv_retries [simp]: "I c \<Longrightarrow> I (c\<lparr>core_connection := reset_retries (core_connection c)\<rparr>)"
    and inv_register: "I c \<Longrightarrow> core_state c \<noteq> Registered \<Longrightarrow>
      (sasl_chosen (core_sasl c) = Some SASL_SCRAM \<longrightarrow> exchange_started (core_sasl c) \<longrightarrow> sasl_succeeded (core_sasl c)) \<Longrightarrow>
      I (register_session c)"
begin

section \<open>Writers\<close>

lemma inv_record_autojoin [simp]: "I (record_autojoin channel joined c) = I c"
  by (simp add: record_autojoin_def emit_autojoin_changed_def Let_def split_beta split: option.split)

lemma inv_drop_autojoin_key [simp]: "I (drop_stored_autojoin_key channel c) = I c"
  by (simp add: drop_stored_autojoin_key_def emit_autojoin_changed_def Let_def split_beta)

lemma inv_note_sent [simp]: "I (note_message_sent target c) = I c"
  by (simp add: note_message_sent_def)

lemma inv_typing [simp]: "I c \<Longrightarrow> I (fst (send_typing target ph c))"
  by (simp add: send_typing_def Let_def split: option.split)

lemma inv_subscribe [simp]: "I (subscribe_to_member_metadata c) = I c"
  by (simp add: subscribe_to_member_metadata_def Let_def)

lemma inv_own_metadata [simp]: "I c \<Longrightarrow> I (fst (set_own_metadata key value c))"
  by (simp add: set_own_metadata_def Let_def split_beta split: option.split)

lemma inv_sync_later [simp]: "I (handle_metadata_sync_later message c) = I c"
  by (simp add: handle_metadata_sync_later_def Let_def)

lemma inv_sync_fired [simp]: "I (metadata_sync_fired target c) = I c"
  by (simp add: metadata_sync_fired_def)

lemma inv_markers [simp]: "I (set_markers f c) = I c"
  by (simp add: set_markers_def)

lemma inv_advance_known [simp]: "I (advance_last_known folded at c) = I c"
  by (simp add: advance_last_known_def)

lemma inv_flush_marker [simp]: "I (flush_read_marker_set E folded c) = I c"
  by (simp add: flush_read_marker_set_def Let_def split_beta split: option.split)

lemma inv_release_marker [simp]: "I (release_marker E folded c) = I c"
  by (simp add: release_marker_def)

lemma inv_deliver_marker [simp]: "I (fst (deliver_read_marker E message c)) = I c"
  by (simp add: deliver_read_marker_def Let_def split: option.split)

lemma inv_marker_fail [simp]: "I c \<Longrightarrow> I (handle_read_marker_fail E message c)"
  unfolding handle_read_marker_fail_def Let_def by (auto intro: inv_foldl)

lemma inv_queue_marker [simp]: "I (queue_read_marker_set E target at c) = I c"
  by (simp add: queue_read_marker_set_def Let_def)

lemma inv_marker_get [simp]: "I (fst (request_read_marker_get target c)) = I c"
  by (simp add: request_read_marker_get_def)

lemma inv_allow_ctcp [simp]: "I (fst (allow_ctcp_reply E nick c)) = I c"
  by (simp add: allow_ctcp_reply_def Let_def)

lemma inv_answer_ctcp [simp]: "I c \<Longrightarrow> I (fst (answer_ctcp E message c))"
  by (simp add: answer_ctcp_def Let_def split_beta split: option.split)

lemma inv_privmsg [simp]: "I c \<Longrightarrow> I (fst (send_privmsg_locked target body c))"
  by (simp add: send_privmsg_locked_def split_beta)

lemma inv_join [simp]: "I c \<Longrightarrow> I (fst (join_locked join c))"
  by (simp add: join_locked_def Let_def split: sum.split)

lemma inv_monitor_loop [simp]: "I c \<Longrightarrow> I (fst (monitor_loop prefix packed nicks c))"
  by (induction nicks arbitrary: packed c) (simp_all add: split_beta)

lemma inv_writers [simp]:
  assumes "I c"
  shows "I (fst (send_notice target body c))" "I (fst (send_action target body c))"
    "I (fst (send_ctcp E target command argument label c))" "I (fst (send_channel_mode request c))"
    "I (fst (part channel c))" "I (fst (kick channel nick reason c))" "I (fst (kickban channel ban_mask nick reason c))"
    "I (fst (invite nick channel c))" "I (fst (set_topic channel topic c))" "I (fst (set_away_locked reason c))"
    "I (fst (mark_away reason c))" "I (fst (change_nick nick c))" "I (fst (whois nick label c))"
    "I (fst (start_labeled_request c))" "I (fst (send_monitor_locked modifier nicks c))"
    "I (fst (send_list list_mask c))" "I (fst (send_raw line c))"
  using assms
  by (simp_all add: send_notice_def send_action_def send_ctcp_def send_channel_mode_def part_def kick_def kickban_def
      invite_def set_topic_def set_away_locked_def mark_away_def change_nick_def whois_def start_labeled_request_def
      send_monitor_locked_def send_list_def send_raw_def Let_def split_beta)

section \<open>Negotiation, registration and SASL\<close>

lemma inv_isupport [simp]: "I c \<Longrightarrow> I (apply_isupport message c)"
  unfolding apply_isupport_def apply_isupport_token_def Let_def by (auto intro!: inv_foldl split: option.split)

lemma inv_send_registration [simp]: "I c \<Longrightarrow> I (send_registration c)"
  by (simp add: send_registration_def Let_def split: sum.split)

lemma inv_nick_fallback [simp]: "I c \<Longrightarrow> I (fst (try_registration_nick_fallback c))"
  by (simp add: try_registration_nick_fallback_def split_beta split: sum.split RegistrationNick.split)

lemma inv_end_negotiation [simp]: "I c \<Longrightarrow> I (end_capability_negotiation c)"
  by (simp add: end_capability_negotiation_def)

lemma inv_begin_negotiation [simp]: "I c \<Longrightarrow> I (begin_capability_negotiation c)"
  by (simp add: begin_capability_negotiation_def Let_def)

lemma inv_request_lines: "I c \<Longrightarrow> I (foldl (\<lambda>c line. send_line (f line) c) c request_lines)"
  by (rule inv_foldl) simp_all

lemma inv_request_capabilities [simp]: "I c \<Longrightarrow> I (request_capabilities c)"
  by (simp add: request_capabilities_def Let_def split_beta inv_request_lines)

lemma inv_capability_timeout [simp]: "I c \<Longrightarrow> I (on_capability_timeout c)"
  by (simp add: on_capability_timeout_def Let_def split_beta)

lemma inv_sts_advertisement [simp]: "I c \<Longrightarrow> I (handle_sts_advertisement E advertisement c)"
  by (simp add: handle_sts_advertisement_def begin_sts_upgrade_def Let_def split: option.split)

lemma inv_note_ack [simp]: "I (note_read_marker_ack toks granted c) = I c"
  by (simp add: note_read_marker_ack_def split: option.split)

lemma inv_learn_metadata [simp]: "I (learn_metadata E toks c) = I c"
  by (simp add: learn_metadata_def split: option.split)

lemma inv_cap_ls [simp]: "I c \<Longrightarrow> I (handle_cap_ls E message ls_index c)"
  by (simp add: handle_cap_ls_def Let_def split: option.split)

lemma inv_cap_new [simp]: "I c \<Longrightarrow> I (handle_cap_new E message new_index c)"
  by (simp add: handle_cap_new_def Let_def)

lemma inv_cap_del [simp]: "I c \<Longrightarrow> I (handle_cap_del message del_index c)"
  by (simp add: handle_cap_del_def Let_def split: option.split)

lemma inv_cap_ack [simp]: "I c \<Longrightarrow> I (handle_cap_ack E message ack_index c)"
  by (simp add: handle_cap_ack_def Let_def split_beta split: option.split)

lemma inv_cap_nak [simp]: "I c \<Longrightarrow> I (handle_cap_nak message nak_index c)"
  by (simp add: handle_cap_nak_def Let_def split_beta)

lemma inv_cap [simp]: "I c \<Longrightarrow> I (handle_cap E message c)"
  by (simp add: handle_cap_def split: option.split)

lemma inv_sasl_response [simp]: "I c \<Longrightarrow> I (send_sasl_response E raw c)"
  unfolding send_sasl_response_def by (rule inv_foldl) simp_all

lemma inv_scram_authenticate [simp]: "I c \<Longrightarrow> I (handle_scram_authenticate E payload c)"
  by (auto simp: handle_scram_authenticate_def Let_def intro!: inv_sasl_response inv_fail intro: inv_scram
      split: option.split prod.split ScramReply.split)

lemma inv_authenticate [simp]: "I c \<Longrightarrow> I (handle_authenticate E message c)"
  by (simp add: handle_authenticate_def Let_def)

lemma inv_sasl_success [simp]: "I c \<Longrightarrow> I (handle_sasl_success c)"
  by (simp add: handle_sasl_success_def inv_sasl_done)

lemma inv_identify [simp]: "I c \<Longrightarrow> I (identify_with_nickserv c)"
  by (simp add: identify_with_nickserv_def Let_def)

lemma inv_join_autojoin [simp]: "I c \<Longrightarrow> I (join_autojoin_channel c channel)"
  by (simp add: join_autojoin_channel_def Let_def split_beta split: option.split)

lemma inv_welcome [simp]: "I c \<Longrightarrow> I (handle_welcome message c)"
proof -
  assume I: "I c"
  show ?thesis
  proof (cases "core_state c = Registered \<or> core_state c = Failed \<or> (sasl_chosen (core_sasl c) = Some SASL_SCRAM
      \<and> \<not> sasl_succeeded (core_sasl c) \<and> (sasl_pending (core_sasl c) \<or> core_state c = SaslAuth \<or> exchange_started (core_sasl c)))")
    case True
    with I show ?thesis
      by (auto simp: handle_welcome_def)
  next
    case False
    let ?named = "if text_param message 0 \<noteq> [] then c\<lparr>core_nickname := text_param message 0\<rparr> else c"
    let ?quiet = "cancel_timer RegistrationTimer (cancel_timer CapabilityTimer
      (?named\<lparr>core_connection := reset_retries (core_connection ?named)\<rparr>))"
    let ?c = "?quiet\<lparr>core_caps := fst (abandon_outstanding (core_caps ?quiet))\<rparr>"
    have "I ?named"
      using I by simp
    then have "I (?named\<lparr>core_connection := reset_retries (core_connection ?named)\<rparr>)"
      by (rule inv_retries)
    then have "I ?c"
      by simp
    moreover have "core_state ?c = core_state c" "core_sasl ?c = core_sasl c"
      by (simp_all add: cancel_timer_def)
    ultimately have "I (register_session ?c)"
      using False by (intro inv_register) auto
    then show ?thesis
      using False unfolding handle_welcome_def Let_def by (auto intro!: inv_foldl simp del: frame inv_retries)
  qed
qed

lemma inv_registration_timeout [simp]: "I c \<Longrightarrow> I (on_registration_timeout c)"
  by (simp add: on_registration_timeout_def)

section \<open>Dispatch\<close>

lemma inv_probe_away [simp]: "I (probe_channel_away channel c) = I c"
  by (simp add: probe_channel_away_def)

lemma inv_note_invite [simp]: "I (note_invite message c) = I c"
  by (simp add: note_invite_def Let_def)

lemma inv_note_nick [simp]: "I (note_nick_change message c) = I c"
  by (simp add: note_nick_change_def Let_def)

lemma inv_leave [simp]: "I c \<Longrightarrow> I (leave_channel channel c)"
  by (simp add: leave_channel_def)

lemma inv_join_channel [simp]: "I c \<Longrightarrow> I (join_channel E channel c)"
  by (simp add: join_channel_def Let_def split: option.split)

lemma inv_finish_message [simp]: "I c \<Longrightarrow> I (finish_message E message c)"
  unfolding finish_message_def Let_def by simp

lemma inv_refuse [simp]: "I c \<Longrightarrow> I (refuse_or_finish E message c)"
  by (simp add: refuse_or_finish_def Let_def split_beta)

lemma inv_route [simp]: "I c \<Longrightarrow> I (route_command E message c)"
  by (simp add: route_command_def Let_def)

lemma inv_answer_or_route [simp]: "I c \<Longrightarrow> I (answer_or_route E message c)"
  by (simp add: answer_or_route_def Let_def split_beta)

lemma inv_handle_message [simp]: "I c \<Longrightarrow> I (handle_message E message c)"
  by (simp add: handle_message_def Let_def split_beta)

lemma inv_protocol_error [simp]: "I (emit_protocol_error E what err preview byte_count c) = I c"
  by (simp add: emit_protocol_error_def)

lemma inv_frames [simp]: "I c \<Longrightarrow> I (handle_frames E read_frames c)"
  by (induction read_frames arbitrary: c) (simp_all split: sum.split)

lemma inv_bytes [simp]: "I c \<Longrightarrow> I (handle_bytes E bytes c)"
  unfolding handle_bytes_def Let_def split_beta by (intro inv_frames inv_foldl) simp_all

section \<open>Callbacks\<close>

lemma inv_callbacks:
  assumes "I c"
  shows "I (on_connected c)" "I (on_encrypted c)" "I (error_occurred k text c)" "I (settle_stop c)" "I (fst (quit E reason c))"
  using assms
  by (simp_all add: on_connected_def on_encrypted_def error_occurred_def settle_stop_def quit_def split_beta inv_stop)

lemma inv_timer_fired: "I c \<Longrightarrow> I (timer_fired E slot fired c)"
proof (cases slot)
  case LabelTimer
  then show "I c \<Longrightarrow> ?thesis"
    using inv_expire_labels [of c] by (simp add: timer_fired_def cancel_timer_def)
next
  case PingTimer
  then show "I c \<Longrightarrow> ?thesis"
    using inv_ping_fired [of c] by (simp add: timer_fired_def cancel_timer_def split: option.split)
next
  case ReconnectTimer
  then show "I c \<Longrightarrow> ?thesis"
    using inv_reconnect_fired [of c] by (simp add: timer_fired_def cancel_timer_def)
next
  case CapabilityTimer
  then show "I c \<Longrightarrow> ?thesis"
    using inv_cancel [of c CapabilityTimer] by (simp add: timer_fired_def cancel_timer_def)
next
  case RegistrationTimer
  then show "I c \<Longrightarrow> ?thesis"
    using inv_cancel [of c RegistrationTimer] by (simp add: timer_fired_def cancel_timer_def)
qed

theorem step_preserves: "session_step E c c' \<Longrightarrow> I c \<Longrightarrow> I c'"
  by (erule session_stepE)
    (simp_all add: inv_start inv_stop inv_reconnect inv_disconnected inv_callbacks inv_timer_fired)

theorem reachable_invariant: "session_reachable E c \<Longrightarrow> I c"
  by (induction rule: session_reachable.induct) (blast intro: inv_new step_preserves)+

end

section \<open>Invariants of the ledgers\<close>

text \<open>An invariant that only speaks of labels, batches and history requests owes much less: the rest follows.\<close>

locale ledger_invariant = session_ledgers +
  assumes frame_state [simp]:
      "I (core_state_update u_state c) = I c"
      "I (core_ping_update u_ping c) = I c"
      "I (core_connection_update u_connection c) = I c"
      "I (core_sasl_update u_sasl c) = I c"
    and inv_arm_slot [simp]: "I c \<Longrightarrow> slot \<noteq> LabelTimer \<Longrightarrow> I (arm_timer slot delay c)"
    and inv_cancel_slot [simp]: "I c \<Longrightarrow> slot \<noteq> LabelTimer \<Longrightarrow> I (cancel_timer slot c)"
    and inv_clear_labels [simp]: "I c \<Longrightarrow> I (clear_pending_request_labels True c)"
    and good_no_batches [simp]: "batches_good [] []"
    and good_no_pending [simp]: "pending_good [] [] []"
begin

lemma inv_state [simp]: "I (session_set_state st c) = I c"
  by (simp add: session_set_state_def Let_def)

lemma inv_cancel_ping [simp]: "I c \<Longrightarrow> I (cancel_ping_watchdog c)"
  by (simp add: cancel_ping_watchdog_def)

lemma inv_schedule [simp]: "I c \<Longrightarrow> I (schedule_reconnect c)"
  by (simp add: schedule_reconnect_def Let_def split_beta)

lemma inv_failing [simp]: "I c \<Longrightarrow> I (fail error_kind text reconnect c)"
  by (simp add: fail_def Let_def split_beta)

lemma inv_reset [simp]: "I c \<Longrightarrow> I (reset_for_connection c)"
proof -
  assume "I c"
  then have "I (c\<lparr>core_framer := new_framer, core_batches := default_batches, core_history := reset_history_ledger (core_history c)\<rparr>)"
    by (simp add: default_batches_def reset_history_ledger_def new_history_ledger_def)
  then show ?thesis
    by (simp add: reset_for_connection_def Let_def)
qed

lemma inv_cached_sts [simp]: "I (apply_cached_sts E c) = I c"
  by (simp add: apply_cached_sts_def split: prod.split option.split)

lemma inv_sts_expiry [simp]: "I (reschedule_sts_expiry E c) = I c"
  by (simp add: reschedule_sts_expiry_def split: option.split)

lemma inv_connect [simp]: "I (connect_transport c) = I c"
  by (simp add: connect_transport_def)

end

sublocale ledger_invariant \<subseteq> core_invariant E I batches_good pending_good
proof unfold_locales
  fix c
  assume I: "I c"
  show "I (arm_ping_watchdog c)"
    using I by (simp add: arm_ping_watchdog_def)
  show "I (on_ping_watchdog_fired (cancel_timer PingTimer c))"
    using I by (simp add: on_ping_watchdog_fired_def Let_def split: prod.split PingExpiry.split)
  show "I (start E c)"
    using I by (simp add: start_def Let_def)
  show "I (stop E c)"
    using I by (simp add: stop_def Let_def)
  show "I (begin_reconnect_attempt E c)" "I (begin_reconnect_attempt E (cancel_timer ReconnectTimer c))"
    using I by (simp_all add: begin_reconnect_attempt_def)
  show "I (on_disconnected E c)"
    using I by (simp add: on_disconnected_def finish_sts_upgrade_def Let_def split: prod.split DisconnectOutcome.split)
  show "I (register_session c)"
    using I by (simp add: register_session_def arm_ping_watchdog_def Let_def)
qed (simp_all add: start_exchange_def Let_def)

end
