(* ===== verification/SessionSample.thy ===== *)
theory SessionSample
  imports SessionInvariant
begin

text \<open>
  One concrete run: a session is created, its server advertises and grants two capabilities, welcomes it, and a
  labeled request is begun. It shows that the states the invariants speak of are reached.
\<close>

definition sample_time :: time_lib where
  "sample_time = \<lparr>format_millis = decimal_int, format_local = decimal_int, parse_rfc3339 = (\<lambda>_. None),
     parse_with_ms = (\<lambda>_. None), parse_without_ms = (\<lambda>_. None)\<rparr>"

definition sample_session :: session_env where
  "sample_session = \<lparr>env_unicode = ascii_unicode, env_time = sample_time, env_crypto = sample_crypto, env_sts = sample_env\<rparr>"

definition sample_config :: SessionConfig where
  "sample_config = config_with_defaults ''net'' ''Net'' ''irc.example'' ''me''"

definition cap_line :: "string \<Rightarrow> bytes" where
  "cap_line verb = ''CAP * '' @ verb @ '' :batch message-tags chathistory labeled-response'' @ [CR, LF]"

definition cap_message :: "string \<Rightarrow> IrcMessage" where
  "cap_message verb = \<lparr>msg_tags = [], msg_prefix = None, msg_command = ''CAP'', msg_params = [''*'', verb, ''batch message-tags chathistory labeled-response'']\<rparr>"

definition welcome_message :: IrcMessage where
  "welcome_message = \<lparr>msg_tags = [], msg_prefix = None, msg_command = ''001'', msg_params = [''me'', ''hi'']\<rparr>"

definition sample_listed :: Core where
  "sample_listed = handle_bytes sample_session (cap_line ''LS'') (new_core sample_config [])"

definition sample_granted :: Core where
  "sample_granted = handle_bytes sample_session (cap_line ''ACK'') sample_listed"

definition sample_registered :: Core where
  "sample_registered = handle_bytes sample_session (''001 me :hi'' @ [CR, LF]) sample_granted"

definition sample_labeled :: Core where
  "sample_labeled = fst (start_labeled_request sample_registered)"

lemma session_sample_reachable:
  "session_reachable sample_session sample_registered" "session_reachable sample_session sample_labeled"
  unfolding sample_labeled_def sample_registered_def sample_granted_def sample_listed_def
  by (intro reach_new reach_step [OF _ step_bytes] reach_step [OF _ step_label])+

section \<open>Lines\<close>

lemma feed_lines:
  "feed new_framer (cap_line ''LS'') = (new_framer, \<lparr>frames = [''CAP * LS :batch message-tags chathistory labeled-response''], faults = []\<rparr>)"
  "feed new_framer (cap_line ''ACK'') = (new_framer, \<lparr>frames = [''CAP * ACK :batch message-tags chathistory labeled-response''], faults = []\<rparr>)"
  "feed new_framer (''001 me :hi'' @ [CR, LF]) = (new_framer, \<lparr>frames = [''001 me :hi''], faults = []\<rparr>)"
  unfolding cap_line_def by code_simp+

lemma parse_lines:
  "parse ''CAP * LS :batch message-tags chathistory labeled-response'' = Inr (cap_message ''LS'')"
  "parse ''CAP * ACK :batch message-tags chathistory labeled-response'' = Inr (cap_message ''ACK'')"
  "parse ''001 me :hi'' = Inr welcome_message"
  unfolding cap_message_def welcome_message_def by code_simp+

lemma handle_one_line:
  assumes "core_framer c = new_framer" "core_state c \<noteq> StsUpgrading" "core_ping c = PingOff"
    "feed new_framer bytes = (new_framer, \<lparr>frames = [line], faults = []\<rparr>)" "parse line = Inr message"
  shows "handle_bytes E bytes c = handle_message E message c"
proof -
  have "c\<lparr>core_framer := core_framer c\<rparr> = c"
    by simp
  then have "c\<lparr>core_framer := new_framer\<rparr> = c"
    unfolding assms(1) .
  moreover have "handle_bytes E bytes c = handle_message E message (c\<lparr>core_framer := new_framer\<rparr>)"
    using assms by (simp add: handle_bytes_def Let_def)
  ultimately show ?thesis
    by simp
qed

lemma untagged_message:
  assumes "msg_tags message = []" "msg_command message = ''CAP'' \<or> msg_command message = ''001''" "core_ignore_filter c = None"
  shows "handle_message E message c = route_command E message
     (emit (Inbound (core_network_id c) message [] (core_nickname c) (core_channel_types c) (core_now c)) c)"
proof -
  let ?c = "emit (Inbound (core_network_id c) message [] (core_nickname c) (core_channel_types c) (core_now c)) c"
  have tags: "or_empty (tag_text message name) = []" for name
    using assms(1) by (simp add: or_empty_def tag_text_def)
  have "handle_message E message c = answer_or_route E message ?c"
    using assms(2,3) tags
    by (elim disjE) (simp_all add: handle_message_def note_invite_def correlation_label_def apply_isupport_def
        capture_in_batch_def Let_def)
  also have "\<dots> = route_command E message ?c"
    using assms(2) by (elim disjE) (simp_all add: answer_or_route_def deliver_read_marker_def Let_def)
  finally show ?thesis .
qed

section \<open>Registration\<close>

definition sample_tokens :: "string list" where
  "sample_tokens = [''batch'', ''message-tags'', ''chathistory'', ''labeled-response'']"

definition sample_negotiation :: "TokenState \<Rightarrow> IrcCapabilityNegotiation" where
  "sample_negotiation st = \<lparr>tokens = map (\<lambda>token. (token, st)) sample_tokens, sasl_advertised_value = [],
     sasl_credentials_available = False\<rparr>"

definition sample_caps :: IrcCapabilitySet where
  "sample_caps = cap_insert Batch (cap_insert MessageTags (cap_insert ChatHistory (cap_insert LabeledResponse empty_capabilities)))"

lemmas sample_defs = sample_negotiation_def sample_caps_def sample_tokens_def

lemma sample_offer: "advertise (new_negotiation False) sample_tokens = sample_negotiation Advertised"
  unfolding sample_defs by code_simp

lemma sample_request: "take_request (sample_negotiation Advertised) = (sample_negotiation Requested,
    \<lparr>req_lines = [''message-tags'', ''labeled-response'', ''batch chathistory''], requests_sasl = False, sasl_mechanism = None\<rparr>)"
  unfolding sample_defs by code_simp

lemma sample_grant: "acknowledge (sample_negotiation Requested) sample_tokens = (sample_negotiation Enabled, sample_caps)"
  unfolding sample_defs by code_simp

lemma sample_enabled: "enabled (sample_negotiation Enabled) = sample_caps"
  unfolding sample_defs by code_simp

lemma sample_settled: "fst (abandon_outstanding (sample_negotiation Enabled)) = sample_negotiation Enabled"
  unfolding sample_defs by code_simp

lemma sample_caps_contains [simp]: "cap_contains sample_caps x \<longleftrightarrow> x \<in> {Batch, MessageTags, ChatHistory, LabeledResponse}"
  by (auto simp: sample_caps_def)

lemma sample_commands:
  "nick_command ''me'' new_features = Inr (''NICK me'' @ [CR, LF])"
  "user_command ''me'' ''me'' new_features = Inr (''USER me 8 * :me'' @ [CR, LF])"
  by (simp_all add: nick_command_def user_command_def build_line_def is_single_field_def new_features_def
      rebuild_prefix_dumps_def contains_forbidden_def CRLF_BYTES_def MAX_CLASSIC_FRAME_BYTES_def Let_def)

lemma cap_message_facts:
  "param_index (cap_message ''LS'') ''LS'' = Some (Suc 0)" "param_index (cap_message ''ACK'') ''LS'' = None"
  "param_index (cap_message ''ACK'') ''NEW'' = None" "param_index (cap_message ''ACK'') ''DEL'' = None"
  "param_index (cap_message ''ACK'') ''ACK'' = Some (Suc 0)"
  "capability_tokens (cap_message ''LS'') (Suc 0) = sample_tokens"
  "capability_tokens (cap_message ''ACK'') (Suc 0) = sample_tokens"
  "text_param (cap_message ''LS'') (Suc (Suc 0)) \<noteq> ''*''" "msg_command (cap_message verb) = ''CAP''"
  "parse_sts_advertisement sample_tokens = None"
  "parse_metadata_capability ascii_unicode sample_tokens = None"
  unfolding cap_message_def sample_tokens_def by code_simp+

lemma config_facts:
  "cfg_password sample_config = []" "cfg_nick sample_config = ''me''" "cfg_username sample_config = ''me''"
  "cfg_realname sample_config = ''me''" "sasl_secret sample_config = []" "cfg_nickserv_password sample_config = []"
  "cfg_autojoin_channels sample_config = []"
  by (simp_all add: sample_config_def config_with_defaults_def sasl_secret_def)

text \<open>What the steps of the run leave alone.\<close>

definition run_view where
  "run_view c = (core_framer c, core_ignore_filter c, core_ping c, core_sasl c, core_capability_list_seen c, core_config c,
     core_autojoin_channels c, core_features c, core_pending_labels c, core_history_limit c, core_history c,
     intent (core_connection c))"

lemma view_steps [simp]:
  "run_view (emit event c) = run_view c" "core_caps (emit event c) = core_caps c" "core_state (emit event c) = core_state c"
  "run_view (send_line line c) = run_view c" "core_caps (send_line line c) = core_caps c" "core_state (send_line line c) = core_state c"
  "run_view (session_set_state st c) = run_view c" "core_caps (session_set_state st c) = core_caps c"
  "core_state (session_set_state st c) = st"
  "run_view (arm_timer slot delay c) = run_view c" "core_caps (arm_timer slot delay c) = core_caps c"
  "core_state (arm_timer slot delay c) = core_state c"
  "run_view (cancel_timer slot c) = run_view c" "core_caps (cancel_timer slot c) = core_caps c"
  "core_state (cancel_timer slot c) = core_state c"
  by (simp_all add: run_view_def emit_def send_line_def push_effect_def session_set_state_def arm_timer_def cancel_timer_def Let_def)

lemma view_updates [simp]:
  "run_view (c\<lparr>core_caps := caps\<rparr>) = run_view c" "run_view (c\<lparr>core_nickname := nickname\<rparr>) = run_view c"
  by (simp_all add: run_view_def)

lemma view_end [simp]:
  "run_view (end_capability_negotiation c) = run_view c" "core_caps (end_capability_negotiation c) = core_caps c"
  "core_state (end_capability_negotiation c) = core_state c"
proof -
  have "run_view (c\<lparr>core_capability_negotiation_ended := True\<rparr>) = run_view c"
    by (simp add: run_view_def)
  then show "run_view (end_capability_negotiation c) = run_view c" "core_caps (end_capability_negotiation c) = core_caps c"
    "core_state (end_capability_negotiation c) = core_state c"
    by (simp_all add: end_capability_negotiation_def)
qed

lemma view_publish [simp]:
  "run_view (publish_capabilities c) = run_view c" "core_caps (publish_capabilities c) = core_caps c"
  "core_state (publish_capabilities c) = core_state c"
  by (simp_all add: publish_capabilities_def emit_def run_view_def Let_def)

text \<open>A burst whose three fields are plain, and that sends no PASS.\<close>

definition plain_burst :: "Core \<Rightarrow> bool" where
  "plain_burst c \<longleftrightarrow>
     (let cfg = core_config c in
      cfg_nick cfg = ''me'' \<and> cfg_username cfg = ''me'' \<and> cfg_realname cfg = ''me'' \<and> cfg_nickserv_password cfg = []
      \<and> (cfg_password cfg = [] \<or> sasl_requested (core_sasl c)) \<and> core_features c = new_features \<and> \<not> core_registration_sent c)"

lemma registration_burst:
  assumes "plain_burst c"
  shows "run_view (send_registration c) = run_view c" "core_caps (send_registration c) = core_caps c"
    "core_state (send_registration c) = Registering"
proof -
  let ?c = "send_line (''USER me 8 * :me'' @ [CR, LF]) (send_line (''NICK me'' @ [CR, LF]) c)"
  have "send_registration c = session_set_state Registering (?c\<lparr>core_registration_sent := True\<rparr>)"
    using assms by (auto simp: plain_burst_def send_registration_def sample_commands Let_def)
  moreover have "run_view (?c\<lparr>core_registration_sent := True\<rparr>) = run_view ?c"
    by (simp add: run_view_def)
  ultimately show "run_view (send_registration c) = run_view c" "core_caps (send_registration c) = core_caps c"
    "core_state (send_registration c) = Registering"
    by simp_all
qed

lemma view_lines [simp]:
  "run_view (foldl (\<lambda>c line. send_line (f line) c) c request_lines) = run_view c"
  "core_caps (foldl (\<lambda>c line. send_line (f line) c) c request_lines) = core_caps c"
  by (induction request_lines arbitrary: c) simp_all

lemma burst_steps:
  "plain_burst (arm_timer slot delay c) = plain_burst c" "plain_burst (send_line line c) = plain_burst c"
  "plain_burst (session_set_state st c) = plain_burst c"
  "plain_burst (foldl (\<lambda>c line. send_line (f line) c) c request_lines) = plain_burst c"
proof -
  show line: "plain_burst (send_line line c) = plain_burst c" for line c
    by (simp add: plain_burst_def send_line_def push_effect_def emit_def Let_def)
  show "plain_burst (foldl (\<lambda>c line. send_line (f line) c) c request_lines) = plain_burst c"
    by (induction request_lines arbitrary: c) (simp_all add: line)
qed (simp_all add: plain_burst_def arm_timer_def cancel_timer_def session_set_state_def emit_def Let_def)

lemma request_burst:
  assumes "take_request (core_caps c) = (caps, request)" "req_lines request \<noteq> []"
    "plain_burst (c\<lparr>core_sasl := sasl_request request (core_sasl c)\<rparr>)"
  shows "run_view (request_capabilities c) = run_view (c\<lparr>core_sasl := sasl_request request (core_sasl c)\<rparr>)"
    "core_caps (request_capabilities c) = caps" "core_state (request_capabilities c) = Registering"
proof -
  let ?asked = "c\<lparr>core_caps := caps, core_sasl := sasl_request request (core_sasl c)\<rparr>"
  let ?sent = "foldl (\<lambda>c line. send_line (''CAP REQ :'' @ line @ [CR, LF]) c) (session_set_state CapReq ?asked) (req_lines request)"
  let ?c = "arm_timer CapabilityTimer (millis (capability_timeout_ms (core_config ?sent))) ?sent"
  have "\<not> core_registration_sent c"
    using assms(3) by (simp add: plain_burst_def Let_def)
  then have eq: "request_capabilities c = end_capability_negotiation (send_registration ?c)"
    using assms(1,2) by (simp add: request_capabilities_def Let_def)
  have view: "run_view ?asked = run_view (c\<lparr>core_sasl := sasl_request request (core_sasl c)\<rparr>)"
    by (simp add: run_view_def)
  have "plain_burst ?asked"
    using assms(3) by (simp add: plain_burst_def Let_def)
  then have "plain_burst ?c"
    by (simp add: burst_steps)
  then show "run_view (request_capabilities c) = run_view (c\<lparr>core_sasl := sasl_request request (core_sasl c)\<rparr>)"
    "core_caps (request_capabilities c) = caps" "core_state (request_capabilities c) = Registering"
    unfolding eq by (simp_all only: registration_burst view view_end view_steps view_lines) simp_all
qed

lemma cap_ls_step:
  assumes "msg_tags message = []" "msg_command message = ''CAP''" "param_index message ''LS'' = Some (Suc 0)"
    "text_param message (Suc (Suc 0)) \<noteq> ''*''" "capability_tokens message (Suc 0) = toks"
    "parse_sts_advertisement toks = None" "parse_metadata_capability (env_unicode E) toks = None"
    "core_pending_sts c = None" "core_state c \<noteq> StsUpgrading" "core_ignore_filter c = None"
  shows "handle_message E message c = request_capabilities
    ((emit (Inbound (core_network_id c) message [] (core_nickname c) (core_channel_types c) (core_now c)) c)
       \<lparr>core_capability_list_seen := True, core_caps := advertise (core_caps c) toks\<rparr>)"
proof -
  let ?c = "emit (Inbound (core_network_id c) message [] (core_nickname c) (core_channel_types c) (core_now c)) c"
  have "handle_message E message c = route_command E message ?c"
    using assms(1,2,10) by (intro untagged_message) simp_all
  also have "\<dots> = handle_cap_ls E message (Suc 0) ?c"
    using assms(2,3) by (simp add: route_command_def handle_cap_def)
  also have "\<dots> = request_capabilities (?c\<lparr>core_capability_list_seen := True, core_caps := advertise (core_caps ?c) toks\<rparr>)"
    using assms(4-9)
    by (simp add: handle_cap_ls_def learn_metadata_def handle_sts_advertisement_def emit_def Let_def)
  finally show ?thesis
    by simp
qed

lemma listed_facts:
  "core_caps sample_listed = sample_negotiation Requested" "core_state sample_listed = Registering"
  "run_view sample_listed = (new_framer, None, PingOff, default_sasl, True, sample_config, [], new_features, [], HISTORY_LIMIT,
     new_history_ledger HISTORY_AFTER_PAGE_CAP, Unexpected)"
proof -
  let ?new = "new_core sample_config []" and ?m = "cap_message ''LS''"
  let ?seen = "(emit (Inbound (core_network_id ?new) ?m [] (core_nickname ?new) (core_channel_types ?new) (core_now ?new)) ?new)
    \<lparr>core_capability_list_seen := True, core_caps := sample_negotiation Advertised\<rparr>"
  let ?request = "\<lparr>req_lines = [''message-tags'', ''labeled-response'', ''batch chathistory''], requests_sasl = False, sasl_mechanism = None\<rparr>"
  have "sample_listed = handle_message sample_session ?m ?new"
    unfolding sample_listed_def by (rule handle_one_line [OF _ _ _ feed_lines(1) parse_lines(1)]) (simp_all add: new_core_def)
  also have "\<dots> = request_capabilities ?seen"
    by (subst cap_ls_step [where toks = sample_tokens])
      (simp_all add: cap_message_facts sample_session_def sample_offer config_facts new_core_def, simp add: cap_message_def)
  finally have eq: "sample_listed = request_capabilities ?seen" .
  have same: "sasl_request ?request (core_sasl ?seen) = core_sasl ?seen"
    by (simp add: sasl_request_def)
  have "plain_burst ?seen"
    by (simp add: plain_burst_def emit_def new_core_def config_facts)
  then have burst: "plain_burst (?seen\<lparr>core_sasl := sasl_request ?request (core_sasl ?seen)\<rparr>)"
    unfolding same by simp
  note facts = request_burst [where c = ?seen and caps = "sample_negotiation Requested" and request = ?request]
  have view: "run_view ?seen = (new_framer, None, PingOff, default_sasl, True, sample_config, [], new_features, [], HISTORY_LIMIT,
     new_history_ledger HISTORY_AFTER_PAGE_CAP, Unexpected)"
    by (simp add: run_view_def emit_def new_core_def config_facts default_connection_def)
  show "core_caps sample_listed = sample_negotiation Requested" "core_state sample_listed = Registering"
    "run_view sample_listed = (new_framer, None, PingOff, default_sasl, True, sample_config, [], new_features, [], HISTORY_LIMIT,
     new_history_ledger HISTORY_AFTER_PAGE_CAP, Unexpected)"
    unfolding eq view [symmetric] using facts [OF _ _ burst] sample_request unfolding same by simp_all
qed

lemma granted_facts:
  "core_caps sample_granted = sample_negotiation Enabled" "core_state sample_granted = Registering"
  "run_view sample_granted = (new_framer, None, PingOff, default_sasl, True, sample_config, [], new_features, [], HISTORY_LIMIT,
     new_history_ledger HISTORY_AFTER_PAGE_CAP, Unexpected)"
proof -
  let ?c = "emit (Inbound (core_network_id sample_listed) (cap_message ''ACK'') [] (core_nickname sample_listed)
    (core_channel_types sample_listed) (core_now sample_listed)) sample_listed"
  let ?caps = "?c\<lparr>core_caps := sample_negotiation Enabled\<rparr>"
  have view: "core_framer sample_listed = new_framer" "core_ignore_filter sample_listed = None" "core_ping sample_listed = PingOff"
    "core_capability_list_seen sample_listed" "core_sasl sample_listed = default_sasl"
    using listed_facts(3) by (simp_all add: run_view_def)
  have "sample_granted = handle_message sample_session (cap_message ''ACK'') sample_listed"
    unfolding sample_granted_def
    by (rule handle_one_line [OF _ _ _ feed_lines(2) parse_lines(2)]) (simp_all add: view listed_facts)
  also have "\<dots> = route_command sample_session (cap_message ''ACK'') ?c"
    by (rule untagged_message) (simp_all add: cap_message_def view)
  also have "\<dots> = handle_cap_ack sample_session (cap_message ''ACK'') (Suc 0) ?c"
    using view(4) by (simp add: route_command_def handle_cap_def cap_message_facts emit_def)
  also have "\<dots> = end_capability_negotiation (publish_capabilities ?caps)"
    by (simp add: handle_cap_ack_def cap_message_facts listed_facts sample_grant note_read_marker_ack_def sample_session_def
        Let_def split_beta)
  finally have eq: "sample_granted = end_capability_negotiation (publish_capabilities ?caps)" .
  show "core_caps sample_granted = sample_negotiation Enabled" "core_state sample_granted = Registering"
    "run_view sample_granted = (new_framer, None, PingOff, default_sasl, True, sample_config, [], new_features, [], HISTORY_LIMIT,
     new_history_ledger HISTORY_AFTER_PAGE_CAP, Unexpected)"
    unfolding eq by (simp_all add: listed_facts)
qed

text \<open>A welcome that has no channel to join and no password to send.\<close>

lemma welcome_step:
  assumes "core_state c = Registering" "core_sasl c = default_sasl" "core_caps c = sample_negotiation Enabled"
    "core_config c = sample_config" "core_autojoin_channels c = []" "core_pending_labels c = []"
  shows "core_state (handle_welcome welcome_message c) = Registered"
    "core_caps (handle_welcome welcome_message c) = sample_negotiation Enabled"
    "core_ping (handle_welcome welcome_message c) = PingWatching"
    "core_timers (handle_welcome welcome_message c) PingTimer \<noteq> None"
    "core_pending_labels (handle_welcome welcome_message c) = []"
    "core_features (handle_welcome welcome_message c) = core_features c"
    "core_history_limit (handle_welcome welcome_message c) = core_history_limit c"
    "core_history (handle_welcome welcome_message c) = core_history c"
    "intent (core_connection (handle_welcome welcome_message c)) = intent (core_connection c)"
proof -
  let ?c = "cancel_timer RegistrationTimer (cancel_timer CapabilityTimer
     (c\<lparr>core_nickname := ''me'', core_connection := reset_retries (core_connection c)\<rparr>))\<lparr>core_caps := sample_negotiation Enabled\<rparr>"
  have "text_param welcome_message 0 = ''me''"
    unfolding welcome_message_def by code_simp
  then have "handle_welcome welcome_message c = register_session ?c"
    using assms by (simp add: handle_welcome_def default_sasl_def sample_settled sample_enabled subscribe_to_member_metadata_def metadata_enabled_def
        identify_with_nickserv_def config_facts register_session_def arm_ping_watchdog_def session_set_state_def emit_def
        arm_timer_def cancel_timer_def Let_def)
  then show "core_state (handle_welcome welcome_message c) = Registered"
    "core_caps (handle_welcome welcome_message c) = sample_negotiation Enabled"
    "core_ping (handle_welcome welcome_message c) = PingWatching"
    "core_timers (handle_welcome welcome_message c) PingTimer \<noteq> None"
    "core_pending_labels (handle_welcome welcome_message c) = []"
    "core_features (handle_welcome welcome_message c) = core_features c"
    "core_history_limit (handle_welcome welcome_message c) = core_history_limit c"
    "core_history (handle_welcome welcome_message c) = core_history c"
    "intent (core_connection (handle_welcome welcome_message c)) = intent (core_connection c)"
    using assms by (simp_all add: register_session_def arm_ping_watchdog_def session_set_state_def emit_def
        arm_timer_def cancel_timer_def reset_retries_def Let_def)
qed

lemma registered_eq:
  obtains c where "sample_registered = handle_welcome welcome_message c" "run_view c = run_view sample_granted"
    "core_caps c = core_caps sample_granted" "core_state c = core_state sample_granted"
proof
  let ?c = "emit (Inbound (core_network_id sample_granted) welcome_message [] (core_nickname sample_granted)
    (core_channel_types sample_granted) (core_now sample_granted)) sample_granted"
  have view: "core_framer sample_granted = new_framer" "core_ignore_filter sample_granted = None" "core_ping sample_granted = PingOff"
    using granted_facts(3) by (simp_all add: run_view_def)
  have "sample_registered = handle_message sample_session welcome_message sample_granted"
    unfolding sample_registered_def
    by (rule handle_one_line [OF _ _ _ feed_lines(3) parse_lines(3)]) (simp_all add: view granted_facts)
  also have "\<dots> = route_command sample_session welcome_message ?c"
    by (rule untagged_message) (simp_all add: welcome_message_def view)
  also have "\<dots> = handle_welcome welcome_message ?c"
    by (simp add: route_command_def welcome_message_def Let_def)
  finally show "sample_registered = handle_welcome welcome_message ?c" .
qed simp_all

lemma registered_facts:
  "core_state sample_registered = Registered" "core_caps sample_registered = sample_negotiation Enabled"
  "core_ping sample_registered = PingWatching" "core_timers sample_registered PingTimer \<noteq> None"
  "core_pending_labels sample_registered = []" "core_features sample_registered = new_features"
  "core_history_limit sample_registered = HISTORY_LIMIT"
  "core_history sample_registered = new_history_ledger HISTORY_AFTER_PAGE_CAP"
  "intent (core_connection sample_registered) = Unexpected"
proof -
  obtain c where eq: "sample_registered = handle_welcome welcome_message c" and view: "run_view c = run_view sample_granted"
    and rest: "core_caps c = core_caps sample_granted" "core_state c = core_state sample_granted"
    by (rule registered_eq)
  have facts: "core_state c = Registering" "core_sasl c = default_sasl" "core_caps c = sample_negotiation Enabled"
    "core_config c = sample_config" "core_autojoin_channels c = []" "core_pending_labels c = []"
    and kept: "core_features c = new_features" "core_history_limit c = HISTORY_LIMIT"
    "core_history c = new_history_ledger HISTORY_AFTER_PAGE_CAP" "intent (core_connection c) = Unexpected"
    using view rest granted_facts by (simp_all add: run_view_def)
  show "core_state sample_registered = Registered" "core_caps sample_registered = sample_negotiation Enabled"
    "core_ping sample_registered = PingWatching" "core_timers sample_registered PingTimer \<noteq> None"
    "core_pending_labels sample_registered = []" "core_features sample_registered = new_features"
    "core_history_limit sample_registered = HISTORY_LIMIT"
    "core_history sample_registered = new_history_ledger HISTORY_AFTER_PAGE_CAP"
    "intent (core_connection sample_registered) = Unexpected"
    unfolding eq kept [symmetric] by (rule welcome_step [OF facts])+
qed

lemma labeled_facts:
  "core_pending_labels sample_labeled = [(''lr'' @ decimal (core_next_request_label sample_registered + 1),
     core_now sample_registered + millis (min (labeled_response_timeout_ms (core_config sample_registered)) (2 ^ 63 - 1)))]"
  by (simp add: sample_labeled_def start_labeled_request_def registered_facts sample_enabled begin_labeled_request_def
      arm_label_timer_def earliest_deadline_def arm_timer_def cancel_timer_def Let_def)

text \<open>The registered session asks for the newest page of a channel.\<close>

definition sample_asked :: Core where
  "sample_asked = fst (request_history_latest ''#a'' sample_registered)"

lemma asked_reachable: "session_reachable sample_session sample_asked"
  unfolding sample_asked_def by (intro reach_step [OF session_sample_reachable(1) step_latest])

lemma asked_command: "build_line (''CHATHISTORY LATEST #a * '' @ decimal HISTORY_LIMIT) new_features
    = Inr (''CHATHISTORY LATEST #a * 100'' @ [CR, LF])"
proof -
  have "decimal HISTORY_LIMIT = ''100''"
    unfolding HISTORY_LIMIT_def by code_simp
  then show ?thesis
    by (simp add: build_line_def new_features_def rebuild_prefix_dumps_def contains_forbidden_def CRLF_BYTES_def
        MAX_CLASSIC_FRAME_BYTES_def Let_def)
qed

lemma asked_facts: "history_inflight sample_asked ''#a''"
proof -
  let ?c = "sample_registered\<lparr>core_history := put_pending (fold_channel sample_registered ''#a'') 0 Latest
    ((core_history sample_registered)\<lparr>hl_asked := [fold_channel sample_registered ''#a'']\<rparr>)\<rparr>"
  have gen: "history_generation sample_registered ''#a'' = 0"
    by (simp add: history_generation_def registered_facts new_history_ledger_def)
  have eq: "sample_asked = send_line (''CHATHISTORY LATEST #a * 100'' @ [CR, LF]) ?c"
    using asked_command
    by (simp add: sample_asked_def request_history_latest_def replay_enabled_def registered_facts sample_enabled
        history_inflight_def new_history_ledger_def gen send_command_def Let_def)
  have "core_history sample_asked = core_history ?c" "core_features sample_asked = core_features sample_registered"
    unfolding eq by (simp_all add: send_line_def emit_def push_effect_def)
  then show ?thesis
    by (simp add: history_inflight_def history_generation_def fold_channel_def put_pending_def registered_facts
        new_history_ledger_def bt_get_def)
qed

section \<open>A batch\<close>

definition sample_batched :: Core where
  "sample_batched = handle_bytes sample_session (''BATCH +a x'' @ [CR, LF]) (new_core sample_config [])"

lemma batched_reachable: "session_reachable sample_session sample_batched"
  unfolding sample_batched_def by (intro reach_step [OF reach_new step_bytes])

lemma batched_facts: "bt_get (open_batches (core_batches sample_batched)) ''a'' = Some default_open_batch"
proof -
  let ?m = "\<lparr>msg_tags = [], msg_prefix = None, msg_command = ''BATCH'', msg_params = [''+a'', ''x'']\<rparr>"
  let ?c = "emit (Inbound ''net'' ?m [] ''me'' [] 0) (new_core sample_config [])"
  have line: "feed new_framer (''BATCH +a x'' @ [CR, LF]) = (new_framer, \<lparr>frames = [''BATCH +a x''], faults = []\<rparr>)"
    "parse ''BATCH +a x'' = Inr ?m"
    by code_simp+
  have texts: "text_param ?m 0 = ''+a''" "text_param ?m (Suc 0) = ''x''" "text_param ?m 2 = []"
    by code_simp+
  have tags: "or_empty (tag_text ?m name) = []" for name
    by (simp add: or_empty_def tag_text_def)
  have "replay_kind_for sample_session ''x'' = None" "\<not> eq_ignore_ascii_case ''x'' ''labeled-response''"
    unfolding sample_session_def by code_simp+
  note facts = texts tags this
  have "sample_batched = handle_message sample_session ?m (new_core sample_config [])"
    unfolding sample_batched_def by (rule handle_one_line [OF _ _ _ line]) (simp_all add: new_core_def)
  also have "\<dots> = handle_batch sample_session ?m ?c"
    using tags by (simp add: handle_message_def note_invite_def correlation_label_def apply_isupport_def new_core_def
        sample_config_def config_with_defaults_def Let_def)
  also have "\<dots> = open_batch sample_session ?m ''a'' ?c"
    using texts by (simp add: handle_batch_def Let_def)
  finally have eq: "sample_batched = open_batch sample_session ?m ''a'' ?c" .
  have fresh: "core_batches ?c = default_batches"
    by (simp add: emit_def new_core_def)
  have frame: "open_frame ?m ''a'' [] None ?c = default_open_batch"
    using facts fresh by (simp add: open_frame_def default_batches_def default_open_batch_def Let_def)
  have eq': "sample_batched = ?c\<lparr>core_batches := \<lparr>open_batches = [(''a'', default_open_batch)], ignored_batches = []\<rparr>\<rparr>"
    unfolding eq open_batch_def Let_def using facts fresh frame
    by (simp add: default_batches_def MAX_OPEN_BATCHES_def bt_contains_def)
  show ?thesis
    unfolding eq' by (simp add: bt_get_def)
qed

section \<open>A SCRAM login that has begun\<close>

definition scram_config :: SessionConfig where
  "scram_config = sample_config\<lparr>cfg_password := ''pw''\<rparr>"

definition scram_message :: "string \<Rightarrow> string \<Rightarrow> IrcMessage" where
  "scram_message verb toks = \<lparr>msg_tags = [], msg_prefix = None, msg_command = ''CAP'', msg_params = [''*'', verb, toks]\<rparr>"

definition sample_offered :: Core where
  "sample_offered = handle_bytes sample_session (''CAP * LS :sasl=SCRAM-SHA-256'' @ [CR, LF]) (new_core scram_config [])"

definition sample_scram :: Core where
  "sample_scram = handle_bytes sample_session (''CAP * ACK :sasl'' @ [CR, LF]) sample_offered"

lemma scram_reachable: "session_reachable sample_session sample_scram"
  unfolding sample_scram_def sample_offered_def by (intro reach_new reach_step [OF _ step_bytes])

lemma scram_lines:
  "feed new_framer (''CAP * LS :sasl=SCRAM-SHA-256'' @ [CR, LF]) = (new_framer, \<lparr>frames = [''CAP * LS :sasl=SCRAM-SHA-256''], faults = []\<rparr>)"
  "parse ''CAP * LS :sasl=SCRAM-SHA-256'' = Inr (scram_message ''LS'' ''sasl=SCRAM-SHA-256'')"
  "feed new_framer (''CAP * ACK :sasl'' @ [CR, LF]) = (new_framer, \<lparr>frames = [''CAP * ACK :sasl''], faults = []\<rparr>)"
  "parse ''CAP * ACK :sasl'' = Inr (scram_message ''ACK'' ''sasl'')"
  unfolding scram_message_def by code_simp+

lemma scram_message_facts:
  "param_index (scram_message ''LS'' ''sasl=SCRAM-SHA-256'') ''LS'' = Some (Suc 0)"
  "capability_tokens (scram_message ''LS'' ''sasl=SCRAM-SHA-256'') (Suc 0) = [''sasl=SCRAM-SHA-256'']"
  "text_param (scram_message ''LS'' ''sasl=SCRAM-SHA-256'') (Suc (Suc 0)) \<noteq> ''*''"
  "parse_sts_advertisement [''sasl=SCRAM-SHA-256''] = None" "parse_metadata_capability ascii_unicode [''sasl=SCRAM-SHA-256''] = None"
  "param_index (scram_message ''ACK'' ''sasl'') ''LS'' = None" "param_index (scram_message ''ACK'' ''sasl'') ''NEW'' = None"
  "param_index (scram_message ''ACK'' ''sasl'') ''DEL'' = None" "param_index (scram_message ''ACK'' ''sasl'') ''ACK'' = Some (Suc 0)"
  "capability_tokens (scram_message ''ACK'' ''sasl'') (Suc 0) = [''sasl'']"
  "parse_metadata_capability ascii_unicode [''sasl''] = None" "msg_command (scram_message verb toks) = ''CAP''"
  unfolding scram_message_def by code_simp+

definition scram_negotiation :: "TokenState \<Rightarrow> IrcCapabilityNegotiation" where
  "scram_negotiation st = \<lparr>tokens = [(''sasl'', st)], sasl_advertised_value = ''SCRAM-SHA-256'', sasl_credentials_available = True\<rparr>"

lemma scram_offer: "advertise (new_negotiation True) [''sasl=SCRAM-SHA-256''] = scram_negotiation Advertised"
  unfolding scram_negotiation_def by code_simp

lemma scram_request: "take_request (scram_negotiation Advertised) = (scram_negotiation Requested,
    \<lparr>req_lines = [''sasl''], requests_sasl = True, sasl_mechanism = Some SASL_SCRAM\<rparr>)"
  unfolding scram_negotiation_def SASL_SCRAM_def by code_simp

lemma scram_grant: "acknowledge (scram_negotiation Requested) [''sasl''] = (scram_negotiation Enabled, cap_insert Sasl empty_capabilities)"
  unfolding scram_negotiation_def by code_simp

definition scram_sasl :: SaslState where
  "scram_sasl = default_sasl\<lparr>sasl_requested := True, sasl_pending := True, sasl_chosen := Some SASL_SCRAM\<rparr>"

lemma offered_facts:
  "core_caps sample_offered = scram_negotiation Requested" "core_state sample_offered = Registering"
  "core_sasl sample_offered = scram_sasl" "core_framer sample_offered = new_framer" "core_ignore_filter sample_offered = None"
  "core_ping sample_offered = PingOff" "core_capability_list_seen sample_offered"
proof -
  let ?new = "new_core scram_config []" and ?m = "scram_message ''LS'' ''sasl=SCRAM-SHA-256''"
  let ?seen = "(emit (Inbound (core_network_id ?new) ?m [] (core_nickname ?new) (core_channel_types ?new) (core_now ?new)) ?new)
    \<lparr>core_capability_list_seen := True, core_caps := scram_negotiation Advertised\<rparr>"
  let ?request = "\<lparr>req_lines = [''sasl''], requests_sasl = True, sasl_mechanism = Some SASL_SCRAM\<rparr>"
  have caps: "core_caps ?new = new_negotiation True"
    by (simp add: new_core_def scram_config_def sasl_secret_def config_facts)
  have "sample_offered = handle_message sample_session ?m ?new"
    unfolding sample_offered_def by (rule handle_one_line [OF _ _ _ scram_lines(1,2)]) (simp_all add: new_core_def)
  also have "\<dots> = request_capabilities ?seen"
    by (subst cap_ls_step [where toks = "[''sasl=SCRAM-SHA-256'']"])
      (simp_all add: scram_message_facts sample_session_def scram_offer caps, simp_all add: scram_message_def new_core_def)
  finally have eq: "sample_offered = request_capabilities ?seen" .
  have asked: "sasl_request ?request (core_sasl ?seen) = scram_sasl"
    by (simp add: sasl_request_def scram_sasl_def emit_def new_core_def default_sasl_def)
  have "plain_burst (?seen\<lparr>core_sasl := scram_sasl\<rparr>)"
    by (simp add: plain_burst_def emit_def new_core_def scram_config_def config_facts scram_sasl_def)
  then have facts: "run_view sample_offered = run_view (?seen\<lparr>core_sasl := scram_sasl\<rparr>)"
      "core_caps sample_offered = scram_negotiation Requested" "core_state sample_offered = Registering"
    unfolding eq using request_burst [where c = ?seen and caps = "scram_negotiation Requested" and request = ?request, unfolded asked]
      scram_request by simp_all
  then show "core_caps sample_offered = scram_negotiation Requested" "core_state sample_offered = Registering"
    "core_sasl sample_offered = scram_sasl" "core_framer sample_offered = new_framer" "core_ignore_filter sample_offered = None"
    "core_ping sample_offered = PingOff" "core_capability_list_seen sample_offered"
    by (simp_all add: run_view_def emit_def new_core_def)
qed

lemma scram_facts:
  "sasl_chosen (core_sasl sample_scram) = Some SASL_SCRAM" "exchange_started (core_sasl sample_scram)"
  "sasl_scram (core_sasl sample_scram) = Some default_exchange" "core_state sample_scram = SaslAuth"
proof -
  let ?m = "scram_message ''ACK'' ''sasl''"
  let ?c = "emit (Inbound (core_network_id sample_offered) ?m [] (core_nickname sample_offered)
    (core_channel_types sample_offered) (core_now sample_offered)) sample_offered"
  let ?caps = "publish_capabilities (?c\<lparr>core_caps := scram_negotiation Enabled\<rparr>)"
  have sasl: "core_sasl ?caps = scram_sasl" "core_sasl ?c = scram_sasl"
    using offered_facts(3) by (simp_all add: publish_capabilities_def emit_def Let_def)
  have "sample_scram = handle_message sample_session ?m sample_offered"
    unfolding sample_scram_def by (rule handle_one_line [OF _ _ _ scram_lines(3,4)]) (simp_all add: offered_facts)
  also have "\<dots> = route_command sample_session ?m ?c"
    by (rule untagged_message) (simp_all add: scram_message_def offered_facts)
  also have "\<dots> = handle_cap_ack sample_session ?m (Suc 0) ?c"
    using offered_facts(7) by (simp add: route_command_def handle_cap_def scram_message_facts emit_def)
  also have "\<dots> = send_line (''AUTHENTICATE SCRAM-SHA-256'' @ [CR, LF]) (start_exchange ?caps)"
    using sasl by (simp add: handle_cap_ack_def scram_message_facts offered_facts scram_grant note_read_marker_ack_def sample_session_def
        scram_sasl_def default_sasl_def Let_def)
  finally have eq: "sample_scram = send_line (''AUTHENTICATE SCRAM-SHA-256'' @ [CR, LF]) (start_exchange ?caps)" .
  show "sasl_chosen (core_sasl sample_scram) = Some SASL_SCRAM" "exchange_started (core_sasl sample_scram)"
    "sasl_scram (core_sasl sample_scram) = Some default_exchange" "core_state sample_scram = SaslAuth"
    unfolding eq using sasl
    by (simp_all add: start_exchange_def send_line_def push_effect_def session_set_state_def emit_def scram_sasl_def Let_def)
qed

end
