(* ===== verification/SessionWatch.thy ===== *)
theory SessionWatch
  imports SessionSample
begin

text \<open>
  What keeps a session alive and honest over its whole life: the ping watchdog (\<open>session/watchdog.rs\<close>), the reconnect
  timer (\<open>session/session.rs\<close>) and the SASL exchange (\<open>session/caps.rs\<close>).
\<close>

definition watched :: "Core \<Rightarrow> bool" where
  "watched c \<longleftrightarrow> core_ping c \<noteq> PingOff \<and> core_timers c PingTimer \<noteq> None"

definition watch_ok :: "Core \<Rightarrow> bool" where
  "watch_ok c \<longleftrightarrow>
     (core_state c = Registered \<longrightarrow> watched c \<or> intent (core_connection c) \<noteq> Unexpected)
     \<and> (core_timers c PingTimer \<noteq> None \<longrightarrow> core_ping c \<noteq> PingOff)"

definition retry_ok :: "Core \<Rightarrow> bool" where
  "retry_ok c \<longleftrightarrow> (core_state c = Reconnecting \<longrightarrow> core_timers c ReconnectTimer \<noteq> None)"

definition sasl_ok :: "SessionState \<Rightarrow> SaslState \<Rightarrow> bool" where
  "sasl_ok st s \<longleftrightarrow>
     (st = SaslAuth \<longrightarrow> exchange_started s)
     \<and> (sasl_succeeded s \<longrightarrow> exchange_started s \<and> \<not> scram_unverified s)
     \<and> (st = Registered \<and> sasl_chosen s = Some SASL_SCRAM \<and> exchange_started s \<longrightarrow> sasl_succeeded s)"

definition guard :: "Core \<Rightarrow> bool" where
  "guard c \<longleftrightarrow> watch_ok c \<and> retry_ok c \<and> sasl_ok (core_state c) (core_sasl c)"

lemmas guard_defs = guard_def watch_ok_def watched_def retry_ok_def

section \<open>The primitives\<close>

lemma guard_frame [simp]:
  "guard (core_config_update u_config c) = guard c"
  "guard (core_now_update u_now c) = guard c"
  "guard (core_transport_state_update u_transport_state c) = guard c"
  "guard (core_random_update u_random c) = guard c"
  "guard (core_port_update u_port c) = guard c"
  "guard (core_tls_enabled_update u_tls_enabled c) = guard c"
  "guard (core_nickname_update u_nickname c) = guard c"
  "guard (core_channel_types_update u_channel_types c) = guard c"
  "guard (core_features_update u_features c) = guard c"
  "guard (core_history_limit_update u_history_limit c) = guard c"
  "guard (core_autojoin_channels_update u_autojoin_channels c) = guard c"
  "guard (core_autojoin_keys_update u_autojoin_keys c) = guard c"
  "guard (core_pending_join_keys_update u_pending_join_keys c) = guard c"
  "guard (core_caps_update u_caps c) = guard c"
  "guard (core_read_marker_token_update u_read_marker_token c) = guard c"
  "guard (core_metadata_update u_metadata c) = guard c"
  "guard (core_published_caps_update u_published_caps c) = guard c"
  "guard (core_typing_update u_typing c) = guard c"
  "guard (core_framer_update u_framer c) = guard c"
  "guard (core_batches_update u_batches c) = guard c"
  "guard (core_history_update u_history c) = guard c"
  "guard (core_read_markers_update u_read_markers c) = guard c"
  "guard (core_pending_labels_update u_pending_labels c) = guard c"
  "guard (core_next_request_label_update u_next_request_label c) = guard c"
  "guard (core_ctcp_reply_clock_update u_ctcp_reply_clock c) = guard c"
  "guard (core_registration_sent_update u_registration_sent c) = guard c"
  "guard (core_registration_nick_update u_registration_nick c) = guard c"
  "guard (core_capability_negotiation_ended_update u_capability_negotiation_ended c) = guard c"
  "guard (core_capability_list_seen_update u_capability_list_seen c) = guard c"
  "guard (core_pending_sts_update u_pending_sts c) = guard c"
  "guard (core_sts_duration_update u_sts_duration c) = guard c"
  "guard (core_sts_update u_sts c) = guard c"
  "guard (core_ignore_filter_update u_ignore_filter c) = guard c"
  "guard (core_pending_invite_update u_pending_invite c) = guard c"
  "guard (core_history_resume_update u_history_resume c) = guard c"
  "guard (core_timer_sequence_update u_timer_sequence c) = guard c"
  "guard (core_sync_timers_update u_sync_timers c) = guard c"
  "guard (core_events_update u_events c) = guard c"
  "guard (core_effects_update u_effects c) = guard c"
  "guard (core_received_log_update u_received_log c) = guard c"
  by (simp_all add: guard_defs)

lemma guard_emit [simp]: "guard (emit event c) = guard c"
  by (simp add: emit_def)

lemma guard_effect [simp]: "guard (push_effect effect c) = guard c"
  by (simp add: push_effect_def)

lemma kept_fields [simp]:
  "core_state (emit event c) = core_state c" "core_ping (emit event c) = core_ping c" "core_timers (emit event c) = core_timers c" "core_connection (emit event c) = core_connection c" "core_sasl (emit event c) = core_sasl c"
  "core_state (push_effect effect c) = core_state c" "core_ping (push_effect effect c) = core_ping c" "core_timers (push_effect effect c) = core_timers c" "core_connection (push_effect effect c) = core_connection c" "core_sasl (push_effect effect c) = core_sasl c"
  "core_state (send_line line c) = core_state c" "core_ping (send_line line c) = core_ping c" "core_timers (send_line line c) = core_timers c" "core_connection (send_line line c) = core_connection c" "core_sasl (send_line line c) = core_sasl c"
  "core_state (publish_capabilities c) = core_state c" "core_ping (publish_capabilities c) = core_ping c" "core_timers (publish_capabilities c) = core_timers c" "core_connection (publish_capabilities c) = core_connection c" "core_sasl (publish_capabilities c) = core_sasl c"
  "core_state (apply_cached_sts E c) = core_state c" "core_ping (apply_cached_sts E c) = core_ping c" "core_timers (apply_cached_sts E c) = core_timers c" "core_connection (apply_cached_sts E c) = core_connection c" "core_sasl (apply_cached_sts E c) = core_sasl c"
  "core_state (reschedule_sts_expiry E c) = core_state c" "core_ping (reschedule_sts_expiry E c) = core_ping c" "core_timers (reschedule_sts_expiry E c) = core_timers c" "core_connection (reschedule_sts_expiry E c) = core_connection c" "core_sasl (reschedule_sts_expiry E c) = core_sasl c"
  "core_state (connect_transport c) = core_state c" "core_ping (connect_transport c) = core_ping c" "core_timers (connect_transport c) = core_timers c" "core_connection (connect_transport c) = core_connection c" "core_sasl (connect_transport c) = core_sasl c"
  by (simp_all add: emit_def push_effect_def send_line_def publish_capabilities_def apply_cached_sts_def reschedule_sts_expiry_def
      connect_transport_def Let_def split: prod.split option.split)

lemma set_state_fields [simp]:
  "core_state (session_set_state st c) = st" "core_ping (session_set_state st c) = core_ping c"
  "core_timers (session_set_state st c) = core_timers c" "core_connection (session_set_state st c) = core_connection c"
  "core_sasl (session_set_state st c) = core_sasl c"
  by (simp_all add: session_set_state_def Let_def)

lemma timer_fields [simp]:
  "core_state (cancel_timer slot c) = core_state c" "core_ping (cancel_timer slot c) = core_ping c"
  "core_connection (cancel_timer slot c) = core_connection c" "core_sasl (cancel_timer slot c) = core_sasl c"
  "core_timers (cancel_timer slot c) = (core_timers c)(slot := None)"
  "core_state (arm_timer slot delay c) = core_state c" "core_ping (arm_timer slot delay c) = core_ping c"
  "core_connection (arm_timer slot delay c) = core_connection c" "core_sasl (arm_timer slot delay c) = core_sasl c"
  "core_timers (arm_timer slot delay c) = (core_timers c)(slot := Some \<lparr>timer_id = core_timer_sequence c + 1, timer_due = core_now c + delay\<rparr>)"
  by (simp_all add: cancel_timer_def arm_timer_def Let_def)

lemma foldl_keeps: "(\<And>c x. f (g c x) = f c) \<Longrightarrow> f (foldl g c xs) = f c"
  by (induction xs arbitrary: c) simp_all

lemma clear_labels_fields [simp]:
  "core_state (clear_pending_request_labels notify c) = core_state c" "core_ping (clear_pending_request_labels notify c) = core_ping c"
  "core_timers (clear_pending_request_labels notify c) = (core_timers c)(LabelTimer := None)"
  "core_connection (clear_pending_request_labels notify c) = core_connection c"
  "core_sasl (clear_pending_request_labels notify c) = core_sasl c"
  by (simp_all add: clear_pending_request_labels_def foldl_keeps Let_def)

lemma cancel_ping_fields [simp]:
  "core_state (cancel_ping_watchdog c) = core_state c" "core_ping (cancel_ping_watchdog c) = PingOff"
  "core_timers (cancel_ping_watchdog c) = (core_timers c)(PingTimer := None)"
  "core_connection (cancel_ping_watchdog c) = core_connection c" "core_sasl (cancel_ping_watchdog c) = core_sasl c"
  by (simp_all add: cancel_ping_watchdog_def)

lemma reset_fields [simp]:
  "core_state (reset_for_connection c) = core_state c" "core_ping (reset_for_connection c) = PingOff"
  "core_timers (reset_for_connection c) = (core_timers c)(CapabilityTimer := None, RegistrationTimer := None, PingTimer := None, LabelTimer := None)"
  "core_connection (reset_for_connection c) = core_connection c" "core_sasl (reset_for_connection c) = default_sasl"
  by (simp_all add: reset_for_connection_def Let_def)

lemma guard_cong:
  assumes "core_state c' = core_state c" "core_ping c' = core_ping c" "core_timers c' PingTimer = core_timers c PingTimer"
    "core_timers c' ReconnectTimer = core_timers c ReconnectTimer" "core_connection c' = core_connection c" "core_sasl c' = core_sasl c"
  shows "guard c' = guard c"
  unfolding guard_defs assms by (rule refl)

lemma sasl_ok_state: "sasl_ok st s \<Longrightarrow> st' \<noteq> Registered \<Longrightarrow> st' \<noteq> SaslAuth \<Longrightarrow> sasl_ok st' s"
  by (simp add: sasl_ok_def)

lemma sasl_ok_default [simp]: "sasl_ok st default_sasl \<longleftrightarrow> st \<noteq> SaslAuth"
  by (simp add: sasl_ok_def default_sasl_def)

lemma guard_sasl: "guard c \<Longrightarrow> sasl_ok (core_state c) (core_sasl c)"
  by (simp add: guard_def)

lemma guard_set_state:
  "guard c \<Longrightarrow> st \<noteq> Registered \<Longrightarrow> st \<noteq> SaslAuth \<Longrightarrow> st \<noteq> Reconnecting \<Longrightarrow> guard (session_set_state st c)"
  using sasl_ok_state [of "core_state c" "core_sasl c" st] by (simp add: guard_defs)

lemma guard_arm: "guard c \<Longrightarrow> slot \<noteq> PingTimer \<Longrightarrow> guard (arm_timer slot delay c)"
  by (simp add: guard_defs)

lemma guard_cancel: "guard c \<Longrightarrow> slot \<noteq> PingTimer \<Longrightarrow> slot \<noteq> ReconnectTimer \<Longrightarrow> guard (cancel_timer slot c)"
  by (simp add: guard_defs)

lemma guard_pending_labels [simp]: "guard (arm_label_timer c) = guard c"
  by (rule guard_cong) (simp_all add: arm_label_timer_def split: option.split)

lemma guard_foldl: "(\<And>c x. guard (f c x) = guard c) \<Longrightarrow> guard (foldl f c xs) = guard c"
  by (rule foldl_keeps)

lemma guard_label_ops [simp]:
  "guard (fst (begin_labeled_request c)) = guard c" "guard (drop_request_label label c) = guard c"
  "guard (finish_request_label label c) = guard c" "guard (on_label_timer_fired c) = guard c"
  by (simp_all add: begin_labeled_request_def drop_request_label_def finish_request_label_def on_label_timer_fired_def
      guard_foldl Let_def)

section \<open>Connecting, failing and stopping\<close>

lemma first_report_intent [simp]: "intent (fst (first_report_of error_kind connection)) = intent connection"
  by (simp add: first_report_of_def)

lemma guard_schedule:
  assumes "sasl_ok (core_state c) (core_sasl c)" "retry_ok c" "core_timers c PingTimer \<noteq> None \<longrightarrow> core_ping c \<noteq> PingOff"
  shows "guard (schedule_reconnect c)"
  using assms sasl_ok_state [OF assms(1)]
  by (simp add: schedule_reconnect_def guard_defs split_beta Let_def)

lemma guard_failing:
  assumes "sasl_ok (core_state c) (core_sasl c)" "retry_ok c"
  shows "guard (fail error_kind text reconnect c)"
proof (cases reconnect)
  case True
  let ?q = "clear_pending_request_labels True (cancel_ping_watchdog (cancel_timer RegistrationTimer c))"
  let ?r = "?q\<lparr>core_connection := fst (first_report_of error_kind (core_connection c))\<rparr>"
  let ?c = "if snd (first_report_of error_kind (core_connection c))
    then emit (ErrorOccurred (core_network_id ?r) error_kind text) ?r else ?r"
  have eq: "fail error_kind text reconnect c =
      (if transport_is_open (core_transport_state ?c)
       then push_effect Shutdown (?c\<lparr>core_connection := reconnect_on_disconnect (core_connection ?c)\<rparr>)
       else schedule_reconnect ?c)"
    using True by (simp add: fail_def Let_def split_beta)
  have "sasl_ok (core_state ?c) (core_sasl ?c)" "retry_ok ?c" "core_ping ?c = PingOff" "core_timers ?c PingTimer = None"
    using assms by (auto simp: retry_ok_def)
  then show ?thesis
    unfolding eq by (auto simp: guard_schedule) (simp_all add: guard_defs reconnect_on_disconnect_def)
next
  case False
  then show ?thesis
    using assms sasl_ok_state [OF assms(1), of Failed]
    by (simp add: fail_def guard_defs end_on_disconnect_def Let_def)
qed

lemma guard_stop: "guard c \<Longrightarrow> guard (stop E c)"
  using sasl_ok_state [of "core_state c" "core_sasl c" Idle] sasl_ok_state [of "core_state c" "core_sasl c" Closing]
  by (simp add: stop_def guard_defs begin_stop_def reset_retries_def Let_def)

lemma guard_start: "guard c \<Longrightarrow> guard (start E c)"
  using guard_failing [of c]
  by (simp add: start_def guard_sasl Let_def) (simp add: guard_defs)

lemma guard_reconnect:
  "guard c \<Longrightarrow> guard (begin_reconnect_attempt E c)"
  "guard c \<Longrightarrow> guard (begin_reconnect_attempt E (cancel_timer ReconnectTimer c))"
  by (simp_all add: begin_reconnect_attempt_def guard_defs)

lemma guard_disconnected:
  assumes "guard c"
  shows "guard (on_disconnected E c)"
proof -
  let ?after = "on_disconnect (core_state c) (core_connection c)"
  let ?c = "reschedule_sts_expiry E (c\<lparr>core_connection := fst ?after\<rparr>)"
  have weak: "sasl_ok (core_state ?c) (core_sasl ?c)" "retry_ok ?c" "core_timers ?c PingTimer \<noteq> None \<longrightarrow> core_ping ?c \<noteq> PingOff"
    using assms by (simp_all add: guard_defs)
  show ?thesis
  proof (cases "snd ?after")
    case ScheduleReconnect
    then show ?thesis
      using guard_schedule [OF weak] by (simp add: on_disconnected_def split_beta Let_def)
  next
    case SettleIdle
    then show ?thesis
      using weak sasl_ok_state [OF weak(1), of Idle] by (simp add: on_disconnected_def split_beta Let_def) (simp add: guard_defs)
  next
    case FailUnexpected
    then show ?thesis
      using guard_failing [OF weak(1,2)] by (simp add: on_disconnected_def split_beta Let_def)
  next
    case FinishStsUpgrade
    then have "core_state c = StsUpgrading"
      by (auto simp: on_disconnect_def split: DisconnectIntent.splits if_splits)
    then show ?thesis
      using FinishStsUpgrade by (simp add: on_disconnected_def finish_sts_upgrade_def split_beta Let_def) (simp add: guard_defs)
  next
    case Ignore
    then have "fst ?after = core_connection c"
      by (auto simp: on_disconnect_def split: DisconnectIntent.splits if_splits)
    then show ?thesis
      using Ignore assms by (simp add: on_disconnected_def split_beta Let_def) (simp add: guard_defs)
  qed
qed

section \<open>The watchdog\<close>

lemma guard_arm_ping: "guard c \<Longrightarrow> guard (arm_ping_watchdog c)"
  by (auto simp: arm_ping_watchdog_def guard_defs)

lemma guard_ping_fired:
  assumes "guard c" "core_timers c PingTimer \<noteq> None"
  shows "guard (on_ping_watchdog_fired (cancel_timer PingTimer c))"
proof -
  have "core_ping c \<noteq> PingOff"
    using assms by (simp add: guard_defs)
  moreover have "sasl_ok (core_state c) (core_sasl c)" "retry_ok (cancel_timer PingTimer c\<lparr>core_ping := PingProbing\<rparr>)" "retry_ok c"
    using assms by (simp_all add: guard_defs)
  ultimately show ?thesis
    using guard_failing [of "cancel_timer PingTimer c\<lparr>core_ping := PingProbing\<rparr>"]
    by (cases "core_ping c") (auto simp: on_ping_watchdog_fired_def, simp_all add: guard_defs)
qed

lemma guard_register:
  assumes "guard c" "core_state c \<noteq> Registered"
    "sasl_chosen (core_sasl c) = Some SASL_SCRAM \<longrightarrow> exchange_started (core_sasl c) \<longrightarrow> sasl_succeeded (core_sasl c)"
  shows "guard (register_session c)"
  using assms by (simp add: register_session_def arm_ping_watchdog_def guard_defs sasl_ok_def Let_def)

section \<open>The exchange\<close>

lemma sasl_ok_pending [simp]: "sasl_ok st (s\<lparr>sasl_pending := flag\<rparr>) = sasl_ok st s"
  by (simp add: sasl_ok_def scram_unverified_def)

lemma sasl_ok_request: "sasl_ok st s \<Longrightarrow> sasl_ok st (sasl_request request s)"
  by (auto simp: sasl_ok_def sasl_request_def scram_unverified_def Let_def)

lemma verified_stays: "is_verified x \<Longrightarrow> take_payload cr account password nonce x payload = (x', reply) \<Longrightarrow> is_verified x'"
  by (simp add: is_verified_def take_payload_def)

lemma sasl_ok_scram:
  "sasl_ok st s \<Longrightarrow> sasl_scram s = Some x \<Longrightarrow> take_payload cr account password nonce x payload = (x', reply) \<Longrightarrow>
   sasl_ok st (s\<lparr>sasl_scram := Some x'\<rparr>)"
  using verified_stays [of x cr account password nonce payload x' reply]
  by (auto simp: sasl_ok_def scram_unverified_def)

lemma guard_update_sasl: "guard c \<Longrightarrow> sasl_ok (core_state c) s \<Longrightarrow> guard (c\<lparr>core_sasl := s\<rparr>)"
  by (simp add: guard_defs)

lemma guard_exchange: "guard c \<Longrightarrow> \<not> exchange_started (core_sasl c) \<Longrightarrow> guard (start_exchange c)"
  by (simp add: start_exchange_def guard_defs sasl_ok_def scram_unverified_def Let_def)

lemma guard_sasl_done:
  "guard c \<Longrightarrow> core_state c = SaslAuth \<Longrightarrow> \<not> scram_unverified (core_sasl c) \<Longrightarrow>
   guard (c\<lparr>core_sasl := (core_sasl c)\<lparr>sasl_pending := False, sasl_succeeded := True\<rparr>\<rparr>)"
  by (simp add: guard_defs sasl_ok_def scram_unverified_def)

lemma guard_new: "guard (new_core config store)"
  by (simp add: guard_defs new_core_def)

interpretation guarded: core_invariant E guard "\<lambda>_ _. True" "\<lambda>_ _ _. True" for E
proof unfold_locales
  fix c
  assume I: "guard c"
  show "guard (fail error_kind error_text reconnect c)" for error_kind error_text reconnect
    by (rule guard_failing) (use I in \<open>simp_all add: guard_def\<close>)
  show "guard (c\<lparr>core_connection := reset_retries (core_connection c)\<rparr>)"
    using I by (simp add: guard_defs reset_retries_def)
  show "guard (c\<lparr>core_batches := b\<rparr>)" "guard (c\<lparr>core_history := h\<rparr>)" for b h
    using I by simp_all
  show "guard (c\<lparr>core_sasl := (core_sasl c)\<lparr>sasl_pending := flag\<rparr>\<rparr>)" for flag
    using I by (simp add: guard_update_sasl guard_sasl)
qed (simp_all add: guard_new guard_set_state guard_arm guard_cancel guard_arm_ping guard_ping_fired guard_start guard_stop
    guard_reconnect guard_disconnected guard_register guard_exchange guard_sasl_done guard_update_sasl sasl_ok_request
    guard_sasl, blast intro: guard_update_sasl sasl_ok_scram guard_sasl)

section \<open>Two ways out of a state that should be final\<close>

text \<open>
  A SASL capability that is acknowledged after registration moves a registered session to the authentication state,
  where nothing can be sent, and success moves it to the registering state: only another 001 would register it again.
\<close>

lemma late_sasl_unregisters:
  assumes "cap_contains (snd (acknowledge (core_caps c) (capability_tokens message i))) Sasl" "\<not> exchange_started (core_sasl c)"
  shows "core_state (handle_cap_ack E message i c) = SaslAuth"
    and "snd (send_command command label (handle_cap_ack E message i c)) = False"
proof -
  have sasl: "core_sasl (publish_capabilities (case parsed of None \<Rightarrow> note_read_marker_ack toks granted (c\<lparr>core_caps := caps\<rparr>)
      | Some m \<Rightarrow> if max_subs m \<noteq> None \<or> max_value_bytes m \<noteq> None
          then (note_read_marker_ack toks granted (c\<lparr>core_caps := caps\<rparr>))\<lparr>core_metadata := m\<rparr>
          else note_read_marker_ack toks granted (c\<lparr>core_caps := caps\<rparr>))) = core_sasl c" for parsed toks granted caps
    by (simp add: note_read_marker_ack_def split: option.split)
  show state: "core_state (handle_cap_ack E message i c) = SaslAuth"
    using assms unfolding handle_cap_ack_def Let_def split_beta sasl by (simp add: start_exchange_def Let_def)
  show "snd (send_command command label (handle_cap_ack E message i c)) = False"
    by (simp add: send_command_def state)
qed

lemma late_sasl_success:
  assumes "core_state c = SaslAuth" "sasl_pending (core_sasl c)" "\<not> scram_unverified (core_sasl c)"
  shows "core_state (handle_sasl_success c) = Registering"
  using assms by (simp add: handle_sasl_success_def)

text \<open>
  A fatal error does not end the read it came in: a CAP LS in the same read moves the failed session to the registering
  state. The disconnect that follows is expected and changes nothing, and \<open>start\<close> refuses a session in that state.
\<close>

lemma failed_session_revived:
  assumes "core_state c = Failed" "is_stopping (core_connection c)" "core_caps c = new_negotiation False" "plain_burst c"
    "core_pending_sts c = None" "core_ignore_filter c = None"
  defines "revived \<equiv> on_disconnected sample_session (handle_message sample_session (cap_message ''LS'') c)"
  shows "core_state revived = Registering" and "start sample_session revived = revived"
proof -
  let ?m = "cap_message ''LS''"
  let ?seen = "(emit (Inbound (core_network_id c) ?m [] (core_nickname c) (core_channel_types c) (core_now c)) c)
    \<lparr>core_capability_list_seen := True, core_caps := sample_negotiation Advertised\<rparr>"
  let ?request = "\<lparr>req_lines = [''message-tags'', ''labeled-response'', ''batch chathistory''], requests_sasl = False, sasl_mechanism = None\<rparr>"
  have eq: "handle_message sample_session ?m c = request_capabilities ?seen"
    using assms(1,3,5,6) by (subst cap_ls_step [where toks = sample_tokens])
      (simp_all add: cap_message_facts sample_session_def sample_offer, simp add: cap_message_def)
  have same: "sasl_request ?request (core_sasl ?seen) = core_sasl ?seen"
    by (simp add: sasl_request_def)
  have burst: "plain_burst (?seen\<lparr>core_sasl := sasl_request ?request (core_sasl ?seen)\<rparr>)"
    using assms(4) unfolding same by (simp add: plain_burst_def emit_def Let_def)
  have kept: "run_view (?seen\<lparr>core_sasl := core_sasl ?seen\<rparr>) = run_view ?seen"
    by (simp add: run_view_def)
  have run: "core_state (request_capabilities ?seen) = Registering" "run_view (request_capabilities ?seen) = run_view ?seen"
    using request_burst [where c = ?seen and caps = "sample_negotiation Requested" and request = ?request, OF _ _ burst]
      sample_request kept unfolding same by (simp_all del: kept_fields)
  then have "intent (core_connection (request_capabilities ?seen)) = Stopping"
    using assms(2) by (simp add: run_view_def is_stopping_def)
  then show "core_state revived = Registering"
    unfolding revived_def eq using run by (simp add: on_disconnected_def on_disconnect_def Let_def)
  then show "start sample_session revived = revived"
    by (simp add: start_def)
qed

section \<open>Properties\<close>

lemma clear_labels_effects [simp]:
  "core_effects (clear_pending_request_labels notify c) = core_effects c"
  "core_config (clear_pending_request_labels notify c) = core_config c"
  "core_port (clear_pending_request_labels notify c) = core_port c"
  "core_tls_enabled (clear_pending_request_labels notify c) = core_tls_enabled c"
  "core_transport_state (clear_pending_request_labels notify c) = core_transport_state c"
  by (simp_all add: clear_pending_request_labels_def cancel_timer_def emit_def foldl_keeps Let_def)

lemma reset_effects [simp]:
  "core_effects (reset_for_connection c) = core_effects c" "core_config (reset_for_connection c) = core_config c"
  "core_port (reset_for_connection c) = core_port c" "core_tls_enabled (reset_for_connection c) = core_tls_enabled c"
  by (simp_all add: reset_for_connection_def cancel_ping_watchdog_def cancel_timer_def publish_capabilities_def emit_def Let_def)

lemma set_state_effects [simp]:
  "core_effects (session_set_state st c) = core_effects c" "core_config (session_set_state st c) = core_config c"
  "core_port (session_set_state st c) = core_port c" "core_tls_enabled (session_set_state st c) = core_tls_enabled c"
  by (simp_all add: session_set_state_def emit_def Let_def)

lemma watchdog_timeout:
  assumes "intent (core_connection c) = Unexpected" "core_state c = Registered"
  shows "Shutdown \<in> set (core_effects (fail error_kind text True c)) \<and> intent (core_connection (fail error_kind text True c)) = IntentReconnecting
    \<or> core_state (fail error_kind text True c) \<in> {Reconnecting, Failed}"
  using assms
  by (simp add: fail_def schedule_reconnect_def reconnect_on_disconnect_def push_effect_def split_beta Let_def)




lemma sample_reconnecting:
  "session_reachable sample_session (error_occurred NetworkError [] (new_core sample_config []))"
  "core_state (error_occurred NetworkError [] (new_core sample_config [])) = Reconnecting"
proof -
  show "session_reachable sample_session (error_occurred NetworkError [] (new_core sample_config []))"
    by (intro reach_step [OF reach_new step_error])
  show "core_state (error_occurred NetworkError [] (new_core sample_config [])) = Reconnecting"
    by (simp add: error_occurred_def is_stopping_def fail_def schedule_reconnect_def transport_is_open_def new_core_def
        default_connection_def cancel_ping_watchdog_def cancel_timer_def emit_def sample_config_def config_with_defaults_def
        split_beta Let_def)
qed




end
