(* ===== verification/SessionLabels.thy ===== *)
theory SessionLabels
  imports SessionSample
begin

text \<open>
  The ledger of labeled requests (\<open>session/labels.rs\<close>) over the whole life of a session: what is pending, what was
  reported finished, and the timer behind the deadlines.
\<close>

definition finished :: "Core \<Rightarrow> string list" where
  "finished c = concat (map finished_labels (core_events c))"

definition issued :: "nat \<Rightarrow> string \<Rightarrow> bool" where
  "issued n label \<longleftrightarrow> (\<exists>k \<in> {1..n}. label = ''lr'' @ decimal k)"

definition labels_ok :: "Core \<Rightarrow> bool" where
  "labels_ok c \<longleftrightarrow>
     bt_wf (core_pending_labels c) \<and> distinct (bt_keys (core_pending_labels c) @ finished c)
     \<and> (\<forall>label \<in> set (bt_keys (core_pending_labels c) @ finished c). issued (core_next_request_label c) label)"

definition label_timer_ok :: "Core \<Rightarrow> bool" where
  "label_timer_ok c \<longleftrightarrow>
     (case core_timers c LabelTimer of
        None \<Rightarrow> core_pending_labels c = []
      | Some armed \<Rightarrow> core_pending_labels c \<noteq> [] \<and> Min (snd ` set (core_pending_labels c)) \<le> timer_due armed)"

definition label_invariant :: "Core \<Rightarrow> bool" where
  "label_invariant c \<longleftrightarrow> labels_ok c \<and> label_timer_ok c"

lemmas label_defs = label_invariant_def labels_ok_def label_timer_ok_def finished_def

section \<open>The primitives\<close>

lemma finished_frame [simp]:
  "finished (core_config_update u_config c) = finished c"
  "finished (core_now_update u_now c) = finished c"
  "finished (core_transport_state_update u_transport_state c) = finished c"
  "finished (core_random_update u_random c) = finished c"
  "finished (core_port_update u_port c) = finished c"
  "finished (core_tls_enabled_update u_tls_enabled c) = finished c"
  "finished (core_nickname_update u_nickname c) = finished c"
  "finished (core_channel_types_update u_channel_types c) = finished c"
  "finished (core_features_update u_features c) = finished c"
  "finished (core_history_limit_update u_history_limit c) = finished c"
  "finished (core_autojoin_channels_update u_autojoin_channels c) = finished c"
  "finished (core_autojoin_keys_update u_autojoin_keys c) = finished c"
  "finished (core_pending_join_keys_update u_pending_join_keys c) = finished c"
  "finished (core_caps_update u_caps c) = finished c"
  "finished (core_read_marker_token_update u_read_marker_token c) = finished c"
  "finished (core_metadata_update u_metadata c) = finished c"
  "finished (core_published_caps_update u_published_caps c) = finished c"
  "finished (core_typing_update u_typing c) = finished c"
  "finished (core_framer_update u_framer c) = finished c"
  "finished (core_batches_update u_batches c) = finished c"
  "finished (core_history_update u_history c) = finished c"
  "finished (core_read_markers_update u_read_markers c) = finished c"
  "finished (core_pending_labels_update u_pending_labels c) = finished c"
  "finished (core_next_request_label_update u_next_request_label c) = finished c"
  "finished (core_ctcp_reply_clock_update u_ctcp_reply_clock c) = finished c"
  "finished (core_ping_update u_ping c) = finished c"
  "finished (core_connection_update u_connection c) = finished c"
  "finished (core_registration_sent_update u_registration_sent c) = finished c"
  "finished (core_registration_nick_update u_registration_nick c) = finished c"
  "finished (core_sasl_update u_sasl c) = finished c"
  "finished (core_capability_negotiation_ended_update u_capability_negotiation_ended c) = finished c"
  "finished (core_capability_list_seen_update u_capability_list_seen c) = finished c"
  "finished (core_pending_sts_update u_pending_sts c) = finished c"
  "finished (core_sts_duration_update u_sts_duration c) = finished c"
  "finished (core_sts_update u_sts c) = finished c"
  "finished (core_state_update u_state c) = finished c"
  "finished (core_ignore_filter_update u_ignore_filter c) = finished c"
  "finished (core_pending_invite_update u_pending_invite c) = finished c"
  "finished (core_history_resume_update u_history_resume c) = finished c"
  "finished (core_timers_update u_timers c) = finished c"
  "finished (core_timer_sequence_update u_timer_sequence c) = finished c"
  "finished (core_sync_timers_update u_sync_timers c) = finished c"
  "finished (core_effects_update u_effects c) = finished c"
  "finished (core_received_log_update u_received_log c) = finished c"
  by (simp_all add: finished_def)

lemma finished_emit [simp]: "finished (emit event c) = finished c @ finished_labels event"
  by (simp add: finished_def emit_def)

lemma emit_fields [simp]:
  "core_pending_labels (emit event c) = core_pending_labels c" "core_next_request_label (emit event c) = core_next_request_label c"
  "core_timers (emit event c) = core_timers c" "core_now (emit event c) = core_now c"
  by (simp_all add: emit_def)

lemma finished_emits:
  "finished (foldl (\<lambda>c label. emit (RequestLabelFinished (core_network_id c) label) c) c labels) = finished c @ labels"
  by (induction labels arbitrary: c) simp_all

lemma emits_fields [simp]:
  "core_pending_labels (foldl (\<lambda>c label. emit (RequestLabelFinished (core_network_id c) label) c) c labels) = core_pending_labels c"
  "core_next_request_label (foldl (\<lambda>c label. emit (RequestLabelFinished (core_network_id c) label) c) c labels) = core_next_request_label c"
  "core_timers (foldl (\<lambda>c label. emit (RequestLabelFinished (core_network_id c) label) c) c labels) = core_timers c"
  "core_now (foldl (\<lambda>c label. emit (RequestLabelFinished (core_network_id c) label) c) c labels) = core_now c"
  by (induction labels arbitrary: c) simp_all

lemma issued_mono: "issued n label \<Longrightarrow> n \<le> n' \<Longrightarrow> issued n' label"
  unfolding issued_def by fastforce

lemma issued_fresh: "\<not> issued n (''lr'' @ decimal (Suc n))"
  by (simp add: issued_def)

lemma labels_ok_arm [simp]: "labels_ok (arm_label_timer c) = labels_ok c"
  by (simp add: labels_ok_def finished_def arm_label_timer_def arm_timer_def cancel_timer_def Let_def split: option.split)

lemma arm_label_timer_fields [simp]:
  "core_pending_labels (arm_label_timer c) = core_pending_labels c"
  "core_next_request_label (arm_label_timer c) = core_next_request_label c"
  "finished (arm_label_timer c) = finished c" "core_now (arm_label_timer c) = core_now c"
  "core_timers (arm_label_timer c) LabelTimer =
     (if core_pending_labels c = [] then None
      else Some \<lparr>timer_id = core_timer_sequence c + 1,
                 timer_due = max (core_now c) (Min (snd ` set (core_pending_labels c)))\<rparr>)"
  by (auto simp: arm_label_timer_def earliest_deadline_def arm_timer_def cancel_timer_def Let_def max_def)

lemma arm_label_timer_ok: "label_timer_ok (arm_label_timer c)"
  by (simp add: label_timer_ok_def)

lemma label_timer_ok_emit [simp]: "label_timer_ok (emit event c) = label_timer_ok c"
  by (simp add: label_timer_ok_def emit_def split: option.split)

lemma label_invariant_arm: "labels_ok c \<Longrightarrow> label_invariant (arm_label_timer c)"
  by (simp add: label_invariant_def arm_label_timer_ok)

lemma distinct_keys_remove: "distinct (bt_keys m) \<Longrightarrow> distinct (bt_keys (bt_remove k m))"
  unfolding bt_keys_def bt_remove_def by (simp add: distinct_map_filter)

lemma labels_ok_remove:
  assumes "labels_ok c"
  shows "labels_ok (c\<lparr>core_pending_labels := bt_remove label (core_pending_labels c)\<rparr>)"
  using assms unfolding labels_ok_def by (auto intro: distinct_keys_remove)

lemma label_invariant_begin: "label_invariant c \<Longrightarrow> label_invariant (fst (begin_labeled_request c))"
  unfolding begin_labeled_request_def Let_def fst_conv
proof (rule label_invariant_arm)
  let ?n = "core_next_request_label c + 1" and ?label = "''lr'' @ decimal (core_next_request_label c + 1)"
  assume "label_invariant c"
  then have ok: "labels_ok c"
    by (simp add: label_invariant_def)
  have "?label \<notin> set (bt_keys (core_pending_labels c) @ finished c)"
    using ok issued_fresh [of "core_next_request_label c"] unfolding labels_ok_def by auto
  moreover have "issued ?n ?label"
    by (simp add: issued_def)
  ultimately show "labels_ok (c\<lparr>core_next_request_label := ?n, core_pending_labels := bt_insert ?label deadline (core_pending_labels c)\<rparr>)" for deadline
    using ok unfolding labels_ok_def by (auto intro: bt_wf_distinct bt_wf_insert issued_mono)
qed

lemma label_invariant_drop: "label_invariant c \<Longrightarrow> label_invariant (drop_request_label label c)"
  by (auto simp: drop_request_label_def intro!: label_invariant_arm labels_ok_remove) (simp add: label_invariant_def)

lemma label_invariant_finish: "label_invariant c \<Longrightarrow> label_invariant (finish_request_label label c)"
proof -
  assume I: "label_invariant c"
  let ?c = "arm_label_timer (c\<lparr>core_pending_labels := bt_remove label (core_pending_labels c)\<rparr>)"
  have ok: "labels_ok c" "labels_ok ?c"
    using I by (simp_all add: label_invariant_def labels_ok_remove)
  have "labels_ok (emit (RequestLabelFinished n label) ?c)" if "bt_contains (core_pending_labels c) label" for n
  proof -
    have "label \<in> set (bt_keys (core_pending_labels c) @ finished c)" "label \<notin> set (finished c)"
      using that ok(1) by (auto simp: bt_contains_iff labels_ok_def)
    then show ?thesis
      using ok unfolding labels_ok_def by auto
  qed
  then show ?thesis
    using I by (simp add: finish_request_label_def label_invariant_def arm_label_timer_ok)
qed

lemma remove_labels:
  "foldl (\<lambda>c label. c\<lparr>core_pending_labels := bt_remove label (core_pending_labels c)\<rparr>) c labels
     = c\<lparr>core_pending_labels := filter (\<lambda>e. fst e \<notin> set labels) (core_pending_labels c)\<rparr>"
proof (induction labels arbitrary: c)
  case (Cons label labels)
  show ?case
    unfolding foldl_Cons Cons by (simp add: bt_remove_def conj_commute)
qed simp

lemma expired_remain:
  assumes "bt_wf m"
  shows "filter (\<lambda>e. fst e \<notin> set (map fst (filter P m))) m = filter (\<lambda>e. \<not> P e) m"
proof (rule filter_cong [OF refl])
  fix e
  assume "e \<in> set m"
  moreover obtain k v where "e = (k, v)"
    by (cases e)
  ultimately show "fst e \<notin> set (map fst (filter P m)) \<longleftrightarrow> \<not> P e"
    using bt_wf_distinct [OF assms] unfolding bt_keys_def by (force dest: eq_key_imp_eq_value)
qed

lemma emits_sequence [simp]:
  "core_timer_sequence (foldl (\<lambda>c label. emit (RequestLabelFinished (core_network_id c) label) c) c labels) = core_timer_sequence c"
  by (induction labels arbitrary: c) (simp_all add: emit_def)

lemma label_timer_fired:
  assumes "label_invariant c"
  defines "fired \<equiv> on_label_timer_fired (cancel_timer LabelTimer c)"
  shows "core_pending_labels fired = filter (\<lambda>e. core_now c < snd e) (core_pending_labels c)"
    and "finished fired = finished c @ map fst (filter (\<lambda>e. snd e \<le> core_now c) (core_pending_labels c))"
    and "core_timers fired LabelTimer =
      (if core_pending_labels fired = [] then None
       else Some \<lparr>timer_id = core_timer_sequence c + 1,
                  timer_due = max (core_now c) (Min (snd ` set (core_pending_labels fired)))\<rparr>)"
    and "core_next_request_label fired = core_next_request_label c"
    and "label_timer_ok fired"
proof -
  let ?due = "filter (\<lambda>e. snd e \<le> core_now c) (core_pending_labels c)"
  let ?rest = "filter (\<lambda>e. core_now c < snd e) (core_pending_labels c)"
  let ?c = "(cancel_timer LabelTimer c)\<lparr>core_pending_labels := ?rest\<rparr>"
  have "bt_wf (core_pending_labels c)"
    using assms(1) by (simp add: label_defs)
  then have "fired = arm_label_timer
      (foldl (\<lambda>c label. emit (RequestLabelFinished (core_network_id c) label) c) ?c (map fst ?due))"
    by (simp add: fired_def on_label_timer_fired_def cancel_timer_def remove_labels expired_remain Let_def case_prod_beta' not_le
        del: foldl_map set_map)
  then show "core_pending_labels fired = ?rest" "finished fired = finished c @ map fst ?due"
    "core_timers fired LabelTimer =
      (if core_pending_labels fired = [] then None
       else Some \<lparr>timer_id = core_timer_sequence c + 1,
                  timer_due = max (core_now c) (Min (snd ` set (core_pending_labels fired)))\<rparr>)"
    "core_next_request_label fired = core_next_request_label c" "label_timer_ok fired"
    by (simp_all add: finished_emits cancel_timer_def arm_label_timer_ok del: foldl_map)
qed

lemma labels_ok_partition:
  assumes "labels_ok c" "core_pending_labels c' = filter (\<lambda>e. \<not> P e) (core_pending_labels c)"
    "finished c' = finished c @ map fst (filter P (core_pending_labels c))"
    "core_next_request_label c' = core_next_request_label c"
  shows "labels_ok c'"
proof -
  have wf: "bt_wf (core_pending_labels c)" and keys: "distinct (map fst (core_pending_labels c))"
    using assms(1) by (simp_all add: labels_ok_def bt_keys_def)
  have "bt_wf (core_pending_labels c')"
    using wf unfolding assms(2) bt_wf_def by (rule sorted_wrt_map_filter)
  moreover have "set (map fst (filter (\<lambda>e. \<not> P e) (core_pending_labels c))) \<inter> set (map fst (filter P (core_pending_labels c))) = {}"
    using keys by (auto dest: eq_key_imp_eq_value)
  ultimately show ?thesis
    using assms(1) keys unfolding labels_ok_def assms(2-4) bt_keys_def by (auto simp: distinct_map_filter)
qed

lemma label_invariant_expire: "label_invariant c \<Longrightarrow> label_invariant (on_label_timer_fired (cancel_timer LabelTimer c))"
  using labels_ok_partition [of c _ "\<lambda>e. snd e \<le> core_now c"] label_timer_fired [of c]
  by (auto simp: label_invariant_def not_le)

lemma label_invariant_clear: "label_invariant c \<Longrightarrow> label_invariant (clear_pending_request_labels True c)"
proof -
  let ?c = "clear_pending_request_labels True c"
  assume I: "label_invariant c"
  have "core_pending_labels ?c = []" "finished ?c = finished c @ map fst (core_pending_labels c)"
    "core_next_request_label ?c = core_next_request_label c" "core_timers ?c LabelTimer = None"
    by (simp_all add: clear_pending_request_labels_def finished_emits cancel_timer_def bt_keys_def Let_def del: foldl_map)
  then show ?thesis
    using I labels_ok_partition [of c ?c "\<lambda>_. True"] by (simp add: label_invariant_def label_timer_ok_def)
qed

section \<open>The invariant\<close>

lemma label_invariant_frame:
  assumes "finished c' = finished c" "core_pending_labels c' = core_pending_labels c"
    "core_next_request_label c' = core_next_request_label c" "core_timers c' LabelTimer = core_timers c LabelTimer"
  shows "label_invariant c' = label_invariant c"
  unfolding label_invariant_def labels_ok_def label_timer_ok_def assms by (rule refl)

lemma label_frame [simp]:
  "label_invariant (core_config_update u_config c) = label_invariant c"
  "label_invariant (core_now_update u_now c) = label_invariant c"
  "label_invariant (core_transport_state_update u_transport_state c) = label_invariant c"
  "label_invariant (core_random_update u_random c) = label_invariant c"
  "label_invariant (core_port_update u_port c) = label_invariant c"
  "label_invariant (core_tls_enabled_update u_tls_enabled c) = label_invariant c"
  "label_invariant (core_nickname_update u_nickname c) = label_invariant c"
  "label_invariant (core_channel_types_update u_channel_types c) = label_invariant c"
  "label_invariant (core_features_update u_features c) = label_invariant c"
  "label_invariant (core_history_limit_update u_history_limit c) = label_invariant c"
  "label_invariant (core_autojoin_channels_update u_autojoin_channels c) = label_invariant c"
  "label_invariant (core_autojoin_keys_update u_autojoin_keys c) = label_invariant c"
  "label_invariant (core_pending_join_keys_update u_pending_join_keys c) = label_invariant c"
  "label_invariant (core_caps_update u_caps c) = label_invariant c"
  "label_invariant (core_read_marker_token_update u_read_marker_token c) = label_invariant c"
  "label_invariant (core_metadata_update u_metadata c) = label_invariant c"
  "label_invariant (core_published_caps_update u_published_caps c) = label_invariant c"
  "label_invariant (core_typing_update u_typing c) = label_invariant c"
  "label_invariant (core_framer_update u_framer c) = label_invariant c"
  "label_invariant (core_batches_update u_batches c) = label_invariant c"
  "label_invariant (core_history_update u_history c) = label_invariant c"
  "label_invariant (core_read_markers_update u_read_markers c) = label_invariant c"
  "label_invariant (core_ctcp_reply_clock_update u_ctcp_reply_clock c) = label_invariant c"
  "label_invariant (core_ping_update u_ping c) = label_invariant c"
  "label_invariant (core_connection_update u_connection c) = label_invariant c"
  "label_invariant (core_registration_sent_update u_registration_sent c) = label_invariant c"
  "label_invariant (core_registration_nick_update u_registration_nick c) = label_invariant c"
  "label_invariant (core_sasl_update u_sasl c) = label_invariant c"
  "label_invariant (core_capability_negotiation_ended_update u_capability_negotiation_ended c) = label_invariant c"
  "label_invariant (core_capability_list_seen_update u_capability_list_seen c) = label_invariant c"
  "label_invariant (core_pending_sts_update u_pending_sts c) = label_invariant c"
  "label_invariant (core_sts_duration_update u_sts_duration c) = label_invariant c"
  "label_invariant (core_sts_update u_sts c) = label_invariant c"
  "label_invariant (core_state_update u_state c) = label_invariant c"
  "label_invariant (core_ignore_filter_update u_ignore_filter c) = label_invariant c"
  "label_invariant (core_pending_invite_update u_pending_invite c) = label_invariant c"
  "label_invariant (core_history_resume_update u_history_resume c) = label_invariant c"
  "label_invariant (core_timer_sequence_update u_timer_sequence c) = label_invariant c"
  "label_invariant (core_sync_timers_update u_sync_timers c) = label_invariant c"
  "label_invariant (core_effects_update u_effects c) = label_invariant c"
  "label_invariant (core_received_log_update u_received_log c) = label_invariant c"
  by (rule label_invariant_frame; simp)+

lemma label_slots:
  "finished_labels event = [] \<Longrightarrow> label_invariant (emit event c) = label_invariant c"
  "slot \<noteq> LabelTimer \<Longrightarrow> label_invariant (cancel_timer slot c) = label_invariant c"
  "slot \<noteq> LabelTimer \<Longrightarrow> label_invariant (arm_timer slot delay c) = label_invariant c"
  by (rule label_invariant_frame; simp add: cancel_timer_def arm_timer_def Let_def)+

lemma label_invariant_new: "label_invariant (new_core config store)"
  by (simp add: label_defs new_core_def)

interpretation labels: ledger_invariant E label_invariant "\<lambda>_ _. True" "\<lambda>_ _ _. True" for E
  by unfold_locales
    (simp_all add: label_invariant_new label_invariant_begin label_invariant_drop label_invariant_finish
      label_invariant_expire label_invariant_clear label_slots push_effect_def)

section \<open>Properties\<close>

text \<open>
  C32. However a session is driven, the owner is told at most once that a label finished, never while the label is
  still pending, and never of a label the session did not issue; and the label timer runs exactly when labels are
  pending, so none is forgotten.
\<close>

theorem labels_finish_once:
  assumes "session_reachable E c"
  shows "distinct (finished c) \<and> set (finished c) \<inter> set (bt_keys (core_pending_labels c)) = {}
    \<and> (\<forall>label \<in> set (finished c) \<union> set (bt_keys (core_pending_labels c)). issued (core_next_request_label c) label)
    \<and> (core_timers c LabelTimer \<noteq> None \<longleftrightarrow> core_pending_labels c \<noteq> [])"
  using labels.reachable_invariant [OF assms] unfolding label_defs by (auto split: option.splits)

theorem labels_finish_once_witness:
  "set (finished sample_labeled) \<inter> set (bt_keys (core_pending_labels sample_labeled)) = {}
   \<and> core_pending_labels sample_labeled \<noteq> [] \<and> core_timers sample_labeled LabelTimer \<noteq> None"
  using labels_finish_once [OF session_sample_reachable(2)] labeled_facts by simp

text \<open>
  C33. When the label timer fires at or after the time it was armed for, exactly the labels whose deadline has
  passed are reported and at least one is; the others stay, and if there are any the timer is armed again for the
  earliest of their deadlines. So every label is reported no later than the first firing after its deadline.
\<close>

theorem label_deadlines_met:
  assumes "session_reachable E c" "core_timers c LabelTimer = Some armed" "timer_due armed \<le> core_now c"
  shows "(let c' = timer_fired E LabelTimer (timer_id armed) c; expired = filter (\<lambda>e. snd e \<le> core_now c) (core_pending_labels c) in
     expired \<noteq> [] \<and> finished c' = finished c @ map fst expired
     \<and> core_pending_labels c' = filter (\<lambda>e. core_now c < snd e) (core_pending_labels c)
     \<and> map_option timer_due (core_timers c' LabelTimer) = earliest_deadline (core_pending_labels c'))"
proof -
  let ?P = "core_pending_labels c"
  have I: "label_invariant c"
    using labels.reachable_invariant [OF assms(1)] .
  have eq: "timer_fired E LabelTimer (timer_id armed) c = on_label_timer_fired (cancel_timer LabelTimer c)"
    using assms(2) by (simp add: timer_fired_def cancel_timer_def)
  have "?P \<noteq> []" "Min (snd ` set ?P) \<le> core_now c"
    using I assms(2,3) by (simp_all add: label_defs)
  then have "\<exists>e \<in> set ?P. snd e \<le> core_now c"
    by (simp add: Min_le_iff)
  moreover have "max (core_now c) (Min (snd ` set (filter (\<lambda>e. core_now c < snd e) ?P)))
      = Min (snd ` set (filter (\<lambda>e. core_now c < snd e) ?P))"
    if "filter (\<lambda>e. core_now c < snd e) ?P \<noteq> []"
  proof -
    have "Min (snd ` set R) \<in> snd ` set R" if "R \<noteq> []" for R :: "(string, instant) btree_map"
      using that by (intro Min_in) simp_all
    from this [OF that] show ?thesis
      by auto
  qed
  ultimately show ?thesis
    unfolding eq Let_def using label_timer_fired [OF I] by (auto simp: filter_empty_conv earliest_deadline_def)
qed

theorem label_deadlines_met_witness:
  "\<exists>c armed. session_reachable sample_session c \<and> core_timers c LabelTimer = Some armed
     \<and> finished (timer_fired sample_session LabelTimer (timer_id armed) c) \<noteq> finished c"
proof -
  obtain armed where armed: "core_timers sample_labeled LabelTimer = Some armed"
    using labels.reachable_invariant [OF session_sample_reachable(2)] labeled_facts
    unfolding label_defs by (auto split: option.splits)
  let ?c = "sample_labeled\<lparr>core_now := max (core_now sample_labeled) (timer_due armed)\<rparr>"
  have "session_reachable sample_session ?c"
    by (rule reach_step [OF session_sample_reachable(2) step_clock]) simp
  moreover have "core_timers ?c LabelTimer = Some armed" "timer_due armed \<le> core_now ?c"
    using armed by simp_all
  ultimately show ?thesis
    using label_deadlines_met [of sample_session ?c armed] unfolding Let_def
    by (intro exI [of _ ?c] exI [of _ armed]) (metis append_self_conv map_is_Nil_conv)
qed

end
