(* ===== verification/SessionLedgers.thy ===== *)
theory SessionLedgers
  imports SessionSample
begin

text \<open>
  The batches (\<open>session/batch.rs\<close>) and the history requests (\<open>session/history.rs\<close>) over the whole life of a session:
  what a server can make the client hold, and when a request counts as in flight.
\<close>

definition batches_ok :: "(string, OpenBatch) btree_map \<Rightarrow> string btree_set \<Rightarrow> bool" where
  "batches_ok opened dropped \<longleftrightarrow>
     length dropped \<le> MAX_IGNORED_BATCHES
     \<and> (\<forall>(_, frame) \<in> set opened. length (hb_lines (collected frame)) \<le> HISTORY_BUFFER_CEILING)"

definition generation_of :: "(string, nat) btree_map \<Rightarrow> string \<Rightarrow> nat" where
  "generation_of G key = (case bt_get G key of None \<Rightarrow> 0 | Some g \<Rightarrow> g)"

definition pending_ok ::
  "(string, nat) btree_map \<Rightarrow> (string, nat) btree_map \<Rightarrow> (string, HistoryRequestKind) btree_map \<Rightarrow> bool" where
  "pending_ok G P K \<longleftrightarrow>
     set (bt_keys P) = set (bt_keys K) \<and> (\<forall>key g. bt_get P key = Some g \<longrightarrow> g = generation_of G key)"

definition ledgers_ok :: "Core \<Rightarrow> bool" where
  "ledgers_ok c \<longleftrightarrow>
     batches_ok (open_batches (core_batches c)) (ignored_batches (core_batches c))
     \<and> pending_ok (hl_generation (core_history c)) (hl_pending (core_history c)) (hl_pending_kind (core_history c))"

section \<open>The primitives\<close>

lemma batches_close: "batches_ok opened dropped \<Longrightarrow> batches_ok (bt_remove r opened) dropped"
  using set_bt_remove unfolding batches_ok_def by fastforce

lemma batches_unignore: "batches_ok opened dropped \<Longrightarrow> batches_ok opened (bs_remove r dropped)"
  using length_bs_remove [of r dropped] unfolding batches_ok_def by simp

lemma batches_ignore: "batches_ok opened dropped \<Longrightarrow> length dropped < MAX_IGNORED_BATCHES \<Longrightarrow> batches_ok opened (bs_insert r dropped)"
  using length_bs_insert [of r dropped] unfolding batches_ok_def by simp

lemma batches_insert:
  "batches_ok opened dropped \<Longrightarrow> length (hb_lines (collected frame)) \<le> HISTORY_BUFFER_CEILING \<Longrightarrow>
   batches_ok (bt_insert r frame opened) dropped"
  using set_bt_insert [of r frame opened] unfolding batches_ok_def by fastforce

lemma capture_line_bound:
  "length (hb_lines (collected frame)) \<le> HISTORY_BUFFER_CEILING \<Longrightarrow>
   length (hb_lines (collected (capture_line message frame))) \<le> HISTORY_BUFFER_CEILING"
  by (simp add: capture_line_def vec_remove_def HISTORY_BUFFER_CEILING_def Let_def)

lemma batches_capture:
  "batches_ok opened dropped \<Longrightarrow> bt_get opened r = Some frame \<Longrightarrow>
   batches_ok (bt_insert r (capture_line message frame) opened) dropped"
  by (intro batches_insert capture_line_bound) (auto simp: batches_ok_def dest: bt_get_in)

lemma pending_drop: "pending_ok G P K \<Longrightarrow> pending_ok G (bt_remove key P) (bt_remove key K)"
  by (simp add: pending_ok_def)

lemma pending_none: "pending_ok G [] []"
  by (simp add: pending_ok_def)

lemma pending_put:
  "pending_ok G P K \<Longrightarrow> g = (case bt_get G key of None \<Rightarrow> 0 | Some n \<Rightarrow> n) \<Longrightarrow>
   pending_ok G (bt_insert key g P) (bt_insert key request K)"
  by (simp add: pending_ok_def generation_of_def)

lemma pending_bump: "pending_ok G P K \<Longrightarrow> pending_ok (bt_insert key g G) (bt_remove key P) (bt_remove key K)"
  by (simp add: pending_ok_def generation_of_def)

lemma ledgers_frame [simp]:
  "ledgers_ok (core_config_update u_config c) = ledgers_ok c"
  "ledgers_ok (core_now_update u_now c) = ledgers_ok c"
  "ledgers_ok (core_transport_state_update u_transport_state c) = ledgers_ok c"
  "ledgers_ok (core_random_update u_random c) = ledgers_ok c"
  "ledgers_ok (core_port_update u_port c) = ledgers_ok c"
  "ledgers_ok (core_tls_enabled_update u_tls_enabled c) = ledgers_ok c"
  "ledgers_ok (core_nickname_update u_nickname c) = ledgers_ok c"
  "ledgers_ok (core_channel_types_update u_channel_types c) = ledgers_ok c"
  "ledgers_ok (core_features_update u_features c) = ledgers_ok c"
  "ledgers_ok (core_history_limit_update u_history_limit c) = ledgers_ok c"
  "ledgers_ok (core_autojoin_channels_update u_autojoin_channels c) = ledgers_ok c"
  "ledgers_ok (core_autojoin_keys_update u_autojoin_keys c) = ledgers_ok c"
  "ledgers_ok (core_pending_join_keys_update u_pending_join_keys c) = ledgers_ok c"
  "ledgers_ok (core_caps_update u_caps c) = ledgers_ok c"
  "ledgers_ok (core_read_marker_token_update u_read_marker_token c) = ledgers_ok c"
  "ledgers_ok (core_metadata_update u_metadata c) = ledgers_ok c"
  "ledgers_ok (core_published_caps_update u_published_caps c) = ledgers_ok c"
  "ledgers_ok (core_typing_update u_typing c) = ledgers_ok c"
  "ledgers_ok (core_framer_update u_framer c) = ledgers_ok c"
  "ledgers_ok (core_read_markers_update u_read_markers c) = ledgers_ok c"
  "ledgers_ok (core_pending_labels_update u_pending_labels c) = ledgers_ok c"
  "ledgers_ok (core_next_request_label_update u_next_request_label c) = ledgers_ok c"
  "ledgers_ok (core_ctcp_reply_clock_update u_ctcp_reply_clock c) = ledgers_ok c"
  "ledgers_ok (core_ping_update u_ping c) = ledgers_ok c"
  "ledgers_ok (core_connection_update u_connection c) = ledgers_ok c"
  "ledgers_ok (core_registration_sent_update u_registration_sent c) = ledgers_ok c"
  "ledgers_ok (core_registration_nick_update u_registration_nick c) = ledgers_ok c"
  "ledgers_ok (core_sasl_update u_sasl c) = ledgers_ok c"
  "ledgers_ok (core_capability_negotiation_ended_update u_capability_negotiation_ended c) = ledgers_ok c"
  "ledgers_ok (core_capability_list_seen_update u_capability_list_seen c) = ledgers_ok c"
  "ledgers_ok (core_pending_sts_update u_pending_sts c) = ledgers_ok c"
  "ledgers_ok (core_sts_duration_update u_sts_duration c) = ledgers_ok c"
  "ledgers_ok (core_sts_update u_sts c) = ledgers_ok c"
  "ledgers_ok (core_state_update u_state c) = ledgers_ok c"
  "ledgers_ok (core_ignore_filter_update u_ignore_filter c) = ledgers_ok c"
  "ledgers_ok (core_pending_invite_update u_pending_invite c) = ledgers_ok c"
  "ledgers_ok (core_history_resume_update u_history_resume c) = ledgers_ok c"
  "ledgers_ok (core_timers_update u_timers c) = ledgers_ok c"
  "ledgers_ok (core_timer_sequence_update u_timer_sequence c) = ledgers_ok c"
  "ledgers_ok (core_sync_timers_update u_sync_timers c) = ledgers_ok c"
  "ledgers_ok (core_events_update u_events c) = ledgers_ok c"
  "ledgers_ok (core_effects_update u_effects c) = ledgers_ok c"
  "ledgers_ok (core_received_log_update u_received_log c) = ledgers_ok c"
  by (simp_all add: ledgers_ok_def)

lemma ledgers_primitives [simp]:
  "ledgers_ok (emit event c) = ledgers_ok c" "ledgers_ok (push_effect effect c) = ledgers_ok c"
  "ledgers_ok (cancel_timer slot c) = ledgers_ok c" "ledgers_ok (arm_timer slot delay c) = ledgers_ok c"
  "ledgers_ok (arm_label_timer c) = ledgers_ok c"
  by (simp_all add: emit_def push_effect_def cancel_timer_def arm_timer_def arm_label_timer_def Let_def split: option.split)

lemma ledgers_foldl: "(\<And>c x. ledgers_ok (f c x) = ledgers_ok c) \<Longrightarrow> ledgers_ok (foldl f c xs) = ledgers_ok c"
  by (induction xs arbitrary: c) simp_all

lemma ledgers_labels [simp]:
  "ledgers_ok (fst (begin_labeled_request c)) = ledgers_ok c" "ledgers_ok (drop_request_label label c) = ledgers_ok c"
  "ledgers_ok (finish_request_label label c) = ledgers_ok c" "ledgers_ok (on_label_timer_fired c) = ledgers_ok c"
  "ledgers_ok (clear_pending_request_labels notify c) = ledgers_ok c"
  by (simp_all add: begin_labeled_request_def drop_request_label_def finish_request_label_def on_label_timer_fired_def
      clear_pending_request_labels_def ledgers_foldl Let_def)

interpretation ledgers: ledger_invariant E ledgers_ok batches_ok pending_ok for E
proof unfold_locales
  show "ledgers_ok (new_core config store)" for config store
    by (simp add: ledgers_ok_def new_core_def default_batches_def new_history_ledger_def batches_ok_def pending_none)
qed (simp_all add: batches_close batches_unignore batches_ignore batches_insert batches_capture pending_drop pending_none
    pending_put pending_bump, simp_all add: ledgers_ok_def batches_ok_def)

section \<open>What the open-batch budget does not bound\<close>

text \<open>
  While an answer to CHATHISTORY TARGETS is outstanding, every further batch of that type is opened whatever the number
  of open batches, and the request stays outstanding: the number of open batches is not bounded by \<open>MAX_OPEN_BATCHES\<close>.
\<close>

lemma targets_batches_uncapped:
  assumes "hl_targets_pending (core_history c)" "replay_enabled c Targets" "replay_kind_for E (text_param message 1) = Some Targets"
    "bt_get (open_batches (core_batches c)) reference = None" "reference \<notin> set (ignored_batches (core_batches c))"
    "tag_text message ''batch'' = None"
  shows "length (open_batches (core_batches (open_batch E message reference c))) = Suc (length (open_batches (core_batches c)))
    \<and> hl_targets_pending (core_history (open_batch E message reference c))"
proof -
  have "open_batch E message reference c = c\<lparr>core_batches := (core_batches c)\<lparr>open_batches :=
      bt_insert reference (open_frame message reference [] (Some Targets) c) (open_batches (core_batches c))\<rparr>\<rparr>"
    using assms by (simp add: open_batch_def or_empty_def bt_contains_def Let_def)
  then show ?thesis
    using assms(1,4) by (simp add: length_bt_insert_new)
qed

section \<open>Properties\<close>


text \<open>
  In every reachable session a history request that is recorded as pending is of the channel's current
  generation, so it is in flight exactly when it is recorded, and its kind is recorded with it.
\<close>

theorem pending_requests_current:
  assumes "session_reachable E c"
  shows "history_inflight c target \<longleftrightarrow> target \<noteq> [] \<and> bt_contains (hl_pending (core_history c)) (fold_channel c target)
    \<and> bt_contains (hl_pending_kind (core_history c)) (fold_channel c target)"
proof -
  have I: "pending_ok (hl_generation (core_history c)) (hl_pending (core_history c)) (hl_pending_kind (core_history c))"
    using ledgers.reachable_invariant [OF assms] unfolding ledgers_ok_def by blast
  have "history_generation c target = generation_of (hl_generation (core_history c)) (fold_channel c target)"
    by (simp add: history_generation_def generation_of_def)
  then have "bt_get (hl_pending (core_history c)) (fold_channel c target) = Some (history_generation c target)
      \<longleftrightarrow> bt_contains (hl_pending (core_history c)) (fold_channel c target)"
    using I unfolding pending_ok_def bt_contains_def by auto
  then show ?thesis
    using I unfolding pending_ok_def history_inflight_def bt_contains_iff by auto
qed


theorem pending_requests_current_witness:
  "bt_contains (hl_pending_kind (core_history sample_asked)) (fold_channel sample_asked ''#a'')"
  using pending_requests_current [OF asked_reachable, of "''#a''"] asked_facts by simp

end
