(* ===== verification/SessionStream.thy ===== *)
theory SessionStream
  imports SessionWatch SessionLabels SessionLedgers
begin

text \<open>
  A session on a byte stream: the framer, the parser and the dispatcher together, on reads that cut the stream anywhere.
\<close>

definition receive :: "session_env \<Rightarrow> bytes list \<Rightarrow> Core \<Rightarrow> Core" where
  "receive E chunks c = foldl (\<lambda>c bytes. handle_bytes E bytes c) c chunks"

section \<open>Reads without a complete line\<close>

lemma feed_parts: "feed s x = (feed_state s x, \<lparr>frames = feed_frames s x, faults = faults (snd (feed s x))\<rparr>)"
  by (simp add: feed_state_def feed_frames_def prod_eq_iff)

lemma no_rejections: "feed_rejections s x = [] \<longleftrightarrow> faults (snd (feed s x)) = []"
  by (simp add: feed_rejections_def)

definition quiet_read :: "IrcFramer \<Rightarrow> Core \<Rightarrow> Core" where
  "quiet_read framer c = (if core_ping c = PingWatching then arm_ping_watchdog c else c)\<lparr>core_framer := framer\<rparr>"

lemma quiet_read_fields [simp]:
  "core_framer (quiet_read s c) = s" "core_effects (quiet_read s c) = core_effects c" "core_state (quiet_read s c) = core_state c"
  "core_ignore_filter (quiet_read s c) = core_ignore_filter c"
  by (simp_all add: quiet_read_def arm_ping_watchdog_def arm_timer_def cancel_timer_def Let_def)

lemma handle_bytes_clean:
  assumes "feed_rejections (core_framer c) bytes = []"
  shows "handle_bytes E bytes c = handle_frames E (feed_frames (core_framer c) bytes) (quiet_read (feed_state (core_framer c) bytes) c)"
proof -
  let ?armed = "if core_ping c = PingWatching then arm_ping_watchdog c else c"
  have "core_framer ?armed = core_framer c"
    by (simp add: arm_ping_watchdog_def arm_timer_def cancel_timer_def Let_def)
  then show ?thesis
    using assms feed_parts [of "core_framer c" bytes] unfolding no_rejections
    by (simp add: handle_bytes_def quiet_read_def Let_def split_beta)
qed

section \<open>A PING line\<close>

lemma find_crlf_no_cr: "CR \<notin> set xs \<Longrightarrow> find_crlf xs = None"
  by (induction xs) (auto simp: find_crlf_Cons)

lemma parse_ping: "\<not> contains_forbidden token \<Longrightarrow> parse (''PING :'' @ token) = Inr (command_message ''PING'' [token])"
proof -
  assume clean: "\<not> contains_forbidden token"
  have "is_valid_command ''PING''" "to_ascii_uppercase ''PING'' = ''PING''"
    by code_simp+
  from parse_plain [OF this, of "CHR '':'' # token"] clean
  have "parse (''PING'' @ SP # CHR '':'' # token) = Inr (command_message ''PING'' (parse_parameters (CHR '':'' # token)))"
    by (simp add: contains_forbidden_def)
  moreover have "parse_parameters (CHR '':'' # token) = [token]"
    using parse_parameters_trailing [of "[]" "[]" token] by (simp add: parse_parameters_def limit_defs)
  ultimately show ?thesis
    by simp
qed

lemma ping_message:
  assumes "core_ignore_filter c = None"
  shows "handle_message E (command_message ''PING'' [token]) c = send_line (''PONG :'' @ token @ [CR, LF])
    (emit (Inbound (core_network_id c) (command_message ''PING'' [token]) [] (core_nickname c) (core_channel_types c) (core_now c)) c)"
proof -
  have tags: "or_empty (tag_text (command_message ''PING'' [token]) name) = []" for name
    by (simp add: or_empty_def tag_text_def command_message_def)
  have fields: "msg_command (command_message ''PING'' [token]) = ''PING''" "msg_params (command_message ''PING'' [token]) = [token]"
    by (simp_all add: command_message_def)
  show ?thesis
    using assms by (simp add: handle_message_def note_invite_def correlation_label_def apply_isupport_def capture_in_batch_def
        answer_or_route_def tags fields Let_def)
qed

lemma ping_frame:
  fixes E :: session_env
  assumes "\<not> contains_forbidden token" "core_ignore_filter c = None" "core_state c \<noteq> StsUpgrading"
  defines "c' \<equiv> handle_frames E [''PING :'' @ token] c"
  shows "core_effects c' = core_effects c @ [Write (''PONG :'' @ token @ [CR, LF])]" "core_framer c' = core_framer c"
    "core_state c' = core_state c" "core_ignore_filter c' = core_ignore_filter c"
proof -
  have "c' = handle_message E (command_message ''PING'' [token]) c"
    using assms(3) parse_ping [OF assms(1)] by (simp add: c'_def)
  then show "core_effects c' = core_effects c @ [Write (''PONG :'' @ token @ [CR, LF])]" "core_framer c' = core_framer c"
    "core_state c' = core_state c" "core_ignore_filter c' = core_ignore_filter c"
    by (simp_all add: ping_message [OF assms(2)] send_line_def push_effect_def emit_def)
qed

section \<open>Any way of cutting the stream\<close>

lemma receive_nothing:
  assumes "feed_frames (core_framer c) (concat chunks) = []" "feed_rejections (core_framer c) (concat chunks) = []"
  shows "core_effects (receive E chunks c) = core_effects c"
  using assms
proof (induction chunks arbitrary: c)
  case (Cons bytes chunks)
  then have "feed_frames (core_framer c) bytes = []" "feed_rejections (core_framer c) bytes = []"
    "feed_frames (feed_state (core_framer c) bytes) (concat chunks) = []"
    "feed_rejections (feed_state (core_framer c) bytes) (concat chunks) = []"
    by (simp_all add: feed_append)
  then show ?case
    using Cons.IH [of "quiet_read (feed_state (core_framer c) bytes) c"] by (simp add: receive_def handle_bytes_clean)
qed (simp add: receive_def)

lemma receive_ping:
  assumes "feed_frames (core_framer c) (concat chunks) = [''PING :'' @ token]" "feed_rejections (core_framer c) (concat chunks) = []"
    "\<not> contains_forbidden token" "core_ignore_filter c = None" "core_state c \<noteq> StsUpgrading" "chunks \<noteq> []"
  shows "core_effects (receive E chunks c) = core_effects c @ [Write (''PONG :'' @ token @ [CR, LF])]"
  using assms
proof (induction chunks arbitrary: c)
  case (Cons bytes chunks)
  let ?s = "feed_state (core_framer c) bytes"
  let ?c = "quiet_read ?s c"
  have split: "feed_frames (core_framer c) bytes @ feed_frames ?s (concat chunks) = [''PING :'' @ token]"
    and clean: "feed_rejections (core_framer c) bytes = []" "feed_rejections ?s (concat chunks) = []"
    using Cons.prems(1,2) by (simp_all add: feed_append)
  have step: "receive E (bytes # chunks) c = receive E chunks (handle_frames E (feed_frames (core_framer c) bytes) ?c)"
    using clean by (simp add: receive_def handle_bytes_clean)
  show ?case
  proof (cases "feed_frames (core_framer c) bytes = []")
    case True
    have "feed_frames ?s [] = []"
      using feed_append(2) [of "core_framer c" bytes "[]"] by simp
    with True split have "chunks \<noteq> []"
      by auto
    with True show ?thesis
      using Cons.IH [of ?c] split clean Cons.prems(3-5) step by simp
  next
    case False
    with split have first: "feed_frames (core_framer c) bytes = [''PING :'' @ token]" and rest: "feed_frames ?s (concat chunks) = []"
      by (auto simp: append_eq_Cons_conv)
    note frame = ping_frame [OF Cons.prems(3), of ?c E]
    show ?thesis
      unfolding step first using frame rest clean Cons.prems(4,5) by (simp add: receive_nothing)
  qed
qed simp

end
