(* ===== verification/MembershipNoise.thy ===== *)
theory MembershipNoise
  imports ServiceNick
begin

text \<open>
  \<^verbatim>\<open>client/src/irc/membershipnoise.rs\<close>: the captions of join, part, quit and nick lines, and how an arriving line
  folds into the caption above it. The text is split where the code splits it: the earliest verb of what is left
  decides the next clause.
\<close>

section \<open>Model\<close>

datatype MembershipNoise = Folded | Every | Hidden

definition ALL_NOISE :: "MembershipNoise list" where
  "ALL_NOISE = [Folded, Every, Hidden]"

fun noise_token :: "MembershipNoise \<Rightarrow> string" where
  "noise_token Folded = ''folded''"
| "noise_token Every = ''every''"
| "noise_token Hidden = ''hidden''"

definition noise_from_token :: "unicode \<Rightarrow> string \<Rightarrow> MembershipNoise option" where
  "noise_from_token u word =
     (let folded = lower_text u (trim word) in List.find (\<lambda>level. noise_token level = folded) ALL_NOISE)"

definition shown_account :: "bool \<Rightarrow> string \<Rightarrow> string" where
  "shown_account same_as_nick account = (if account = [] \<or> account = ''*'' \<or> same_as_nick then [] else account)"

definition join_line :: "string \<Rightarrow> string \<Rightarrow> string" where
  "join_line who account =
     (if account = [] then who @ '' joined'' else who @ '' ('' @ account @ '') joined'')"

definition part_line :: "string \<Rightarrow> string" where
  "part_line who = who @ '' left''"

definition quit_line :: "string \<Rightarrow> string" where
  "quit_line who = who @ '' quit''"

definition nick_line :: "string \<Rightarrow> string \<Rightarrow> string" where
  "nick_line old_nick new_nick = old_nick @ '' is now '' @ new_nick"

datatype FoldKind = FoldMerge | FoldCancel | FoldChain

record MembershipFold =
  fold_kind :: FoldKind
  fold_drop_row :: bool
  fold_body :: string

datatype Clause =
    Joined (tokens_of: "string list")
  | Left (tokens_of: "string list")
  | Quit (tokens_of: "string list")
  | NickChange (clause_old: string) (clause_new: string)

datatype Verb = VJoined | VLeft | VQuit | VNick

definition VERBS :: "(string \<times> Verb) list" where
  "VERBS = [('' joined'', VJoined), ('' left'', VLeft), ('' quit'', VQuit), ('' is now '', VNick)]"

definition render_clause :: "Clause \<Rightarrow> string" where
  "render_clause clause =
     (case clause of
        Joined names \<Rightarrow> join_with '', '' names @ '' joined''
      | Left names \<Rightarrow> join_with '', '' names @ '' left''
      | Quit names \<Rightarrow> join_with '', '' names @ '' quit''
      | NickChange old_nick new_nick \<Rightarrow> nick_line old_nick new_nick)"

definition render_clauses :: "Clause list \<Rightarrow> string" where
  "render_clauses clauses = join_with '', '' (map render_clause clauses)"

lemma find_sub_split:
  "find_sub pat s = Some at \<Longrightarrow> s = take at s @ pat @ drop (at + length pat) s \<and> at + length pat \<le> length s"
proof (induction s arbitrary: at)
  case Nil
  then show ?case by (simp split: if_splits)
next
  case (Cons x s)
  show ?case
  proof (cases "starts_with pat (x # s)")
    case True
    then show ?thesis
      using Cons.prems by (auto simp: starts_with_iff dest: arg_cong [where f = length])
  next
    case False
    then obtain n where n: "find_sub pat s = Some n" "at = Suc n"
      using Cons.prems by auto
    then show ?thesis
      using Cons.IH [OF n(1)] by simp
  qed
qed

text \<open>\<open>text.split(", ")\<close>.\<close>

function split_comma_space :: "string \<Rightarrow> string list" where
  "split_comma_space s =
     (case find_sub '', '' s of
        None \<Rightarrow> [s]
      | Some at \<Rightarrow> take at s # split_comma_space (drop (at + 2) s))"
  by auto

termination
  by (relation "measure length") (auto dest!: find_sub_split)

definition split_tokens :: "string \<Rightarrow> string list" where
  "split_tokens text = filter (\<lambda>entry. entry \<noteq> []) (split_comma_space text)"

definition earliest_verb :: "string \<Rightarrow> (nat \<times> Verb \<times> nat) option" where
  "earliest_verb rest =
     foldl (\<lambda>best (suffix, verb).
              case find_sub suffix rest of
                None \<Rightarrow> best
              | Some at \<Rightarrow>
                  (case best of
                     Some (at', verb', len') \<Rightarrow> if at < at' then Some (at, verb, length suffix) else best
                   | None \<Rightarrow> Some (at, verb, length suffix)))
       None VERBS"

text \<open>One turn of the loop of \<open>parse_clauses\<close>: the clause at the front and how many bytes it takes.\<close>

definition next_clause :: "string \<Rightarrow> (Clause \<times> nat) option" where
  "next_clause rest =
     (case earliest_verb rest of
        None \<Rightarrow> None
      | Some (at, verb, len) \<Rightarrow>
          if at = 0 then None
          else if verb = VNick then
            (let cursor = at + len;
                 stop = (case position (\<lambda>b. b = CHR '','') (drop cursor rest) of
                           None \<Rightarrow> length rest | Some comma \<Rightarrow> cursor + comma);
                 new_nick = take (stop - cursor) (drop cursor rest)
             in if new_nick = [] \<or> CHR '' '' \<in> set new_nick then None
                else Some (NickChange (take at rest) new_nick, stop))
          else
            (let names = split_tokens (take at rest) in
             if names = [] then None
             else Some ((case verb of VJoined \<Rightarrow> Joined names | VLeft \<Rightarrow> Left names | _ \<Rightarrow> Quit names), at + len)))"

lemma next_clause_used: "next_clause rest = Some (clause, used) \<Longrightarrow> 0 < used"
  by (auto simp: next_clause_def Let_def split: option.splits if_splits)

function parse_clauses_loop :: "string \<Rightarrow> Clause list option" where
  "parse_clauses_loop rest =
     (case next_clause rest of
        None \<Rightarrow> None
      | Some (clause, used) \<Rightarrow>
          if drop used rest = [] then Some [clause]
          else if \<not> starts_with '', '' (drop used rest) then None
          else if drop (used + 2) rest = [] then None
          else map_option ((#) clause) (parse_clauses_loop (drop (used + 2) rest)))"
  by auto

termination
  by (relation "measure length") (auto dest!: next_clause_used)

definition parse_clauses :: "string \<Rightarrow> Clause list option" where
  "parse_clauses body =
     (if body = [] then None
      else case parse_clauses_loop body of
             None \<Rightarrow> None
           | Some clauses \<Rightarrow> if clauses = [] \<or> render_clauses clauses \<noteq> body then None else Some clauses)"

definition membership_nick :: "string \<Rightarrow> string" where
  "membership_nick entry =
     (if ends_with '')'' entry then
        (case find_sub '' ('' entry of
           Some at \<Rightarrow> if at > 0 then take at entry else entry
         | None \<Rightarrow> entry)
      else entry)"

definition collapse_event_body :: "string \<Rightarrow> string \<Rightarrow> string" where
  "collapse_event_body existing incoming =
     (case List.find (\<lambda>suffix. ends_with suffix existing \<and> ends_with suffix incoming)
             ['' joined'', '' left'', '' quit''] of
        Some suffix \<Rightarrow>
          take (length existing - length suffix) existing @ '', '' @
          take (length incoming - length suffix) incoming @ suffix
      | None \<Rightarrow> existing @ '', '' @ incoming)"

definition fold_merge :: "string \<Rightarrow> string \<Rightarrow> MembershipFold" where
  "fold_merge existing incoming =
     \<lparr>fold_kind = FoldMerge, fold_drop_row = False, fold_body = collapse_event_body existing incoming\<rparr>"

definition fold_decision :: "(string \<Rightarrow> string \<Rightarrow> bool) \<Rightarrow> Clause \<Rightarrow> Clause \<Rightarrow> FoldKind" where
  "fold_decision same before incoming =
     (case (before, incoming) of
        (Left names, Joined joined) \<Rightarrow>
          if length joined = 1 \<and> names \<noteq> [] \<and> same (membership_nick (last names)) (membership_nick (hd joined))
          then FoldCancel else FoldMerge
      | (Quit names, Joined joined) \<Rightarrow>
          if length joined = 1 \<and> names \<noteq> [] \<and> same (membership_nick (last names)) (membership_nick (hd joined))
          then FoldCancel else FoldMerge
      | (NickChange _ new_nick, NickChange old_nick _) \<Rightarrow> if same new_nick old_nick then FoldChain else FoldMerge
      | _ \<Rightarrow> FoldMerge)"

text \<open>\<open>tokens.pop()\<close> of the last clause, and the clause with it when it is empty.\<close>

definition pop_departure :: "Clause list \<Rightarrow> Clause list" where
  "pop_departure clauses =
     (let clause = last clauses; names = butlast (tokens_of clause) in
      if names = [] then butlast clauses
      else butlast clauses @ [case clause of Left _ \<Rightarrow> Left names | _ \<Rightarrow> Quit names])"

definition fold_membership :: "string \<Rightarrow> string \<Rightarrow> (string \<Rightarrow> string \<Rightarrow> bool) \<Rightarrow> MembershipFold" where
  "fold_membership existing incoming same =
     (case (parse_clauses existing, parse_clauses incoming) of
        (Some clauses, Some [next]) \<Rightarrow>
          (case fold_decision same (last clauses) next of
             FoldCancel \<Rightarrow>
               (let clauses = pop_departure clauses in
                if clauses = [] then \<lparr>fold_kind = FoldCancel, fold_drop_row = True, fold_body = []\<rparr>
                else \<lparr>fold_kind = FoldCancel, fold_drop_row = False, fold_body = render_clauses clauses\<rparr>)
           | FoldChain \<Rightarrow>
               \<lparr>fold_kind = FoldChain, fold_drop_row = False,
                fold_body = render_clauses (butlast clauses @ [NickChange (clause_old (last clauses)) (clause_new next)])\<rparr>
           | FoldMerge \<Rightarrow> fold_merge existing incoming)
      | _ \<Rightarrow> fold_merge existing incoming)"

end
