(* ===== verification/ReducerState.thy ===== *)
theory ReducerState
  imports SessionCore Inbox MembershipNoise
begin

text \<open>
  The data of the reducer: the events of \<^verbatim>\<open>client/src/irc/event.rs\<close>, the transcript row of
  \<^verbatim>\<open>client/src/irc/world.rs\<close>, the conversation state of \<^verbatim>\<open>client/src/irc/reducer/state.rs\<close>, the log seam of
  \<^verbatim>\<open>reducer/log.rs\<close>, the facts of \<^verbatim>\<open>reducer/facts.rs\<close>, and the cause table of \<^verbatim>\<open>client/src/irc/conversation.rs\<close>.

  A \<open>HashMap\<close> is a map and a \<open>HashSet\<close> a set, since the code never walks them in order; a \<open>BTreeMap\<close> is the ordered
  list of its entries. The transcript log and the list of closed channels are trait objects: what the reducer asked
  of them is recorded as the list of calls, and what they answer is a parameter, a function of those calls. Counters
  of rows and of unread lines are \<^typ>\<open>nat\<close>; sequences (\<open>i64\<close>) are \<^typ>\<open>int\<close>.
\<close>

section \<open>Keys and causes\<close>

datatype ConversationKey = ConversationKey (network_id: string) (normalized_target: string)

text \<open>The derived \<open>Ord\<close>: the network first, then the target.\<close>

instantiation ConversationKey :: linorder
begin

definition less_eq_ConversationKey :: "ConversationKey \<Rightarrow> ConversationKey \<Rightarrow> bool" where
  "less_eq_ConversationKey k l \<longleftrightarrow>
     network_id k < network_id l \<or> network_id k = network_id l \<and> normalized_target k \<le> normalized_target l"

definition less_ConversationKey :: "ConversationKey \<Rightarrow> ConversationKey \<Rightarrow> bool" where
  "less_ConversationKey k l \<longleftrightarrow>
     network_id k < network_id l \<or> network_id k = network_id l \<and> normalized_target k < normalized_target l"

instance
  by standard (auto simp: less_eq_ConversationKey_def less_ConversationKey_def intro: ConversationKey.expand)

end

type_synonym MsgId = string

datatype IrcConversationCause = QuietSend | InboundSelf | UserOpen | ChannelStateCause | InboundOther | Restore

definition conversation_id :: "ConversationKey \<Rightarrow> string" where
  "conversation_id key = network_id key @ [LF] @ normalized_target key"

definition target_looks_like_service :: "unicode \<Rightarrow> string \<Rightarrow> IrcServerFeatures \<Rightarrow> bool" where
  "target_looks_like_service u target features = is_service_identity u target [] (channel_types features)"

fun cause_inserts :: "IrcConversationCause \<Rightarrow> bool \<Rightarrow> bool \<Rightarrow> bool" where
  "cause_inserts UserOpen target_is_channel looks_like_service = (\<not> target_is_channel)"
| "cause_inserts ChannelStateCause target_is_channel looks_like_service = target_is_channel"
| "cause_inserts InboundOther target_is_channel looks_like_service = (target_is_channel \<or> \<not> looks_like_service)"
| "cause_inserts Restore target_is_channel looks_like_service = (\<not> target_is_channel \<and> \<not> looks_like_service)"
| "cause_inserts QuietSend target_is_channel looks_like_service = False"
| "cause_inserts InboundSelf target_is_channel looks_like_service = False"

definition neighbor_after_drop :: "ConversationKey list \<Rightarrow> ConversationKey \<Rightarrow> ConversationKey option" where
  "neighbor_after_drop ordered dropping =
     (let count = length ordered in
      case position (\<lambda>key. key = dropping) ordered of
        Some index \<Rightarrow>
          if index + 1 < count \<and> network_id (ordered ! (index + 1)) = network_id dropping then Some (ordered ! (index + 1))
          else if index > 0 \<and> network_id (ordered ! (index - 1)) = network_id dropping then Some (ordered ! (index - 1))
          else if index + 1 < count then Some (ordered ! (index + 1))
          else if index > 0 then Some (ordered ! (index - 1))
          else None
      | None \<Rightarrow> if ordered = [] then None else Some (last ordered))"

section \<open>Events\<close>

datatype MessageKindTag = TagChat | TagEmote | TagEvent

text \<open>\<open>MessageEvent\<close>, \<open>NoticeEvent\<close> and \<open>ActionEvent\<close> have the same fields.\<close>

record ChatEvent =
  ce_conversation :: ConversationKey
  ce_author :: string
  ce_body :: string
  ce_timestamp :: instant
  ce_server_time :: "instant option"
  ce_target :: string
  ce_msgid :: MsgId
  ce_only_visible :: bool

record Name =
  name_nick :: string
  name_ranks :: IrcPrefixSet

record ReplayLine =
  rl_author :: string
  rl_body :: string
  rl_timestamp :: instant
  rl_kind :: MessageKindTag
  rl_msgid :: MsgId
  rl_server_time :: "instant option"
  rl_only_visible :: bool

record HistoryEvent =
  he_conversation :: ConversationKey
  he_target :: string
  he_lines :: "ReplayLine list"
  he_kind :: HistoryKind
  he_older_page :: bool

text \<open>The payload structs are the arguments, in the order of their fields.\<close>

datatype Event =
    WelcomeEvent (ev_network: string) (ev_current_nick: string)
  | MessageEvent (ev_chat: ChatEvent)
  | NoticeEvent (ev_chat: ChatEvent)
  | ActionEvent (ev_chat: ChatEvent)
  | JoinEvent (ev_network: string) (ev_channel: string) (ev_nick: string) (ev_join_account: "string option")
      (ev_join_realname: "string option")
  | PartEvent (ev_network: string) (ev_channel: string) (ev_nick: string) (ev_reason: string)
  | QuitEvent (ev_network: string) (ev_nick: string) (ev_reason: string)
  | NickEvent (ev_network: string) (ev_old_nick: string) (ev_new_nick: string)
  | KickEvent (ev_network: string) (ev_channel: string) (ev_target: string) (ev_author: string) (ev_reason: string)
  | TopicEvent (ev_network: string) (ev_channel: string) (ev_topic: string) (ev_author: string) (ev_keep_existing_topic: bool)
  | NamesEvent (ev_network: string) (ev_channel: string) (ev_names: "Name list") (ev_complete: bool)
  | ModeEvent (ev_network: string) (ev_target: string) (ev_author: string) (ev_mode: string) (ev_arguments: "string list")
  | AwayEvent (ev_network: string) (ev_nick: string) (ev_away: "Away option") (ev_realname: "string option")
      (ev_realname_only: bool)
  | SelfAwayEvent (ev_network: string) (ev_self_away: bool)
  | MemberMetadataEvent (ev_network: string) (ev_nick: string) (ev_key: string) (ev_value: string)
  | AccountEvent (ev_network: string) (ev_nick: string) (ev_account: string)
  | TypingEvent (ev_conversation: ConversationKey) (ev_nick: string) (ev_phase: TypingPhase) (ev_received_at: instant)
  | HistoryEvent (ev_history: HistoryEvent)
  | WhoisTranscriptEvent (ev_destination: ConversationKey) (ev_formatted_body: string)
  | ChannelErrorEvent (ev_network: string) (ev_channel: string) (ev_body: string)
  | NickFactsEvent (ev_network: string) (ev_nick: string) (ev_realname: "string option") (ev_server_operator: "bool option")

record KeptReplay =
  kr_network_id :: string
  kr_target :: string
  kr_server_time :: instant

record RememberedQuery =
  rq_network_id :: string
  rq_target :: string

record MentionArrival =
  ma_author :: string
  ma_body :: string
  ma_network_id :: string
  ma_target :: string
  ma_msgid :: MsgId

record InboxArrival =
  ia_kind :: InboxKind
  ia_actor :: string
  ia_body :: string
  ia_network_id :: string
  ia_target :: string
  ia_msgid :: MsgId

section \<open>Conversations\<close>

definition MAX_MESSAGES :: nat where "MAX_MESSAGES = 2000"
definition STALE_NAMES_SYNC_MS :: int where "STALE_NAMES_SYNC_MS = 30000"

datatype MessageKind = KindMessage | KindNotice | KindAction | KindEvent | KindError | KindWhois
datatype Origin = Live | Replay

text \<open>The transcript row: the struct \<open>Message\<close> of \<^verbatim>\<open>world.rs\<close>.\<close>

record ReducedMessage =
  m_kind :: MessageKind
  m_author :: string
  m_body :: string
  m_time :: instant
  m_server_time :: "instant option"
  m_msgid :: MsgId
  m_origin :: Origin
  m_mentioned :: bool
  m_collapsible :: bool
  m_sequence :: int
  m_only_visible :: bool

record MemberState =
  member_nick :: string
  member_ranks :: IrcPrefixSet

type_synonym TranscriptAnchor = int

record ChannelState =
  ch_members :: "(string, MemberState) btree_map"
  ch_topic :: string
  ch_joined :: bool
  ch_names_syncing :: bool
  ch_names_sync_started :: "instant option"
  ch_history_anchor :: "TranscriptAnchor option"

definition default_channel :: ChannelState where
  "default_channel = \<lparr>ch_members = [], ch_topic = [], ch_joined = False, ch_names_syncing = False,
     ch_names_sync_started = None, ch_history_anchor = None\<rparr>"

record ConversationState =
  cs_key :: ConversationKey
  cs_target :: string
  cs_messages :: "ReducedMessage list"
  cs_typing :: "(string, TypingHint) btree_map"
  cs_unread :: nat
  cs_mentions :: nat
  cs_unread_mark :: "int option"
  cs_read_marker :: "instant option"
  cs_muted :: bool
  cs_trimmed :: nat
  cs_message_ids :: "MsgId set"
  cs_splice_epoch :: nat
  cs_next_sequence :: int
  cs_history_page_cap_tail :: bool
  cs_channel :: "ChannelState option"

definition new_conversation :: "ConversationKey \<Rightarrow> string \<Rightarrow> ConversationState" where
  "new_conversation key target =
     \<lparr>cs_key = key, cs_target = target, cs_messages = [], cs_typing = [], cs_unread = 0, cs_mentions = 0,
      cs_unread_mark = None, cs_read_marker = None, cs_muted = False, cs_trimmed = 0, cs_message_ids = {},
      cs_splice_epoch = 0, cs_next_sequence = 0, cs_history_page_cap_tail = False, cs_channel = None\<rparr>"

definition is_channel_conversation :: "ConversationState \<Rightarrow> bool" where
  "is_channel_conversation conv \<longleftrightarrow> cs_channel conv \<noteq> None"

type_synonym Store = "(ConversationKey, ConversationState) btree_map"

record MemberView =
  mv_nick :: string
  mv_label :: string
  mv_ranks :: IrcPrefixSet
  mv_away :: "Away option"
  mv_status :: string
  mv_avatar :: string
  mv_bot :: bool
  mv_display_name :: string
  mv_pronouns :: string
  mv_homepage :: string
  mv_color :: string
  mv_account :: string
  mv_realname :: string
  mv_labels :: "string list"

datatype PeerPresence = PeerUnknown | PeerOnline | PeerAway

record OrderedMember =
  om_nick :: string
  om_priority :: nat

section \<open>The log and the closed list\<close>

record TranscriptLine =
  tl_timestamp :: instant
  tl_author :: string
  tl_kind :: string
  tl_body :: string
  tl_msgid :: string
  tl_only_visible :: bool

datatype log_call =
    LogAppend string string IrcCaseMapping TranscriptLine
  | LogPrepend string string IrcCaseMapping "TranscriptLine list"

datatype closed_call =
    ClosedAdd string string IrcCaseMapping
  | ClosedRemove string string IrcCaseMapping

text \<open>
  The surroundings of the reducer: the Unicode tables, the instant \<open>DateTime::MIN_UTC\<close> that stands for no time, and
  what the log and the closed list answer after the calls made so far.
\<close>

record reducer_env =
  re_unicode :: unicode
  re_alphanumeric :: "scalar \<Rightarrow> bool"
  re_zero_time :: instant
  re_read_tail :: "log_call list \<Rightarrow> string \<Rightarrow> string \<Rightarrow> IrcCaseMapping \<Rightarrow> nat \<Rightarrow> TranscriptLine list"
  re_closed_contains :: "closed_call list \<Rightarrow> string \<Rightarrow> string \<Rightarrow> IrcCaseMapping \<Rightarrow> bool"

section \<open>The facts and the reducer\<close>

record Facts =
  f_features :: "string \<rightharpoonup> IrcServerFeatures"
  f_default_features :: IrcServerFeatures
  f_current_nicks :: "string \<rightharpoonup> string"
  f_self_nicks :: "string \<rightharpoonup> string btree_set"
  f_highlight_words :: "string \<rightharpoonup> string list"
  f_presence :: "string \<rightharpoonup> NetworkPresence"
  f_self_away :: "string set"
  f_selected :: "ConversationKey option"
  f_window_inactive :: bool
  f_membership_noise :: MembershipNoise
  f_muted_keys :: "ConversationKey set"
  f_log :: "log_call list option"
  f_pending_playback :: "(ConversationKey, HistoryEvent) btree_map"
  f_kept_playback_channel :: "ConversationKey set"
  f_kept_replay :: "KeptReplay list"
  f_remembered_queries :: "RememberedQuery list"
  f_query_restore_pending :: "string set"
  f_closed_channels :: "ConversationKey set"
  f_closed_store :: "closed_call list option"
  f_mention_arrival :: "MentionArrival option"
  f_inbox_arrival :: "InboxArrival option"
  f_channel_context_msgids :: "MsgId \<rightharpoonup> ConversationKey"

definition new_facts :: Facts where
  "new_facts = \<lparr>f_features = Map.empty, f_default_features = new_features, f_current_nicks = Map.empty,
     f_self_nicks = Map.empty, f_highlight_words = Map.empty, f_presence = Map.empty, f_self_away = {},
     f_selected = None, f_window_inactive = False, f_membership_noise = Folded, f_muted_keys = {}, f_log = None,
     f_pending_playback = [], f_kept_playback_channel = {}, f_kept_replay = [], f_remembered_queries = [],
     f_query_restore_pending = {}, f_closed_channels = {}, f_closed_store = None, f_mention_arrival = None,
     f_inbox_arrival = None, f_channel_context_msgids = Map.empty\<rparr>"

record EventReducer =
  rd_conversations :: Store
  rd_facts :: Facts

definition new_reducer :: EventReducer where
  "new_reducer = \<lparr>rd_conversations = [], rd_facts = new_facts\<rparr>"

end
