(* ===== verification/ReducerFacts.thy ===== *)
theory ReducerFacts
  imports ReducerState
begin

text \<open>
  \<^verbatim>\<open>client/src/irc/reducer/facts.rs\<close>: the identity, mention and presence queries of the reducer, and the claims a
  channel makes on the msgid of a line only the local user can see.
\<close>

section \<open>Channel-context claims\<close>

definition claim_channel_context :: "ConversationKey \<Rightarrow> bool \<Rightarrow> MsgId \<Rightarrow> bool \<Rightarrow> Facts \<Rightarrow> Facts" where
  "claim_channel_context home is_chan mid only_visible f =
     (if mid = [] \<or> \<not> is_chan \<or> \<not> only_visible then f
      else f\<lparr>f_channel_context_msgids := (f_channel_context_msgids f)(mid \<mapsto> home)\<rparr>)"

definition release_channel_context :: "ConversationKey \<Rightarrow> MsgId \<Rightarrow> Facts \<Rightarrow> Facts" where
  "release_channel_context home mid f =
     (if mid = [] then f
      else if f_channel_context_msgids f mid = Some home
      then f\<lparr>f_channel_context_msgids := (f_channel_context_msgids f)(mid := None)\<rparr> else f)"

definition channel_context_blocks_dm :: "Facts \<Rightarrow> ConversationKey \<Rightarrow> bool \<Rightarrow> MsgId \<Rightarrow> bool" where
  "channel_context_blocks_dm f key is_chan mid =
     (if is_chan \<or> mid = [] then False
      else case f_channel_context_msgids f mid of
             Some home \<Rightarrow> network_id home = network_id key
           | None \<Rightarrow> False)"

text \<open>\<open>retain\<close> on a map.\<close>

definition map_retain :: "('k \<Rightarrow> 'v \<Rightarrow> bool) \<Rightarrow> ('k \<rightharpoonup> 'v) \<Rightarrow> ('k \<rightharpoonup> 'v)" where
  "map_retain P m = (\<lambda>k. case m k of None \<Rightarrow> None | Some v \<Rightarrow> if P k v then Some v else None)"

definition clear_channel_context_network :: "string \<Rightarrow> Facts \<Rightarrow> Facts" where
  "clear_channel_context_network net f =
     f\<lparr>f_channel_context_msgids := map_retain (\<lambda>_ home. network_id home \<noteq> net) (f_channel_context_msgids f)\<rparr>"

definition clear_channel_context_home :: "ConversationKey \<Rightarrow> Facts \<Rightarrow> Facts" where
  "clear_channel_context_home home f =
     f\<lparr>f_channel_context_msgids := map_retain (\<lambda>_ claimed. claimed \<noteq> home) (f_channel_context_msgids f)\<rparr>"

section \<open>Names\<close>

definition features_of :: "Facts \<Rightarrow> string \<Rightarrow> IrcServerFeatures" where
  "features_of f net = (case f_features f net of None \<Rightarrow> f_default_features f | Some features \<Rightarrow> features)"

definition facts_case_mapping :: "Facts \<Rightarrow> string \<Rightarrow> IrcCaseMapping" where
  "facts_case_mapping f net = case_mapping (features_of f net)"

definition facts_normalize :: "Facts \<Rightarrow> string \<Rightarrow> string \<Rightarrow> string" where
  "facts_normalize f net identifier = normalize_name (facts_case_mapping f net) identifier"

definition facts_equals :: "Facts \<Rightarrow> string \<Rightarrow> string \<Rightarrow> string \<Rightarrow> bool" where
  "facts_equals f net left right = equals (facts_case_mapping f net) left right"

definition facts_is_self :: "Facts \<Rightarrow> string \<Rightarrow> string \<Rightarrow> bool" where
  "facts_is_self f net who =
     (case f_current_nicks f net of None \<Rightarrow> False | Some current \<Rightarrow> facts_equals f net current who)"

definition facts_is_channel :: "Facts \<Rightarrow> string \<Rightarrow> string \<Rightarrow> bool" where
  "facts_is_channel f net target = is_channel (features_of f net) target"

section \<open>Mentions\<close>

definition is_identifier_char :: "reducer_env \<Rightarrow> scalar \<Rightarrow> bool" where
  "is_identifier_char E c \<longleftrightarrow>
     re_alphanumeric E c
     \<or> c \<in> set (map of_char [CHR ''-'', CHR ''_'', CHR ''['', CHR '']'', CHR 0x5C, CHR 0x60, CHR ''^'', CHR ''{'', CHR ''}'', CHR ''|'', CHR ''~''])"

definition contains_word :: "reducer_env \<Rightarrow> string \<Rightarrow> string \<Rightarrow> bool" where
  "contains_word E body word =
     (if word = [] then False
      else let body = chars body; word = chars word in
        if length word > length body then False
        else list_ex (\<lambda>start.
               let stop = start + length word in
               take (length word) (drop start body) = word
               \<and> (start = 0 \<or> \<not> is_identifier_char E (body ! (start - 1)))
               \<and> (stop = length body \<or> \<not> is_identifier_char E (body ! stop)))
             [0..<Suc (length body - length word)])"

definition is_nick_mention :: "reducer_env \<Rightarrow> Facts \<Rightarrow> string \<Rightarrow> string \<Rightarrow> bool" where
  "is_nick_mention E f net body =
     (case f_current_nicks f net of
        None \<Rightarrow> False
      | Some current \<Rightarrow> contains_word E (facts_normalize f net body) (facts_normalize f net current))"

definition is_highlight_hit :: "reducer_env \<Rightarrow> Facts \<Rightarrow> string \<Rightarrow> string \<Rightarrow> bool" where
  "is_highlight_hit E f net body =
     (case f_highlight_words f net of
        None \<Rightarrow> False
      | Some ws \<Rightarrow> list_ex (\<lambda>word. contains_word E (facts_normalize f net body) (facts_normalize f net word)) ws)"

definition is_mention :: "reducer_env \<Rightarrow> Facts \<Rightarrow> string \<Rightarrow> string \<Rightarrow> bool" where
  "is_mention E f net body \<longleftrightarrow> is_nick_mention E f net body \<or> is_highlight_hit E f net body"

definition transcript_highlight :: "reducer_env \<Rightarrow> Facts \<Rightarrow> string \<Rightarrow> string \<Rightarrow> MessageKind \<Rightarrow> string \<Rightarrow> bool" where
  "transcript_highlight E f net author k body =
     (if k \<noteq> KindMessage \<and> k \<noteq> KindAction then False
      else if facts_is_self f net author then False
      else is_mention E f net body)"

section \<open>Presence\<close>

definition presence_of :: "Facts \<Rightarrow> string \<Rightarrow> string \<Rightarrow> NickPresence" where
  "presence_of f net who =
     (case f_presence f net of None \<Rightarrow> default_presence | Some store \<Rightarrow> presence_lookup store who)"

definition nick_presence :: "Facts \<Rightarrow> string \<Rightarrow> string \<Rightarrow> NickPresence" where
  "nick_presence f net who =
     (if net = [] \<or> who = [] then default_presence else presence_of f net (facts_normalize f net who))"

definition display_account :: "Facts \<Rightarrow> string \<Rightarrow> string \<Rightarrow> string" where
  "display_account f net who =
     (let account = np_account (nick_presence f net who) in
      if account = [] \<or> who = [] then [] else if facts_equals f net account who then [] else account)"

definition facts_peer_fact_labels :: "Facts \<Rightarrow> string \<Rightarrow> string \<Rightarrow> string list" where
  "facts_peer_fact_labels f net who =
     (let p = nick_presence f net who;
          matches = np_account p \<noteq> [] \<and> facts_equals f net (np_account p) who
      in peer_fact_labels p matches)"

text \<open>\<open>self.presence.entry(network).or_default()\<close> followed by one operation.\<close>

definition on_presence :: "string \<Rightarrow> (NetworkPresence \<Rightarrow> NetworkPresence) \<Rightarrow> Facts \<Rightarrow> Facts" where
  "on_presence net g f =
     f\<lparr>f_presence := (f_presence f)(net \<mapsto> g (case f_presence f net of None \<Rightarrow> [] | Some store \<Rightarrow> store))\<rparr>"

definition set_presence_away :: "string \<Rightarrow> string \<Rightarrow> Away option \<Rightarrow> Facts \<Rightarrow> Facts" where
  "set_presence_away net who away = on_presence net (presence_set_away who away)"

definition set_presence_metadata :: "string \<Rightarrow> string \<Rightarrow> string \<Rightarrow> string \<Rightarrow> Facts \<Rightarrow> Facts" where
  "set_presence_metadata net who key value = on_presence net (set_metadata who key value)"

definition set_presence_account :: "string \<Rightarrow> string \<Rightarrow> string \<Rightarrow> Facts \<Rightarrow> Facts" where
  "set_presence_account net who account = on_presence net (set_account who account)"

definition set_presence_realname :: "string \<Rightarrow> string \<Rightarrow> string \<Rightarrow> Facts \<Rightarrow> Facts" where
  "set_presence_realname net who realname = on_presence net (set_realname who realname)"

definition set_presence_operator :: "string \<Rightarrow> string \<Rightarrow> bool \<Rightarrow> Facts \<Rightarrow> Facts" where
  "set_presence_operator net who operator = on_presence net (set_server_operator who operator)"

definition rekey_presence :: "string \<Rightarrow> string \<Rightarrow> string \<Rightarrow> Facts \<Rightarrow> Facts" where
  "rekey_presence net from_nick to_nick = on_presence net (rekey from_nick to_nick)"

section \<open>Replay\<close>

definition bouncer_query_own_line :: "Facts \<Rightarrow> HistoryEvent \<Rightarrow> string \<Rightarrow> bool" where
  "bouncer_query_own_line f event author =
     (if he_kind event \<noteq> BouncerPlayback \<or> author = [] then False
      else let net = network_id (he_conversation event) in
        if facts_is_channel f net (normalized_target (he_conversation event)) then False
        else \<not> facts_equals f net author (he_target event))"

definition bouncer_channel_own_line :: "Facts \<Rightarrow> HistoryEvent \<Rightarrow> string \<Rightarrow> bool" where
  "bouncer_channel_own_line f event author =
     (if he_kind event \<noteq> BouncerPlayback \<or> author = [] then False
      else let net = network_id (he_conversation event) in
        if \<not> facts_is_channel f net (normalized_target (he_conversation event)) then False
        else case f_self_nicks f net of
               None \<Rightarrow> False
             | Some nicks \<Rightarrow> list_ex (\<lambda>own. equals (facts_case_mapping f net) own author) nicks)"

definition replay_from_peer :: "Facts \<Rightarrow> HistoryEvent \<Rightarrow> bool" where
  "replay_from_peer f event =
     (let net = network_id (he_conversation event);
          bouncer_query = (he_kind event = BouncerPlayback
                           \<and> \<not> facts_is_channel f net (normalized_target (he_conversation event)))
      in list_ex (\<lambda>line.
           rl_author line \<noteq> []
           \<and> (if bouncer_query then \<not> bouncer_query_own_line f event (rl_author line)
              else \<not> facts_is_self f net (rl_author line))) (he_lines event))"

definition replay_only_repeats_persisted_ids :: "reducer_env \<Rightarrow> Facts \<Rightarrow> HistoryEvent \<Rightarrow> bool" where
  "replay_only_repeats_persisted_ids E f event =
     (case f_log f of
        None \<Rightarrow> False
      | Some calls \<Rightarrow>
          if he_lines event = [] \<or> list_ex (\<lambda>line. rl_msgid line = []) (he_lines event) then False
          else let net = network_id (he_conversation event);
                   stored = re_read_tail E calls net (normalized_target (he_conversation event))
                              (facts_case_mapping f net) MAX_MESSAGES
               in list_all (\<lambda>line. list_ex (\<lambda>saved. tl_msgid saved = rl_msgid line) stored) (he_lines event))"

definition facts_is_closed :: "Facts \<Rightarrow> ConversationKey \<Rightarrow> bool" where
  "facts_is_closed f key \<longleftrightarrow> key \<in> f_closed_channels f"

definition remember_self_nick :: "string \<Rightarrow> string \<Rightarrow> Facts \<Rightarrow> Facts" where
  "remember_self_nick net who f =
     (if net = [] \<or> who = [] then f
      else f\<lparr>f_self_nicks := (f_self_nicks f)(net \<mapsto>
             bs_insert who (case f_self_nicks f net of None \<Rightarrow> [] | Some nicks \<Rightarrow> nicks))\<rparr>)"

definition is_visible :: "Store \<Rightarrow> string \<Rightarrow> string \<Rightarrow> bool" where
  "is_visible store net who =
     list_ex (\<lambda>(_, conv). network_id (cs_key conv) = net
                \<and> (case cs_channel conv of None \<Rightarrow> False | Some channel \<Rightarrow> bt_contains (ch_members channel) who)) store"

end
