(* ===== verification/ReducerTranscript.thy ===== *)
theory ReducerTranscript
  imports ReducerFacts
begin

text \<open>
  \<^verbatim>\<open>client/src/irc/reducer/transcript.rs\<close>: admitting rows, the cap of 2000 rows, the log, the rows of events and
  errors, the unread accounting of an arriving line, and the folding of replayed membership lines. A function that
  the code gives \<open>&mut Facts\<close> and \<open>&mut ConversationState\<close> takes and returns the pair of them.
\<close>

section \<open>Values\<close>

datatype ChatLineReason = NickMention | HighlightReason | DirectReason

record ChatLine =
  cl_key :: ConversationKey
  cl_display_target :: string
  cl_author :: string
  cl_body :: string
  cl_timestamp :: instant
  cl_server_time :: "instant option"
  cl_kind :: MessageKind
  cl_msgid :: MsgId
  cl_only_visible :: bool

record ChatArrival =
  ca_author :: string
  ca_body :: string
  ca_kind :: MessageKind
  ca_msgid :: MsgId
  ca_sequence :: int
  ca_server_time :: "instant option"
  ca_origin :: Origin
  ca_history :: "HistoryEvent option"

record ReplayMembership =
  rm_body :: string
  rm_timestamp :: instant
  rm_msgid :: MsgId
  rm_server_time :: "instant option"

record MembershipReplayResult =
  mr_added_row :: bool
  mr_sequence :: int
  mr_dropped :: bool
  mr_dropped_sequence :: int

definition default_replay_result :: MembershipReplayResult where
  "default_replay_result = \<lparr>mr_added_row = False, mr_sequence = 0, mr_dropped = False, mr_dropped_sequence = 0\<rparr>"

type_synonym facts_conv = "Facts \<times> ConversationState"

section \<open>Rows and the cap\<close>

definition admit_message :: "ReducedMessage \<Rightarrow> ConversationState \<Rightarrow> ConversationState" where
  "admit_message message conv =
     conv\<lparr>cs_messages := cs_messages conv @ [message\<lparr>m_sequence := cs_next_sequence conv\<rparr>],
          cs_next_sequence := cs_next_sequence conv + 1\<rparr>"

definition forget_transcript_msgid :: "facts_conv \<Rightarrow> MsgId \<Rightarrow> facts_conv" where
  "forget_transcript_msgid fc mid =
     (if mid = [] then fc
      else (release_channel_context (cs_key (snd fc)) mid (fst fc),
            (snd fc)\<lparr>cs_message_ids := cs_message_ids (snd fc) - {mid}\<rparr>))"

definition map_anchor :: "(int \<Rightarrow> int) \<Rightarrow> ConversationState \<Rightarrow> ConversationState" where
  "map_anchor g conv =
     conv\<lparr>cs_channel := map_option (\<lambda>channel. channel\<lparr>ch_history_anchor := map_option g (ch_history_anchor channel)\<rparr>)
                          (cs_channel conv)\<rparr>"

definition cap_with_policy :: "bool \<Rightarrow> facts_conv \<Rightarrow> facts_conv" where
  "cap_with_policy drop_from_head fc =
     (let rows = cs_messages (snd fc) in
      if length rows \<le> MAX_MESSAGES then fc
      else let extra = length rows - MAX_MESSAGES in
        if drop_from_head then
          let (f, conv) = foldl forget_transcript_msgid fc (map m_msgid (take extra rows));
              conv = conv\<lparr>cs_messages := drop extra rows, cs_trimmed := cs_trimmed conv + extra\<rparr>
          in (f, conv\<lparr>cs_channel := map_option (\<lambda>channel.
                case ch_history_anchor channel of
                  None \<Rightarrow> channel
                | Some anchor \<Rightarrow> if anchor < int (cs_trimmed conv) then channel\<lparr>ch_history_anchor := None\<rparr> else channel)
                (cs_channel conv)\<rparr>)
        else
          let start = length rows - extra;
              (f, conv) = foldl forget_transcript_msgid fc (map m_msgid (drop start rows))
          in (f, conv\<lparr>cs_messages := take start rows\<rparr>))"

definition cap_messages :: "facts_conv \<Rightarrow> facts_conv" where
  "cap_messages fc = cap_with_policy True fc"

definition cap_messages_prefer_tail :: "facts_conv \<Rightarrow> facts_conv" where
  "cap_messages_prefer_tail fc = cap_with_policy False fc"

text \<open>The shift of an anchor that sat past a removed row.\<close>

definition shift_anchor :: "int \<Rightarrow> ConversationState \<Rightarrow> ConversationState" where
  "shift_anchor removed_index conv =
     map_anchor (\<lambda>anchor. if anchor - int (cs_trimmed conv) > removed_index then anchor - 1 else anchor) conv"

definition drop_last_transcript_row :: "facts_conv \<Rightarrow> facts_conv" where
  "drop_last_transcript_row fc =
     (let rows = cs_messages (snd fc) in
      if rows = [] then fc
      else let (f, conv) = forget_transcript_msgid fc (m_msgid (last rows))
           in (f, shift_anchor (int (length rows) - 1) (conv\<lparr>cs_messages := butlast rows\<rparr>)))"

section \<open>The log\<close>

definition persistable_kind :: "MessageKind \<Rightarrow> bool" where
  "persistable_kind k \<longleftrightarrow> k = KindMessage \<or> k = KindNotice \<or> k = KindAction \<or> k = KindEvent"

fun kind_token :: "MessageKind \<Rightarrow> string" where
  "kind_token KindAction = ''action''"
| "kind_token KindEvent = ''event''"
| "kind_token KindError = ''event''"
| "kind_token KindWhois = ''whois''"
| "kind_token KindNotice = ''notice''"
| "kind_token KindMessage = ''message''"

definition kind_from_token :: "string \<Rightarrow> MessageKind option" where
  "kind_from_token t =
     (if t = ''action'' then Some KindAction
      else if t = ''event'' then Some KindEvent
      else if t = ''notice'' then Some KindNotice
      else if t = ''message'' then Some KindMessage
      else None)"

definition transcript_line :: "ReducedMessage \<Rightarrow> TranscriptLine" where
  "transcript_line message =
     \<lparr>tl_timestamp = m_time message, tl_author = m_author message, tl_kind = kind_token (m_kind message),
      tl_body = m_body message, tl_msgid = m_msgid message, tl_only_visible = m_only_visible message\<rparr>"

definition log_call_made :: "log_call \<Rightarrow> Facts \<Rightarrow> Facts" where
  "log_call_made call f = f\<lparr>f_log := map_option (\<lambda>calls. calls @ [call]) (f_log f)\<rparr>"

definition persist_message :: "ConversationState \<Rightarrow> ReducedMessage \<Rightarrow> Facts \<Rightarrow> Facts" where
  "persist_message conv message f =
     (if \<not> persistable_kind (m_kind message) then f
      else let net = network_id (cs_key conv) in
        log_call_made (LogAppend net (normalized_target (cs_key conv)) (facts_case_mapping f net) (transcript_line message)) f)"

definition persist_messages_prepend :: "ConversationState \<Rightarrow> ReducedMessage list \<Rightarrow> Facts \<Rightarrow> Facts" where
  "persist_messages_prepend conv messages f =
     (let lines = map transcript_line (filter (\<lambda>message. persistable_kind (m_kind message)) messages) in
      if lines = [] then f
      else let net = network_id (cs_key conv) in
        log_call_made (LogPrepend net (normalized_target (cs_key conv)) (facts_case_mapping f net) lines) f)"

text \<open>One line of the loop of \<open>hydrate_from_log\<close>.\<close>

definition hydrate_line :: "reducer_env \<Rightarrow> facts_conv \<Rightarrow> TranscriptLine \<Rightarrow> facts_conv" where
  "hydrate_line E fc line =
     (case kind_from_token (tl_kind line) of
        None \<Rightarrow> fc
      | Some k \<Rightarrow>
          let (f, conv) = fc; mid = tl_msgid line; home = cs_key conv; is_chan = is_channel_conversation conv in
          if mid \<noteq> [] \<and> (mid \<in> cs_message_ids conv \<or> channel_context_blocks_dm f home is_chan mid) then fc
          else
            let conv = (if mid \<noteq> [] then conv\<lparr>cs_message_ids := insert mid (cs_message_ids conv)\<rparr> else conv);
                conv = admit_message \<lparr>m_kind = k, m_author = tl_author line, m_body = tl_body line, m_time = tl_timestamp line,
                         m_server_time = None, m_msgid = mid, m_origin = Replay,
                         m_mentioned = transcript_highlight E f (network_id home) (tl_author line) k (tl_body line),
                         m_collapsible = False, m_sequence = 0, m_only_visible = tl_only_visible line\<rparr> conv
            in (claim_channel_context home is_chan mid (tl_only_visible line) f, conv))"

definition hydrate_from_log :: "reducer_env \<Rightarrow> facts_conv \<Rightarrow> facts_conv" where
  "hydrate_from_log E fc =
     (case f_log (fst fc) of
        None \<Rightarrow> fc
      | Some calls \<Rightarrow>
          let key = cs_key (snd fc);
              lines = re_read_tail E calls (network_id key) (normalized_target key)
                        (facts_case_mapping (fst fc) (network_id key)) MAX_MESSAGES
          in cap_messages (foldl (hydrate_line E) fc lines))"

section \<open>Arrivals\<close>

definition covered :: "instant option \<Rightarrow> instant option \<Rightarrow> bool" where
  "covered marker server_time =
     (case (marker, server_time) of
        (Some marker, Some server_time) \<Rightarrow> \<not> read_marker_time_after server_time marker
      | _ \<Rightarrow> False)"

definition classify_chat_line :: "bool \<Rightarrow> MessageKind \<Rightarrow> bool \<Rightarrow> bool \<Rightarrow> bool \<Rightarrow> ChatLineReason \<times> bool" where
  "classify_chat_line is_chan k self_author nick_hit highlight_hit =
     (if (k \<noteq> KindMessage \<and> k \<noteq> KindAction) \<or> self_author then (NickMention, False)
      else if nick_hit then (NickMention, True)
      else if highlight_hit then (HighlightReason, True)
      else if \<not> is_chan then (DirectReason, True)
      else (NickMention, False))"

fun inbox_kind_for :: "ChatLineReason \<Rightarrow> InboxKind" where
  "inbox_kind_for NickMention = Mention"
| "inbox_kind_for HighlightReason = Highlight"
| "inbox_kind_for DirectReason = Direct"

text \<open>The unread accounting at the end of \<open>note_chat_arrival\<close>.\<close>

definition count_arrival :: "Facts \<Rightarrow> bool \<Rightarrow> ChatArrival \<Rightarrow> ChatLineReason \<times> bool \<Rightarrow> ConversationState \<Rightarrow> ConversationState" where
  "count_arrival f selected arrival reason conv =
     (let live = (ca_origin arrival = Live);
          skip_live_focused = (selected \<and> live \<and> \<not> f_window_inactive f);
          skip_replay_unfocused = (selected \<and> \<not> live \<and> f_window_inactive f)
      in if skip_live_focused \<or> skip_replay_unfocused then conv
         else
           let hold_focused_replay_mark = (selected \<and> \<not> live \<and> cs_unread_mark conv \<noteq> None);
               conv = (if cs_unread conv = 0 \<and> \<not> hold_focused_replay_mark
                       then conv\<lparr>cs_unread_mark := Some (ca_sequence arrival)\<rparr> else conv)
           in if selected \<and> \<not> live then conv
              else let conv = conv\<lparr>cs_unread := cs_unread conv + 1\<rparr> in
                if snd reason \<and> (fst reason = NickMention \<or> fst reason = HighlightReason) \<and> \<not> cs_muted conv
                then conv\<lparr>cs_mentions := cs_mentions conv + 1\<rparr> else conv)"

definition arrival_is_own :: "Facts \<Rightarrow> string \<Rightarrow> ChatArrival \<Rightarrow> bool" where
  "arrival_is_own f net arrival \<longleftrightarrow>
     facts_is_self f net (ca_author arrival)
     \<or> (case ca_history arrival of
          None \<Rightarrow> False
        | Some history \<Rightarrow> bouncer_query_own_line f history (ca_author arrival)
                        \<or> bouncer_channel_own_line f history (ca_author arrival))"

text \<open>The mention and inbox arrivals \<open>note_chat_arrival\<close> leaves for the controller.\<close>

definition plant_arrivals :: "ConversationKey \<Rightarrow> bool \<Rightarrow> ChatArrival \<Rightarrow> ChatLineReason \<times> bool \<Rightarrow> ConversationState \<Rightarrow> Facts \<Rightarrow> Facts" where
  "plant_arrivals key selected arrival reason conv f =
     (let f = (if snd reason \<and> \<not> cs_muted conv then
                 f\<lparr>f_mention_arrival := Some \<lparr>ma_author = ca_author arrival, ma_body = ca_body arrival,
                     ma_network_id = network_id key, ma_target = cs_target conv, ma_msgid = ca_msgid arrival\<rparr>\<rparr>
               else f)
      in if ca_origin arrival = Live \<and> snd reason \<and> \<not> cs_muted conv \<and> \<not> selected \<and> fst reason \<noteq> DirectReason then
           f\<lparr>f_inbox_arrival := Some \<lparr>ia_kind = inbox_kind_for (fst reason), ia_actor = ca_author arrival,
               ia_body = ca_body arrival, ia_network_id = network_id key, ia_target = cs_target conv,
               ia_msgid = ca_msgid arrival\<rparr>\<rparr>
         else f)"

definition note_chat_arrival :: "reducer_env \<Rightarrow> ConversationKey \<Rightarrow> ChatArrival \<Rightarrow> facts_conv \<Rightarrow> facts_conv" where
  "note_chat_arrival E key arrival fc =
     (let (f, conv) = fc in
      if (case ca_history arrival of None \<Rightarrow> False | Some history \<Rightarrow> he_older_page history) then fc
      else
        let net = network_id key;
            self_author = arrival_is_own f net arrival;
            nick_hit = is_nick_mention E f net (ca_body arrival);
            highlight_hit = (\<not> nick_hit \<and> is_highlight_hit E f net (ca_body arrival));
            reason = classify_chat_line (is_channel_conversation conv) (ca_kind arrival) self_author nick_hit highlight_hit
        in if self_author then fc
           else if covered (cs_read_marker conv) (ca_server_time arrival) then fc
           else let selected = (f_selected f = Some key) in
             (plant_arrivals key selected arrival reason conv f, count_arrival f selected arrival reason conv))"

section \<open>Event, whois and error rows\<close>

definition plain_row :: "reducer_env \<Rightarrow> MessageKind \<Rightarrow> string \<Rightarrow> bool \<Rightarrow> ReducedMessage" where
  "plain_row E k body foldable =
     \<lparr>m_kind = k, m_author = [], m_body = body, m_time = re_zero_time E, m_server_time = None, m_msgid = [],
      m_origin = Live, m_mentioned = False, m_collapsible = foldable, m_sequence = 0, m_only_visible = False\<rparr>"

definition set_last_body :: "string \<Rightarrow> ConversationState \<Rightarrow> ConversationState" where
  "set_last_body body conv =
     conv\<lparr>cs_messages := (let rows = cs_messages conv in rows[length rows - 1 := (last rows)\<lparr>m_body := body\<rparr>])\<rparr>"

definition admit_event :: "reducer_env \<Rightarrow> string \<Rightarrow> bool \<Rightarrow> facts_conv \<Rightarrow> facts_conv" where
  "admit_event E body foldable fc =
     (let (f, conv) = fc; conv = admit_message (plain_row E KindEvent body foldable) conv
      in cap_messages (persist_message conv (last (cs_messages conv)) f, conv))"

definition append_event :: "reducer_env \<Rightarrow> string \<Rightarrow> bool \<Rightarrow> bool \<Rightarrow> facts_conv \<Rightarrow> facts_conv" where
  "append_event E body foldable membership fc =
     (let (f, conv) = fc; noise = f_membership_noise f; rows = cs_messages conv in
      if membership \<and> noise = Hidden then fc
      else
        let foldable = (if membership \<and> noise = Every then False else foldable) in
        if membership \<and> noise = Folded \<and> rows \<noteq> [] \<and> m_kind (last rows) = KindEvent \<and> m_collapsible (last rows) then
          let folded = fold_membership (m_body (last rows)) body (facts_equals f (network_id (cs_key conv))) in
          if fold_kind folded = FoldCancel then
            (if fold_drop_row folded then drop_last_transcript_row fc else (f, set_last_body (fold_body folded) conv))
          else if foldable then (f, set_last_body (fold_body folded) conv)
          else admit_event E body foldable fc
        else admit_event E body foldable fc)"

definition append_whois :: "reducer_env \<Rightarrow> string \<Rightarrow> facts_conv \<Rightarrow> facts_conv" where
  "append_whois E body fc = (let (f, conv) = fc in cap_messages (f, admit_message (plain_row E KindWhois body False) conv))"

definition append_error :: "reducer_env \<Rightarrow> string \<Rightarrow> facts_conv \<Rightarrow> facts_conv" where
  "append_error E body fc = (let (f, conv) = fc in cap_messages (f, admit_message (plain_row E KindError body False) conv))"

section \<open>Replayed membership lines\<close>

text \<open>
  \<open>fold_into\<close>: what becomes of the caption row, the facts, the known msgids and the result; \<^const>\<open>None\<close> when the row is
  not a caption.
\<close>

definition fold_into :: "ConversationKey \<Rightarrow> string \<Rightarrow> ReducedMessage \<Rightarrow> Facts \<Rightarrow> MsgId set \<Rightarrow> MembershipReplayResult
    \<Rightarrow> (ReducedMessage \<times> Facts \<times> MsgId set \<times> MembershipReplayResult) option" where
  "fold_into home body row f ids result =
     (if m_kind row \<noteq> KindEvent \<or> \<not> m_collapsible row then None
      else
        let folded = fold_membership (m_body row) body (facts_equals f (network_id home)) in
        if fold_kind folded = FoldCancel \<and> fold_drop_row folded then
          let result = result\<lparr>mr_dropped := True, mr_dropped_sequence := m_sequence row\<rparr> in
          if m_msgid row \<noteq> []
          then Some (row, release_channel_context home (m_msgid row) f, ids - {m_msgid row}, result)
          else Some (row, f, ids, result)
        else Some (row\<lparr>m_body := fold_body folded\<rparr>, f, ids, result\<lparr>mr_dropped := False\<rparr>))"

record replay_state =
  rs_facts :: Facts
  rs_conv :: ConversationState
  rs_run :: "ReducedMessage list"
  rs_at :: nat

definition push_membership_row :: "bool \<Rightarrow> ReplayMembership \<Rightarrow> replay_state \<Rightarrow> replay_state \<times> MembershipReplayResult" where
  "push_membership_row show_each line s =
     (let conv = rs_conv s; sequence = cs_next_sequence conv;
          row = \<lparr>m_kind = KindEvent, m_author = [], m_body = rm_body line, m_time = rm_timestamp line,
                 m_server_time = rm_server_time line, m_msgid = rm_msgid line, m_origin = Replay, m_mentioned = False,
                 m_collapsible = \<not> show_each, m_sequence = sequence, m_only_visible = False\<rparr>
      in (s\<lparr>rs_conv := conv\<lparr>cs_next_sequence := sequence + 1\<rparr>, rs_run := rs_run s @ [row]\<rparr>,
          default_replay_result\<lparr>mr_added_row := True, mr_sequence := sequence\<rparr>))"

definition fold_into_run :: "ReplayMembership \<Rightarrow> replay_state \<Rightarrow> (replay_state \<times> MembershipReplayResult) option" where
  "fold_into_run line s =
     map_option (\<lambda>(row, f, ids, result).
         (s\<lparr>rs_facts := f, rs_conv := (rs_conv s)\<lparr>cs_message_ids := ids\<rparr>,
            rs_run := (if mr_dropped result then butlast (rs_run s) else butlast (rs_run s) @ [row])\<rparr>, result))
       (fold_into (cs_key (rs_conv s)) (rm_body line) (last (rs_run s)) (rs_facts s) (cs_message_ids (rs_conv s))
          default_replay_result)"

definition fold_into_transcript :: "ReplayMembership \<Rightarrow> replay_state \<Rightarrow> (replay_state \<times> MembershipReplayResult) option" where
  "fold_into_transcript line s =
     (let conv = rs_conv s; index = rs_at s - 1 in
      map_option (\<lambda>(row, f, ids, result).
          if mr_dropped result
          then (s\<lparr>rs_facts := f, rs_at := rs_at s - 1,
                  rs_conv := shift_anchor (int index)
                    (conv\<lparr>cs_message_ids := ids, cs_messages := vec_remove index (cs_messages conv)\<rparr>)\<rparr>, result)
          else (s\<lparr>rs_facts := f,
                  rs_conv := conv\<lparr>cs_message_ids := ids, cs_messages := (cs_messages conv)[index := row]\<rparr>\<rparr>, result))
        (fold_into (cs_key conv) (rm_body line) (cs_messages conv ! index) (rs_facts s) (cs_message_ids conv)
           default_replay_result))"

definition admit_membership_replay :: "ReplayMembership \<Rightarrow> replay_state \<Rightarrow> replay_state \<times> MembershipReplayResult" where
  "admit_membership_replay line s =
     (let noise = f_membership_noise (rs_facts s); show_each = (noise = Every) in
      if noise = Hidden then (s, default_replay_result)
      else
        case (if \<not> show_each \<and> rs_run s \<noteq> [] then fold_into_run line s
              else if \<not> show_each \<and> rs_run s = [] \<and> rs_at s > 0 \<and> rs_at s \<le> length (cs_messages (rs_conv s))
              then fold_into_transcript line s
              else None) of
          Some done \<Rightarrow> done
        | None \<Rightarrow> push_membership_row show_each line s)"

end
