(* ===== verification/ReducerConversations.thy ===== *)
theory ReducerConversations
  imports ReducerTranscript
begin

text \<open>
  \<^verbatim>\<open>client/src/irc/reducer/conversations.rs\<close>, \<^verbatim>\<open>reducer/readmarker.rs\<close> and \<^verbatim>\<open>reducer/sidebar.rs\<close>: creating a
  conversation under its cause, dropping, closing and forgetting, the selection and the badges, the server's read
  marker, and the reads of the member panel and of the sidebar.
\<close>

section \<open>Access to the store\<close>

text \<open>\<open>get_mut\<close> followed by a change of the conversation and of the facts.\<close>

definition on_conversation :: "ConversationKey \<Rightarrow> (facts_conv \<Rightarrow> facts_conv) \<Rightarrow> EventReducer \<Rightarrow> EventReducer" where
  "on_conversation key g r =
     (case bt_get (rd_conversations r) key of
        None \<Rightarrow> r
      | Some conv \<Rightarrow>
          let (f, conv) = g (rd_facts r, conv)
          in r\<lparr>rd_conversations := bt_insert key conv (rd_conversations r), rd_facts := f\<rparr>)"

definition on_conv :: "(ConversationState \<Rightarrow> ConversationState) \<Rightarrow> facts_conv \<Rightarrow> facts_conv" where
  "on_conv g fc = (fst fc, g (snd fc))"

definition on_facts :: "(Facts \<Rightarrow> Facts) \<Rightarrow> EventReducer \<Rightarrow> EventReducer" where
  "on_facts g r = r\<lparr>rd_facts := g (rd_facts r)\<rparr>"

text \<open>A loop over \<open>values_mut\<close> that also changes the facts.\<close>

fun each_conversation :: "(facts_conv \<Rightarrow> facts_conv) \<Rightarrow> Facts \<Rightarrow> Store \<Rightarrow> Facts \<times> Store" where
  "each_conversation g f [] = (f, [])"
| "each_conversation g f ((key, conv) # store) =
     (let (f, conv) = g (f, conv); (f, store) = each_conversation g f store in (f, (key, conv) # store))"

definition for_each_conversation :: "(facts_conv \<Rightarrow> facts_conv) \<Rightarrow> EventReducer \<Rightarrow> EventReducer" where
  "for_each_conversation g r =
     (let (f, store) = each_conversation g (rd_facts r) (rd_conversations r)
      in r\<lparr>rd_conversations := store, rd_facts := f\<rparr>)"

definition map_channel :: "(ChannelState \<Rightarrow> ChannelState) \<Rightarrow> ConversationState \<Rightarrow> ConversationState" where
  "map_channel g conv = conv\<lparr>cs_channel := map_option g (cs_channel conv)\<rparr>"

definition conversation_key :: "EventReducer \<Rightarrow> string \<Rightarrow> string \<Rightarrow> ConversationKey" where
  "conversation_key r net target = ConversationKey net (facts_normalize (rd_facts r) net target)"

definition find_conversation :: "EventReducer \<Rightarrow> ConversationKey \<Rightarrow> ConversationState option" where
  "find_conversation r key = bt_get (rd_conversations r) key"

section \<open>Channels\<close>

definition start_names_sync :: "instant \<Rightarrow> ChannelState \<Rightarrow> ChannelState" where
  "start_names_sync now channel =
     channel\<lparr>ch_members := [], ch_names_syncing := True, ch_names_sync_started := Some now\<rparr>"

definition stop_names_sync :: "ChannelState \<Rightarrow> ChannelState" where
  "stop_names_sync channel = channel\<lparr>ch_names_syncing := False, ch_names_sync_started := None\<rparr>"

definition persisted_closed :: "reducer_env \<Rightarrow> EventReducer \<Rightarrow> ConversationKey \<Rightarrow> bool" where
  "persisted_closed E r key =
     (case f_closed_store (rd_facts r) of
        None \<Rightarrow> False
      | Some calls \<Rightarrow>
          if network_id key = [] \<or> normalized_target key = [] then False
          else re_closed_contains E calls (network_id key) (normalized_target key)
                 (facts_case_mapping (rd_facts r) (network_id key)))"

definition ensure_key :: "reducer_env \<Rightarrow> ConversationKey \<Rightarrow> string \<Rightarrow> IrcConversationCause \<Rightarrow> EventReducer \<Rightarrow> EventReducer \<times> bool" where
  "ensure_key E key display_target cause r =
     (if bt_contains (rd_conversations r) key then (r, True)
      else
        let f = rd_facts r; features = features_of f (network_id key);
            target_is_channel = is_channel features (normalized_target key);
            looks_like_service = target_looks_like_service (re_unicode E) display_target features
        in if \<not> cause_inserts cause target_is_channel looks_like_service then (r, False)
           else if target_is_channel \<and> (facts_is_closed f key \<or> persisted_closed E r key) then (r, False)
           else
             let conv = (new_conversation key display_target)\<lparr>cs_muted := key \<in> f_muted_keys f\<rparr>;
                 conv = (if target_is_channel then conv\<lparr>cs_channel := Some default_channel\<rparr> else conv);
                 (f, conv) = hydrate_from_log E (f, conv)
             in (r\<lparr>rd_conversations := bt_insert key conv (rd_conversations r), rd_facts := f\<rparr>, True))"

definition ensure_conversation ::
    "reducer_env \<Rightarrow> ConversationKey \<Rightarrow> string \<Rightarrow> IrcConversationCause \<Rightarrow> EventReducer \<Rightarrow> EventReducer \<times> ConversationState option" where
  "ensure_conversation E key display_target cause r =
     (let (r, exists) = ensure_key E key display_target cause r
      in (r, if exists then bt_get (rd_conversations r) key else None))"

definition remove_conversation :: "ConversationKey \<Rightarrow> EventReducer \<Rightarrow> EventReducer" where
  "remove_conversation key r =
     (let f = rd_facts r; f = (if f_selected f = Some key then f\<lparr>f_selected := None\<rparr> else f)
      in r\<lparr>rd_facts := clear_channel_context_home key f, rd_conversations := bt_remove key (rd_conversations r)\<rparr>)"

definition drop_direct_message :: "ConversationKey \<Rightarrow> EventReducer \<Rightarrow> EventReducer \<times> bool" where
  "drop_direct_message key r =
     (case bt_get (rd_conversations r) key of
        None \<Rightarrow> (r, False)
      | Some conv \<Rightarrow> if is_channel_conversation conv then (r, False) else (remove_conversation key r, True))"

definition drop_channel :: "ConversationKey \<Rightarrow> EventReducer \<Rightarrow> EventReducer \<times> bool" where
  "drop_channel key r =
     (case bt_get (rd_conversations r) key of
        None \<Rightarrow> (r, False)
      | Some conv \<Rightarrow> if \<not> is_channel_conversation conv then (r, False) else (remove_conversation key r, True))"

definition closed_call_made :: "closed_call \<Rightarrow> Facts \<Rightarrow> Facts" where
  "closed_call_made call f = f\<lparr>f_closed_store := map_option (\<lambda>calls. calls @ [call]) (f_closed_store f)\<rparr>"

definition note_closed :: "ConversationKey \<Rightarrow> EventReducer \<Rightarrow> EventReducer" where
  "note_closed key r =
     (if network_id key = [] \<or> normalized_target key = [] then r
      else on_facts (\<lambda>f. closed_call_made
             (ClosedAdd (network_id key) (normalized_target key) (facts_case_mapping f (network_id key)))
             (f\<lparr>f_closed_channels := insert key (f_closed_channels f)\<rparr>)) r)"

definition clear_closed :: "ConversationKey \<Rightarrow> EventReducer \<Rightarrow> EventReducer" where
  "clear_closed key r =
     on_facts (\<lambda>f. closed_call_made
       (ClosedRemove (network_id key) (normalized_target key) (facts_case_mapping f (network_id key)))
       (f\<lparr>f_closed_channels := f_closed_channels f - {key}\<rparr>)) r"

definition clear_closed_network :: "string \<Rightarrow> Facts \<Rightarrow> Facts" where
  "clear_closed_network net f =
     (if net = [] then f
      else f\<lparr>f_closed_channels := Set.filter (\<lambda>key. network_id key \<noteq> net) (f_closed_channels f)\<rparr>)"

definition leave_channel_state :: "ChannelState \<Rightarrow> ChannelState" where
  "leave_channel_state channel =
     stop_names_sync (channel\<lparr>ch_joined := False, ch_history_anchor := None, ch_members := []\<rparr>)"

definition mark_channel_left :: "ConversationKey \<Rightarrow> EventReducer \<Rightarrow> EventReducer \<times> bool" where
  "mark_channel_left key r =
     (case bt_get (rd_conversations r) key of
        None \<Rightarrow> (r, False)
      | Some conv \<Rightarrow>
          if cs_channel conv = None then (r, False)
          else (on_conversation key (on_conv (\<lambda>conv.
                  (map_channel leave_channel_state conv)\<lparr>cs_history_page_cap_tail := False, cs_typing := []\<rparr>)) r, True))"

definition drop_pending_playback :: "string \<Rightarrow> Facts \<Rightarrow> Facts" where
  "drop_pending_playback net f =
     (if net = [] then f
      else f\<lparr>f_pending_playback := bt_retain (\<lambda>key _. network_id key \<noteq> net) (f_pending_playback f)\<rparr>)"

definition drop_kept_playback :: "string \<Rightarrow> Facts \<Rightarrow> Facts" where
  "drop_kept_playback net f =
     (if net = [] then f
      else f\<lparr>f_kept_playback_channel := Set.filter (\<lambda>key. network_id key \<noteq> net) (f_kept_playback_channel f)\<rparr>)"

definition forget_network :: "string \<Rightarrow> EventReducer \<Rightarrow> EventReducer" where
  "forget_network net r =
     (if net = [] then r
      else
        let f = drop_kept_playback net (drop_pending_playback net (rd_facts r));
            f = f\<lparr>f_query_restore_pending := f_query_restore_pending f - {net}\<rparr>;
            f = clear_channel_context_network net (clear_closed_network net f);
            f = f\<lparr>f_features := (f_features f)(net := None), f_current_nicks := (f_current_nicks f)(net := None),
                  f_self_nicks := (f_self_nicks f)(net := None), f_highlight_words := (f_highlight_words f)(net := None),
                  f_presence := (f_presence f)(net := None), f_self_away := f_self_away f - {net},
                  f_muted_keys := Set.filter (\<lambda>key. network_id key \<noteq> net) (f_muted_keys f),
                  f_selected := (case f_selected f of None \<Rightarrow> None | Some key \<Rightarrow> if network_id key = net then None else Some key)\<rparr>
        in r\<lparr>rd_conversations := bt_retain (\<lambda>key _. network_id key \<noteq> net) (rd_conversations r), rd_facts := f\<rparr>)"

section \<open>Selection, badges and settings\<close>

definition clear_messages :: "ConversationKey \<Rightarrow> EventReducer \<Rightarrow> EventReducer" where
  "clear_messages key r =
     on_conversation key (on_conv (\<lambda>conv.
       map_channel (\<lambda>channel. channel\<lparr>ch_history_anchor := None\<rparr>)
         (conv\<lparr>cs_trimmed := cs_trimmed conv + length (cs_messages conv), cs_messages := [],
               cs_splice_epoch := cs_splice_epoch conv + 1\<rparr>))) r"

definition set_muted :: "ConversationKey \<Rightarrow> bool \<Rightarrow> EventReducer \<Rightarrow> EventReducer" where
  "set_muted key muted r =
     (if network_id key = [] \<or> normalized_target key = [] then r
      else on_conversation key (on_conv (\<lambda>conv.
             conv\<lparr>cs_muted := muted, cs_mentions := (if muted then 0 else cs_mentions conv)\<rparr>))
           (on_facts (\<lambda>f. f\<lparr>f_muted_keys := (if muted then insert key (f_muted_keys f) else f_muted_keys f - {key})\<rparr>) r))"

definition mark_selected :: "ConversationKey \<Rightarrow> EventReducer \<Rightarrow> EventReducer" where
  "mark_selected key r =
     (if f_selected (rd_facts r) = Some key then r
      else on_conversation key (on_conv (\<lambda>conv.
             conv\<lparr>cs_unread_mark := (if cs_unread conv = 0 then None else cs_unread_mark conv), cs_unread := 0, cs_mentions := 0\<rparr>))
           (on_facts (\<lambda>f. f\<lparr>f_selected := Some key\<rparr>) r))"

definition mark_read :: "ConversationKey \<Rightarrow> EventReducer \<Rightarrow> EventReducer \<times> bool" where
  "mark_read key r =
     (case bt_get (rd_conversations r) key of
        None \<Rightarrow> (r, False)
      | Some conv \<Rightarrow>
          if cs_unread conv = 0 \<and> cs_mentions conv = 0 then (r, False)
          else (on_conversation key (on_conv (\<lambda>conv. conv\<lparr>cs_unread := 0, cs_mentions := 0\<rparr>)) r, True))"

definition mark_all_read :: "EventReducer \<Rightarrow> EventReducer \<times> bool" where
  "mark_all_read r =
     (r\<lparr>rd_conversations := bt_map_values (\<lambda>conv. conv\<lparr>cs_unread := 0, cs_mentions := 0\<rparr>) (rd_conversations r)\<rparr>,
      list_ex (\<lambda>(_, conv). cs_unread conv \<noteq> 0 \<or> cs_mentions conv \<noteq> 0) (rd_conversations r))"

definition mark_history_page_cap_tail :: "ConversationKey \<Rightarrow> EventReducer \<Rightarrow> EventReducer" where
  "mark_history_page_cap_tail key r = on_conversation key (on_conv (\<lambda>conv. conv\<lparr>cs_history_page_cap_tail := True\<rparr>)) r"

definition clear_history_page_cap_tail :: "ConversationKey \<Rightarrow> EventReducer \<Rightarrow> EventReducer" where
  "clear_history_page_cap_tail key r = on_conversation key (on_conv (\<lambda>conv. conv\<lparr>cs_history_page_cap_tail := False\<rparr>)) r"

definition clear_selection :: "EventReducer \<Rightarrow> EventReducer" where
  "clear_selection r = on_facts (\<lambda>f. f\<lparr>f_selected := None\<rparr>) r"

definition set_membership_noise :: "MembershipNoise \<Rightarrow> EventReducer \<Rightarrow> EventReducer" where
  "set_membership_noise noise r = on_facts (\<lambda>f. f\<lparr>f_membership_noise := noise\<rparr>) r"

definition set_window_active :: "bool \<Rightarrow> EventReducer \<Rightarrow> EventReducer" where
  "set_window_active focused r = on_facts (\<lambda>f. f\<lparr>f_window_inactive := \<not> focused\<rparr>) r"

definition set_conversation_log :: "log_call list option \<Rightarrow> EventReducer \<Rightarrow> EventReducer" where
  "set_conversation_log log_state r = on_facts (\<lambda>f. f\<lparr>f_log := log_state\<rparr>) r"

definition set_closed_persistence :: "closed_call list \<Rightarrow> EventReducer \<Rightarrow> EventReducer" where
  "set_closed_persistence calls r = on_facts (\<lambda>f. f\<lparr>f_closed_store := Some calls\<rparr>) r"

definition refresh_row :: "reducer_env \<Rightarrow> Facts \<Rightarrow> string \<Rightarrow> ReducedMessage \<Rightarrow> ReducedMessage" where
  "refresh_row E f net message =
     message\<lparr>m_mentioned := transcript_highlight E f net (m_author message) (m_kind message) (m_body message)\<rparr>"

definition refresh_mentions :: "reducer_env \<Rightarrow> string \<Rightarrow> EventReducer \<Rightarrow> EventReducer" where
  "refresh_mentions E net r =
     r\<lparr>rd_conversations := bt_map_values (\<lambda>conv.
         if network_id (cs_key conv) \<noteq> net then conv
         else conv\<lparr>cs_messages := map (refresh_row E (rd_facts r) net) (cs_messages conv)\<rparr>) (rd_conversations r)\<rparr>"

definition set_server_features :: "reducer_env \<Rightarrow> string \<Rightarrow> IrcServerFeatures \<Rightarrow> EventReducer \<Rightarrow> EventReducer" where
  "set_server_features E net features r =
     refresh_mentions E net (on_facts (\<lambda>f. f\<lparr>f_features := (f_features f)(net \<mapsto> features)\<rparr>) r)"

definition set_highlight_words :: "reducer_env \<Rightarrow> string \<Rightarrow> string list \<Rightarrow> EventReducer \<Rightarrow> EventReducer" where
  "set_highlight_words E net ws r =
     (if net = [] then r
      else refresh_mentions E net (on_facts (\<lambda>f. f\<lparr>f_highlight_words :=
             (f_highlight_words f)(net := (if ws = [] then None else Some ws))\<rparr>) r))"

definition release_stale_names_sync :: "ConversationKey option \<Rightarrow> instant \<Rightarrow> EventReducer \<Rightarrow> EventReducer \<times> bool" where
  "release_stale_names_sync selected now r =
     (case selected of
        None \<Rightarrow> (r, False)
      | Some key \<Rightarrow>
          (case bt_get (rd_conversations r) key of
             None \<Rightarrow> (r, False)
           | Some conv \<Rightarrow>
               (case cs_channel conv of
                  None \<Rightarrow> (r, False)
                | Some channel \<Rightarrow>
                    if \<not> ch_names_syncing channel then (r, False)
                    else if (case ch_names_sync_started channel of
                               None \<Rightarrow> False
                             | Some started \<Rightarrow> now - started < STALE_NAMES_SYNC_MS * NANOS_PER_MS) then (r, False)
                    else (on_conversation key (on_conv (map_channel stop_names_sync)) r, True))))"

definition clear_typing_facts :: "string \<Rightarrow> EventReducer \<Rightarrow> EventReducer" where
  "clear_typing_facts net r =
     r\<lparr>rd_conversations := bt_map_values (\<lambda>conv. if network_id (cs_key conv) = net then conv\<lparr>cs_typing := []\<rparr> else conv)
         (rd_conversations r)\<rparr>"

definition clear_presence_facts :: "string \<Rightarrow> bool \<Rightarrow> bool \<Rightarrow> EventReducer \<Rightarrow> EventReducer" where
  "clear_presence_facts net away metadata r =
     on_facts (\<lambda>f. case f_presence f net of
         None \<Rightarrow> f
       | Some store \<Rightarrow>
           let store = (if away then clear_away store else store);
               store = (if metadata then clear_metadata store else store)
           in f\<lparr>f_presence := (f_presence f)(net \<mapsto> store)\<rparr>) r"

definition take_mention_arrival :: "EventReducer \<Rightarrow> EventReducer \<times> MentionArrival option" where
  "take_mention_arrival r = (on_facts (\<lambda>f. f\<lparr>f_mention_arrival := None\<rparr>) r, f_mention_arrival (rd_facts r))"

definition take_inbox_arrival :: "EventReducer \<Rightarrow> EventReducer \<times> InboxArrival option" where
  "take_inbox_arrival r = (on_facts (\<lambda>f. f\<lparr>f_inbox_arrival := None\<rparr>) r, f_inbox_arrival (rd_facts r))"

section \<open>Reads\<close>

definition reducer_self_away :: "EventReducer \<Rightarrow> string \<Rightarrow> bool" where
  "reducer_self_away r net \<longleftrightarrow> net \<in> f_self_away (rd_facts r)"

definition joined_member_channel :: "EventReducer \<Rightarrow> string \<Rightarrow> string \<Rightarrow> string \<Rightarrow> string option" where
  "joined_member_channel r net channel_name sender =
     (if net = [] \<or> channel_name = [] \<or> sender = [] then None
      else case bt_get (rd_conversations r) (conversation_key r net channel_name) of
             None \<Rightarrow> None
           | Some conv \<Rightarrow>
               (case cs_channel conv of
                  None \<Rightarrow> None
                | Some channel \<Rightarrow>
                    if \<not> ch_joined channel then None
                    else let who = facts_normalize (rd_facts r) net sender in
                      if who = [] \<or> \<not> bt_contains (ch_members channel) who then None else Some (cs_target conv)))"

definition member_view :: "reducer_env \<Rightarrow> EventReducer \<Rightarrow> ConversationKey \<Rightarrow> string \<Rightarrow> MemberView option" where
  "member_view E r key who =
     (case bt_get (rd_conversations r) key of
        None \<Rightarrow> None
      | Some conv \<Rightarrow>
          (case cs_channel conv of
             None \<Rightarrow> None
           | Some channel \<Rightarrow>
               (case bt_get (ch_members channel) who of
                  None \<Rightarrow> None
                | Some member \<Rightarrow>
                    let f = rd_facts r; net = network_id key; stored = presence_of f net who;
                        away = (if np_away stored = None \<and> reducer_self_away r net \<and> facts_is_self f net (member_nick member)
                                then Some \<lparr>away_reason = []\<rparr> else np_away stored)
                    in Some \<lparr>mv_nick = member_nick member,
                         mv_label = member_label (features_of f net) (member_ranks member) (member_nick member),
                         mv_ranks = member_ranks member, mv_away = away, mv_status = presence_status stored,
                         mv_avatar = presence_avatar stored, mv_bot = is_bot stored,
                         mv_display_name = metadata_of stored ''display-name'', mv_pronouns = metadata_of stored ''pronouns'',
                         mv_homepage = metadata_of stored ''homepage'', mv_color = metadata_of stored ''color'',
                         mv_account = display_account f net (member_nick member),
                         mv_realname = displayed_realname (re_unicode E) (np_realname stored) (member_nick member),
                         mv_labels = facts_peer_fact_labels f net (member_nick member)\<rparr>)))"

definition peer_presence :: "EventReducer \<Rightarrow> string \<Rightarrow> string \<Rightarrow> PeerPresence" where
  "peer_presence r net who =
     (if who = [] \<or> \<not> is_visible (rd_conversations r) net who then PeerUnknown
      else case f_presence (rd_facts r) net of
             None \<Rightarrow> PeerOnline
           | Some store \<Rightarrow> if np_away (presence_lookup store who) \<noteq> None then PeerAway else PeerOnline)"

text \<open>\<open>sort_by\<close>: a stable sort under a total preorder.\<close>

fun insort_by :: "('a \<Rightarrow> 'a \<Rightarrow> bool) \<Rightarrow> 'a \<Rightarrow> 'a list \<Rightarrow> 'a list" where
  "insort_by le x [] = [x]"
| "insort_by le x (y # ys) = (if le x y then x # y # ys else y # insort_by le x ys)"

definition sort_by :: "('a \<Rightarrow> 'a \<Rightarrow> bool) \<Rightarrow> 'a list \<Rightarrow> 'a list" where
  "sort_by le xs = foldr (insort_by le) xs []"

definition ordered_members :: "EventReducer \<Rightarrow> ConversationKey \<Rightarrow> OrderedMember list" where
  "ordered_members r key =
     (case bt_get (rd_conversations r) key of
        None \<Rightarrow> []
      | Some conv \<Rightarrow>
          (case cs_channel conv of
             None \<Rightarrow> []
           | Some channel \<Rightarrow>
               sort_by (\<lambda>left right. om_priority left < om_priority right
                          \<or> om_priority left = om_priority right \<and> om_nick left \<le> om_nick right)
                 (map (\<lambda>(who, member). \<lparr>om_nick = who,
                      om_priority = rank_priority (features_of (rd_facts r) (network_id key)) (member_ranks member)\<rparr>)
                    (ch_members channel))))"

definition typing_nicks :: "EventReducer \<Rightarrow> ConversationKey \<Rightarrow> instant \<Rightarrow> string list" where
  "typing_nicks r key now =
     (case bt_get (rd_conversations r) key of
        None \<Rightarrow> []
      | Some conv \<Rightarrow>
          map display_nick (filter (\<lambda>hint. typing_shows_indicator hint now)
            (filter (\<lambda>hint. \<not> facts_is_self (rd_facts r) (network_id key) (display_nick hint)) (map snd (cs_typing conv)))))"

definition direct_peer_is_typing :: "EventReducer \<Rightarrow> ConversationKey \<Rightarrow> instant \<Rightarrow> bool" where
  "direct_peer_is_typing r key now =
     (case bt_get (rd_conversations r) key of
        None \<Rightarrow> False
      | Some conv \<Rightarrow>
          if is_channel_conversation conv then False
          else case bt_get (cs_typing conv) (normalized_target key) of
                 None \<Rightarrow> False
               | Some hint \<Rightarrow> typing_shows_indicator hint now)"

section \<open>The read marker\<close>

definition read_time :: "reducer_env \<Rightarrow> ReducedMessage \<Rightarrow> instant option" where
  "read_time E message =
     (case m_server_time message of
        Some at \<Rightarrow> Some at
      | None \<Rightarrow> if m_origin message = Replay \<and> m_time message \<noteq> re_zero_time E then Some (m_time message) else None)"

definition is_chat_kind :: "MessageKind \<Rightarrow> bool" where
  "is_chat_kind k \<longleftrightarrow> k = KindMessage \<or> k = KindAction \<or> k = KindNotice"

definition latest_server_message_time :: "ConversationState \<Rightarrow> instant option" where
  "latest_server_message_time conv =
     (case List.find (\<lambda>message. m_server_time message \<noteq> None \<and> is_chat_kind (m_kind message)) (rev (cs_messages conv)) of
        None \<Rightarrow> None
      | Some message \<Rightarrow> map_option read_marker_time_millis (m_server_time message))"

text \<open>One row of the loop of \<open>recount_unread_from_read_marker\<close>; the accounting is that of an arriving line.\<close>

definition recount_row :: "reducer_env \<Rightarrow> Facts \<Rightarrow> ConversationKey \<Rightarrow> ConversationState \<Rightarrow> ReducedMessage \<Rightarrow> ConversationState" where
  "recount_row E f key conv message =
     (let net = network_id key; selected = (f_selected f = Some key) in
      if \<not> is_chat_kind (m_kind message) then conv
      else if facts_is_self f net (m_author message) then conv
      else if covered (cs_read_marker conv) (read_time E message) then conv
      else
        let nick_hit = is_nick_mention E f net (m_body message);
            highlight_hit = (\<not> nick_hit \<and> is_highlight_hit E f net (m_body message));
            (reason, has_reason) = classify_chat_line (is_channel_conversation conv) (m_kind message) False nick_hit highlight_hit;
            live = (m_origin message = Live);
            skip_live_focused = (selected \<and> live \<and> \<not> f_window_inactive f);
            skip_replay_unfocused = (selected \<and> \<not> live \<and> f_window_inactive f)
        in if skip_live_focused \<or> skip_replay_unfocused then conv
           else
             let hold_focused_replay_mark = (selected \<and> \<not> live \<and> cs_unread_mark conv \<noteq> None);
                 conv = (if cs_unread conv = 0 \<and> \<not> hold_focused_replay_mark
                         then conv\<lparr>cs_unread_mark := Some (m_sequence message)\<rparr> else conv)
             in if selected \<and> \<not> live then conv
                else let conv = conv\<lparr>cs_unread := cs_unread conv + 1\<rparr> in
                  if has_reason \<and> (reason = NickMention \<or> reason = HighlightReason) \<and> \<not> cs_muted conv
                  then conv\<lparr>cs_mentions := cs_mentions conv + 1\<rparr> else conv)"

definition recount_unread_from_read_marker :: "reducer_env \<Rightarrow> Facts \<Rightarrow> ConversationKey \<Rightarrow> ConversationState \<Rightarrow> ConversationState" where
  "recount_unread_from_read_marker E f key conv =
     foldl (recount_row E f key) (conv\<lparr>cs_unread := 0, cs_mentions := 0, cs_unread_mark := None\<rparr>) (cs_messages conv)"

definition apply_server_read_marker :: "reducer_env \<Rightarrow> ConversationKey \<Rightarrow> instant option \<Rightarrow> EventReducer \<Rightarrow> EventReducer \<times> bool" where
  "apply_server_read_marker E key marker r =
     (case marker of
        None \<Rightarrow> (r, False)
      | Some marker \<Rightarrow>
          let marker = read_marker_time_millis marker in
          case bt_get (rd_conversations r) key of
            None \<Rightarrow> (r, False)
          | Some conv \<Rightarrow>
              if (case cs_read_marker conv of None \<Rightarrow> False | Some current \<Rightarrow> \<not> read_marker_time_after marker current)
              then (r, False)
              else (on_conversation key (\<lambda>(f, conv).
                      (f, recount_unread_from_read_marker E f key (conv\<lparr>cs_read_marker := Some marker\<rparr>))) r, True))"

section \<open>The sidebar\<close>

definition network_rank :: "string \<Rightarrow> string list \<Rightarrow> nat" where
  "network_rank net order = (case position (\<lambda>candidate. candidate = net) order of None \<Rightarrow> length order | Some i \<Rightarrow> i)"

definition group_rank :: "ConversationState option \<Rightarrow> nat" where
  "group_rank conversation =
     (case conversation of Some conv \<Rightarrow> if is_channel_conversation conv then 0 else 2 | None \<Rightarrow> 2)"

definition sidebar_target :: "EventReducer \<Rightarrow> ConversationKey \<Rightarrow> string" where
  "sidebar_target r key =
     (case bt_get (rd_conversations r) key of None \<Rightarrow> normalized_target key | Some conv \<Rightarrow> cs_target conv)"

text \<open>The chain of comparisons, as the predicate that the left key does not come after the right one.\<close>

definition sidebar_le :: "reducer_env \<Rightarrow> EventReducer \<Rightarrow> string list \<Rightarrow> ConversationKey \<Rightarrow> ConversationKey \<Rightarrow> bool" where
  "sidebar_le E r order left right =
     (let lr = network_rank (network_id left) order; rr = network_rank (network_id right) order in
      if lr \<noteq> rr then lr < rr
      else if network_id left \<noteq> network_id right then network_id left < network_id right
      else
        let lg = group_rank (bt_get (rd_conversations r) left); rg = group_rank (bt_get (rd_conversations r) right) in
        if lg \<noteq> rg then lg < rg
        else
          let lt = lower_text (re_unicode E) (sidebar_target r left); rt = lower_text (re_unicode E) (sidebar_target r right) in
          if lt \<noteq> rt then lt < rt else left \<le> right)"

definition sidebar_networks :: "EventReducer \<Rightarrow> string list" where
  "sidebar_networks r =
     sort (foldl (\<lambda>order key. if network_id key \<in> set order then order else order @ [network_id key]) []
       (bt_keys (rd_conversations r)))"

definition sidebar_order_with_networks :: "reducer_env \<Rightarrow> EventReducer \<Rightarrow> string list \<Rightarrow> ConversationKey list" where
  "sidebar_order_with_networks E r network_order =
     (let order = (if network_order = [] then sidebar_networks r else network_order)
      in sort_by (sidebar_le E r order) (bt_keys (rd_conversations r)))"

end
