(* ===== verification/ReducerSplice.thy ===== *)
theory ReducerSplice
  imports ReducerConversations
begin

text \<open>
  \<^verbatim>\<open>client/src/irc/reducer/splice.rs\<close>: where a bouncer or CHATHISTORY batch lands in a transcript, the dedup by
  msgid and by content, and the queue that holds a batch until its conversation or its join exists.
\<close>

section \<open>Where a batch lands\<close>

datatype AnchorUse = ConsumeAnchor | KeepAnchor

record PendingNote =
  pn_sequence :: int
  pn_server_time :: "instant option"
  pn_keep_without_row :: bool

definition peek_splice_index :: "ConversationState \<Rightarrow> nat option" where
  "peek_splice_index conv =
     (let len = length (cs_messages conv) in
      case cs_channel conv of
        None \<Rightarrow> Some len
      | Some channel \<Rightarrow>
          (case ch_history_anchor channel of
             None \<Rightarrow> if ch_joined channel then Some len else None
           | Some anchor \<Rightarrow>
               let index = anchor - int (cs_trimmed conv) in
               if index < 0 \<or> index > int len then None else Some (nat index)))"

definition take_splice_index :: "ConversationState \<Rightarrow> ConversationState \<times> nat option" where
  "take_splice_index conv =
     (let len = length (cs_messages conv) in
      case cs_channel conv of
        None \<Rightarrow> (conv, Some len)
      | Some channel \<Rightarrow>
          (case ch_history_anchor channel of
             None \<Rightarrow> (conv, None)
           | Some anchor \<Rightarrow>
               let index = anchor - int (cs_trimmed conv) in
               if index < 0 \<or> index > int len
               then (conv\<lparr>cs_channel := Some (channel\<lparr>ch_history_anchor := None\<rparr>)\<rparr>, None)
               else (conv, Some (nat index))))"

definition splice_start :: "HistoryEvent \<Rightarrow> AnchorUse \<Rightarrow> ConversationState \<Rightarrow> ConversationState \<times> nat option" where
  "splice_start event anchor_use conv =
     (let older_page = (he_kind event = Chat \<and> he_older_page event) in
      case anchor_use of
        ConsumeAnchor \<Rightarrow> if older_page then (conv, Some 0) else take_splice_index conv
      | KeepAnchor \<Rightarrow> (conv, peek_splice_index conv))"

section \<open>One line of a batch\<close>

definition matched_sequence :: "ConversationState \<Rightarrow> ReducedMessage list \<Rightarrow> (ReducedMessage \<Rightarrow> bool) \<Rightarrow> int option" where
  "matched_sequence conv run P = map_option m_sequence (List.find P (cs_messages conv @ run))"

definition same_replay_line :: "reducer_env \<Rightarrow> ReducedMessage \<Rightarrow> ReplayLine \<Rightarrow> MessageKind \<Rightarrow> IrcCaseMapping \<Rightarrow> bool" where
  "same_replay_line E message line k mapping =
     (if m_kind message \<noteq> k \<or> m_body message \<noteq> rl_body line then False
      else if m_time message = re_zero_time E \<or> rl_timestamp line = re_zero_time E then False
      else if m_time message div NANOS_PER_MS \<noteq> rl_timestamp line div NANOS_PER_MS then False
      else equals mapping (m_author message) (rl_author line))"

record splice_state =
  sp_replay :: replay_state
  sp_notes :: "PendingNote list"
  sp_saw_self :: bool
  sp_saw_line :: bool
  sp_membership_only :: bool

definition note_line :: "int \<Rightarrow> ReplayLine \<Rightarrow> splice_state \<Rightarrow> splice_state" where
  "note_line sequence line s =
     s\<lparr>sp_notes := sp_notes s @ [\<lparr>pn_sequence = sequence, pn_server_time = rl_server_time line, pn_keep_without_row = False\<rparr>]\<rparr>"

definition learn_msgid :: "MsgId \<Rightarrow> replay_state \<Rightarrow> replay_state" where
  "learn_msgid mid rs =
     (if mid = [] then rs
      else rs\<lparr>rs_conv := (rs_conv rs)\<lparr>cs_message_ids := insert mid (cs_message_ids (rs_conv rs))\<rparr>\<rparr>)"

definition splice_membership_line :: "ReplayLine \<Rightarrow> splice_state \<Rightarrow> splice_state" where
  "splice_membership_line line s =
     (let (rs, admitted) = admit_membership_replay
            \<lparr>rm_body = rl_body line, rm_timestamp = rl_timestamp line, rm_msgid = rl_msgid line, rm_server_time = rl_server_time line\<rparr>
            (learn_msgid (rl_msgid line) (sp_replay s));
          notes = (if mr_dropped admitted
                   then map (\<lambda>note. if pn_sequence note = mr_dropped_sequence admitted
                                    then note\<lparr>pn_keep_without_row := True\<rparr> else note) (sp_notes s)
                   else sp_notes s);
          note = (if mr_added_row admitted
                  then \<lparr>pn_sequence = mr_sequence admitted, pn_server_time = rl_server_time line, pn_keep_without_row = False\<rparr>
                  else \<lparr>pn_sequence = 0, pn_server_time = rl_server_time line, pn_keep_without_row = True\<rparr>)
      in s\<lparr>sp_replay := rs, sp_notes := notes @ [note]\<rparr>)"

definition push_chat_row :: "reducer_env \<Rightarrow> string \<Rightarrow> MessageKind \<Rightarrow> ReplayLine \<Rightarrow> replay_state \<Rightarrow> replay_state" where
  "push_chat_row E net k line rs =
     (let rs = learn_msgid (rl_msgid line) rs; f = rs_facts rs; conv = rs_conv rs; sequence = cs_next_sequence conv;
          row = \<lparr>m_kind = k, m_author = rl_author line, m_body = rl_body line, m_time = rl_timestamp line,
                 m_server_time = rl_server_time line, m_msgid = rl_msgid line, m_origin = Replay,
                 m_mentioned = transcript_highlight E f net (rl_author line) k (rl_body line), m_collapsible = False,
                 m_sequence = sequence, m_only_visible = rl_only_visible line\<rparr>
      in rs\<lparr>rs_conv := conv\<lparr>cs_next_sequence := sequence + 1\<rparr>, rs_run := rs_run rs @ [row],
            rs_facts := claim_channel_context (cs_key conv) (is_channel_conversation conv) (rl_msgid line) (rl_only_visible line) f\<rparr>)"

definition splice_chat_line :: "reducer_env \<Rightarrow> HistoryEvent \<Rightarrow> IrcCaseMapping \<Rightarrow> ReplayLine \<Rightarrow> splice_state \<Rightarrow> splice_state" where
  "splice_chat_line E event mapping line s =
     (let k = (if rl_kind line = TagEmote then KindAction else KindMessage); rs = sp_replay s in
      case matched_sequence (rs_conv rs) (rs_run rs) (\<lambda>message.
             \<not> (rl_msgid line \<noteq> [] \<and> m_msgid message \<noteq> [] \<and> m_msgid message \<noteq> rl_msgid line)
             \<and> same_replay_line E message line k mapping) of
        Some sequence \<Rightarrow> note_line sequence line s
      | None \<Rightarrow>
          note_line (cs_next_sequence (rs_conv rs)) line
            (s\<lparr>sp_replay := push_chat_row E (network_id (he_conversation event)) k line rs\<rparr>))"

definition splice_line :: "reducer_env \<Rightarrow> HistoryEvent \<Rightarrow> IrcCaseMapping \<Rightarrow> splice_state \<Rightarrow> ReplayLine \<Rightarrow> splice_state" where
  "splice_line E event mapping s line =
     (let rs = sp_replay s; f = rs_facts rs; conv = rs_conv rs;
          s = s\<lparr>sp_saw_line := True, sp_membership_only := sp_membership_only s \<and> rl_kind line = TagEvent,
                sp_saw_self := sp_saw_self s \<or> bouncer_query_own_line f event (rl_author line)\<rparr>
      in if rl_msgid line \<noteq> [] \<and> rl_msgid line \<in> cs_message_ids conv then
           (case matched_sequence conv (rs_run rs) (\<lambda>message. m_msgid message = rl_msgid line) of
              Some sequence \<Rightarrow> note_line sequence line s
            | None \<Rightarrow> s)
         else if channel_context_blocks_dm f (cs_key conv) (is_channel_conversation conv) (rl_msgid line) then s
         else if rl_kind line = TagEvent then splice_membership_line line s
         else splice_chat_line E event mapping line s)"

section \<open>The end of a batch\<close>

definition arrival_of_row :: "HistoryEvent \<Rightarrow> ReducedMessage \<Rightarrow> ChatArrival" where
  "arrival_of_row event message =
     \<lparr>ca_author = m_author message, ca_body = m_body message, ca_kind = m_kind message, ca_msgid = m_msgid message,
      ca_sequence = m_sequence message, ca_server_time = m_server_time message, ca_origin = Replay, ca_history = Some event\<rparr>"

definition note_run :: "reducer_env \<Rightarrow> HistoryEvent \<Rightarrow> ReducedMessage list \<Rightarrow> facts_conv \<Rightarrow> facts_conv" where
  "note_run E event run fc =
     foldl (\<lambda>fc message. if m_kind message = KindEvent then fc
                         else note_chat_arrival E (he_conversation event) (arrival_of_row event message) fc) fc run"

definition insert_run :: "nat \<Rightarrow> ReducedMessage list \<Rightarrow> facts_conv \<Rightarrow> facts_conv" where
  "insert_run at run fc =
     (let (f, conv) = fc; insert_at = min at (length (cs_messages conv));
          conv = conv\<lparr>cs_messages := take insert_at (cs_messages conv) @ run @ drop insert_at (cs_messages conv)\<rparr>;
          f = (if at = 0 then persist_messages_prepend conv run f else foldl (\<lambda>f message. persist_message conv message f) f run)
      in (f, map_anchor (\<lambda>anchor. anchor + int (length run)) conv))"

definition land_run :: "reducer_env \<Rightarrow> HistoryEvent \<Rightarrow> nat \<Rightarrow> nat \<Rightarrow> ReducedMessage list \<Rightarrow> facts_conv \<Rightarrow> facts_conv" where
  "land_run E event previous_size at run fc =
     (let (f, conv) = insert_run at run fc;
          conv = (if at \<noteq> previous_size then conv\<lparr>cs_splice_epoch := cs_splice_epoch conv + 1\<rparr> else conv);
          fc = (if cs_history_page_cap_tail conv \<and> he_kind event = Chat
                then cap_messages_prefer_tail (f, conv\<lparr>cs_history_page_cap_tail := False\<rparr>)
                else cap_messages (f, conv))
      in note_run E event run fc)"

definition remember_query :: "HistoryEvent \<Rightarrow> facts_conv \<Rightarrow> facts_conv" where
  "remember_query event fc =
     (let (f, conv) = fc; target = (if he_target event = [] then cs_target conv else he_target event)
      in (f\<lparr>f_remembered_queries := f_remembered_queries f
             @ [\<lparr>rq_network_id = network_id (he_conversation event), rq_target = target\<rparr>]\<rparr>, conv))"

definition keep_notes :: "HistoryEvent \<Rightarrow> PendingNote list \<Rightarrow> facts_conv \<Rightarrow> facts_conv" where
  "keep_notes event notes fc =
     (let (f, conv) = fc;
          kept = filter (\<lambda>note. pn_keep_without_row note
                          \<or> list_ex (\<lambda>message. m_sequence message = pn_sequence note) (cs_messages conv)) notes;
          f = f\<lparr>f_kept_replay := f_kept_replay f @
                 map (\<lambda>at. \<lparr>kr_network_id = network_id (he_conversation event), kr_target = he_target event, kr_server_time = at\<rparr>)
                   (List.map_filter pn_server_time kept)\<rparr>
      in if kept \<noteq> [] \<and> he_kind event = BouncerPlayback \<and> is_channel_conversation conv
         then (f\<lparr>f_kept_playback_channel := insert (cs_key conv) (f_kept_playback_channel f)\<rparr>, conv)
         else (f, conv))"

definition splice_history :: "reducer_env \<Rightarrow> HistoryEvent \<Rightarrow> AnchorUse \<Rightarrow> facts_conv \<Rightarrow> facts_conv" where
  "splice_history E event anchor_use fc =
     (let (f, conv) = fc; (conv, start) = splice_start event anchor_use conv in
      case start of
        None \<Rightarrow> (f, conv)
      | Some at \<Rightarrow>
          let previous_size = length (cs_messages conv);
              older_page = (he_kind event = Chat \<and> he_older_page event);
              mapping = facts_case_mapping f (network_id (he_conversation event));
              s = foldl (splice_line E event mapping)
                    \<lparr>sp_replay = \<lparr>rs_facts = f, rs_conv = conv, rs_run = [], rs_at = at\<rparr>, sp_notes = [],
                     sp_saw_self = False, sp_saw_line = False, sp_membership_only = True\<rparr> (he_lines event);
              rs = sp_replay s;
              fc = (rs_facts rs, rs_conv rs);
              fc = (if sp_saw_self s then remember_query event fc else fc);
              fc = (if rs_run rs \<noteq> [] then land_run E event previous_size (rs_at rs) (rs_run rs) fc
                    else if he_kind event = Chat \<and> (cs_history_page_cap_tail (snd fc) \<or> older_page)
                            \<and> \<not> (sp_saw_line s \<and> sp_membership_only s)
                    then (fst fc, (snd fc)\<lparr>cs_history_page_cap_tail := False\<rparr>) else fc)
          in keep_notes event (sp_notes s) fc)"

section \<open>Routing a batch\<close>

definition splice_into :: "reducer_env \<Rightarrow> ConversationKey \<Rightarrow> HistoryEvent \<Rightarrow> AnchorUse \<Rightarrow> EventReducer \<Rightarrow> EventReducer" where
  "splice_into E key event anchor_use r = on_conversation key (splice_history E event anchor_use) r"

definition hold_pending_playback :: "HistoryEvent \<Rightarrow> EventReducer \<Rightarrow> EventReducer" where
  "hold_pending_playback event r =
     (if he_lines event = [] then r
      else on_facts (\<lambda>f. f\<lparr>f_pending_playback :=
             (case bt_get (f_pending_playback f) (he_conversation event) of
                Some held \<Rightarrow> bt_insert (he_conversation event) (held\<lparr>he_lines := he_lines held @ he_lines event\<rparr>) (f_pending_playback f)
              | None \<Rightarrow> bt_insert (he_conversation event) event (f_pending_playback f))\<rparr>) r)"

definition forget_held :: "ConversationKey \<Rightarrow> EventReducer \<Rightarrow> EventReducer" where
  "forget_held key r = on_facts (\<lambda>f. f\<lparr>f_pending_playback := bt_remove key (f_pending_playback f)\<rparr>) r"

definition absorb_pending_query_playback :: "reducer_env \<Rightarrow> HistoryEvent \<Rightarrow> EventReducer \<Rightarrow> EventReducer \<times> bool" where
  "absorb_pending_query_playback E event r =
     (let key = he_conversation event; net = network_id key in
      case bt_get (f_pending_playback (rd_facts r)) key of
        None \<Rightarrow> (r, False)
      | Some held \<Rightarrow>
          let held = held\<lparr>he_lines := he_lines held @ he_lines event\<rparr>;
              r = on_facts (\<lambda>f. f\<lparr>f_pending_playback := bt_insert key held (f_pending_playback f)\<rparr>) r;
              restoring = (net \<in> f_query_restore_pending (rd_facts r))
          in if \<not> replay_from_peer (rd_facts r) held then ((if restoring then r else forget_held key r), True)
             else if \<not> bt_contains (rd_conversations r) key then
               (if replay_only_repeats_persisted_ids E (rd_facts r) held
                then ((if restoring then r else forget_held key r), True)
                else case ensure_key E key (he_target held) InboundOther r of
                       (r, False) \<Rightarrow> (r, True)
                     | (r, True) \<Rightarrow> (splice_into E key held ConsumeAnchor (forget_held key r), True))
             else (splice_into E key held ConsumeAnchor (forget_held key r), True))"

definition release_pending_playback :: "reducer_env \<Rightarrow> ConversationKey \<Rightarrow> EventReducer \<Rightarrow> EventReducer" where
  "release_pending_playback E key r =
     (case bt_get (f_pending_playback (rd_facts r)) key of
        None \<Rightarrow> r
      | Some event \<Rightarrow> splice_into E key event KeepAnchor (forget_held key r))"

text \<open>A batch for a conversation that does not exist yet: whether it may be spliced now.\<close>

definition open_for_replay :: "reducer_env \<Rightarrow> HistoryEvent \<Rightarrow> EventReducer \<Rightarrow> EventReducer \<times> bool" where
  "open_for_replay E event r =
     (let key = he_conversation event; net = network_id key;
          channel_target = facts_is_channel (rd_facts r) net (normalized_target key)
      in if bt_contains (rd_conversations r) key then (r, True)
         else if channel_target \<or> he_kind event = Chat then (r, False)
         else if \<not> replay_from_peer (rd_facts r) event then
           ((if he_kind event = BouncerPlayback \<and> net \<in> f_query_restore_pending (rd_facts r)
             then hold_pending_playback event r else r), False)
         else if replay_only_repeats_persisted_ids E (rd_facts r) event then (r, False)
         else ensure_key E key (he_target event) InboundOther r)"

definition reduce_history :: "reducer_env \<Rightarrow> HistoryEvent \<Rightarrow> EventReducer \<Rightarrow> EventReducer" where
  "reduce_history E event r =
     (let key = he_conversation event; net = network_id key;
          channel_target = facts_is_channel (rd_facts r) net (normalized_target key)
      in if he_kind event = BouncerPlayback \<and> channel_target then
           (let joined = (case bt_get (rd_conversations r) key of
                            None \<Rightarrow> False
                          | Some conv \<Rightarrow> (case cs_channel conv of None \<Rightarrow> False | Some channel \<Rightarrow> ch_joined channel))
            in if \<not> joined then hold_pending_playback event r else splice_into E key event KeepAnchor r)
         else
           case (if he_kind event = BouncerPlayback then absorb_pending_query_playback E event r else (r, False)) of
             (r, True) \<Rightarrow> r
           | (r, False) \<Rightarrow>
               (case open_for_replay E event r of
                  (r, False) \<Rightarrow> r
                | (r, True) \<Rightarrow> splice_into E key event ConsumeAnchor r))"

text \<open>One held query batch of \<open>release_pending_query_playback\<close>.\<close>

definition release_held_query :: "reducer_env \<Rightarrow> EventReducer \<times> bool \<Rightarrow> ConversationKey \<Rightarrow> EventReducer \<times> bool" where
  "release_held_query E state key =
     (let (r, changed) = state in
      case bt_get (f_pending_playback (rd_facts r)) key of
        None \<Rightarrow> (r, changed)
      | Some event \<Rightarrow>
          let r = forget_held key r in
          if bt_contains (rd_conversations r) key then (splice_into E key event ConsumeAnchor r, True)
          else if \<not> replay_from_peer (rd_facts r) event then (r, changed)
          else if replay_only_repeats_persisted_ids E (rd_facts r) event then (r, changed)
          else case ensure_key E key (he_target event) InboundOther r of
                 (r, False) \<Rightarrow> (r, changed)
               | (r, True) \<Rightarrow> (splice_into E key event ConsumeAnchor r, True))"

definition release_pending_query_playback :: "reducer_env \<Rightarrow> string \<Rightarrow> EventReducer \<Rightarrow> EventReducer \<times> bool" where
  "release_pending_query_playback E net r =
     (if net = [] then (r, False)
      else
        let r = on_facts (\<lambda>f. f\<lparr>f_query_restore_pending := f_query_restore_pending f - {net}\<rparr>) r;
            held = filter (\<lambda>key. network_id key = net \<and> \<not> facts_is_channel (rd_facts r) net (normalized_target key))
                     (bt_keys (f_pending_playback (rd_facts r)))
        in foldl (release_held_query E) (r, False) held)"

definition playback_batch_kept :: "EventReducer \<Rightarrow> string \<Rightarrow> string \<Rightarrow> bool" where
  "playback_batch_kept r net target =
     (if net = [] \<or> target = [] then False
      else conversation_key r net target \<in> f_kept_playback_channel (rd_facts r))"

definition take_remembered_queries :: "EventReducer \<Rightarrow> EventReducer \<times> RememberedQuery list" where
  "take_remembered_queries r = (on_facts (\<lambda>f. f\<lparr>f_remembered_queries := []\<rparr>) r, f_remembered_queries (rd_facts r))"

definition take_kept_replay :: "EventReducer \<Rightarrow> EventReducer \<times> KeptReplay list" where
  "take_kept_replay r = (on_facts (\<lambda>f. f\<lparr>f_kept_replay := []\<rparr>) r, f_kept_replay (rd_facts r))"

end
