(* ===== verification/ReducerHandlers.thy ===== *)
theory ReducerHandlers
  imports ReducerSplice
begin

text \<open>
  \<^verbatim>\<open>client/src/irc/reducer/handlers.rs\<close>, \<^verbatim>\<open>reducer/notify.rs\<close>, \<^verbatim>\<open>client/src/irc/viewnotify.rs\<close> and
  \<open>EventReducer::apply\<close> of \<^verbatim>\<open>client/src/irc/reducer.rs\<close>: one fold per event, and the surfaces an event dirties.
\<close>

section \<open>Chat\<close>

definition display_target :: "ConversationKey \<Rightarrow> string \<Rightarrow> string" where
  "display_target key target = (if target = [] then normalized_target key else target)"

definition row_of_line :: "reducer_env \<Rightarrow> Facts \<Rightarrow> ChatLine \<Rightarrow> ReducedMessage" where
  "row_of_line E f line =
     \<lparr>m_kind = cl_kind line, m_author = cl_author line, m_body = cl_body line, m_time = cl_timestamp line,
      m_server_time = cl_server_time line, m_msgid = cl_msgid line, m_origin = Live,
      m_mentioned = transcript_highlight E f (network_id (cl_key line)) (cl_author line) (cl_kind line) (cl_body line),
      m_collapsible = False, m_sequence = 0, m_only_visible = cl_only_visible line\<rparr>"

text \<open>\<open>append_chat\<close> once the conversation exists.\<close>

definition admit_chat :: "reducer_env \<Rightarrow> ChatLine \<Rightarrow> facts_conv \<Rightarrow> facts_conv" where
  "admit_chat E line fc =
     (let (f, conv) = fc; key = cl_key line; mid = cl_msgid line; is_chan = is_channel_conversation conv in
      if mid \<noteq> [] \<and> (mid \<in> cs_message_ids conv \<or> channel_context_blocks_dm f key is_chan mid) then fc
      else
        let conv = (if mid \<noteq> [] then conv\<lparr>cs_message_ids := insert mid (cs_message_ids conv)\<rparr> else conv);
            conv = admit_message (row_of_line E f line) conv;
            f = claim_channel_context key is_chan mid (cl_only_visible line) f;
            row = last (cs_messages conv);
            (f, conv) = cap_messages (persist_message conv row f, conv);
            conv = conv\<lparr>cs_typing := bt_remove (facts_normalize f (network_id key) (cl_author line)) (cs_typing conv)\<rparr>
        in note_chat_arrival E key
             \<lparr>ca_author = cl_author line, ca_body = cl_body line, ca_kind = cl_kind line, ca_msgid = mid,
              ca_sequence = m_sequence row, ca_server_time = m_server_time row, ca_origin = Live, ca_history = None\<rparr>
             (f, conv))"

definition append_chat :: "reducer_env \<Rightarrow> ChatLine \<Rightarrow> EventReducer \<Rightarrow> EventReducer" where
  "append_chat E line r =
     (let key = cl_key line;
          cause = (if facts_is_self (rd_facts r) (network_id key) (cl_author line) then InboundSelf else InboundOther)
      in case ensure_key E key (cl_display_target line) cause r of
           (r, False) \<Rightarrow> r
         | (r, True) \<Rightarrow> on_conversation key (admit_chat E line) r)"

definition chat_line_of :: "MessageKind \<Rightarrow> ChatEvent \<Rightarrow> ChatLine" where
  "chat_line_of k event =
     \<lparr>cl_key = ce_conversation event, cl_display_target = display_target (ce_conversation event) (ce_target event),
      cl_author = ce_author event, cl_body = ce_body event, cl_timestamp = ce_timestamp event,
      cl_server_time = ce_server_time event, cl_kind = k, cl_msgid = ce_msgid event, cl_only_visible = ce_only_visible event\<rparr>"

definition reduce_message :: "reducer_env \<Rightarrow> ChatEvent \<Rightarrow> EventReducer \<Rightarrow> EventReducer" where
  "reduce_message E event r = append_chat E (chat_line_of KindMessage event) r"

definition reduce_notice :: "reducer_env \<Rightarrow> ChatEvent \<Rightarrow> EventReducer \<Rightarrow> EventReducer" where
  "reduce_notice E event r = append_chat E (chat_line_of KindNotice event) r"

definition reduce_action :: "reducer_env \<Rightarrow> ChatEvent \<Rightarrow> EventReducer \<Rightarrow> EventReducer" where
  "reduce_action E event r = append_chat E (chat_line_of KindAction event) r"

section \<open>Registration and membership\<close>

definition welcome_conversation :: "string \<Rightarrow> ConversationState \<Rightarrow> ConversationState" where
  "welcome_conversation net conv =
     (if network_id (cs_key conv) \<noteq> net then conv
      else (map_channel leave_channel_state conv)\<lparr>cs_history_page_cap_tail := False, cs_typing := []\<rparr>)"

definition welcome_facts :: "string \<Rightarrow> string \<Rightarrow> Facts \<Rightarrow> Facts" where
  "welcome_facts net current_nick f =
     (let f = clear_closed_network net (drop_kept_playback net (drop_pending_playback net f));
          f = f\<lparr>f_query_restore_pending := insert net (f_query_restore_pending f)\<rparr>;
          f = (case f_current_nicks f net of None \<Rightarrow> f | Some current \<Rightarrow> remember_self_nick net current f);
          f = remember_self_nick net current_nick f;
          f = f\<lparr>f_current_nicks := (f_current_nicks f)(net \<mapsto> current_nick)\<rparr>;
          f = (case f_presence f net of None \<Rightarrow> f | Some store \<Rightarrow> f\<lparr>f_presence := (f_presence f)(net \<mapsto> presence_clear store)\<rparr>)
      in f\<lparr>f_self_away := f_self_away f - {net}\<rparr>)"

definition reduce_welcome :: "reducer_env \<Rightarrow> string \<Rightarrow> string \<Rightarrow> EventReducer \<Rightarrow> EventReducer" where
  "reduce_welcome E net current_nick r =
     (let r = on_facts (welcome_facts net current_nick) r
      in refresh_mentions E net (r\<lparr>rd_conversations := bt_map_values (welcome_conversation net) (rd_conversations r)\<rparr>))"

definition insert_member :: "string \<Rightarrow> string \<Rightarrow> ChannelState \<Rightarrow> ChannelState" where
  "insert_member who nick_text channel =
     (let ranks = (case bt_get (ch_members channel) who of None \<Rightarrow> 0 | Some member \<Rightarrow> member_ranks member)
      in channel\<lparr>ch_members := bt_insert who \<lparr>member_nick = nick_text, member_ranks = ranks\<rparr> (ch_members channel)\<rparr>)"

definition join_conversation :: "reducer_env \<Rightarrow> string \<Rightarrow> string \<Rightarrow> string \<Rightarrow> bool \<Rightarrow> facts_conv \<Rightarrow> facts_conv" where
  "join_conversation E who nick_text body self_join fc =
     (let (f, conv) = fc;
          conv = map_channel (insert_member who nick_text) conv;
          conv = (if self_join
                  then map_channel (\<lambda>channel. channel\<lparr>ch_joined := True,
                         ch_history_anchor := Some (int (cs_trimmed conv) + int (length (cs_messages conv)))\<rparr>) conv
                  else conv)
      in append_event E body (\<not> self_join) True (f, conv))"

definition join_facts :: "string \<Rightarrow> string \<Rightarrow> string option \<Rightarrow> string option \<Rightarrow> Facts \<Rightarrow> Facts" where
  "join_facts net who account realname f =
     (let f = (case account of None \<Rightarrow> f | Some account \<Rightarrow> if who \<noteq> [] then set_presence_account net who account f else f)
      in case realname of
           None \<Rightarrow> f
         | Some realname \<Rightarrow> if realname \<noteq> [] \<and> who \<noteq> [] then set_presence_realname net who realname f else f)"

definition reduce_join :: "reducer_env \<Rightarrow> string \<Rightarrow> string \<Rightarrow> string \<Rightarrow> string option \<Rightarrow> string option \<Rightarrow> EventReducer \<Rightarrow> EventReducer" where
  "reduce_join E net channel_name nick_text account realname r =
     (let who = facts_normalize (rd_facts r) net nick_text;
          r = on_facts (join_facts net who account realname) r;
          key = conversation_key r net channel_name
      in case ensure_key E key channel_name ChannelStateCause r of
           (r, False) \<Rightarrow> r
         | (r, True) \<Rightarrow>
             let self_join = facts_is_self (rd_facts r) net nick_text;
                 shown = (case account of None \<Rightarrow> [] | Some _ \<Rightarrow> display_account (rd_facts r) net nick_text);
                 is_chan = (case bt_get (rd_conversations r) key of None \<Rightarrow> False | Some conv \<Rightarrow> is_channel_conversation conv)
             in if \<not> is_chan then r
                else
                  let r = on_conversation key (join_conversation E who nick_text (join_line nick_text shown) self_join) r
                  in if self_join then release_pending_playback E key r else r)"

definition reduce_nick_facts :: "string \<Rightarrow> string \<Rightarrow> string option \<Rightarrow> bool option \<Rightarrow> EventReducer \<Rightarrow> EventReducer" where
  "reduce_nick_facts net nick_text realname operator r =
     (let who = facts_normalize (rd_facts r) net nick_text in
      if who = [] then r
      else on_facts (\<lambda>f.
             let f = (case realname of None \<Rightarrow> f | Some realname \<Rightarrow> set_presence_realname net who realname f)
             in case operator of None \<Rightarrow> f | Some operator \<Rightarrow> set_presence_operator net who operator f) r)"

definition reduce_account :: "string \<Rightarrow> string \<Rightarrow> string \<Rightarrow> EventReducer \<Rightarrow> EventReducer" where
  "reduce_account net nick_text account r =
     (let who = facts_normalize (rd_facts r) net nick_text in
      if who = [] then r else on_facts (set_presence_account net who account) r)"

definition forget_unseen :: "string \<Rightarrow> string list \<Rightarrow> EventReducer \<Rightarrow> EventReducer" where
  "forget_unseen net nicks r =
     on_facts (\<lambda>f. case f_presence f net of
         None \<Rightarrow> f
       | Some store \<Rightarrow>
           f\<lparr>f_presence := (f_presence f)(net \<mapsto>
              foldl (\<lambda>store who. if presence_knows store who \<and> \<not> is_visible (rd_conversations r) net who
                                 then forget who store else store) store nicks)\<rparr>) r"

text \<open>The membership half of a part or a kick: who is gone, and the channel after it.\<close>

definition depart_channel :: "string \<Rightarrow> bool \<Rightarrow> ConversationState \<Rightarrow> ConversationState" where
  "depart_channel who self_gone conv =
     (let conv = map_channel (\<lambda>channel. channel\<lparr>ch_members := bt_remove who (ch_members channel)\<rparr>) conv in
      if self_gone then (map_channel leave_channel_state conv)\<lparr>cs_history_page_cap_tail := False\<rparr> else conv)"

definition departed_nicks :: "string \<Rightarrow> bool \<Rightarrow> ChannelState \<Rightarrow> string list" where
  "departed_nicks who self_gone channel =
     who # (if self_gone then bt_keys (bt_remove who (ch_members channel)) else [])"

definition part_conversation :: "reducer_env \<Rightarrow> string \<Rightarrow> string \<Rightarrow> bool \<Rightarrow> facts_conv \<Rightarrow> facts_conv" where
  "part_conversation E who nick_text self_part fc =
     on_conv (\<lambda>conv. conv\<lparr>cs_typing := (if self_part then [] else bt_remove who (cs_typing conv))\<rparr>)
       (append_event E (part_line nick_text) True True fc)"

definition reduce_part :: "reducer_env \<Rightarrow> string \<Rightarrow> string \<Rightarrow> string \<Rightarrow> EventReducer \<Rightarrow> EventReducer" where
  "reduce_part E net channel_name nick_text r =
     (let key = conversation_key r net channel_name;
          self_part = facts_is_self (rd_facts r) net nick_text;
          who = facts_normalize (rd_facts r) net nick_text
      in case bt_get (rd_conversations r) key of
           None \<Rightarrow> r
         | Some conv \<Rightarrow>
             (case cs_channel conv of
                None \<Rightarrow> r
              | Some channel \<Rightarrow>
                  let r = on_conversation key (on_conv (depart_channel who self_part)) r;
                      r = forget_unseen net (departed_nicks who self_part channel) r
                  in on_conversation key (part_conversation E who nick_text self_part) r))"

definition kick_conversation :: "reducer_env \<Rightarrow> string \<Rightarrow> string \<Rightarrow> bool \<Rightarrow> InboxArrival \<Rightarrow> facts_conv \<Rightarrow> facts_conv" where
  "kick_conversation E who target self_kick arrival fc =
     (let (f, conv) = append_event E (target @ '' was kicked'') False False fc in
      if self_kick then (f\<lparr>f_inbox_arrival := Some arrival\<rparr>, conv\<lparr>cs_typing := []\<rparr>)
      else (f, conv\<lparr>cs_typing := bt_remove who (cs_typing conv)\<rparr>))"

definition reduce_kick :: "reducer_env \<Rightarrow> string \<Rightarrow> string \<Rightarrow> string \<Rightarrow> string \<Rightarrow> string \<Rightarrow> EventReducer \<Rightarrow> EventReducer" where
  "reduce_kick E net channel_name target author reason r =
     (let key = conversation_key r net channel_name;
          self_kick = facts_is_self (rd_facts r) net target;
          who = facts_normalize (rd_facts r) net target
      in case bt_get (rd_conversations r) key of
           None \<Rightarrow> r
         | Some conv \<Rightarrow>
             (case cs_channel conv of
                None \<Rightarrow> r
              | Some channel \<Rightarrow>
                  let r = on_conversation key (on_conv (depart_channel who self_kick)) r;
                      r = forget_unseen net (departed_nicks who self_kick channel) r
                  in on_conversation key (kick_conversation E who target self_kick
                       \<lparr>ia_kind = Kick, ia_actor = author, ia_body = (if reason = [] then ''You were kicked'' else reason),
                        ia_network_id = net, ia_target = channel_name, ia_msgid = []\<rparr>) r))"

definition quit_conversation :: "reducer_env \<Rightarrow> string \<Rightarrow> string \<Rightarrow> string \<Rightarrow> facts_conv \<Rightarrow> facts_conv" where
  "quit_conversation E net who body fc =
     (let (f, conv) = fc in
      if network_id (cs_key conv) \<noteq> net then fc
      else case cs_channel conv of
             None \<Rightarrow> fc
           | Some channel \<Rightarrow>
               if \<not> bt_contains (ch_members channel) who then fc
               else append_event E body True True
                      (f, conv\<lparr>cs_channel := Some (channel\<lparr>ch_members := bt_remove who (ch_members channel)\<rparr>)\<rparr>))"

definition clear_typing_everywhere :: "string \<Rightarrow> string \<Rightarrow> EventReducer \<Rightarrow> EventReducer" where
  "clear_typing_everywhere net who r =
     r\<lparr>rd_conversations := bt_map_values (\<lambda>conv.
         if network_id (cs_key conv) = net then conv\<lparr>cs_typing := bt_remove who (cs_typing conv)\<rparr> else conv)
         (rd_conversations r)\<rparr>"

definition reduce_quit :: "reducer_env \<Rightarrow> string \<Rightarrow> string \<Rightarrow> EventReducer \<Rightarrow> EventReducer" where
  "reduce_quit E net nick_text r =
     (let who = facts_normalize (rd_facts r) net nick_text
      in clear_typing_everywhere net who (forget_unseen net [who]
           (for_each_conversation (quit_conversation E net who (quit_line nick_text)) r)))"

section \<open>Nick changes\<close>

definition rekey_typing :: "string \<Rightarrow> string \<Rightarrow> string \<Rightarrow> string \<Rightarrow> EventReducer \<Rightarrow> EventReducer" where
  "rekey_typing net old_norm new_norm new_display r =
     r\<lparr>rd_conversations := bt_map_values (\<lambda>conv.
         if network_id (cs_key conv) \<noteq> net then conv
         else case bt_get (cs_typing conv) old_norm of
                None \<Rightarrow> conv
              | Some hint \<Rightarrow> conv\<lparr>cs_typing := bt_insert new_norm (hint\<lparr>display_nick := new_display\<rparr>)
                                                  (bt_remove old_norm (cs_typing conv))\<rparr>) (rd_conversations r)\<rparr>"

definition nick_conversation :: "reducer_env \<Rightarrow> string \<Rightarrow> string \<Rightarrow> string \<Rightarrow> string \<Rightarrow> string \<Rightarrow> facts_conv \<Rightarrow> facts_conv" where
  "nick_conversation E net old_norm new_norm new_nick body fc =
     (let (f, conv) = fc in
      if network_id (cs_key conv) \<noteq> net then fc
      else case cs_channel conv of
             None \<Rightarrow> fc
           | Some channel \<Rightarrow>
               (case bt_get (ch_members channel) old_norm of
                  None \<Rightarrow> fc
                | Some member \<Rightarrow>
                    append_event E body True True
                      (f, conv\<lparr>cs_channel := Some (channel\<lparr>ch_members :=
                            bt_insert new_norm (member\<lparr>member_nick := new_nick\<rparr>) (bt_remove old_norm (ch_members channel))\<rparr>)\<rparr>)))"

text \<open>One row of a direct conversation merged into the one the new nick already has.\<close>

definition merge_row :: "int option \<Rightarrow> ConversationState \<Rightarrow> ReducedMessage \<Rightarrow> ConversationState" where
  "merge_row moved_mark existing message =
     (let mid = m_msgid message in
      if mid \<noteq> [] \<and> mid \<in> cs_message_ids existing then existing
      else
        let existing = (if mid \<noteq> [] then existing\<lparr>cs_message_ids := insert mid (cs_message_ids existing)\<rparr> else existing);
            sequence = cs_next_sequence existing;
            existing = (if cs_unread_mark existing = None \<and> moved_mark = Some (m_sequence message)
                        then existing\<lparr>cs_unread_mark := Some sequence\<rparr> else existing)
        in admit_message message existing)"

definition merge_conversations :: "string \<Rightarrow> ConversationState \<Rightarrow> facts_conv \<Rightarrow> facts_conv" where
  "merge_conversations new_nick moved fc =
     (let (f, existing) = fc;
          (f, existing) = cap_messages (f, foldl (merge_row (cs_unread_mark moved)) existing (cs_messages moved))
      in (f, existing\<lparr>cs_unread := cs_unread existing + cs_unread moved, cs_mentions := cs_mentions existing + cs_mentions moved,
              cs_muted := cs_muted existing \<or> cs_muted moved,
              cs_typing := foldl (\<lambda>hints (who, hint). bt_insert who hint hints) (cs_typing existing) (cs_typing moved),
              cs_target := new_nick\<rparr>))"

text \<open>The end of \<open>reduce_nick\<close>: a direct conversation moves to its new key.\<close>

definition move_direct :: "ConversationKey \<Rightarrow> ConversationKey \<Rightarrow> string \<Rightarrow> EventReducer \<Rightarrow> EventReducer" where
  "move_direct old_key new_key new_nick r =
     (case bt_get (rd_conversations r) old_key of
        None \<Rightarrow> r
      | Some direct \<Rightarrow>
          let moved = direct\<lparr>cs_key := new_key, cs_target := new_nick\<rparr>;
              r = r\<lparr>rd_conversations := bt_remove old_key (rd_conversations r)\<rparr>;
              r = on_facts (\<lambda>f. if old_key \<in> f_muted_keys f
                                then f\<lparr>f_muted_keys := insert new_key (f_muted_keys f - {old_key})\<rparr> else f) r;
              r = (if bt_contains (rd_conversations r) new_key
                   then on_conversation new_key (merge_conversations new_nick moved) r
                   else r\<lparr>rd_conversations := bt_insert new_key moved (rd_conversations r)\<rparr>)
          in on_facts (\<lambda>f. if f_selected f = Some old_key then f\<lparr>f_selected := Some new_key\<rparr> else f) r)"

definition rename_direct :: "reducer_env \<Rightarrow> ConversationKey \<Rightarrow> ConversationKey \<Rightarrow> string \<Rightarrow> string \<Rightarrow> EventReducer \<Rightarrow> EventReducer" where
  "rename_direct E old_key new_key new_nick body r =
     (case bt_get (rd_conversations r) old_key of
        None \<Rightarrow> r
      | Some direct \<Rightarrow>
          if is_channel_conversation direct then r
          else
            let r = on_conversation old_key (\<lambda>(f, conv). append_event E body True True (f, conv\<lparr>cs_target := new_nick\<rparr>)) r
            in if old_key = new_key then r else move_direct old_key new_key new_nick r)"

definition reduce_nick :: "reducer_env \<Rightarrow> string \<Rightarrow> string \<Rightarrow> string \<Rightarrow> EventReducer \<Rightarrow> EventReducer" where
  "reduce_nick E net old_nick new_nick r =
     (let old_norm = facts_normalize (rd_facts r) net old_nick;
          new_norm = facts_normalize (rd_facts r) net new_nick;
          r = (if facts_is_self (rd_facts r) net old_nick
               then refresh_mentions E net (on_facts (\<lambda>f.
                      (remember_self_nick net old_nick f)\<lparr>f_current_nicks := (f_current_nicks f)(net \<mapsto> new_nick)\<rparr>) r)
               else r);
          r = on_facts (rekey_presence net old_norm new_norm) r;
          r = rekey_typing net old_norm new_norm new_nick r;
          body = nick_line old_nick new_nick;
          r = for_each_conversation (nick_conversation E net old_norm new_norm new_nick body) r
      in rename_direct E (ConversationKey net old_norm) (ConversationKey net new_norm) new_nick body r)"

section \<open>Channel state\<close>

definition reduce_topic :: "reducer_env \<Rightarrow> string \<Rightarrow> string \<Rightarrow> string \<Rightarrow> bool \<Rightarrow> EventReducer \<Rightarrow> EventReducer" where
  "reduce_topic E net channel_name topic keep_existing_topic r =
     (let key = conversation_key r net channel_name in
      case ensure_key E key channel_name ChannelStateCause r of
        (r, False) \<Rightarrow> r
      | (r, True) \<Rightarrow>
          if keep_existing_topic then r
          else on_conversation key (on_conv (map_channel (\<lambda>channel. channel\<lparr>ch_topic := topic\<rparr>))) r)"

definition merge_names :: "Facts \<Rightarrow> string \<Rightarrow> Name list \<Rightarrow> bool \<Rightarrow> instant \<Rightarrow> ChannelState \<Rightarrow> ChannelState" where
  "merge_names f net names complete now channel =
     (let channel = (if ch_names_syncing channel then channel else start_names_sync now channel);
          channel = channel\<lparr>ch_members := foldl (\<lambda>members name.
                      bt_insert (facts_normalize f net (name_nick name))
                        \<lparr>member_nick = name_nick name, member_ranks = name_ranks name\<rparr> members) (ch_members channel) names\<rparr>
      in if complete then stop_names_sync channel else channel)"

definition reduce_names :: "reducer_env \<Rightarrow> string \<Rightarrow> string \<Rightarrow> Name list \<Rightarrow> bool \<Rightarrow> instant \<Rightarrow> EventReducer \<Rightarrow> EventReducer" where
  "reduce_names E net channel_name names complete now r =
     (let key = conversation_key r net channel_name in
      case ensure_key E key channel_name ChannelStateCause r of
        (r, False) \<Rightarrow> r
      | (r, True) \<Rightarrow> on_conversation key (on_conv (map_channel (merge_names (rd_facts r) net names complete now))) r)"

definition rank_member :: "Facts \<Rightarrow> string \<Rightarrow> ChannelState \<Rightarrow> IrcPrefixChange \<Rightarrow> ChannelState" where
  "rank_member f net channel change =
     (let who = facts_normalize f net (chg_nick change) in
      case bt_get (ch_members channel) who of
        None \<Rightarrow> channel
      | Some member \<Rightarrow>
          channel\<lparr>ch_members := bt_insert who (member\<lparr>member_ranks := apply_change (member_ranks member) change\<rparr>)
                     (ch_members channel)\<rparr>)"

definition mode_caption :: "string \<Rightarrow> string \<Rightarrow> string list \<Rightarrow> string" where
  "mode_caption author mode arguments =
     author @ '' set mode '' @ mode @ (if arguments = [] then [] else '' '' @ join_with '' '' arguments)"

definition mode_conversation :: "reducer_env \<Rightarrow> string \<Rightarrow> string \<Rightarrow> IrcPrefixChange list \<Rightarrow> facts_conv \<Rightarrow> facts_conv" where
  "mode_conversation E net caption changes fc =
     (let (f, conv) = append_event E caption False False fc
      in (f, map_channel (\<lambda>channel. foldl (rank_member f net) channel changes) conv))"

definition reduce_mode :: "reducer_env \<Rightarrow> string \<Rightarrow> string \<Rightarrow> string \<Rightarrow> string \<Rightarrow> string list \<Rightarrow> EventReducer \<Rightarrow> EventReducer" where
  "reduce_mode E net target author mode arguments r =
     (let key = conversation_key r net target in
      if \<not> facts_is_channel (rd_facts r) net (normalized_target key) then r
      else case ensure_key E key target ChannelStateCause r of
             (r, False) \<Rightarrow> r
           | (r, True) \<Rightarrow>
               on_conversation key (mode_conversation E net (mode_caption author mode arguments)
                 (prefix_changes (features_of (rd_facts r) net) mode arguments)) r)"

section \<open>Presence and typing\<close>

definition away_facts :: "reducer_env \<Rightarrow> string \<Rightarrow> string \<Rightarrow> Away option \<Rightarrow> string option \<Rightarrow> bool \<Rightarrow> Facts \<Rightarrow> Facts" where
  "away_facts E net nick_text away realname realname_only f =
     (let who = facts_normalize f net nick_text;
          f = (if realname_only then f else set_presence_away net who away f)
      in case realname of
           None \<Rightarrow> f
         | Some arriving \<Rightarrow>
             let stored = np_realname (nick_presence f net nick_text) in
             if meaningful_realname (re_unicode E) arriving nick_text \<or> \<not> meaningful_realname (re_unicode E) stored nick_text
             then set_presence_realname net who arriving f else f)"

definition reduce_away :: "reducer_env \<Rightarrow> string \<Rightarrow> string \<Rightarrow> Away option \<Rightarrow> string option \<Rightarrow> bool \<Rightarrow> EventReducer \<Rightarrow> EventReducer" where
  "reduce_away E net nick_text away realname realname_only r =
     on_facts (away_facts E net nick_text away realname realname_only) r"

definition reduce_self_away :: "string \<Rightarrow> bool \<Rightarrow> EventReducer \<Rightarrow> EventReducer" where
  "reduce_self_away net away r =
     on_facts (\<lambda>f. f\<lparr>f_self_away := (if away then insert net (f_self_away f) else f_self_away f - {net})\<rparr>) r"

definition reduce_member_metadata :: "string \<Rightarrow> string \<Rightarrow> string \<Rightarrow> string \<Rightarrow> EventReducer \<Rightarrow> EventReducer" where
  "reduce_member_metadata net nick_text key value r =
     on_facts (\<lambda>f. set_presence_metadata net (facts_normalize f net nick_text) key value f) r"

definition typing_conversation :: "string \<Rightarrow> bool \<Rightarrow> string \<Rightarrow> TypingPhase \<Rightarrow> instant \<Rightarrow> ConversationState \<Rightarrow> ConversationState" where
  "typing_conversation who self_nick nick_text ph at conv =
     (case (if self_nick then None else stored_typing_hint ph at nick_text) of
        None \<Rightarrow> conv\<lparr>cs_typing := bt_remove who (cs_typing conv)\<rparr>
      | Some hint \<Rightarrow>
          conv\<lparr>cs_typing := bt_insert who hint (bt_retain (\<lambda>_ existing. typing_hint_retained existing at) (cs_typing conv))\<rparr>)"

definition reduce_typing :: "ConversationKey \<Rightarrow> string \<Rightarrow> TypingPhase \<Rightarrow> instant \<Rightarrow> EventReducer \<Rightarrow> EventReducer" where
  "reduce_typing key nick_text ph at r =
     (let net = network_id key; who = facts_normalize (rd_facts r) net nick_text;
          self_nick = facts_is_self (rd_facts r) net nick_text
      in on_conversation key (on_conv (typing_conversation who self_nick nick_text ph at)) r)"

definition reduce_whois_transcript :: "reducer_env \<Rightarrow> ConversationKey \<Rightarrow> string \<Rightarrow> EventReducer \<Rightarrow> EventReducer" where
  "reduce_whois_transcript E key body r = on_conversation key (append_whois E body) r"

definition reduce_channel_error :: "reducer_env \<Rightarrow> string \<Rightarrow> string \<Rightarrow> string \<Rightarrow> EventReducer \<Rightarrow> EventReducer" where
  "reduce_channel_error E net channel_name body r =
     on_conversation (conversation_key r net channel_name) (append_error E body) r"

section \<open>One event\<close>

fun reduce_event :: "reducer_env \<Rightarrow> instant \<Rightarrow> Event \<Rightarrow> EventReducer \<Rightarrow> EventReducer" where
  "reduce_event E now (WelcomeEvent net current_nick) r = reduce_welcome E net current_nick r"
| "reduce_event E now (MessageEvent chat) r = reduce_message E chat r"
| "reduce_event E now (NoticeEvent chat) r = reduce_notice E chat r"
| "reduce_event E now (ActionEvent chat) r = reduce_action E chat r"
| "reduce_event E now (JoinEvent net chan who account realname) r = reduce_join E net chan who account realname r"
| "reduce_event E now (PartEvent net chan who reason) r = reduce_part E net chan who r"
| "reduce_event E now (QuitEvent net who reason) r = reduce_quit E net who r"
| "reduce_event E now (NickEvent net old_nick new_nick) r = reduce_nick E net old_nick new_nick r"
| "reduce_event E now (KickEvent net chan target author reason) r = reduce_kick E net chan target author reason r"
| "reduce_event E now (TopicEvent net chan topic author keep_it) r = reduce_topic E net chan topic keep_it r"
| "reduce_event E now (NamesEvent net chan names complete) r = reduce_names E net chan names complete now r"
| "reduce_event E now (ModeEvent net target author mode arguments) r = reduce_mode E net target author mode arguments r"
| "reduce_event E now (AwayEvent net who away realname realname_only) r = reduce_away E net who away realname realname_only r"
| "reduce_event E now (SelfAwayEvent net away) r = reduce_self_away net away r"
| "reduce_event E now (MemberMetadataEvent net who key value) r = reduce_member_metadata net who key value r"
| "reduce_event E now (AccountEvent net who account) r = reduce_account net who account r"
| "reduce_event E now (TypingEvent key who ph at) r = reduce_typing key who ph at r"
| "reduce_event E now (HistoryEvent history) r = reduce_history E history r"
| "reduce_event E now (WhoisTranscriptEvent key body) r = reduce_whois_transcript E key body r"
| "reduce_event E now (ChannelErrorEvent net chan body) r = reduce_channel_error E net chan body r"
| "reduce_event E now (NickFactsEvent net who realname operator) r = reduce_nick_facts net who realname operator r"

section \<open>Surfaces\<close>

datatype ViewNotify =
    VnConversations | VnMessages | VnMemberReset | VnMemberRow string | VnSelection | VnTyping | VnRearmTyping
  | VnStatus | VnInbox | VnSent ConversationKey

definition notify_reset_all :: "ViewNotify list" where
  "notify_reset_all = [VnConversations, VnMessages, VnMemberReset, VnSelection, VnTyping, VnRearmTyping]"

definition notify_names_complete :: "ViewNotify list" where
  "notify_names_complete = filter (\<lambda>surface. surface \<noteq> VnRearmTyping) notify_reset_all"

definition notify_chat :: "ViewNotify list" where
  "notify_chat = [VnConversations, VnMessages, VnTyping, VnRearmTyping]"

definition notify_topic :: "ViewNotify list" where
  "notify_topic = [VnSelection, VnTyping, VnRearmTyping]"

definition notify_member_row :: "string \<Rightarrow> ViewNotify list" where
  "notify_member_row who = [VnMemberRow who]"

definition notify_member_reset :: "ViewNotify list" where
  "notify_member_reset = [VnMemberReset]"

definition notify_typing_only :: "ViewNotify list" where
  "notify_typing_only = [VnTyping, VnRearmTyping]"

definition notify_transcript :: "ViewNotify list" where
  "notify_transcript = [VnMessages]"

definition notify_membership :: "ViewNotify list" where
  "notify_membership = [VnConversations, VnMessages, VnMemberReset, VnSelection, VnTyping]"

fun is_member_surface :: "ViewNotify \<Rightarrow> bool" where
  "is_member_surface VnMemberReset = True"
| "is_member_surface (VnMemberRow _) = True"
| "is_member_surface VnSelection = True"
| "is_member_surface _ = False"

definition without_member_refresh :: "ViewNotify list \<Rightarrow> ViewNotify list" where
  "without_member_refresh notifies = filter (\<lambda>surface. \<not> is_member_surface surface) notifies"

definition notify_merge :: "ViewNotify list \<Rightarrow> ViewNotify list \<Rightarrow> ViewNotify list" where
  "notify_merge into added = foldl (\<lambda>into surface. if surface \<in> set into then into else into @ [surface]) into added"

definition has_direct_row :: "EventReducer \<Rightarrow> ConversationKey \<Rightarrow> bool" where
  "has_direct_row r key =
     (case find_conversation r key of None \<Rightarrow> False | Some conv \<Rightarrow> \<not> is_channel_conversation conv)"

definition classify_away :: "string \<Rightarrow> string \<Rightarrow> bool \<Rightarrow> EventReducer \<Rightarrow> ViewNotify list" where
  "classify_away net who realname_only r =
     (if realname_only then []
      else let key = conversation_key r net who in
        if has_direct_row r key \<or> peer_presence r net (normalized_target key) \<noteq> PeerUnknown
        then notify_merge (notify_member_row (normalized_target key)) [VnConversations]
        else notify_member_row (normalized_target key))"

definition classify_metadata :: "string \<Rightarrow> string \<Rightarrow> string \<Rightarrow> EventReducer \<Rightarrow> ViewNotify list" where
  "classify_metadata net who metadata_key r =
     (let key = conversation_key r net who; notify = notify_member_row (normalized_target key);
          canonical = canonical_key metadata_key
      in if canonical = Some AVATAR_KEY \<or> canonical = Some BOT_KEY then
           let notify = notify_merge notify [VnMessages]
           in if has_direct_row r key then notify_merge notify [VnConversations] else notify
         else notify)"

definition classify_unchecked :: "Event \<Rightarrow> EventReducer \<Rightarrow> ViewNotify list" where
  "classify_unchecked event r =
     (case event of
        WelcomeEvent _ _ \<Rightarrow> notify_reset_all
      | MessageEvent _ \<Rightarrow> notify_chat
      | NoticeEvent _ \<Rightarrow> notify_chat
      | ActionEvent _ \<Rightarrow> notify_chat
      | JoinEvent _ _ _ _ _ \<Rightarrow> notify_membership
      | PartEvent _ _ _ _ \<Rightarrow> notify_membership
      | QuitEvent _ _ _ \<Rightarrow> notify_membership
      | NickEvent _ _ _ \<Rightarrow> notify_membership
      | KickEvent _ _ _ _ _ \<Rightarrow> notify_membership
      | ModeEvent _ _ _ _ _ \<Rightarrow> notify_membership
      | TopicEvent _ _ _ _ _ \<Rightarrow> notify_topic
      | NamesEvent _ _ _ complete \<Rightarrow> if complete then notify_names_complete else []
      | AwayEvent net who _ _ realname_only \<Rightarrow> classify_away net who realname_only r
      | AccountEvent net who _ \<Rightarrow>
          notify_merge (notify_member_row (normalized_target (conversation_key r net who))) [VnMessages]
      | MemberMetadataEvent net who key _ \<Rightarrow> classify_metadata net who key r
      | SelfAwayEvent _ _ \<Rightarrow> notify_member_reset
      | TypingEvent _ _ _ _ \<Rightarrow> notify_typing_only
      | HistoryEvent _ \<Rightarrow> notify_merge notify_transcript [VnConversations]
      | WhoisTranscriptEvent _ _ \<Rightarrow> notify_transcript
      | ChannelErrorEvent _ _ _ \<Rightarrow> notify_transcript
      | NickFactsEvent net who _ _ \<Rightarrow> notify_member_row (normalized_target (conversation_key r net who)))"

definition channel_names_syncing :: "EventReducer \<Rightarrow> ConversationKey option \<Rightarrow> bool" where
  "channel_names_syncing r selected =
     (case selected of
        None \<Rightarrow> False
      | Some key \<Rightarrow>
          (case find_conversation r key of
             None \<Rightarrow> False
           | Some conv \<Rightarrow> (case cs_channel conv of None \<Rightarrow> False | Some channel \<Rightarrow> ch_names_syncing channel)))"

definition classify_view_notify :: "Event \<Rightarrow> EventReducer \<Rightarrow> ViewNotify list" where
  "classify_view_notify event r =
     (let notifies = classify_unchecked event r in
      if channel_names_syncing r (f_selected (rd_facts r)) then without_member_refresh notifies else notifies)"

definition reducer_apply :: "reducer_env \<Rightarrow> Event \<Rightarrow> instant \<Rightarrow> EventReducer \<Rightarrow> EventReducer \<times> ViewNotify list" where
  "reducer_apply E event now r =
     (let r = on_facts (\<lambda>f. f\<lparr>f_mention_arrival := None, f_inbox_arrival := None\<rparr>) r;
          r = reduce_event E now event r
      in (r, classify_view_notify event r))"

end
