(* ===== verification/ReducerRows.thy ===== *)
theory ReducerRows
  imports ReducerHandlers
begin

text \<open>
  What every change of one conversation keeps: its transcript stays within the cap, sequences and msgids stay unique,
  the badges stay consistent, and a claim on a msgid is only ever made by a channel that knows it.
\<close>

named_theorems row_defs \<open>the parts of the invariant of one conversation\<close>

section \<open>The invariant of one conversation\<close>

definition seqs_ok :: "int \<Rightarrow> int list \<Rightarrow> bool" where [row_defs]:
  "seqs_ok limit ss \<longleftrightarrow> distinct ss \<and> (\<forall>s \<in> set ss. 0 \<le> s \<and> s < limit)"

definition msgids_ok :: "MsgId set \<Rightarrow> MsgId list \<Rightarrow> bool" where [row_defs]:
  "msgids_ok ids mids \<longleftrightarrow> distinct (filter (\<lambda>mid. mid \<noteq> []) mids) \<and> set mids - {[]} \<subseteq> ids"

definition rows_ok :: "int \<Rightarrow> MsgId set \<Rightarrow> ReducedMessage list \<Rightarrow> bool" where [row_defs]:
  "rows_ok limit ids rows \<longleftrightarrow> 0 \<le> limit \<and> seqs_ok limit (map m_sequence rows) \<and> msgids_ok ids (map m_msgid rows)"

definition badges_ok :: "ConversationState \<Rightarrow> bool" where [row_defs]:
  "badges_ok c \<longleftrightarrow> cs_mentions c \<le> cs_unread c \<and> (\<forall>s. cs_unread_mark c = Some s \<longrightarrow> 0 \<le> s \<and> s < cs_next_sequence c)"

definition claims_ok :: "ConversationKey \<Rightarrow> bool \<Rightarrow> (MsgId \<times> ConversationKey) set \<Rightarrow> (MsgId \<rightharpoonup> ConversationKey) \<Rightarrow> MsgId set \<Rightarrow> bool" where
  [row_defs]: "claims_ok K B D ctx ids \<longleftrightarrow>
     (\<forall>mid home. ctx mid = Some home \<longrightarrow> (if home = K then B \<and> mid \<noteq> [] \<and> mid \<in> ids else (mid, home) \<in> D))"

text \<open>The state of a conversation with some more rows \<open>run\<close> that are not in the transcript yet.\<close>

definition loose :: "ConversationKey \<Rightarrow> bool \<Rightarrow> (MsgId \<times> ConversationKey) set \<Rightarrow> ReducedMessage list \<Rightarrow> facts_conv \<Rightarrow> bool" where [row_defs]:
  "loose K B D run fc \<longleftrightarrow>
     cs_key (snd fc) = K \<and> is_channel_conversation (snd fc) = B
     \<and> rows_ok (cs_next_sequence (snd fc)) (cs_message_ids (snd fc)) (cs_messages (snd fc) @ run)
     \<and> badges_ok (snd fc) \<and> claims_ok K B D (f_channel_context_msgids (fst fc)) (cs_message_ids (snd fc))"

definition good :: "ConversationKey \<Rightarrow> bool \<Rightarrow> (MsgId \<times> ConversationKey) set \<Rightarrow> facts_conv \<Rightarrow> bool" where [row_defs]:
  "good K B D fc \<longleftrightarrow> loose K B D [] fc \<and> length (cs_messages (snd fc)) \<le> MAX_MESSAGES"

lemma seqs_ok_append: "seqs_ok n (xs @ ys) \<longleftrightarrow> seqs_ok n xs \<and> seqs_ok n ys \<and> set xs \<inter> set ys = {}"
  by (auto simp: seqs_ok_def)

lemma msgids_ok_append:
  "msgids_ok ids (xs @ ys) \<longleftrightarrow> msgids_ok ids xs \<and> msgids_ok ids ys \<and> (set xs - {[]}) \<inter> (set ys - {[]}) = {}"
  by (auto simp: msgids_ok_def)

lemma rows_ok_rotate: "rows_ok n ids (xs @ ys @ zs) \<longleftrightarrow> rows_ok n ids (xs @ zs @ ys)"
  by (auto simp: rows_ok_def seqs_ok_append msgids_ok_append)

lemma rows_ok_mono: "rows_ok n ids rows \<Longrightarrow> n \<le> n' \<Longrightarrow> ids \<subseteq> ids' \<Longrightarrow> rows_ok n' ids' rows"
  by (fastforce simp: rows_ok_def seqs_ok_def msgids_ok_def)

lemma rows_ok_new_row:
  assumes "rows_ok n ids rows" "m_sequence m = n" "m_msgid m = [] \<or> m_msgid m \<notin> ids"
  shows "rows_ok (n + 1) (if m_msgid m = [] then ids else insert (m_msgid m) ids) (rows @ [m])"
proof -
  have "seqs_ok (n + 1) (map m_sequence rows @ [n])"
    using assms(1) by (force simp: rows_ok_def seqs_ok_def)
  moreover have "msgids_ok (if m_msgid m = [] then ids else insert (m_msgid m) ids) (map m_msgid rows @ [m_msgid m])"
    using assms(1,3) by (auto simp: rows_ok_def msgids_ok_def)
  ultimately show ?thesis
    using assms(1,2) by (simp add: rows_ok_def)
qed

lemma rows_ok_push:
  assumes "rows_ok n ids rows" "m_sequence m = n" "m_msgid m = [] \<or> m_msgid m \<in> ids \<and> m_msgid m \<notin> m_msgid ` set rows"
  shows "rows_ok (n + 1) ids (rows @ [m])"
proof -
  have "seqs_ok (n + 1) (map m_sequence rows @ [n])"
    using assms(1) by (force simp: rows_ok_def seqs_ok_def)
  moreover have "msgids_ok ids (map m_msgid rows @ [m_msgid m])"
    using assms(1,3) by (auto simp: rows_ok_def msgids_ok_def)
  ultimately show ?thesis
    using assms(1,2) by (simp add: rows_ok_def)
qed

text \<open>Rows that keep sequence and msgid, as after a change of body or of the mention flag.\<close>

lemma rows_ok_same: "map m_sequence xs = map m_sequence ys \<Longrightarrow> map m_msgid xs = map m_msgid ys \<Longrightarrow> rows_ok n ids xs \<longleftrightarrow> rows_ok n ids ys"
  by (simp add: rows_ok_def)

lemma map_update_same: "i < length xs \<Longrightarrow> g y = g (xs ! i) \<Longrightarrow> map g (xs[i := y]) = map g xs"
  by (simp add: map_update) (metis length_map list_update_id nth_map)

lemma rows_ok_update_body: "i < length rows \<Longrightarrow> rows_ok n ids (rows[i := (rows ! i)\<lparr>m_body := b\<rparr>]) \<longleftrightarrow> rows_ok n ids rows"
  by (rule rows_ok_same) (simp_all add: map_update_same)

text \<open>Dropping rows together with their msgids.\<close>

lemma rows_ok_drop:
  assumes "rows_ok n ids (xs @ ys @ zs)"
  shows "rows_ok n (ids - (m_msgid ` set ys - {[]})) (xs @ zs)"
proof -
  have "msgids_ok ids (map m_msgid (xs @ ys @ zs))"
    using assms by (simp add: rows_ok_def)
  then have "msgids_ok (ids - (m_msgid ` set ys - {[]})) (map m_msgid (xs @ zs))"
    unfolding map_append msgids_ok_append by (auto simp: msgids_ok_def)
  then show ?thesis
    using assms by (simp add: rows_ok_def seqs_ok_append) blast
qed

section \<open>Forgetting msgids and the cap\<close>

lemma release_context [simp]:
  "f_channel_context_msgids (release_channel_context home mid f) =
     (if mid \<noteq> [] \<and> f_channel_context_msgids f mid = Some home then (f_channel_context_msgids f)(mid := None)
      else f_channel_context_msgids f)"
  by (simp add: release_channel_context_def)

lemma claim_context [simp]:
  "f_channel_context_msgids (claim_channel_context home is_chan mid visible f) =
     (if mid = [] \<or> \<not> is_chan \<or> \<not> visible then f_channel_context_msgids f else (f_channel_context_msgids f)(mid \<mapsto> home))"
  by (simp add: claim_channel_context_def)

lemma forget_fields [simp]:
  "cs_key (snd (forget_transcript_msgid fc mid)) = cs_key (snd fc)"
  "cs_channel (snd (forget_transcript_msgid fc mid)) = cs_channel (snd fc)"
  "cs_messages (snd (forget_transcript_msgid fc mid)) = cs_messages (snd fc)"
  "cs_next_sequence (snd (forget_transcript_msgid fc mid)) = cs_next_sequence (snd fc)"
  "cs_unread (snd (forget_transcript_msgid fc mid)) = cs_unread (snd fc)"
  "cs_mentions (snd (forget_transcript_msgid fc mid)) = cs_mentions (snd fc)"
  "cs_unread_mark (snd (forget_transcript_msgid fc mid)) = cs_unread_mark (snd fc)"
  "cs_message_ids (snd (forget_transcript_msgid fc mid)) = cs_message_ids (snd fc) - ({mid} - {[]})"
  by (auto simp: forget_transcript_msgid_def)

lemma forget_claims:
  "claims_ok (cs_key (snd fc)) B D (f_channel_context_msgids (fst fc)) (cs_message_ids (snd fc)) \<Longrightarrow>
   claims_ok (cs_key (snd fc)) B D (f_channel_context_msgids (fst (forget_transcript_msgid fc mid)))
     (cs_message_ids (snd fc) - ({mid} - {[]}))"
  by (auto simp: forget_transcript_msgid_def claims_ok_def split: if_splits)

definition forget_all :: "MsgId list \<Rightarrow> facts_conv \<Rightarrow> facts_conv" where
  "forget_all mids fc = foldl forget_transcript_msgid fc mids"

lemma forget_all_fields [simp]:
  "cs_key (snd (forget_all mids fc)) = cs_key (snd fc)"
  "cs_channel (snd (forget_all mids fc)) = cs_channel (snd fc)"
  "cs_messages (snd (forget_all mids fc)) = cs_messages (snd fc)"
  "cs_next_sequence (snd (forget_all mids fc)) = cs_next_sequence (snd fc)"
  "cs_unread (snd (forget_all mids fc)) = cs_unread (snd fc)"
  "cs_mentions (snd (forget_all mids fc)) = cs_mentions (snd fc)"
  "cs_unread_mark (snd (forget_all mids fc)) = cs_unread_mark (snd fc)"
  "cs_message_ids (snd (forget_all mids fc)) = cs_message_ids (snd fc) - (set mids - {[]})"
  unfolding forget_all_def by (induction mids arbitrary: fc) (auto simp del: insert_Diff_single)

lemma forget_all_claims:
  "claims_ok (cs_key (snd fc)) B D (f_channel_context_msgids (fst fc)) (cs_message_ids (snd fc)) \<Longrightarrow>
   claims_ok (cs_key (snd fc)) B D (f_channel_context_msgids (fst (forget_all mids fc)))
     (cs_message_ids (snd (forget_all mids fc)))"
proof (induction mids arbitrary: fc)
  case Nil
  then show ?case by (simp add: forget_all_def)
next
  case (Cons mid mids)
  have "forget_all (mid # mids) fc = forget_all mids (forget_transcript_msgid fc mid)"
    by (simp add: forget_all_def)
  then show ?case
    using Cons.IH [of "forget_transcript_msgid fc mid"] forget_claims [OF Cons.prems] by simp
qed

lemma is_channel_frame [simp]:
  "is_channel_conversation (c\<lparr>cs_messages := rows\<rparr>) = is_channel_conversation c"
  "is_channel_conversation (c\<lparr>cs_message_ids := ids\<rparr>) = is_channel_conversation c"
  "is_channel_conversation (c\<lparr>cs_next_sequence := n\<rparr>) = is_channel_conversation c"
  "is_channel_conversation (c\<lparr>cs_typing := hints\<rparr>) = is_channel_conversation c"
  "is_channel_conversation (c\<lparr>cs_unread := u\<rparr>) = is_channel_conversation c"
  "is_channel_conversation (c\<lparr>cs_mentions := u\<rparr>) = is_channel_conversation c"
  "is_channel_conversation (c\<lparr>cs_unread_mark := mark\<rparr>) = is_channel_conversation c"
  "is_channel_conversation (c\<lparr>cs_muted := b\<rparr>) = is_channel_conversation c"
  "is_channel_conversation (c\<lparr>cs_target := t\<rparr>) = is_channel_conversation c"
  "is_channel_conversation (c\<lparr>cs_trimmed := u\<rparr>) = is_channel_conversation c"
  "is_channel_conversation (c\<lparr>cs_splice_epoch := u\<rparr>) = is_channel_conversation c"
  "is_channel_conversation (c\<lparr>cs_history_page_cap_tail := b\<rparr>) = is_channel_conversation c"
  "is_channel_conversation (c\<lparr>cs_read_marker := mk\<rparr>) = is_channel_conversation c"
  "is_channel_conversation (c\<lparr>cs_key := k\<rparr>) = is_channel_conversation c"
  "is_channel_conversation (snd (forget_transcript_msgid fc mid)) = is_channel_conversation (snd fc)"
  "is_channel_conversation (admit_message m c) = is_channel_conversation c"
  by (simp_all add: is_channel_conversation_def admit_message_def)

lemma is_channel_map [simp]:
  "is_channel_conversation (c\<lparr>cs_channel := map_option g (cs_channel c')\<rparr>) = is_channel_conversation c'"
  by (simp add: is_channel_conversation_def)

lemma cap_with_policy_good: "loose K B D [] fc \<Longrightarrow> good K B D (cap_with_policy head fc)"
proof (cases "length (cs_messages (snd fc)) \<le> MAX_MESSAGES")
  case True
  then show "loose K B D [] fc \<Longrightarrow> ?thesis" by (simp add: cap_with_policy_def good_def)
next
  case False
  assume L: "loose K B D [] fc"
  define rows where "rows = cs_messages (snd fc)"
  define extra where "extra = length rows - MAX_MESSAGES"
  have K: "claims_ok K B D (f_channel_context_msgids (fst (forget_all mids fc))) (cs_message_ids (snd fc) - (set mids - {[]}))" for mids
    using forget_all_claims [of fc B D mids] L by (simp add: loose_def)
  have "rows_ok (cs_next_sequence (snd fc)) (cs_message_ids (snd fc)) ([] @ take extra rows @ drop extra rows)"
       "rows_ok (cs_next_sequence (snd fc)) (cs_message_ids (snd fc)) (take (length rows - extra) rows @ drop (length rows - extra) rows @ [])"
    using L by (simp_all add: loose_def rows_def)
  note R = rows_ok_drop [OF this(1)] rows_ok_drop [OF this(2)]
  have len: "length (drop extra rows) \<le> MAX_MESSAGES" "length (take (length rows - extra) rows) \<le> MAX_MESSAGES"
    using False by (simp_all add: extra_def rows_def)
  show ?thesis
  proof (cases head)
    case True
    show ?thesis
      using False True L R(1) len(1) K [of "map m_msgid (take extra rows)"]
      by (simp add: cap_with_policy_def Let_def split_beta good_def loose_def badges_ok_def is_channel_conversation_def
          forget_all_def [symmetric] rows_def [symmetric] extra_def [symmetric])
  next
    case head: False
    show ?thesis
      using False head L R(2) len(2) K [of "map m_msgid (drop (length rows - extra) rows)"]
      by (simp add: cap_with_policy_def Let_def split_beta good_def loose_def badges_ok_def is_channel_conversation_def
          forget_all_def [symmetric] rows_def [symmetric] extra_def [symmetric])
  qed
qed

lemmas cap_good = cap_with_policy_good [where head = True, folded cap_messages_def]
  cap_with_policy_good [where head = False, folded cap_messages_prefer_tail_def]

section \<open>New rows\<close>

text \<open>A change of the facts that makes no claim, and a change of the conversation off the invariant's fields.\<close>

lemma loose_facts: "loose K B D run (f, c) \<Longrightarrow> f_channel_context_msgids f' = f_channel_context_msgids f \<Longrightarrow> loose K B D run (f', c)"
  by (simp add: loose_def)

lemma good_facts: "good K B D (f, c) \<Longrightarrow> f_channel_context_msgids f' = f_channel_context_msgids f \<Longrightarrow> good K B D (f', c)"
  by (auto simp: good_def intro: loose_facts)

lemma log_context [simp]:
  "f_channel_context_msgids (log_call_made call f) = f_channel_context_msgids f"
  "f_channel_context_msgids (persist_message c m f) = f_channel_context_msgids f"
  "f_channel_context_msgids (persist_messages_prepend c ms f) = f_channel_context_msgids f"
  by (simp_all add: log_call_made_def persist_message_def persist_messages_prepend_def Let_def)

lemma admit_fields [simp]:
  "cs_key (admit_message m c) = cs_key c" "cs_channel (admit_message m c) = cs_channel c"
  "cs_message_ids (admit_message m c) = cs_message_ids c" "cs_next_sequence (admit_message m c) = cs_next_sequence c + 1"
  "cs_messages (admit_message m c) = cs_messages c @ [m\<lparr>m_sequence := cs_next_sequence c\<rparr>]"
  "cs_unread (admit_message m c) = cs_unread c" "cs_mentions (admit_message m c) = cs_mentions c"
  "cs_unread_mark (admit_message m c) = cs_unread_mark c" "cs_read_marker (admit_message m c) = cs_read_marker c"
  "cs_typing (admit_message m c) = cs_typing c" "cs_muted (admit_message m c) = cs_muted c"
  by (simp_all add: admit_message_def)

definition learn_id :: "MsgId \<Rightarrow> ConversationState \<Rightarrow> ConversationState" where
  "learn_id mid c = (if mid \<noteq> [] then c\<lparr>cs_message_ids := insert mid (cs_message_ids c)\<rparr> else c)"

lemma loose_admit:
  assumes "loose K B D [] (f, c)" "m_msgid m = [] \<or> m_msgid m \<notin> cs_message_ids c"
  shows "loose K B D [] (claim_channel_context K B (m_msgid m) visible f, admit_message m (learn_id (m_msgid m) c))"
proof -
  have "rows_ok (cs_next_sequence c + 1) (cs_message_ids (learn_id (m_msgid m) c)) (cs_messages c @ [m\<lparr>m_sequence := cs_next_sequence c\<rparr>])"
    using assms rows_ok_new_row [of "cs_next_sequence c" "cs_message_ids c" "cs_messages c" "m\<lparr>m_sequence := cs_next_sequence c\<rparr>"]
    by (cases "m_msgid m = []") (simp_all add: loose_def learn_id_def)
  then show ?thesis
    using assms(1) by (auto simp: loose_def badges_ok_def claims_ok_def learn_id_def is_channel_conversation_def)
qed

lemma loose_admit_plain: "loose K B D [] (f, c) \<Longrightarrow> m_msgid m = [] \<Longrightarrow> loose K B D [] (f, admit_message m c)"
  using loose_admit [of K B D f c m False] by (simp add: learn_id_def claim_channel_context_def)

lemma good_loose: "good K B D fc \<Longrightarrow> loose K B D [] fc"
  by (simp add: good_def)

lemma loose_plain_row: "good K B D fc \<Longrightarrow> loose K B D [] (fst fc, admit_message (plain_row E k body foldable) (snd fc))"
  by (rule loose_admit_plain) (simp_all add: good_loose plain_row_def)

lemma admit_event_good: "good K B D fc \<Longrightarrow> good K B D (admit_event E body foldable fc)"
  unfolding admit_event_def Let_def split_beta by (rule cap_good, rule loose_facts [OF loose_plain_row]) simp_all

lemma append_plain_good:
  "good K B D fc \<Longrightarrow> good K B D (append_whois E body fc)" "good K B D fc \<Longrightarrow> good K B D (append_error E body fc)"
  unfolding append_whois_def append_error_def split_beta Let_def by (rule cap_good, erule loose_plain_row)+

lemma set_last_body_good: "good K B D (f, c) \<Longrightarrow> cs_messages c \<noteq> [] \<Longrightarrow> good K B D (f, set_last_body body c)"
  using rows_ok_update_body [of "length (cs_messages c) - 1" "cs_messages c"]
  by (simp add: good_def loose_def set_last_body_def last_conv_nth Let_def badges_ok_def is_channel_conversation_def)

lemma shift_anchor_fields [simp]:
  "cs_key (shift_anchor i c) = cs_key c" "is_channel_conversation (shift_anchor i c) = is_channel_conversation c"
  "cs_message_ids (shift_anchor i c) = cs_message_ids c" "cs_next_sequence (shift_anchor i c) = cs_next_sequence c"
  "cs_messages (shift_anchor i c) = cs_messages c" "cs_unread (shift_anchor i c) = cs_unread c"
  "cs_mentions (shift_anchor i c) = cs_mentions c" "cs_unread_mark (shift_anchor i c) = cs_unread_mark c"
  by (simp_all add: shift_anchor_def map_anchor_def)

lemma drop_last_good: "good K B D fc \<Longrightarrow> good K B D (drop_last_transcript_row fc)"
proof (cases "cs_messages (snd fc) = []")
  case True
  then show "good K B D fc \<Longrightarrow> ?thesis" by (simp add: drop_last_transcript_row_def)
next
  case False
  assume G: "good K B D fc"
  let ?rows = "cs_messages (snd fc)" let ?mid = "m_msgid (last ?rows)"
  have "rows_ok (cs_next_sequence (snd fc)) (cs_message_ids (snd fc)) (butlast ?rows @ [last ?rows] @ [])"
    using G False by (simp add: good_def loose_def)
  from rows_ok_drop [OF this] have "rows_ok (cs_next_sequence (snd fc)) (cs_message_ids (snd fc) - ({?mid} - {[]})) (butlast ?rows)"
    by simp
  then show ?thesis
    using G False forget_claims [of fc B D ?mid]
    by (auto simp: good_def loose_def badges_ok_def drop_last_transcript_row_def Let_def split_beta)
qed

lemma append_event_good: "good K B D fc \<Longrightarrow> good K B D (append_event E body foldable membership fc)"
  by (cases fc) (auto simp: append_event_def Let_def intro!: admit_event_good drop_last_good set_last_body_good)

section \<open>Arrivals\<close>

lemma count_arrival_fields [simp]:
  "cs_key (count_arrival f sel a reason c) = cs_key c"
  "is_channel_conversation (count_arrival f sel a reason c) = is_channel_conversation c"
  "cs_messages (count_arrival f sel a reason c) = cs_messages c"
  "cs_message_ids (count_arrival f sel a reason c) = cs_message_ids c"
  "cs_next_sequence (count_arrival f sel a reason c) = cs_next_sequence c"
  by (simp_all add: count_arrival_def Let_def)

lemma count_arrival_badges:
  "badges_ok c \<Longrightarrow> 0 \<le> ca_sequence a \<Longrightarrow> ca_sequence a < cs_next_sequence c \<Longrightarrow> badges_ok (count_arrival f sel a reason c)"
  by (auto simp: count_arrival_def Let_def badges_ok_def)

lemma plant_context [simp]: "f_channel_context_msgids (plant_arrivals key sel a reason c f) = f_channel_context_msgids f"
  by (simp add: plant_arrivals_def Let_def)

lemma note_chat_arrival_fields [simp]:
  "cs_messages (snd (note_chat_arrival E key a fc)) = cs_messages (snd fc)"
  "cs_message_ids (snd (note_chat_arrival E key a fc)) = cs_message_ids (snd fc)"
  "cs_next_sequence (snd (note_chat_arrival E key a fc)) = cs_next_sequence (snd fc)"
  "f_channel_context_msgids (fst (note_chat_arrival E key a fc)) = f_channel_context_msgids (fst fc)"
  by (cases fc; simp add: note_chat_arrival_def Let_def)+

lemma note_chat_arrival_good:
  "good K B D fc \<Longrightarrow> 0 \<le> ca_sequence a \<Longrightarrow> ca_sequence a < cs_next_sequence (snd fc) \<Longrightarrow> good K B D (note_chat_arrival E key a fc)"
  by (cases fc) (auto simp: note_chat_arrival_def Let_def good_def loose_def count_arrival_badges)

lemma cap_next_sequence [simp]: "cs_next_sequence (snd (cap_with_policy head fc)) = cs_next_sequence (snd fc)"
  by (simp add: cap_with_policy_def Let_def split_beta forget_all_def [symmetric])

lemma cap_messages_next [simp]:
  "cs_next_sequence (snd (cap_messages fc)) = cs_next_sequence (snd fc)"
  "cs_next_sequence (snd (cap_messages_prefer_tail fc)) = cs_next_sequence (snd fc)"
  by (simp_all add: cap_messages_def cap_messages_prefer_tail_def)

lemma good_typing: "good K B D (f, c) \<Longrightarrow> good K B D (f, c\<lparr>cs_typing := hints\<rparr>)"
  by (simp add: good_def loose_def badges_ok_def)

lemma admit_chat_good:
  assumes "good (cl_key line) B D fc"
  shows "good (cl_key line) B D (admit_chat E line fc)"
proof (cases "cl_msgid line \<noteq> [] \<and> (cl_msgid line \<in> cs_message_ids (snd fc)
    \<or> channel_context_blocks_dm (fst fc) (cl_key line) (is_channel_conversation (snd fc)) (cl_msgid line))")
  case True
  then show ?thesis using assms by (simp add: admit_chat_def split_beta Let_def)
next
  case False
  let ?row = "row_of_line E (fst fc) line" let ?c = "learn_id (cl_msgid line) (snd fc)" let ?c' = "admit_message ?row ?c"
  let ?f = "claim_channel_context (cl_key line) B (cl_msgid line) (cl_only_visible line) (fst fc)"
  have B: "is_channel_conversation (snd fc) = B" "0 \<le> cs_next_sequence (snd fc)"
    using assms by (simp_all add: good_def loose_def rows_ok_def)
  have "loose (cl_key line) B D [] (?f, ?c')"
    using loose_admit [of "cl_key line" B D "fst fc" "snd fc" ?row] False assms
    by (auto simp: row_of_line_def good_def)
  then have G: "good (cl_key line) B D (cap_messages (persist_message ?c' (last (cs_messages ?c')) ?f, ?c'))" (is "good _ _ _ ?fc")
    by (rule cap_good(1) [OF loose_facts]) simp
  have next_seq: "cs_next_sequence (snd ?fc) = cs_next_sequence (snd fc) + 1"
    by (simp add: learn_id_def)
  have "m_sequence (last (cs_messages ?c')) = cs_next_sequence (snd fc)"
    by (simp add: learn_id_def)
  then show ?thesis
    using False B G next_seq unfolding admit_chat_def Let_def split_beta learn_id_def [symmetric]
    by (auto intro!: note_chat_arrival_good good_typing)
qed

section \<open>Reading back the log\<close>

lemma loose_empty: "loose K B D [] fc \<Longrightarrow> cs_key (snd fc) = K \<and> is_channel_conversation (snd fc) = B"
  by (simp add: loose_def)

lemma hydrate_line_loose:
  assumes "loose K B D [] fc"
  shows "loose K B D [] (hydrate_line E fc line)"
proof (cases "kind_from_token (tl_kind line)")
  case None
  then show ?thesis using assms by (simp add: hydrate_line_def)
next
  case (Some k)
  obtain f c where fc: "fc = (f, c)" by (cases fc)
  show ?thesis
  proof (cases "tl_msgid line \<noteq> [] \<and> (tl_msgid line \<in> cs_message_ids c \<or> channel_context_blocks_dm f K B (tl_msgid line))")
    case True
    then show ?thesis using assms Some loose_empty [OF assms] by (auto simp: hydrate_line_def fc Let_def)
  next
    case False
    let ?row = "\<lparr>m_kind = k, m_author = tl_author line, m_body = tl_body line, m_time = tl_timestamp line,
      m_server_time = None, m_msgid = tl_msgid line, m_origin = Replay,
      m_mentioned = transcript_highlight E f (network_id K) (tl_author line) k (tl_body line),
      m_collapsible = False, m_sequence = 0, m_only_visible = tl_only_visible line\<rparr>"
    show ?thesis
      using loose_admit [of K B D f c ?row "tl_only_visible line"] assms False Some loose_empty [OF assms]
      by (auto simp: hydrate_line_def fc Let_def learn_id_def [symmetric])
  qed
qed

lemma hydrate_good: "good K B D fc \<Longrightarrow> good K B D (hydrate_from_log E fc)"
proof -
  assume G: "good K B D fc"
  have "loose K B D [] (foldl (hydrate_line E) fc lines)" for lines
    using good_loose [OF G] by (induction lines rule: rev_induct) (simp_all add: hydrate_line_loose)
  then show ?thesis
    using G by (auto simp: hydrate_from_log_def Let_def split: option.split intro!: cap_good)
qed

section \<open>Merging two direct conversations\<close>

lemma merge_row_loose:
  assumes "loose K B D [] (f, c)"
  shows "loose K B D [] (f, merge_row mark c m)"
proof (cases "m_msgid m \<noteq> [] \<and> m_msgid m \<in> cs_message_ids c")
  case True
  then show ?thesis using assms by (simp add: merge_row_def)
next
  case False
  let ?c = "admit_message m (learn_id (m_msgid m) c)"
  have L: "loose K B D [] (f, ?c)"
    using loose_admit [of K B D f c m False] assms False by (auto simp: claim_channel_context_def)
  have "0 \<le> cs_next_sequence c"
    using assms by (simp add: loose_def rows_ok_def)
  moreover have "merge_row mark c m = ?c \<or> merge_row mark c m = ?c\<lparr>cs_unread_mark := Some (cs_next_sequence c)\<rparr>"
    using False by (auto simp: merge_row_def Let_def learn_id_def admit_message_def)
  ultimately show ?thesis
    using L by (auto simp: loose_def badges_ok_def learn_id_def)
qed

lemma merge_conversations_good:
  assumes "good K B D fc" "cs_mentions moved \<le> cs_unread moved"
  shows "good K B D (merge_conversations new_nick moved fc)"
proof -
  have "loose K B D [] (fst fc, foldl (merge_row mark) (snd fc) ms)" for mark ms
    using good_loose [OF assms(1)] by (induction ms rule: rev_induct) (simp_all add: merge_row_loose)
  from cap_good(1) [OF this [of "cs_unread_mark moved" "cs_messages moved"]] show ?thesis
    using assms(2) by (auto simp: merge_conversations_def split_beta Let_def good_def loose_def badges_ok_def)
qed

end
