(* ===== verification/ReducerSpliceRows.thy ===== *)
theory ReducerSpliceRows
  imports ReducerRows
begin

text \<open>
  A replay batch keeps the invariant of its conversation: the rows of the run being built count with the transcript
  until the run has landed.
\<close>

definition replay_good :: "ConversationKey \<Rightarrow> bool \<Rightarrow> (MsgId \<times> ConversationKey) set \<Rightarrow> replay_state \<Rightarrow> bool" where
  "replay_good K B D rs \<longleftrightarrow>
     loose K B D (rs_run rs) (rs_facts rs, rs_conv rs) \<and> length (cs_messages (rs_conv rs)) \<le> MAX_MESSAGES"

text \<open>A msgid that no row carries yet, although it is already recorded as known.\<close>

definition msgid_free :: "MsgId \<Rightarrow> replay_state \<Rightarrow> bool" where
  "msgid_free mid rs \<longleftrightarrow> mid = [] \<or> (mid \<in> cs_message_ids (rs_conv rs) \<and> mid \<notin> m_msgid ` set (cs_messages (rs_conv rs) @ rs_run rs))"

lemma learn_msgid_good:
  assumes "replay_good K B D rs"
  shows "replay_good K B D (learn_msgid mid rs)"
proof -
  have "rows_ok (cs_next_sequence (rs_conv rs)) (insert mid (cs_message_ids (rs_conv rs))) (cs_messages (rs_conv rs) @ rs_run rs)"
    by (rule rows_ok_mono [of "cs_next_sequence (rs_conv rs)" "cs_message_ids (rs_conv rs)"])
      (use assms in \<open>auto simp: replay_good_def loose_def\<close>)
  then show ?thesis
    using assms by (auto simp: learn_msgid_def replay_good_def loose_def badges_ok_def claims_ok_def)
qed

lemma learn_msgid_free:
  assumes "replay_good K B D rs" "mid = [] \<or> mid \<notin> cs_message_ids (rs_conv rs)"
  shows "msgid_free mid (learn_msgid mid rs)"
proof -
  have "set (map m_msgid (cs_messages (rs_conv rs) @ rs_run rs)) - {[]} \<subseteq> cs_message_ids (rs_conv rs)"
    using assms(1) by (simp add: replay_good_def loose_def rows_ok_def msgids_ok_def)
  then show ?thesis
    using assms(2) by (auto simp: msgid_free_def learn_msgid_def)
qed

lemma learn_msgid_fields [simp]:
  "rs_facts (learn_msgid mid rs) = rs_facts rs" "rs_run (learn_msgid mid rs) = rs_run rs" "rs_at (learn_msgid mid rs) = rs_at rs"
  "cs_key (rs_conv (learn_msgid mid rs)) = cs_key (rs_conv rs)"
  "is_channel_conversation (rs_conv (learn_msgid mid rs)) = is_channel_conversation (rs_conv rs)"
  "cs_next_sequence (rs_conv (learn_msgid mid rs)) = cs_next_sequence (rs_conv rs)"
  "cs_messages (rs_conv (learn_msgid mid rs)) = cs_messages (rs_conv rs)"
  by (simp_all add: learn_msgid_def)

text \<open>A row pushed to the run, with the claim its channel may make.\<close>

lemma push_row_good:
  assumes "replay_good K B D rs" "msgid_free (m_msgid row) rs" "m_sequence row = cs_next_sequence (rs_conv rs)"
  shows "replay_good K B D (rs\<lparr>rs_conv := (rs_conv rs)\<lparr>cs_next_sequence := cs_next_sequence (rs_conv rs) + 1\<rparr>,
    rs_run := rs_run rs @ [row], rs_facts := claim_channel_context K B (m_msgid row) visible (rs_facts rs)\<rparr>)"
proof -
  let ?n = "cs_next_sequence (rs_conv rs)" let ?ids = "cs_message_ids (rs_conv rs)" let ?rows = "cs_messages (rs_conv rs) @ rs_run rs"
  have "rows_ok (?n + 1) ?ids (?rows @ [row])"
    by (rule rows_ok_push) (use assms in \<open>auto simp: replay_good_def loose_def msgid_free_def\<close>)
  then show ?thesis
    using assms(1,2) by (auto simp: replay_good_def loose_def badges_ok_def claims_ok_def msgid_free_def)
qed

lemma push_row_plain_good:
  assumes "replay_good K B D rs" "msgid_free (m_msgid row) rs" "m_sequence row = cs_next_sequence (rs_conv rs)"
  shows "replay_good K B D (rs\<lparr>rs_conv := (rs_conv rs)\<lparr>cs_next_sequence := cs_next_sequence (rs_conv rs) + 1\<rparr>,
    rs_run := rs_run rs @ [row]\<rparr>)"
  using push_row_good [OF assms, of False] by (simp add: claim_channel_context_def)

section \<open>Membership lines\<close>

lemma fold_into_cases:
  assumes "fold_into home body row f ids result = Some (row', f', ids', result')"
  obtains "mr_dropped result'" "f' = release_channel_context home (m_msgid row) f" "ids' = ids - ({m_msgid row} - {[]})"
  | "\<not> mr_dropped result'" "f' = f" "ids' = ids" "m_sequence row' = m_sequence row" "m_msgid row' = m_msgid row"
  using assms
  by (auto simp: fold_into_def Let_def release_channel_context_def split: if_splits)

lemma release_claims:
  "claims_ok K B D (f_channel_context_msgids f) ids \<Longrightarrow>
   claims_ok K B D (f_channel_context_msgids (release_channel_context K mid f)) (ids - ({mid} - {[]}))"
  by (auto simp: claims_ok_def split: if_splits)

lemma fold_into_run_good:
  assumes "replay_good K B D rs" "rs_run rs \<noteq> []" "fold_into_run line rs = Some (rs', result)"
  shows "replay_good K B D rs'"
proof -
  let ?c = "rs_conv rs" let ?init = "cs_messages ?c @ butlast (rs_run rs)" let ?row = "last (rs_run rs)"
  have R: "rows_ok (cs_next_sequence ?c) (cs_message_ids ?c) (?init @ [?row] @ [])"
    using assms(1,2) by (simp add: replay_good_def loose_def)
  have key: "cs_key ?c = K"
    using assms(1) by (simp add: replay_good_def loose_def)
  obtain row f ids where fold: "fold_into (cs_key ?c) (rm_body line) ?row (rs_facts rs) (cs_message_ids ?c) default_replay_result = Some (row, f, ids, result)"
    and rs': "rs' = rs\<lparr>rs_facts := f, rs_conv := ?c\<lparr>cs_message_ids := ids\<rparr>,
      rs_run := (if mr_dropped result then butlast (rs_run rs) else butlast (rs_run rs) @ [row])\<rparr>"
    using assms(3) by (auto simp: fold_into_run_def)
  from fold show ?thesis
  proof (cases rule: fold_into_cases)
    case 1
    then show ?thesis
      using assms(1) rows_ok_drop [OF R] release_claims [of K B D "rs_facts rs" "cs_message_ids ?c" "m_msgid ?row"] key
      by (simp add: rs' replay_good_def loose_def badges_ok_def)
  next
    case 2
    then have "rows_ok (cs_next_sequence ?c) (cs_message_ids ?c) (?init @ [row])"
      using R by (simp add: rows_ok_def)
    then show ?thesis
      using assms(1) 2 by (simp add: rs' replay_good_def loose_def badges_ok_def)
  qed
qed

lemma fold_into_transcript_good:
  assumes "replay_good K B D rs" "rs_run rs = []" "0 < rs_at rs" "rs_at rs \<le> length (cs_messages (rs_conv rs))"
    "fold_into_transcript line rs = Some (rs', result)"
  shows "replay_good K B D rs'"
proof -
  let ?c = "rs_conv rs" let ?i = "rs_at rs - 1" let ?rows = "cs_messages ?c" let ?row = "?rows ! ?i"
  have i: "?i < length ?rows"
    using assms(3,4) by simp
  have R: "rows_ok (cs_next_sequence ?c) (cs_message_ids ?c) (take ?i ?rows @ [?row] @ drop (Suc ?i) ?rows)"
    using assms(1,2) i by (simp add: replay_good_def loose_def Cons_nth_drop_Suc)
  have key: "cs_key ?c = K"
    using assms(1) by (simp add: replay_good_def loose_def)
  obtain row f ids where fold: "fold_into (cs_key ?c) (rm_body line) ?row (rs_facts rs) (cs_message_ids ?c) default_replay_result = Some (row, f, ids, result)"
    and rs': "rs' = (if mr_dropped result
          then rs\<lparr>rs_facts := f, rs_at := rs_at rs - 1, rs_conv := shift_anchor (int ?i)
                  (?c\<lparr>cs_message_ids := ids, cs_messages := vec_remove ?i ?rows\<rparr>)\<rparr>
          else rs\<lparr>rs_facts := f, rs_conv := ?c\<lparr>cs_message_ids := ids, cs_messages := ?rows[?i := row]\<rparr>\<rparr>)"
    using assms(5) by (auto simp: fold_into_transcript_def Let_def split: if_splits)
  from fold show ?thesis
  proof (cases rule: fold_into_cases)
    case 1
    then show ?thesis
      using assms(1,2) rows_ok_drop [OF R] release_claims [of K B D "rs_facts rs" "cs_message_ids ?c" "m_msgid ?row"] key i
      by (auto simp: rs' replay_good_def loose_def badges_ok_def vec_remove_def)
  next
    case 2
    then have "rows_ok (cs_next_sequence ?c) (cs_message_ids ?c) (?rows[?i := row])"
      using assms(1,2) i by (simp add: rows_ok_def map_update_same replay_good_def loose_def)
    then show ?thesis
      using assms(1,2) 2 by (simp add: rs' replay_good_def loose_def badges_ok_def)
  qed
qed

lemma admit_membership_good:
  assumes "replay_good K B D rs" "msgid_free (rm_msgid line) rs"
  shows "replay_good K B D (fst (admit_membership_replay line rs))"
proof -
  have "replay_good K B D (fst (push_membership_row show_each line rs))" for show_each
    using push_row_plain_good [OF assms(1)] assms(2) by (simp add: push_membership_row_def Let_def)
  then show ?thesis
    using assms(1) by (auto simp: admit_membership_replay_def Let_def split: option.split
        intro: fold_into_run_good fold_into_transcript_good)
qed

section \<open>Every line\<close>

lemma splice_membership_good:
  assumes "replay_good K B D (sp_replay s)" "rl_msgid line = [] \<or> rl_msgid line \<notin> cs_message_ids (rs_conv (sp_replay s))"
  shows "replay_good K B D (sp_replay (splice_membership_line line s))"
  using admit_membership_good [OF learn_msgid_good [OF assms(1)], of _ "rl_msgid line"] learn_msgid_free [OF assms]
  by (simp add: splice_membership_line_def split_beta Let_def)

lemma push_chat_row_good:
  assumes "replay_good K B D rs" "rl_msgid line = [] \<or> rl_msgid line \<notin> cs_message_ids (rs_conv rs)"
  shows "replay_good K B D (push_chat_row E net k line rs)"
proof -
  let ?row = "\<lparr>m_kind = k, m_author = rl_author line, m_body = rl_body line, m_time = rl_timestamp line,
    m_server_time = rl_server_time line, m_msgid = rl_msgid line, m_origin = Replay,
    m_mentioned = transcript_highlight E (rs_facts rs) net (rl_author line) k (rl_body line), m_collapsible = False,
    m_sequence = cs_next_sequence (rs_conv rs), m_only_visible = rl_only_visible line\<rparr>"
  have "cs_key (rs_conv rs) = K" "is_channel_conversation (rs_conv rs) = B"
    using assms(1) by (simp_all add: replay_good_def loose_def)
  then show ?thesis
    using push_row_good [OF learn_msgid_good [OF assms(1), of "rl_msgid line"], of ?row "rl_only_visible line"] learn_msgid_free [OF assms]
    by (simp add: push_chat_row_def Let_def)
qed

lemma note_line_replay [simp]: "sp_replay (note_line n line s) = sp_replay s"
  by (simp add: note_line_def)

lemma splice_line_good:
  assumes "replay_good K B D (sp_replay s)"
  shows "replay_good K B D (sp_replay (splice_line E event mapping s line))"
  using assms splice_membership_good push_chat_row_good
  by (auto simp: splice_line_def splice_chat_line_def Let_def split: option.split)

lemma splice_lines_good:
  "replay_good K B D (sp_replay s) \<Longrightarrow> replay_good K B D (sp_replay (foldl (splice_line E event mapping) s lines))"
  by (induction lines arbitrary: s) (simp_all add: splice_line_good)

section \<open>Landing\<close>

lemma map_anchor_fields [simp]:
  "cs_key (map_anchor g c) = cs_key c" "is_channel_conversation (map_anchor g c) = is_channel_conversation c"
  "cs_message_ids (map_anchor g c) = cs_message_ids c" "cs_next_sequence (map_anchor g c) = cs_next_sequence c"
  "cs_messages (map_anchor g c) = cs_messages c" "cs_unread (map_anchor g c) = cs_unread c"
  "cs_mentions (map_anchor g c) = cs_mentions c" "cs_unread_mark (map_anchor g c) = cs_unread_mark c"
  by (simp_all add: map_anchor_def)

lemma foldl_persist_context [simp]:
  "f_channel_context_msgids (foldl (\<lambda>f message. persist_message c message f) f run) = f_channel_context_msgids f"
  by (induction run arbitrary: f) simp_all

lemma insert_run_loose: "loose K B D run fc \<Longrightarrow> loose K B D [] (insert_run at run fc)"
proof -
  assume L: "loose K B D run fc"
  let ?rows = "cs_messages (snd fc)" let ?i = "min at (length ?rows)"
  have "rows_ok (cs_next_sequence (snd fc)) (cs_message_ids (snd fc)) (take ?i ?rows @ drop ?i ?rows @ run)"
    using L by (simp add: loose_def del: append_assoc flip: append_assoc)
  then have "rows_ok (cs_next_sequence (snd fc)) (cs_message_ids (snd fc)) (take ?i ?rows @ run @ drop ?i ?rows)"
    using rows_ok_rotate by blast
  then show ?thesis
    using L by (simp add: insert_run_def split_beta Let_def loose_def badges_ok_def)
qed

lemma note_run_good:
  assumes "good K B D fc" "\<forall>m \<in> set run. 0 \<le> m_sequence m \<and> m_sequence m < cs_next_sequence (snd fc)"
  shows "good K B D (note_run E event run fc)"
proof -
  have "good K B D (foldl (\<lambda>fc message. if m_kind message = KindEvent then fc
      else note_chat_arrival E (he_conversation event) (arrival_of_row event message) fc) fc run)
    \<and> cs_next_sequence (snd (foldl (\<lambda>fc message. if m_kind message = KindEvent then fc
      else note_chat_arrival E (he_conversation event) (arrival_of_row event message) fc) fc run)) = cs_next_sequence (snd fc)"
    using assms by (induction run rule: rev_induct) (auto simp: arrival_of_row_def intro!: note_chat_arrival_good)
  then show ?thesis
    unfolding note_run_def by blast
qed

lemma loose_flags:
  "loose K B D [] (f, c) \<Longrightarrow> loose K B D [] (f, c\<lparr>cs_splice_epoch := u\<rparr>)"
  "loose K B D [] (f, c) \<Longrightarrow> loose K B D [] (f, c\<lparr>cs_history_page_cap_tail := b\<rparr>)"
  by (simp_all add: loose_def badges_ok_def)

lemma loose_run_sequences: "loose K B D run fc \<Longrightarrow> \<forall>m \<in> set run. 0 \<le> m_sequence m \<and> m_sequence m < cs_next_sequence (snd fc)"
  by (auto simp: loose_def rows_ok_def seqs_ok_def)

lemma insert_run_next [simp]: "cs_next_sequence (snd (insert_run at run fc)) = cs_next_sequence (snd fc)"
  by (simp add: insert_run_def split_beta Let_def)

lemma land_run_good:
  assumes "loose K B D run fc"
  shows "good K B D (land_run E event len at run fc)"
proof -
  obtain f c where fc: "insert_run at run fc = (f, c)" by (cases "insert_run at run fc")
  have L: "loose K B D [] (f, c)" and n: "cs_next_sequence c = cs_next_sequence (snd fc)"
    using insert_run_loose [OF assms, of at] insert_run_next [of at run fc] unfolding fc by simp_all
  define c' where "c' = (if at \<noteq> len then c\<lparr>cs_splice_epoch := cs_splice_epoch c + 1\<rparr> else c)"
  define capped where "capped = (if cs_history_page_cap_tail c' \<and> he_kind event = Chat
    then cap_messages_prefer_tail (f, c'\<lparr>cs_history_page_cap_tail := False\<rparr>) else cap_messages (f, c'))"
  have "loose K B D [] (f, c')" "cs_next_sequence c' = cs_next_sequence (snd fc)"
    using L n by (simp_all add: c'_def loose_flags)
  then have "good K B D capped" "cs_next_sequence (snd capped) = cs_next_sequence (snd fc)"
    by (simp_all add: capped_def cap_good loose_flags)
  then have "good K B D (note_run E event run capped)"
    using loose_run_sequences [OF assms] by (intro note_run_good) simp_all
  then show ?thesis
    unfolding land_run_def fc Let_def prod.case c'_def [symmetric] capped_def [symmetric] .
qed

lemma keep_notes_good: "good K B D fc \<Longrightarrow> good K B D (keep_notes event notes fc)"
  by (cases fc) (auto simp: keep_notes_def Let_def intro: good_facts)

lemma remember_query_loose: "loose K B D run fc \<Longrightarrow> loose K B D run (remember_query event fc)"
  by (cases fc) (auto simp: remember_query_def Let_def intro: loose_facts)

lemma splice_start_good:
  "good K B D (f, c) \<Longrightarrow> good K B D (f, fst (splice_start event au c))"
  by (auto simp: splice_start_def take_splice_index_def Let_def good_def loose_def badges_ok_def is_channel_conversation_def
      split: option.split AnchorUse.split)

lemma splice_history_good:
  assumes "good K B D fc"
  shows "good K B D (splice_history E event au fc)"
proof -
  obtain f c where fc: "fc = (f, c)" by (cases fc)
  obtain c0 start where st: "splice_start event au c = (c0, start)" by (cases "splice_start event au c")
  have G: "good K B D (f, c0)"
    using splice_start_good [of K B D f c event au] assms by (simp add: fc st)
  show ?thesis
  proof (cases start)
    case None
    then show ?thesis using G by (simp add: splice_history_def fc st)
  next
    case (Some at)
    define s where "s = foldl (splice_line E event (facts_case_mapping f (network_id (he_conversation event))))
      \<lparr>sp_replay = \<lparr>rs_facts = f, rs_conv = c0, rs_run = [], rs_at = at\<rparr>, sp_notes = [],
       sp_saw_self = False, sp_saw_line = False, sp_membership_only = True\<rparr> (he_lines event)"
    define rs where "rs = sp_replay s"
    have R: "replay_good K B D rs"
      unfolding rs_def s_def by (rule splice_lines_good) (use G in \<open>simp add: replay_good_def good_def\<close>)
    define fc1 where "fc1 = (if sp_saw_self s then remember_query event (rs_facts rs, rs_conv rs) else (rs_facts rs, rs_conv rs))"
    have L: "loose K B D (rs_run rs) fc1"
      using R by (simp add: fc1_def remember_query_loose replay_good_def)
    have "snd fc1 = rs_conv rs"
      by (simp add: fc1_def remember_query_def Let_def)
    then have "rs_run rs = [] \<Longrightarrow> good K B D fc1 \<and> good K B D (fst fc1, (snd fc1)\<lparr>cs_history_page_cap_tail := False\<rparr>)"
      using L R by (simp add: good_def replay_good_def loose_def badges_ok_def)
    then have "good K B D (if rs_run rs \<noteq> [] then land_run E event (length (cs_messages c0)) (rs_at rs) (rs_run rs) fc1
        else if he_kind event = Chat \<and> (cs_history_page_cap_tail (snd fc1) \<or> he_kind event = Chat \<and> he_older_page event)
          \<and> \<not> (sp_saw_line s \<and> sp_membership_only s)
        then (fst fc1, (snd fc1)\<lparr>cs_history_page_cap_tail := False\<rparr>) else fc1)"
      using land_run_good [OF L] by simp
    from keep_notes_good [OF this, of event "sp_notes s"] show ?thesis
      unfolding splice_history_def fc st Some Let_def split_beta fst_conv snd_conv option.case s_def [symmetric] rs_def [symmetric]
        fc1_def [symmetric] .
  qed
qed

end
