(* ===== verification/ReducerInvariant.thy ===== *)
theory ReducerInvariant
  imports ReducerSpliceRows
begin

text \<open>
  The reducer as a state machine: every public method of \<open>EventReducer\<close> is a step, and the invariants of its
  conversations hold in every state that steps can reach.
\<close>

section \<open>Steps\<close>

inductive reducer_step :: "reducer_env \<Rightarrow> EventReducer \<Rightarrow> EventReducer \<Rightarrow> bool" for E where
  rstep_apply: "reducer_step E r (fst (reducer_apply E event now r))"
| rstep_ensure: "reducer_step E r (fst (ensure_conversation E key target cause r))"
| rstep_drop_direct: "reducer_step E r (fst (drop_direct_message key r))"
| rstep_drop_channel: "reducer_step E r (fst (drop_channel key r))"
| rstep_closed_store: "reducer_step E r (set_closed_persistence calls r)"
| rstep_note_closed: "reducer_step E r (note_closed key r)"
| rstep_clear_closed: "reducer_step E r (clear_closed key r)"
| rstep_left: "reducer_step E r (fst (mark_channel_left key r))"
| rstep_forget_network: "reducer_step E r (forget_network net r)"
| rstep_clear_messages: "reducer_step E r (clear_messages key r)"
| rstep_muted: "reducer_step E r (set_muted key muted r)"
| rstep_selected: "reducer_step E r (mark_selected key r)"
| rstep_read: "reducer_step E r (fst (mark_read key r))"
| rstep_all_read: "reducer_step E r (fst (mark_all_read r))"
| rstep_cap_tail: "reducer_step E r (mark_history_page_cap_tail key r)"
| rstep_clear_cap_tail: "reducer_step E r (clear_history_page_cap_tail key r)"
| rstep_clear_selection: "reducer_step E r (clear_selection r)"
| rstep_noise: "reducer_step E r (set_membership_noise noise r)"
| rstep_window: "reducer_step E r (set_window_active focused r)"
| rstep_log: "reducer_step E r (set_conversation_log log_state r)"
| rstep_features: "reducer_step E r (set_server_features E net features r)"
| rstep_highlights: "reducer_step E r (set_highlight_words E net ws r)"
| rstep_stale_names: "reducer_step E r (fst (release_stale_names_sync selected now r))"
| rstep_clear_typing: "reducer_step E r (clear_typing_facts net r)"
| rstep_clear_presence: "reducer_step E r (clear_presence_facts net away metadata r)"
| rstep_mention: "reducer_step E r (fst (take_mention_arrival r))"
| rstep_inbox: "reducer_step E r (fst (take_inbox_arrival r))"
| rstep_marker: "reducer_step E r (fst (apply_server_read_marker E key marker r))"
| rstep_release_queries: "reducer_step E r (fst (release_pending_query_playback E net r))"
| rstep_queries: "reducer_step E r (fst (take_remembered_queries r))"
| rstep_kept: "reducer_step E r (fst (take_kept_replay r))"

inductive reducer_reachable :: "reducer_env \<Rightarrow> EventReducer \<Rightarrow> bool" for E where
  rreach_new: "reducer_reachable E new_reducer"
| rreach_step: "reducer_reachable E r \<Longrightarrow> reducer_step E r r' \<Longrightarrow> reducer_reachable E r'"

section \<open>Walking the store\<close>

lemma fst_case: "fst (case x of (r, False) \<Rightarrow> (r, b) | (r, True) \<Rightarrow> (h r, True)) = (case x of (r, False) \<Rightarrow> r | (r, True) \<Rightarrow> h r)"
  by (auto split: prod.split bool.split)

text \<open>The loop over every conversation is the same change made to each key in turn.\<close>

lemma bt_insert_in_place:
  assumes "sorted_wrt (<) (map fst (pre @ (K, c) # suf))"
  shows "bt_insert K c' (pre @ (K, c) # suf) = pre @ (K, c') # suf"
  using assms by (induction pre) auto

lemma each_conversation_suffix:
  assumes "bt_wf (pre @ suf)" "each_conversation g f suf = (f', suf')"
  shows "foldl (\<lambda>r K. on_conversation K g r) (r\<lparr>rd_conversations := pre @ suf, rd_facts := f\<rparr>) (bt_keys suf)
     = r\<lparr>rd_conversations := pre @ suf', rd_facts := f'\<rparr>"
  using assms
proof (induction suf arbitrary: pre f f' suf')
  case Nil
  then show ?case by (simp add: bt_keys_def)
next
  case (Cons e suf)
  obtain K c where e: "e = (K, c)" by (cases e)
  obtain f1 c1 where g: "g (f, c) = (f1, c1)" by (cases "g (f, c)")
  obtain f2 suf2 where s: "each_conversation g f1 suf = (f2, suf2)" by (cases "each_conversation g f1 suf")
  have sorted: "sorted_wrt (<) (map fst (pre @ (K, c) # suf))"
    using Cons.prems(1) by (simp add: e bt_wf_def)
  then have "K \<notin> fst ` set pre"
    by (auto simp: sorted_wrt_append)
  then have "bt_get (pre @ (K, c) # suf) K = Some c"
    by (simp add: bt_get_def map_add_Some_iff map_of_eq_None_iff)
  then have "on_conversation K g (r\<lparr>rd_conversations := pre @ (K, c) # suf, rd_facts := f\<rparr>)
      = r\<lparr>rd_conversations := (pre @ [(K, c1)]) @ suf, rd_facts := f1\<rparr>"
    using bt_insert_in_place [OF sorted] by (simp add: on_conversation_def g)
  moreover have "bt_wf ((pre @ [(K, c1)]) @ suf)"
    using Cons.prems(1) by (simp add: e bt_wf_def)
  ultimately show ?case
    using Cons.IH [OF _ s, of "pre @ [(K, c1)]"] Cons.prems(2) by (auto simp: e g s bt_keys_def)
qed

lemma for_each_conversation_fold:
  assumes "bt_wf (rd_conversations r)"
  shows "for_each_conversation g r = foldl (\<lambda>r K. on_conversation K g r) r (bt_keys (rd_conversations r))"
proof -
  obtain f' suf' where e: "each_conversation g (rd_facts r) (rd_conversations r) = (f', suf')"
    by (cases "each_conversation g (rd_facts r) (rd_conversations r)")
  show ?thesis
    using each_conversation_suffix [of "[]" "rd_conversations r" g "rd_facts r" f' suf' r] assms e
    by (simp add: for_each_conversation_def)
qed

section \<open>Facts that make no claim\<close>

lemma facts_context [simp]:
  "f_channel_context_msgids (on_presence net g f) = f_channel_context_msgids f"
  "f_channel_context_msgids (set_presence_away net who away f) = f_channel_context_msgids f"
  "f_channel_context_msgids (set_presence_metadata net who key val f) = f_channel_context_msgids f"
  "f_channel_context_msgids (set_presence_account net who account f) = f_channel_context_msgids f"
  "f_channel_context_msgids (set_presence_realname net who realname f) = f_channel_context_msgids f"
  "f_channel_context_msgids (set_presence_operator net who operator f) = f_channel_context_msgids f"
  "f_channel_context_msgids (rekey_presence net old_norm new_norm f) = f_channel_context_msgids f"
  "f_channel_context_msgids (remember_self_nick net who f) = f_channel_context_msgids f"
  "f_channel_context_msgids (drop_pending_playback net f) = f_channel_context_msgids f"
  "f_channel_context_msgids (drop_kept_playback net f) = f_channel_context_msgids f"
  "f_channel_context_msgids (clear_closed_network net f) = f_channel_context_msgids f"
  "f_channel_context_msgids (closed_call_made call f) = f_channel_context_msgids f"
  by (simp_all add: on_presence_def set_presence_away_def set_presence_metadata_def set_presence_account_def
      set_presence_realname_def set_presence_operator_def rekey_presence_def remember_self_nick_def
      drop_pending_playback_def drop_kept_playback_def clear_closed_network_def closed_call_made_def)

lemma event_facts_context [simp]:
  "f_channel_context_msgids (join_facts net who account realname f) = f_channel_context_msgids f"
  "f_channel_context_msgids (welcome_facts net current f) = f_channel_context_msgids f"
  "f_channel_context_msgids (away_facts E net who away realname only f) = f_channel_context_msgids f"
  by (simp_all add: join_facts_def welcome_facts_def away_facts_def Let_def split: option.split)

section \<open>The interface between conversations and the store\<close>

text \<open>
  What a change of one conversation promises the store: a predicate on a conversation with its facts that every
  operation on one conversation keeps, where \<open>D\<close> bounds the claims of the other conversations.
\<close>

locale conversation_contract =
  fixes kept :: "ConversationKey \<Rightarrow> bool \<Rightarrow> (MsgId \<times> ConversationKey) set \<Rightarrow> facts_conv \<Rightarrow> bool"
  assumes kept_shape: "kept K B D fc \<Longrightarrow> cs_key (snd fc) = K \<and> is_channel_conversation (snd fc) = B
      \<and> claims_ok K B D (f_channel_context_msgids (fst fc)) (cs_message_ids (snd fc))"
    and kept_claims: "kept K B D (f, c) \<Longrightarrow> claims_ok K B D' (f_channel_context_msgids f') (cs_message_ids c) \<Longrightarrow> kept K B D' (f', c)"
    and kept_frame: "kept K B D (f, c) \<Longrightarrow> cs_key c' = cs_key c \<Longrightarrow> is_channel_conversation c' = is_channel_conversation c
      \<Longrightarrow> map m_sequence (cs_messages c') = map m_sequence (cs_messages c) \<Longrightarrow> map m_msgid (cs_messages c') = map m_msgid (cs_messages c)
      \<Longrightarrow> cs_message_ids c' = cs_message_ids c \<Longrightarrow> cs_next_sequence c' = cs_next_sequence c
      \<Longrightarrow> badges_ok c' \<Longrightarrow> kept K B D (f, c')"
    and kept_badges: "kept K B D (f, c) \<Longrightarrow> badges_ok c"
    and kept_sequences: "kept K B D (f, c) \<Longrightarrow> \<forall>m \<in> set (cs_messages c). 0 \<le> m_sequence m \<and> m_sequence m < cs_next_sequence c"
    and kept_clear: "kept K B D (f, c) \<Longrightarrow> kept K B D (f, c\<lparr>cs_messages := []\<rparr>)"
    and kept_new: "claims_ok K B D (f_channel_context_msgids f) {} \<Longrightarrow>
      kept K B D (f, (new_conversation K target)\<lparr>cs_muted := muted, cs_channel := (if B then Some default_channel else None)\<rparr>)"
    and kept_hydrate: "kept K B D fc \<Longrightarrow> kept K B D (hydrate_from_log E fc)"
    and kept_append: "kept K B D fc \<Longrightarrow> kept K B D (append_event E body foldable membership fc)"
      "kept K B D fc \<Longrightarrow> kept K B D (append_whois E body fc)" "kept K B D fc \<Longrightarrow> kept K B D (append_error E body fc)"
    and kept_chat: "kept (cl_key line) B D fc \<Longrightarrow> kept (cl_key line) B D (admit_chat E line fc)"
    and kept_merge: "kept K B D fc \<Longrightarrow> cs_mentions moved \<le> cs_unread moved \<Longrightarrow> kept K B D (merge_conversations new_nick moved fc)"
    and kept_rekey: "kept K False D (f, c) \<Longrightarrow> claims_ok K' False D' (f_channel_context_msgids f') (cs_message_ids c)
      \<Longrightarrow> kept K' False D' (f', c\<lparr>cs_key := K'\<rparr>)"
    and kept_splice: "kept K B D fc \<Longrightarrow> kept K B D (splice_history E event au fc)"
begin

definition store_ok :: "EventReducer \<Rightarrow> bool" where
  "store_ok r \<longleftrightarrow> bt_wf (rd_conversations r)
     \<and> (\<forall>K c. bt_get (rd_conversations r) K = Some c \<longrightarrow> kept K (is_channel_conversation c) UNIV (rd_facts r, c))
     \<and> (\<forall>mid home. f_channel_context_msgids (rd_facts r) mid = Some home \<longrightarrow> bt_contains (rd_conversations r) home)"

abbreviation others :: "EventReducer \<Rightarrow> ConversationKey \<Rightarrow> (MsgId \<times> ConversationKey) set" where
  "others r K \<equiv> {(mid, home). f_channel_context_msgids (rd_facts r) mid = Some home \<and> home \<noteq> K}"

definition keeps :: "ConversationKey \<Rightarrow> (facts_conv \<Rightarrow> facts_conv) \<Rightarrow> bool" where
  "keeps K g \<longleftrightarrow> (\<forall>B D fc. kept K B D fc \<longrightarrow> kept K B D (g fc))"

lemma store_okD:
  assumes "store_ok r" "bt_get (rd_conversations r) K = Some c"
  shows "kept K (is_channel_conversation c) (others r K) (rd_facts r, c)"
proof -
  have k: "kept K (is_channel_conversation c) UNIV (rd_facts r, c)"
    using assms by (simp add: store_ok_def)
  then have "claims_ok K (is_channel_conversation c) (others r K) (f_channel_context_msgids (rd_facts r)) (cs_message_ids c)"
    using kept_shape [OF k] by (simp add: claims_ok_def)
  with k show ?thesis
    by (rule kept_claims)
qed

lemma store_ok_insert:
  assumes "store_ok r" "kept K B (others r K) (f, c)"
  shows "store_ok (r\<lparr>rd_conversations := bt_insert K c (rd_conversations r), rd_facts := f\<rparr>)"
proof -
  have C: "claims_ok K B (others r K) (f_channel_context_msgids f) (cs_message_ids c)" "is_channel_conversation c = B"
    using kept_shape [OF assms(2)] by simp_all
  then have "claims_ok K B UNIV (f_channel_context_msgids f) (cs_message_ids c)"
    by (simp add: claims_ok_def)
  with assms(2) have new: "kept K B UNIV (f, c)"
    by (rule kept_claims)
  have old: "kept K' (is_channel_conversation c') UNIV (f, c')" if "bt_get (rd_conversations r) K' = Some c'" "K' \<noteq> K" for K' c'
  proof -
    have k: "kept K' (is_channel_conversation c') (others r K') (rd_facts r, c')"
      using store_okD [OF assms(1) that(1)] .
    then have c: "claims_ok K' (is_channel_conversation c') (others r K') (f_channel_context_msgids (rd_facts r)) (cs_message_ids c')"
      using kept_shape [OF k] by simp
    have "claims_ok K' (is_channel_conversation c') UNIV (f_channel_context_msgids f) (cs_message_ids c')"
      unfolding claims_ok_def
    proof (intro allI impI)
      fix mid home assume h: "f_channel_context_msgids f mid = Some home"
      then have "home = K' \<Longrightarrow> f_channel_context_msgids (rd_facts r) mid = Some K'"
        using C(1) that(2) unfolding claims_ok_def by fastforce
      then show "if home = K' then is_channel_conversation c' \<and> mid \<noteq> [] \<and> mid \<in> cs_message_ids c' else (mid, home) \<in> UNIV"
        using c unfolding claims_ok_def by (metis UNIV_I)
    qed
    with k show ?thesis
      by (rule kept_claims)
  qed
  have "bt_contains (rd_conversations r) home \<or> home = K" if "f_channel_context_msgids f mid = Some home" for mid home
    using that C(1) assms(1) by (fastforce simp: claims_ok_def store_ok_def split: if_splits)
  then show ?thesis
    using assms(1) new old C(2) by (auto simp: store_ok_def bt_contains_def)
qed

lemma on_conversation_ok: "store_ok r \<Longrightarrow> keeps K g \<Longrightarrow> store_ok (on_conversation K g r)"
proof -
  assume r: "store_ok r" and g: "keeps K g"
  have "store_ok (r\<lparr>rd_conversations := bt_insert K (snd (g (rd_facts r, c))) (rd_conversations r), rd_facts := fst (g (rd_facts r, c))\<rparr>)"
    if "bt_get (rd_conversations r) K = Some c" for c
    using store_ok_insert [OF r, of K "is_channel_conversation c" "fst (g (rd_facts r, c))" "snd (g (rd_facts r, c))"]
      store_okD [OF r that] g by (simp add: keeps_def)
  then show ?thesis
    using r by (simp add: on_conversation_def split_beta split: option.split)
qed

lemma for_each_ok:
  assumes "store_ok r" "\<And>K. keeps K g"
  shows "store_ok (for_each_conversation g r)"
proof -
  have "store_ok (foldl (\<lambda>r K. on_conversation K g r) r Ks)" for Ks
    using assms(1) by (induction Ks rule: rev_induct) (simp_all add: on_conversation_ok assms(2))
  then show ?thesis
    using assms(1) by (simp add: for_each_conversation_fold store_ok_def)
qed

lemma store_ok_facts:
  assumes "store_ok r" "f_channel_context_msgids f = f_channel_context_msgids (rd_facts r)"
  shows "store_ok (r\<lparr>rd_facts := f\<rparr>)"
proof -
  have "kept K B UNIV (f, c)" if "kept K B UNIV (rd_facts r, c)" for K B c
    using kept_claims [OF that, of UNIV f] kept_shape [OF that] assms(2) by simp
  then show ?thesis
    using assms by (simp add: store_ok_def)
qed

lemma on_facts_ok:
  "store_ok r \<Longrightarrow> (\<And>f. f_channel_context_msgids (g f) = f_channel_context_msgids f) \<Longrightarrow> store_ok (on_facts g r)"
  unfolding on_facts_def by (rule store_ok_facts) simp_all

lemma store_ok_map:
  assumes "store_ok r" "\<And>K. keeps K (on_conv h)"
  shows "store_ok (r\<lparr>rd_conversations := bt_map_values h (rd_conversations r)\<rparr>)"
proof -
  have "kept K (is_channel_conversation (h c)) UNIV (rd_facts r, h c)" if k: "kept K B UNIV (rd_facts r, c)" for K B c
  proof -
    have "kept K B UNIV (rd_facts r, h c)"
      using assms(2) [of K] k by (auto simp: keeps_def on_conv_def)
    then show ?thesis
      using kept_shape [of K B UNIV "(rd_facts r, h c)"] by simp
  qed
  then show ?thesis
    using assms(1) by (auto simp: store_ok_def bt_get_map_values bt_contains_def) blast
qed

text \<open>Fewer conversations and fewer claims, none of them on a conversation that went.\<close>

lemma store_ok_shrink:
  assumes "store_ok r" "bt_wf store" "\<And>K. bt_get store K = (if P K then bt_get (rd_conversations r) K else None)"
    "\<And>mid home. f_channel_context_msgids f mid = Some home \<Longrightarrow> f_channel_context_msgids (rd_facts r) mid = Some home \<and> P home"
  shows "store_ok (r\<lparr>rd_conversations := store, rd_facts := f\<rparr>)"
proof -
  have "kept K B UNIV (f, c)" if "kept K B UNIV (rd_facts r, c)" for K B c
    using kept_claims [OF that, of UNIV f] kept_shape [OF that] assms(4) by (auto simp: claims_ok_def)
  then show ?thesis
    using assms by (auto simp: store_ok_def bt_contains_def) blast
qed

lemma keeps_on_conv:
  assumes "\<And>c. cs_key (h c) = cs_key c" "\<And>c. is_channel_conversation (h c) = is_channel_conversation c"
    "\<And>c. map m_sequence (cs_messages (h c)) = map m_sequence (cs_messages c)" "\<And>c. map m_msgid (cs_messages (h c)) = map m_msgid (cs_messages c)"
    "\<And>c. cs_message_ids (h c) = cs_message_ids c" "\<And>c. cs_next_sequence (h c) = cs_next_sequence c" "\<And>c. badges_ok c \<Longrightarrow> badges_ok (h c)"
  shows "keeps K (on_conv h)"
  unfolding keeps_def on_conv_def
proof (intro allI impI)
  fix B D fc assume k: "kept K B D fc"
  then have "kept K B D (fst fc, snd fc)" by simp
  from kept_frame [OF this, of "h (snd fc)"] show "kept K B D (fst fc, h (snd fc))"
    using assms kept_badges [of K B D "fst fc" "snd fc"] k by simp
qed

lemma keeps_compose: "keeps K g \<Longrightarrow> keeps K h \<Longrightarrow> keeps K (\<lambda>fc. g (h fc))"
  unfolding keeps_def by blast

lemma keeps_facts: "(\<And>f. f_channel_context_msgids (g f) = f_channel_context_msgids f) \<Longrightarrow> keeps K (\<lambda>fc. (g (fst fc), snd fc))"
proof -
  assume g: "\<And>f. f_channel_context_msgids (g f) = f_channel_context_msgids f"
  have "kept K B D (g (fst fc), snd fc)" if "kept K B D fc" for B D fc
    using kept_claims [of K B D "fst fc" "snd fc" D "g (fst fc)"] kept_shape [OF that] that g by simp
  then show ?thesis
    by (simp add: keeps_def)
qed

lemma keeps_append: "keeps K (append_event E body foldable membership)" "keeps K (append_whois E body)" "keeps K (append_error E body)"
  by (simp_all add: keeps_def kept_append)

lemma keeps_splice: "keeps K (splice_history E event au)"
  by (simp add: keeps_def kept_splice)

lemma keeps_chat: "keeps (cl_key line) (admit_chat E line)"
  by (simp add: keeps_def kept_chat)

lemma ensure_key_ok:
  assumes "store_ok r"
  shows "store_ok (fst (ensure_key E key target cause r))"
proof (cases "bt_contains (rd_conversations r) key")
  case True
  then show ?thesis using assms by (simp add: ensure_key_def)
next
  case False
  let ?f = "rd_facts r"
  have none: "claims_ok key B (others r key) (f_channel_context_msgids ?f) {}" for B
    using assms False by (auto simp: claims_ok_def store_ok_def)
  define B where "B = is_channel (features_of ?f (network_id key)) (normalized_target key)"
  define fc where "fc = hydrate_from_log E (?f, (new_conversation key target)\<lparr>cs_muted := key \<in> f_muted_keys ?f,
    cs_channel := (if B then Some default_channel else None)\<rparr>)"
  have "kept key B (others r key) fc"
    unfolding fc_def by (intro kept_hydrate kept_new none)
  then have "store_ok (r\<lparr>rd_conversations := bt_insert key (snd fc) (rd_conversations r), rd_facts := fst fc\<rparr>)"
    using store_ok_insert [OF assms, of key B "fst fc" "snd fc"] by simp
  moreover have "fst (ensure_key E key target cause r) = r
      \<or> fst (ensure_key E key target cause r) = r\<lparr>rd_conversations := bt_insert key (snd fc) (rd_conversations r), rd_facts := fst fc\<rparr>"
    using False by (auto simp: ensure_key_def Let_def split_beta fc_def B_def new_conversation_def)
  ultimately show ?thesis
    using assms by auto
qed

lemma ensure_key_case:
  assumes "store_ok r" "\<And>r'. store_ok r' \<Longrightarrow> store_ok (h r')"
  shows "store_ok (case ensure_key E key target cause r of (r', False) \<Rightarrow> r' | (r', True) \<Rightarrow> h r')"
  using ensure_key_ok [OF assms(1), of E key target cause] assms(2) by (auto split: prod.split bool.split)

lemma refresh_ok: "store_ok r \<Longrightarrow> store_ok (refresh_mentions E net r)"
  unfolding refresh_mentions_def
  by (rule store_ok_map) (auto intro!: keeps_on_conv simp: refresh_row_def badges_ok_def comp_def split: if_splits)

text \<open>Every fold of an event.\<close>

lemma map_channel_keeps: "keeps K (on_conv (map_channel g))"
  by (rule keeps_on_conv) (simp_all add: map_channel_def badges_ok_def)

lemma append_chat_ok: "store_ok r \<Longrightarrow> store_ok (append_chat E line r)"
  unfolding append_chat_def Let_def by (rule ensure_key_case) (simp_all add: on_conversation_ok keeps_chat)

lemma welcome_ok: "store_ok r \<Longrightarrow> store_ok (reduce_welcome E net who r)"
  unfolding reduce_welcome_def Let_def
  by (intro refresh_ok store_ok_map on_facts_ok keeps_on_conv)
    (auto simp: welcome_conversation_def map_channel_def badges_ok_def)

lemma forget_unseen_ok: "store_ok r \<Longrightarrow> store_ok (forget_unseen net nicks r)"
  unfolding forget_unseen_def by (rule on_facts_ok) (auto split: option.split)

lemma splice_into_ok: "store_ok r \<Longrightarrow> store_ok (splice_into E key event au r)"
  by (simp add: splice_into_def on_conversation_ok keeps_splice)

lemma forget_held_ok: "store_ok r \<Longrightarrow> store_ok (forget_held key r)"
  unfolding forget_held_def by (rule on_facts_ok) simp_all

lemma hold_ok: "store_ok r \<Longrightarrow> store_ok (hold_pending_playback event r)"
  unfolding hold_pending_playback_def by (auto intro: on_facts_ok)

lemma release_playback_ok: "store_ok r \<Longrightarrow> store_ok (release_pending_playback E key r)"
  by (simp add: release_pending_playback_def splice_into_ok forget_held_ok split: option.split)

lemma join_conversation_keeps: "keeps K (join_conversation E who nick_text body self_join)"
proof -
  have eq: "join_conversation E who nick_text body self_join = (\<lambda>fc. append_event E body (\<not> self_join) True (on_conv (\<lambda>conv.
      (if self_join then map_channel (\<lambda>channel. channel\<lparr>ch_joined := True,
         ch_history_anchor := Some (int (cs_trimmed conv) + int (length (cs_messages conv)))\<rparr>) (map_channel (insert_member who nick_text) conv)
       else map_channel (insert_member who nick_text) conv)) fc))"
    by (auto simp: join_conversation_def on_conv_def split_beta Let_def map_channel_def)
  show ?thesis
    unfolding eq by (rule keeps_compose [OF keeps_append(1)], rule keeps_on_conv)
      (simp_all add: map_channel_def badges_ok_def is_channel_conversation_def)
qed

lemma reduce_join_ok: "store_ok r \<Longrightarrow> store_ok (reduce_join E net chan who account realname r)"
  unfolding reduce_join_def Let_def
  by (rule ensure_key_case) (auto intro!: on_facts_ok on_conversation_ok release_playback_ok join_conversation_keeps)

lemma depart_keeps: "keeps K (on_conv (depart_channel who gone))"
  by (rule keeps_on_conv) (simp_all add: depart_channel_def map_channel_def badges_ok_def Let_def is_channel_conversation_def)

lemma clear_hint_keeps: "keeps K (on_conv (\<lambda>conv. conv\<lparr>cs_typing := g conv\<rparr>))"
  by (rule keeps_on_conv) (simp_all add: badges_ok_def)

lemma part_keeps: "keeps K (part_conversation E who nick_text gone)"
  unfolding part_conversation_def by (rule keeps_compose [OF clear_hint_keeps keeps_append(1)])

lemma kick_keeps: "keeps K (kick_conversation E who target gone arrival)"
  unfolding keeps_def
proof (intro allI impI)
  fix B D fc assume "kept K B D fc"
  then have k: "kept K B D (append_event E (target @ '' was kicked'') False False fc)" (is "kept _ _ _ ?fc")
    by (rule kept_append)
  have "kept K B D (on_conv (\<lambda>conv. conv\<lparr>cs_typing := g conv\<rparr>) ?fc)" for g
    using clear_hint_keeps k unfolding keeps_def by blast
  note hint = this [unfolded on_conv_def]
  have "kept K B D ((fst ?fc)\<lparr>f_inbox_arrival := Some arrival\<rparr>, (snd ?fc)\<lparr>cs_typing := []\<rparr>)"
    using kept_claims [OF hint, of D "(fst ?fc)\<lparr>f_inbox_arrival := Some arrival\<rparr>" "\<lambda>_. []"] kept_shape [OF hint [of "\<lambda>_. []"]] by simp
  then show "kept K B D (kick_conversation E who target gone arrival fc)"
    using hint [of "\<lambda>conv. bt_remove who (cs_typing conv)"] by (simp add: kick_conversation_def split_beta Let_def)
qed

lemma reduce_part_ok: "store_ok r \<Longrightarrow> store_ok (reduce_part E net chan who r)"
  by (auto simp: reduce_part_def Let_def split: option.split intro!: on_conversation_ok forget_unseen_ok part_keeps depart_keeps)

lemma reduce_kick_ok: "store_ok r \<Longrightarrow> store_ok (reduce_kick E net chan target author reason r)"
  by (auto simp: reduce_kick_def Let_def split: option.split intro!: on_conversation_ok forget_unseen_ok kick_keeps depart_keeps)

lemma members_keep:
  assumes "kept K B D (f, c)" "cs_channel c = Some channel"
  shows "kept K B D (f, c\<lparr>cs_channel := Some channel'\<rparr>)"
  by (rule kept_frame [OF assms(1)]) (use assms(2) kept_badges [OF assms(1)] in \<open>simp_all add: is_channel_conversation_def badges_ok_def\<close>)

lemma quit_keeps: "keeps K (quit_conversation E net who body)"
  unfolding keeps_def by (auto simp: quit_conversation_def Let_def split: option.split intro!: kept_append members_keep)

lemma nick_keeps: "keeps K (nick_conversation E net old_norm new_norm new_nick body)"
  unfolding keeps_def by (auto simp: nick_conversation_def Let_def split: option.split intro!: kept_append members_keep)

lemma typing_map_ok: "store_ok r \<Longrightarrow> (\<And>c. cs_messages (h c) = cs_messages c \<and> cs_key (h c) = cs_key c \<and> cs_channel (h c) = cs_channel c
    \<and> cs_message_ids (h c) = cs_message_ids c \<and> cs_next_sequence (h c) = cs_next_sequence c \<and> cs_unread (h c) = cs_unread c
    \<and> cs_mentions (h c) = cs_mentions c \<and> cs_unread_mark (h c) = cs_unread_mark c)
    \<Longrightarrow> store_ok (r\<lparr>rd_conversations := bt_map_values h (rd_conversations r)\<rparr>)"
  by (rule store_ok_map, assumption, rule keeps_on_conv) (simp_all add: is_channel_conversation_def badges_ok_def)

lemma reduce_quit_ok: "store_ok r \<Longrightarrow> store_ok (reduce_quit E net who r)"
  unfolding reduce_quit_def Let_def clear_typing_everywhere_def
  by (rule typing_map_ok, intro forget_unseen_ok for_each_ok quit_keeps) simp_all

text \<open>A direct conversation that moves to a new key takes no claim with it.\<close>

lemma direct_unclaimed:
  "store_ok r \<Longrightarrow> bt_get (rd_conversations r) K = Some c \<Longrightarrow> \<not> is_channel_conversation c
   \<Longrightarrow> f_channel_context_msgids (rd_facts r) mid \<noteq> Some K"
  using kept_shape [OF store_okD] by (fastforce simp: claims_ok_def)

lemma move_direct_ok:
  assumes r: "store_ok r" "bt_get (rd_conversations r) old_key = Some direct" "\<not> is_channel_conversation direct" "old_key \<noteq> new_key"
  shows "store_ok (move_direct old_key new_key new_nick r)"
proof -
  let ?moved = "direct\<lparr>cs_key := new_key, cs_target := new_nick\<rparr>"
  define r1 where "r1 = on_facts (\<lambda>f. if old_key \<in> f_muted_keys f then f\<lparr>f_muted_keys := insert new_key (f_muted_keys f - {old_key})\<rparr> else f)
    (r\<lparr>rd_conversations := bt_remove old_key (rd_conversations r)\<rparr>)"
  have "store_ok (r\<lparr>rd_conversations := bt_remove old_key (rd_conversations r), rd_facts := rd_facts r\<rparr>)"
    using r direct_unclaimed [OF r(1-3)] by (intro store_ok_shrink [where P = "\<lambda>K. K \<noteq> old_key"]) (auto simp: store_ok_def)
  then have r1: "store_ok r1"
    unfolding r1_def by (intro on_facts_ok) simp_all
  have k: "kept old_key False (others r old_key) (rd_facts r, direct)"
    using store_okD [OF r(1,2)] r(3) by simp
  have badges: "cs_mentions ?moved \<le> cs_unread ?moved"
    using kept_badges [OF k] by (simp add: badges_ok_def)
  have ctx: "f_channel_context_msgids (rd_facts r1) = f_channel_context_msgids (rd_facts r)"
    by (simp add: r1_def on_facts_def)
  have "kept new_key False (others r1 new_key) (rd_facts r1, ?moved)" if "\<not> bt_contains (rd_conversations r1) new_key"
  proof -
    have "claims_ok new_key False (others r1 new_key) (f_channel_context_msgids (rd_facts r1)) (cs_message_ids direct)"
      using that r1 by (auto simp: claims_ok_def store_ok_def)
    then have k': "kept new_key False (others r1 new_key) (rd_facts r1, direct\<lparr>cs_key := new_key\<rparr>)"
      by (rule kept_rekey [OF k])
    show ?thesis
      by (rule kept_frame [OF k']) (use kept_badges [OF k'] in \<open>simp_all add: badges_ok_def\<close>)
  qed
  then have "store_ok (if bt_contains (rd_conversations r1) new_key then on_conversation new_key (merge_conversations new_nick ?moved) r1
      else r1\<lparr>rd_conversations := bt_insert new_key ?moved (rd_conversations r1)\<rparr>)"
    using on_conversation_ok [OF r1, of new_key "merge_conversations new_nick ?moved"] kept_merge [OF _ badges]
      store_ok_insert [OF r1, of new_key False "rd_facts r1" ?moved] by (auto simp: keeps_def)
  then show ?thesis
    unfolding move_direct_def r(2) option.case Let_def r1_def [symmetric] by (rule on_facts_ok) simp
qed

lemma rename_direct_ok:
  assumes "store_ok r"
  shows "store_ok (rename_direct E old_key new_key new_nick body r)"
proof (cases "bt_get (rd_conversations r) old_key")
  case None
  then show ?thesis using assms by (simp add: rename_direct_def)
next
  case (Some direct)
  define g where "g = (\<lambda>(f, conv). append_event E body True True (f, conv\<lparr>cs_target := new_nick\<rparr>))"
  have "keeps old_key (on_conv (\<lambda>conv. conv\<lparr>cs_target := new_nick\<rparr>))"
    by (rule keeps_on_conv) (simp_all add: badges_ok_def)
  moreover have "g = (\<lambda>fc. append_event E body True True (on_conv (\<lambda>conv. conv\<lparr>cs_target := new_nick\<rparr>) fc))"
    by (auto simp: g_def on_conv_def)
  ultimately have g: "keeps old_key g"
    using keeps_compose [OF keeps_append(1)] by simp
  have ok: "store_ok (on_conversation old_key g r)"
    using assms g by (rule on_conversation_ok)
  have get: "bt_get (rd_conversations (on_conversation old_key g r)) old_key = Some (snd (g (rd_facts r, direct)))"
    using Some by (simp add: on_conversation_def split_beta)
  have "kept old_key (is_channel_conversation direct) (others r old_key) (g (rd_facts r, direct))"
    using store_okD [OF assms Some] g by (simp add: keeps_def)
  then have "is_channel_conversation (snd (g (rd_facts r, direct))) = is_channel_conversation direct"
    using kept_shape by blast
  then show ?thesis
    using assms ok move_direct_ok [OF ok get] Some
    by (cases "old_key = new_key") (simp_all add: rename_direct_def Let_def flip: g_def)
qed

lemma reduce_nick_ok: "store_ok r \<Longrightarrow> store_ok (reduce_nick E net old_nick new_nick r)"
  unfolding reduce_nick_def Let_def rekey_typing_def
  by (rule rename_direct_ok, rule for_each_ok, rule typing_map_ok, rule on_facts_ok)
    (auto intro!: refresh_ok on_facts_ok nick_keeps split: option.split)

lemma mode_keeps: "keeps K (mode_conversation E net caption changes)"
  unfolding keeps_def
proof (intro allI impI)
  fix B D fc assume "kept K B D fc"
  then have k: "kept K B D (append_event E caption False False fc)"
    by (rule kept_append)
  show "kept K B D (mode_conversation E net caption changes fc)"
    using map_channel_keeps k unfolding keeps_def mode_conversation_def on_conv_def Let_def split_beta by blast
qed

lemma channel_events_ok:
  assumes "store_ok r"
  shows "store_ok (reduce_topic E net chan topic keep_it r)" "store_ok (reduce_names E net chan names complete now r)"
    "store_ok (reduce_mode E net target author mode arguments r)"
  using assms unfolding reduce_topic_def reduce_names_def reduce_mode_def Let_def
  by (auto intro!: ensure_key_case on_conversation_ok map_channel_keeps mode_keeps)

lemma absorb_ok: "store_ok r \<Longrightarrow> store_ok (fst (absorb_pending_query_playback E event r))"
proof -
  assume r: "store_ok r"
  have held: "store_ok (on_facts (\<lambda>f. f\<lparr>f_pending_playback := g f\<rparr>) r)" for g
    using r by (rule on_facts_ok) simp
  show ?thesis
    using r held
    by (auto simp: absorb_pending_query_playback_def Let_def fst_case split: option.split
        intro!: forget_held_ok splice_into_ok ensure_key_case)
qed

lemma open_for_replay_ok: "store_ok r \<Longrightarrow> store_ok (fst (open_for_replay E event r))"
  by (auto simp: open_for_replay_def Let_def intro!: hold_ok ensure_key_ok)

lemma reduce_history_ok: "store_ok r \<Longrightarrow> store_ok (reduce_history E event r)"
proof -
  assume r: "store_ok r"
  define x where "x = (if he_kind event = BouncerPlayback then absorb_pending_query_playback E event r else (r, False))"
  have x: "store_ok (fst x)"
    using r absorb_ok by (simp add: x_def)
  have "store_ok (case x of (r, True) \<Rightarrow> r | (r, False) \<Rightarrow> (case open_for_replay E event r of (r, False) \<Rightarrow> r
      | (r, True) \<Rightarrow> splice_into E (he_conversation event) event ConsumeAnchor r))"
    using x open_for_replay_ok [of "fst x" E event] splice_into_ok by (cases x) (auto split: prod.split bool.split)
  then show ?thesis
    using r unfolding reduce_history_def Let_def x_def [symmetric] by (auto intro: hold_ok splice_into_ok)
qed

lemma reduce_typing_ok: "store_ok r \<Longrightarrow> store_ok (reduce_typing key who ph at r)"
  unfolding reduce_typing_def Let_def
  by (rule on_conversation_ok, assumption, rule keeps_on_conv) (auto simp: typing_conversation_def badges_ok_def split: option.split)

lemma presence_events_ok:
  assumes "store_ok r"
  shows "store_ok (reduce_nick_facts net who realname operator r)" "store_ok (reduce_account net who account r)"
    "store_ok (reduce_away E net who away realname2 only r)" "store_ok (reduce_self_away net gone r)"
    "store_ok (reduce_member_metadata net who key val r)"
  using assms unfolding reduce_nick_facts_def reduce_account_def reduce_away_def reduce_self_away_def reduce_member_metadata_def Let_def
  by (auto intro!: on_facts_ok split: option.split)

lemma reduce_event_ok: "store_ok r \<Longrightarrow> store_ok (reduce_event E now event r)"
  by (cases event)
    (simp_all add: welcome_ok reduce_message_def reduce_notice_def reduce_action_def append_chat_ok reduce_join_ok reduce_part_ok
      reduce_quit_ok reduce_nick_ok reduce_kick_ok channel_events_ok presence_events_ok reduce_typing_ok reduce_history_ok
      reduce_whois_transcript_def reduce_channel_error_def on_conversation_ok keeps_append)

text \<open>Every other public method.\<close>

lemma remove_ok:
  assumes "store_ok r"
  shows "store_ok (remove_conversation key r)"
proof -
  have "f_channel_context_msgids (clear_channel_context_home key f) mid = Some home \<longleftrightarrow> f_channel_context_msgids f mid = Some home \<and> home \<noteq> key" for f mid home
    by (auto simp: clear_channel_context_home_def map_retain_def split: option.split)
  note home = this
  have shrink: "store_ok (r\<lparr>rd_conversations := bt_remove key (rd_conversations r), rd_facts := clear_channel_context_home key f\<rparr>)"
    if "f_channel_context_msgids f = f_channel_context_msgids (rd_facts r)" for f
    by (rule store_ok_shrink [where P = "\<lambda>K. K \<noteq> key"]) (use assms that in \<open>auto simp: home store_ok_def\<close>)
  have swap: "r\<lparr>rd_facts := f, rd_conversations := store\<rparr> = r\<lparr>rd_conversations := store, rd_facts := f\<rparr>" for f store
    by simp
  show ?thesis
    unfolding remove_conversation_def Let_def swap by (rule shrink) simp
qed

lemma forget_network_ok:
  assumes "store_ok r"
  shows "store_ok (forget_network net r)"
proof (cases "net = []")
  case True
  then show ?thesis using assms by (simp add: forget_network_def)
next
  case False
  have ctx: "f_channel_context_msgids (clear_channel_context_network net f) mid = Some home
      \<longleftrightarrow> f_channel_context_msgids f mid = Some home \<and> network_id home \<noteq> net" for f mid home
    by (auto simp: clear_channel_context_network_def map_retain_def split: option.split)
  have get: "bt_get (bt_retain (\<lambda>key _. network_id key \<noteq> net) (rd_conversations r)) K
      = (if network_id K \<noteq> net then bt_get (rd_conversations r) K else None)" for K
    using assms by (simp add: store_ok_def bt_get_retain split: option.split)
  have "store_ok (r\<lparr>rd_conversations := bt_retain (\<lambda>key _. network_id key \<noteq> net) (rd_conversations r), rd_facts := f\<rparr>)"
    if "\<And>mid home. f_channel_context_msgids f mid = Some home \<Longrightarrow> f_channel_context_msgids (rd_facts r) mid = Some home \<and> network_id home \<noteq> net" for f
    using assms get that by (intro store_ok_shrink [where P = "\<lambda>K. network_id K \<noteq> net"]) (auto simp: store_ok_def)
  note shrink = this
  show ?thesis
    unfolding forget_network_def Let_def if_not_P [OF False]
    by (rule shrink) (simp add: ctx)
qed

lemma clear_messages_ok: "store_ok r \<Longrightarrow> store_ok (clear_messages key r)"
  unfolding clear_messages_def
proof (rule on_conversation_ok, assumption)
  let ?h = "\<lambda>conv. map_channel (\<lambda>channel. channel\<lparr>ch_history_anchor := None\<rparr>)
    (conv\<lparr>cs_trimmed := cs_trimmed conv + length (cs_messages conv), cs_messages := [], cs_splice_epoch := cs_splice_epoch conv + 1\<rparr>)"
  have "kept K B D (fst fc, ?h (snd fc))" if k: "kept K B D fc" for K B D fc
  proof -
    have c: "kept K B D (fst fc, (snd fc)\<lparr>cs_messages := []\<rparr>)"
      using kept_clear [of K B D "fst fc" "snd fc"] k by simp
    show ?thesis
      by (rule kept_frame [OF c]) (use kept_badges [OF c] in \<open>simp_all add: map_channel_def badges_ok_def is_channel_conversation_def\<close>)
  qed
  then show "keeps key (on_conv ?h)"
    by (simp add: keeps_def on_conv_def)
qed

lemma recount_keeps: "keeps K (\<lambda>(f, conv). (f, recount_unread_from_read_marker E f key (conv\<lparr>cs_read_marker := marker\<rparr>)))"
proof -
  have row: "cs_messages (recount_row E f key c m) = cs_messages c \<and> cs_key (recount_row E f key c m) = cs_key c
      \<and> is_channel_conversation (recount_row E f key c m) = is_channel_conversation c
      \<and> cs_message_ids (recount_row E f key c m) = cs_message_ids c \<and> cs_next_sequence (recount_row E f key c m) = cs_next_sequence c
      \<and> (badges_ok c \<longrightarrow> 0 \<le> m_sequence m \<longrightarrow> m_sequence m < cs_next_sequence c \<longrightarrow> badges_ok (recount_row E f key c m))" for f c m
    by (auto simp: recount_row_def Let_def badges_ok_def split_beta)
  have rows: "cs_messages (foldl (recount_row E f key) c ms) = cs_messages c \<and> cs_key (foldl (recount_row E f key) c ms) = cs_key c
      \<and> is_channel_conversation (foldl (recount_row E f key) c ms) = is_channel_conversation c
      \<and> cs_message_ids (foldl (recount_row E f key) c ms) = cs_message_ids c \<and> cs_next_sequence (foldl (recount_row E f key) c ms) = cs_next_sequence c
      \<and> (badges_ok c \<longrightarrow> (\<forall>m \<in> set ms. 0 \<le> m_sequence m \<and> m_sequence m < cs_next_sequence c) \<longrightarrow> badges_ok (foldl (recount_row E f key) c ms))" for f c ms
    by (induction ms rule: rev_induct) (auto simp: row)
  have "kept K B D (f, recount_unread_from_read_marker E f key (c\<lparr>cs_read_marker := marker\<rparr>))" if k: "kept K B D (f, c)" for B D f c
    by (rule kept_frame [OF k])
      (use rows [of f "c\<lparr>cs_read_marker := marker, cs_unread := 0, cs_mentions := 0, cs_unread_mark := None\<rparr>" "cs_messages c"]
         kept_sequences [OF k] in \<open>auto simp: recount_unread_from_read_marker_def badges_ok_def\<close>)
  then show ?thesis
    by (auto simp: keeps_def)
qed

lemma release_query_ok: "store_ok (fst s) \<Longrightarrow> store_ok (fst (release_held_query E s key))"
  unfolding release_held_query_def split_beta Let_def
  by (auto intro!: forget_held_ok splice_into_ok ensure_key_ok split: option.split bool.split)

lemma release_queries_ok: "store_ok r \<Longrightarrow> store_ok (fst (release_pending_query_playback E net r))"
proof -
  assume r: "store_ok r"
  have "store_ok (fst (foldl (release_held_query E) s keys))" if "store_ok (fst s)" for s keys
    using that by (induction keys rule: rev_induct) (simp_all add: release_query_ok)
  then show ?thesis
    using r on_facts_ok [OF r, of "\<lambda>f. f\<lparr>f_query_restore_pending := f_query_restore_pending f - {net}\<rparr>"]
    unfolding release_pending_query_playback_def Let_def by simp
qed

lemma reducer_step_ok: "reducer_step E r r' \<Longrightarrow> store_ok r \<Longrightarrow> store_ok r'"
proof (induction rule: reducer_step.induct)
  case (rstep_apply r event now)
  then show ?case
    by (auto simp: reducer_apply_def Let_def intro!: reduce_event_ok on_facts_ok)
next
  case (rstep_all_read r)
  then show ?case
    by (auto simp: mark_all_read_def badges_ok_def intro!: store_ok_map keeps_on_conv)
qed (auto simp: ensure_conversation_def split_beta Let_def drop_direct_message_def drop_channel_def set_closed_persistence_def
    note_closed_def clear_closed_def mark_channel_left_def set_muted_def mark_selected_def mark_read_def mark_history_page_cap_tail_def
    clear_history_page_cap_tail_def clear_selection_def set_membership_noise_def set_window_active_def set_conversation_log_def
    set_server_features_def set_highlight_words_def release_stale_names_sync_def clear_typing_facts_def clear_presence_facts_def
    take_mention_arrival_def take_inbox_arrival_def apply_server_read_marker_def take_remembered_queries_def take_kept_replay_def
    map_channel_def badges_ok_def is_channel_conversation_def
    intro!: ensure_key_ok remove_ok on_facts_ok forget_network_ok clear_messages_ok refresh_ok typing_map_ok
      on_conversation_ok recount_keeps release_queries_ok map_channel_keeps keeps_on_conv
    split: option.split if_splits)

lemma reachable_store_ok: "reducer_reachable E r \<Longrightarrow> store_ok r"
  by (induction rule: reducer_reachable.induct) (auto simp: store_ok_def new_reducer_def new_facts_def dest: reducer_step_ok)

end

section \<open>The invariant of the transcripts\<close>

interpretation transcripts: conversation_contract good
proof
  show "cs_key (snd fc) = K \<and> is_channel_conversation (snd fc) = B
      \<and> claims_ok K B D (f_channel_context_msgids (fst fc)) (cs_message_ids (snd fc))" if "good K B D fc" for K B D fc
    using that by (simp add: good_def loose_def)
next
  show "good K B D (f, (new_conversation K target)\<lparr>cs_muted := muted, cs_channel := if B then Some default_channel else None\<rparr>)"
    if "claims_ok K B D (f_channel_context_msgids f) {}" for K B D f target muted
    using that by (simp add: good_def loose_def rows_ok_def seqs_ok_def msgids_ok_def badges_ok_def new_conversation_def
        is_channel_conversation_def)
next
  show "good K B D (f, c')" if "good K B D (f, c)" "cs_key c' = cs_key c" "is_channel_conversation c' = is_channel_conversation c"
    "map m_sequence (cs_messages c') = map m_sequence (cs_messages c)" "map m_msgid (cs_messages c') = map m_msgid (cs_messages c)"
    "cs_message_ids c' = cs_message_ids c" "cs_next_sequence c' = cs_next_sequence c" "badges_ok c'" for K B D f c c'
    using that map_eq_imp_length_eq [OF that(4)] by (simp add: good_def loose_def rows_ok_def)
next
  show "good K B D (f, c\<lparr>cs_messages := []\<rparr>)" if "good K B D (f, c)" for K B D f c
    using that by (simp add: good_def loose_def rows_ok_def seqs_ok_def msgids_ok_def badges_ok_def is_channel_conversation_def)
next
  show "good K' False D' (f', c\<lparr>cs_key := K'\<rparr>)"
    if "good K False D (f, c)" "claims_ok K' False D' (f_channel_context_msgids f') (cs_message_ids c)" for K K' D D' f f' c
    using that by (simp add: good_def loose_def badges_ok_def is_channel_conversation_def)
next
  show "\<forall>m \<in> set (cs_messages c). 0 \<le> m_sequence m \<and> m_sequence m < cs_next_sequence c" if "good K B D (f, c)" for K B D f c
    using that by (simp add: good_def loose_def rows_ok_def seqs_ok_def)
next
  show "good K B D' (f', c)" if "good K B D (f, c)" "claims_ok K B D' (f_channel_context_msgids f') (cs_message_ids c)" for K B D D' f f' c
    using that by (simp add: good_def loose_def)
next
  show "badges_ok c" if "good K B D (f, c)" for K B D f c
    using that by (simp add: good_def loose_def)
qed (simp_all add: hydrate_good append_event_good append_plain_good admit_chat_good merge_conversations_good splice_history_good)

end
