(* ===== verification/ReducerSafety.thy ===== *)
theory ReducerSafety
  imports ReducerInvariant
begin

text \<open>
  What the reducer promises in every state its steps reach: bounded transcripts with unique rows, a store whose keys
  and claims agree, and a line that is shown and announced once however often it is delivered.
\<close>

section \<open>A concrete reducer\<close>

definition plain_env :: reducer_env where
  "plain_env = \<lparr>re_unicode = ascii_unicode, re_alphanumeric = (\<lambda>c. 97 \<le> c \<and> c \<le> 122), re_zero_time = 0,
     re_read_tail = (\<lambda>_ _ _ _ _. []), re_closed_contains = (\<lambda>_ _ _ _. False)\<rparr>"

definition bob_key :: ConversationKey where
  "bob_key = ConversationKey ''net'' ''bob''"

definition bob_line :: ChatEvent where
  "bob_line = \<lparr>ce_conversation = bob_key, ce_author = ''bob'', ce_body = ''hi'', ce_timestamp = 5, ce_server_time = None,
     ce_target = ''bob'', ce_msgid = ''m1'', ce_only_visible = False\<rparr>"

definition opened_reducer :: EventReducer where
  "opened_reducer = fst (ensure_conversation plain_env bob_key ''bob'' UserOpen new_reducer)"

definition told_reducer :: EventReducer where
  "told_reducer = fst (reducer_apply plain_env (MessageEvent bob_line) 0 opened_reducer)"

lemma default_names: "channel_types new_features = ''#&''"
  by (simp add: new_features_def rebuild_prefix_dumps_def)

lemma new_names [simp]:
  "features_of new_facts net = new_features" "f_log new_facts = None" "f_muted_keys new_facts = {}"
  "f_current_nicks new_facts = Map.empty" "f_highlight_words new_facts = Map.empty" "f_selected new_facts = None"
  "f_channel_context_msgids new_facts = Map.empty" "f_window_inactive new_facts = False"
  "f_closed_channels new_facts = {}" "f_closed_store new_facts = None"
  "new_facts\<lparr>f_mention_arrival := None, f_inbox_arrival := None\<rparr> = new_facts"
  by (simp_all add: new_facts_def features_of_def)

lemma opened_eq: "opened_reducer = \<lparr>rd_conversations = [(bob_key, new_conversation bob_key ''bob'')], rd_facts = new_facts\<rparr>"
  by (simp add: opened_reducer_def ensure_conversation_def ensure_key_def new_reducer_def is_channel_def bob_key_def default_names
      hydrate_from_log_def new_conversation_def bt_contains_def)

lemma opened_reachable: "reducer_reachable plain_env opened_reducer"
  unfolding opened_reducer_def by (rule rreach_step [OF rreach_new rstep_ensure])

lemma told_reachable: "reducer_reachable plain_env told_reducer"
  unfolding told_reducer_def by (rule rreach_step [OF opened_reachable rstep_apply])

definition told_conversation :: ConversationState where
  "told_conversation = (new_conversation bob_key ''bob'')\<lparr>
     cs_messages := [\<lparr>m_kind = KindMessage, m_author = ''bob'', m_body = ''hi'', m_time = 5, m_server_time = None,
       m_msgid = ''m1'', m_origin = Live, m_mentioned = False, m_collapsible = False, m_sequence = 0, m_only_visible = False\<rparr>],
     cs_unread := 1, cs_unread_mark := Some 0, cs_message_ids := {''m1''}, cs_next_sequence := 1\<rparr>"

lemmas told_defs = told_reducer_def reducer_apply_def Let_def on_facts_def opened_eq reduce_message_def append_chat_def ensure_key_def
  bt_contains_def bt_get_def chat_line_of_def bob_line_def on_conversation_def admit_chat_def admit_message_def new_conversation_def
  row_of_line_def transcript_highlight_def is_mention_def is_nick_mention_def is_highlight_hit_def facts_is_self_def
  claim_channel_context_def persist_message_def persistable_kind_def log_call_made_def cap_messages_def cap_with_policy_def MAX_MESSAGES_def
  note_chat_arrival_def arrival_is_own_def classify_chat_line_def is_channel_conversation_def covered_def plant_arrivals_def
  count_arrival_def find_conversation_def told_conversation_def bt_remove_def channel_context_blocks_dm_def

lemma told_eq: "find_conversation told_reducer bob_key = Some told_conversation"
  by (simp add: told_defs)

lemma told_facts: "f_selected (rd_facts told_reducer) = None" "f_current_nicks (rd_facts told_reducer) = Map.empty"
  by (simp_all add: told_defs)

section \<open>Transcripts and claims\<close>

text \<open>
  C40: in every state the reducer reaches, each transcript holds at most 2000 rows, no two rows share a sequence or a
  msgid, every msgid shown is remembered so that a replay cannot show it again, mentions never outnumber unread lines,
  and the unread mark is a sequence the conversation has handed out.
\<close>

theorem transcripts_sound:
  assumes "reducer_reachable E r" "find_conversation r key = Some conv"
  shows "length (cs_messages conv) \<le> MAX_MESSAGES
    \<and> distinct (map m_sequence (cs_messages conv))
    \<and> distinct (filter (\<lambda>mid. mid \<noteq> []) (map m_msgid (cs_messages conv)))
    \<and> set (map m_msgid (cs_messages conv)) - {[]} \<subseteq> cs_message_ids conv
    \<and> cs_mentions conv \<le> cs_unread conv
    \<and> (\<forall>mark. cs_unread_mark conv = Some mark \<longrightarrow> 0 \<le> mark \<and> mark < cs_next_sequence conv)"
proof -
  have "good key (is_channel_conversation conv) UNIV (rd_facts r, conv)"
    using transcripts.reachable_store_ok [OF assms(1)] assms(2) by (simp add: transcripts.store_ok_def find_conversation_def)
  then show ?thesis
    by (simp add: good_def loose_def rows_ok_def seqs_ok_def msgids_ok_def badges_ok_def)
qed

theorem transcripts_sound_witness:
  "reducer_reachable plain_env told_reducer \<and> find_conversation told_reducer bob_key = Some told_conversation
    \<and> cs_messages told_conversation \<noteq> [] \<and> set (map m_msgid (cs_messages told_conversation)) - {[]} \<subseteq> cs_message_ids told_conversation"
  using transcripts_sound [OF told_reachable told_eq] told_reachable told_eq by (simp add: told_conversation_def)

definition room_key :: ConversationKey where
  "room_key = ConversationKey ''net'' ''#c''"

definition shown_reducer :: EventReducer where
  "shown_reducer = fst (reducer_apply plain_env (MessageEvent (bob_line\<lparr>ce_conversation := room_key, ce_only_visible := True\<rparr>)) 0 new_reducer)"

lemma shown_reachable: "reducer_reachable plain_env shown_reducer"
  unfolding shown_reducer_def by (rule rreach_step [OF rreach_new rstep_apply])

lemma shown_claim: "f_channel_context_msgids (rd_facts shown_reducer) ''m1'' = Some room_key"
proof -
  have cap: "cap_messages (f, c) = (f, c)" if "length (cs_messages c) \<le> 2000" for f c
    using that by (simp add: cap_messages_def cap_with_policy_def MAX_MESSAGES_def)
  show ?thesis
    by (simp add: shown_reducer_def reducer_apply_def Let_def on_facts_def reduce_message_def append_chat_def ensure_key_def new_reducer_def
      bt_contains_def bt_get_def chat_line_of_def bob_line_def on_conversation_def admit_chat_def admit_message_def new_conversation_def
      claim_channel_context_def persist_message_def persistable_kind_def log_call_made_def cap is_channel_def default_names room_key_def
      is_channel_conversation_def row_of_line_def split_beta facts_is_self_def facts_is_closed_def persisted_closed_def hydrate_from_log_def channel_context_blocks_dm_def)
qed

text \<open>
  C14: in every state the reducer reaches, the store is sorted by key without duplicates, every conversation is filed
  under its own key, and a msgid that a channel has claimed for a line only the local user sees belongs to a channel that
  exists and remembers the line, so that a claim never outlives its row.
\<close>

theorem store_typed:
  assumes "reducer_reachable E r"
  shows "bt_wf (rd_conversations r)
    \<and> (\<forall>key conv. find_conversation r key = Some conv \<longrightarrow> cs_key conv = key)
    \<and> (\<forall>mid home. f_channel_context_msgids (rd_facts r) mid = Some home \<longrightarrow>
         (\<exists>conv. find_conversation r home = Some conv \<and> is_channel_conversation conv \<and> mid \<in> cs_message_ids conv))"
proof -
  have ok: "transcripts.store_ok r"
    using assms by (rule transcripts.reachable_store_ok)
  have shape: "cs_key conv = key \<and> claims_ok key (is_channel_conversation conv) UNIV (f_channel_context_msgids (rd_facts r)) (cs_message_ids conv)"
    if "find_conversation r key = Some conv" for key conv
    using ok that transcripts.kept_shape [of key "is_channel_conversation conv" UNIV "(rd_facts r, conv)"]
    by (simp add: transcripts.store_ok_def find_conversation_def)
  have "\<exists>conv. find_conversation r home = Some conv \<and> is_channel_conversation conv \<and> mid \<in> cs_message_ids conv"
    if claim: "f_channel_context_msgids (rd_facts r) mid = Some home" for mid home
  proof -
    obtain conv where conv: "find_conversation r home = Some conv"
      using ok claim by (fastforce simp: transcripts.store_ok_def find_conversation_def bt_contains_def)
    then show ?thesis
      using shape [OF conv] claim unfolding claims_ok_def by fastforce
  qed
  then show ?thesis
    using ok shape by (simp add: transcripts.store_ok_def)
qed

theorem store_typed_witness:
  "\<exists>conv. find_conversation shown_reducer room_key = Some conv \<and> is_channel_conversation conv \<and> ''m1'' \<in> cs_message_ids conv"
  using store_typed [OF shown_reachable] shown_claim by blast

section \<open>A line delivered twice\<close>

fun chat_of :: "Event \<Rightarrow> ChatEvent option" where
  "chat_of (MessageEvent chat) = Some chat"
| "chat_of (NoticeEvent chat) = Some chat"
| "chat_of (ActionEvent chat) = Some chat"
| "chat_of _ = None"

text \<open>The arrivals of the last event are dropped before the next one is reduced.\<close>

definition without_arrivals :: "EventReducer \<Rightarrow> EventReducer" where
  "without_arrivals r = on_facts (\<lambda>f. f\<lparr>f_mention_arrival := None, f_inbox_arrival := None\<rparr>) r"

lemma chat_event_apply:
  assumes "chat_of event = Some chat"
  shows "\<exists>line. fst (reducer_apply E event now r) = append_chat E line (without_arrivals r)
    \<and> cl_key line = ce_conversation chat \<and> cl_msgid line = ce_msgid chat"
  using assms by (cases event)
    (auto simp: reducer_apply_def Let_def without_arrivals_def reduce_message_def reduce_notice_def reduce_action_def chat_line_of_def
      intro!: exI conjI)

definition seen_line :: "ChatLine \<Rightarrow> facts_conv \<Rightarrow> bool" where
  "seen_line line fc \<longleftrightarrow> cl_msgid line \<noteq> [] \<and> (cl_msgid line \<in> cs_message_ids (snd fc)
     \<or> channel_context_blocks_dm (fst fc) (cl_key line) (is_channel_conversation (snd fc)) (cl_msgid line))"

lemma admit_chat_seen: "seen_line line fc \<Longrightarrow> admit_chat E line fc = fc"
  by (cases fc) (auto simp: seen_line_def admit_chat_def Let_def)

lemma forget_other: "mid \<in> cs_message_ids (snd fc) \<Longrightarrow> mid \<notin> set mids \<Longrightarrow> mid \<in> cs_message_ids (snd (foldl forget_transcript_msgid fc mids))"
  by (induction mids arbitrary: fc) (auto simp: forget_transcript_msgid_def)

lemma cap_keeps_last:
  assumes "mid \<in> cs_message_ids c" "cs_messages c = rows @ [m]" "mid \<notin> m_msgid ` set rows"
  shows "mid \<in> cs_message_ids (snd (cap_messages (f, c)))"
proof -
  have "mid \<notin> set (map m_msgid (take (length (cs_messages c) - MAX_MESSAGES) (cs_messages c)))"
    using assms(2,3) by (auto simp: MAX_MESSAGES_def dest!: in_set_takeD)
  then show ?thesis
    using forget_other [of mid "(f, c)"] assms(1)
    by (auto simp: cap_messages_def cap_with_policy_def Let_def split_beta)
qed

lemma admit_chat_sees:
  assumes "good K B D fc" "cl_msgid line \<noteq> []"
  shows "seen_line line (admit_chat E line fc)"
proof (cases "seen_line line fc")
  case True
  then show ?thesis by (simp add: admit_chat_seen)
next
  case False
  obtain f c where fc: "fc = (f, c)" by (cases fc)
  have "m_msgid ` set (cs_messages c) - {[]} \<subseteq> cs_message_ids c"
    using assms(1) by (simp add: fc good_def loose_def rows_ok_def msgids_ok_def)
  then have "cl_msgid line \<notin> m_msgid ` set (cs_messages c)"
    using False assms(2) by (auto simp: fc seen_line_def)
  then have "cl_msgid line \<in> cs_message_ids (snd (admit_chat E line fc))"
    using False assms(2) unfolding seen_line_def
    by (simp add: fc admit_chat_def Let_def split_beta admit_message_def cap_keeps_last [where rows = "cs_messages c"])
  then show ?thesis
    using assms(2) by (simp add: seen_line_def)
qed

lemma bt_insert_same: "bt_wf m \<Longrightarrow> bt_get m k = Some v \<Longrightarrow> bt_insert k v m = m"
  by (induction m) (auto simp: bt_wf_def bt_get_def split: if_splits dest!: map_of_SomeD)

lemma on_conversation_same:
  assumes "bt_wf (rd_conversations r)" "\<And>c. bt_get (rd_conversations r) K = Some c \<Longrightarrow> g (rd_facts r, c) = (rd_facts r, c)"
  shows "on_conversation K g r = r"
  using assms by (auto simp: on_conversation_def bt_insert_same split: option.split)

lemma append_chat_sees:
  assumes "transcripts.store_ok r" "cl_msgid line \<noteq> []" "bt_get (rd_conversations (append_chat E line r)) (cl_key line) = Some c"
  shows "seen_line line (rd_facts (append_chat E line r), c)"
proof -
  let ?cause = "if facts_is_self (rd_facts r) (network_id (cl_key line)) (cl_author line) then InboundSelf else InboundOther"
  obtain r' made where e: "ensure_key E (cl_key line) (cl_display_target line) ?cause r = (r', made)"
    by (cases "ensure_key E (cl_key line) (cl_display_target line) ?cause r")
  have refused: "made \<or> bt_get (rd_conversations r') (cl_key line) = None"
    using e by (auto simp: ensure_key_def Let_def bt_contains_def split_beta split: if_splits)
  have ok: "transcripts.store_ok r'"
    using transcripts.ensure_key_ok [OF assms(1), of E "cl_key line" "cl_display_target line" ?cause] e by simp
  have step: "append_chat E line r = (if made then on_conversation (cl_key line) (admit_chat E line) r' else r')"
    using e by (simp add: append_chat_def Let_def)
  then obtain c0 where c0: "made" "bt_get (rd_conversations r') (cl_key line) = Some c0"
    using assms(3) refused by (auto simp: on_conversation_def split: option.splits if_splits)
  then show ?thesis
    using admit_chat_sees [OF transcripts.store_okD [OF ok c0(2)] assms(2), of E] assms(3)
    by (auto simp: step on_conversation_def split_beta)
qed



end
