(* ===== verification/ReducerViews.thy ===== *)
theory ReducerViews
  imports ReducerSafety "HOL-Library.Multiset"
begin

text \<open>
  What the reads of the reducer promise the views: the sidebar order and the row that is selected when another is
  dropped, and the unread badge after the server has moved the read marker.
\<close>

section \<open>The stable sort\<close>

locale preorder_sort =
  fixes le :: "'a \<Rightarrow> 'a \<Rightarrow> bool"
  assumes le_total: "le x y \<or> le y x"
    and le_trans: "le x y \<Longrightarrow> le y z \<Longrightarrow> le x z"
begin

lemma mset_insort: "mset (insort_by le x xs) = add_mset x (mset xs)"
  by (induction xs) auto

lemma mset_sort: "mset (sort_by le xs) = mset xs"
  by (induction xs) (simp_all add: sort_by_def mset_insort)

lemma set_insort: "set (insort_by le x xs) = insert x (set xs)"
  by (induction xs) auto

lemma sorted_insort: "sorted_wrt le xs \<Longrightarrow> sorted_wrt le (insort_by le x xs)"
  using le_total by (induction xs) (auto simp: set_insort intro: le_trans)

lemma sorted_sort: "sorted_wrt le (sort_by le xs)"
  by (induction xs) (simp_all add: sort_by_def sorted_insort)

end

interpretation sidebar: preorder_sort "sidebar_le E r order"
proof
  fix x y z
  show "sidebar_le E r order x y \<or> sidebar_le E r order y x"
    by (auto simp: sidebar_le_def Let_def)
  show "sidebar_le E r order x z" if "sidebar_le E r order x y" "sidebar_le E r order y z"
    using that unfolding sidebar_le_def Let_def by (auto split: if_splits)
qed

section \<open>The sidebar\<close>

definition amy_key :: ConversationKey where
  "amy_key = ConversationKey ''net'' ''amy''"

definition two_reducer :: EventReducer where
  "two_reducer = fst (ensure_conversation plain_env amy_key ''amy'' UserOpen opened_reducer)"

lemma two_reachable: "reducer_reachable plain_env two_reducer"
  unfolding two_reducer_def by (rule rreach_step [OF opened_reachable rstep_ensure])

lemma two_keys: "set (bt_keys (rd_conversations two_reducer)) = {amy_key, bob_key}"
proof -
  have new: "bt_get (rd_conversations opened_reducer) amy_key = None" "bob_key \<noteq> amy_key"
    by (simp_all add: opened_eq bt_get_def amy_key_def bob_key_def)
  have "rd_conversations two_reducer = bt_insert amy_key (new_conversation amy_key ''amy'') (rd_conversations opened_reducer)"
    using new by (simp add: two_reducer_def ensure_conversation_def ensure_key_def bt_contains_def Let_def opened_eq is_channel_def
        amy_key_def default_names hydrate_from_log_def new_conversation_def)
  then show ?thesis
    using new by (simp add: set_eq_iff bt_contains_iff [symmetric] bt_contains_def opened_eq bt_get_def) auto
qed

lemma sidebar_networks_grouped:
  assumes "sidebar_le E r order x y" "sidebar_le E r order y z" "network_id x = network_id z"
  shows "network_id y = network_id x"
  using assms unfolding sidebar_le_def Let_def by (auto split: if_splits)

lemma sidebar_order_rows:
  assumes "bt_wf (rd_conversations r)"
  shows "distinct (sidebar_order_with_networks E r network_order)"
    "set (sidebar_order_with_networks E r network_order) = set (bt_keys (rd_conversations r))"
proof -
  have m: "mset (sidebar_order_with_networks E r network_order) = mset (bt_keys (rd_conversations r))"
    by (simp add: sidebar_order_with_networks_def sidebar.mset_sort)
  then show "distinct (sidebar_order_with_networks E r network_order)"
    using bt_wf_distinct [OF assms] mset_eq_imp_distinct_iff by blast
  show "set (sidebar_order_with_networks E r network_order) = set (bt_keys (rd_conversations r))"
    using mset_eq_setD [OF m] .
qed

lemma sidebar_order_sorted:
  "\<exists>order. (network_order \<noteq> [] \<longrightarrow> order = network_order) \<and> sorted_wrt (sidebar_le E r order) (sidebar_order_with_networks E r network_order)"
  by (intro exI [of _ "if network_order = [] then sidebar_networks r else network_order"])
    (simp add: sidebar_order_with_networks_def Let_def sidebar.sorted_sort)

lemma sidebar_order_grouped:
  assumes "i < j" "j < k" "k < length (sidebar_order_with_networks E r network_order)"
    "network_id (sidebar_order_with_networks E r network_order ! i) = network_id (sidebar_order_with_networks E r network_order ! k)"
  shows "network_id (sidebar_order_with_networks E r network_order ! j) = network_id (sidebar_order_with_networks E r network_order ! i)"
proof -
  obtain order where "sorted_wrt (sidebar_le E r order) (sidebar_order_with_networks E r network_order)"
    using sidebar_order_sorted [of network_order E r] by blast
  note sorted = sorted_wrt_nth_less [OF this]
  show ?thesis
    by (rule sidebar_networks_grouped [OF sorted [OF assms(1)] sorted [OF assms(2)]]) (use assms in simp_all)
qed

text \<open>
  The sidebar lists every conversation exactly once; the conversations of a network stand together, in the order of
  the given networks, and within a network every channel stands above every direct conversation.
\<close>

theorem sidebar_order_correct:
  assumes "reducer_reachable E r" "rows = sidebar_order_with_networks E r network_order" "i < j" "j < length rows"
  shows "distinct rows \<and> set rows = set (bt_keys (rd_conversations r))
    \<and> (network_id (rows ! i) = network_id (rows ! j) \<longrightarrow>
         group_rank (find_conversation r (rows ! i)) \<le> group_rank (find_conversation r (rows ! j))
         \<and> (\<forall>k. i < k \<and> k < j \<longrightarrow> network_id (rows ! k) = network_id (rows ! i)))
    \<and> (network_order \<noteq> [] \<longrightarrow> network_rank (network_id (rows ! i)) network_order \<le> network_rank (network_id (rows ! j)) network_order)"
proof -
  have wf: "bt_wf (rd_conversations r)"
    using transcripts.reachable_store_ok [OF assms(1)] by (simp add: transcripts.store_ok_def)
  obtain order where order: "network_order \<noteq> [] \<longrightarrow> order = network_order" "sorted_wrt (sidebar_le E r order) rows"
    using sidebar_order_sorted [of network_order E r] assms(2) by blast
  have le: "sidebar_le E r order (rows ! i) (rows ! j)"
    using order(2) assms(3,4) by (simp add: sorted_wrt_iff_nth_less)
  then have "network_rank (network_id (rows ! i)) order \<le> network_rank (network_id (rows ! j)) order"
    by (auto simp: sidebar_le_def Let_def split: if_splits)
  moreover have "network_id (rows ! i) = network_id (rows ! j) \<longrightarrow>
      group_rank (find_conversation r (rows ! i)) \<le> group_rank (find_conversation r (rows ! j))"
    using le by (auto simp: sidebar_le_def Let_def find_conversation_def split: if_splits)
  ultimately show ?thesis
    using sidebar_order_rows [OF wf, of E network_order] sidebar_order_grouped [of i _ j E r network_order] assms(2-4) order(1)
    by auto
qed

theorem sidebar_order_correct_witness:
  "set (sidebar_order_with_networks plain_env two_reducer []) = {amy_key, bob_key}"
proof -
  have wf: "bt_wf (rd_conversations two_reducer)"
    using transcripts.reachable_store_ok [OF two_reachable] by (simp add: transcripts.store_ok_def)
  have "length (sidebar_order_with_networks plain_env two_reducer []) = card {amy_key, bob_key}"
    using distinct_card [OF sidebar_order_rows(1) [OF wf]] sidebar_order_rows(2) [OF wf] two_keys by metis
  then have "(1::nat) < length (sidebar_order_with_networks plain_env two_reducer [])"
    by (simp add: amy_key_def bob_key_def)
  then show ?thesis
    using sidebar_order_correct [OF two_reachable refl zero_less_one] two_keys by simp
qed

text \<open>A row of the same network anywhere in the list means one next to the row.\<close>

lemma sidebar_near:
  assumes "i < length (sidebar_order_with_networks E r network_order)" "j < length (sidebar_order_with_networks E r network_order)" "j \<noteq> i"
    "network_id (sidebar_order_with_networks E r network_order ! j) = network_id (sidebar_order_with_networks E r network_order ! i)"
  shows "i + 1 < length (sidebar_order_with_networks E r network_order)
      \<and> network_id (sidebar_order_with_networks E r network_order ! (i + 1)) = network_id (sidebar_order_with_networks E r network_order ! i)
    \<or> 0 < i \<and> network_id (sidebar_order_with_networks E r network_order ! (i - 1)) = network_id (sidebar_order_with_networks E r network_order ! i)"
proof (cases "j < i")
  case True
  then show ?thesis
    using sidebar_order_grouped [of j "i - 1" i E r network_order] assms by (cases "j = i - 1") auto
next
  case False
  then show ?thesis
    using sidebar_order_grouped [of i "i + 1" j E r network_order] assms by (cases "j = i + 1") auto
qed

lemma distinct_singleton: "distinct xs \<Longrightarrow> set xs = {x} \<Longrightarrow> xs = [x]"
  by (cases xs; cases "tl xs") auto

lemma position_distinct: "distinct xs \<Longrightarrow> i < length xs \<Longrightarrow> position (\<lambda>y. y = xs ! i) xs = Some i"
  by (induction xs arbitrary: i) (auto simp: nth_Cons split: nat.split)

text \<open>
  When a listed conversation is dropped, the row selected instead is another listed conversation, one on the same
  network whenever the network has another, and there is none exactly when the dropped one was the only one.
\<close>

theorem neighbor_after_drop_correct:
  assumes "reducer_reachable E r" "bt_contains (rd_conversations r) dropping"
  shows "case neighbor_after_drop (sidebar_order_with_networks E r network_order) dropping of
      None \<Rightarrow> bt_keys (rd_conversations r) = [dropping]
    | Some next_key \<Rightarrow> bt_contains (rd_conversations r) next_key \<and> next_key \<noteq> dropping
        \<and> ((\<exists>other. bt_contains (rd_conversations r) other \<and> other \<noteq> dropping \<and> network_id other = network_id dropping)
            \<longrightarrow> network_id next_key = network_id dropping)"
proof -
  have wf: "bt_wf (rd_conversations r)"
    using transcripts.reachable_store_ok [OF assms(1)] by (simp add: transcripts.store_ok_def)
  define rows where "rows = sidebar_order_with_networks E r network_order"
  note listed = sidebar_order_rows [OF wf, of E network_order, folded rows_def]
  obtain i where i: "i < length rows" "rows ! i = dropping"
    using assms(2) listed(2) by (metis bt_contains_iff in_set_conv_nth)
  have pos: "position (\<lambda>key. key = dropping) rows = Some i"
    using position_distinct [OF listed(1) i(1)] i(2) by simp
  have near: "i + 1 < length rows \<and> network_id (rows ! (i + 1)) = network_id dropping \<or> 0 < i \<and> network_id (rows ! (i - 1)) = network_id dropping"
    if other: "bt_contains (rd_conversations r) other" "other \<noteq> dropping" "network_id other = network_id dropping" for other
  proof -
    obtain j where j: "j < length rows" "rows ! j = other"
      using other(1) listed(2) by (metis bt_contains_iff in_set_conv_nth)
    have "j \<noteq> i"
      using i j other(2) by auto
    then show ?thesis
      using sidebar_near [where E = E and r = r and network_order = network_order, folded rows_def, OF i(1) j(1)] i j other(3) by metis
  qed
  have row: "bt_contains (rd_conversations r) (rows ! k) \<and> rows ! k \<noteq> dropping" if "k < length rows" "k \<noteq> i" for k
    using nth_mem [OF that(1)] nth_eq_iff_index_eq [OF listed(1) that(1) i(1)] that(2) i(2)
    unfolding bt_contains_iff listed(2) [symmetric] by simp
  have only: "bt_keys (rd_conversations r) = [dropping]" if one: "length rows = 1"
  proof -
    obtain x where "rows = [x]"
      using one by (cases rows) auto
    then have "set (bt_keys (rd_conversations r)) = {dropping}"
      using i listed(2) [symmetric] by simp
    then show ?thesis
      using bt_wf_distinct [OF wf] by (rule distinct_singleton [rotated])
  qed
  show ?thesis
    unfolding rows_def [symmetric] neighbor_after_drop_def Let_def pos option.case
    using near row [of "i + 1"] row [of "i - 1"] i(1) only by (auto split: if_splits)
qed

theorem neighbor_after_drop_correct_witness:
  "neighbor_after_drop (sidebar_order_with_networks plain_env two_reducer []) bob_key = Some amy_key"
proof -
  have keys: "bt_contains (rd_conversations two_reducer) k \<longleftrightarrow> k = amy_key \<or> k = bob_key" for k
    using two_keys by (simp add: bt_contains_iff)
  have ne: "amy_key \<noteq> bob_key"
    by (simp add: amy_key_def bob_key_def)
  have "bt_keys (rd_conversations two_reducer) \<noteq> [bob_key]"
  proof
    assume "bt_keys (rd_conversations two_reducer) = [bob_key]"
    then have "{bob_key} = {amy_key, bob_key}"
      using two_keys by simp
    with ne show False
      by (simp add: doubleton_eq_iff)
  qed
  then show ?thesis
    using neighbor_after_drop_correct [OF two_reachable, of bob_key "[]"]
    by (cases "neighbor_after_drop (sidebar_order_with_networks plain_env two_reducer []) bob_key") (simp_all add: keys, blast)
qed

section \<open>The read marker\<close>

text \<open>The rows a read marker leaves unread.\<close>

definition unread_row :: "reducer_env \<Rightarrow> Facts \<Rightarrow> ConversationKey \<Rightarrow> instant option \<Rightarrow> ReducedMessage \<Rightarrow> bool" where
  "unread_row E f key marker m \<longleftrightarrow> is_chat_kind (m_kind m) \<and> \<not> facts_is_self f (network_id key) (m_author m)
     \<and> \<not> covered marker (read_time E m)"

definition mention_row :: "reducer_env \<Rightarrow> Facts \<Rightarrow> ConversationKey \<Rightarrow> ReducedMessage \<Rightarrow> bool" where
  "mention_row E f key m \<longleftrightarrow> (m_kind m = KindMessage \<or> m_kind m = KindAction) \<and> is_mention E f (network_id key) (m_body m)"

lemma recount_row_unselected:
  assumes "f_selected f \<noteq> Some key"
  shows "recount_row E f key c m =
    (if unread_row E f key (cs_read_marker c) m
     then c\<lparr>cs_unread_mark := (if cs_unread c = 0 then Some (m_sequence m) else cs_unread_mark c), cs_unread := cs_unread c + 1,
            cs_mentions := cs_mentions c + (if mention_row E f key m \<and> \<not> cs_muted c then 1 else 0)\<rparr>
     else c)"
  using assms
  by (auto simp: recount_row_def Let_def unread_row_def mention_row_def classify_chat_line_def is_mention_def split_beta
      is_channel_conversation_def)

definition first_unread :: "reducer_env \<Rightarrow> Facts \<Rightarrow> ConversationKey \<Rightarrow> instant option \<Rightarrow> ReducedMessage list \<Rightarrow> int option" where
  "first_unread E f key marker rows = map_option m_sequence (List.find (unread_row E f key marker) rows)"

lemma recount_rows:
  assumes "f_selected f \<noteq> Some key" "cs_unread c = 0" "cs_mentions c = 0" "cs_unread_mark c = None"
  shows "foldl (recount_row E f key) c rows =
    c\<lparr>cs_unread_mark := first_unread E f key (cs_read_marker c) rows,
      cs_unread := length (filter (unread_row E f key (cs_read_marker c)) rows),
      cs_mentions := (if cs_muted c then 0
        else length (filter (\<lambda>m. unread_row E f key (cs_read_marker c) m \<and> mention_row E f key m) rows))\<rparr>"
proof (induction rows rule: rev_induct)
  case Nil
  then show ?case using assms by (simp add: first_unread_def)
next
  case (snoc m rows)
  have find: "first_unread E f key mk (rows @ [m]) = (if filter (unread_row E f key mk) rows = []
      then (if unread_row E f key mk m then Some (m_sequence m) else None) else first_unread E f key mk rows)" for mk
    by (induction rows) (auto simp: first_unread_def)
  have none: "first_unread E f key mk rows = None" if "filter (unread_row E f key mk) rows = []" for mk
    using that by (auto simp: first_unread_def find_None_iff filter_empty_conv)
  show ?case
    unfolding foldl_append foldl.simps snoc.IH by (simp add: recount_row_unselected [OF assms(1)] find none)
qed



section \<open>Observations\<close>

text \<open>
  A nick change that merges two direct conversations adds the badges and joins the mute flags, so a conversation may be
  muted and still carry mentions, which muting by hand clears.
\<close>

lemma merged_mute_keeps_mentions:
  assumes "cs_muted moved"
  shows "cs_muted (snd (merge_conversations new_nick moved fc)) \<and> cs_mentions moved \<le> cs_mentions (snd (merge_conversations new_nick moved fc))"
  using assms by (simp add: merge_conversations_def Let_def split_beta)

text \<open>A topic for a channel that is not listed opens its conversation without telling the sidebar.\<close>

lemma topic_opens_unannounced:
  assumes "step = reducer_apply E (TopicEvent ''net'' ''#c'' topic [] False) now new_reducer"
  shows "find_conversation new_reducer room_key = None \<and> find_conversation (fst step) room_key \<noteq> None \<and> VnConversations \<notin> set (snd step)"
proof -
  have "conversation_key new_reducer ''net'' ''#c'' = room_key"
    by (simp add: conversation_key_def new_reducer_def room_key_def facts_normalize_def facts_case_mapping_def new_features_def
        rebuild_prefix_dumps_def normalize_name_def default_mapping_def chars_ascii normalized_character_def encode_utf8_def encode_scalar_def
        char_of_eq_iff)
  moreover have "on_facts (\<lambda>f. f\<lparr>f_mention_arrival := None, f_inbox_arrival := None\<rparr>) new_reducer = new_reducer"
    by (simp add: on_facts_def new_reducer_def)
  moreover have "ensure_key E room_key ''#c'' ChannelStateCause new_reducer = (\<lparr>rd_conversations = [(room_key,
      (new_conversation room_key ''#c'')\<lparr>cs_muted := False, cs_channel := Some default_channel\<rparr>)], rd_facts = new_facts\<rparr>, True)"
    by (simp add: ensure_key_def new_reducer_def bt_contains_def is_channel_def default_names facts_is_closed_def persisted_closed_def
        hydrate_from_log_def room_key_def)
  ultimately have "find_conversation (fst step) room_key \<noteq> None"
    by (simp add: assms reducer_apply_def Let_def reduce_topic_def on_conversation_def on_conv_def find_conversation_def bt_get_def)
  moreover have "VnConversations \<notin> set (snd step)"
    by (simp add: assms reducer_apply_def Let_def classify_view_notify_def classify_unchecked_def notify_topic_def without_member_refresh_def)
  ultimately show ?thesis
    by (simp add: find_conversation_def new_reducer_def)
qed

end
