(* ===== verification/ReducerClosed.thy ===== *)
theory ReducerClosed
  imports ReducerSafety
begin

text \<open>
  A channel the user has closed stays closed: no event of the server brings its conversation back, until the network
  is registered on again.
\<close>

named_theorems closing_keeps \<open>operations that leave the features and the closed channels alone\<close>

section \<open>What decides whether a channel is closed\<close>

definition closing :: "Facts \<Rightarrow> (string \<rightharpoonup> IrcServerFeatures) \<times> IrcServerFeatures \<times> ConversationKey set \<times> closed_call list option" where
  "closing f = (f_features f, f_default_features f, f_closed_channels f, f_closed_store f)"

lemma closing_fields [simp]:
  "closing (f\<lparr>f_current_nicks := a\<rparr>) = closing f" "closing (f\<lparr>f_self_nicks := b\<rparr>) = closing f"
  "closing (f\<lparr>f_presence := c\<rparr>) = closing f" "closing (f\<lparr>f_self_away := d\<rparr>) = closing f" "closing (f\<lparr>f_selected := e\<rparr>) = closing f"
  "closing (f\<lparr>f_muted_keys := g\<rparr>) = closing f" "closing (f\<lparr>f_log := h\<rparr>) = closing f" "closing (f\<lparr>f_pending_playback := i\<rparr>) = closing f"
  "closing (f\<lparr>f_kept_playback_channel := j\<rparr>) = closing f" "closing (f\<lparr>f_kept_replay := k\<rparr>) = closing f"
  "closing (f\<lparr>f_remembered_queries := l\<rparr>) = closing f" "closing (f\<lparr>f_query_restore_pending := m\<rparr>) = closing f"
  "closing (f\<lparr>f_mention_arrival := n\<rparr>) = closing f" "closing (f\<lparr>f_inbox_arrival := p\<rparr>) = closing f"
  "closing (f\<lparr>f_channel_context_msgids := q\<rparr>) = closing f"
  by (simp_all add: closing_def)

lemma closing_row [closing_keeps]:
  "closing (claim_channel_context home is_chan mid visible f) = closing f"
  "closing (release_channel_context home mid f) = closing f"
  "closing (log_call_made call f) = closing f"
  "closing (persist_message conv message f) = closing f"
  "closing (persist_messages_prepend conv messages f) = closing f"
  "closing (plant_arrivals key sel arrival reason conv f) = closing f"
  by (simp_all add: claim_channel_context_def release_channel_context_def log_call_made_def persist_message_def
      persist_messages_prepend_def plant_arrivals_def Let_def)

lemma closing_forget [closing_keeps]: "closing (fst (foldl forget_transcript_msgid fc mids)) = closing (fst fc)"
  by (induction mids arbitrary: fc) (simp_all add: forget_transcript_msgid_def closing_keeps)

lemma closing_forget_one [closing_keeps]: "closing (fst (forget_transcript_msgid fc mid)) = closing (fst fc)"
  using closing_forget [of fc "[mid]"] by simp

lemma closing_cap [closing_keeps]: "closing (fst (cap_with_policy head fc)) = closing (fst fc)"
  by (simp add: cap_with_policy_def Let_def split_beta closing_keeps)

lemma closing_rows [closing_keeps]:
  "closing (fst (cap_messages fc)) = closing (fst fc)"
  "closing (fst (cap_messages_prefer_tail fc)) = closing (fst fc)"
  "closing (fst (drop_last_transcript_row fc)) = closing (fst fc)"
  "closing (fst (admit_event E body foldable fc)) = closing (fst fc)"
  "closing (fst (append_whois E body fc)) = closing (fst fc)"
  "closing (fst (append_error E body fc)) = closing (fst fc)"
  "closing (fst (note_chat_arrival E key arrival fc)) = closing (fst fc)"
  "closing (fst (merge_conversations new_nick moved fc)) = closing (fst fc)"
  by (simp_all add: cap_messages_def cap_messages_prefer_tail_def drop_last_transcript_row_def admit_event_def append_whois_def
      append_error_def note_chat_arrival_def merge_conversations_def Let_def split_beta closing_keeps)

lemma closing_append [closing_keeps]:
  "closing (fst (append_event E body foldable membership fc)) = closing (fst fc)"
  "closing (fst (admit_chat E line fc)) = closing (fst fc)"
  by (simp_all add: append_event_def admit_chat_def Let_def split_beta closing_keeps)

lemma closing_hydrate [closing_keeps]: "closing (fst (hydrate_from_log E fc)) = closing (fst fc)"
proof -
  have "closing (fst (foldl (hydrate_line E) fc lines)) = closing (fst fc)" for lines
    by (induction lines rule: rev_induct) (simp_all add: hydrate_line_def split_beta Let_def closing_keeps split: option.split)
  then show ?thesis
    by (simp add: hydrate_from_log_def Let_def closing_keeps split: option.split)
qed

section \<open>A batch of history\<close>

lemma closing_fold_into:
  "fold_into home body row f ids result = Some (row', f', ids', result') \<Longrightarrow> closing f' = closing f"
  by (auto simp: fold_into_def Let_def closing_keeps split: if_splits)

lemma closing_membership [closing_keeps]: "closing (rs_facts (fst (admit_membership_replay line s))) = closing (rs_facts s)"
  by (auto simp: admit_membership_replay_def Let_def push_membership_row_def fold_into_run_def fold_into_transcript_def
      dest: closing_fold_into split: option.splits)

lemma closing_learn [closing_keeps]: "closing (rs_facts (learn_msgid mid rs)) = closing (rs_facts rs)"
  by (simp add: learn_msgid_def)

lemma closing_splice_line [closing_keeps]:
  "closing (rs_facts (sp_replay (splice_line E event mapping s line))) = closing (rs_facts (sp_replay s))"
  by (auto simp: splice_line_def splice_membership_line_def splice_chat_line_def note_line_def push_chat_row_def Let_def split_beta
      closing_keeps split: option.splits)

lemma closing_splice_lines [closing_keeps]:
  "closing (rs_facts (sp_replay (foldl (splice_line E event mapping) s ls))) = closing (rs_facts (sp_replay s))"
  by (induction ls arbitrary: s) (simp_all add: closing_keeps)

lemma closing_run [closing_keeps]:
  "closing (fst (note_run E event run fc)) = closing (fst fc)"
  "closing (foldl (\<lambda>f message. persist_message conv message f) f run) = closing f"
  by (induction run arbitrary: fc f) (simp_all add: note_run_def closing_keeps)

lemma closing_land [closing_keeps]:
  "closing (fst (insert_run at run fc)) = closing (fst fc)"
  "closing (fst (land_run E event prev at run fc)) = closing (fst fc)"
  by (simp_all add: insert_run_def land_run_def Let_def split_beta closing_keeps)

lemma closing_splice [closing_keeps]: "closing (fst (splice_history E event au fc)) = closing (fst fc)"
  by (simp add: splice_history_def keep_notes_def remember_query_def Let_def split_beta closing_keeps split: option.split)

section \<open>The store\<close>

definition shut :: "reducer_env \<Rightarrow> Facts \<Rightarrow> ConversationKey \<Rightarrow> EventReducer \<Rightarrow> bool" where
  "shut E F key r \<longleftrightarrow> \<not> bt_contains (rd_conversations r) key
     \<and> f_features (rd_facts r) = f_features F \<and> f_default_features (rd_facts r) = f_default_features F
     \<and> facts_is_channel (rd_facts r) (network_id key) (normalized_target key)
     \<and> (facts_is_closed (rd_facts r) key \<or> persisted_closed E r key)"

lemma shut_frame:
  assumes "shut E F key r" "f_features (rd_facts r') = f_features (rd_facts r)" "f_default_features (rd_facts r') = f_default_features (rd_facts r)"
    "f_closed_store (rd_facts r') = f_closed_store (rd_facts r)" "key \<in> f_closed_channels (rd_facts r') \<longleftrightarrow> key \<in> f_closed_channels (rd_facts r)"
    "bt_contains (rd_conversations r') key \<longrightarrow> bt_contains (rd_conversations r) key"
  shows "shut E F key r'"
  using assms(1,6) unfolding shut_def facts_is_channel_def facts_is_closed_def persisted_closed_def features_of_def
    facts_case_mapping_def assms(2-5) by blast

lemma shut_same:
  assumes "shut E F key r" "closing (rd_facts r') = closing (rd_facts r)"
    "bt_contains (rd_conversations r') key \<longrightarrow> bt_contains (rd_conversations r) key"
  shows "shut E F key r'"
  using assms(1) by (rule shut_frame) (use assms(2,3) in \<open>simp_all add: closing_def\<close>)

lemma shut_on_conversation:
  "shut E F key r \<Longrightarrow> (\<And>fc. closing (fst (g fc)) = closing (fst fc)) \<Longrightarrow> shut E F key (on_conversation K g r)"
  by (rule shut_same, assumption) (auto simp: on_conversation_def split_beta bt_contains_def split: option.splits)

lemma shut_on_facts: "shut E F key r \<Longrightarrow> (\<And>f. closing (g f) = closing f) \<Longrightarrow> shut E F key (on_facts g r)"
  by (rule shut_same, assumption) (simp_all add: on_facts_def)

lemma shut_map: "shut E F key r \<Longrightarrow> shut E F key (r\<lparr>rd_conversations := bt_map_values h (rd_conversations r)\<rparr>)"
  by (rule shut_same, assumption) (simp_all add: bt_contains_def bt_get_map_values)

lemma each_closing:
  assumes "\<And>fc. closing (fst (g fc)) = closing (fst fc)"
  shows "closing (fst (each_conversation g f store)) = closing f \<and> map fst (snd (each_conversation g f store)) = map fst store"
proof (induction store arbitrary: f)
  case (Cons e store)
  then show ?case
    using assms by (cases e) (simp add: Let_def split_beta)
qed simp

lemma shut_for_each: "shut E F key r \<Longrightarrow> (\<And>fc. closing (fst (g fc)) = closing (fst fc)) \<Longrightarrow> shut E F key (for_each_conversation g r)"
proof -
  assume g: "\<And>fc. closing (fst (g fc)) = closing (fst fc)" and "shut E F key r"
  from this(2) show ?thesis
    by (rule shut_same) (simp_all add: for_each_conversation_def split_beta bt_contains_iff bt_keys_def each_closing [OF g])
qed

lemma shut_ensure: "shut E F key r \<Longrightarrow> shut E F key (fst (ensure_key E K target cause r))"
proof (cases "K = key")
  case True
  moreover assume "shut E F key r"
  ultimately show ?thesis
    by (simp add: shut_def ensure_key_def Let_def facts_is_channel_def)
next
  case False
  have c: "closing (rd_facts (fst (ensure_key E K target cause r))) = closing (rd_facts r)"
    by (simp add: ensure_key_def Let_def split_beta closing_keeps)
  have "bt_contains (rd_conversations (fst (ensure_key E K target cause r))) key \<longrightarrow> bt_contains (rd_conversations r) key"
    using False by (simp add: ensure_key_def Let_def split_beta bt_contains_def)
  moreover assume "shut E F key r"
  ultimately show ?thesis
    using c shut_same by blast
qed

lemma shut_ensure_case:
  assumes "shut E F key r" "\<And>r'. shut E F key r' \<Longrightarrow> shut E F key (h r')"
  shows "shut E F key (case ensure_key E K target cause r of (r', False) \<Rightarrow> r' | (r', True) \<Rightarrow> h r')"
  using shut_ensure [OF assms(1), of K target cause] assms(2) by (auto split: prod.split bool.split)

lemma shut_splice_into: "shut E F key r \<Longrightarrow> shut E F key (splice_into E K event au r)"
  unfolding splice_into_def by (rule shut_on_conversation) (simp_all add: closing_keeps)

lemma shut_held:
  "shut E F key r \<Longrightarrow> shut E F key (forget_held K r)" "shut E F key r \<Longrightarrow> shut E F key (hold_pending_playback event r)"
  by (auto simp: forget_held_def hold_pending_playback_def intro!: shut_on_facts)

lemma shut_refresh: "shut E F key r \<Longrightarrow> shut E F key (refresh_mentions E net r)"
  unfolding refresh_mentions_def by (rule shut_map)

section \<open>The events\<close>

lemma closing_presence [closing_keeps]:
  "closing (set_presence_away net who away f) = closing f" "closing (set_presence_metadata net who mkey val f) = closing f"
  "closing (set_presence_account net who account f) = closing f" "closing (set_presence_realname net who realname f) = closing f"
  "closing (set_presence_operator net who operator f) = closing f" "closing (rekey_presence net old_norm new_norm f) = closing f"
  "closing (remember_self_nick net who f) = closing f" "closing (join_facts net who acc rn f) = closing f"
  "closing (away_facts E net who away rn only f) = closing f"
  by (simp_all add: on_presence_def set_presence_away_def set_presence_metadata_def set_presence_account_def
      set_presence_realname_def set_presence_operator_def rekey_presence_def remember_self_nick_def join_facts_def away_facts_def Let_def
      split: option.split)

lemma closing_handlers [closing_keeps]:
  "closing (fst (on_conv h fc)) = closing (fst fc)"
  "closing (fst (join_conversation E who text body self fc)) = closing (fst fc)"
  "closing (fst (part_conversation E who text self fc)) = closing (fst fc)"
  "closing (fst (kick_conversation E who text self arrival fc)) = closing (fst fc)"
  "closing (fst (quit_conversation E net who body fc)) = closing (fst fc)"
  "closing (fst (nick_conversation E net old_norm new_norm new_nick body fc)) = closing (fst fc)"
  "closing (fst (mode_conversation E net caption changes fc)) = closing (fst fc)"
  by (simp_all add: on_conv_def join_conversation_def part_conversation_def kick_conversation_def quit_conversation_def
      nick_conversation_def mode_conversation_def Let_def split_beta closing_keeps split: option.split)

lemma shut_forget_unseen: "shut E F key r \<Longrightarrow> shut E F key (forget_unseen net nicks r)"
  unfolding forget_unseen_def by (rule shut_on_facts) (auto split: option.split)

lemma shut_append_chat: "shut E F key r \<Longrightarrow> shut E F key (append_chat E line r)"
  unfolding append_chat_def Let_def by (rule shut_ensure_case) (simp_all add: shut_on_conversation closing_keeps)

lemma shut_membership:
  assumes "shut E F key r"
  shows "shut E F key (reduce_part E net chan who r)" "shut E F key (reduce_kick E net chan target author reason r)"
    "shut E F key (reduce_quit E net who r)"
  using assms unfolding reduce_part_def reduce_kick_def reduce_quit_def clear_typing_everywhere_def Let_def
  by (auto intro!: shut_map shut_on_conversation shut_forget_unseen shut_for_each simp: closing_keeps split: option.split)

lemma shut_join: "shut E F key r \<Longrightarrow> shut E F key (reduce_join E net chan who account realname r)"
  unfolding reduce_join_def Let_def release_pending_playback_def
  by (rule shut_ensure_case) (auto intro!: shut_on_facts shut_on_conversation shut_splice_into shut_held simp: closing_keeps split: option.split)

lemma shut_channel_state:
  assumes "shut E F key r"
  shows "shut E F key (reduce_topic E net chan topic keep_it r)" "shut E F key (reduce_names E net chan names complete now r)"
    "shut E F key (reduce_mode E net target author mode arguments r)"
  using assms unfolding reduce_topic_def reduce_names_def reduce_mode_def Let_def
  by (auto intro!: shut_ensure_case shut_on_conversation simp: closing_keeps)

lemma shut_history: "shut E F key r \<Longrightarrow> shut E F key (reduce_history E event r)"
proof -
  assume r: "shut E F key r"
  have held: "shut E F key (on_facts (\<lambda>f. f\<lparr>f_pending_playback := g f\<rparr>) r)" for g
    using r by (rule shut_on_facts) simp
  have absorb: "shut E F key (fst (absorb_pending_query_playback E event r))"
    using r held by (auto simp: absorb_pending_query_playback_def Let_def fst_case split: option.split
        intro!: shut_held shut_splice_into shut_ensure_case)
  define x where "x = (if he_kind event = BouncerPlayback then absorb_pending_query_playback E event r else (r, False))"
  have x: "shut E F key (fst x)"
    using r absorb by (simp add: x_def)
  have opened: "shut E F key (fst (open_for_replay E event (fst x)))"
    using x by (auto simp: open_for_replay_def Let_def intro!: shut_held shut_ensure)
  have "shut E F key (case x of (r, True) \<Rightarrow> r | (r, False) \<Rightarrow> (case open_for_replay E event r of (r, False) \<Rightarrow> r
      | (r, True) \<Rightarrow> splice_into E (he_conversation event) event ConsumeAnchor r))"
    using x opened shut_splice_into by (cases x) (auto split: prod.split bool.split)
  then show ?thesis
    using r unfolding reduce_history_def Let_def x_def [symmetric] by (auto intro: shut_held shut_splice_into)
qed

lemma shut_move:
  assumes "shut E F key r" "new_key \<noteq> key"
  shows "shut E F key (move_direct old_key new_key new_nick r)"
  using assms(1)
  by (rule shut_same) (use assms(2) in \<open>auto simp: move_direct_def Let_def on_facts_def on_conversation_def split_beta bt_contains_def
        closing_keeps split: option.splits if_splits\<close>)

lemma shut_nick:
  assumes "shut E F key r" "ConversationKey net (facts_normalize (rd_facts r) net new_nick) \<noteq> key"
  shows "shut E F key (reduce_nick E net old_nick new_nick r)"
proof -
  have rename: "shut E F key (rename_direct E old_key new_key new_nick body r)" if "shut E F key r" "new_key \<noteq> key" for r old_key new_key body
    using that by (auto simp: rename_direct_def Let_def closing_keeps intro!: shut_move shut_on_conversation split: option.split)
  show ?thesis
    unfolding reduce_nick_def Let_def rekey_typing_def
    by (rule rename, rule shut_for_each, rule shut_map, rule shut_on_facts)
      (auto intro!: shut_refresh shut_on_facts assms simp: closing_keeps split: option.split)
qed

text \<open>The events that may bring a closed channel back: a new registration, and a nick that takes its name.\<close>

fun reopens :: "Facts \<Rightarrow> ConversationKey \<Rightarrow> Event \<Rightarrow> bool" where
  "reopens f key (WelcomeEvent net _) = (net = network_id key)"
| "reopens f key (NickEvent net _ new_nick) = (ConversationKey net (facts_normalize f net new_nick) = key)"
| "reopens f key _ = False"

lemma shut_welcome: "shut E F key r \<Longrightarrow> net \<noteq> network_id key \<Longrightarrow> shut E F key (reduce_welcome E net who r)"
proof -
  assume r: "shut E F key r" and net: "net \<noteq> network_id key"
  have opt: "closing (case x of None \<Rightarrow> f | Some current \<Rightarrow> remember_self_nick net current f) = closing f"
    "closing (case y of None \<Rightarrow> f | Some store \<Rightarrow> f\<lparr>f_presence := p store\<rparr>) = closing f" for x y p and f :: Facts
    by (simp_all add: closing_keeps split: option.split)
  have drops: "closing (clear_closed_network net (drop_kept_playback net (drop_pending_playback net f)))
      = (f_features f, f_default_features f, f_closed_channels (clear_closed_network net f), f_closed_store f)" for f
    by (simp add: closing_def clear_closed_network_def drop_kept_playback_def drop_pending_playback_def)
  have "closing (welcome_facts net who f) = (f_features f, f_default_features f, f_closed_channels (clear_closed_network net f), f_closed_store f)" for f
    by (simp add: welcome_facts_def Let_def opt closing_keeps drops)
  then have f: "f_features (welcome_facts net who f) = f_features f" "f_default_features (welcome_facts net who f) = f_default_features f"
    "f_closed_store (welcome_facts net who f) = f_closed_store f" "key \<in> f_closed_channels (welcome_facts net who f) \<longleftrightarrow> key \<in> f_closed_channels f" for f
    using net by (simp_all add: closing_def clear_closed_network_def)
  have "shut E F key (on_facts (welcome_facts net who) r)"
    using r by (rule shut_frame) (simp_all add: on_facts_def f)
  then show ?thesis
    unfolding reduce_welcome_def Let_def by (intro shut_refresh shut_map)
qed

lemma shut_presence:
  assumes "shut E F key r"
  shows "shut E F key (reduce_nick_facts net who realname operator r)" "shut E F key (reduce_account net who account r)"
    "shut E F key (reduce_away E net who away rn only r)" "shut E F key (reduce_self_away net gone r)"
    "shut E F key (reduce_member_metadata net who mkey val r)"
  using assms unfolding reduce_nick_facts_def reduce_account_def reduce_away_def reduce_self_away_def reduce_member_metadata_def Let_def
  by (auto intro!: shut_on_facts simp: closing_keeps split: option.split)

lemma shut_rows:
  assumes "shut E F key r"
  shows "shut E F key (reduce_typing K who ph at r)" "shut E F key (reduce_whois_transcript E K body r)"
    "shut E F key (reduce_channel_error E net chan body r)"
  using assms unfolding reduce_typing_def reduce_whois_transcript_def reduce_channel_error_def Let_def
  by (simp_all add: shut_on_conversation closing_keeps)

lemma shut_event:
  assumes "shut E F key r" "\<not> reopens (rd_facts r) key event"
  shows "shut E F key (reduce_event E now event r)"
  using assms
  by (cases event) (simp_all add: shut_welcome reduce_message_def reduce_notice_def reduce_action_def shut_append_chat shut_join
      shut_membership shut_nick shut_channel_state shut_history shut_presence shut_rows)

text \<open>
  C26: a channel that is closed, in this session or in the stored list, and has no conversation gets none from whatever
  sequence of events the server sends, messages, joins, topics, names, modes, history batches or held playback: only a new
  registration on its network, or a nick change to its very name, ends that.
\<close>

theorem closed_channel_stays_closed:
  assumes "\<not> bt_contains (rd_conversations r) key" "facts_is_channel (rd_facts r) (network_id key) (normalized_target key)"
    "facts_is_closed (rd_facts r) key \<or> persisted_closed E r key"
    "list_all (\<lambda>(event, _). \<not> reopens (rd_facts r) key event) events"
  shows "find_conversation (foldl (\<lambda>r (event, now). fst (reducer_apply E event now r)) r events) key = None"
proof -
  have same: "reopens f key event = reopens (rd_facts r) key event"
    if "f_features f = f_features (rd_facts r)" "f_default_features f = f_default_features (rd_facts r)" for f event
  proof -
    have "features_of f net = features_of (rd_facts r) net" for net
      unfolding features_of_def that ..
    then show ?thesis
      by (cases event) (simp_all add: facts_normalize_def facts_case_mapping_def)
  qed
  have "shut E (rd_facts r) key (foldl (\<lambda>r (event, now). fst (reducer_apply E event now r)) r events)"
    using assms(4)
  proof (induction events rule: rev_induct)
    case Nil
    then show ?case using assms(1-3) by (simp add: shut_def)
  next
    case (snoc step events)
    obtain event now where step: "step = (event, now)" by (cases step)
    define r1 where "r1 = without_arrivals (foldl (\<lambda>r (event, now). fst (reducer_apply E event now r)) r events)"
    have r1: "shut E (rd_facts r) key r1"
      unfolding r1_def without_arrivals_def by (rule shut_on_facts) (use snoc in simp_all)
    then have "\<not> reopens (rd_facts r1) key event"
      using snoc.prems same [of "rd_facts r1" event] by (simp add: shut_def step)
    with r1 have "shut E (rd_facts r) key (reduce_event E now event r1)"
      by (rule shut_event)
    moreover have apply_eq: "fst (reducer_apply E event now r') = reduce_event E now event (without_arrivals r')" for r'
      by (simp add: reducer_apply_def Let_def without_arrivals_def)
    ultimately show ?case
      unfolding step r1_def foldl_append foldl.simps prod.case apply_eq by simp
  qed
  then show ?thesis
    by (simp add: shut_def bt_contains_def find_conversation_def)
qed

theorem closed_channel_stays_closed_witness:
  "find_conversation (fst (reducer_apply plain_env (MessageEvent (bob_line\<lparr>ce_conversation := room_key\<rparr>)) 0 (note_closed room_key new_reducer))) room_key = None
   \<and> find_conversation shown_reducer room_key \<noteq> None"
proof -
  have "\<not> bt_contains (rd_conversations (note_closed room_key new_reducer)) room_key"
    "facts_is_closed (rd_facts (note_closed room_key new_reducer)) room_key"
    "facts_is_channel (rd_facts (note_closed room_key new_reducer)) (network_id room_key) (normalized_target room_key)"
    by (simp_all add: note_closed_def room_key_def new_reducer_def on_facts_def closed_call_made_def bt_contains_def facts_is_closed_def
        facts_is_channel_def features_of_def is_channel_def new_facts_def default_names)
  moreover have "find_conversation shown_reducer room_key \<noteq> None"
    using transcripts.reachable_store_ok [OF shown_reachable] shown_claim
    by (auto simp: transcripts.store_ok_def find_conversation_def bt_contains_def)
  ultimately show ?thesis
    using closed_channel_stays_closed [where events = "[(MessageEvent (bob_line\<lparr>ce_conversation := room_key\<rparr>), 0)]" and E = plain_env
      and r = "note_closed room_key new_reducer" and key = room_key] by simp
qed

end
