(* ===== verification/Translator.thy ===== *)
theory Translator
  imports ReducerState
begin

text \<open>
  \<^verbatim>\<open>client/src/irc/translator\<close>: one inbound message becomes the events the reducer folds, and a completed batch of history
  one \<^const>\<open>HistoryEvent\<close>. Unicode case conversion and date parsing are those of \<^typ>\<open>session_env\<close>; the lookup of the channel
  a sender shares with the user is an argument, as in the code.
\<close>

section \<open>Shared reads\<close>

text \<open>\<open>Inbound\<close> of \<^verbatim>\<open>context.rs\<close>.\<close>

record TranslatorInbound =
  in_command :: string
  in_network_id :: string
  in_current_nick :: string
  in_features :: IrcServerFeatures
  in_message :: IrcMessage
  in_joined :: "(string \<Rightarrow> string \<Rightarrow> string option) option"
  in_sender :: string
  in_timestamp :: instant
  in_server_time :: "instant option"

definition message_author :: "IrcMessage \<Rightarrow> string" where
  "message_author message = prefix_nick message"

definition routable_source :: "IrcMessage \<Rightarrow> bool" where
  "routable_source message =
     (case msg_prefix message of
        None \<Rightarrow> True
      | Some prefix \<Rightarrow> if pfx_nick prefix \<noteq> [] then nick_is_routable (wire_text (pfx_nick prefix)) else True)"

definition key_for :: "string \<Rightarrow> string \<Rightarrow> IrcServerFeatures \<Rightarrow> ConversationKey" where
  "key_for net target features = ConversationKey net (normalize_name (case_mapping features) target)"

definition same_name :: "IrcServerFeatures \<Rightarrow> string \<Rightarrow> string \<Rightarrow> bool" where
  "same_name features left right = equals (case_mapping features) left right"

definition from_user :: "IrcMessage \<Rightarrow> bool" where
  "from_user message = (case msg_prefix message of None \<Rightarrow> False | Some prefix \<Rightarrow> is_user prefix)"

definition present_tag_value :: "IrcMessage \<Rightarrow> string \<Rightarrow> string option" where
  "present_tag_value message name =
     (case List.find (\<lambda>tag. tag_name tag = name) (msg_tags message) of
        None \<Rightarrow> None
      | Some tag \<Rightarrow> Some (case tag_value tag of None \<Rightarrow> [] | Some raw \<Rightarrow> wire_text raw))"

definition timestamp_for :: "session_env \<Rightarrow> IrcMessage \<Rightarrow> instant \<Rightarrow> instant" where
  "timestamp_for E message now = (case server_time_of (env_time E) message of None \<Rightarrow> now | Some t \<Rightarrow> t)"

definition conversation_for :: "session_env \<Rightarrow> string \<Rightarrow> string \<Rightarrow> IrcMessage \<Rightarrow> string \<Rightarrow> IrcServerFeatures \<Rightarrow> ConversationKey option" where
  "conversation_for E net target message current_nick features =
     (if \<not> routable_source message then None
      else if is_channel features target then Some (key_for net target features)
      else if is_network_notice_target target \<or> \<not> from_user message \<or> is_service_source (env_unicode E) message features then None
      else let sender = message_author message in
        if sender = [] then None
        else if same_name features target current_nick then Some (key_for net sender features)
        else if same_name features sender current_nick then Some (key_for net target features)
        else None)"

section \<open>Chat lines\<close>

definition CHANNEL_CONTEXT_LIMIT :: nat where "CHANNEL_CONTEXT_LIMIT = 50"

definition ACTION_PREFIX :: string where "ACTION_PREFIX = CTCP_DELIMITER # ''ACTION ''"

definition action_text :: "string \<Rightarrow> string option" where
  "action_text body =
     (if starts_with ACTION_PREFIX body \<and> ends_with [CTCP_DELIMITER] body
      then Some (take (length body - 1 - length ACTION_PREFIX) (drop (length ACTION_PREFIX) body))
      else None)"

record ChannelDelivery =
  cd_channel :: string
  cd_only_visible :: bool

definition CHANNEL_CONTEXT_TAGS :: "string list" where
  "CHANNEL_CONTEXT_TAGS = [''+draft/channel-context'', ''draft/channel-context'']"

definition channel_context_text :: "string \<Rightarrow> IrcServerFeatures \<Rightarrow> bool" where
  "channel_context_text value features =
     (let len = length (chars value) in
      if \<not> (2 \<le> len \<and> len \<le> CHANNEL_CONTEXT_LIMIT) \<or> \<not> is_channel features value then False
      else list_all (\<lambda>c. \<not> (c < 32 \<or> c = 127 \<or> is_whitespace c \<or> c = 44 \<or> c = 58)) (chars value))"

definition channel_context_channel :: "IrcMessage \<Rightarrow> IrcServerFeatures \<Rightarrow> string option" where
  "channel_context_channel message features =
     List.find (\<lambda>value. channel_context_text value features) (List.map_filter (tag_text message) CHANNEL_CONTEXT_TAGS)"

definition nick_targeted_channel_delivery :: "string \<Rightarrow> TranslatorInbound \<Rightarrow> ChannelDelivery option" where
  "nick_targeted_channel_delivery wire_target inbound =
     (let features = in_features inbound in
      case channel_context_channel (in_message inbound) features of
        None \<Rightarrow> None
      | Some ctxt \<Rightarrow>
          if is_channel features wire_target \<or> \<not> same_name features wire_target (in_current_nick inbound) then None
          else if in_sender inbound = [] \<or> same_name features ctxt (in_current_nick inbound) then None
          else case in_joined inbound of
                 None \<Rightarrow> None
               | Some lookup \<Rightarrow>
                   (case lookup ctxt (in_sender inbound) of
                      None \<Rightarrow> None
                    | Some confirmed \<Rightarrow>
                        if confirmed = [] \<or> \<not> is_channel features confirmed then None
                        else Some \<lparr>cd_channel = confirmed, cd_only_visible = True\<rparr>))"

text \<open>The event a chat line becomes, filed under \<open>conversation\<close> and shown under \<open>target\<close>.\<close>

definition chat_event :: "TranslatorInbound \<Rightarrow> ConversationKey \<Rightarrow> string \<Rightarrow> string \<Rightarrow> bool \<Rightarrow> ChatEvent" where
  "chat_event inbound conversation body target only_visible =
     \<lparr>ce_conversation = conversation, ce_author = in_sender inbound, ce_body = body, ce_timestamp = in_timestamp inbound,
      ce_server_time = in_server_time inbound, ce_target = target, ce_msgid = msgid (in_message inbound),
      ce_only_visible = only_visible\<rparr>"

text \<open>The conversation a line that is not delivered by its channel context is shown under.\<close>

definition display_target_of :: "string \<Rightarrow> TranslatorInbound \<Rightarrow> string" where
  "display_target_of wire_target inbound =
     (if \<not> is_channel (in_features inbound) wire_target
         \<and> \<not> same_name (in_features inbound) (in_sender inbound) (in_current_nick inbound)
      then in_sender inbound else wire_target)"

definition translate_notice :: "session_env \<Rightarrow> TranslatorInbound \<Rightarrow> Event list" where
  "translate_notice E inbound =
     (let message = in_message inbound; features = in_features inbound; body = text_param message 1 in
      if parse_ctcp_request (env_unicode E) body \<noteq> None then []
      else
        let wire_target = text_param message 0 in
        case nick_targeted_channel_delivery wire_target inbound of
          Some delivery \<Rightarrow>
            [NoticeEvent (chat_event inbound (key_for (in_network_id inbound) (cd_channel delivery) features) body
               (cd_channel delivery) (cd_only_visible delivery))]
        | None \<Rightarrow>
            if is_channel features wire_target then []
            else if list_ex (has_tag message) CHANNEL_CONTEXT_TAGS then []
            else case conversation_for E (in_network_id inbound) wire_target message (in_current_nick inbound) features of
                   None \<Rightarrow> []
                 | Some conversation \<Rightarrow>
                     let shown = display_target_of wire_target inbound in
                     if is_network_notice_target shown \<or> target_looks_like_service (env_unicode E) shown features then []
                     else [NoticeEvent (chat_event inbound conversation body shown False)])"

definition translate_privmsg :: "session_env \<Rightarrow> TranslatorInbound \<Rightarrow> Event list" where
  "translate_privmsg E inbound =
     (let message = in_message inbound; features = in_features inbound;
          wire_target = text_param message 0; body = text_param message 1;
          refused = (case parse_ctcp_request (env_unicode E) body of None \<Rightarrow> False | Some ctcp \<Rightarrow> ctcp_command ctcp \<noteq> ''ACTION'');
          event = (\<lambda>conversation target only_visible.
            case action_text body of
              Some emote \<Rightarrow> [ActionEvent (chat_event inbound conversation emote target only_visible)]
            | None \<Rightarrow> [MessageEvent (chat_event inbound conversation body target only_visible)])
      in if refused then []
         else case nick_targeted_channel_delivery wire_target inbound of
                Some delivery \<Rightarrow>
                  event (key_for (in_network_id inbound) (cd_channel delivery) features) (cd_channel delivery) (cd_only_visible delivery)
              | None \<Rightarrow>
                  (case conversation_for E (in_network_id inbound) wire_target message (in_current_nick inbound) features of
                     None \<Rightarrow> []
                   | Some conversation \<Rightarrow> event conversation (display_target_of wire_target inbound) False))"

definition translate_tagmsg :: "session_env \<Rightarrow> TranslatorInbound \<Rightarrow> Event list" where
  "translate_tagmsg E inbound =
     (case tag_text (in_message inbound) ''+typing'' of
        None \<Rightarrow> []
      | Some value \<Rightarrow>
          if in_sender inbound = [] then []
          else case typing_phase_from_tag value of
                 None \<Rightarrow> []
               | Some ph \<Rightarrow>
                   (case conversation_for E (in_network_id inbound) (text_param (in_message inbound) 0) (in_message inbound)
                           (in_current_nick inbound) (in_features inbound) of
                      None \<Rightarrow> []
                    | Some conversation \<Rightarrow> [TypingEvent conversation (in_sender inbound) ph (in_timestamp inbound)]))"

section \<open>Membership and channel state\<close>

definition remaining_params :: "IrcMessage \<Rightarrow> nat \<Rightarrow> string list" where
  "remaining_params message first_index = map (text_param message) [first_index..<length (msg_params message)]"

definition translate_join :: "TranslatorInbound \<Rightarrow> Event list" where
  "translate_join inbound =
     (let message = in_message inbound; count = length (msg_params message) in
      [JoinEvent (in_network_id inbound) (text_param message 0) (in_sender inbound)
         (if 2 \<le> count then Some (text_param message 1) else None) (if 3 \<le> count then Some (text_param message 2) else None)])"

definition translate_account :: "TranslatorInbound \<Rightarrow> Event list" where
  "translate_account inbound =
     [AccountEvent (in_network_id inbound) (in_sender inbound)
        (if msg_params (in_message inbound) = [] then [] else text_param (in_message inbound) 0)]"

definition translate_part :: "TranslatorInbound \<Rightarrow> Event list" where
  "translate_part inbound =
     [PartEvent (in_network_id inbound) (text_param (in_message inbound) 0) (in_sender inbound) (text_param (in_message inbound) 1)]"

definition translate_quit :: "TranslatorInbound \<Rightarrow> Event list" where
  "translate_quit inbound = [QuitEvent (in_network_id inbound) (in_sender inbound) (text_param (in_message inbound) 0)]"

definition translate_nick :: "TranslatorInbound \<Rightarrow> Event list" where
  "translate_nick inbound = [NickEvent (in_network_id inbound) (in_sender inbound) (text_param (in_message inbound) 0)]"

definition translate_kick :: "TranslatorInbound \<Rightarrow> Event list" where
  "translate_kick inbound =
     (let message = in_message inbound in
      [KickEvent (in_network_id inbound) (text_param message 0) (text_param message 1) (in_sender inbound) (text_param message 2)])"

definition translate_topic :: "TranslatorInbound \<Rightarrow> Event list" where
  "translate_topic inbound =
     (let message = in_message inbound in
      [TopicEvent (in_network_id inbound) (text_param message 0) (text_param message 1) (in_sender inbound) False])"

definition translate_topic_reply :: "TranslatorInbound \<Rightarrow> Event list" where
  "translate_topic_reply inbound =
     (let message = in_message inbound in
      [TopicEvent (in_network_id inbound) (text_param message 1) (text_param message 2) [] False])"

definition translate_topic_who_time :: "TranslatorInbound \<Rightarrow> Event list" where
  "translate_topic_who_time inbound =
     (let message = in_message inbound in
      [TopicEvent (in_network_id inbound) (text_param message 1) [] (text_param message 2) True])"

definition translate_names :: "TranslatorInbound \<Rightarrow> Event list" where
  "translate_names inbound =
     (let message = in_message inbound;
          fields = filter (\<lambda>field. field \<noteq> []) (split_by (\<lambda>c. c = CHR '' '') (text_param message 3));
          names = map (\<lambda>parsed. \<lparr>name_nick = pn_nick parsed, name_ranks = pn_ranks parsed\<rparr>)
                    (List.map_filter (parse_names_token (in_features inbound)) fields)
      in [NamesEvent (in_network_id inbound) (text_param message 2) names False])"

definition translate_names_end :: "TranslatorInbound \<Rightarrow> Event list" where
  "translate_names_end inbound = [NamesEvent (in_network_id inbound) (text_param (in_message inbound) 1) [] True]"

definition translate_mode :: "TranslatorInbound \<Rightarrow> Event list" where
  "translate_mode inbound =
     (let message = in_message inbound in
      [ModeEvent (in_network_id inbound) (text_param message 0) (in_sender inbound) (text_param message 1) (remaining_params message 2)])"

definition translate_away :: "TranslatorInbound \<Rightarrow> Event list" where
  "translate_away inbound =
     (let message = in_message inbound in
      [AwayEvent (in_network_id inbound) (in_sender inbound)
         (if msg_params message \<noteq> [] then Some \<lparr>away_reason = text_param message 0\<rparr> else None) None False])"

definition translate_self_away :: "TranslatorInbound \<Rightarrow> bool \<Rightarrow> Event list" where
  "translate_self_away inbound away = [SelfAwayEvent (in_network_id inbound) away]"

section \<open>Numerics and metadata\<close>

definition is_go_int :: "string \<Rightarrow> bool" where
  "is_go_int value \<longleftrightarrow> parse_i64 value \<noteq> None"

definition who_digits :: "string \<Rightarrow> bool" where
  "who_digits value \<longleftrightarrow> value \<noteq> [] \<and> list_all is_ascii_digit value"

text \<open>\<open>who_reply_realname\<close> and \<open>realname_from_who\<close> differ in what counts as a hop count.\<close>

definition realname_after_hops :: "(string \<Rightarrow> bool) \<Rightarrow> string \<Rightarrow> string" where
  "realname_after_hops is_hops trailing =
     (let trimmed = trim trailing in
      if trimmed = [] then []
      else case split_once (CHR '' '') trimmed of
             None \<Rightarrow> if is_hops trimmed then [] else trimmed
           | Some (hop, rest) \<Rightarrow> if \<not> is_hops hop then trimmed else trim rest)"

definition who_reply_realname :: "string \<Rightarrow> string" where
  "who_reply_realname trailing = realname_after_hops is_go_int trailing"

definition realname_from_who :: "string \<Rightarrow> string" where
  "realname_from_who trailing = realname_after_hops who_digits trailing"

definition translate_who_reply :: "TranslatorInbound \<Rightarrow> Event list" where
  "translate_who_reply inbound =
     (let message = in_message inbound; who = text_param message 5; flags = text_param message 6; trailing = text_param message 7;
          first = who_reply_realname trailing; realname = (if first = [] then realname_from_who trailing else first)
      in if who = [] then []
         else [AwayEvent (in_network_id inbound) who (if starts_with ''G'' flags then Some \<lparr>away_reason = []\<rparr> else None)
                 (if realname \<noteq> [] then Some realname else None) False,
               NickFactsEvent (in_network_id inbound) who None (Some (CHR ''*'' \<in> set flags))])"

definition translate_whois_realname :: "TranslatorInbound \<Rightarrow> Event list" where
  "translate_whois_realname inbound =
     (let message = in_message inbound; who = text_param message 1; realname = trim (text_param message 5) in
      if who = [] \<or> realname = [] then [] else [AwayEvent (in_network_id inbound) who None (Some realname) True])"

definition translate_whois_operator :: "TranslatorInbound \<Rightarrow> Event list" where
  "translate_whois_operator inbound =
     (let who = text_param (in_message inbound) 1 in
      if who = [] then [] else [NickFactsEvent (in_network_id inbound) who None (Some True)])"

definition translate_whois_account :: "TranslatorInbound \<Rightarrow> Event list" where
  "translate_whois_account inbound =
     (let message = in_message inbound; who = text_param message 1 in
      if who = [] then [] else [AccountEvent (in_network_id inbound) who (text_param message 2)])"

definition member_metadata :: "string \<Rightarrow> IrcMessage \<Rightarrow> nat \<Rightarrow> IrcServerFeatures \<Rightarrow> Event option" where
  "member_metadata net message target_index features =
     (if length (msg_params message) < target_index + 3 then None
      else
        let target = text_param message target_index; key_text = text_param message (target_index + 1) in
        if target = [] \<or> is_channel features target then None
        else case canonical_key key_text of
               None \<Rightarrow> None
             | Some confirmed \<Rightarrow>
                 let value = clamped (text_param message (target_index + 3)) in
                 if value = [] then None else Some (MemberMetadataEvent net target confirmed value))"

definition key_not_set_event :: "string \<Rightarrow> IrcMessage \<Rightarrow> IrcServerFeatures \<Rightarrow> Event option" where
  "key_not_set_event net message features =
     (if length (msg_params message) < 3 then None
      else
        let target = text_param message 1; key_text = text_param message 2 in
        if target = [] \<or> is_channel features target then None
        else case canonical_key key_text of
               None \<Rightarrow> None
             | Some confirmed \<Rightarrow> Some (MemberMetadataEvent net target confirmed []))"

definition option_list :: "'a option \<Rightarrow> 'a list" where
  "option_list x = (case x of None \<Rightarrow> [] | Some y \<Rightarrow> [y])"

definition translate_metadata :: "TranslatorInbound \<Rightarrow> nat \<Rightarrow> Event list" where
  "translate_metadata inbound target_index =
     option_list (member_metadata (in_network_id inbound) (in_message inbound) target_index (in_features inbound))"

definition translate_key_not_set :: "TranslatorInbound \<Rightarrow> Event list" where
  "translate_key_not_set inbound =
     option_list (key_not_set_event (in_network_id inbound) (in_message inbound) (in_features inbound))"

definition is_join_failure_numeric :: "string \<Rightarrow> bool" where
  "is_join_failure_numeric command \<longleftrightarrow>
     command \<in> set [''403'', ''405'', ''448'', ''471'', ''473'', ''474'', ''475'', ''476'', ''477'', ''479'', ''489'', ''520'']"

definition is_ambiguous_join_failure_numeric :: "string \<Rightarrow> bool" where
  "is_ambiguous_join_failure_numeric command \<longleftrightarrow> command \<in> set [''437'', ''480'', ''485'']"

definition is_join_failure :: "string \<Rightarrow> bool" where
  "is_join_failure command \<longleftrightarrow> is_join_failure_numeric command \<or> is_ambiguous_join_failure_numeric command"

definition translate_join_failure :: "TranslatorInbound \<Rightarrow> Event list" where
  "translate_join_failure inbound =
     (let message = in_message inbound; chan = text_param message 1 in
      if is_ambiguous_join_failure_numeric (in_command inbound) \<and> \<not> is_channel (in_features inbound) chan then []
      else [ChannelErrorEvent (in_network_id inbound) chan (text_param message 2)])"

section \<open>One message\<close>

definition inbound_of ::
    "session_env \<Rightarrow> string \<Rightarrow> string \<Rightarrow> IrcServerFeatures \<Rightarrow> IrcMessage \<Rightarrow> instant \<Rightarrow> (string \<Rightarrow> string \<Rightarrow> string option) option
      \<Rightarrow> TranslatorInbound" where
  "inbound_of E net current_nick features message now joined =
     \<lparr>in_command = to_ascii_uppercase (msg_command message), in_network_id = net, in_current_nick = current_nick,
      in_features = features, in_message = message, in_joined = joined, in_sender = message_author message,
      in_timestamp = timestamp_for E message now, in_server_time = server_time_of (env_time E) message\<rparr>"

text \<open>The \<open>match\<close> of \<open>translate\<close>: the command with the guard on its parameters.\<close>

definition translate_command :: "session_env \<Rightarrow> TranslatorInbound \<Rightarrow> Event list" where
  "translate_command E inbound =
     (let command = in_command inbound; count = length (msg_params (in_message inbound)) in
      if command = ''NOTICE'' \<and> 2 \<le> count then translate_notice E inbound
      else if command = ''PRIVMSG'' \<and> 2 \<le> count then translate_privmsg E inbound
      else if command = ''TAGMSG'' \<and> 0 < count then translate_tagmsg E inbound
      else if command = ''JOIN'' \<and> 0 < count then translate_join inbound
      else if command = ''ACCOUNT'' \<and> in_sender inbound \<noteq> [] then translate_account inbound
      else if command = ''330'' \<and> 3 \<le> count then translate_whois_account inbound
      else if command = ''PART'' \<and> 0 < count then translate_part inbound
      else if command = ''QUIT'' then translate_quit inbound
      else if command = ''NICK'' \<and> 0 < count then translate_nick inbound
      else if command = ''KICK'' \<and> 2 \<le> count then translate_kick inbound
      else if command = ''TOPIC'' \<and> 2 \<le> count then translate_topic inbound
      else if command = ''332'' \<and> 3 \<le> count then translate_topic_reply inbound
      else if command = ''333'' \<and> 3 \<le> count then translate_topic_who_time inbound
      else if command = ''353'' \<and> 4 \<le> count then translate_names inbound
      else if command = ''366'' \<and> 2 \<le> count then translate_names_end inbound
      else if command = ''MODE'' \<and> 2 \<le> count then translate_mode inbound
      else if command = ''AWAY'' \<and> in_sender inbound \<noteq> [] then translate_away inbound
      else if command = ''306'' then translate_self_away inbound True
      else if command = ''305'' then translate_self_away inbound False
      else if command = ''352'' \<and> 7 \<le> count then translate_who_reply inbound
      else if command = ''311'' \<and> 6 \<le> count then translate_whois_realname inbound
      else if command = ''313'' \<and> 2 \<le> count then translate_whois_operator inbound
      else if command = ''CHGHOST'' then []
      else if command = ''METADATA'' then translate_metadata inbound 0
      else if command = ''761'' then translate_metadata inbound 1
      else if command = ''766'' then translate_key_not_set inbound
      else if is_join_failure command \<and> 3 \<le> count then translate_join_failure inbound
      else [])"

definition translate ::
    "session_env \<Rightarrow> string \<Rightarrow> string \<Rightarrow> IrcServerFeatures \<Rightarrow> IrcMessage \<Rightarrow> instant \<Rightarrow> (string \<Rightarrow> string \<Rightarrow> string option) option
      \<Rightarrow> Event list" where
  "translate E net current_nick features message now joined =
     (let sender = message_author message;
          tagged = (case present_tag_value message ''account'' of
                      None \<Rightarrow> []
                    | Some account \<Rightarrow> if from_user message \<and> sender \<noteq> [] then [AccountEvent net sender account] else [])
      in tagged @ translate_command E (inbound_of E net current_nick features message now joined))"

section \<open>Batches of history\<close>

definition chat_replay_line :: "ConversationKey \<Rightarrow> instant option \<Rightarrow> Event \<Rightarrow> ReplayLine option" where
  "chat_replay_line conversation server_time event =
     (let line = (\<lambda>k chat. if ce_conversation chat \<noteq> conversation then None
            else Some \<lparr>rl_author = ce_author chat, rl_body = ce_body chat, rl_timestamp = ce_timestamp chat, rl_kind = k,
                       rl_msgid = ce_msgid chat, rl_server_time = server_time, rl_only_visible = ce_only_visible chat\<rparr>)
      in case event of
           MessageEvent chat \<Rightarrow> line TagChat chat
         | ActionEvent chat \<Rightarrow> line TagEmote chat
         | _ \<Rightarrow> None)"

text \<open>The first join, part, quit or nick among the events decides; \<open>Some None\<close> is its early \<open>return None\<close>.\<close>

definition membership_caption :: "string \<Rightarrow> IrcServerFeatures \<Rightarrow> Event \<Rightarrow> string option option" where
  "membership_caption batch_target features event =
     (case event of
        JoinEvent _ chan who account _ \<Rightarrow>
          Some (if who = [] \<or> \<not> same_name features chan batch_target then None
                else Some (join_line who (case account of None \<Rightarrow> []
                             | Some account \<Rightarrow> shown_account (same_name features account who) account)))
      | PartEvent _ chan who _ \<Rightarrow>
          Some (if who = [] \<or> \<not> same_name features chan batch_target then None else Some (part_line who))
      | QuitEvent _ who _ \<Rightarrow> Some (if who = [] then None else Some (quit_line who))
      | NickEvent _ old_nick new_nick \<Rightarrow> Some (if old_nick = [] \<or> new_nick = [] then None else Some (nick_line old_nick new_nick))
      | _ \<Rightarrow> None)"

definition channel_membership_replay_line ::
    "session_env \<Rightarrow> string \<Rightarrow> IrcServerFeatures \<Rightarrow> IrcMessage \<Rightarrow> Event list \<Rightarrow> instant option \<Rightarrow> instant \<Rightarrow> ReplayLine option" where
  "channel_membership_replay_line E batch_target features message translated server_time now =
     (if \<not> is_channel features batch_target then None
      else case List.map_filter (membership_caption batch_target features) translated of
             Some body # _ \<Rightarrow> Some \<lparr>rl_author = [], rl_body = body, rl_timestamp = timestamp_for E message now, rl_kind = TagEvent,
                                   rl_msgid = msgid message, rl_server_time = server_time, rl_only_visible = False\<rparr>
           | _ \<Rightarrow> None)"

definition bouncer_query_replay_line ::
    "session_env \<Rightarrow> string \<Rightarrow> IrcServerFeatures \<Rightarrow> IrcMessage \<Rightarrow> instant option \<Rightarrow> instant \<Rightarrow> ReplayLine option" where
  "bouncer_query_replay_line E batch_target features message server_time now =
     (if to_ascii_uppercase (msg_command message) \<noteq> ''PRIVMSG'' \<or> length (msg_params message) < 2 then None
      else if \<not> routable_source message then None
      else
        let wire_target = text_param message 0; sender = message_author message; body = text_param message 1 in
        if is_channel features wire_target \<or> is_network_notice_target wire_target \<or> \<not> from_user message
           \<or> is_service_source (env_unicode E) message features then None
        else if sender = [] \<or> (\<not> same_name features sender batch_target \<and> \<not> same_name features wire_target batch_target) then None
        else if (case parse_ctcp_request (env_unicode E) body of None \<Rightarrow> False | Some ctcp \<Rightarrow> ctcp_command ctcp \<noteq> ''ACTION'') then None
        else
          let (k, shown) = (case action_text body of Some emote \<Rightarrow> (TagEmote, emote) | None \<Rightarrow> (TagChat, body))
          in Some \<lparr>rl_author = sender, rl_body = shown, rl_timestamp = timestamp_for E message now, rl_kind = k,
                   rl_msgid = msgid message, rl_server_time = server_time, rl_only_visible = False\<rparr>)"

text \<open>The lines one message of a batch contributes.\<close>

definition replay_lines ::
    "session_env \<Rightarrow> string \<Rightarrow> string \<Rightarrow> IrcServerFeatures \<Rightarrow> HistoryBatch \<Rightarrow> instant \<Rightarrow> (string \<Rightarrow> string \<Rightarrow> string option) option
      \<Rightarrow> IrcMessage \<Rightarrow> ReplayLine list" where
  "replay_lines E net current_nick features batch now joined line =
     (let channel_batch = is_channel features (hb_target batch);
          server_time = server_time_of (env_time E) line;
          translated = translate E net current_nick features line now (if channel_batch then joined else None);
          chat = List.map_filter (chat_replay_line (key_for net (hb_target batch) features) server_time) translated;
          membership = (if chat = [] then channel_membership_replay_line E (hb_target batch) features line translated server_time now
                        else None)
      in if chat \<noteq> [] then chat
         else case membership of
                Some row \<Rightarrow> [row]
              | None \<Rightarrow>
                  if hb_kind batch = Some BouncerPlayback \<and> \<not> channel_batch
                  then option_list (bouncer_query_replay_line E (hb_target batch) features line server_time now)
                  else [])"

definition translate_history ::
    "session_env \<Rightarrow> string \<Rightarrow> string \<Rightarrow> IrcServerFeatures \<Rightarrow> HistoryBatch \<Rightarrow> instant \<Rightarrow> (string \<Rightarrow> string \<Rightarrow> string option) option
      \<Rightarrow> HistoryEvent option" where
  "translate_history E net current_nick features batch now joined =
     (if hb_kind batch = Some Targets \<or> hb_target batch = [] then None
      else Some \<lparr>he_conversation = key_for net (hb_target batch) features, he_target = hb_target batch,
             he_lines = concat (map (replay_lines E net current_nick features batch now joined) (hb_lines batch)),
             he_kind = (case hb_kind batch of None \<Rightarrow> Chat | Some k \<Rightarrow> k), he_older_page = hb_older_page batch\<rparr>)"

end
