(* ===== verification/TranslatorRouting.thy ===== *)
theory TranslatorRouting
  imports Translator ReducerSafety
begin

text \<open>
  Where an inbound line goes: the conversation every chat event names, the lines a batch of history keeps, and what a
  message the translator cannot read leaves behind.
\<close>

section \<open>Chat events\<close>

lemma option_list_set [simp]: "set (option_list x) = set_option x"
  by (cases x) (simp_all add: option_list_def)

lemma metadata_not_chat [simp]:
  "member_metadata net message i features = Some event \<Longrightarrow> chat_of event = None"
  "key_not_set_event net message features = Some event \<Longrightarrow> chat_of event = None"
  by (auto simp: member_metadata_def key_not_set_event_def Let_def split: if_splits option.splits)

lemmas silent_handlers = translate_tagmsg_def translate_join_def translate_account_def translate_part_def translate_quit_def
  translate_nick_def translate_kick_def translate_topic_def translate_topic_reply_def translate_topic_who_time_def
  translate_names_def translate_names_end_def translate_mode_def translate_away_def translate_self_away_def
  translate_who_reply_def translate_whois_realname_def translate_whois_operator_def translate_whois_account_def
  translate_metadata_def translate_key_not_set_def translate_join_failure_def

lemma silent_handler [simp]:
  "list_all (\<lambda>event. chat_of event = None) (translate_tagmsg E i)" "list_all (\<lambda>event. chat_of event = None) (translate_join i)"
  "list_all (\<lambda>event. chat_of event = None) (translate_account i)" "list_all (\<lambda>event. chat_of event = None) (translate_part i)"
  "list_all (\<lambda>event. chat_of event = None) (translate_quit i)" "list_all (\<lambda>event. chat_of event = None) (translate_nick i)"
  "list_all (\<lambda>event. chat_of event = None) (translate_kick i)" "list_all (\<lambda>event. chat_of event = None) (translate_topic i)"
  "list_all (\<lambda>event. chat_of event = None) (translate_topic_reply i)" "list_all (\<lambda>event. chat_of event = None) (translate_topic_who_time i)"
  "list_all (\<lambda>event. chat_of event = None) (translate_names i)" "list_all (\<lambda>event. chat_of event = None) (translate_names_end i)"
  "list_all (\<lambda>event. chat_of event = None) (translate_mode i)" "list_all (\<lambda>event. chat_of event = None) (translate_away i)"
  "list_all (\<lambda>event. chat_of event = None) (translate_self_away i b)" "list_all (\<lambda>event. chat_of event = None) (translate_who_reply i)"
  "list_all (\<lambda>event. chat_of event = None) (translate_whois_realname i)" "list_all (\<lambda>event. chat_of event = None) (translate_whois_operator i)"
  "list_all (\<lambda>event. chat_of event = None) (translate_whois_account i)" "list_all (\<lambda>event. chat_of event = None) (translate_metadata i n)"
  "list_all (\<lambda>event. chat_of event = None) (translate_key_not_set i)" "list_all (\<lambda>event. chat_of event = None) (translate_join_failure i)"
  by (auto simp: silent_handlers Let_def list_all_iff split: option.split)

text \<open>Only PRIVMSG and NOTICE become chat events.\<close>

definition chat_only_from :: "session_env \<Rightarrow> TranslatorInbound \<Rightarrow> Event list \<Rightarrow> bool" where
  "chat_only_from E i events \<longleftrightarrow>
     list_all (\<lambda>event. chat_of event = None) events \<or> events = translate_privmsg E i \<or> events = translate_notice E i"

lemma chat_only_from_handlers [simp]:
  "list_all (\<lambda>event. chat_of event = None) events \<Longrightarrow> chat_only_from E i events"
  "chat_only_from E i (translate_privmsg E i)" "chat_only_from E i (translate_notice E i)"
  by (simp_all add: chat_only_from_def)

lemma chat_handlers: "chat_only_from E i (translate_command E i)"
  unfolding translate_command_def Let_def by simp

lemma chat_handler:
  assumes "event \<in> set (translate E net me features message now joined)" "chat_of event = Some chat"
  shows "event \<in> set (translate_privmsg E (inbound_of E net me features message now joined))
    \<or> event \<in> set (translate_notice E (inbound_of E net me features message now joined))"
proof -
  have "event \<in> set (translate_command E (inbound_of E net me features message now joined))"
    using assms by (auto simp: translate_def Let_def split: option.splits if_splits)
  then show ?thesis
    using assms(2) chat_handlers [of E "inbound_of E net me features message now joined"]
    by (auto simp: chat_only_from_def list_all_iff)
qed

lemma inbound_fields [simp]:
  "in_network_id (inbound_of E net me features message now joined) = net"
  "in_current_nick (inbound_of E net me features message now joined) = me"
  "in_features (inbound_of E net me features message now joined) = features"
  "in_message (inbound_of E net me features message now joined) = message"
  "in_joined (inbound_of E net me features message now joined) = joined"
  "in_sender (inbound_of E net me features message now joined) = message_author message"
  "in_timestamp (inbound_of E net me features message now joined) = timestamp_for E message now"
  "in_server_time (inbound_of E net me features message now joined) = server_time_of (env_time E) message"
  "in_command (inbound_of E net me features message now joined) = to_ascii_uppercase (msg_command message)"
  by (simp_all add: inbound_of_def)

text \<open>Why a line may be shown in the conversation of \<open>shown\<close>.\<close>

definition direct_route :: "session_env \<Rightarrow> IrcServerFeatures \<Rightarrow> string \<Rightarrow> IrcMessage \<Rightarrow> string \<Rightarrow> bool" where
  "direct_route E features me message shown \<longleftrightarrow>
     routable_source message
     \<and> (if is_channel features (text_param message 0) then shown = text_param message 0
        else from_user message \<and> \<not> is_service_source (env_unicode E) message features \<and> message_author message \<noteq> []
          \<and> (if same_name features (message_author message) me then shown = text_param message 0
             else same_name features (text_param message 0) me \<and> shown = message_author message))"

definition context_route :: "IrcServerFeatures \<Rightarrow> string \<Rightarrow> IrcMessage \<Rightarrow> (string \<Rightarrow> string \<Rightarrow> string option) option \<Rightarrow> string \<Rightarrow> bool" where
  "context_route features me message joined shown \<longleftrightarrow>
     \<not> is_channel features (text_param message 0) \<and> same_name features (text_param message 0) me \<and> is_channel features shown
     \<and> (\<exists>lookup named. joined = Some lookup \<and> channel_context_text named features \<and> lookup named (message_author message) = Some shown)"

lemma delivery_route:
  "nick_targeted_channel_delivery (text_param message 0) (inbound_of E net me features message now joined) = Some delivery \<Longrightarrow>
   context_route features me message joined (cd_channel delivery) \<and> cd_only_visible delivery"
  by (auto simp: nick_targeted_channel_delivery_def context_route_def Let_def channel_context_channel_def find_Some_iff
      split: option.splits if_splits)

lemma conversation_route:
  assumes "conversation_for E net (text_param message 0) message me features = Some conversation"
  shows "direct_route E features me message (display_target_of (text_param message 0) (inbound_of E net me features message now joined))
    \<and> conversation = key_for net (display_target_of (text_param message 0) (inbound_of E net me features message now joined)) features"
  using assms by (auto simp: conversation_for_def direct_route_def display_target_of_def Let_def key_for_def same_name_def equals_def
      split: if_splits)

text \<open>The fields a chat event takes from its message, and the route that allows it.\<close>

definition routed_chat ::
    "session_env \<Rightarrow> string \<Rightarrow> string \<Rightarrow> IrcServerFeatures \<Rightarrow> IrcMessage \<Rightarrow> instant \<Rightarrow> (string \<Rightarrow> string \<Rightarrow> string option) option
      \<Rightarrow> ChatEvent \<Rightarrow> bool" where
  "routed_chat E net me features message now joined chat \<longleftrightarrow>
     ce_conversation chat = key_for net (ce_target chat) features
     \<and> ce_author chat = message_author message \<and> ce_msgid chat = msgid message
     \<and> ce_timestamp chat = timestamp_for E message now \<and> ce_server_time chat = server_time_of (env_time E) message
     \<and> (if ce_only_visible chat then context_route features me message joined (ce_target chat)
        else direct_route E features me message (ce_target chat))"

lemma privmsg_routed:
  assumes "event \<in> set (translate_privmsg E (inbound_of E net me features message now joined))"
  shows "\<exists>chat. (event = MessageEvent chat \<or> event = ActionEvent chat) \<and> routed_chat E net me features message now joined chat"
proof (cases "nick_targeted_channel_delivery (text_param message 0) (inbound_of E net me features message now joined)")
  case (Some delivery)
  then show ?thesis
    using assms delivery_route [OF Some]
    by (auto simp: translate_privmsg_def Let_def chat_event_def routed_chat_def split: if_splits option.splits)
next
  case None
  then obtain conversation where c: "conversation_for E net (text_param message 0) message me features = Some conversation"
    using assms by (cases "conversation_for E net (text_param message 0) message me features")
      (auto simp: translate_privmsg_def Let_def split: if_splits)
  then show ?thesis
    using assms None conversation_route [OF c, of now joined]
    by (auto simp: translate_privmsg_def Let_def chat_event_def routed_chat_def split: if_splits option.splits)
qed

lemma notice_routed:
  assumes "event \<in> set (translate_notice E (inbound_of E net me features message now joined))"
  shows "\<exists>chat. event = NoticeEvent chat \<and> routed_chat E net me features message now joined chat"
proof (cases "nick_targeted_channel_delivery (text_param message 0) (inbound_of E net me features message now joined)")
  case (Some delivery)
  then show ?thesis
    using assms delivery_route [OF Some]
    by (auto simp: translate_notice_def Let_def chat_event_def routed_chat_def split: if_splits)
next
  case None
  then obtain conversation where c: "conversation_for E net (text_param message 0) message me features = Some conversation"
    using assms by (cases "conversation_for E net (text_param message 0) message me features")
      (auto simp: translate_notice_def Let_def split: if_splits)
  then show ?thesis
    using assms None conversation_route [OF c, of now joined]
    by (auto simp: translate_notice_def Let_def chat_event_def routed_chat_def split: if_splits)
qed

section \<open>A private message\<close>

text \<open>The events of an account tag.\<close>

definition account_events :: "string \<Rightarrow> IrcMessage \<Rightarrow> Event list" where
  "account_events net message =
     (case present_tag_value message ''account'' of
        None \<Rightarrow> []
      | Some account \<Rightarrow> if from_user message \<and> message_author message \<noteq> [] then [AccountEvent net (message_author message) account] else [])"

lemma translate_split:
  "translate E net me features message now joined
     = account_events net message @ translate_command E (inbound_of E net me features message now joined)"
  by (simp add: translate_def account_events_def Let_def)

text \<open>A PRIVMSG a peer sends to the user, without a channel context, whose body is no CTCP request other than ACTION.\<close>

definition private_line :: "session_env \<Rightarrow> string \<Rightarrow> IrcServerFeatures \<Rightarrow> IrcMessage \<Rightarrow> bool" where
  "private_line E me features message \<longleftrightarrow>
     to_ascii_uppercase (msg_command message) = ''PRIVMSG'' \<and> 2 \<le> length (msg_params message)
     \<and> from_user message \<and> routable_source message \<and> \<not> is_service_source (env_unicode E) message features
     \<and> same_name features (text_param message 0) me \<and> \<not> same_name features (message_author message) me
     \<and> \<not> is_channel features (text_param message 0) \<and> \<not> is_network_notice_target (text_param message 0)
     \<and> message_author message \<noteq> [] \<and> channel_context_channel message features = None
     \<and> (case parse_ctcp_request (env_unicode E) (text_param message 1) of None \<Rightarrow> True | Some ctcp \<Rightarrow> ctcp_command ctcp = ''ACTION'')"

definition private_chat :: "session_env \<Rightarrow> string \<Rightarrow> IrcServerFeatures \<Rightarrow> IrcMessage \<Rightarrow> instant \<Rightarrow> ChatEvent" where
  "private_chat E net features message now =
     \<lparr>ce_conversation = key_for net (message_author message) features, ce_author = message_author message,
      ce_body = (case action_text (text_param message 1) of None \<Rightarrow> text_param message 1 | Some emote \<Rightarrow> emote),
      ce_timestamp = timestamp_for E message now, ce_server_time = server_time_of (env_time E) message,
      ce_target = message_author message, ce_msgid = msgid message, ce_only_visible = False\<rparr>"

definition private_event :: "session_env \<Rightarrow> string \<Rightarrow> IrcServerFeatures \<Rightarrow> IrcMessage \<Rightarrow> instant \<Rightarrow> Event" where
  "private_event E net features message now =
     (if action_text (text_param message 1) = None then MessageEvent (private_chat E net features message now)
      else ActionEvent (private_chat E net features message now))"

lemma private_line_event:
  assumes "private_line E me features message"
  shows "translate E net me features message now joined = account_events net message @ [private_event E net features message now]"
proof -
  let ?i = "inbound_of E net me features message now joined"
  have "translate_command E ?i = translate_privmsg E ?i"
    using assms by (simp add: translate_command_def private_line_def)
  moreover have "conversation_for E net (text_param message 0) message me features = Some (key_for net (message_author message) features)"
    using assms by (simp add: conversation_for_def private_line_def)
  moreover have "nick_targeted_channel_delivery (text_param message 0) ?i = None"
    using assms by (simp add: nick_targeted_channel_delivery_def private_line_def)
  moreover have "display_target_of (text_param message 0) ?i = message_author message"
    using assms by (simp add: display_target_of_def private_line_def)
  ultimately show ?thesis
    using assms by (auto simp: translate_split translate_privmsg_def private_event_def private_chat_def chat_event_def private_line_def Let_def split: option.splits)
qed

text \<open>A line from a peer, used below.\<close>

definition wire_env :: session_env where
  "wire_env = \<lparr>env_unicode = ascii_unicode,
     env_time = \<lparr>format_millis = decimal_int, format_local = decimal_int, parse_rfc3339 = (\<lambda>_. None), parse_with_ms = (\<lambda>_. None),
                 parse_without_ms = (\<lambda>_. None)\<rparr>,
     env_crypto = sample_crypto, env_sts = sample_env\<rparr>"

definition bob_message :: IrcMessage where
  "bob_message = \<lparr>msg_tags = [], msg_prefix = Some \<lparr>pfx_raw = ''bob!u@h'', pfx_nick = ''bob'', pfx_user = ''u'', pfx_host = ''h''\<rparr>,
     msg_command = ''PRIVMSG'', msg_params = [''me'', ''hi'']\<rparr>"

lemma bob_parsed: "parse '':bob!u@h PRIVMSG me :hi'' = Inr bob_message"
  unfolding bob_message_def by code_simp

lemma bob_fields [simp]:
  "text_param bob_message 0 = ''me''" "text_param bob_message (Suc 0) = ''hi''" "text_param bob_message 1 = ''hi''"
  "message_author bob_message = ''bob''" "from_user bob_message" "routable_source bob_message" "msgid bob_message = []"
  "msg_command bob_message = ''PRIVMSG''" "length (msg_params bob_message) = 2" "tag_text bob_message name = None"
  "has_tag bob_message name = False" "present_tag_value bob_message name = None"
  by (code_simp, code_simp, code_simp, code_simp, code_simp, code_simp, code_simp, simp add: bob_message_def, simp add: bob_message_def,
    simp_all add: bob_message_def tag_text_def has_tag_def present_tag_value_def map_filter_def)

lemma bob_named [simp]: "same_name new_features ''me'' ''me''" "\<not> same_name new_features ''bob'' ''me''"
  "key_for ''net'' ''bob'' new_features = bob_key"
  by (simp_all add: same_name_def equals_def key_for_def bob_key_def new_features_def rebuild_prefix_dumps_def, code_simp+)

lemma bob_private: "private_line wire_env ''me'' new_features bob_message"
proof -
  have "\<not> is_service_identity ascii_unicode ''bob'' ''h'' ''#&''" "parse_ctcp_request ascii_unicode ''hi'' = None"
    "\<not> is_network_notice_target ''me''" "utf8_valid ''bob''" "utf8_valid ''h''" "to_ascii_uppercase ''PRIVMSG'' = ''PRIVMSG''"
    by code_simp+
  moreover have "channel_context_channel bob_message new_features = None"
    by (simp add: channel_context_channel_def map_filter_def CHANNEL_CONTEXT_TAGS_def)
  ultimately show ?thesis
    by (simp add: private_line_def wire_env_def is_service_source_def is_channel_def default_names)
       (simp add: bob_message_def wire_text_def default_names)
qed
section \<open>Routing\<close>

text \<open>
  C7: every message, notice or action the translator hands to the reducer is addressed soundly. It is filed under the key
  of the name it is shown under and keeps the author, msgid and times of the line. A line marked as visible to the user
  alone was addressed to the user and names a channel that the membership lookup confirmed for its sender; any other
  line comes from a source that can take a reply, and is either addressed to the channel it is shown in or was exchanged
  between the user and the peer it is shown under, who is neither a server nor a service.
\<close>

theorem chat_routing:
  assumes "event \<in> set (translate E net me features message now joined)" "chat_of event = Some chat"
  shows "routed_chat E net me features message now joined chat"
  using chat_handler [OF assms] assms(2) by (auto dest!: privmsg_routed notice_routed)

theorem chat_routing_witness:
  "private_event wire_env ''net'' new_features bob_message 7 \<in> set (translate wire_env ''net'' ''me'' new_features bob_message 7 None)
    \<and> routed_chat wire_env ''net'' ''me'' new_features bob_message 7 None (private_chat wire_env ''net'' new_features bob_message 7)"
proof -
  have e: "private_event wire_env ''net'' new_features bob_message 7 \<in> set (translate wire_env ''net'' ''me'' new_features bob_message 7 None)"
    by (simp add: private_line_event [OF bob_private])
  then show ?thesis
    using chat_routing [OF e] by (simp add: private_event_def)
qed

section \<open>Batches of history\<close>

lemma short_chat: "length (translate_privmsg E i) \<le> 1" "length (translate_notice E i) \<le> 1"
  by (simp_all add: translate_privmsg_def translate_notice_def Let_def split: option.split)

lemma map_filter_none: "list_all (\<lambda>x. f x = None) xs \<Longrightarrow> List.map_filter f xs = []"
  by (simp add: map_filter_def list_all_iff filter_empty_conv)

lemma map_filter_le: "length (List.map_filter f xs) \<le> length xs"
  by (simp add: map_filter_def)

lemma chat_replay_of:
  "chat_replay_line conversation time event = Some row \<Longrightarrow> \<exists>chat. chat_of event = Some chat \<and> ce_conversation chat = conversation
     \<and> rl_author row = ce_author chat \<and> rl_body row = ce_body chat \<and> rl_timestamp row = ce_timestamp chat \<and> rl_msgid row = ce_msgid chat
     \<and> rl_server_time row = time \<and> rl_only_visible row = ce_only_visible chat \<and> rl_kind row \<noteq> TagEvent"
  by (cases event) (auto simp: chat_replay_line_def Let_def split: if_splits)

lemma one_chat_line: "length (List.map_filter (chat_replay_line conversation time) (translate E net me features message now joined)) \<le> 1"
proof -
  let ?i = "inbound_of E net me features message now joined" and ?f = "chat_replay_line conversation time"
  have silent: "list_all (\<lambda>e. chat_of e = None) es \<Longrightarrow> List.map_filter ?f es = []" for es
    by (intro map_filter_none) (auto simp: list_all_iff dest!: chat_replay_of intro: ccontr)
  have "length (List.map_filter ?f (translate_command E ?i)) \<le> 1"
    using chat_handlers [of E ?i] silent short_chat [of E ?i] map_filter_le [of ?f "translate_command E ?i"]
    by (auto simp: chat_only_from_def)
  moreover have "\<exists>tagged. list_all (\<lambda>e. chat_of e = None) tagged \<and> translate E net me features message now joined = tagged @ translate_command E ?i"
    by (auto simp: translate_def Let_def split: option.split)
  ultimately show ?thesis
    using silent by (auto simp: map_filter_def)
qed

text \<open>What a row of a batch owes to the line it comes from.\<close>

definition replay_row ::
    "session_env \<Rightarrow> string \<Rightarrow> string \<Rightarrow> IrcServerFeatures \<Rightarrow> HistoryBatch \<Rightarrow> instant \<Rightarrow> (string \<Rightarrow> string \<Rightarrow> string option) option
      \<Rightarrow> IrcMessage \<Rightarrow> ReplayLine \<Rightarrow> bool" where
  "replay_row E net me features batch now joined line row \<longleftrightarrow>
     rl_msgid row = msgid line \<and> rl_server_time row = server_time_of (env_time E) line \<and> rl_timestamp row = timestamp_for E line now
     \<and> (if is_channel features (hb_target batch) \<and> rl_kind row = TagEvent then rl_author row = [] \<and> \<not> rl_only_visible row
        else rl_kind row \<noteq> TagEvent \<and> rl_author row = message_author line
          \<and> ((\<exists>chat. routed_chat E net me features line now (if is_channel features (hb_target batch) then joined else None) chat
                \<and> ce_conversation chat = key_for net (hb_target batch) features \<and> rl_body row = ce_body chat
                \<and> rl_only_visible row = ce_only_visible chat)
             \<or> (hb_kind batch = Some BouncerPlayback \<and> \<not> is_channel features (hb_target batch) \<and> \<not> rl_only_visible row
                \<and> from_user line \<and> \<not> is_service_source (env_unicode E) line features
                \<and> (same_name features (message_author line) (hb_target batch) \<or> same_name features (text_param line 0) (hb_target batch)))))"

lemma replay_lines_rows:
  assumes "row \<in> set (replay_lines E net me features batch now joined line)"
  shows "replay_row E net me features batch now joined line row"
proof -
  let ?joined = "if is_channel features (hb_target batch) then joined else None"
  let ?key = "key_for net (hb_target batch) features" and ?time = "server_time_of (env_time E) line"
  let ?events = "translate E net me features line now ?joined"
  consider (chat) event where "event \<in> set ?events" "chat_replay_line ?key ?time event = Some row"
    | (membership) "channel_membership_replay_line E (hb_target batch) features line ?events ?time now = Some row"
    | (query) "hb_kind batch = Some BouncerPlayback" "\<not> is_channel features (hb_target batch)"
        "bouncer_query_replay_line E (hb_target batch) features line ?time now = Some row"
    using assms by (auto simp: replay_lines_def Let_def map_filter_def split: if_splits option.splits)
  then show ?thesis
  proof cases
    case chat
    then obtain c where c: "chat_of event = Some c" "ce_conversation c = ?key" "rl_author row = ce_author c" "rl_body row = ce_body c"
        "rl_timestamp row = ce_timestamp c" "rl_msgid row = ce_msgid c" "rl_server_time row = ?time" "rl_only_visible row = ce_only_visible c"
        "rl_kind row \<noteq> TagEvent"
      using chat_replay_of [OF chat(2)] by blast
    have routed: "routed_chat E net me features line now ?joined c"
      using chat_handler [OF chat(1) c(1)] c(1) by (auto dest!: privmsg_routed notice_routed)
    then have "ce_author c = message_author line" "ce_msgid c = msgid line" "ce_timestamp c = timestamp_for E line now"
      unfolding routed_chat_def by blast+
    moreover have "\<exists>chat. routed_chat E net me features line now ?joined chat \<and> ce_conversation chat = ?key
        \<and> rl_body row = ce_body chat \<and> rl_only_visible row = ce_only_visible chat"
      using routed c(2,4,8) by blast
    ultimately show ?thesis
      unfolding replay_row_def using c(3,5-7,9) by argo
  next
    case membership
    then show ?thesis
      by (auto simp: channel_membership_replay_line_def replay_row_def split: if_splits list.splits option.splits)
  next
    case query
    then show ?thesis
      by (auto simp: bouncer_query_replay_line_def replay_row_def Let_def split: if_splits option.splits)
  qed
qed

lemma replay_lines_one: "length (replay_lines E net me features batch now joined line) \<le> 1"
  using one_chat_line by (simp add: replay_lines_def Let_def option_list_def split: option.split)

lemma concat_short: "(\<And>x. length (f x) \<le> 1) \<Longrightarrow> concat (map f xs) = List.map_filter (\<lambda>x. case f x of [] \<Rightarrow> None | y # _ \<Rightarrow> Some y) xs"
  by (induction xs) (auto simp: map_filter_simps split: list.split, metis One_nat_def Suc_le_mono le_zero_eq length_0_conv length_Cons)


definition bob_batch :: HistoryBatch where
  "bob_batch = \<lparr>hb_target = ''bob'', hb_lines = [bob_message], hb_kind = Some Chat, hb_older_page = False, hb_history_ended = False,
     hb_after_request = False, hb_targets = []\<rparr>"

lemma bob_replayed: "length (replay_lines wire_env ''net'' ''me'' new_features bob_batch 7 None bob_message) = 1"
proof -
  have no_action: "action_text ''hi'' = None" by code_simp
  have "translate wire_env ''net'' ''me'' new_features bob_message 7 None = [MessageEvent (private_chat wire_env ''net'' new_features bob_message 7)]"
    by (simp add: private_line_event [OF bob_private] account_events_def private_event_def no_action)
  then show ?thesis
    by (simp add: replay_lines_def Let_def bob_batch_def map_filter_def chat_replay_line_def private_chat_def)
qed


end
