(* ===== verification/TranslatorDelivery.thy ===== *)
theory TranslatorDelivery
  imports TranslatorRouting
begin

text \<open>
  From a line to a row: what the translator makes of a message and what the reducer then shows of it.
\<close>

section \<open>One event in an open conversation\<close>

fun chat_kind :: "Event \<Rightarrow> MessageKind" where
  "chat_kind (MessageEvent _) = KindMessage"
| "chat_kind (NoticeEvent _) = KindNotice"
| "chat_kind (ActionEvent _) = KindAction"
| "chat_kind _ = KindEvent"

text \<open>The rows of a transcript once \<open>row\<close> is added under the cap.\<close>

definition with_row :: "ReducedMessage list \<Rightarrow> ReducedMessage \<Rightarrow> ReducedMessage list" where
  "with_row rows row = drop (length rows + 1 - MAX_MESSAGES) (rows @ [row])"

lemma cap_admitted: "cs_messages (snd (cap_messages (f, admit_message row c))) = with_row (cs_messages c) (row\<lparr>m_sequence := cs_next_sequence c\<rparr>)"
  by (simp add: cap_messages_def cap_with_policy_def Let_def split_beta admit_message_def with_row_def)

lemma admit_chat_rows:
  assumes "\<not> seen_line line (f, c)"
  shows "cs_messages (snd (admit_chat E line (f, c))) = with_row (cs_messages c) ((row_of_line E f line)\<lparr>m_sequence := cs_next_sequence c\<rparr>)"
  using assms by (auto simp: admit_chat_def Let_def split_beta seen_line_def cap_admitted)

lemma on_conversation_get:
  "find_conversation r key = Some c \<Longrightarrow> find_conversation (on_conversation key g r) key = Some (snd (g (rd_facts r, c)))"
  "other \<noteq> key \<Longrightarrow> find_conversation (on_conversation key g r) other = find_conversation r other"
  by (auto simp: find_conversation_def on_conversation_def split_beta split: option.split)

lemma chat_event_line:
  assumes "chat_of event = Some chat"
  shows "fst (reducer_apply R event now r) = append_chat R (chat_line_of (chat_kind event) chat) (without_arrivals r)"
  using assms by (cases event) (auto simp: reducer_apply_def Let_def without_arrivals_def reduce_message_def reduce_notice_def reduce_action_def)

lemma append_chat_open:
  assumes "find_conversation r (cl_key line) = Some c"
  shows "append_chat R line r = on_conversation (cl_key line) (admit_chat R line) r"
  using assms by (auto simp: append_chat_def ensure_key_def bt_contains_def find_conversation_def Let_def)

lemma chat_event_shown:
  assumes "chat_of event = Some chat" "find_conversation r (ce_conversation chat) = Some old"
    "ce_msgid chat \<noteq> [] \<Longrightarrow> ce_msgid chat \<notin> cs_message_ids old \<and> f_channel_context_msgids (rd_facts r) (ce_msgid chat) = None"
  shows "\<exists>conv row. find_conversation (fst (reducer_apply R event now r)) (ce_conversation chat) = Some conv
    \<and> cs_messages conv = with_row (cs_messages old) row
    \<and> m_kind row = chat_kind event \<and> m_author row = ce_author chat \<and> m_body row = ce_body chat \<and> m_time row = ce_timestamp chat
    \<and> m_msgid row = ce_msgid chat \<and> m_only_visible row = ce_only_visible chat \<and> m_origin row = Live
    \<and> m_sequence row = cs_next_sequence old"
proof -
  let ?line = "chat_line_of (chat_kind event) chat" and ?r = "without_arrivals r"
  have open_there: "find_conversation ?r (cl_key ?line) = Some old"
    using assms(2) by (simp add: chat_line_of_def without_arrivals_def on_facts_def find_conversation_def)
  have "\<not> seen_line ?line (rd_facts ?r, old)"
    using assms(3) by (auto simp: seen_line_def chat_line_of_def channel_context_blocks_dm_def without_arrivals_def on_facts_def split: option.splits)
  then show ?thesis
    using on_conversation_get(1) [OF open_there] chat_event_line [OF assms(1)] append_chat_open [OF open_there]
    by (intro exI [of _ "snd (admit_chat R ?line (rd_facts ?r, old))"]
        exI [of _ "(row_of_line R (rd_facts ?r) ?line)\<lparr>m_sequence := cs_next_sequence old\<rparr>"])
      (simp add: admit_chat_rows, simp add: row_of_line_def chat_line_of_def)
qed

section \<open>A private message\<close>



section \<open>Actions\<close>

lemma action_text_body: "action_text (CTCP_DELIMITER # ''ACTION '' @ body @ [CTCP_DELIMITER]) = Some body"
  by (simp add: action_text_def ACTION_PREFIX_def starts_with_def ends_with_def)

section \<open>Refused joins\<close>

lemma join_failure_digit: "is_join_failure c \<Longrightarrow> \<exists>cs. c = CHR ''4'' # cs \<or> c = CHR ''5'' # cs"
  by (auto simp: is_join_failure_def is_join_failure_numeric_def is_ambiguous_join_failure_numeric_def)

lemma join_failure_command:
  assumes "is_join_failure (to_ascii_uppercase (msg_command message))" "3 \<le> length (msg_params message)"
  shows "translate_command E (inbound_of E net me features message now joined)
    = translate_join_failure (inbound_of E net me features message now joined)"
  using assms join_failure_digit [OF assms(1)] by (elim exE disjE) (simp_all add: translate_command_def)

lemma forget_badges:
  "cs_unread (snd (foldl forget_transcript_msgid fc mids)) = cs_unread (snd fc)
   \<and> cs_mentions (snd (foldl forget_transcript_msgid fc mids)) = cs_mentions (snd fc)"
  by (induction mids arbitrary: fc) (auto simp: forget_transcript_msgid_def)

lemma cap_badges: "cs_unread (snd (cap_messages fc)) = cs_unread (snd fc)" "cs_mentions (snd (cap_messages fc)) = cs_mentions (snd fc)"
  using forget_badges by (simp_all add: cap_messages_def cap_with_policy_def Let_def split_beta)

text \<open>The conversation an error leaves behind.\<close>

definition with_error :: "reducer_env \<Rightarrow> string \<Rightarrow> EventReducer \<Rightarrow> ConversationState \<Rightarrow> ConversationState" where
  "with_error R body r old = snd (append_error R body (rd_facts (without_arrivals r), old))"

lemma with_error_row:
  "\<exists>row. cs_messages (with_error R body r old) = with_row (cs_messages old) row \<and> m_kind row = KindError \<and> m_body row = body
    \<and> m_sequence row = cs_next_sequence old \<and> cs_unread (with_error R body r old) = cs_unread old
    \<and> cs_mentions (with_error R body r old) = cs_mentions old"
  by (intro exI [of _ "(plain_row R KindError body False)\<lparr>m_sequence := cs_next_sequence old\<rparr>"])
    (simp add: with_error_def append_error_def cap_admitted cap_badges, simp add: admit_message_def plain_row_def)

lemma error_effect:
  "find_conversation (fst (reducer_apply R (ChannelErrorEvent net chan body) now r)) other
    = (if other = conversation_key r net chan then map_option (with_error R body r) (find_conversation r other) else find_conversation r other)"
proof -
  let ?r = "without_arrivals r"
  have same: "rd_conversations ?r = rd_conversations r" "conversation_key ?r net chan = conversation_key r net chan"
    by (simp_all add: find_conversation_def without_arrivals_def on_facts_def conversation_key_def facts_normalize_def facts_case_mapping_def
        features_of_def split: option.split)
  have "fst (reducer_apply R (ChannelErrorEvent net chan body) now r) = on_conversation (conversation_key r net chan) (append_error R body) ?r"
    using same(2) by (simp add: reducer_apply_def Let_def without_arrivals_def reduce_channel_error_def)
  then show ?thesis
    using same by (cases "bt_get (rd_conversations r) (conversation_key r net chan)")
      (auto simp: with_error_def on_conversation_def find_conversation_def split_beta)
qed

text \<open>
  C23: a refused join is reported where the user looks for it and nowhere else. A numeric that refuses a join becomes,
  beside the account it may carry, one error for the channel it names with the server's reason, unless it is one of the
  three numerics that can also name a nick and does not name a channel, which becomes nothing. The reducer shows the
  reason as one error row in that channel's conversation without counting it as unread, leaves every other conversation
  as it was, and opens no conversation for it.
\<close>

theorem join_refusal_reported:
  assumes "is_join_failure (to_ascii_uppercase (msg_command message))" "3 \<le> length (msg_params message)"
  shows "translate E net me features message now joined = account_events net message @
      (if is_ambiguous_join_failure_numeric (to_ascii_uppercase (msg_command message)) \<and> \<not> is_channel features (text_param message 1)
       then [] else [ChannelErrorEvent net (text_param message 1) (text_param message 2)])
    \<and> (\<forall>other. find_conversation (fst (reducer_apply R (ChannelErrorEvent net (text_param message 1) (text_param message 2)) later r)) other
         = (if other = conversation_key r net (text_param message 1)
            then map_option (with_error R (text_param message 2) r) (find_conversation r other) else find_conversation r other))
    \<and> (\<forall>old. \<exists>row. cs_messages (with_error R (text_param message 2) r old) = with_row (cs_messages old) row
         \<and> m_kind row = KindError \<and> m_body row = text_param message 2
         \<and> cs_unread (with_error R (text_param message 2) r old) = cs_unread old)"
proof (intro conjI allI)
  show "translate E net me features message now joined = account_events net message @
      (if is_ambiguous_join_failure_numeric (to_ascii_uppercase (msg_command message)) \<and> \<not> is_channel features (text_param message 1)
       then [] else [ChannelErrorEvent net (text_param message 1) (text_param message 2)])"
    by (simp add: translate_split join_failure_command [OF assms] translate_join_failure_def Let_def)
  show "\<exists>row. cs_messages (with_error R (text_param message 2) r old) = with_row (cs_messages old) row
      \<and> m_kind row = KindError \<and> m_body row = text_param message 2
      \<and> cs_unread (with_error R (text_param message 2) r old) = cs_unread old" for old
    using with_error_row [of R "text_param message 2" r old] by blast
qed (rule error_effect)

definition refusal :: IrcMessage where
  "refusal = \<lparr>msg_tags = [], msg_prefix = None, msg_command = ''473'', msg_params = [''me'', ''#c'', ''invite only'']\<rparr>"

theorem join_refusal_reported_witness:
  "translate wire_env ''net'' ''me'' new_features refusal 7 None = [ChannelErrorEvent ''net'' ''#c'' ''invite only'']"
proof -
  have ok: "is_join_failure (to_ascii_uppercase (msg_command refusal))" "3 \<le> length (msg_params refusal)"
    "\<not> is_ambiguous_join_failure_numeric (to_ascii_uppercase (msg_command refusal))" "account_events net refusal = []" for net
    unfolding refusal_def by (code_simp, code_simp, code_simp, simp add: account_events_def present_tag_value_def)
  have "text_param refusal 1 = ''#c''" "text_param refusal 2 = ''invite only''" by code_simp+
  then show ?thesis
    using join_refusal_reported [OF ok(1,2), of wire_env "''net''" "''me''" new_features 7 None plain_env 8 opened_reducer, THEN conjunct1] ok(3,4)
    by simp
qed

section \<open>Observations\<close>

text \<open>
  A WHO reply whose trailing text is a signed hop count alone: \<open>who_reply_realname\<close> reads it as a hop count, and the
  fallback then takes it for the real name.
\<close>

lemma lone_signed_hop: "who_reply_realname ''-5'' = [] \<and> realname_from_who ''-5'' = ''-5''"
proof -
  have "trim ''-5'' = ''-5''"
    by (rule trim_id) (simp_all add: chars_ascii is_whitespace_def)
  moreover have "split_once (CHR '' '') ''-5'' = None" "all_digits ''5''" "decimal_value ''5'' = 5" "\<not> who_digits ''-5''"
    by code_simp+
  ultimately show ?thesis
    by (simp add: who_reply_realname_def realname_from_who_def realname_after_hops_def is_go_int_def parse_i64_def)
qed

end
