(* ===== verification/SlashCommand.thy ===== *)
theory SlashCommand
  imports MembershipNoise Parser
begin

text \<open>
  \<^verbatim>\<open>client/src/irc/command\<close> with \<^verbatim>\<open>irc/pref.rs\<close> and \<^verbatim>\<open>irc/colorpalette.rs\<close>: the catalog of composer commands, the parser of a
  composer line, the refusals, and the preferences that \<^verbatim>\<open>/pref\<close> reads and sets. Unicode lower case is that of
  \<^typ>\<open>unicode\<close>.
\<close>

section \<open>Preferences\<close>

datatype ColorPaletteId = Classic | Vivid

definition ALL_PALETTES :: "ColorPaletteId list" where
  "ALL_PALETTES = [Classic, Vivid]"

fun palette_token :: "ColorPaletteId \<Rightarrow> string" where
  "palette_token Classic = ''classic''"
| "palette_token Vivid = ''vivid''"

definition palette_from_token :: "unicode \<Rightarrow> string \<Rightarrow> ColorPaletteId option" where
  "palette_from_token u word =
     (let folded = lower_text u (trim word) in List.find (\<lambda>palette. palette_token palette = folded) ALL_PALETTES)"

definition palette_next :: "ColorPaletteId \<Rightarrow> ColorPaletteId" where
  "palette_next palette =
     (let index = (case position (\<lambda>other. other = palette) ALL_PALETTES of None \<Rightarrow> 0 | Some i \<Rightarrow> i)
      in ALL_PALETTES ! ((index + 1) mod length ALL_PALETTES))"

datatype PrefName = Directs | Avatars | Unread | Colors | Joins | Palette
datatype PrefValueKind = ToggleKind | NoiseKind | PaletteKind

record PrefSpec =
  pref_name :: PrefName
  pref_token :: string
  pref_label :: string
  pref_value_kind :: PrefValueKind

definition PREF_CATALOG :: "PrefSpec list" where
  "PREF_CATALOG =
     [\<lparr>pref_name = Directs, pref_token = ''directs'', pref_label = ''Reopen direct messages on startup'', pref_value_kind = ToggleKind\<rparr>,
      \<lparr>pref_name = Avatars, pref_token = ''avatars'', pref_label = ''Show peer avatars'', pref_value_kind = ToggleKind\<rparr>,
      \<lparr>pref_name = Unread, pref_token = ''unread'', pref_label = ''Open conversations at unread'', pref_value_kind = ToggleKind\<rparr>,
      \<lparr>pref_name = Colors, pref_token = ''colors'', pref_label = ''Show mIRC colors'', pref_value_kind = ToggleKind\<rparr>,
      \<lparr>pref_name = Joins, pref_token = ''joins'', pref_label = ''Join, part, quit, and nick lines'', pref_value_kind = NoiseKind\<rparr>,
      \<lparr>pref_name = Palette, pref_token = ''palette'', pref_label = ''Color palette'', pref_value_kind = PaletteKind\<rparr>]"

definition pref_spec :: "PrefName \<Rightarrow> PrefSpec" where
  "pref_spec name = (case List.find (\<lambda>spec. pref_name spec = name) PREF_CATALOG of Some spec \<Rightarrow> spec | None \<Rightarrow> hd PREF_CATALOG)"

definition pref_find :: "string \<Rightarrow> PrefSpec option" where
  "pref_find word = (let folded = to_ascii_lowercase word in List.find (\<lambda>spec. pref_token spec = folded) PREF_CATALOG)"

definition pref_avatar_note :: string where
  "pref_avatar_note = ''Turn off to keep avatar hosts from seeing your IP on busy channels.''"

definition format_pref_state :: "PrefName \<Rightarrow> bool \<Rightarrow> string" where
  "format_pref_state name on = pref_label (pref_spec name) @ '': '' @ (if on then ''on'' else ''off'')"

definition format_pref_query :: "PrefName \<Rightarrow> bool \<Rightarrow> string" where
  "format_pref_query name on =
     (if name = Avatars then format_pref_state name on @ [LF] @ pref_avatar_note else format_pref_state name on)"

definition format_pref_noise :: "MembershipNoise \<Rightarrow> string" where
  "format_pref_noise noise = pref_label (pref_spec Joins) @ '': '' @ noise_token noise"

definition format_pref_palette :: "ColorPaletteId \<Rightarrow> string" where
  "format_pref_palette palette = pref_label (pref_spec Palette) @ '': '' @ palette_token palette"

definition format_pref_list :: "bool \<Rightarrow> bool \<Rightarrow> bool \<Rightarrow> bool \<Rightarrow> MembershipNoise \<Rightarrow> ColorPaletteId \<Rightarrow> string" where
  "format_pref_list directs avatars unread colors noise palette =
     join_with [LF]
       [format_pref_state Directs directs, format_pref_state Avatars avatars, format_pref_state Unread unread,
        format_pref_state Colors colors, format_pref_noise noise, format_pref_palette palette]"

datatype PrefKind = QueryAll | QueryOne | PrefSet | PrefUsage

record PrefRequest =
  req_kind :: PrefKind
  req_name :: PrefName
  req_enabled :: bool
  req_noise :: MembershipNoise
  req_palette :: ColorPaletteId

text \<open>\<open>str::split_whitespace\<close>.\<close>

definition split_whitespace :: "string \<Rightarrow> string list" where
  "split_whitespace s = map encode_utf8 (filter (\<lambda>word. word \<noteq> []) (split_by is_whitespace (chars s)))"

definition usage_request :: PrefRequest where
  "usage_request = \<lparr>req_kind = PrefUsage, req_name = Directs, req_enabled = False, req_noise = Folded, req_palette = Classic\<rparr>"

text \<open>The value word of a request whose first word named \<open>spec\<close>.\<close>

definition pref_set_request :: "unicode \<Rightarrow> PrefSpec \<Rightarrow> string \<Rightarrow> PrefRequest \<Rightarrow> PrefRequest" where
  "pref_set_request u spec value request =
     (case pref_value_kind spec of
        NoiseKind \<Rightarrow> (case noise_from_token u value of
            Some noise \<Rightarrow> request\<lparr>req_kind := PrefSet, req_noise := noise\<rparr> | None \<Rightarrow> request)
      | PaletteKind \<Rightarrow> (case palette_from_token u value of
            Some palette \<Rightarrow> request\<lparr>req_kind := PrefSet, req_palette := palette\<rparr> | None \<Rightarrow> request)
      | ToggleKind \<Rightarrow>
          if value = ''on'' then request\<lparr>req_kind := PrefSet, req_enabled := True\<rparr>
          else if value = ''off'' then request\<lparr>req_kind := PrefSet, req_enabled := False\<rparr>
          else request)"

definition parse_pref_argument :: "unicode \<Rightarrow> string \<Rightarrow> PrefRequest" where
  "parse_pref_argument u argument =
     (let parts = split_whitespace argument in
      if parts = [] then usage_request\<lparr>req_kind := QueryAll\<rparr>
      else if length parts > 2 then usage_request
      else case pref_find (parts ! 0) of
             None \<Rightarrow> usage_request
           | Some spec \<Rightarrow>
               let request = usage_request\<lparr>req_name := pref_name spec\<rparr> in
               if length parts = 1 then request\<lparr>req_kind := QueryOne\<rparr>
               else pref_set_request u spec (to_ascii_lowercase (parts ! 1)) request)"

datatype PrefValue = PrefToggle bool | PrefNoise MembershipNoise | PrefPalette ColorPaletteId

record Preferences =
  prefs_directs :: bool
  prefs_avatars :: bool
  prefs_unread :: bool
  prefs_colors :: bool
  prefs_joins :: MembershipNoise
  prefs_palette :: ColorPaletteId

definition default_preferences :: Preferences where
  "default_preferences = \<lparr>prefs_directs = True, prefs_avatars = True, prefs_unread = True, prefs_colors = True,
     prefs_joins = Folded, prefs_palette = Classic\<rparr>"

fun prefs_enabled :: "Preferences \<Rightarrow> PrefName \<Rightarrow> bool" where
  "prefs_enabled prefs Directs = prefs_directs prefs"
| "prefs_enabled prefs Avatars = prefs_avatars prefs"
| "prefs_enabled prefs Unread = prefs_unread prefs"
| "prefs_enabled prefs Colors = prefs_colors prefs"
| "prefs_enabled prefs Joins = False"
| "prefs_enabled prefs Palette = False"

definition next_value :: "Preferences \<Rightarrow> PrefName \<Rightarrow> PrefValue" where
  "next_value prefs name =
     (case pref_value_kind (pref_spec name) of
        ToggleKind \<Rightarrow> PrefToggle (\<not> prefs_enabled prefs name)
      | PaletteKind \<Rightarrow> PrefPalette (palette_next (prefs_palette prefs))
      | NoiseKind \<Rightarrow> PrefNoise (prefs_joins prefs))"

definition choice_token :: "Preferences \<Rightarrow> PrefName \<Rightarrow> string option" where
  "choice_token prefs name = (if name = Palette then Some (palette_token (prefs_palette prefs)) else None)"

fun prefs_set :: "Preferences \<Rightarrow> PrefName \<Rightarrow> PrefValue \<Rightarrow> Preferences \<times> bool" where
  "prefs_set prefs Directs (PrefToggle on) = (prefs\<lparr>prefs_directs := on\<rparr>, True)"
| "prefs_set prefs Avatars (PrefToggle on) = (prefs\<lparr>prefs_avatars := on\<rparr>, True)"
| "prefs_set prefs Unread (PrefToggle on) = (prefs\<lparr>prefs_unread := on\<rparr>, True)"
| "prefs_set prefs Colors (PrefToggle on) = (prefs\<lparr>prefs_colors := on\<rparr>, True)"
| "prefs_set prefs Joins (PrefNoise level) = (prefs\<lparr>prefs_joins := level\<rparr>, True)"
| "prefs_set prefs Palette (PrefPalette palette) = (prefs\<lparr>prefs_palette := palette\<rparr>, True)"
| "prefs_set prefs _ _ = (prefs, False)"

section \<open>The catalog\<close>

datatype ComposerSurface = Conversation | Status
datatype VerbScope = ScopeConversation | ScopeEither

datatype (plugins only: code) Verb =
    VAction | VJoin | VPart | VNick | VDisconnect | VClear | VClose | VQuery | VMsg | VTopic | VNotice | VAway | VBack | VAutoaway |
    VPref | VStatus | VAvatar | VWhois | VPing | VTime | VVersion | VMode | VKick | VInvite | VIgnore | VUnignore | VIgnored |
    VMonitor | VUnmonitor | VMonitored | VMute | VUnmute | VMuted | VHighlight | VUnhighlight | VHighlights | VOp | VDeop | VVoice |
    VDevoice | VBan | VKickban | VUnban | VQuiet | VUnquiet | VBans | VQuiets | VNs | VCs | VZnc | VRaw | VHelp | VList

record VerbSpec =
  spec_verb :: Verb
  spec_name :: string
  spec_aliases :: "string list"
  spec_usage :: string
  spec_scope :: VerbScope
  spec_wrong_scope_text :: string

definition verb_row :: "Verb \<Rightarrow> string \<Rightarrow> string list \<Rightarrow> string \<Rightarrow> VerbScope \<Rightarrow> string \<Rightarrow> VerbSpec" where
  "verb_row verb name aliases usage scope wrong =
     \<lparr>spec_verb = verb, spec_name = name, spec_aliases = aliases, spec_usage = usage, spec_scope = scope,
      spec_wrong_scope_text = wrong\<rparr>"

definition VERB_TABLE :: "VerbSpec list" where
  "VERB_TABLE =
    [verb_row VAction ''me'' [] ''/me <text>'' ScopeConversation '''',
     verb_row VJoin ''join'' [''j''] ''/join [channel] [key][, ...]'' ScopeEither '''',
     verb_row VPart ''part'' [''leave''] ''/part [channel]'' ScopeEither ''Part applies to channels'',
     verb_row VNick ''nick'' [] ''/nick <nickname>'' ScopeEither '''',
     verb_row VDisconnect ''disconnect'' [''quit''] ''/disconnect [reason]'' ScopeEither '''',
     verb_row VClear ''clear'' [] ''/clear'' ScopeEither '''',
     verb_row VClose ''close'' [] ''/close'' ScopeConversation ''Close applies to direct messages and channels you have left'',
     verb_row VQuery ''query'' [] ''/query <nick> [text]'' ScopeEither '''',
     verb_row VMsg ''msg'' [] ''/msg <nick> <text>'' ScopeEither '''',
     verb_row VTopic ''topic'' [] ''/topic [text]'' ScopeConversation ''Topic applies to channels'',
     verb_row VNotice ''notice'' [] ''/notice <target> <text>'' ScopeEither '''',
     verb_row VAway ''away'' [] ''/away [reason]'' ScopeEither '''',
     verb_row VBack ''back'' [] ''/back'' ScopeEither '''',
     verb_row VAutoaway ''autoaway'' [] ''/autoaway [off|on|duration [reason]|reason [text]]'' ScopeEither '''',
     verb_row VPref ''pref'' [] ''/pref [directs|avatars|unread|colors] [on|off] | joins [folded|every|hidden] | palette [classic|vivid]'' ScopeEither '''',
     verb_row VStatus ''status'' [] ''/status [text]'' ScopeEither '''',
     verb_row VAvatar ''avatar'' [] ''/avatar [url|email]'' ScopeEither '''',
     verb_row VWhois ''whois'' [] ''/whois [nick]'' ScopeEither ''Name a nick'',
     verb_row VPing ''ping'' [] ''/ping [nick]'' ScopeEither ''Name a nick'',
     verb_row VTime ''time'' [] ''/time [nick]'' ScopeEither ''Name a nick'',
     verb_row VVersion ''version'' [] ''/version [nick]'' ScopeEither ''Name a nick'',
     verb_row VMode ''mode'' [] ''/mode <channel> [[+|-]modechars [parameters]]'' ScopeEither '''',
     verb_row VKick ''kick'' [] ''/kick [channel] <nick> [reason]'' ScopeEither ''Kick applies to channels'',
     verb_row VInvite ''invite'' [] ''/invite <nick> [channel]'' ScopeEither ''Invite applies to channels'',
     verb_row VIgnore ''ignore'' [] ''/ignore <nick>'' ScopeEither '''',
     verb_row VUnignore ''unignore'' [] ''/unignore <nick>'' ScopeEither '''',
     verb_row VIgnored ''ignored'' [] ''/ignored'' ScopeEither '''',
     verb_row VMonitor ''monitor'' [] ''/monitor <nick>'' ScopeEither '''',
     verb_row VUnmonitor ''unmonitor'' [] ''/unmonitor <nick>'' ScopeEither '''',
     verb_row VMonitored ''monitored'' [] ''/monitored'' ScopeEither '''',
     verb_row VMute ''mute'' [] ''/mute [target]'' ScopeEither ''Mute applies to conversations'',
     verb_row VUnmute ''unmute'' [] ''/unmute [target]'' ScopeEither ''Mute applies to conversations'',
     verb_row VMuted ''muted'' [] ''/muted'' ScopeEither '''',
     verb_row VHighlight ''highlight'' [] ''/highlight <word>'' ScopeEither '''',
     verb_row VUnhighlight ''unhighlight'' [] ''/unhighlight <word>'' ScopeEither '''',
     verb_row VHighlights ''highlights'' [] ''/highlights'' ScopeEither '''',
     verb_row VOp ''op'' [] ''/op <nick>'' ScopeConversation ''Op applies to channels'',
     verb_row VDeop ''deop'' [] ''/deop <nick>'' ScopeConversation ''Deop applies to channels'',
     verb_row VVoice ''voice'' [] ''/voice <nick>'' ScopeConversation ''Voice applies to channels'',
     verb_row VDevoice ''devoice'' [] ''/devoice <nick>'' ScopeConversation ''Devoice applies to channels'',
     verb_row VBan ''ban'' [] ''/ban <mask>'' ScopeConversation ''Ban applies to channels'',
     verb_row VKickban ''kickban'' [''kb''] ''/kickban [channel] <nick> [reason]'' ScopeConversation ''Kickban applies to channels'',
     verb_row VUnban ''unban'' [] ''/unban <mask>'' ScopeConversation ''Unban applies to channels'',
     verb_row VQuiet ''quiet'' [] ''/quiet <mask>'' ScopeConversation ''Quiet applies to channels'',
     verb_row VUnquiet ''unquiet'' [] ''/unquiet <mask>'' ScopeConversation ''Unquiet applies to channels'',
     verb_row VBans ''bans'' [] ''/bans'' ScopeConversation ''Bans applies to channels'',
     verb_row VQuiets ''quiets'' [] ''/quiets'' ScopeConversation ''Quiets applies to channels'',
     verb_row VNs ''ns'' [] ''/ns <text>'' ScopeEither '''',
     verb_row VCs ''cs'' [] ''/cs <text>'' ScopeEither '''',
     verb_row VZnc ''znc'' [] ''/znc <text>'' ScopeEither '''',
     verb_row VRaw ''raw'' [''quote''] ''/raw <line>'' ScopeEither '''',
     verb_row VHelp ''help'' [] ''/help'' ScopeEither '''',
     verb_row VList ''list'' [] ''/list [mask]'' ScopeEither '''']"

definition NO_CONVERSATION_TEXT :: string where "NO_CONVERSATION_TEXT = ''Select a connected conversation first''"
definition COMMAND_REFUSED_TEXT :: string where "COMMAND_REFUSED_TEXT = ''Command was refused''"
definition NOT_SUPPORTED_TEXT :: string where "NOT_SUPPORTED_TEXT = ''That command is not supported''"

fun spec_allowed_on :: "VerbSpec \<Rightarrow> ComposerSurface \<Rightarrow> bool" where
  "spec_allowed_on spec surface =
     (case spec_scope spec of ScopeConversation \<Rightarrow> surface = Conversation | ScopeEither \<Rightarrow> True)"

definition wrong_scope_message :: "VerbSpec \<Rightarrow> string" where
  "wrong_scope_message spec = (if spec_wrong_scope_text spec = [] then NO_CONVERSATION_TEXT else spec_wrong_scope_text spec)"

text \<open>\<open>spec_for\<close> panics when a verb has no row; \<^const>\<open>None\<close> is that panic.\<close>

definition spec_for :: "Verb \<Rightarrow> VerbSpec option" where
  "spec_for verb = List.find (\<lambda>spec. spec_verb spec = verb) VERB_TABLE"

definition lookup :: "unicode \<Rightarrow> string \<Rightarrow> VerbSpec option" where
  "lookup u word =
     (let folded = lower_text u word in
      List.find (\<lambda>spec. spec_name spec = folded \<or> folded \<in> set (spec_aliases spec)) VERB_TABLE)"

definition visible_on :: "ComposerSurface \<Rightarrow> VerbSpec list" where
  "visible_on surface = filter (\<lambda>spec. spec_allowed_on spec surface) VERB_TABLE"

section \<open>The parser\<close>

record Words =
  words_first :: string
  words_rest :: string

definition words_split :: "string \<Rightarrow> Words" where
  "words_split argument =
     (case split_once (CHR '' '') argument of
        Some (first, rest) \<Rightarrow> \<lparr>words_first = first, words_rest = trim rest\<rparr>
      | None \<Rightarrow> \<lparr>words_first = argument, words_rest = []\<rparr>)"

datatype (plugins only: code) Command =
    CmdEmpty | CmdSay string | CmdUnknown string
  | CmdAction string | CmdJoin string | CmdPart Words | CmdNick string | CmdDisconnect string | CmdClear | CmdClose | CmdQuery Words |
    CmdMsg Words | CmdTopic string | CmdNotice Words | CmdAway string | CmdBack | CmdAutoaway string | CmdPref PrefRequest | CmdStatus
    string | CmdAvatar string | CmdWhois Words | CmdPing Words | CmdTime Words | CmdVersion Words | CmdMode string | CmdKick Words |
    CmdInvite Words | CmdIgnore Words | CmdUnignore Words | CmdIgnored string | CmdMonitor Words | CmdUnmonitor Words | CmdMonitored
    string | CmdMute Words | CmdUnmute Words | CmdMuted string | CmdHighlight Words | CmdUnhighlight Words | CmdHighlights string |
    CmdOp Words | CmdDeop Words | CmdVoice Words | CmdDevoice Words | CmdBan Words | CmdKickban Words | CmdUnban Words | CmdQuiet
    Words | CmdUnquiet Words | CmdBans string | CmdQuiets string | CmdNs string | CmdCs string | CmdZnc string | CmdRaw string |
    CmdHelp | CmdList string

fun command_for :: "unicode \<Rightarrow> Verb \<Rightarrow> string \<Rightarrow> Command" where
  "command_for u VAction argument = CmdAction argument"
| "command_for u VJoin argument = CmdJoin argument"
| "command_for u VPart argument = CmdPart (words_split argument)"
| "command_for u VNick argument = CmdNick argument"
| "command_for u VDisconnect argument = CmdDisconnect argument"
| "command_for u VClear argument = CmdClear"
| "command_for u VClose argument = CmdClose"
| "command_for u VQuery argument = CmdQuery (words_split argument)"
| "command_for u VMsg argument = CmdMsg (words_split argument)"
| "command_for u VTopic argument = CmdTopic argument"
| "command_for u VNotice argument = CmdNotice (words_split argument)"
| "command_for u VAway argument = CmdAway argument"
| "command_for u VBack argument = CmdBack"
| "command_for u VAutoaway argument = CmdAutoaway argument"
| "command_for u VPref argument = CmdPref (parse_pref_argument u argument)"
| "command_for u VStatus argument = CmdStatus argument"
| "command_for u VAvatar argument = CmdAvatar argument"
| "command_for u VWhois argument = CmdWhois (words_split argument)"
| "command_for u VPing argument = CmdPing (words_split argument)"
| "command_for u VTime argument = CmdTime (words_split argument)"
| "command_for u VVersion argument = CmdVersion (words_split argument)"
| "command_for u VMode argument = CmdMode argument"
| "command_for u VKick argument = CmdKick (words_split argument)"
| "command_for u VInvite argument = CmdInvite (words_split argument)"
| "command_for u VIgnore argument = CmdIgnore (words_split argument)"
| "command_for u VUnignore argument = CmdUnignore (words_split argument)"
| "command_for u VIgnored argument = CmdIgnored argument"
| "command_for u VMonitor argument = CmdMonitor (words_split argument)"
| "command_for u VUnmonitor argument = CmdUnmonitor (words_split argument)"
| "command_for u VMonitored argument = CmdMonitored argument"
| "command_for u VMute argument = CmdMute (words_split argument)"
| "command_for u VUnmute argument = CmdUnmute (words_split argument)"
| "command_for u VMuted argument = CmdMuted argument"
| "command_for u VHighlight argument = CmdHighlight (words_split argument)"
| "command_for u VUnhighlight argument = CmdUnhighlight (words_split argument)"
| "command_for u VHighlights argument = CmdHighlights argument"
| "command_for u VOp argument = CmdOp (words_split argument)"
| "command_for u VDeop argument = CmdDeop (words_split argument)"
| "command_for u VVoice argument = CmdVoice (words_split argument)"
| "command_for u VDevoice argument = CmdDevoice (words_split argument)"
| "command_for u VBan argument = CmdBan (words_split argument)"
| "command_for u VKickban argument = CmdKickban (words_split argument)"
| "command_for u VUnban argument = CmdUnban (words_split argument)"
| "command_for u VQuiet argument = CmdQuiet (words_split argument)"
| "command_for u VUnquiet argument = CmdUnquiet (words_split argument)"
| "command_for u VBans argument = CmdBans argument"
| "command_for u VQuiets argument = CmdQuiets argument"
| "command_for u VNs argument = CmdNs argument"
| "command_for u VCs argument = CmdCs argument"
| "command_for u VZnc argument = CmdZnc argument"
| "command_for u VRaw argument = CmdRaw argument"
| "command_for u VHelp argument = CmdHelp"
| "command_for u VList argument = CmdList argument"

definition parse_composer :: "unicode \<Rightarrow> string \<Rightarrow> Command" where
  "parse_composer u input =
     (let trimmed = trim input in
      if trimmed = [] then CmdEmpty
      else if \<not> starts_with ''/'' trimmed then CmdSay trimmed
      else if starts_with ''//'' trimmed then CmdSay (drop 1 trimmed)
      else
        let (word, argument) = (case split_once (CHR '' '') trimmed of
               Some (word, rest) \<Rightarrow> (word, trim rest) | None \<Rightarrow> (trimmed, []))
        in case lookup u (drop 1 word) of
             Some spec \<Rightarrow> command_for u (spec_verb spec) argument
           | None \<Rightarrow> CmdUnknown word)"

section \<open>Scope and refusals\<close>

fun command_verb :: "Command \<Rightarrow> Verb option" where
  "command_verb CmdEmpty = None"
| "command_verb (CmdSay _) = None"
| "command_verb (CmdUnknown _) = None"
| "command_verb (CmdAction _) = Some VAction"
| "command_verb (CmdJoin _) = Some VJoin"
| "command_verb (CmdPart _) = Some VPart"
| "command_verb (CmdNick _) = Some VNick"
| "command_verb (CmdDisconnect _) = Some VDisconnect"
| "command_verb CmdClear = Some VClear"
| "command_verb CmdClose = Some VClose"
| "command_verb (CmdQuery _) = Some VQuery"
| "command_verb (CmdMsg _) = Some VMsg"
| "command_verb (CmdTopic _) = Some VTopic"
| "command_verb (CmdNotice _) = Some VNotice"
| "command_verb (CmdAway _) = Some VAway"
| "command_verb CmdBack = Some VBack"
| "command_verb (CmdAutoaway _) = Some VAutoaway"
| "command_verb (CmdPref _) = Some VPref"
| "command_verb (CmdStatus _) = Some VStatus"
| "command_verb (CmdAvatar _) = Some VAvatar"
| "command_verb (CmdWhois _) = Some VWhois"
| "command_verb (CmdPing _) = Some VPing"
| "command_verb (CmdTime _) = Some VTime"
| "command_verb (CmdVersion _) = Some VVersion"
| "command_verb (CmdMode _) = Some VMode"
| "command_verb (CmdKick _) = Some VKick"
| "command_verb (CmdInvite _) = Some VInvite"
| "command_verb (CmdIgnore _) = Some VIgnore"
| "command_verb (CmdUnignore _) = Some VUnignore"
| "command_verb (CmdIgnored _) = Some VIgnored"
| "command_verb (CmdMonitor _) = Some VMonitor"
| "command_verb (CmdUnmonitor _) = Some VUnmonitor"
| "command_verb (CmdMonitored _) = Some VMonitored"
| "command_verb (CmdMute _) = Some VMute"
| "command_verb (CmdUnmute _) = Some VUnmute"
| "command_verb (CmdMuted _) = Some VMuted"
| "command_verb (CmdHighlight _) = Some VHighlight"
| "command_verb (CmdUnhighlight _) = Some VUnhighlight"
| "command_verb (CmdHighlights _) = Some VHighlights"
| "command_verb (CmdOp _) = Some VOp"
| "command_verb (CmdDeop _) = Some VDeop"
| "command_verb (CmdVoice _) = Some VVoice"
| "command_verb (CmdDevoice _) = Some VDevoice"
| "command_verb (CmdBan _) = Some VBan"
| "command_verb (CmdKickban _) = Some VKickban"
| "command_verb (CmdUnban _) = Some VUnban"
| "command_verb (CmdQuiet _) = Some VQuiet"
| "command_verb (CmdUnquiet _) = Some VUnquiet"
| "command_verb (CmdBans _) = Some VBans"
| "command_verb (CmdQuiets _) = Some VQuiets"
| "command_verb (CmdNs _) = Some VNs"
| "command_verb (CmdCs _) = Some VCs"
| "command_verb (CmdZnc _) = Some VZnc"
| "command_verb (CmdRaw _) = Some VRaw"
| "command_verb CmdHelp = Some VHelp"
| "command_verb (CmdList _) = Some VList"

definition is_live_message :: "Command \<Rightarrow> bool" where
  "is_live_message command = (case command of CmdSay _ \<Rightarrow> True | CmdAction _ \<Rightarrow> True | _ \<Rightarrow> False)"

definition command_allowed_on :: "Command \<Rightarrow> ComposerSurface \<Rightarrow> bool" where
  "command_allowed_on command surface =
     (case command_verb command of
        Some verb \<Rightarrow> (case spec_for verb of Some spec \<Rightarrow> spec_allowed_on spec surface | None \<Rightarrow> False)
      | None \<Rightarrow> (case command of CmdSay _ \<Rightarrow> surface = Conversation | _ \<Rightarrow> True))"

datatype CommandOutcome = Sent | NotConnected | Refused | Unsupported | WrongScope

definition command_outcome_text :: "CommandOutcome \<Rightarrow> Command \<Rightarrow> string" where
  "command_outcome_text outcome command =
     (case outcome of
        Sent \<Rightarrow> []
      | NotConnected \<Rightarrow> ''Not connected''
      | Refused \<Rightarrow> COMMAND_REFUSED_TEXT
      | Unsupported \<Rightarrow> (case command of CmdUnknown word \<Rightarrow> ''Unknown command: '' @ word | _ \<Rightarrow> NOT_SUPPORTED_TEXT)
      | WrongScope \<Rightarrow>
          (case command_verb command of
             Some verb \<Rightarrow> (case spec_for verb of Some spec \<Rightarrow> wrong_scope_message spec | None \<Rightarrow> [])
           | None \<Rightarrow> NO_CONVERSATION_TEXT))"

definition help_text :: string where
  "help_text = ''Commands: '' @ join_with '', '' (map (\<lambda>spec. CHR ''/'' # spec_name spec) VERB_TABLE)
     @ ''. Empty /join joins the latest invite.''"

section \<open>The reply of a preference command\<close>

record PrefReply =
  reply_text :: string
  reply_changed :: bool

definition pref_reply :: "PrefRequest \<Rightarrow> Preferences \<Rightarrow> Preferences \<times> PrefReply" where
  "pref_reply request prefs =
     (let name = req_name request in
      case req_kind request of
        PrefUsage \<Rightarrow> (prefs, \<lparr>reply_text = (case spec_for VPref of Some spec \<Rightarrow> spec_usage spec | None \<Rightarrow> []), reply_changed = False\<rparr>)
      | QueryAll \<Rightarrow>
          (prefs, \<lparr>reply_text = format_pref_list (prefs_directs prefs) (prefs_avatars prefs) (prefs_unread prefs) (prefs_colors prefs)
                     (prefs_joins prefs) (prefs_palette prefs), reply_changed = False\<rparr>)
      | QueryOne \<Rightarrow>
          (prefs, \<lparr>reply_text = (case name of Joins \<Rightarrow> format_pref_noise (prefs_joins prefs)
                                  | Palette \<Rightarrow> format_pref_palette (prefs_palette prefs)
                                  | _ \<Rightarrow> format_pref_query name (prefs_enabled prefs name)), reply_changed = False\<rparr>)
      | PrefSet \<Rightarrow>
          let value = (case name of Joins \<Rightarrow> PrefNoise (req_noise request) | Palette \<Rightarrow> PrefPalette (req_palette request)
                         | _ \<Rightarrow> PrefToggle (req_enabled request));
              prefs = fst (prefs_set prefs name value)
          in (prefs, \<lparr>reply_text = (case name of Joins \<Rightarrow> format_pref_noise (prefs_joins prefs)
                                     | Palette \<Rightarrow> format_pref_palette (prefs_palette prefs)
                                     | _ \<Rightarrow> format_pref_state name (prefs_enabled prefs name)), reply_changed = True\<rparr>))"

section \<open>What the parser accepts\<close>

text \<open>The words a row answers to.\<close>

definition spec_words :: "VerbSpec \<Rightarrow> string list" where
  "spec_words spec = spec_name spec # spec_aliases spec"

lemma find_disjoint:
  "distinct (concat (map f xs)) \<Longrightarrow> x \<in> set xs \<Longrightarrow> w \<in> set (f x) \<Longrightarrow> List.find (\<lambda>y. w \<in> set (f y)) xs = Some x"
  by (induction xs) auto

lemma catalog_words: "distinct (concat (map spec_words VERB_TABLE))"
  by (simp add: VERB_TABLE_def verb_row_def spec_words_def)

lemma catalog_verbs: "distinct (map spec_verb VERB_TABLE)"
  by (simp add: VERB_TABLE_def verb_row_def)

lemma command_for_verb: "command_verb (command_for u verb argument) = Some verb"
  by (cases verb) simp_all

lemma spec_for_row: "spec \<in> set VERB_TABLE \<Longrightarrow> spec_for (spec_verb spec) = Some spec"
  using catalog_verbs find_disjoint [of "\<lambda>s. [spec_verb s]" VERB_TABLE spec "spec_verb spec"]
  by (simp add: spec_for_def eq_commute concat_map_singleton)

lemma catalog_lower: "list_all (\<lambda>w. w \<noteq> [] \<and> list_all (\<lambda>c. 97 \<le> code c \<and> code c \<le> 122) w) (concat (map spec_words VERB_TABLE))"
  by (simp add: VERB_TABLE_def verb_row_def spec_words_def)

lemma trim_ends: "trim s = s \<Longrightarrow> utf8_valid s \<and> (chars s = [] \<or> \<not> is_whitespace (hd (chars s)) \<and> \<not> is_whitespace (last (chars s)))"
proof -
  assume t: "trim s = s"
  let ?cs = "chars s" and ?tail = "dropWhile is_whitespace (chars s)"
  have c: "?cs = rev (dropWhile is_whitespace (rev ?tail))" using chars_trim [of s] t by simp
  have "\<not> is_whitespace (last ?cs)" if "?cs \<noteq> []"
    using that c hd_dropWhile [of is_whitespace "rev ?tail"] by (metis last_rev rev_is_Nil_conv)
  moreover have "\<not> is_whitespace (hd ?cs)" if "?cs \<noteq> []"
    using that arg_cong [OF c, of length] length_dropWhile_le [of is_whitespace "rev ?tail"] length_dropWhile_le [of is_whitespace "tl ?cs"]
    by (cases ?cs) (auto split: if_splits)
  ultimately show ?thesis using t trim_valid [of s] by auto
qed

lemma chars_empty: "utf8_valid s \<Longrightarrow> chars s = [] \<longleftrightarrow> s = []"
  using encode_chars [of s] by (auto simp: encode_utf8_def chars_ascii)

lemma trim_slash:
  assumes "utf8_valid s" "s \<noteq> []" "\<not> is_whitespace (last (chars s))"
  shows "trim (CHR ''/'' # s) = CHR ''/'' # s"
proof -
  have v: "utf8_valid [CHR ''/'']" "chars [CHR ''/''] = [47]" by code_simp+
  have "chars (CHR ''/'' # s) = 47 # chars s" using chars_append [OF v(1) assms(1)] v(2) by simp
  moreover have "utf8_valid (CHR ''/'' # s)" using assms(1) by simp
  moreover have "chars s \<noteq> []" using assms(1,2) by (simp add: chars_empty)
  ultimately show ?thesis using assms(3) by (intro trim_id) (auto simp: is_whitespace_def)
qed

lemma chars_join:
  "utf8_valid a \<Longrightarrow> utf8_valid b \<Longrightarrow> chars (a @ CHR '' '' # b) = chars a @ 32 # chars b"
proof -
  assume v: "utf8_valid a" "utf8_valid b"
  have s: "utf8_valid [CHR '' '']" "chars [CHR '' ''] = [32]" by code_simp+
  have "chars (CHR '' '' # b) = 32 # chars b" using chars_append [OF s(1) v(2)] s(2) by simp
  moreover have "utf8_valid (CHR '' '' # b)" using v(2) by simp
  ultimately show ?thesis using chars_append [OF v(1)] by simp
qed

definition verb_line :: "string \<Rightarrow> string \<Rightarrow> string" where
  "verb_line word argument = CHR ''/'' # word @ (if argument = [] then [] else CHR '' '' # argument)"

lemma catalog_word:
  assumes "spec \<in> set VERB_TABLE" "to_ascii_lowercase word \<in> set (spec_words spec)"
  shows "word \<noteq> []" "\<forall>c \<in> set word. is_ascii_lowercase c \<or> is_ascii_uppercase c"
proof -
  have "to_ascii_lowercase word \<in> set (concat (map spec_words VERB_TABLE))" using assms by auto
  then have w: "to_ascii_lowercase word \<noteq> []" "\<forall>c \<in> set (to_ascii_lowercase word). 97 \<le> code c \<and> code c \<le> 122"
    using catalog_lower by (auto simp: list_all_iff)
  then show "word \<noteq> []" by (auto simp: to_ascii_lowercase_def)
  show "\<forall>c \<in> set word. is_ascii_lowercase c \<or> is_ascii_uppercase c"
    using w(2) by (auto simp: to_ascii_lowercase_def code_ascii_lower is_ascii_lowercase_def split: if_splits)
qed

lemma parse_verb_line:
  assumes "unicode_laws u" "spec \<in> set VERB_TABLE" "to_ascii_lowercase word \<in> set (spec_words spec)" "trim argument = argument"
  shows "parse_composer u (verb_line word argument) = command_for u (spec_verb spec) argument"
proof -
  note letters = catalog_word [OF assms(2,3)]
  have code: "\<forall>c \<in> set word. code c < 128 \<and> code c > 64"
    using letters(2) by (auto simp: is_ascii_lowercase_def is_ascii_uppercase_def)
  then have word: "utf8_valid word" "chars word = map of_char word" "list_all is_ascii_byte word"
    by (auto simp: utf8_valid_ascii chars_ascii list_all_iff is_ascii_byte_def)
  have "\<not> is_whitespace (last (chars word))"
    using code letters(1) word(2) by (auto simp: last_map is_whitespace_def dest!: bspec [OF _ last_in_set])
  moreover have arg: "utf8_valid argument" "argument \<noteq> [] \<Longrightarrow> chars argument \<noteq> [] \<and> \<not> is_whitespace (last (chars argument))"
    using trim_ends [OF assms(4)] chars_empty [of argument] by auto
  ultimately have "\<not> is_whitespace (last (chars (drop 1 (verb_line word argument))))"
    using chars_join [OF word(1) arg(1)] by (auto simp: verb_line_def)
  moreover have "utf8_valid (drop 1 (verb_line word argument))"
    using word(1) arg(1) by (simp add: verb_line_def utf8_valid_append)
  ultimately have trimmed: "trim (verb_line word argument) = verb_line word argument"
    using trim_slash [of "drop 1 (verb_line word argument)"] letters(1) by (simp add: verb_line_def)
  have "code (CHR '' '') = 32" "code (CHR ''/'') = 47" by simp_all
  then have "CHR '' '' \<notin> set word" "hd word \<noteq> CHR ''/''"
    using code hd_in_set [OF letters(1)] by (metis (mono_tags) less_numeral_extra(3) numeral_less_iff semiring_norm(76,78,80,81) less_asym')+
  then have split: "split_once (CHR '' '') (verb_line word argument) = (if argument = [] then None else Some (CHR ''/'' # word, argument))"
     and slash: "\<not> starts_with ''//'' (verb_line word argument)"
    using letters(1) by (auto simp: verb_line_def split_once_def position_None starts_with_def neq_Nil_conv)
  have "lookup u word = Some spec"
    using find_disjoint [OF catalog_words assms(2,3)] assms(1) word(3)
    by (simp add: lookup_def Let_def unicode_laws_def spec_words_def eq_commute [of "to_ascii_lowercase word"])
  then show ?thesis
    using split slash trimmed assms(4) by (auto simp: parse_composer_def Let_def) (simp_all add: verb_line_def starts_with_def)
qed
text \<open>
  C2: the composer can say everything. Text without blank ends is said by typing it, with one more slash in front when it
  starts with a slash; and a catalog word in any case, with the argument after one space, is the command of its verb with
  that argument.
\<close>

theorem composer_roundtrip:
  assumes "unicode_laws u" "trim said = said" "said \<noteq> []"
    and "spec \<in> set VERB_TABLE" "to_ascii_lowercase word \<in> set (spec_words spec)"
  shows "parse_composer u (if starts_with ''/'' said then CHR ''/'' # said else said) = CmdSay said
    \<and> parse_composer u (verb_line word said) = command_for u (spec_verb spec) said
    \<and> parse_composer u (verb_line word []) = command_for u (spec_verb spec) []
    \<and> command_verb (command_for u (spec_verb spec) said) = Some (spec_verb spec)"
proof -
  have ends: "utf8_valid said" "\<not> is_whitespace (last (chars said))"
    using trim_ends [OF assms(2)] chars_empty [of said] assms(3) by auto
  have "parse_composer u (if starts_with ''/'' said then CHR ''/'' # said else said) = CmdSay said"
    using assms(2,3) trim_slash [OF ends(1) assms(3) ends(2)]
    by (cases said) (auto simp: parse_composer_def Let_def starts_with_def)
  moreover have "trim [] = []" by code_simp
  ultimately show ?thesis
    using parse_verb_line [OF assms(1,4,5)] assms(2) command_for_verb by auto
qed

lemma kick_row: "verb_row VKick ''kick'' [] ''/kick [channel] <nick> [reason]'' ScopeEither ''Kick applies to channels'' \<in> set VERB_TABLE"
  by (simp add: VERB_TABLE_def)

theorem composer_roundtrip_witness:
  "parse_composer ascii_unicode ''//x'' = CmdSay ''/x''
    \<and> parse_composer ascii_unicode ''/KICK /x'' = CmdKick \<lparr>words_first = ''/x'', words_rest = []\<rparr>"
proof -
  have t: "trim ''/x'' = ''/x''" by (rule trim_id) (simp_all add: chars_ascii is_whitespace_def)
  have w: "to_ascii_lowercase ''KICK'' \<in> set (spec_words (verb_row VKick ''kick'' [] ''/kick [channel] <nick> [reason]'' ScopeEither ''Kick applies to channels''))"
    by code_simp
  have "words_split ''/x'' = \<lparr>words_first = ''/x'', words_rest = []\<rparr>" by code_simp
  then show ?thesis
    using composer_roundtrip [OF ascii_unicode_laws t _ kick_row w] by (simp add: verb_line_def verb_row_def starts_with_def)
qed
end
