(* ===== verification/SlashComplete.thy ===== *)
theory SlashComplete
  imports SlashCommand ReducerViews
begin

text \<open>
  \<^verbatim>\<open>client/src/irc/slashcomplete.rs\<close>: the rows of the completion popup. What the popup offers is what the parser accepts,
  and what the parser accepts of a typed text is that text.
\<close>

section \<open>Scores\<close>

definition RANK_LIMIT :: nat where "RANK_LIMIT = 6"

record SlashHit =
  hit_label :: string
  hit_usage :: string

record SlashProbe =
  probe_needle :: string
  probe_hits :: "SlashHit list"

text \<open>\<open>str::trim_start\<close>.\<close>

definition trim_start :: "string \<Rightarrow> string" where
  "trim_start s = encode_utf8 (dropWhile is_whitespace (chars s))"

text \<open>The loop over the characters of the needle: \<open>end\<close> is one past the last matched character.\<close>

fun subsequence_end :: "scalar list \<Rightarrow> scalar list \<Rightarrow> nat \<Rightarrow> nat option" where
  "subsequence_end [] token_chars e = Some e"
| "subsequence_end (ch # rest) token_chars e =
     (case position (\<lambda>candidate. candidate = ch) (drop e token_chars) of
        Some offset \<Rightarrow> subsequence_end rest token_chars (e + offset + 1)
      | None \<Rightarrow> None)"

definition score_token :: "string \<Rightarrow> string \<Rightarrow> int" where
  "score_token needle token =
     (case (chars needle, chars token) of
        (needle_first # _, token_first # _) \<Rightarrow>
          if needle_first \<noteq> token_first then -1
          else if needle = token then 100
          else if starts_with needle token then 80
          else if find_sub needle token \<noteq> None then 50
          else (case subsequence_end (chars needle) (chars token) 0 of
                  None \<Rightarrow> -1
                | Some e \<Rightarrow> 20 + (int (length (chars needle)) * 10) div int e)
      | _ \<Rightarrow> -1)"

definition score_spec :: "string \<Rightarrow> VerbSpec \<Rightarrow> int" where
  "score_spec needle spec =
     (let best = score_token needle (spec_name spec) in
      if best < 100 \<and> needle \<in> set (spec_aliases spec) then 100 else best)"

type_synonym scored_hit = "nat \<times> int \<times> SlashHit"

definition hit_le :: "scored_hit \<Rightarrow> scored_hit \<Rightarrow> bool" where
  "hit_le left right \<longleftrightarrow>
     fst (snd right) < fst (snd left) \<or> fst (snd right) = fst (snd left) \<and> fst left \<le> fst right"

definition sorted_hits :: "scored_hit list \<Rightarrow> SlashHit list" where
  "sorted_hits scored = map (\<lambda>(_, _, hit). hit) (sort_by hit_le scored)"

text \<open>\<open>enumerate().filter_map(\<dots>)\<close>: the rows with a score of their own.\<close>

definition scored_rows :: "('a \<Rightarrow> int) \<Rightarrow> ('a \<Rightarrow> SlashHit) \<Rightarrow> 'a list \<Rightarrow> scored_hit list" where
  "scored_rows score row xs =
     List.map_filter (\<lambda>(index, x). if score x \<ge> 0 then Some (index, score x, row x) else None) (enumerate 0 xs)"

section \<open>Rows\<close>

definition open_probe :: "string \<Rightarrow> SlashHit list \<Rightarrow> SlashProbe option" where
  "open_probe needle hits = (if needle \<noteq> [] \<and> hits \<noteq> [] then Some \<lparr>probe_needle = needle, probe_hits = hits\<rparr> else None)"

definition openable_needle :: "unicode \<Rightarrow> string \<Rightarrow> string option" where
  "openable_needle u composer_text =
     (case strip_prefix ''/'' (trim_start composer_text) of
        None \<Rightarrow> None
      | Some body \<Rightarrow>
          if body = [] \<or> starts_with ''/'' body \<or> list_ex is_whitespace (chars body) then None else Some (lower_text u body))"

definition verb_hit :: "VerbSpec \<Rightarrow> SlashHit" where
  "verb_hit spec = \<lparr>hit_label = CHR ''/'' # spec_name spec, hit_usage = spec_usage spec\<rparr>"

definition rank_slash :: "string \<Rightarrow> ComposerSurface \<Rightarrow> SlashHit list" where
  "rank_slash needle surface = take RANK_LIMIT (sorted_hits (scored_rows (score_spec needle) verb_hit (visible_on surface)))"

definition pref_name_hit :: "PrefSpec \<Rightarrow> SlashHit" where
  "pref_name_hit spec = \<lparr>hit_label = ''/pref '' @ pref_token spec, hit_usage = pref_label spec\<rparr>"

definition pref_name_rows :: "string \<Rightarrow> string \<Rightarrow> SlashProbe option" where
  "pref_name_rows needle word =
     open_probe needle
       (if word = [] then map pref_name_hit PREF_CATALOG
        else sorted_hits (scored_rows (\<lambda>spec. score_token word (pref_token spec)) pref_name_hit PREF_CATALOG))"

definition pref_words :: "PrefSpec \<Rightarrow> string list" where
  "pref_words spec =
     (case pref_value_kind spec of
        NoiseKind \<Rightarrow> map noise_token ALL_NOISE
      | PaletteKind \<Rightarrow> map palette_token ALL_PALETTES
      | ToggleKind \<Rightarrow> [''on'', ''off''])"

definition pref_value_hit :: "PrefSpec \<Rightarrow> string \<Rightarrow> SlashHit" where
  "pref_value_hit spec word =
     (let label = ''/pref '' @ pref_token spec @ '' '' @ word in \<lparr>hit_label = label, hit_usage = label\<rparr>)"

definition pref_value_rows :: "unicode \<Rightarrow> string \<Rightarrow> string \<Rightarrow> string \<Rightarrow> SlashProbe option" where
  "pref_value_rows u needle name_word value =
     (if CHR '' '' \<in> set value then None
      else case pref_find name_word of
             None \<Rightarrow> None
           | Some spec \<Rightarrow>
               let folded = lower_text u value in
               open_probe needle
                 (if folded = [] then map (pref_value_hit spec) (pref_words spec)
                  else sorted_hits (scored_rows (score_token folded) (pref_value_hit spec) (pref_words spec))))"

definition project_pref :: "unicode \<Rightarrow> string \<Rightarrow> SlashProbe option" where
  "project_pref u composer_text =
     (case strip_prefix ''/'' (trim_start composer_text) of
        None \<Rightarrow> None
      | Some body \<Rightarrow>
          (case split_once (CHR '' '') body of
             None \<Rightarrow> None
           | Some (verb_word, rest) \<Rightarrow>
               if lower_text u verb_word \<noteq> ''pref'' then None
               else if starts_with '' '' rest then None
               else let needle = lower_text u body in
                 case split_once (CHR '' '') rest of
                   None \<Rightarrow> pref_name_rows needle (lower_text u rest)
                 | Some (name_word, value) \<Rightarrow> pref_value_rows u needle name_word value))"

definition project_slash :: "unicode \<Rightarrow> string \<Rightarrow> ComposerSurface \<Rightarrow> SlashProbe option" where
  "project_slash u composer_text surface =
     (case openable_needle u composer_text of
        Some needle \<Rightarrow> open_probe needle (rank_slash needle surface)
      | None \<Rightarrow> project_pref u composer_text)"

definition names_exactly :: "unicode \<Rightarrow> SlashProbe \<Rightarrow> nat \<Rightarrow> bool" where
  "names_exactly u probe index =
     (if index < length (probe_hits probe) then
        case strip_prefix ''/'' (hit_label (probe_hits probe ! index)) of
          None \<Rightarrow> False
        | Some name \<Rightarrow>
            name = probe_needle probe
            \<or> (case lookup u name of None \<Rightarrow> False | Some spec \<Rightarrow> probe_needle probe \<in> set (spec_aliases spec))
      else False)"

section \<open>What the popup offers\<close>

interpretation hits: preorder_sort hit_le
  by unfold_locales (auto simp: hit_le_def)

lemma set_sorted_hits: "set (sorted_hits scored) = (\<lambda>(_, _, hit). hit) ` set scored"
  using arg_cong [OF hits.mset_sort [of scored], of set_mset] by (simp add: sorted_hits_def)

lemma scored_rows_set: "hit \<in> set (sorted_hits (scored_rows score row xs)) \<longleftrightarrow> (\<exists>x \<in> set xs. 0 \<le> score x \<and> hit = row x)"
proof -
  have "set (scored_rows score row xs) = (\<lambda>(i, x). (i, score x, row x)) ` {p \<in> set (enumerate 0 xs). 0 \<le> score (snd p)}"
    by (force simp: scored_rows_def map_filter_def split: if_splits)
  then have "set (sorted_hits (scored_rows score row xs)) = row ` {x \<in> snd ` set (enumerate 0 xs). 0 \<le> score x}"
    by (force simp: set_sorted_hits image_iff)
  then show ?thesis
    by (simp only: set_map [symmetric] map_snd_enumerate) auto
qed

text \<open>A command the user may run on the surface, and not a request that only prints its usage.\<close>

definition runs_on :: "ComposerSurface \<Rightarrow> Command \<Rightarrow> bool" where
  "runs_on surface command \<longleftrightarrow> command_verb command \<noteq> None \<and> command_allowed_on command surface
     \<and> (case command of CmdPref request \<Rightarrow> req_kind request \<noteq> PrefUsage | _ \<Rightarrow> True)"

lemma rank_slash_rows:
  assumes "hit \<in> set (rank_slash needle surface)"
  shows "\<exists>spec \<in> set VERB_TABLE. spec_allowed_on spec surface \<and> 0 \<le> score_spec needle spec \<and> hit = verb_hit spec"
  using assms by (auto simp: rank_slash_def scored_rows_set visible_on_def dest!: in_set_takeD)

lemma catalog_prefs:
  assumes "spec \<in> set PREF_CATALOG"
  shows "pref_token spec \<noteq> [] \<and> (\<forall>c \<in> set (pref_token spec). is_ascii_lowercase c) \<and> pref_find (pref_token spec) = Some spec"
proof -
  have "list_all (\<lambda>spec. pref_token spec \<noteq> [] \<and> (\<forall>c \<in> set (pref_token spec). is_ascii_lowercase c)) PREF_CATALOG"
    by (simp add: PREF_CATALOG_def is_ascii_lowercase_def)
  moreover have "list_all (\<lambda>spec. to_ascii_lowercase (pref_token spec) = pref_token spec) PREF_CATALOG"
    by code_simp
  moreover have "distinct (map pref_token PREF_CATALOG)"
    by (simp add: PREF_CATALOG_def)
  ultimately show ?thesis
    using assms find_disjoint [of "\<lambda>s. [pref_token s]" PREF_CATALOG spec "pref_token spec"]
    by (auto simp: list_all_iff pref_find_def Let_def eq_commute [of "pref_token spec"] concat_map_singleton)
qed

lemma pref_word_lower:
  assumes "word \<in> set (pref_words spec)"
  shows "word \<noteq> [] \<and> (\<forall>c \<in> set word. is_ascii_lowercase c)"
  using assms by (auto simp: pref_words_def ALL_NOISE_def ALL_PALETTES_def is_ascii_lowercase_def split: PrefValueKind.splits)

lemma lower_plain:
  assumes "\<forall>c \<in> set w. is_ascii_lowercase c" "w \<noteq> []"
  shows "utf8_valid w" "chars w = map of_char w" "\<forall>c \<in> set (chars w). \<not> is_whitespace c" "trim w = w" "to_ascii_lowercase w = w"
    "CHR '' '' \<notin> set w" "unicode_laws u \<Longrightarrow> lower_text u w = w"
proof -
  have code: "\<forall>c \<in> set w. code c < 128 \<and> 97 \<le> code c \<and> code c \<le> 122"
    using assms(1) by (auto simp: is_ascii_lowercase_def)
  then show v: "utf8_valid w" and cs: "chars w = map of_char w"
    by (auto simp: utf8_valid_ascii chars_ascii)
  show ws: "\<forall>c \<in> set (chars w). \<not> is_whitespace c"
    using code by (auto simp: cs is_whitespace_def)
  show "trim w = w"
    using v ws assms(2) by (intro trim_id) (auto simp: cs hd_map last_map)
  show low: "to_ascii_lowercase w = w"
    unfolding to_ascii_lowercase_def
    by (rule map_idI) (use assms(1) in \<open>auto simp: ascii_lower_def is_ascii_lowercase_def is_ascii_uppercase_def dest!: bspec\<close>)
  show "CHR '' '' \<notin> set w"
    using code by fastforce
  show "unicode_laws u \<Longrightarrow> lower_text u w = w"
    using code low by (auto simp: unicode_laws_def list_all_iff is_ascii_byte_def)
qed

lemma split_whitespace_words:
  assumes "\<forall>c \<in> set a. is_ascii_lowercase c" "a \<noteq> []"
  shows "split_whitespace a = [a]"
    "\<forall>c \<in> set b. is_ascii_lowercase c \<Longrightarrow> b \<noteq> [] \<Longrightarrow> split_whitespace (a @ CHR '' '' # b) = [a, b]"
proof -
  note p = lower_plain [OF assms]
  show "split_whitespace a = [a]"
    using split_by_none [OF p(3)] p(1) assms(2) by (simp add: split_whitespace_def chars_empty encode_chars)
  assume b: "\<forall>c \<in> set b. is_ascii_lowercase c" "b \<noteq> []"
  note q = lower_plain [OF b]
  have "is_whitespace 32" by (simp add: is_whitespace_def)
  then show "split_whitespace (a @ CHR '' '' # b) = [a, b]"
    using split_by_append [OF p(3)] split_by_none [OF q(3)] p(1) q(1) assms(2) b(2)
    by (simp add: split_whitespace_def chars_join chars_empty encode_chars)
qed

lemma pref_row: "verb_row VPref ''pref'' [] (spec_usage (the (spec_for VPref))) ScopeEither [] \<in> set VERB_TABLE"
  by (simp add: VERB_TABLE_def verb_row_def spec_for_def)

lemma pref_line:
  assumes "unicode_laws u" "trim argument = argument" "argument \<noteq> []"
  shows "parse_composer u (''/pref '' @ argument) = CmdPref (parse_pref_argument u argument)"
proof -
  have "to_ascii_lowercase ''pref'' = ''pref''" by code_simp
  then show ?thesis
    using parse_verb_line [OF assms(1) pref_row _ assms(2), where word = "''pref''"] assms(3)
    by (simp add: spec_words_def verb_row_def verb_line_def)
qed

lemma token_found:
  assumes "lower_text u (trim word) = word"
  shows "word \<in> set (map noise_token ALL_NOISE) \<Longrightarrow> noise_from_token u word \<noteq> None"
    "word \<in> set (map palette_token ALL_PALETTES) \<Longrightarrow> palette_from_token u word \<noteq> None"
  using assms by (auto simp: noise_from_token_def palette_from_token_def find_None_iff)

lemma pref_set_kind:
  assumes "lower_text u (trim word) = word" "word \<in> set (pref_words spec)"
  shows "req_kind (pref_set_request u spec word request) = PrefSet"
proof (cases "pref_value_kind spec")
  case ToggleKind
  then show ?thesis using assms(2) by (auto simp: pref_words_def pref_set_request_def)
next
  case NoiseKind
  then show ?thesis using token_found(1) [OF assms(1)] assms(2) by (auto simp: pref_words_def pref_set_request_def)
next
  case PaletteKind
  then show ?thesis using token_found(2) [OF assms(1)] assms(2) by (auto simp: pref_words_def pref_set_request_def)
qed

lemma pref_value_set:
  assumes "unicode_laws u" "spec \<in> set PREF_CATALOG" "word \<in> set (pref_words spec)"
  shows "req_kind (parse_pref_argument u (pref_token spec @ CHR '' '' # word)) = PrefSet"
proof -
  note t = catalog_prefs [OF assms(2)] and w = pref_word_lower [OF assms(3)]
  then have parts: "split_whitespace (pref_token spec @ CHR '' '' # word) = [pref_token spec, word]"
    using split_whitespace_words(2) by blast
  have "to_ascii_lowercase word = word" "lower_text u (trim word) = word"
    using lower_plain [of word] w assms(1) by auto
  then show ?thesis
    using t parts pref_set_kind [OF _ assms(3)] by (simp add: parse_pref_argument_def)
qed

lemma pref_name_query:
  assumes "spec \<in> set PREF_CATALOG"
  shows "req_kind (parse_pref_argument u (pref_token spec)) = QueryOne"
  using catalog_prefs [OF assms] split_whitespace_words(1) by (simp add: parse_pref_argument_def)

lemma pref_only:
  "(case command_for u verb argument of CmdPref request \<Rightarrow> P request | _ \<Rightarrow> True) \<longleftrightarrow> (verb = VPref \<longrightarrow> P (parse_pref_argument u argument))"
  by (cases verb) simp_all

lemma verb_row_runs:
  assumes "unicode_laws u" "spec \<in> set VERB_TABLE" "spec_allowed_on spec surface"
  shows "runs_on surface (parse_composer u (hit_label (verb_hit spec)))"
proof -
  have "to_ascii_lowercase (spec_name spec) = spec_name spec"
  proof (rule lower_plain(5))
    have "spec_name spec \<in> set (concat (map spec_words VERB_TABLE))" using assms(2) by (auto simp: spec_words_def)
    then show "\<forall>c \<in> set (spec_name spec). is_ascii_lowercase c" "spec_name spec \<noteq> []"
      using catalog_lower by (auto simp: list_all_iff is_ascii_lowercase_def)
  qed
  moreover have empty: "trim [] = []" "split_whitespace [] = []" by code_simp+
  ultimately have "parse_composer u (hit_label (verb_hit spec)) = command_for u (spec_verb spec) []"
    using parse_verb_line [OF assms(1,2), of "spec_name spec" "[]"] by (simp add: spec_words_def verb_line_def verb_hit_def)
  then show ?thesis
    using spec_for_row [OF assms(2)] assms(3) empty(2)
    by (simp add: runs_on_def pref_only command_for_verb command_allowed_on_def parse_pref_argument_def)
qed

lemma pref_line_runs:
  assumes "unicode_laws u" "trim argument = argument" "argument \<noteq> []" "req_kind (parse_pref_argument u argument) \<noteq> PrefUsage"
  shows "runs_on surface (parse_composer u (''/pref '' @ argument))"
proof -
  have "\<exists>spec \<in> set VERB_TABLE. spec_verb spec = VPref \<and> spec_scope spec = ScopeEither"
    by (rule bexI [OF _ pref_row]) (simp add: verb_row_def)
  then have "\<exists>spec. spec_for VPref = Some spec \<and> spec_scope spec = ScopeEither"
    using spec_for_row by metis
  then show ?thesis
    using pref_line [OF assms(1-3)] assms(4) by (auto simp: runs_on_def command_allowed_on_def)
qed

lemma pref_hit_runs:
  assumes "unicode_laws u" "spec \<in> set PREF_CATALOG"
  shows "runs_on surface (parse_composer u (hit_label (pref_name_hit spec)))"
    "word \<in> set (pref_words spec) \<Longrightarrow> runs_on surface (parse_composer u (hit_label (pref_value_hit spec word)))"
proof -
  note t = catalog_prefs [OF assms(2)]
  note p = lower_plain [of "pref_token spec"]
  show "runs_on surface (parse_composer u (hit_label (pref_name_hit spec)))"
    using pref_line_runs [OF assms(1), of "pref_token spec"] pref_name_query [OF assms(2)] t p(4) by (simp add: pref_name_hit_def)
  assume w: "word \<in> set (pref_words spec)"
  note q = lower_plain [of word]
  have "trim (pref_token spec @ CHR '' '' # word) = pref_token spec @ CHR '' '' # word"
    using t p(1-3) q(1-3) pref_word_lower [OF w] chars_join [of "pref_token spec" word]
    by (intro trim_id) (auto simp: utf8_valid_append hd_map last_map)
  then show "runs_on surface (parse_composer u (hit_label (pref_value_hit spec word)))"
    using pref_line_runs [OF assms(1), of "pref_token spec @ CHR '' '' # word"] pref_value_set [OF assms w]
    by (simp add: pref_value_hit_def Let_def)
qed

lemma pref_find_in: "pref_find word = Some spec \<Longrightarrow> spec \<in> set PREF_CATALOG"
  by (auto simp: pref_find_def Let_def find_Some_iff)

lemma project_pref_rows:
  assumes "project_pref u composer_text = Some probe" "hit \<in> set (probe_hits probe)"
  shows "\<exists>spec \<in> set PREF_CATALOG. hit = pref_name_hit spec \<or> (\<exists>word \<in> set (pref_words spec). hit = pref_value_hit spec word)"
  using assms
  by (auto simp: project_pref_def pref_name_rows_def pref_value_rows_def open_probe_def Let_def scored_rows_set
      split: option.splits if_splits dest!: pref_find_in; blast)

lemma probe_has_rows: "project_slash u composer_text surface = Some probe \<Longrightarrow> probe_hits probe \<noteq> []"
  by (auto simp: project_slash_def project_pref_def pref_name_rows_def pref_value_rows_def open_probe_def Let_def
      split: option.splits if_splits)

text \<open>
  C11: the popup offers only what can be run. Every row it shows, a verb, a preference name or a preference value, is a
  line that the parser reads as a command of the catalog, allowed where the user types, and never as an unknown word or a
  usage error; a row for a value sets a preference. The popup is never open without rows, and shows at most six verbs.
\<close>

theorem offers_run:
  assumes "unicode_laws u" "project_slash u composer_text surface = Some probe"
  shows "probe_hits probe \<noteq> [] \<and> (openable_needle u composer_text \<noteq> None \<longrightarrow> length (probe_hits probe) \<le> RANK_LIMIT)
    \<and> (\<forall>hit \<in> set (probe_hits probe). runs_on surface (parse_composer u (hit_label hit)))"
proof (cases "openable_needle u composer_text")
  case None
  then have "project_pref u composer_text = Some probe"
    using assms(2) by (simp add: project_slash_def)
  then show ?thesis
    using None probe_has_rows [OF assms(2)] project_pref_rows pref_hit_runs [OF assms(1)] by blast
next
  case (Some needle)
  then have hits: "probe_hits probe = rank_slash needle surface"
    using assms(2) by (auto simp: project_slash_def open_probe_def split: if_splits)
  then have "runs_on surface (parse_composer u (hit_label hit))" if "hit \<in> set (probe_hits probe)" for hit
    using that rank_slash_rows [of hit needle surface] verb_row_runs [OF assms(1)] by auto
  then show ?thesis
    using probe_has_rows [OF assms(2)] by (simp add: hits rank_slash_def)
qed

theorem offers_run_witness:
  "\<exists>probe. project_slash ascii_unicode ''/pref '' Status = Some probe \<and> length (probe_hits probe) = 6
    \<and> runs_on Status (parse_composer ascii_unicode ''/pref directs'')"
proof -
  have "trim_start ''/pref '' = ''/pref ''"
    using encode_chars [of "''/pref ''"] by (simp add: trim_start_def chars_ascii is_whitespace_def)
  then have closed: "openable_needle ascii_unicode ''/pref '' = None"
    and open_pref: "project_pref ascii_unicode ''/pref '' = pref_name_rows ''pref '' []"
    by (simp_all add: openable_needle_def project_pref_def strip_prefix_def starts_with_def chars_ascii is_whitespace_def split_once_def
        ascii_unicode_def to_ascii_lowercase_def ascii_lower_def is_ascii_uppercase_def)
  then obtain probe where probe: "project_slash ascii_unicode ''/pref '' Status = Some probe" "probe_hits probe = map pref_name_hit PREF_CATALOG"
    by (simp add: project_slash_def pref_name_rows_def open_probe_def PREF_CATALOG_def)
  then show ?thesis
    using offers_run [OF ascii_unicode_laws probe(1)] by (auto simp: PREF_CATALOG_def pref_name_hit_def)
qed
end
