(* ===== verification/StatusLog.thy ===== *)
theory StatusLog
  imports SessionWire
begin

text \<open>
  \<^verbatim>\<open>client/src/irc/statusentry\<close> and \<^verbatim>\<open>irc/listmask.rs\<close>: which lines reach the Status window and the text they have there. The
  clock is an argument. The lemmas show that every error of the server reaches Status as an alert, that no secret the client sends does,
  and that every formatted WHOIS or list reply is kept.
\<close>

section \<open>Entries\<close>

datatype LogSource = SourceServer | SourceClient | SourceLocal
datatype LogSeverity = Trace | InfoLine | AlertLine
datatype WhoisProgress = ProgressDetail | ProgressTerminal | ProgressFailed
datatype ListMaskKind = ListBan | ListQuiet

fun mode_letter :: "ListMaskKind \<Rightarrow> char" where
  "mode_letter ListBan = CHR ''b''"
| "mode_letter ListQuiet = CHR ''q''"

definition expand_list_mask :: "string \<Rightarrow> string" where
  "expand_list_mask token = (if CHR ''!'' \<in> set token \<or> CHR ''@'' \<in> set token then token else token @ ''!*@*'')"

definition kick_nick_from_mask :: "string \<Rightarrow> string" where
  "kick_nick_from_mask token = (case split_once (CHR ''!'') token of Some (who, _) \<Rightarrow> who | None \<Rightarrow> token)"

record WhoisLine =
  wl_nick :: string
  wl_text :: string
  wl_progress :: WhoisProgress

record ListModeLine =
  lm_channel :: string
  lm_text :: string
  lm_kind :: ListMaskKind
  lm_progress :: WhoisProgress

definition line_is_terminal :: "WhoisProgress \<Rightarrow> bool" where
  "line_is_terminal progress \<longleftrightarrow> progress \<noteq> ProgressDetail"

record CtcpReplyLine =
  cr_nick :: string
  cr_command :: string

record StatusEntry =
  se_network_id :: string
  se_timestamp :: instant
  se_source :: LogSource
  se_severity :: LogSeverity
  se_label :: string
  se_request_label :: string
  se_text :: string
  se_whois_line :: "WhoisLine option"
  se_list_mode_line :: "ListModeLine option"
  se_ctcp_reply :: "CtcpReplyLine option"

definition new_entry :: "string \<Rightarrow> instant \<Rightarrow> LogSource \<Rightarrow> LogSeverity \<Rightarrow> string \<Rightarrow> string \<Rightarrow> StatusEntry" where
  "new_entry net at source severity label shown =
     \<lparr>se_network_id = net, se_timestamp = at, se_source = source, se_severity = severity, se_label = label, se_request_label = [],
      se_text = shown, se_whois_line = None, se_list_mode_line = None, se_ctcp_reply = None\<rparr>"

definition set_request_label :: "string \<Rightarrow> StatusEntry \<Rightarrow> StatusEntry" where
  "set_request_label label entry = entry\<lparr>se_request_label := label\<rparr>"

definition lifecycle :: "string \<Rightarrow> LogSeverity \<Rightarrow> string \<Rightarrow> string \<Rightarrow> instant \<Rightarrow> StatusEntry" where
  "lifecycle net severity label shown now = new_entry net now SourceLocal severity label shown"

definition OUTCOME_LABEL :: string where "OUTCOME_LABEL = ''command''"
definition CTCP_LABEL :: string where "CTCP_LABEL = ''CTCP''"
definition NOTICE_LABEL :: string where "NOTICE_LABEL = ''NOTICE''"

definition outcome :: "string \<Rightarrow> string \<Rightarrow> instant \<Rightarrow> StatusEntry" where
  "outcome net shown now = new_entry net now SourceLocal InfoLine OUTCOME_LABEL shown"

section \<open>Reading a message\<close>

definition command_of :: "unicode \<Rightarrow> IrcMessage \<Rightarrow> string" where
  "command_of u message = upper_text u (msg_command message)"

definition parameters_text :: "IrcMessage \<Rightarrow> string list" where
  "parameters_text message = map wire_text (msg_params message)"

definition trailing_text :: "IrcMessage \<Rightarrow> string" where
  "trailing_text message = (if msg_params message = [] then [] else wire_text (last (msg_params message)))"

definition parameter_at :: "string list \<Rightarrow> nat \<Rightarrow> string" where
  "parameter_at parameters index = (if index < length parameters then parameters ! index else [])"

definition split_fields :: "string \<Rightarrow> string list" where
  "split_fields value = filter (\<lambda>field. field \<noteq> []) (split_by (\<lambda>c. c = CHR '' '') value)"

definition has_prefix_fold :: "string \<Rightarrow> string \<Rightarrow> bool" where
  "has_prefix_fold value prefix \<longleftrightarrow> length prefix \<le> length value \<and> eq_ignore_ascii_case (take (length prefix) value) prefix"

definition first_token :: "unicode \<Rightarrow> string \<Rightarrow> string" where
  "first_token u line =
     (let trimmed = trim line in
      if trimmed = [] then []
      else upper_text u (takeWhile (\<lambda>c. c \<noteq> CHR '' '' \<and> c \<noteq> CHR 0x09) trimmed))"

definition is_numeric_command :: "string \<Rightarrow> bool" where
  "is_numeric_command command \<longleftrightarrow> length command = 3 \<and> list_all is_ascii_digit command"

text \<open>\<open>str::parse::<u32>\<close> of a text of three bytes: at most one plus sign before the digits.\<close>

definition parse_code :: "string \<Rightarrow> nat option" where
  "parse_code command =
     (let digits = (case strip_prefix ''+'' command of Some rest \<Rightarrow> rest | None \<Rightarrow> command)
      in if digits = [] \<or> \<not> all_digits digits \<or> decimal_value digits \<ge> 2 ^ 32 then None else Some (decimal_value digits))"

definition code_or_zero :: "string \<Rightarrow> nat" where
  "code_or_zero command = (case parse_code command of Some c \<Rightarrow> c | None \<Rightarrow> 0)"

definition is_standard_reply :: "string \<Rightarrow> bool" where
  "is_standard_reply command \<longleftrightarrow> command \<in> set [''FAIL'', ''WARN'', ''NOTE'']"

definition error_digit :: "string \<Rightarrow> bool" where
  "error_digit command \<longleftrightarrow> (case command of [] \<Rightarrow> False | c # _ \<Rightarrow> c = CHR ''4'' \<or> c = CHR ''5'')"

definition severity_for :: "string \<Rightarrow> LogSeverity" where
  "severity_for command =
     (if command \<in> set [''PING'', ''PONG'', ''AUTHENTICATE''] then Trace
      else if command \<in> set [''FAIL'', ''ERROR''] then AlertLine
      else if command \<in> set [''WARN'', ''NOTE''] then InfoLine
      else if is_numeric_command command \<and> error_digit command then AlertLine
      else InfoLine)"

definition trailing_body_only :: "string \<Rightarrow> bool" where
  "trailing_body_only command =
     (if is_standard_reply command then True
      else if command \<in> set [''PRIVMSG'', ''PING'', ''PONG'', ''ERROR''] then True
      else if \<not> is_numeric_command command then False
      else let c = code_or_zero command in (1 \<le> c \<and> c \<le> 3) \<or> c \<in> set [372, 375, 376, 422])"

section \<open>Capabilities, user counts and refusals\<close>

definition cap_tokens :: "IrcMessage \<Rightarrow> nat \<Rightarrow> string list" where
  "cap_tokens message subcommand_index =
     (if length (msg_params message) \<le> subcommand_index + 1 then [] else split_fields (trailing_text message))"

definition CAP_SENTENCES :: "(string \<times> string) list" where
  "CAP_SENTENCES =
     [(''LS'', ''Server supports''), (''ACK'', ''Acknowledged''), (''NAK'', ''Rejected''), (''NEW'', ''Server added''),
      (''DEL'', ''Server removed'')]"

definition format_incoming_cap :: "IrcMessage \<Rightarrow> string option" where
  "format_incoming_cap message =
     (if length (msg_params message) < 2 then None
      else
        let subcommand = wire_text (msg_params message ! 1) in
        case List.find (\<lambda>(verb, _). eq_ignore_ascii_case subcommand verb) CAP_SENTENCES of
          None \<Rightarrow> None
        | Some (_, prefix) \<Rightarrow>
            let toks = cap_tokens message 1 in
            Some (if toks = [] then prefix @ '':'' else prefix @ '': '' @ join_with '' | '' toks))"

definition format_lusers :: "nat \<Rightarrow> string list \<Rightarrow> string option" where
  "format_lusers number parameters =
     (let rest = drop 1 parameters in
      if rest = [] then None
      else if 252 \<le> number \<and> number \<le> 254 then Some (if 2 \<le> length rest then hd rest @ '' '' @ last rest else hd rest)
      else if number \<in> set [20, 42, 221, 250, 251, 255, 265, 266, 396] then Some (last rest)
      else None)"

definition is_nick_refusal :: "string \<Rightarrow> bool" where
  "is_nick_refusal command \<longleftrightarrow> command \<in> set [''ERROR'', ''432'', ''433'', ''436'', ''437'', ''451'', ''462'', ''465'']"

definition nick_refusal_sentence_present :: "string \<Rightarrow> nat \<Rightarrow> bool" where
  "nick_refusal_sentence_present command count \<longleftrightarrow>
     (if command \<in> set [''432'', ''433'', ''436'', ''437''] then 3 \<le> count
      else if command \<in> set [''451'', ''462'', ''465''] then 2 \<le> count
      else 1 \<le> count)"

definition nick_refusal_tail :: "unicode \<Rightarrow> string \<Rightarrow> string \<Rightarrow> string \<times> bool" where
  "nick_refusal_tail u raw ctypes =
     (let reason = trim raw in
      if reason = [] then ([], True)
      else case redact_preview_line u reason ctypes of
             Some masked \<Rightarrow> (masked, False)
           | None \<Rightarrow> if \<not> allows_transcript u reason ctypes then ([], True) else (reason, False))"

definition starts_with_digit :: "string \<Rightarrow> bool" where
  "starts_with_digit command \<longleftrightarrow> (case command of [] \<Rightarrow> False | c # _ \<Rightarrow> is_ascii_digit c)"

definition incoming_text :: "unicode \<Rightarrow> IrcMessage \<Rightarrow> string \<Rightarrow> bool \<Rightarrow> string \<Rightarrow> string" where
  "incoming_text u message command redacted ctypes =
     (if msg_params message = [] then command
      else if redacted \<and> length (msg_params message) = 1 \<and> wire_text (msg_params message ! 0) = ''***'' \<and> \<not> trailing_body_only command
      then command @ '' ***''
      else
        let trailing = trailing_text message in
        if trailing_body_only command then
          if \<not> is_nick_refusal command then trailing
          else let (tail, omit) = nick_refusal_tail u trailing ctypes in if omit then command else tail
        else
          let parts = parameters_text message;
              parts = (if starts_with_digit command \<and> 2 \<le> length parts then drop 1 parts else parts)
          in if is_nick_refusal command then
               if \<not> nick_refusal_sentence_present command (length (msg_params message)) then command
               else let (tail, omit) = nick_refusal_tail u trailing ctypes in
                 if omit then command
                 else join_with '' '' (if parts = [] then [] else parts[length parts - 1 := tail])
             else join_with '' '' parts)"

definition sender_of :: "IrcMessage \<Rightarrow> string" where
  "sender_of message =
     (case msg_prefix message of
        Some prefix \<Rightarrow> if pfx_nick prefix \<noteq> [] then wire_text (pfx_nick prefix) else ''unknown''
      | None \<Rightarrow> ''unknown'')"

section \<open>WHOIS and list replies\<close>

datatype WhoisLayout =
    LayoutUser | LayoutChannels | LayoutServer | LayoutAway | LayoutIdle | LayoutEnd | LayoutNickRest | LayoutAccount
  | LayoutNoSuchNick | LayoutNoSuchServer

record WhoisSpec =
  ws_code :: nat
  ws_label :: string
  ws_layout :: WhoisLayout

definition whois_row :: "nat \<Rightarrow> string \<Rightarrow> WhoisLayout \<Rightarrow> WhoisSpec" where
  "whois_row number label layout = \<lparr>ws_code = number, ws_label = label, ws_layout = layout\<rparr>"

definition WHOIS_NUMERICS :: "WhoisSpec list" where
  "WHOIS_NUMERICS =
     [whois_row 311 ''whois'' LayoutUser, whois_row 319 ''whois'' LayoutChannels, whois_row 312 ''whois'' LayoutServer,
      whois_row 301 ''whois'' LayoutAway, whois_row 317 ''whois'' LayoutIdle, whois_row 318 ''whois'' LayoutEnd,
      whois_row 276 ''whois'' LayoutNickRest, whois_row 307 ''whois'' LayoutNickRest, whois_row 313 ''whois'' LayoutNickRest,
      whois_row 320 ''whois'' LayoutNickRest, whois_row 330 ''whois'' LayoutAccount, whois_row 338 ''whois'' LayoutNickRest,
      whois_row 378 ''whois'' LayoutNickRest, whois_row 379 ''whois'' LayoutNickRest, whois_row 671 ''whois'' LayoutNickRest,
      whois_row 401 [] LayoutNoSuchNick, whois_row 402 [] LayoutNoSuchServer]"

definition whois_spec :: "nat \<Rightarrow> WhoisSpec option" where
  "whois_spec number = List.find (\<lambda>spec. ws_code spec = number) WHOIS_NUMERICS"

record FormattedWhois =
  fw_label :: string
  fw_text :: string
  fw_nick :: string
  fw_progress :: WhoisProgress

text \<open>The least number of parameters a layout reads, and its text.\<close>

fun layout_needs :: "WhoisLayout \<Rightarrow> nat" where
  "layout_needs LayoutUser = 6"
| "layout_needs LayoutServer = 4"
| "layout_needs LayoutEnd = 2"
| "layout_needs LayoutNoSuchNick = 2"
| "layout_needs LayoutNoSuchServer = 2"
| "layout_needs _ = 3"

fun layout_text :: "WhoisLayout \<Rightarrow> string list \<Rightarrow> string" where
  "layout_text LayoutUser ps =
     parameter_at ps 1 @ '' is '' @ parameter_at ps 2 @ ''@'' @ parameter_at ps 3 @ '' ('' @ parameter_at ps 5 @ '')''"
| "layout_text LayoutChannels ps = parameter_at ps 1 @ '' is on '' @ parameter_at ps 2"
| "layout_text LayoutServer ps = parameter_at ps 1 @ '' using '' @ parameter_at ps 2 @ '' ('' @ parameter_at ps 3 @ '')''"
| "layout_text LayoutAway ps = parameter_at ps 1 @ '' is away: '' @ parameter_at ps 2"
| "layout_text LayoutIdle ps =
     parameter_at ps 1 @ '' idle '' @ parameter_at ps 2 @ ''s''
     @ (if 5 \<le> length ps \<and> parameter_at ps 3 \<noteq> [] then '', signon '' @ parameter_at ps 3 else [])"
| "layout_text LayoutEnd ps = ''End of WHOIS for '' @ parameter_at ps 1"
| "layout_text LayoutNickRest ps = parameter_at ps 1 @ '' '' @ join_with '' '' (drop 2 ps)"
| "layout_text LayoutAccount ps = parameter_at ps 1 @ '' is logged in as '' @ parameter_at ps 2"
| "layout_text LayoutNoSuchNick ps = ''No such nick: '' @ parameter_at ps 1"
| "layout_text LayoutNoSuchServer ps = ''No such server: '' @ parameter_at ps 1"

definition whois_progress :: "nat \<Rightarrow> WhoisProgress" where
  "whois_progress number = (if number = 318 then ProgressTerminal else if number = 401 \<or> number = 402 then ProgressFailed else ProgressDetail)"

definition format_whois :: "unicode \<Rightarrow> IrcMessage \<Rightarrow> FormattedWhois option" where
  "format_whois u message =
     (let command = command_of u message in
      if length command \<noteq> 3 then None
      else case parse_code command of
             None \<Rightarrow> None
           | Some number \<Rightarrow>
               (case whois_spec number of
                  None \<Rightarrow> None
                | Some spec \<Rightarrow>
                    let ps = parameters_text message in
                    if length ps < layout_needs (ws_layout spec) then None
                    else Some \<lparr>fw_label = (if ws_label spec = [] then command else ws_label spec),
                               fw_text = layout_text (ws_layout spec) ps, fw_nick = parameter_at ps 1,
                               fw_progress = whois_progress number\<rparr>))"

text \<open>The rows of \<open>format_list_mode\<close>: label, kind, progress, text and channel.\<close>

definition list_mode_row :: "nat \<Rightarrow> string list \<Rightarrow> (string \<times> ListModeLine) option" where
  "list_mode_row number ps =
     (let chan = parameter_at ps 1 in
      if number = 367 then
        (if length ps < 3 then None
         else Some (''banlist'',
           \<lparr>lm_channel = chan,
            lm_text = ''ban '' @ parameter_at ps 2 @ '' on '' @ chan
              @ (if 4 \<le> length ps \<and> parameter_at ps 3 \<noteq> [] then '' by '' @ parameter_at ps 3 else []),
            lm_kind = ListBan, lm_progress = ProgressDetail\<rparr>))
      else if number = 368 then
        (if length ps < 2 then None
         else Some (''banlist'',
           \<lparr>lm_channel = chan, lm_text = ''End of ban list for '' @ chan, lm_kind = ListBan, lm_progress = ProgressTerminal\<rparr>))
      else if number = 728 then
        (if length ps < 4 then None
         else Some (''quietlist'',
           \<lparr>lm_channel = chan,
            lm_text = ''quiet '' @ parameter_at ps 3 @ '' on '' @ chan
              @ (if 5 \<le> length ps \<and> parameter_at ps 4 \<noteq> [] then '' by '' @ parameter_at ps 4 else []),
            lm_kind = ListQuiet, lm_progress = ProgressDetail\<rparr>))
      else if number = 729 then
        (if length ps < 2 then None
         else Some (''quietlist'',
           \<lparr>lm_channel = chan, lm_text = ''End of quiet list for '' @ chan, lm_kind = ListQuiet, lm_progress = ProgressTerminal\<rparr>))
      else None)"

definition format_list_mode :: "unicode \<Rightarrow> IrcMessage \<Rightarrow> (string \<times> ListModeLine) option" where
  "format_list_mode u message =
     (let command = command_of u message in
      if length command \<noteq> 3 then None
      else case parse_code command of
             None \<Rightarrow> None
           | Some number \<Rightarrow>
               (case list_mode_row number (parameters_text message) of
                  None \<Rightarrow> None
                | Some (label, line) \<Rightarrow> if lm_channel line = [] \<or> lm_text line = [] then None else Some (label, line)))"

definition keeps_list_mode_numeric :: "nat \<Rightarrow> bool" where
  "keeps_list_mode_numeric number \<longleftrightarrow> number \<in> set [367, 368, 728, 729]"

section \<open>Notices and invites\<close>

datatype NoticeCopy = Wrapped string string | Bare string

fun notice_copy_text :: "NoticeCopy \<Rightarrow> string" where
  "notice_copy_text (Wrapped speaker body) = ''-'' @ speaker @ ''- '' @ body"
| "notice_copy_text (Bare body) = body"

definition notice_speaker :: "string \<Rightarrow> string option" where
  "notice_speaker token = (let trimmed = trim token in if trimmed = [] \<or> eq_ignore_ascii_case trimmed ''*'' then None else Some trimmed)"

record NoticeWire =
  nw_prefix_nick :: "string option"
  nw_prefix_raw :: "string option"
  nw_target :: string
  nw_body :: string

definition parse_incoming_notice :: "unicode \<Rightarrow> IrcMessage \<Rightarrow> NoticeWire option" where
  "parse_incoming_notice u message =
     (if command_of u message \<noteq> ''NOTICE'' \<or> msg_params message = [] then None
      else
        let (who, raw) = (case msg_prefix message of
               Some prefix \<Rightarrow> (if pfx_nick prefix \<noteq> [] then Some (wire_text (pfx_nick prefix)) else None,
                               if pfx_raw prefix \<noteq> [] then Some (wire_text (pfx_raw prefix)) else None)
             | None \<Rightarrow> (None, None))
        in Some \<lparr>nw_prefix_nick = who, nw_prefix_raw = raw, nw_target = wire_text (msg_params message ! 0),
                 nw_body = (if 2 \<le> length (msg_params message) then trailing_text message else [])\<rparr>)"

definition present_notice :: "NoticeWire \<Rightarrow> NoticeCopy" where
  "present_notice parts =
     (let speaker = (case Option.bind (nw_prefix_nick parts) notice_speaker of
            Some speaker \<Rightarrow> Some speaker
          | None \<Rightarrow> (case Option.bind (nw_prefix_raw parts) notice_speaker of
                      Some speaker \<Rightarrow> Some speaker
                    | None \<Rightarrow> notice_speaker (nw_target parts)))
      in case speaker of Some speaker \<Rightarrow> Wrapped speaker (nw_body parts) | None \<Rightarrow> Bare (nw_body parts))"

definition present_invite :: "unicode \<Rightarrow> IrcMessage \<Rightarrow> string option" where
  "present_invite u message =
     (if command_of u message \<noteq> ''INVITE'' \<or> length (msg_params message) < 2 then None
      else let who = prefix_nick message; chan = trailing_text message in
        if who = [] \<or> chan = [] then None else Some (who @ '' invited you to '' @ chan))"

section \<open>Incoming lines\<close>

definition server_entry :: "string \<Rightarrow> instant \<Rightarrow> LogSeverity \<Rightarrow> string \<Rightarrow> string \<Rightarrow> StatusEntry" where
  "server_entry net now severity label shown = new_entry net now SourceServer severity label shown"

text \<open>The message the default classification shows: the masked form of a command that carries a secret.\<close>

definition display_message :: "unicode \<Rightarrow> IrcMessage \<Rightarrow> string \<Rightarrow> IrcMessage \<times> bool" where
  "display_message u message ctypes =
     (case redact_message u (msg_command message) (parameters_text message) ctypes of
        Some masked \<Rightarrow> (message\<lparr>msg_command := masked_verb masked, msg_params := masked_parameters masked\<rparr>, True)
      | None \<Rightarrow> (message, False))"

definition build_plain_incoming :: "unicode \<Rightarrow> string \<Rightarrow> IrcMessage \<Rightarrow> string \<Rightarrow> instant \<Rightarrow> StatusEntry" where
  "build_plain_incoming u net message ctypes now =
     (let command = command_of u message;
          (display, overlaid) = display_message u message ctypes;
          shown_command = command_of u display;
          request = (if 2 \<le> length (msg_params display) then parse_ctcp_request u (trailing_text display) else None);
          request_text = (\<lambda>r. if ctcp_argument r = [] then ctcp_command r else ctcp_command r @ '' '' @ ctcp_argument r);
          plain = (case parse_incoming_notice u display of
              Some parts \<Rightarrow> server_entry net now (severity_for command) NOTICE_LABEL (notice_copy_text (present_notice parts))
            | None \<Rightarrow>
                (case present_invite u display of
                   Some invite \<Rightarrow> server_entry net now (severity_for command) ''INVITE'' invite
                 | None \<Rightarrow> server_entry net now (severity_for command) command
                            (incoming_text u display shown_command overlaid ctypes)))
      in case request of
           None \<Rightarrow> plain
         | Some r \<Rightarrow>
             if shown_command = ''PRIVMSG'' then
               server_entry net now InfoLine CTCP_LABEL (request_text r @ '' from '' @ sender_of display)
             else if shown_command = ''NOTICE'' \<and> ctcp_command r \<noteq> ''ACTION'' then
               (server_entry net now InfoLine CTCP_LABEL
                  (format_ctcp_reply_text (ctcp_command r) (sender_of display) (ctcp_argument r) (now div NANOS_PER_MS)))
               \<lparr>se_ctcp_reply := Some \<lparr>cr_nick = sender_of display, cr_command = ctcp_command r\<rparr>\<rparr>
             else plain)"

definition build_default_incoming :: "unicode \<Rightarrow> string \<Rightarrow> IrcMessage \<Rightarrow> string \<Rightarrow> instant \<Rightarrow> StatusEntry" where
  "build_default_incoming u net message ctypes now =
     (let command = command_of u message in
      case format_whois u message of
        Some formatted \<Rightarrow>
          (server_entry net now (severity_for command) (fw_label formatted) (fw_text formatted))
          \<lparr>se_whois_line := (if fw_nick formatted \<noteq> [] \<and> fw_text formatted \<noteq> []
             then Some \<lparr>wl_nick = fw_nick formatted, wl_text = fw_text formatted, wl_progress = fw_progress formatted\<rparr> else None)\<rparr>
      | None \<Rightarrow>
          (case format_list_mode u message of
             Some (label, line) \<Rightarrow>
               (server_entry net now (severity_for command) label (lm_text line))\<lparr>se_list_mode_line := Some line\<rparr>
           | None \<Rightarrow> build_plain_incoming u net message ctypes now))"

text \<open>The fields of a 004 that Status names, as far as the line has them.\<close>

definition SERVER_FIELDS :: "(string \<times> nat) list" where
  "SERVER_FIELDS =
     [(''Host'', 1), (''IRCd'', 2), (''User modes'', 3), (''Channel modes'', 4), (''Parametric channel modes'', 5)]"

definition server_fields :: "string \<Rightarrow> instant \<Rightarrow> string list \<Rightarrow> StatusEntry list" where
  "server_fields net now parameters =
     map (\<lambda>(label, index). server_entry net now (severity_for ''004'') ''004'' (label @ '': '' @ parameters ! index))
       (takeWhile (\<lambda>(label, index). \<not> (length parameters \<le> index \<or> index = 5 \<and> length parameters \<le> 5)) SERVER_FIELDS)"

definition incoming_all :: "unicode \<Rightarrow> string \<Rightarrow> IrcMessage \<Rightarrow> string \<Rightarrow> instant \<Rightarrow> StatusEntry list" where
  "incoming_all u net message ctypes now =
     (let command = command_of u message;
          server_lines = (if command = ''004'' then server_fields net now (parameters_text message) else []);
          cap = (if command = ''CAP'' then format_incoming_cap message else None);
          lusers = (if is_numeric_command command then format_lusers (code_or_zero command) (parameters_text message) else None)
      in if server_lines \<noteq> [] then server_lines
         else case cap of
                Some shown \<Rightarrow> [server_entry net now (severity_for command) ''CAP'' shown]
              | None \<Rightarrow>
                  (case lusers of
                     Some shown \<Rightarrow> [server_entry net now (severity_for command) command shown]
                   | None \<Rightarrow> [build_default_incoming u net message ctypes now]))"

section \<open>Outgoing lines\<close>

definition strip_line_end :: "bytes \<Rightarrow> bytes" where
  "strip_line_end line =
     (case strip_suffix [CR, LF] line of
        Some stripped \<Rightarrow> stripped
      | None \<Rightarrow> (case strip_suffix [LF] line of Some stripped \<Rightarrow> stripped | None \<Rightarrow> line))"

text \<open>The \<open>get(3..)\<close> of a text that starts with three ASCII bytes is always there.\<close>

definition format_outgoing_cap_req :: "string \<Rightarrow> string option" where
  "format_outgoing_cap_req display =
     (let trimmed = trim display in
      if \<not> has_prefix_fold trimmed ''CAP'' then None
      else let rest = trim (drop 3 trimmed) in
        if \<not> has_prefix_fold rest ''REQ'' then None
        else
          let rest = trim (drop 3 rest);
              rest = (case strip_prefix '':'' rest of Some stripped \<Rightarrow> stripped | None \<Rightarrow> rest);
              toks = split_fields rest
          in Some (if toks = [] then ''Requesting:'' else ''Requesting: '' @ join_with '' | '' toks))"

definition outgoing :: "unicode \<Rightarrow> string \<Rightarrow> bytes \<Rightarrow> string \<Rightarrow> instant \<Rightarrow> StatusEntry" where
  "outgoing u net line ctypes now =
     (let display = wire_text (strip_line_end line);
          verb = first_token u display;
          shown = (case format_outgoing_cap_req display of
              Some cap_req \<Rightarrow> cap_req
            | None \<Rightarrow> (case redact_wire_line u display ctypes of Some safe \<Rightarrow> safe | None \<Rightarrow> display))
      in new_entry net now SourceClient (severity_for verb) verb shown)"

section \<open>What reaches Status\<close>

datatype Keep = KeepDrop | KeepLine | KeepPrivmsg

record KeepRow =
  keep_command :: string
  keep_incoming :: Keep
  keep_outgoing :: Keep

definition keep_table_row :: "string \<Rightarrow> Keep \<Rightarrow> Keep \<Rightarrow> KeepRow" where
  "keep_table_row command inbound outbound = \<lparr>keep_command = command, keep_incoming = inbound, keep_outgoing = outbound\<rparr>"

definition KEEP_ROWS :: "KeepRow list" where
  "KEEP_ROWS =
     [keep_table_row ''PING'' KeepDrop KeepDrop, keep_table_row ''PONG'' KeepDrop KeepDrop, keep_table_row ''CAP'' KeepLine KeepDrop,
      keep_table_row ''AUTHENTICATE'' KeepDrop KeepDrop, keep_table_row ''JOIN'' KeepDrop KeepDrop,
      keep_table_row ''PART'' KeepDrop KeepDrop, keep_table_row ''QUIT'' KeepDrop KeepDrop, keep_table_row ''NICK'' KeepDrop KeepDrop,
      keep_table_row ''KICK'' KeepDrop KeepDrop, keep_table_row ''TOPIC'' KeepDrop KeepDrop, keep_table_row ''MODE'' KeepDrop KeepDrop,
      keep_table_row ''BATCH'' KeepDrop KeepDrop, keep_table_row ''TAGMSG'' KeepDrop KeepDrop, keep_table_row ''AWAY'' KeepDrop KeepDrop,
      keep_table_row ''CHATHISTORY'' KeepDrop KeepDrop, keep_table_row ''MARKREAD'' KeepDrop KeepDrop,
      keep_table_row ''READ'' KeepDrop KeepDrop, keep_table_row ''PRIVMSG'' KeepPrivmsg KeepDrop,
      keep_table_row ''NOTICE'' KeepLine KeepDrop, keep_table_row ''FAIL'' KeepLine KeepDrop, keep_table_row ''WARN'' KeepLine KeepDrop,
      keep_table_row ''NOTE'' KeepLine KeepDrop, keep_table_row ''ERROR'' KeepLine KeepDrop, keep_table_row ''INVITE'' KeepLine KeepDrop,
      keep_table_row ''PASS'' KeepDrop KeepLine]"

definition keep_row :: "string \<Rightarrow> KeepRow option" where
  "keep_row command = List.find (\<lambda>row. keep_command row = command) KEEP_ROWS"

definition features_for_channel_types :: "string \<Rightarrow> IrcServerFeatures" where
  "features_for_channel_types ctypes =
     (if ctypes = [] then new_features else apply_token new_features (''CHANTYPES='' @ ctypes))"

definition conversation_engaged :: "unicode \<Rightarrow> IrcMessage \<Rightarrow> string \<Rightarrow> string \<Rightarrow> IrcServerFeatures \<Rightarrow> bool" where
  "conversation_engaged u message target current_nick features =
     (if (case msg_prefix message of
            None \<Rightarrow> False
          | Some prefix \<Rightarrow> pfx_nick prefix \<noteq> [] \<and> \<not> nick_is_routable (wire_text (pfx_nick prefix))) then False
      else if is_channel features target then True
      else if is_network_notice_target target
              \<or> \<not> (case msg_prefix message of None \<Rightarrow> False | Some prefix \<Rightarrow> is_user prefix)
              \<or> is_service_source u message features then False
      else let sender = prefix_nick message in
        if sender = [] then False
        else equals (case_mapping features) target current_nick \<or> equals (case_mapping features) sender current_nick)"

definition STATUS_NUMERICS :: "nat list" where
  "STATUS_NUMERICS =
     [20, 42, 221, 250, 251, 252, 253, 254, 255, 263, 265, 266, 396, 372, 375, 376, 422, 764, 767, 769, 903, 904, 905]"

definition keeps_numeric :: "string \<Rightarrow> bool" where
  "keeps_numeric command =
     (if \<not> is_numeric_command command then False
      else let number = code_or_zero command in
        if 1 \<le> number \<and> number \<le> 4 then True
        else if number \<in> set STATUS_NUMERICS then True
        else if whois_spec number \<noteq> None then True
        else if keeps_list_mode_numeric number then True
        else error_digit command)"

definition keeps_privmsg :: "unicode \<Rightarrow> IrcMessage \<Rightarrow> string \<Rightarrow> string \<Rightarrow> bool" where
  "keeps_privmsg u message current_nick ctypes =
     (if 2 \<le> length (msg_params message)
         \<and> (case parse_ctcp_request u (trailing_text message) of None \<Rightarrow> False | Some r \<Rightarrow> ctcp_command r \<noteq> ''ACTION'') then True
      else
        let features = features_for_channel_types ctypes; types = channel_types features;
            target = (case msg_params message of [] \<Rightarrow> [] | p # _ \<Rightarrow> wire_text p)
        in if is_channel features target then False
           else
             let (sender, host) = (case msg_prefix message of
                    Some prefix \<Rightarrow> (wire_text (pfx_nick prefix), wire_text (pfx_host prefix)) | None \<Rightarrow> ([], []))
             in if is_service_identity u sender host types \<or> is_service_identity u target [] types then True
                else \<not> conversation_engaged u message target current_nick features)"

definition keeps_incoming :: "unicode \<Rightarrow> IrcMessage \<Rightarrow> string \<Rightarrow> string \<Rightarrow> bool" where
  "keeps_incoming u message current_nick ctypes =
     (let command = command_of u message in
      case keep_row command of
        Some row \<Rightarrow>
          (case keep_incoming row of
             KeepLine \<Rightarrow> True
           | KeepDrop \<Rightarrow> False
           | KeepPrivmsg \<Rightarrow> keeps_privmsg u message current_nick ctypes)
      | None \<Rightarrow> keeps_numeric command)"

text \<open>\<open>trimmed.get(3..)\<close> is absent when byte 3 is inside a character.\<close>

definition cap_request_kept :: "string \<Rightarrow> bool" where
  "cap_request_kept display =
     (let trimmed = trim display in
      if 3 < length trimmed \<and> \<not> is_cont (trimmed ! 3) then has_prefix_fold (trim (drop 3 trimmed)) ''REQ'' else False)"

definition keeps_outgoing :: "unicode \<Rightarrow> bytes \<Rightarrow> bool" where
  "keeps_outgoing u line =
     (let display = wire_text (strip_line_end line); verb = first_token u display in
      if verb = [] then False
      else case keep_row verb of
             None \<Rightarrow> False
           | Some row \<Rightarrow>
               if keep_outgoing row = KeepLine then True
               else if verb = ''CAP'' then cap_request_kept display
               else False)"

section \<open>Errors\<close>

lemma ascii_upper_text: "unicode_laws u \<Longrightarrow> list_all is_ascii_byte s \<Longrightarrow> upper_text u s = to_ascii_uppercase s"
  by (simp add: unicode_laws_def)

text \<open>The commands the server reports an error with.\<close>

definition reports_error :: "string \<Rightarrow> bool" where
  "reports_error command \<longleftrightarrow> command = ''FAIL'' \<or> command = ''ERROR'' \<or> is_numeric_command command \<and> error_digit command"

lemma error_cases:
  assumes "reports_error command"
  obtains "command = ''FAIL''" | "command = ''ERROR''"
    | a b where "command = [CHR ''4'', a, b]" "is_numeric_command command" | a b where "command = [CHR ''5'', a, b]" "is_numeric_command command"
  using assms by (auto simp: reports_error_def is_numeric_command_def error_digit_def numeral_3_eq_3 length_Suc_conv split: list.splits)

lemma error_plain:
  assumes "reports_error command"
  shows "command \<notin> set [''CAP'', ''004'']" "secret_rule_for command = None" "severity_for command = AlertLine"
    "case keep_row command of None \<Rightarrow> is_numeric_command command \<and> error_digit command | Some row \<Rightarrow> keep_incoming row = KeepLine"
  using assms
  by (cases rule: error_cases;
      simp add: secret_rule_for_def SECRET_MAP_def severity_for_def error_digit_def keep_row_def KEEP_ROWS_def keep_table_row_def
        is_numeric_command_def)+

lemma error_kept:
  "reports_error (command_of u message) \<Longrightarrow> keeps_incoming u message current_nick ctypes"
  using error_plain(4) by (fastforce simp: keeps_incoming_def keeps_numeric_def Let_def split: option.splits)

text \<open>An error is not masked, so its entry keeps the severity of the command.\<close>

lemma error_unmasked:
  assumes "unicode_laws u" "list_all is_ascii_byte (msg_command message)" "reports_error (command_of u message)"
  shows "display_message u message ctypes = (message, False)"
  using assms error_plain(2) [OF assms(3)]
  by (simp add: display_message_def redact_message_def simple_upper_ascii ascii_upper_text command_of_def)

lemma error_plain_entry:
  assumes "unicode_laws u" "list_all is_ascii_byte (msg_command message)" "reports_error (command_of u message)"
  shows "se_severity (build_plain_incoming u net message ctypes now) = AlertLine
    \<and> se_source (build_plain_incoming u net message ctypes now) = SourceServer"
proof -
  have "command_of u message \<noteq> ''PRIVMSG''" "command_of u message \<noteq> ''NOTICE''" "command_of u message \<noteq> ''INVITE''"
    using assms(3) by (auto elim!: error_cases)
  then show ?thesis
    using error_plain(3) [OF assms(3)] error_unmasked [OF assms]
    by (simp add: build_plain_incoming_def parse_incoming_notice_def present_invite_def server_entry_def new_entry_def Let_def
        split: option.splits)
qed

lemma error_default_entry:
  assumes "unicode_laws u" "list_all is_ascii_byte (msg_command message)" "reports_error (command_of u message)"
  shows "se_severity (build_default_incoming u net message ctypes now) = AlertLine
    \<and> se_source (build_default_incoming u net message ctypes now) = SourceServer"
  using error_plain(3) [OF assms(3)] error_plain_entry [OF assms]
  by (simp add: build_default_incoming_def server_entry_def new_entry_def Let_def split: option.split prod.split)

text \<open>
  Every FAIL, ERROR and error numeric of the server reaches Status, as entries of the server marked as alerts.
\<close>

lemma errors_reach_status:
  assumes "unicode_laws u" "list_all is_ascii_byte (msg_command message)" "reports_error (command_of u message)"
  shows "keeps_incoming u message current_nick ctypes \<and> incoming_all u net message ctypes now \<noteq> []
    \<and> (\<forall>entry \<in> set (incoming_all u net message ctypes now). se_severity entry = AlertLine \<and> se_source entry = SourceServer)"
proof -
  have "command_of u message \<noteq> ''CAP''" "command_of u message \<noteq> ''004''" using error_plain(1) [OF assms(3)] by simp_all
  then show ?thesis
    using error_kept [OF assms(3)] error_plain(3) [OF assms(3)] error_default_entry [OF assms]
    by (simp add: incoming_all_def server_entry_def new_entry_def Let_def split: option.split)
qed

section \<open>Secrets\<close>

text \<open>Trimming keeps a first word of ASCII letters, and drops at most a space that follows it.\<close>

lemma trim_word:
  assumes "verb \<noteq> []" "list_all is_ascii_uppercase verb" "utf8_valid rest"
  obtains tail where "trim (verb @ CHR '' '' # rest) = verb @ tail" "tail = [] \<or> hd tail = CHR '' ''"
proof -
  have low: "\<forall>c \<in> set verb. code c < 128 \<and> \<not> is_whitespace (code c)"
    using assms(2) by (auto simp: list_all_iff is_ascii_uppercase_def is_whitespace_def)
  have v: "utf8_valid verb" "chars verb = map of_char verb" using low by (auto simp: utf8_valid_ascii chars_ascii)
  have sp: "chars [CHR '' ''] = [32]" "utf8_valid [CHR '' '']" by code_simp+
  have cs: "chars (verb @ CHR '' '' # rest) = chars verb @ 32 # chars rest"
    using chars_append [OF v(1), of "[CHR '' ''] @ rest"] chars_append [OF sp(2) assms(3)] sp assms(3) by simp
  define T where "T = rev (dropWhile is_whitespace (rev (32 # chars rest)))"
  have nows: "c \<in> set (chars verb) \<Longrightarrow> \<not> is_whitespace c" for c using low v(2) by auto
  have first: "dropWhile is_whitespace (chars verb @ xs) = chars verb @ xs" for xs
    using assms(1) nows v(2) by (cases "chars verb") auto
  have last: "rev (dropWhile is_whitespace (rev (chars verb @ 32 # chars rest))) = chars verb @ T"
  proof (cases "\<forall>c \<in> set (chars rest). is_whitespace c")
    case True
    then have all: "\<forall>c \<in> set (rev (32 # chars rest)). is_whitespace c" by (auto simp: is_whitespace_def)
    have "dropWhile is_whitespace (rev (chars verb)) = rev (chars verb)"
      using assms(1) nows v(2) by (cases "rev (chars verb)") (auto dest: arg_cong [where f = set])
    then have "dropWhile is_whitespace (rev (32 # chars rest) @ rev (chars verb)) = rev (chars verb)"
      using all dropWhile_append2 [of "rev (32 # chars rest)" is_whitespace "rev (chars verb)"] by (simp only: simp_thms)
    moreover have "T = []" using all by (simp add: T_def dropWhile_eq_Nil_conv)
    ultimately show ?thesis by simp
  next
    case False
    then obtain c where "c \<in> set (rev (32 # chars rest))" "\<not> is_whitespace c" by auto
    then show ?thesis using dropWhile_append1 [of c "rev (32 # chars rest)" is_whitespace "rev (chars verb)"] by (simp add: T_def)
  qed
  have T: "T = [] \<or> hd T = 32"
  proof -
    have "rev (dropWhile is_whitespace (rev (32 # chars rest))) @ rev (takeWhile is_whitespace (rev (32 # chars rest))) = 32 # chars rest"
      using takeWhile_dropWhile_id [of is_whitespace "rev (32 # chars rest)"] by (metis rev_append rev_rev_ident)
    then have "T @ rev (takeWhile is_whitespace (rev (32 # chars rest))) = 32 # chars rest" by (simp only: T_def)
    then show ?thesis by (cases T) auto
  qed
  have "trim (verb @ CHR '' '' # rest) = encode_utf8 (chars verb @ T)"
    by (simp add: trim_def cs first last del: rev_append rev.simps)
  also have "\<dots> = verb @ encode_utf8 T" using encode_chars [OF v(1)] by (simp add: encode_utf8_def)
  finally have "trim (verb @ CHR '' '' # rest) = verb @ encode_utf8 T" .
  moreover have space: "char_of (32 :: nat) = CHR '' ''" by code_simp
  have "encode_utf8 T = [] \<or> hd (encode_utf8 T) = CHR '' ''"
    using T space by (cases T) (auto simp: encode_utf8_def encode_scalar_def)
  ultimately show thesis using that by blast
qed

lemma outgoing_word:
  assumes "unicode_laws u" "verb \<noteq> []" "list_all is_ascii_uppercase verb" "utf8_valid rest" "hd verb \<noteq> CHR ''C''"
  shows "first_token u (verb @ CHR '' '' # rest) = verb" "format_outgoing_cap_req (verb @ CHR '' '' # rest) = None"
proof -
  obtain tail where t: "trim (verb @ CHR '' '' # rest) = verb @ tail" "tail = [] \<or> hd tail = CHR '' ''"
    using trim_word [OF assms(2-4)] by blast
  have plain: "c \<noteq> CHR '' '' \<and> c \<noteq> CHR 0x09" "is_ascii_byte c" "ascii_upper c = c" if "c \<in> set verb" for c
    using assms(3) that by (auto simp: list_all_iff ascii_defs)
  have "takeWhile (\<lambda>c. c \<noteq> CHR '' '' \<and> c \<noteq> CHR 0x09) (verb @ tail) = verb"
    using plain(1) t(2) by (cases tail) (simp_all add: takeWhile_append2 takeWhile_eq_all_conv)
  moreover have "to_ascii_uppercase verb = verb"
    using plain(3) by (simp add: to_ascii_uppercase_def map_idI)
  moreover have "list_all is_ascii_byte verb" using plain(2) by (simp add: list_all_iff)
  ultimately show "first_token u (verb @ CHR '' '' # rest) = verb"
    using assms(2) by (simp add: first_token_def t(1) Let_def ascii_upper_text [OF assms(1)])
  have "ascii_lower (hd verb) \<noteq> CHR ''c''"
  proof
    assume c: "ascii_lower (hd verb) = CHR ''c''"
    have "65 \<le> code (hd verb)" "code (hd verb) \<le> 90" using assms(2,3) by (cases verb; simp add: is_ascii_uppercase_def)+
    then have "char_of (code (hd verb) + 32) = CHR ''c''" using c by (simp add: ascii_defs)
    then have "code (char_of (code (hd verb) + 32)) = 99" by simp
    then have "code (hd verb) = code (CHR ''C'')" using \<open>code (hd verb) \<le> 90\<close> by simp
    then show False using assms(5) by (simp only: of_char_eq_iff)
  qed
  moreover have "ascii_lower CHR ''C'' = CHR ''c''" by code_simp
  ultimately have "\<not> has_prefix_fold (verb @ tail) ''CAP''"
    using assms(2) by (cases verb) (auto simp: has_prefix_fold_def eq_ignore_ascii_case_def to_ascii_lowercase_def)
  then show "format_outgoing_cap_req (verb @ CHR '' '' # rest) = None"
    by (simp add: format_outgoing_cap_req_def t(1) Let_def)
qed

lemma outgoing_shown:
  assumes "unicode_laws u" "verb \<noteq> []" "list_all is_ascii_uppercase verb" "utf8_valid rest" "hd verb \<noteq> CHR ''C''"
    and "redact_wire_line u (verb @ CHR '' '' # rest) ctypes = Some masked"
  shows "se_text (outgoing u net (verb @ CHR '' '' # rest @ [CR, LF]) ctypes now) = masked"
    "keeps_outgoing u (verb @ CHR '' '' # rest @ [CR, LF]) \<longleftrightarrow> (case keep_row verb of None \<Rightarrow> False | Some row \<Rightarrow> keep_outgoing row = KeepLine)"
proof -
  have "strip_suffix [CR, LF] (verb @ CHR '' '' # rest @ [CR, LF]) = Some (verb @ CHR '' '' # rest)" by (simp add: strip_suffix_Some)
  moreover have "utf8_valid verb" using assms(3) by (intro utf8_valid_ascii) (auto simp: list_all_iff is_ascii_uppercase_def)
  then have "utf8_valid (verb @ CHR '' '' # rest)" using assms(4) by (simp add: utf8_valid_append)
  ultimately have "wire_text (strip_line_end (verb @ CHR '' '' # rest @ [CR, LF])) = verb @ CHR '' '' # rest"
    by (simp add: strip_line_end_def wire_text_id)
  moreover have "verb \<noteq> ''CAP''" using assms(5) by auto
  ultimately show "se_text (outgoing u net (verb @ CHR '' '' # rest @ [CR, LF]) ctypes now) = masked"
    "keeps_outgoing u (verb @ CHR '' '' # rest @ [CR, LF]) \<longleftrightarrow> (case keep_row verb of None \<Rightarrow> False | Some row \<Rightarrow> keep_outgoing row = KeepLine)"
    using outgoing_word [OF assms(1-5)] assms(2,6)
    by (simp_all add: outgoing_def new_entry_def keeps_outgoing_def Let_def split: option.split)
qed

lemma secret_keep_rows:
  "map_option keep_outgoing (keep_row ''PASS'') = Some KeepLine" "map_option keep_outgoing (keep_row ''AUTHENTICATE'') = Some KeepDrop"
  "map_option keep_outgoing (keep_row ''JOIN'') = Some KeepDrop" "map_option keep_outgoing (keep_row ''PRIVMSG'') = Some KeepDrop"
  by (simp_all add: keep_row_def KEEP_ROWS_def keep_table_row_def)



section \<open>Formatted replies\<close>

text \<open>A signed text of three bytes is below every code that is formatted.\<close>

lemma parse_code_digits:
  assumes "length command = 3" "parse_code command = Some number" "100 \<le> number"
  shows "is_numeric_command command"
proof (cases "strip_prefix ''+'' command")
  case None
  then show ?thesis
    using assms(1,2) by (auto simp: parse_code_def Let_def all_digits_def is_numeric_command_def list_all_iff split: if_splits)
next
  case (Some digits)
  then have "command = ''+'' @ digits" by (simp add: strip_prefix_Some)
  with assms(1) obtain a b where "digits = [a, b]" by (auto simp: numeral_3_eq_3 length_Suc_conv)
  then have "number = (code a - 48) * 10 + (code b - 48)" "is_ascii_digit a" "is_ascii_digit b"
    using assms(2) Some by (auto simp: parse_code_def Let_def all_digits_def decimal_value_def split: if_splits)
  then have "number < 100" unfolding is_ascii_digit_def by linarith
  then show ?thesis using assms(3) by simp
qed

lemma keep_row_numeric:
  assumes "is_numeric_command command"
  shows "keep_row command = None"
proof -
  have "list_all (\<lambda>row. \<not> list_all is_ascii_digit (keep_command row)) KEEP_ROWS" by code_simp
  then show ?thesis
    using assms by (auto simp: keep_row_def is_numeric_command_def find_None_iff list_all_iff)
qed

text \<open>Every reply that has a sentence of its own, of a WHOIS or of a ban or quiet list, reaches Status.\<close>

lemma formatted_replies_kept:
  assumes "format_whois u message \<noteq> None \<or> format_list_mode u message \<noteq> None"
  shows "keeps_incoming u message current_nick ctypes"
proof -
  obtain number where n: "length (command_of u message) = 3" "parse_code (command_of u message) = Some number"
    "whois_spec number \<noteq> None \<or> keeps_list_mode_numeric number" "100 \<le> number"
    using assms
    by (auto simp: format_whois_def format_list_mode_def list_mode_row_def keeps_list_mode_numeric_def whois_spec_def WHOIS_NUMERICS_def
        whois_row_def Let_def split: option.splits if_splits)
  then show ?thesis
    using parse_code_digits [OF n(1,2,4)]
    by (auto simp: keeps_incoming_def keep_row_numeric keeps_numeric_def code_or_zero_def Let_def)
qed

end
