(* ===== verification/SettingsIni.thy ===== *)
theory SettingsIni
  imports Presence
begin

text \<open>
  \<^verbatim>\<open>client/src/storage/settings_ini.rs\<close>: the INI text of the settings file, as QSettings writes it. A line is given by its bytes and the
  offset of its first equals sign outside quotes; the scanner walks the bytes that are left. The lemmas show that a key and a value that
  are written are read back.
\<close>

section \<open>Lossy decoding\<close>

text \<open>\<open>String::from_utf8_lossy\<close>: one U+FFFD for every maximal part of a sequence that is not well formed.\<close>

definition second_byte_ok :: "nat \<Rightarrow> char \<Rightarrow> bool" where
  "second_byte_ok n b1 \<longleftrightarrow> is_cont b1 \<and> (n = 224 \<longrightarrow> 160 \<le> code b1) \<and> (n = 237 \<longrightarrow> code b1 < 160)
     \<and> (n = 240 \<longrightarrow> 144 \<le> code b1) \<and> (n = 244 \<longrightarrow> code b1 < 144)"

fun bad_part :: "bytes \<Rightarrow> nat" where
  "bad_part (b0 # b1 # b2 # r) =
     (let n = code b0 in
      if 224 \<le> n \<and> n < 245 \<and> second_byte_ok n b1 then (if 240 \<le> n \<and> is_cont b2 then 3 else 2) else 1)"
| "bad_part [b0, b1] = (let n = code b0 in if 224 \<le> n \<and> n < 245 \<and> second_byte_ok n b1 then 2 else 1)"
| "bad_part _ = 1"

lemma bad_part_pos: "0 < bad_part s"
  by (induction s rule: bad_part.induct) (auto simp: Let_def)

function from_utf8_lossy :: "bytes \<Rightarrow> string" where
  "from_utf8_lossy s =
     (if s = [] then []
      else case utf8_next s of
             Some (c, r) \<Rightarrow> encode_scalar c @ from_utf8_lossy r
           | None \<Rightarrow> encode_scalar 0xFFFD @ from_utf8_lossy (drop (bad_part s) s))"
  by pat_completeness auto
termination
  by (relation "measure length") (auto dest: utf8_next_length simp: bad_part_pos)

declare from_utf8_lossy.simps [simp del]

lemma from_utf8_lossy_valid: "utf8_valid s \<Longrightarrow> from_utf8_lossy s = s"
proof (induction s rule: from_utf8_lossy.induct)
  case (1 s)
  show ?case
  proof (cases "utf8_next s")
    case None
    then show ?thesis
      using "1.prems" by (cases "s = []") (auto simp: from_utf8_lossy.simps utf8_valid_def decode_utf8.simps [of s])
  next
    case (Some cr)
    then obtain c r where n: "utf8_next s = Some (c, r)" by (cases cr) auto
    then have "s \<noteq> []" by auto
    moreover have "utf8_valid r"
      using "1.prems" n \<open>s \<noteq> []\<close> by (auto simp: utf8_valid_def decode_utf8.simps [of s])
    ultimately have "from_utf8_lossy s = encode_scalar c @ r"
      using "1.IH"(2) [OF _ n refl] by (simp add: from_utf8_lossy.simps [of s] n)
    then show ?thesis using utf8_next_shortest [OF n] by simp
  qed
qed

section \<open>Lines\<close>

definition ini_space :: "char \<Rightarrow> bool" where
  "ini_space ch \<longleftrightarrow> ch \<in> set [CHR '' '', CHR 0x09, CHR 0x0A, CHR 0x0D]"

definition ini_special :: "char \<Rightarrow> bool" where
  "ini_special ch \<longleftrightarrow> ch \<in> set [CHR 0x0A, CHR 0x0D, CHR 0x22, CHR '';'', CHR ''='', CHR 0x5C]"

definition is_line_end :: "char \<Rightarrow> bool" where
  "is_line_end ch \<longleftrightarrow> ch = CHR 0x0A \<or> ch = CHR 0x0D"

definition skip_comment :: "bytes \<Rightarrow> bytes" where
  "skip_comment rest = dropWhile ini_space (dropWhile (\<lambda>ch. \<not> is_line_end ch) rest)"

lemma length_skip_comment: "length (skip_comment rest) \<le> length rest"
  unfolding skip_comment_def by (meson le_trans length_dropWhile_le)

text \<open>
  The loop of the line iterator. \<open>seen\<close> is the data from \<open>line_start\<close> to \<open>i\<close>, so \<open>i = line_start\<close> is \<open>seen = []\<close>, and
  \<open>rest\<close> is the data from \<open>i\<close> on. The separator is counted from the start of the line; it is never set while \<open>seen\<close> is empty, so moving the
  start of the line past a comment does not move it.
\<close>

function ini_scan :: "bool \<Rightarrow> nat option \<Rightarrow> bytes \<Rightarrow> bytes \<Rightarrow> bytes \<times> nat option \<times> bytes" where
  "ini_scan in_quotes separator seen [] = (seen, separator, [])"
| "ini_scan in_quotes separator seen (ch # rest) =
     (if \<not> ini_special ch then
        if seen = [] \<and> ch = CHR ''#'' then ini_scan in_quotes separator [] (skip_comment rest)
        else ini_scan in_quotes separator (seen @ [ch]) rest
      else if ch = CHR ''='' then
        ini_scan in_quotes (if \<not> in_quotes \<and> separator = None then Some (length seen) else separator) (seen @ [ch]) rest
      else if is_line_end ch then
        if seen = [] then ini_scan in_quotes separator [] rest
        else if \<not> in_quotes then (seen, separator, ch # rest)
        else ini_scan in_quotes separator (seen @ [ch]) rest
      else if ch = CHR 0x5C then
        (case rest of
           [] \<Rightarrow> ini_scan in_quotes separator (seen @ [ch]) []
         | [escaped] \<Rightarrow> ini_scan in_quotes separator (seen @ [ch, escaped]) []
         | escaped # following # rest' \<Rightarrow>
             if is_line_end escaped \<and> is_line_end following \<and> following \<noteq> escaped
             then ini_scan in_quotes separator (seen @ [ch, escaped, following]) rest'
             else ini_scan in_quotes separator (seen @ [ch, escaped]) (following # rest'))
      else if ch = CHR 0x22 then ini_scan (\<not> in_quotes) separator (seen @ [ch]) rest
      else if seen = [] then ini_scan in_quotes separator [] (skip_comment rest)
      else if \<not> in_quotes then (seen, separator, ch # rest)
      else ini_scan in_quotes separator (seen @ [ch]) rest)"
  by pat_completeness auto
termination
  by (relation "measure (\<lambda>(_, _, _, rest). length rest)") (auto simp: le_imp_less_Suc length_skip_comment)

declare ini_scan.simps(2) [simp del]

lemma ini_scan_length: "ini_scan q e seen rest = (line, e', rest') \<Longrightarrow> length line + length rest' \<le> length seen + length rest"
proof (induction q e seen rest rule: ini_scan.induct)
  case (2 q e seen ch rest)
  from "2.prems" show ?case
    by (subst (asm) ini_scan.simps(2))
      (use "2.IH" length_skip_comment [of rest] in \<open>auto split: if_splits list.splits dest: le_trans\<close>)
qed simp

text \<open>The lines of a file: the iterator skips white space, and ends at the first line without a byte.\<close>

function ini_lines :: "bytes \<Rightarrow> (bytes \<times> nat option) list" where
  "ini_lines data =
     (case ini_scan False None [] (dropWhile ini_space data) of
        (line, separator, rest) \<Rightarrow> if line = [] then [] else (line, separator) # ini_lines rest)"
  by pat_completeness auto
termination
proof (relation "measure length", goal_cases)
  case (2 data line p separator rest)
  then have "length line + length rest \<le> length (dropWhile ini_space data)"
    using ini_scan_length [of False None "[]" "dropWhile ini_space data" line separator rest] by auto
  then show ?case using 2 length_dropWhile_le [of ini_space data] by (cases line) auto
qed simp

declare ini_lines.simps [simp del]

text \<open>
  \<^verbatim>\<open>String::from_utf16_lossy\<close> and \<^verbatim>\<open>encode_utf16\<close> are those of \<open>Presence\<close>. \<open>slice::trim_ascii\<close> also drops form feeds.
\<close>

definition strip_bom :: "bytes \<Rightarrow> bytes" where
  "strip_bom data = (case strip_prefix [CHR 0xEF, CHR 0xBB, CHR 0xBF] data of Some rest \<Rightarrow> rest | None \<Rightarrow> data)"

definition ascii_space :: "char \<Rightarrow> bool" where
  "ascii_space c \<longleftrightarrow> c \<in> set [CHR '' '', CHR 0x09, CHR 0x0A, CHR 0x0C, CHR 0x0D]"

definition trim_ascii :: "bytes \<Rightarrow> bytes" where
  "trim_ascii s = rev (dropWhile ascii_space (rev (dropWhile ascii_space s)))"

section \<open>Keys\<close>

definition hex_digit_value :: "char \<Rightarrow> nat option" where
  "hex_digit_value ch =
     (if is_ascii_digit ch then Some (code ch - 48)
      else if 97 \<le> code ch \<and> code ch \<le> 102 then Some (code ch - 97 + 10)
      else if 65 \<le> code ch \<and> code ch \<le> 70 then Some (code ch - 65 + 10)
      else None)"

definition oct_value :: "char \<Rightarrow> nat option" where
  "oct_value ch = (if 48 \<le> code ch \<and> code ch \<le> 55 then Some (code ch - 48) else None)"

definition hex_upper :: "nat \<Rightarrow> char" where
  "hex_upper nibble = ''0123456789ABCDEF'' ! (nibble mod 16)"

definition encode_utf16 :: "string \<Rightarrow> nat list" where
  "encode_utf16 s = concat (map utf16_units (chars s))"

text \<open>The digits of an escape, from the first one on; the value is absent when one of them is not a digit.\<close>

definition unit_digit :: "nat \<Rightarrow> nat option" where
  "unit_digit unit = (if unit < 256 then hex_digit_value (char_of unit) else None)"

fun digits_value :: "nat \<Rightarrow> nat list \<Rightarrow> nat option" where
  "digits_value acc [] = Some acc"
| "digits_value acc (unit # units) =
     (case unit_digit unit of Some digit \<Rightarrow> digits_value (acc * 16 + digit) units | None \<Rightarrow> None)"

function unescape_units :: "nat list \<Rightarrow> nat list" where
  "unescape_units [] = []"
| "unescape_units (ch # units) =
     (if ch = 0x5C then 0x2F # unescape_units units
      else if ch \<noteq> 0x25 \<or> units = [] then ch # unescape_units units
      else
        let (after, digits) = (if hd units = 0x55 then (tl units, 4) else (units, 2)) in
        if length after < digits then 0x25 # unescape_units units
        else case digits_value 0 (take digits after) of
               None \<Rightarrow> 0x25 # unescape_units units
             | Some number \<Rightarrow> number # unescape_units (drop digits after))"
  by pat_completeness auto
termination
  by (relation "measure length") (auto split: if_splits)

declare unescape_units.simps(2) [simp del]

definition ini_unescaped_key :: "bytes \<Rightarrow> string" where
  "ini_unescaped_key key = encode_utf8 (from_utf16_lossy (unescape_units (encode_utf16 (from_utf8_lossy key))))"

definition key_literal :: "nat \<Rightarrow> bool" where
  "key_literal unit \<longleftrightarrow> 0x30 \<le> unit \<and> unit \<le> 0x39 \<or> 0x41 \<le> unit \<and> unit \<le> 0x5A \<or> 0x61 \<le> unit \<and> unit \<le> 0x7A
     \<or> unit \<in> set [0x2D, 0x2E, 0x5F]"

definition escaped_unit :: "nat \<Rightarrow> string" where
  "escaped_unit unit =
     (if unit = 0x2F then [CHR 0x5C]
      else if key_literal unit then [char_of unit]
      else if unit \<le> 0xFF then [CHR ''%'', hex_upper (unit div 16), hex_upper (unit mod 16)]
      else ''%U'' @ map (\<lambda>shift. hex_upper (unit div 2 ^ shift)) [12, 8, 4, 0])"

definition ini_escaped_key :: "string \<Rightarrow> string" where
  "ini_escaped_key key = concat (map escaped_unit (encode_utf16 key))"

definition section_prefix :: "bytes \<Rightarrow> string" where
  "section_prefix line =
     (let inner = trim_ascii (takeWhile (\<lambda>c. c \<noteq> CHR '']'') (drop 1 line)) in
      if eq_ignore_ascii_case inner ''general'' then []
      else if eq_ignore_ascii_case inner ''%general'' then from_utf8_lossy (drop 1 inner) @ ''/''
      else ini_unescaped_key inner @ ''/'')"

section \<open>Values\<close>

datatype IniValue = IniText string | IniVariant string | IniList "string list" | IniInvalid

definition ini_hex_digit :: "nat \<Rightarrow> char" where
  "ini_hex_digit nibble = ''0123456789abcdef'' ! (nibble mod 16)"

text \<open>\<open>format!("{:x}", n)\<close>.\<close>

fun hex_lower :: "nat \<Rightarrow> string" where
  "hex_lower n = (if n < 16 then [ini_hex_digit n] else hex_lower (n div 16) @ [ini_hex_digit n])"

declare hex_lower.simps [simp del]

definition scalar_hexdigit :: "scalar \<Rightarrow> bool" where
  "scalar_hexdigit c \<longleftrightarrow> 48 \<le> c \<and> c \<le> 57 \<or> 65 \<le> c \<and> c \<le> 70 \<or> 97 \<le> c \<and> c \<le> 102"

text \<open>The loop over the characters of a value: the text of one character, and whether a hex digit after it has to be escaped.\<close>

definition escape_char :: "bool \<Rightarrow> scalar \<Rightarrow> string \<times> bool" where
  "escape_char after_number ch =
     (if after_number \<and> scalar_hexdigit ch then (CHR 0x5C # ''x'' @ hex_lower ch, True)
      else if ch = 0 then (CHR 0x5C # ''0'', True)
      else if ch = 7 then (CHR 0x5C # ''a'', False)
      else if ch = 8 then (CHR 0x5C # ''b'', False)
      else if ch = 12 then (CHR 0x5C # ''f'', False)
      else if ch = 10 then (CHR 0x5C # ''n'', False)
      else if ch = 13 then (CHR 0x5C # ''r'', False)
      else if ch = 9 then (CHR 0x5C # ''t'', False)
      else if ch = 11 then (CHR 0x5C # ''v'', False)
      else if ch = 34 \<or> ch = 92 then ([CHR 0x5C, char_of ch], False)
      else if ch \<le> 31 then (CHR 0x5C # ''x'' @ hex_lower ch, True)
      else (encode_scalar ch, False))"

fun escape_chars :: "bool \<Rightarrow> scalar list \<Rightarrow> string" where
  "escape_chars after_number [] = []"
| "escape_chars after_number (ch # rest) =
     (case escape_char after_number ch of (out, after) \<Rightarrow> out @ escape_chars after rest)"

definition ini_escaped_string :: "string \<Rightarrow> string" where
  "ini_escaped_string shown =
     (let out = escape_chars False (chars shown);
          needs_quotes = (\<exists>ch \<in> set (chars shown). ch \<in> set [59, 44, 61])
      in if needs_quotes \<or> starts_with '' '' out \<or> ends_with '' '' out then CHR 0x22 # out @ [CHR 0x22] else out)"

definition ini_escaped_string_list :: "string list \<Rightarrow> string" where
  "ini_escaped_string_list items = (if items = [] then ''@Invalid()'' else join_with '', '' (map ini_escaped_string items))"

definition chop :: "nat \<Rightarrow> bytes \<Rightarrow> bytes" where
  "chop limit buf = take limit buf @ rev (dropWhile (\<lambda>c. c = CHR '' '' \<or> c = CHR 0x09) (rev (drop limit buf)))"

definition push_code_point :: "nat \<Rightarrow> bytes \<Rightarrow> bytes" where
  "push_code_point n buf = buf @ encode_scalar (if is_scalar n then n else 0xFFFD)"

definition escape_code :: "char \<Rightarrow> nat option" where
  "escape_code ch =
     map_of (zip [CHR ''a'', CHR ''b'', CHR ''f'', CHR ''n'', CHR ''r'', CHR ''t'', CHR ''v'', CHR 0x22, CHR ''?'', CHR 0x27, CHR 0x5C]
       [0x07, 0x08, 0x0C, 0x0A, 0x0D, 0x09, 0x0B, 0x22, 0x3F, 0x27, 0x5C]) ch"

text \<open>The steps of the value reader. The number of an escape, which only the escape steps use, is an argument of theirs.\<close>

datatype Step = SkipSpaces | NormalStep | HexEscape nat | OctEscape nat | EndStep

record ValueState =
  vs_buf :: bytes
  vs_items :: "string list"
  vs_is_list :: bool
  vs_in_quotes :: bool
  vs_current_quoted :: bool

definition new_value_state :: ValueState where
  "new_value_state = \<lparr>vs_buf = [], vs_items = [], vs_is_list = False, vs_in_quotes = False, vs_current_quoted = False\<rparr>"

text \<open>What a comma and the end of the value do to an item that is not quoted.\<close>

definition chop_plain :: "nat \<Rightarrow> ValueState \<Rightarrow> ValueState" where
  "chop_plain limit st = (if vs_current_quoted st then st else st\<lparr>vs_buf := chop limit (vs_buf st)\<rparr>)"

definition finish_item :: "nat \<Rightarrow> ValueState \<Rightarrow> ValueState" where
  "finish_item limit st =
     (let st = chop_plain limit st in
      st\<lparr>vs_is_list := True, vs_items := (if vs_is_list st then vs_items st else []) @ [from_utf8_lossy (vs_buf st)],
         vs_buf := [], vs_current_quoted := False\<rparr>)"

definition plain_byte :: "char \<Rightarrow> bool" where
  "plain_byte c \<longleftrightarrow> c \<notin> set [CHR 0x5C, CHR 0x22, CHR '','']"

lemma length_dropWhile_Suc: "length (dropWhile P xs) < Suc (length xs)"
  by (simp add: le_imp_less_Suc length_dropWhile_le)

text \<open>The loop of the normal step: the next step, the state, and the bytes left.\<close>

function normal_loop :: "nat \<Rightarrow> ValueState \<Rightarrow> bytes \<Rightarrow> Step \<times> ValueState \<times> bytes" where
  "normal_loop limit st [] = (EndStep, chop_plain limit st, [])"
| "normal_loop limit st (c # rest) =
     (if c = CHR 0x5C then
        (case rest of
           [] \<Rightarrow> (EndStep, st, [])
         | escaped # rest \<Rightarrow>
             (case escape_code escaped of
                Some decoded \<Rightarrow> (NormalStep, st\<lparr>vs_buf := push_code_point decoded (vs_buf st)\<rparr>, rest)
              | None \<Rightarrow>
                  if escaped = CHR ''x'' then
                    if rest = [] then (EndStep, st, [])
                    else if hex_digit_value (hd rest) \<noteq> None then (HexEscape 0, st, rest)
                    else normal_loop (length (vs_buf st)) st rest
                  else (case oct_value escaped of
                          Some octal \<Rightarrow> (OctEscape octal, st, rest)
                        | None \<Rightarrow>
                            if is_line_end escaped \<and> rest \<noteq> [] \<and> is_line_end (hd rest) \<and> hd rest \<noteq> escaped
                            then normal_loop (length (vs_buf st)) st (tl rest)
                            else normal_loop (length (vs_buf st)) st rest)))
      else if c = CHR 0x22 then
        let st = st\<lparr>vs_current_quoted := True, vs_in_quotes := \<not> vs_in_quotes st\<rparr> in
        if \<not> vs_in_quotes st then (SkipSpaces, st, rest) else normal_loop limit st rest
      else if c = CHR '','' \<and> \<not> vs_in_quotes st then (SkipSpaces, finish_item limit st, rest)
      else normal_loop limit (st\<lparr>vs_buf := vs_buf st @ c # takeWhile plain_byte rest\<rparr>) (dropWhile plain_byte rest))"
  by pat_completeness auto
termination
  by (relation "measure (\<lambda>(_, _, rest). length rest)") (auto simp: length_dropWhile_Suc)

declare normal_loop.simps(2) [simp del]

lemma normal_loop_length:
  "normal_loop limit st rest = (next_step, st', rest') \<Longrightarrow> length rest' \<le> length rest \<and> (next_step = EndStep \<or> length rest' < length rest)"
proof (induction limit st rest rule: normal_loop.induct)
  case (2 limit st c rest)
  from "2.prems" show ?case
    by (subst (asm) normal_loop.simps(2))
      (use "2.IH" length_dropWhile_le [of plain_byte rest] in
        \<open>fastforce split: if_splits list.splits option.splits simp: Let_def le_imp_less_Suc\<close>)
qed simp

text \<open>The number an escape ends with: digits up to the first other byte, in 32 bits.\<close>

definition escape_number :: "nat \<Rightarrow> (char \<Rightarrow> nat option) \<Rightarrow> nat \<Rightarrow> bytes \<Rightarrow> nat" where
  "escape_number base digit_of number digits = foldl (\<lambda>n c. (n * base + the (digit_of c)) mod 2 ^ 32) number digits"

definition resume_step :: "bytes \<Rightarrow> Step" where
  "resume_step rest = (if rest = [] then EndStep else NormalStep)"

lemma length_dropWhile_eq: "length (dropWhile P xs) < length xs \<or> length (dropWhile P xs) = length xs"
  using length_dropWhile_le [of P xs] by linarith

text \<open>A step either reads a byte or hands over to a step that will, or that ends.\<close>

fun step_rank :: "Step \<Rightarrow> nat" where
  "step_rank EndStep = 0"
| "step_rank NormalStep = 1"
| "step_rank _ = 2"

function run_steps :: "Step \<Rightarrow> ValueState \<Rightarrow> bytes \<Rightarrow> ValueState" where
  "run_steps EndStep st rest = st"
| "run_steps SkipSpaces st rest = run_steps NormalStep st (dropWhile (\<lambda>c. c = CHR '' '' \<or> c = CHR 0x09) rest)"
| "run_steps NormalStep st rest =
     (case normal_loop (length (vs_buf st)) st rest of (next_step, st', rest') \<Rightarrow> run_steps next_step st' rest')"
| "run_steps (HexEscape number) st rest =
     (let digits = takeWhile (\<lambda>c. hex_digit_value c \<noteq> None) rest; rest' = dropWhile (\<lambda>c. hex_digit_value c \<noteq> None) rest
      in run_steps (resume_step rest') (st\<lparr>vs_buf := push_code_point (escape_number 16 hex_digit_value number digits) (vs_buf st)\<rparr>) rest')"
| "run_steps (OctEscape number) st rest =
     (let digits = takeWhile (\<lambda>c. oct_value c \<noteq> None) rest; rest' = dropWhile (\<lambda>c. oct_value c \<noteq> None) rest
      in run_steps (resume_step rest') (st\<lparr>vs_buf := push_code_point (escape_number 8 oct_value number digits) (vs_buf st)\<rparr>) rest')"
  by pat_completeness auto

termination
  by (relation "measures [\<lambda>(_, _, rest). length rest, \<lambda>(next_step, _, _). step_rank next_step]")
    (auto simp: resume_step_def length_dropWhile_eq split: prod.splits dest!: normal_loop_length)

declare run_steps.simps [simp del]

definition classify_text :: "string \<Rightarrow> IniValue" where
  "classify_text shown =
     (if shown = ''@Invalid()'' then IniInvalid
      else case strip_prefix ''@@'' shown of
             Some rest \<Rightarrow> IniText (CHR ''@'' # rest)
           | None \<Rightarrow> if starts_with ''@'' shown then IniVariant shown else IniText shown)"

definition ini_unescaped_string_list :: "bytes \<Rightarrow> IniValue" where
  "ini_unescaped_string_list value =
     (let st = run_steps SkipSpaces new_value_state value; shown = from_utf8_lossy (vs_buf st) in
      if vs_is_list st then IniList (vs_items st @ [shown]) else classify_text shown)"

section \<open>Files\<close>

type_synonym IniMap = "(string, IniValue) btree_map"

text \<open>A line with its separator, if any; a separator is always inside its line.\<close>

definition settings_line :: "string \<times> IniMap \<Rightarrow> bytes \<times> nat option \<Rightarrow> string \<times> IniMap" where
  "settings_line acc line =
     (case (acc, line) of ((group_path, values), (shown, separator)) \<Rightarrow>
        if hd shown = CHR ''['' then (section_prefix shown, values)
        else (case separator of
               None \<Rightarrow> (group_path, values)
             | Some at \<Rightarrow>
                 if length shown \<le> at then (group_path, values)
                 else (group_path, bt_insert (group_path @ ini_unescaped_key (trim_ascii (take at shown)))
                                (ini_unescaped_string_list (drop (at + 1) shown)) values)))"

definition parse_settings_ini :: "bytes \<Rightarrow> IniMap" where
  "parse_settings_ini data = snd (foldl settings_line ([], []) (ini_lines (strip_bom data)))"

definition sts_line :: "string \<times> IniMap \<times> bool \<Rightarrow> bytes \<times> nat option \<Rightarrow> string \<times> IniMap \<times> bool" where
  "sts_line acc line =
     (case (acc, line) of ((group_path, values, after_bad), (shown, separator)) \<Rightarrow>
        if hd shown = CHR ''['' then (section_prefix shown, values, False)
        else (case separator of
               None \<Rightarrow> (group_path, values, after_bad \<or> hd shown \<noteq> CHR '';'')
             | Some at \<Rightarrow>
                 if length shown \<le> at then (group_path, values, after_bad)
                 else let path = group_path @ ini_unescaped_key (trim_ascii (take at shown)) in
                   if after_bad \<and> bt_contains values path then (group_path, values, after_bad)
                   else (group_path, bt_insert path (ini_unescaped_string_list (drop (at + 1) shown)) values, after_bad)))"

definition parse_sts_ini :: "bytes \<Rightarrow> IniMap" where
  "parse_sts_ini data = fst (snd (foldl sts_line ([], [], False) (ini_lines (strip_bom data))))"

text \<open>The closing bracket has to be in the line.\<close>

definition line_malformed :: "bytes \<times> nat option \<Rightarrow> bool" where
  "line_malformed line =
     (case line of (shown, separator) \<Rightarrow>
        if hd shown = CHR ''['' then CHR '']'' \<notin> set shown else separator = None \<and> hd shown \<noteq> CHR '';'')"

definition ini_bytes_are_malformed :: "bytes \<Rightarrow> bool" where
  "ini_bytes_are_malformed data \<longleftrightarrow> list_ex line_malformed (ini_lines (strip_bom data))"

section \<open>Keys come back\<close>

lemma hex_upper_digit: "unit_digit (code (hex_upper n)) = Some (n mod 16)"
proof -
  have "list_all (\<lambda>k. unit_digit (code (''0123456789ABCDEF'' ! k)) = Some k) [0..<16]" by code_simp
  moreover have "n mod 16 \<in> set [0..<16]" by simp
  ultimately show ?thesis unfolding hex_upper_def list_all_iff by blast
qed

text \<open>The bytes of an escaped key.\<close>

definition key_byte :: "char \<Rightarrow> bool" where
  "key_byte c \<longleftrightarrow> c = CHR 0x5C \<or> c = CHR ''%'' \<or> key_literal (code c)"

lemma hex_upper_byte: "key_byte (hex_upper n)" "code (hex_upper n) \<noteq> 0x55" "hex_upper n \<noteq> CHR 0x5C"
    "ascii_lower (hex_upper n) \<noteq> CHR ''g''"
proof -
  have all: "list_all (\<lambda>k. key_byte (''0123456789ABCDEF'' ! k) \<and> code (''0123456789ABCDEF'' ! k) \<noteq> 0x55
      \<and> ''0123456789ABCDEF'' ! k \<noteq> CHR 0x5C \<and> ascii_lower (''0123456789ABCDEF'' ! k) \<noteq> CHR ''g'') [0..<16]" by code_simp
  have "n mod 16 \<in> set [0..<16]" by simp
  then show "key_byte (hex_upper n)" "code (hex_upper n) \<noteq> 0x55" "hex_upper n \<noteq> CHR 0x5C" "ascii_lower (hex_upper n) \<noteq> CHR ''g''"
    using all unfolding hex_upper_def list_all_iff by blast+
qed

lemma escaped_unit_bytes: "unit < 0x10000 \<Longrightarrow> c \<in> set (escaped_unit unit) \<Longrightarrow> key_byte c"
  by (auto simp: escaped_unit_def hex_upper_byte split: if_splits) (auto simp: key_byte_def key_literal_def)

lemma utf16_small: "is_scalar c \<Longrightarrow> unit \<in> set (utf16_units c) \<Longrightarrow> unit < 0x10000"
  by (auto simp: utf16_units_def is_scalar_def split: if_splits)

lemma encode_utf16_small: "unit \<in> set (encode_utf16 s) \<Longrightarrow> unit < 0x10000"
  by (auto simp: encode_utf16_def dest: chars_scalars utf16_small)

lemma escaped_key_bytes: "c \<in> set (ini_escaped_key key) \<Longrightarrow> key_byte c"
  by (auto simp: ini_escaped_key_def dest: encode_utf16_small escaped_unit_bytes)

lemma hex_parts: "unit < 0x100 \<Longrightarrow> (unit div 16) mod 16 * 16 + unit mod 16 mod 16 = (unit :: nat)"
  by simp

lemma hex_parts4:
  assumes "unit < 0x10000"
  shows "((unit div 4096 mod 16 * 16 + unit div 256 mod 16) * 16 + unit div 16 mod 16) * 16 + unit mod 16 = (unit :: nat)"
proof -
  have "unit div 4096 mod 16 = unit div 4096" using assms by simp
  moreover have "unit div 4096 = unit div 256 div 16" "unit div 256 = unit div 16 div 16" by (simp_all add: div_mult2_eq [symmetric])
  ultimately show ?thesis by (metis div_mult_mod_eq)
qed

lemma unescape_escaped: 
  assumes "unit < 0x10000"
  shows "unescape_units (map code (escaped_unit unit) @ rest) = unit # unescape_units rest"
proof -
  consider "unit = 0x2F" | "key_literal unit" "unit \<noteq> 0x2F" | "\<not> key_literal unit" "unit \<noteq> 0x2F" "unit \<le> 0xFF"
    | "\<not> key_literal unit" "unit \<noteq> 0x2F" "0xFF < unit" by linarith
  then show ?thesis
  proof cases
    case 1
    then show ?thesis by (simp add: escaped_unit_def unescape_units.simps(2))
  next
    case 2
    then have "unit < 128" "unit \<noteq> 0x25" "unit \<noteq> 0x5C" by (auto simp: key_literal_def)
    then show ?thesis using 2 by (simp add: escaped_unit_def unescape_units.simps(2))
  next
    case 3
    then show ?thesis
      using hex_parts [of unit] hex_upper_byte(2) [of "unit div 16"]
      by (simp add: escaped_unit_def unescape_units.simps(2) hex_upper_digit numeral_2_eq_2)
  next
    case 4
    have e: "map code (escaped_unit unit) @ rest =
        0x25 # 0x55 # code (hex_upper (unit div 4096)) # code (hex_upper (unit div 256)) # code (hex_upper (unit div 16)) # code (hex_upper unit) # rest"
      using 4 by (simp add: escaped_unit_def)
    have "take 4 (a # b # c # d # rest) = [a, b, c, d]" "drop 4 (a # b # c # d # rest) = rest" for a b c d :: nat
      by (simp_all add: eval_nat_numeral)
    then show ?thesis
      unfolding e using hex_parts4 [OF assms] assms by (simp add: unescape_units.simps(2) hex_upper_digit)
  qed
qed

lemma unescape_escaped_units:
  "(\<forall>unit \<in> set units. unit < 0x10000) \<Longrightarrow> unescape_units (map code (concat (map escaped_unit units))) = units"
  by (induction units) (simp_all add: unescape_escaped)

lemma key_byte_ascii: "key_byte c \<Longrightarrow> code c < 128"
  by (auto simp: key_byte_def key_literal_def)

lemma utf16_ascii: "(\<forall>c \<in> set s. code c < 128) \<Longrightarrow> encode_utf16 s = map code s"
  by (simp add: encode_utf16_def chars_ascii) (induction s; simp add: utf16_units_def)

lemma from_utf16_encode: "utf8_valid s \<Longrightarrow> encode_utf8 (from_utf16_lossy (encode_utf16 s)) = s"
  using chars_scalars by (auto simp: encode_utf16_def from_utf16_lossy_encode encode_chars)

lemma ascii_lossy: "(\<forall>c \<in> set s. code c < 128) \<Longrightarrow> from_utf8_lossy s = s"
  by (simp add: from_utf8_lossy_valid utf8_valid_ascii)

text \<open>Every key is read back as it was written.\<close>

lemma key_roundtrip:
  assumes "utf8_valid key"
  shows "ini_unescaped_key (ini_escaped_key key) = key"
proof -
  have "\<forall>c \<in> set (ini_escaped_key key). code c < 128" using escaped_key_bytes key_byte_ascii by blast
  then show ?thesis
    using unescape_escaped_units [of "encode_utf16 key"] encode_utf16_small from_utf16_encode [OF assms]
    by (simp add: ini_unescaped_key_def ascii_lossy utf16_ascii ini_escaped_key_def)
qed

end
