(* ===== verification/SettingsValues.thy ===== *)
theory SettingsValues
  imports SettingsFile
begin

text \<open>
  The values of the settings file: what \<open>encode_value\<close> writes, the reader of \<open>SettingsIni\<close> reads back, whatever characters, quotes, commas,
  blanks and escapes it holds. The law of one character in front of any rest is lifted to texts, items and lists.
\<close>

section \<open>Values come back\<close>

text \<open>The normal step from inside its loop.\<close>

definition resume :: "nat \<Rightarrow> ValueState \<Rightarrow> bytes \<Rightarrow> ValueState" where
  "resume limit st rest = (case normal_loop limit st rest of (next_step, st', rest') \<Rightarrow> run_steps next_step st' rest')"

lemma run_normal: "run_steps NormalStep st rest = resume (length (vs_buf st)) st rest"
  by (simp add: resume_def run_steps.simps)

lemma chop_all [simp]: "length buf \<le> limit \<Longrightarrow> chop limit buf = buf"
  by (simp add: chop_def)

lemma chop_tight: "buf \<noteq> [] \<Longrightarrow> last buf \<noteq> CHR '' '' \<Longrightarrow> last buf \<noteq> CHR 0x09 \<Longrightarrow> chop limit buf = buf"
proof (cases "length buf \<le> limit")
  case False
  assume b: "buf \<noteq> []" "last buf \<noteq> CHR '' ''" "last buf \<noteq> CHR 0x09"
  obtain ys where d: "drop limit buf = ys @ [last buf]"
    using False last_drop [of limit buf] by (cases "drop limit buf" rule: rev_cases) auto
  then have "chop limit buf = take limit buf @ drop limit buf" using b(2,3) by (simp add: chop_def)
  then show ?thesis by simp
qed simp

text \<open>A byte without a meaning of its own is read alone as it is in a run of such bytes.\<close>

lemma plain_chunk:
  assumes "c \<noteq> CHR 0x5C" "c \<noteq> CHR 0x22" "c = CHR '','' \<longrightarrow> vs_in_quotes st"
  shows "normal_loop limit st (c # rest) = normal_loop limit (st\<lparr>vs_buf := vs_buf st @ c # takeWhile plain_byte rest\<rparr>) (dropWhile plain_byte rest)"
  using assms by (subst normal_loop.simps(2)) auto

lemma plain_step:
  assumes "c \<noteq> CHR 0x5C" "c \<noteq> CHR 0x22" "c = CHR '','' \<longrightarrow> vs_in_quotes st"
  shows "normal_loop limit st (c # rest) = normal_loop limit (st\<lparr>vs_buf := vs_buf st @ [c]\<rparr>) rest"
proof (cases "rest \<noteq> [] \<and> plain_byte (hd rest)")
  case True
  then obtain d rest' where "rest = d # rest'" "plain_byte d" by (cases rest) auto
  then show ?thesis
    using plain_chunk [OF assms] plain_chunk [of d "st\<lparr>vs_buf := vs_buf st @ [c]\<rparr>" limit rest'] by (auto simp: plain_byte_def)
next
  case False
  then have "takeWhile plain_byte rest = []" "dropWhile plain_byte rest = rest" by (cases rest; simp)+
  then show ?thesis using plain_chunk [OF assms] by simp
qed

lemma plain_run:
  assumes "\<forall>c \<in> set run. c \<noteq> CHR 0x5C \<and> c \<noteq> CHR 0x22 \<and> (c = CHR '','' \<longrightarrow> vs_in_quotes st)"
  shows "resume limit st (run @ rest) = resume limit (st\<lparr>vs_buf := vs_buf st @ run\<rparr>) rest"
  using assms by (induction run arbitrary: st) (simp_all add: resume_def plain_step)

lemma escape_step:
  assumes "escape_code e = Some n" "is_scalar n"
  shows "resume limit st (CHR 0x5C # e # rest) = resume (length (vs_buf st @ encode_scalar n)) (st\<lparr>vs_buf := vs_buf st @ encode_scalar n\<rparr>) rest"
  using assms by (simp add: resume_def [of limit] normal_loop.simps(2) run_normal push_code_point_def)

text \<open>A number is read up to a byte that is not one of its digits.\<close>

lemma resume_end: "resume (length (vs_buf st)) st [] = st"
  by (simp add: resume_def run_steps.simps chop_plain_def)

lemma run_resumed: "run_steps (resume_step rest) st rest = resume (length (vs_buf st)) st rest"
  by (simp add: resume_step_def run_normal resume_end run_steps.simps)

lemma takeWhile_tail: "(\<forall>c \<in> set digits. P c) \<Longrightarrow> rest = [] \<or> \<not> P (hd rest) \<Longrightarrow>
    takeWhile P (digits @ rest) = digits \<and> dropWhile P (digits @ rest) = rest"
  by (cases rest) auto

definition hex_number :: "string \<Rightarrow> nat \<Rightarrow> bool" where
  "hex_number digits n \<longleftrightarrow> digits \<noteq> [] \<and> list_all (\<lambda>c. hex_digit_value c \<noteq> None) digits \<and> escape_number 16 hex_digit_value 0 digits = n"

lemma hex_lower_digit: "hex_digit_value (ini_hex_digit n) = Some (n mod 16)"
proof -
  have "list_all (\<lambda>k. hex_digit_value (''0123456789abcdef'' ! k) = Some k) [0..<16]" by code_simp
  moreover have "n mod 16 \<in> set [0..<16]" by simp
  ultimately show ?thesis unfolding ini_hex_digit_def list_all_iff by blast
qed

lemma hex_lower_number:
  assumes "n < 128"
  shows "hex_number (hex_lower n) n"
proof (cases "n < 16")
  case True
  then show ?thesis by (simp add: hex_lower.simps [of n] hex_number_def escape_number_def hex_lower_digit)
next
  case False
  moreover have "n div 16 < 16" using assms by simp
  ultimately have "hex_lower n = [ini_hex_digit (n div 16), ini_hex_digit n]"
    by (simp add: hex_lower.simps [of n] hex_lower.simps [of "n div 16"])
  then show ?thesis using assms by (simp add: hex_number_def escape_number_def hex_lower_digit)
qed

lemma hex_step:
  assumes "hex_number digits n" "is_scalar n" "rest = [] \<or> hex_digit_value (hd rest) = None"
  shows "resume limit st (CHR 0x5C # CHR ''x'' # digits @ rest)
    = resume (length (vs_buf st @ encode_scalar n)) (st\<lparr>vs_buf := vs_buf st @ encode_scalar n\<rparr>) rest"
proof -
  have d: "digits \<noteq> []" "\<forall>c \<in> set digits. hex_digit_value c \<noteq> None" "escape_number 16 hex_digit_value 0 digits = n"
    using assms(1) by (auto simp: hex_number_def list_all_iff)
  have "escape_code (CHR ''x'') = None" by code_simp
  then have "normal_loop limit st (CHR 0x5C # CHR ''x'' # digits @ rest) = (HexEscape 0, st, digits @ rest)"
    using d(1,2) by (cases digits) (auto simp: normal_loop.simps(2))
  then show ?thesis
    using takeWhile_tail [of digits "\<lambda>c. hex_digit_value c \<noteq> None" rest] d(2,3) assms(2,3)
    by (simp add: resume_def [of limit] run_steps.simps(4) run_resumed push_code_point_def)
qed

lemma oct_step:
  assumes "rest = [] \<or> oct_value (hd rest) = None"
  shows "resume limit st (CHR 0x5C # CHR ''0'' # rest)
    = resume (length (vs_buf st @ encode_scalar 0)) (st\<lparr>vs_buf := vs_buf st @ encode_scalar 0\<rparr>) rest"
proof -
  have "escape_code (CHR ''0'') = None" "oct_value (CHR ''0'') = Some 0" by code_simp+
  then have "normal_loop limit st (CHR 0x5C # CHR ''0'' # rest) = (OctEscape 0, st, rest)"
    by (simp add: normal_loop.simps(2))
  then show ?thesis
    using takeWhile_tail [of "[]" "\<lambda>c. oct_value c \<noteq> None" rest] assms
    by (simp add: resume_def [of limit] run_steps.simps(5) run_resumed push_code_point_def escape_number_def is_scalar_def)
qed

text \<open>What \<open>escape_char\<close> writes, by cases.\<close>

lemma escape_char_cases:
  assumes "escape_char after_number ch = (out, after)" "is_scalar ch"
  obtains (hex) digits where "out = CHR 0x5C # CHR ''x'' # digits" "hex_number digits ch" "after"
  | (zero) "out = CHR 0x5C # ''0''" "ch = 0" "after"
  | (simple) e where "out = [CHR 0x5C, e]" "escape_code e = Some ch" "\<not> after" "\<not> is_line_end e"
  | (plain) "out = encode_scalar ch" "\<not> after" "32 \<le> ch" "ch \<noteq> 34" "ch \<noteq> 92" "after_number \<longrightarrow> \<not> scalar_hexdigit ch"
proof -
  have code: "escape_code (CHR ''a'') = Some 7" "escape_code (CHR ''b'') = Some 8" "escape_code (CHR ''f'') = Some 12"
    "escape_code (CHR ''n'') = Some 10" "escape_code (CHR ''r'') = Some 13" "escape_code (CHR ''t'') = Some 9"
    "escape_code (CHR ''v'') = Some 11" "escape_code (char_of (34 :: nat)) = Some 34" "escape_code (char_of (92 :: nat)) = Some 92"
    "\<not> is_line_end (char_of (34 :: nat))" "\<not> is_line_end (char_of (92 :: nat))" by code_simp+
  have num: "hex_number (hex_lower ch) ch" if "scalar_hexdigit ch \<or> ch \<le> 31"
    using that by (intro hex_lower_number) (auto simp: scalar_hexdigit_def)
  show thesis
    using assms(1) code num hex zero simple plain
    by (simp add: escape_char_def split: if_splits) (auto simp: is_line_end_def)
qed


lemma scalar_bytes:
  assumes "is_scalar ch" "32 \<le> ch" "b \<in> set (encode_scalar ch)"
  shows "code b = ch \<or> 128 \<le> code b"
  using encode_scalar_ascii [OF assms(3) _ assms(1)] by linarith

lemma encode_scalar_last: "is_scalar ch \<Longrightarrow> last (encode_scalar ch) \<in> set (encode_scalar ch)"
  by (simp add: encode_scalar_def)

lemma encode_scalar_nonempty: "encode_scalar ch \<noteq> []"
  by (simp add: encode_scalar_def)

text \<open>The text after a character that ends in a number does not go on with a digit.\<close>

definition number_ends :: "bytes \<Rightarrow> bool" where
  "number_ends rest \<longleftrightarrow> rest = [] \<or> hex_digit_value (hd rest) = None"

lemma number_ends_oct: "number_ends rest \<Longrightarrow> rest = [] \<or> oct_value (hd rest) = None"
  by (auto simp: number_ends_def hex_digit_value_def oct_value_def is_ascii_digit_def split: if_splits)

lemma escape_char_number_ends:
  assumes "escape_char True ch = (out, after)" "is_scalar ch"
  shows "number_ends (out @ rest)"
  using assms
proof (cases rule: escape_char_cases)
  case plain
  then have "\<not> scalar_hexdigit ch" "encode_scalar ch \<noteq> []" "hd (encode_scalar ch) \<in> set (encode_scalar ch)"
    by (simp_all add: encode_scalar_nonempty)
  moreover from scalar_bytes [OF assms(2) plain(3) this(3)] have "code (hd (encode_scalar ch)) = ch \<or> 128 \<le> code (hd (encode_scalar ch))" .
  ultimately have "hex_digit_value (hd (encode_scalar ch)) = None"
    by (auto simp: hex_digit_value_def scalar_hexdigit_def is_ascii_digit_def)
  then show ?thesis using plain(1) \<open>encode_scalar ch \<noteq> []\<close> by (simp add: number_ends_def)
qed (simp_all add: number_ends_def hex_digit_value_def is_ascii_digit_def)

text \<open>One character is read back, and so is a text in front of a tail that cannot go on a number.\<close>

lemma char_read:
  assumes "escape_char after_number ch = (out, after)" "is_scalar ch" "ch = 44 \<longrightarrow> vs_in_quotes st" "after \<longrightarrow> number_ends rest"
  obtains limit' where "resume limit st (out @ rest) = resume limit' (st\<lparr>vs_buf := vs_buf st @ encode_scalar ch\<rparr>) rest"
    "ch \<noteq> 32 \<longrightarrow> chop limit' (vs_buf st @ encode_scalar ch) = vs_buf st @ encode_scalar ch"
  using assms(1,2)
proof (cases rule: escape_char_cases)
  case (hex digits)
  then show thesis
    using hex_step [OF hex(2) assms(2), of rest limit st] assms(4) that [of "length (vs_buf st @ encode_scalar ch)"] by (simp add: number_ends_def)
next
  case zero
  then show thesis
    using oct_step [of rest limit st] number_ends_oct [of rest] assms(4) that [of "length (vs_buf st @ encode_scalar ch)"] by simp
next
  case (simple e)
  then show thesis
    using escape_step [OF simple(2) assms(2), of limit st rest] that [of "length (vs_buf st @ encode_scalar ch)"] by simp
next
  case plain
  have b: "code b = ch \<or> 128 \<le> code b" if "b \<in> set (encode_scalar ch)" for b
    using scalar_bytes [OF assms(2) plain(3) that] .
  then have "\<forall>c \<in> set (encode_scalar ch). c \<noteq> CHR 0x5C \<and> c \<noteq> CHR 0x22 \<and> (c = CHR '','' \<longrightarrow> vs_in_quotes st)"
    using plain(4,5) assms(3) by fastforce
  from plain_run [OF this, of limit rest] have "resume limit st (out @ rest) = resume limit (st\<lparr>vs_buf := vs_buf st @ encode_scalar ch\<rparr>) rest"
    using plain(1) by simp
  moreover have "chop limit (vs_buf st @ encode_scalar ch) = vs_buf st @ encode_scalar ch" if "ch \<noteq> 32"
    using b [OF encode_scalar_last [OF assms(2)]] that plain(3) encode_scalar_nonempty [of ch]
    by (intro chop_tight) auto
  ultimately show thesis using that by blast
qed

lemma text_read:
  assumes "\<forall>c \<in> set cs. is_scalar c" "44 \<in> set cs \<longrightarrow> vs_in_quotes st" "number_ends tail" "chop limit (vs_buf st) = vs_buf st"
  obtains limit' where "resume limit st (escape_chars after_number cs @ tail) = resume limit' (st\<lparr>vs_buf := vs_buf st @ encode_utf8 cs\<rparr>) tail"
    "(cs = [] \<or> last cs \<noteq> 32) \<longrightarrow> chop limit' (vs_buf st @ encode_utf8 cs) = vs_buf st @ encode_utf8 cs"
proof -
  have "\<exists>limit'. resume limit st (escape_chars after_number cs @ tail) = resume limit' (st\<lparr>vs_buf := vs_buf st @ encode_utf8 cs\<rparr>) tail
      \<and> (cs \<noteq> [] \<longrightarrow> last cs \<noteq> 32 \<longrightarrow> chop limit' (vs_buf st @ encode_utf8 cs) = vs_buf st @ encode_utf8 cs) \<and> (cs = [] \<longrightarrow> limit' = limit)"
    using assms(1,2)
  proof (induction cs arbitrary: st limit after_number)
    case Nil
    then show ?case by (auto simp: encode_utf8_def)
  next
    case (Cons ch cs)
    obtain out after where e: "escape_char after_number ch = (out, after)" by fastforce
    have "number_ends (escape_chars after cs @ tail)" if after
    proof (cases cs)
      case (Cons d ds)
      then show ?thesis
        using escape_char_number_ends [of d] Cons.prems(1) \<open>cs = d # ds\<close> that by (simp split: prod.splits)
    qed (use assms(3) in simp)
    then obtain l where l: "resume limit st (out @ escape_chars after cs @ tail)
        = resume l (st\<lparr>vs_buf := vs_buf st @ encode_scalar ch\<rparr>) (escape_chars after cs @ tail)"
      "ch \<noteq> 32 \<longrightarrow> chop l (vs_buf st @ encode_scalar ch) = vs_buf st @ encode_scalar ch"
      using char_read [OF e, of st "escape_chars after cs @ tail" limit] Cons.prems by auto
    from Cons.IH [of "st\<lparr>vs_buf := vs_buf st @ encode_scalar ch\<rparr>" l after] Cons.prems
    show ?case using l by (cases "cs = []") (auto simp: e encode_utf8_def)
  qed
  then obtain l where l: "resume limit st (escape_chars after_number cs @ tail) = resume l (st\<lparr>vs_buf := vs_buf st @ encode_utf8 cs\<rparr>) tail"
    "cs \<noteq> [] \<longrightarrow> last cs \<noteq> 32 \<longrightarrow> chop l (vs_buf st @ encode_utf8 cs) = vs_buf st @ encode_utf8 cs" "cs = [] \<longrightarrow> l = limit"
    by blast
  show thesis
    by (rule that [OF l(1)]) (use l(2,3) assms(4) in \<open>auto simp: encode_utf8_def\<close>)
qed


section \<open>Items and lists come back\<close>

definition value_blank :: "char \<Rightarrow> bool" where
  "value_blank c \<longleftrightarrow> c = CHR '' '' \<or> c = CHR 0x09"

lemma run_skip: "rest = [] \<or> \<not> value_blank (hd rest) \<Longrightarrow> run_steps SkipSpaces st rest = resume (length (vs_buf st)) st rest"
  by (cases rest) (auto simp: run_steps.simps(2) run_normal value_blank_def)

lemma run_skip_space: "run_steps SkipSpaces st (CHR '' '' # rest) = run_steps SkipSpaces st rest"
  by (simp add: run_steps.simps(2))

lemma escape_char_ends:
  assumes "escape_char after_number ch = (out, after)" "is_scalar ch"
  shows "out \<noteq> []" "\<not> value_blank (hd out) \<or> ch = 32" "last out = CHR '' '' \<longleftrightarrow> ch = 32"
proof -
  have code: "code (CHR '' '') = 32" "escape_code (CHR '' '') = None" "hex_digit_value (CHR '' '') = None" by code_simp+
  have "out \<noteq> [] \<and> (\<not> value_blank (hd out) \<or> ch = 32) \<and> (last out = CHR '' '' \<longleftrightarrow> ch = 32)"
    using assms
  proof (cases rule: escape_char_cases)
    case (hex digits)
    then have "\<forall>c \<in> set digits. hex_digit_value c \<noteq> None" "digits \<noteq> []"
      by (auto simp: hex_number_def list_all_iff)
    then have "hex_digit_value (last digits) \<noteq> None" "digits \<noteq> []" by auto
    moreover have "ch \<noteq> 32"
      using assms(1) hex(1,3) by (auto simp: escape_char_def scalar_hexdigit_def split: if_splits)
    ultimately show ?thesis using hex(1) code(3) by (cases "last digits = CHR '' ''") (simp_all add: value_blank_def)
  next
    case (simple e)
    moreover have "ch \<noteq> 32"
      using assms(1) simple(1) by (auto simp: escape_char_def scalar_hexdigit_def encode_scalar_def split: if_splits)
    ultimately show ?thesis using code(2) by (auto simp: value_blank_def)
  next
    case plain
    have "hd (encode_scalar ch) \<in> set (encode_scalar ch)" by (simp add: encode_scalar_nonempty)
    from scalar_bytes [OF assms(2) plain(3) this] scalar_bytes [OF assms(2) plain(3) encode_scalar_last [OF assms(2)]]
    have "code (hd (encode_scalar ch)) = ch \<or> 128 \<le> code (hd (encode_scalar ch))"
      "code (last (encode_scalar ch)) = ch \<or> 128 \<le> code (last (encode_scalar ch))" by blast+
    moreover have "encode_scalar 32 = [CHR '' '']" by code_simp
    ultimately show ?thesis
      using plain(1,3) by (auto simp: value_blank_def encode_scalar_nonempty)
  qed (simp_all add: value_blank_def)
  then show "out \<noteq> []" "\<not> value_blank (hd out) \<or> ch = 32" "last out = CHR '' '' \<longleftrightarrow> ch = 32" by blast+
qed

lemma escape_chars_ends:
  assumes "\<forall>c \<in> set cs. is_scalar c" "cs \<noteq> []"
  shows "escape_chars after_number cs \<noteq> []" "\<not> value_blank (hd (escape_chars after_number cs)) \<or> hd cs = 32"
    "last (escape_chars after_number cs) = CHR '' '' \<longleftrightarrow> last cs = 32"
proof -
  have "escape_chars after_number cs \<noteq> [] \<and> (\<not> value_blank (hd (escape_chars after_number cs)) \<or> hd cs = 32)
      \<and> (last (escape_chars after_number cs) = CHR '' '' \<longleftrightarrow> last cs = 32)"
    using assms
  proof (induction cs arbitrary: after_number)
    case (Cons ch cs)
    obtain out after where e: "escape_char after_number ch = (out, after)" by fastforce
    show ?case
      using escape_char_ends [OF e] Cons.prems(1) Cons.IH [of after] by (cases "cs = []") (auto simp: e)
  qed simp
  then show "escape_chars after_number cs \<noteq> []" "\<not> value_blank (hd (escape_chars after_number cs)) \<or> hd cs = 32"
    "last (escape_chars after_number cs) = CHR '' '' \<longleftrightarrow> last cs = 32" by blast+
qed

text \<open>An item in front of the end or a comma is in the buffer, and no blank of it is cut off.\<close>

lemma escape_first_space: "escape_chars False (32 # cs) = CHR '' '' # escape_chars False cs"
  by (simp add: escape_char_def scalar_hexdigit_def encode_scalar_def) code_simp

lemma item_read:
  assumes "utf8_valid item" "vs_buf st = []" "\<not> vs_in_quotes st" "\<not> vs_current_quoted st" "tail = [] \<or> hd tail = CHR '',''"
  obtains limit quoted where
    "run_steps SkipSpaces st (ini_escaped_string item @ tail) = resume limit (st\<lparr>vs_buf := item, vs_current_quoted := quoted\<rparr>) tail"
    "quoted \<or> chop limit item = item"
proof -
  let ?cs = "chars item" and ?out = "escape_chars False (chars item)"
  have scalars: "\<forall>c \<in> set ?cs. is_scalar c" using chars_scalars by blast
  have item: "encode_utf8 ?cs = item" by (rule encode_chars [OF assms(1)])
  have tail: "number_ends tail" "number_ends (CHR 0x22 # rest)" for rest
    using assms(5) by (auto simp: number_ends_def hex_digit_value_def is_ascii_digit_def)
  show thesis
  proof (cases "(\<exists>ch \<in> set ?cs. ch \<in> set [59, 44, 61]) \<or> starts_with '' '' ?out \<or> ends_with '' '' ?out")
    case True
    then have esc: "ini_escaped_string item @ tail = CHR 0x22 # ?out @ CHR 0x22 # tail"
      by (simp add: ini_escaped_string_def)
    let ?q = "st\<lparr>vs_current_quoted := True, vs_in_quotes := True\<rparr>"
    have "run_steps SkipSpaces st (CHR 0x22 # ?out @ CHR 0x22 # tail) = resume 0 st (CHR 0x22 # ?out @ CHR 0x22 # tail)"
      using run_skip [of "CHR 0x22 # ?out @ CHR 0x22 # tail" st] assms(2) by (simp add: value_blank_def)
    also have "\<dots> = resume 0 ?q (?out @ CHR 0x22 # tail)"
      using assms(3) by (simp add: resume_def normal_loop.simps(2) [of 0 st])
    finally have opened: "run_steps SkipSpaces st (CHR 0x22 # ?out @ CHR 0x22 # tail) = resume 0 ?q (?out @ CHR 0x22 # tail)" .
    have closed: "st\<lparr>vs_buf := item, vs_current_quoted := True, vs_in_quotes := False\<rparr> = st\<lparr>vs_buf := item, vs_current_quoted := True\<rparr>"
      using assms(3) by (cases st) simp
    obtain l where l: "resume 0 ?q (?out @ CHR 0x22 # tail) = resume l (?q\<lparr>vs_buf := item\<rparr>) (CHR 0x22 # tail)"
      using text_read [OF scalars, of ?q "CHR 0x22 # tail" 0 False] tail(2) assms(2) item by auto
    also have "\<dots> = run_steps SkipSpaces (st\<lparr>vs_buf := item, vs_current_quoted := True\<rparr>) tail"
      using assms(3) by (simp add: resume_def normal_loop.simps(2) [of l], simp only: closed)
    also have "\<dots> = resume (length item) (st\<lparr>vs_buf := item, vs_current_quoted := True\<rparr>) tail"
      using run_skip [of tail "st\<lparr>vs_buf := item, vs_current_quoted := True\<rparr>"] assms(5) by (auto simp: value_blank_def)
    finally show thesis using that [of "length item" True] opened esc by simp
  next
    case False
    then have esc: "ini_escaped_string item = ?out" by (auto simp: ini_escaped_string_def)
    have first: "?out @ tail = [] \<or> \<not> value_blank (hd (?out @ tail))"
    proof (cases "?cs = []")
      case True
      then show ?thesis using assms(5) by (auto simp: value_blank_def)
    next
      case nonempty: False
      then have "hd ?cs \<noteq> 32"
        using False escape_first_space by (cases ?cs) (auto simp: starts_with_def)
      then show ?thesis using escape_chars_ends(1,2) [OF scalars nonempty, of False] by simp
    qed
    have last: "?cs = [] \<or> last ?cs \<noteq> 32"
    proof (cases "?cs = []")
      case nonempty: False
      have "last ?out \<noteq> CHR '' ''"
        using False escape_chars_ends(1) [OF scalars nonempty, of False]
        by (auto simp: ends_with_def starts_with_def hd_rev [symmetric] take_Suc)
      then show ?thesis using escape_chars_ends(3) [OF scalars nonempty, of False] by simp
    qed simp
    obtain l where "resume 0 st (?out @ tail) = resume l (st\<lparr>vs_buf := item\<rparr>) tail" "chop l item = item"
      using text_read [OF scalars, of st tail 0 False] tail(1) assms(2) item False last by auto
    moreover have "st\<lparr>vs_buf := item\<rparr> = st\<lparr>vs_buf := item, vs_current_quoted := False\<rparr>" using assms(4) by simp
    ultimately show thesis
      using that [of l False] run_skip [OF first, of st] assms(2) esc by simp
  qed
qed


lemma item_end:
  assumes "utf8_valid item" "vs_buf st = []" "\<not> vs_in_quotes st" "\<not> vs_current_quoted st"
  shows "vs_buf (run_steps SkipSpaces st (ini_escaped_string item)) = item"
    "vs_is_list (run_steps SkipSpaces st (ini_escaped_string item)) = vs_is_list st"
    "vs_items (run_steps SkipSpaces st (ini_escaped_string item)) = vs_items st"
proof -
  obtain limit quoted where "run_steps SkipSpaces st (ini_escaped_string item) = resume limit (st\<lparr>vs_buf := item, vs_current_quoted := quoted\<rparr>) []"
    "quoted \<or> chop limit item = item"
    using item_read [OF assms, of "[]"] by auto
  then have "run_steps SkipSpaces st (ini_escaped_string item) = st\<lparr>vs_buf := item, vs_current_quoted := quoted\<rparr>"
    by (auto simp: resume_def run_steps.simps(1) chop_plain_def)
  then show "vs_buf (run_steps SkipSpaces st (ini_escaped_string item)) = item"
    "vs_is_list (run_steps SkipSpaces st (ini_escaped_string item)) = vs_is_list st"
    "vs_items (run_steps SkipSpaces st (ini_escaped_string item)) = vs_items st" by simp_all
qed

definition item_done :: "string \<Rightarrow> ValueState \<Rightarrow> ValueState" where
  "item_done item st = st\<lparr>vs_is_list := True, vs_items := (if vs_is_list st then vs_items st else []) @ [item],
     vs_buf := [], vs_current_quoted := False\<rparr>"

lemma item_comma:
  assumes "utf8_valid item" "vs_buf st = []" "\<not> vs_in_quotes st" "\<not> vs_current_quoted st"
  shows "run_steps SkipSpaces st (ini_escaped_string item @ CHR '','' # rest) = run_steps SkipSpaces (item_done item st) rest"
proof -
  obtain limit quoted where r: "run_steps SkipSpaces st (ini_escaped_string item @ CHR '','' # rest)
      = resume limit (st\<lparr>vs_buf := item, vs_current_quoted := quoted\<rparr>) (CHR '','' # rest)"
    "quoted \<or> chop limit item = item"
    using item_read [OF assms, of "CHR '','' # rest"] by auto
  have "normal_loop limit (st\<lparr>vs_buf := item, vs_current_quoted := quoted\<rparr>) (CHR '','' # rest) = (SkipSpaces, item_done item st, rest)"
    using assms r(2) by (auto simp: normal_loop.simps(2) finish_item_def chop_plain_def item_done_def from_utf8_lossy_valid Let_def)
  then show ?thesis by (simp add: r(1) resume_def)
qed

lemma items_read:
  assumes "items \<noteq> []" "list_all utf8_valid items" "vs_buf st = []" "\<not> vs_in_quotes st" "\<not> vs_current_quoted st"
    "result = run_steps SkipSpaces st (join_with '', '' (map ini_escaped_string items))"
  shows "vs_buf result = last items \<and> vs_is_list result = (vs_is_list st \<or> length items \<noteq> 1)
    \<and> vs_items result = (if length items = 1 then vs_items st else (if vs_is_list st then vs_items st else []) @ butlast items)"
  using assms
proof (induction items arbitrary: st)
  case (Cons item items)
  show ?case
  proof (cases items)
    case Nil
    then show ?thesis using Cons.prems item_end [of item st] by simp
  next
    case (Cons next_item rest)
    have "result = run_steps SkipSpaces (item_done item st) (join_with '', '' (map ini_escaped_string items))"
      using Cons.prems(2-6) item_comma [of item st "CHR '' '' # join_with '', '' (map ini_escaped_string items)"] Cons
      by (simp add: run_skip_space)
    then show ?thesis
      using Cons.IH [of "item_done item st"] Cons.prems(2) Cons by (simp add: item_done_def Cons.prems(4))
  qed
qed simp

text \<open>What a stored value is after the file was written and read: a list of one item is a string, and an empty list is invalid.\<close>

fun read_back :: "IniValue \<Rightarrow> IniValue" where
  "read_back (IniList []) = IniInvalid"
| "read_back (IniList [item]) = classify_text item"
| "read_back (IniVariant encoded) = classify_text encoded"
| "read_back stored = stored"

fun value_valid :: "IniValue \<Rightarrow> bool" where
  "value_valid (IniList items) = list_all utf8_valid items"
| "value_valid (IniText shown) = utf8_valid shown"
| "value_valid (IniVariant shown) = utf8_valid shown"
| "value_valid IniInvalid = True"

lemma scalar_read_back: "utf8_valid shown \<Longrightarrow> ini_unescaped_string_list (ini_escaped_string shown) = classify_text shown"
  using item_end [of shown new_value_state] by (simp add: ini_unescaped_string_list_def new_value_state_def from_utf8_lossy_valid)

lemma classify_plain: "\<not> starts_with ''@'' shown \<Longrightarrow> classify_text shown = IniText shown"
  by (cases shown) (auto simp: classify_text_def starts_with_def strip_prefix_def)

lemma classify_escaped: "starts_with ''@'' shown \<Longrightarrow> classify_text (CHR ''@'' # shown) = IniText shown"
  by (cases shown) (auto simp: classify_text_def starts_with_def strip_prefix_def)

lemma invalid_text: "ini_escaped_string ''@Invalid()'' = ''@Invalid()''"
  by code_simp

lemma value_roundtrip:
  assumes "value_valid stored"
  shows "ini_unescaped_string_list (encode_value stored) = read_back stored"
proof (cases stored)
  case (IniText shown)
  then show ?thesis
    using assms scalar_read_back [of shown] scalar_read_back [of "CHR ''@'' # shown"] by (simp add: classify_plain classify_escaped)
next
  case (IniVariant encoded)
  then show ?thesis using assms scalar_read_back by simp
next
  case IniInvalid
  then show ?thesis
    using scalar_read_back [of "''@Invalid()''"] by (simp add: invalid_text classify_text_def utf8_valid_ascii)
next
  case (IniList items)
  consider "items = []" | item where "items = [item]" | a b rest where "items = a # b # rest" by (metis list.exhaust)
  then show ?thesis
  proof cases
    case 1
    then show ?thesis
      using IniList scalar_read_back [of "''@Invalid()''"] by (simp add: ini_escaped_string_list_def invalid_text classify_text_def utf8_valid_ascii)
  next
    case (2 item)
    then show ?thesis using IniList assms scalar_read_back [of item] by (simp add: ini_escaped_string_list_def)
  next
    case (3 a b rest)
    then show ?thesis
      using IniList assms items_read [OF _ _ _ _ _ refl, of "a # b # rest" new_value_state]
      by (simp add: ini_escaped_string_list_def ini_unescaped_string_list_def new_value_state_def from_utf8_lossy_valid Let_def list_all_iff)
  qed
qed

end
