(* ===== verification/SettingsRoundtrip.thy ===== *)
theory SettingsRoundtrip
  imports SettingsValues
begin

text \<open>
  The settings file from \<open>encode\<close> through the line scanner to \<open>parse_settings_ini\<close>: every line that is written is found again with its
  separator, every header gives its keys back their prefix, and so a synchronised store is there after a restart. The last section has the keys
  and lists for which this is not so.
\<close>

section \<open>Lines\<close>

lemma scan_plain:
  assumes "\<forall>c \<in> set run. \<not> ini_special c" "prior \<noteq> []"
  shows "ini_scan in_quotes separator prior (run @ rest) = ini_scan in_quotes separator (prior @ run) rest"
  using assms
proof (induction run arbitrary: prior)
  case (Cons c run)
  then show ?case using Cons.IH [of "prior @ [c]"] by (simp add: ini_scan.simps(2) [of _ _ prior c])
qed simp

lemma scan_escape:
  assumes "\<not> is_line_end e"
  shows "ini_scan in_quotes separator prior (CHR 0x5C # e # rest) = ini_scan in_quotes separator (prior @ [CHR 0x5C, e]) rest"
proof (cases rest)
  case Nil
  then show ?thesis by (simp add: ini_scan.simps(2) [of _ _ prior] ini_special_def is_line_end_def)
next
  case (Cons d ds)
  then show ?thesis using assms by (subst ini_scan.simps(2)) (simp add: ini_special_def is_line_end_def)
qed

text \<open>A byte of a value that does not end it: in quotes, or not a semicolon.\<close>

lemma scan_char:
  assumes "escape_char after_number ch = (out, after)" "is_scalar ch" "prior \<noteq> []" "ch = 59 \<longrightarrow> in_quotes"
  shows "ini_scan in_quotes (Some at) prior (out @ rest) = ini_scan in_quotes (Some at) (prior @ out) rest"
  using assms(1,2)
proof (cases rule: escape_char_cases)
  case (hex digits)
  have "\<forall>c \<in> set digits. \<not> ini_special c"
    using hex(2) by (auto simp: hex_number_def list_all_iff ini_special_def hex_digit_value_def is_ascii_digit_def split: if_splits)
  then show ?thesis
    using hex(1) scan_escape [of "CHR ''x''" in_quotes "Some at" prior "digits @ rest"] scan_plain [of digits "prior @ [CHR 0x5C, CHR ''x'']"]
    by (simp add: is_line_end_def)
next
  case zero
  then show ?thesis using scan_escape [of "CHR ''0''" in_quotes "Some at" prior rest] by (simp add: is_line_end_def)
next
  case (simple e)
  then show ?thesis using scan_escape [of e in_quotes "Some at" prior rest] by simp
next
  case plain
  consider "ch = 61" | "ch = 59" | "ch \<noteq> 61" "ch \<noteq> 59" by blast
  then show ?thesis
  proof cases
    case 1
    have "encode_scalar 61 = [CHR ''='']" by code_simp
    then show ?thesis using 1 plain(1) by (simp add: ini_scan.simps(2) [of _ _ prior] ini_special_def)
  next
    case 2
    have "encode_scalar 59 = [CHR '';'']" by code_simp
    then show ?thesis using 2 plain(1) assms(3,4) by (simp add: ini_scan.simps(2) [of _ _ prior] ini_special_def is_line_end_def)
  next
    case 3
    have "\<not> ini_special b" if "b \<in> set (encode_scalar ch)" for b
      using scalar_bytes [OF assms(2) plain(3) that] plain 3 by (auto simp: ini_special_def)
    then show ?thesis using scan_plain [of "encode_scalar ch" prior] assms(3) plain(1) by simp
  qed
qed

lemma scan_text:
  assumes "\<forall>c \<in> set cs. is_scalar c" "prior \<noteq> []" "59 \<in> set cs \<longrightarrow> in_quotes"
  shows "ini_scan in_quotes (Some at) prior (escape_chars after_number cs @ rest) = ini_scan in_quotes (Some at) (prior @ escape_chars after_number cs) rest"
  using assms
proof (induction cs arbitrary: prior after_number)
  case (Cons ch cs)
  obtain out after where e: "escape_char after_number ch = (out, after)" by fastforce
  then show ?case
    using Cons.prems Cons.IH [of "prior @ out" after] scan_char [OF e, of prior in_quotes at "escape_chars after cs @ rest"] by auto
qed simp

lemma scan_quote: "ini_scan in_quotes separator prior (CHR 0x22 # rest) = ini_scan (\<not> in_quotes) separator (prior @ [CHR 0x22]) rest"
  by (simp add: ini_scan.simps(2) [of _ _ prior] ini_special_def is_line_end_def)

lemma scan_item:
  assumes "utf8_valid item" "prior \<noteq> []"
  shows "ini_scan False (Some at) prior (ini_escaped_string item @ rest) = ini_scan False (Some at) (prior @ ini_escaped_string item) rest"
proof -
  have scalars: "\<forall>c \<in> set (chars item). is_scalar c" using chars_scalars by blast
  show ?thesis
    using scan_text [OF scalars, of "prior @ [CHR 0x22]" True at False "CHR 0x22 # rest"]
      scan_text [OF scalars, of prior False at False rest] assms(2)
    by (auto simp: ini_escaped_string_def scan_quote Let_def)
qed

lemma scan_items:
  assumes "list_all utf8_valid items" "prior \<noteq> []"
  shows "ini_scan False (Some at) prior (join_with '', '' (map ini_escaped_string items) @ rest)
    = ini_scan False (Some at) (prior @ join_with '', '' (map ini_escaped_string items)) rest"
  using assms
proof (induction items arbitrary: prior)
  case (Cons item items)
  have comma: "ini_scan False (Some at) s ('', '' @ r) = ini_scan False (Some at) (s @ '', '') r" if "s \<noteq> []" for s r
    using scan_plain [of "'', ''" s] that by (simp add: ini_special_def)
  show ?case
  proof (cases items)
    case Nil
    then show ?thesis using Cons.prems scan_item [of item prior] by simp
  next
    case (Cons a as)
    then show ?thesis
      using Cons.prems Cons.IH [of "prior @ ini_escaped_string item @ '', ''"] scan_item [of item prior at]
        comma [of "prior @ ini_escaped_string item"] by simp
  qed
qed simp

lemma scan_value:
  assumes "value_valid stored" "prior \<noteq> []"
  shows "ini_scan False (Some at) prior (encode_value stored @ rest) = ini_scan False (Some at) (prior @ encode_value stored) rest"
proof -
  have invalid: "ini_scan False (Some at) prior (''@Invalid()'' @ rest) = ini_scan False (Some at) (prior @ ''@Invalid()'') rest"
    using scan_plain [of "''@Invalid()''" prior] assms(2) by (simp add: ini_special_def)
  show ?thesis
    using assms invalid
    by (cases stored) (auto simp: scan_item scan_items ini_escaped_string_list_def)
qed

text \<open>The bytes of a key, as long as its last one does not take the separator with it.\<close>

lemma key_byte_scanned:
  assumes "key_byte c" "c \<noteq> CHR 0x5C"
  shows "\<not> ini_special c" "c \<noteq> CHR ''#''" "\<not> ini_space c" "\<not> ascii_space c" "c \<noteq> CHR ''[''" "c \<noteq> CHR '']''" "\<not> is_line_end c"
  using assms by (auto simp: key_byte_def key_literal_def ini_special_def ini_space_def ascii_space_def is_line_end_def)

lemma scan_key:
  assumes "\<forall>c \<in> set key. key_byte c" "key \<noteq> [] \<longrightarrow> last key \<noteq> CHR 0x5C"
  shows "ini_scan False None prior (key @ rest) = ini_scan False None (prior @ key) rest"
  using assms
proof (induction "length key" arbitrary: key prior rule: less_induct)
  case less
  show ?case
  proof (cases key)
    case (Cons c key')
    show ?thesis
    proof (cases "c = CHR 0x5C")
      case True
      then obtain e key'' where k: "key' = e # key''" using less.prems(2) Cons by (cases key') auto
      have e: "\<not> is_line_end e"
        using key_byte_scanned(7) [of e] less.prems(1) Cons k by (cases "e = CHR 0x5C") (auto simp: is_line_end_def)
      then show ?thesis
        using less.hyps [of key'' "prior @ [c, e]"] less.prems Cons k True scan_escape [OF e, of False None prior "key'' @ rest"]
        by (auto split: if_splits)
    next
      case False
      then show ?thesis
        using less.hyps [of key' "prior @ [c]"] less.prems Cons key_byte_scanned [of c]
        by (auto simp: ini_scan.simps(2) [of _ _ prior c] split: if_splits)
    qed
  qed simp
qed


section \<open>The lines of a written file\<close>

definition line_step :: "bytes \<Rightarrow> nat option \<Rightarrow> bool" where
  "line_step line separator \<longleftrightarrow> line \<noteq> [] \<and> \<not> ini_space (hd line)
     \<and> (\<forall>rest. ini_scan False None [] (line @ CHR 0x0A # rest) = (line, separator, CHR 0x0A # rest))"

lemma ini_lines_newline: "ini_lines (CHR 0x0A # rest) = ini_lines rest"
  by (simp add: ini_lines.simps [of "CHR 0x0A # rest"] ini_lines.simps [of rest] ini_space_def)

lemma ini_lines_Nil: "ini_lines [] = []"
  by (simp add: ini_lines.simps)

lemma ini_lines_step: "line_step line separator \<Longrightarrow> ini_lines (line @ CHR 0x0A # rest) = (line, separator) # ini_lines rest"
  by (cases line) (simp_all add: line_step_def ini_lines.simps [of "_ # _ @ _"] ini_lines_newline)

lemma scan_stop: "prior \<noteq> [] \<Longrightarrow> ini_scan False separator prior (CHR 0x0A # rest) = (prior, separator, CHR 0x0A # rest)"
  by (simp add: ini_scan.simps(2) ini_special_def is_line_end_def)

lemma concat_map_last: "xs \<noteq> [] \<Longrightarrow> concat (map f xs) = concat (map f (butlast xs)) @ f (last xs)"
  by (induction xs rule: rev_induct) simp_all

lemma code_marks: "code c = 0x5C \<longleftrightarrow> c = CHR 0x5C" "code c = 0x25 \<longleftrightarrow> c = CHR ''%''"
  using char_eq_code [of c "CHR 0x5C"] char_eq_code [of c "CHR ''%''"] by simp_all

lemma literal_char: "key_literal unit \<Longrightarrow> char_of unit \<noteq> CHR 0x5C \<and> char_of unit \<noteq> CHR ''%''"
  by (auto simp: key_literal_def simp flip: code_marks)

lemma no_marks: "CHR 0x5C \<notin> set s \<Longrightarrow> CHR ''%'' \<notin> set s \<Longrightarrow> 0x5C \<notin> code ` set s \<and> 0x25 \<notin> code ` set s"
proof (induction s)
  case (Cons c s)
  then show ?case using code_marks [of c] by auto
qed simp

lemma lower_percent: "ascii_lower p = CHR ''%'' \<Longrightarrow> p = CHR ''%''"
proof -
  assume "ascii_lower p = CHR ''%''"
  then have "code (ascii_lower p) = 0x25" by simp
  then have "code p = 0x25" by (simp add: code_ascii_lower is_ascii_uppercase_def split: if_splits)
  then show "p = CHR ''%''" using code_marks(2) by simp
qed

lemma escaped_key_last:
  assumes "utf8_valid key" "key = [] \<or> last key \<noteq> CHR ''/''"
  shows "ini_escaped_key key \<noteq> [] \<longrightarrow> last (ini_escaped_key key) \<noteq> CHR 0x5C"
proof (cases "chars key = []")
  case True
  then show ?thesis by (simp add: ini_escaped_key_def encode_utf16_def)
next
  case False
  let ?c = "last (chars key)"
  have "key = encode_utf8 (butlast (chars key)) @ encode_scalar ?c"
    using encode_chars [OF assms(1)] concat_map_last [OF False, of encode_scalar] by (simp add: encode_utf8_def)
  then have "last key = last (encode_scalar ?c)" "key \<noteq> []" by (metis encode_scalar_nonempty last_append, metis append_is_Nil_conv encode_scalar_nonempty)
  moreover have "encode_scalar 47 = [CHR ''/'']" by code_simp
  ultimately have "?c \<noteq> 47" using assms(2) by auto
  then have u: "last (utf16_units ?c) \<noteq> 0x2F" "utf16_units ?c \<noteq> []" by (auto simp: utf16_units_def)
  have "encode_utf16 key = concat (map utf16_units (butlast (chars key))) @ utf16_units ?c"
    unfolding encode_utf16_def by (rule concat_map_last [OF False])
  then have l: "encode_utf16 key \<noteq> []" "last (encode_utf16 key) \<noteq> 0x2F" using u by simp_all
  have "ini_escaped_key key = concat (map escaped_unit (butlast (encode_utf16 key))) @ escaped_unit (last (encode_utf16 key))"
    unfolding ini_escaped_key_def by (rule concat_map_last [OF l(1)])
  moreover have "escaped_unit (last (encode_utf16 key)) \<noteq> []" "last (escaped_unit (last (encode_utf16 key))) \<noteq> CHR 0x5C"
    using l(2) hex_upper_byte(3) literal_char by (simp_all add: escaped_unit_def)
  ultimately show ?thesis by simp
qed

lemma key_line_ascii:
  "\<forall>c \<in> set key. key_byte c \<Longrightarrow> trim_ascii key = key"
proof -
  assume k: "\<forall>c \<in> set key. key_byte c"
  have "\<not> ascii_space c" if "c \<in> set key" for c
    using k that key_byte_scanned(4) [of c] by (cases "c = CHR 0x5C") (auto simp: ascii_space_def)
  then have "dropWhile ascii_space key = key" "dropWhile ascii_space (rev key) = rev key"
    by (auto simp: dropWhile_eq_self_iff hd_rev)
  then show "trim_ascii key = key" by (simp add: trim_ascii_def)
qed

lemma entry_step:
  assumes "utf8_valid key" "key = [] \<or> last key \<noteq> CHR ''/''" "value_valid stored"
  shows "line_step (ini_escaped_key key @ ''='' @ encode_value stored) (Some (length (ini_escaped_key key)))"
proof -
  let ?k = "ini_escaped_key key"
  have bytes: "\<forall>c \<in> set ?k. key_byte c" using escaped_key_bytes by blast
  have "ini_scan False None [] (?k @ ''='' @ encode_value stored @ CHR 0x0A # rest)
      = ini_scan False None ?k (''='' @ encode_value stored @ CHR 0x0A # rest)" for rest
    using scan_key [OF bytes escaped_key_last [OF assms(1,2)], of "[]" "''='' @ encode_value stored @ CHR 0x0A # rest"] by simp
  also have "\<dots> rest = ini_scan False (Some (length ?k)) (?k @ ''='') (encode_value stored @ CHR 0x0A # rest)" for rest
    by (simp add: ini_scan.simps(2) [of _ _ ?k] ini_special_def)
  also have "\<dots> rest = (?k @ ''='' @ encode_value stored, Some (length ?k), CHR 0x0A # rest)" for rest
    using scan_value [OF assms(3), of "?k @ ''=''" "length ?k"] scan_stop by simp
  finally have "ini_scan False None [] ((?k @ ''='' @ encode_value stored) @ CHR 0x0A # rest)
      = (?k @ ''='' @ encode_value stored, Some (length ?k), CHR 0x0A # rest)" for rest by simp
  moreover have "\<not> ini_space (hd (?k @ ''='' @ encode_value stored))"
    using bytes key_byte_scanned(3) [of "hd ?k"] by (cases ?k) (auto simp: ini_space_def)
  ultimately show ?thesis by (simp add: line_step_def)
qed


lemma entry_line:
  assumes "value_valid stored" "utf8_valid key"
  shows "settings_line (prefix, vals) (ini_escaped_key key @ ''='' @ encode_value stored, Some (length (ini_escaped_key key)))
    = (prefix, bt_insert (prefix @ key) (read_back stored) vals)"
proof -
  have bytes: "\<forall>c \<in> set (ini_escaped_key key). key_byte c" using escaped_key_bytes by blast
  then have "hd (ini_escaped_key key @ ''='' @ encode_value stored) \<noteq> CHR ''[''"
    using key_byte_scanned(5) [of "hd (ini_escaped_key key)"] by (cases "ini_escaped_key key") auto
  then show ?thesis
    by (simp add: settings_line_def key_line_ascii [OF bytes] key_roundtrip [OF assms(2)] value_roundtrip [OF assms(1)])
qed

section \<open>Headers\<close>

text \<open>A group name that comes back: without a slash, and not a spelling of the reserved name other than its own.\<close>

definition name_ok :: "string \<Rightarrow> bool" where
  "name_ok name \<longleftrightarrow> utf8_valid name \<and> CHR ''/'' \<notin> set name \<and> (eq_ignore_ascii_case name ''general'' \<longrightarrow> name = ''General'')"

lemma escaped_no_slash:
  assumes "utf8_valid name" "CHR ''/'' \<notin> set name"
  shows "CHR 0x5C \<notin> set (ini_escaped_key name)"
proof
  assume "CHR 0x5C \<in> set (ini_escaped_key name)"
  then obtain u where u: "u \<in> set (encode_utf16 name)" "CHR 0x5C \<in> set (escaped_unit u)"
    by (auto simp: ini_escaped_key_def)
  have "u = 0x2F"
    using u(2) hex_upper_byte(3) [THEN not_sym] literal_char [THEN conjunct1, THEN not_sym] by (auto simp: escaped_unit_def split: if_splits)
  then obtain c where "c \<in> set (chars name)" "0x2F \<in> set (utf16_units c)" using u(1) by (auto simp: encode_utf16_def)
  then have "47 \<in> set (chars name)" by (auto simp: utf16_units_def split: if_splits)
  moreover have "encode_scalar 47 = [CHR ''/'']" by code_simp
  ultimately have "CHR ''/'' \<in> set (encode_utf8 (chars name))" by (force simp: encode_utf8_def)
  then show False using assms encode_chars by metis
qed

lemma unescape_plain: "0x5C \<notin> set units \<Longrightarrow> 0x25 \<notin> set units \<Longrightarrow> unescape_units units = units"
  by (induction units) (auto simp: unescape_units.simps(2))

lemma escaped_general:
  assumes "utf8_valid name" "eq_ignore_ascii_case (ini_escaped_key name) ''general''"
  shows "ini_escaped_key name = name"
proof -
  let ?e = "ini_escaped_key name"
  have ascii: "\<forall>c \<in> set ?e. code c < 128" using escaped_key_bytes key_byte_ascii by blast
  have lower: "ascii_lower (CHR 0x5C) \<notin> set (to_ascii_lowercase ''general'')" "ascii_lower (CHR ''%'') \<notin> set (to_ascii_lowercase ''general'')"
    by code_simp+
  have "map ascii_lower ?e = to_ascii_lowercase ''general''"
    using assms(2) by (simp only: eq_ignore_ascii_case_def to_ascii_lowercase_def)
  then have member: "ascii_lower c \<in> set (to_ascii_lowercase ''general'')" if "c \<in> set ?e" for c
    using that by (metis imageI list.set_map)
  have "CHR 0x5C \<notin> set ?e" "CHR ''%'' \<notin> set ?e" using lower member by blast+
  then have "0x5C \<notin> set (map code ?e)" "0x25 \<notin> set (map code ?e)" using no_marks [of ?e] by simp_all
  then have "ini_unescaped_key ?e = ?e"
    using from_utf16_encode [of ?e] ascii
    by (simp add: ini_unescaped_key_def ascii_lossy utf16_ascii unescape_plain utf8_valid_ascii)
  then show ?thesis using key_roundtrip [OF assms(1)] by simp
qed

lemma escaped_percent: "ini_escaped_key name = CHR ''%'' # h # r \<Longrightarrow> ascii_lower h \<noteq> CHR ''g''"
proof -
  assume e: "ini_escaped_key name = CHR ''%'' # h # r"
  then obtain u us where "encode_utf16 name = u # us" by (cases "encode_utf16 name") (auto simp: ini_escaped_key_def)
  then have first: "escaped_unit u @ concat (map escaped_unit us) = CHR ''%'' # h # r" using e by (simp add: ini_escaped_key_def)
  have "h = hex_upper (u div 16) \<or> h = CHR ''U''"
    using first literal_char [of u] by (auto simp: escaped_unit_def split: if_splits)
  moreover have "ascii_lower (CHR ''U'') \<noteq> CHR ''g''" by code_simp
  ultimately show ?thesis using hex_upper_byte(4) by auto
qed


lemma header_step:
  assumes "name_ok name"
  shows "line_step (section_header name) None" "hd (section_header name) = CHR ''[''" "CHR '']'' \<in> set (section_header name)"
proof -
  obtain inner where inner: "section_header name = CHR ''['' # inner @ '']''" "\<forall>c \<in> set inner. key_byte c \<and> c \<noteq> CHR 0x5C"
  proof -
    have "\<forall>c \<in> set ''General''. key_byte c \<and> c \<noteq> CHR 0x5C" "\<forall>c \<in> set ''%General''. key_byte c \<and> c \<noteq> CHR 0x5C"
      by (simp_all add: key_byte_def key_literal_def)
    moreover have "\<forall>c \<in> set (ini_escaped_key name). key_byte c \<and> c \<noteq> CHR 0x5C"
      using escaped_key_bytes escaped_no_slash assms by (auto simp: name_ok_def)
    moreover have "section_header name = CHR ''['' # ''General'' @ '']'' \<or> section_header name = CHR ''['' # ''%General'' @ '']''
        \<or> section_header name = CHR ''['' # ini_escaped_key name @ '']''"
      by (simp add: section_header_def Let_def)
    ultimately show thesis using that by (elim disjE) assumption+
  qed
  then have plain: "\<forall>c \<in> set (inner @ '']''). \<not> ini_special c" using key_byte_scanned(1) by (auto simp: ini_special_def)
  have "ini_scan False None [] (section_header name @ CHR 0x0A # rest) = (section_header name, None, CHR 0x0A # rest)" for rest
    using scan_plain [OF plain, of "''[''" False None "CHR 0x0A # rest"] scan_stop [of "''['' @ inner @ '']''" None rest]
    by (simp add: inner(1) ini_scan.simps(2) [of _ _ "[]"] ini_special_def)
  then show "line_step (section_header name) None" "hd (section_header name) = CHR ''[''" "CHR '']'' \<in> set (section_header name)"
    by (simp_all add: line_step_def inner(1) ini_space_def)
qed

text \<open>The prefix that the keys of a section get.\<close>

definition path_prefix :: "string \<Rightarrow> string" where
  "path_prefix name = (if name = [] then [] else name @ ''/'')"

lemma takeWhile_bracket: "c \<notin> set xs \<Longrightarrow> takeWhile (\<lambda>x. x \<noteq> c) (xs @ [c]) = xs"
  by (induction xs) auto

lemma section_prefix_inner:
  assumes "\<forall>c \<in> set inner. key_byte c"
  shows "section_prefix (CHR ''['' # inner @ '']'') =
    (if eq_ignore_ascii_case inner ''general'' then []
     else if eq_ignore_ascii_case inner ''%general'' then drop 1 inner @ ''/'' else ini_unescaped_key inner @ ''/'')"
proof -
  have "\<not> key_byte (CHR '']'')" by (simp add: key_byte_def key_literal_def)
  then have "CHR '']'' \<notin> set inner" using assms by blast
  then have "takeWhile (\<lambda>c. c \<noteq> CHR '']'') (inner @ '']'') = inner" by (rule takeWhile_bracket)
  moreover have "from_utf8_lossy (drop 1 inner) = drop 1 inner"
    using assms key_byte_ascii by (intro ascii_lossy) (auto dest: in_set_dropD)
  ultimately show ?thesis by (simp add: section_prefix_def Let_def key_line_ascii [OF assms])
qed

lemma header_read:
  assumes "name_ok name"
  shows "section_prefix (section_header name) = path_prefix name"
proof -
  let ?e = "ini_escaped_key name"
  have bytes: "\<forall>c \<in> set ?e. key_byte c" using escaped_key_bytes by blast
  have valid: "utf8_valid name" using assms by (simp add: name_ok_def)
  have empty: "?e = [] \<longleftrightarrow> name = []"
    using key_roundtrip [OF valid] key_roundtrip [of "[]"] by (metis concat.simps(1) encode_utf16_def ini_escaped_key_def list.simps(8) utf8_valid_def
      chars_ascii decode_utf8_Nil empty_iff list.set(1) option.distinct(1))
  have general: "eq_ignore_ascii_case ''General'' ''general''" "\<not> eq_ignore_ascii_case ''%General'' ''general''"
    "eq_ignore_ascii_case ''%General'' ''%general''" by code_simp+
  consider "?e = []" | "?e \<noteq> []" "eq_ignore_ascii_case ?e ''general''" | "?e \<noteq> []" "\<not> eq_ignore_ascii_case ?e ''general''" by blast
  then show ?thesis
  proof cases
    case 1
    then show ?thesis
      using section_prefix_inner [of "''General''"] general empty
      by (simp add: section_header_def path_prefix_def key_byte_def key_literal_def)
  next
    case 2
    then have "name = ''General''"
      using escaped_general [OF valid 2(2)] assms by (simp add: name_ok_def)
    then show ?thesis
      using section_prefix_inner [of "''%General''"] general 2 empty
      by (simp add: section_header_def path_prefix_def key_byte_def key_literal_def)
  next
    case 3
    have "\<not> eq_ignore_ascii_case ?e ''%general''"
    proof
      assume e: "eq_ignore_ascii_case ?e ''%general''"
      have "to_ascii_lowercase ''%general'' = ''%general''" by code_simp
      then have "map ascii_lower ?e = ''%general''" using e by (simp add: eq_ignore_ascii_case_def to_ascii_lowercase_def)
      then obtain p h r where "?e = p # h # r" "ascii_lower p = CHR ''%''" "ascii_lower h = CHR ''g''" by (auto simp: map_eq_Cons_conv)
      moreover have "p = CHR ''%''" by (rule lower_percent [OF calculation(2)])
      ultimately show False using escaped_percent [of name h r] by simp
    qed
    then show ?thesis
      using 3 section_prefix_inner [OF bytes] key_roundtrip [OF valid] empty by (simp add: section_header_def path_prefix_def)
  qed
qed


section \<open>Files come back\<close>

definition entry_ok :: "string \<times> IniValue \<Rightarrow> bool" where
  "entry_ok entry \<longleftrightarrow> utf8_valid (fst entry) \<and> (fst entry = [] \<or> last (fst entry) \<noteq> CHR ''/'') \<and> value_valid (snd entry)"

definition section_ok :: "string \<times> (string \<times> IniValue) list \<Rightarrow> bool" where
  "section_ok part \<longleftrightarrow> name_ok (fst part) \<and> list_all entry_ok (snd part)"

definition entry_scanned :: "string \<times> IniValue \<Rightarrow> bytes \<times> nat option" where
  "entry_scanned entry =
     (ini_escaped_key (fst entry) @ ''='' @ encode_value (snd entry), Some (length (ini_escaped_key (fst entry))))"

definition section_lines :: "string \<times> (string \<times> IniValue) list \<Rightarrow> (bytes \<times> nat option) list" where
  "section_lines part = (section_header (fst part), None) # map entry_scanned (sort_key fst (snd part))"

lemma entries_lines:
  "list_all entry_ok entries \<Longrightarrow> ini_lines (concat (map encode_entry entries) @ rest) = map entry_scanned entries @ ini_lines rest"
proof (induction entries)
  case (Cons entry entries)
  then have "line_step (ini_escaped_key (fst entry) @ ''='' @ encode_value (snd entry)) (Some (length (ini_escaped_key (fst entry))))"
    using entry_step [of "fst entry" "snd entry"] by (simp add: entry_ok_def)
  from ini_lines_step [OF this, of "concat (map encode_entry entries) @ rest"] Cons
  show ?case by (simp add: encode_entry_def [of entry] entry_scanned_def [of entry])
qed simp

lemma section_read:
  assumes "section_ok part"
  shows "ini_lines (encode_section part @ rest) = section_lines part @ ini_lines rest"
proof -
  have "list_all entry_ok (sort_key fst (snd part))" using assms by (simp add: section_ok_def list_all_iff)
  from entries_lines [OF this, of rest] ini_lines_step [OF header_step(1) [of "fst part"]] assms
  show ?thesis by (simp add: encode_section_def section_lines_def section_ok_def)
qed

lemma sections_read:
  "list_all section_ok parts \<Longrightarrow> ini_lines (join_with [CHR 0x0A] (map encode_section parts)) = concat (map section_lines parts)"
proof (induction parts)
  case (Cons part parts)
  then show ?case
  proof (cases parts)
    case Nil
    then show ?thesis using Cons.prems section_read [of part "[]"] by (simp add: ini_lines_Nil)
  next
    case (Cons a as)
    then show ?thesis
      using Cons.prems Cons.IH section_read [of part "CHR 0x0A # join_with [CHR 0x0A] (map encode_section parts)"]
      by (simp add: ini_lines_newline)
  qed
qed (simp add: ini_lines_Nil)

text \<open>The assignments a section makes when it is read.\<close>

definition section_pairs :: "string \<times> (string \<times> IniValue) list \<Rightarrow> (string \<times> IniValue) list" where
  "section_pairs part = map (\<lambda>entry. (path_prefix (fst part) @ fst entry, read_back (snd entry))) (sort_key fst (snd part))"

abbreviation put_pair :: "IniMap \<Rightarrow> string \<times> IniValue \<Rightarrow> IniMap" where
  "put_pair vals pair \<equiv> bt_insert (fst pair) (snd pair) vals"

lemma entries_fold:
  "list_all entry_ok entries \<Longrightarrow> foldl settings_line (prefix, vals) (map entry_scanned entries) =
     (prefix, foldl put_pair vals (map (\<lambda>entry. (prefix @ fst entry, read_back (snd entry))) entries))"
  by (induction entries arbitrary: vals) (simp_all add: entry_scanned_def entry_line [simplified] entry_ok_def)

lemma section_fold:
  assumes "section_ok part"
  shows "foldl settings_line (prefix, vals) (section_lines part) = (path_prefix (fst part), foldl put_pair vals (section_pairs part))"
proof -
  have "list_all entry_ok (sort_key fst (snd part))" "name_ok (fst part)" using assms by (simp_all add: section_ok_def list_all_iff)
  moreover from this(2) have "settings_line (prefix, vals) (section_header (fst part), None) = (path_prefix (fst part), vals)"
    by (simp add: settings_line_def header_step(2) header_read)
  ultimately show ?thesis by (simp add: section_lines_def section_pairs_def entries_fold)
qed

lemma sections_fold:
  "list_all section_ok parts \<Longrightarrow> snd (foldl settings_line (prefix, vals) (concat (map section_lines parts)))
    = foldl put_pair vals (concat (map section_pairs parts))"
  by (induction parts arbitrary: prefix vals) (simp_all add: section_fold)

lemma put_pairs_get:
  "bt_get (foldl put_pair vals pairs) path = Some v \<Longrightarrow> (path, v) \<in> set pairs \<or> bt_get vals path = Some v"
  by (induction pairs arbitrary: vals) (fastforce split: if_splits)+

lemma put_pairs_defined:
  "path \<in> fst ` set pairs \<or> bt_get vals path \<noteq> None \<Longrightarrow> bt_get (foldl put_pair vals pairs) path \<noteq> None"
  by (induction pairs arbitrary: vals) auto

definition section_entries :: "(string, (string \<times> IniValue) list) btree_map \<Rightarrow> (string \<times> string \<times> IniValue) set" where
  "section_entries found = {(name, key, v). \<exists>entries. bt_get found name = Some entries \<and> (key, v) \<in> set entries}"

definition split_entry :: "string \<times> IniValue \<Rightarrow> string \<times> string \<times> IniValue" where
  "split_entry entry = (fst (split_section (fst entry)), snd (split_section (fst entry)), snd entry)"

lemma section_entries_add: "section_entries (add_to_section entry found) = insert (split_entry entry) (section_entries found)"
  by (auto simp: section_entries_def add_to_section_def split_entry_def split: prod.splits option.splits if_splits)

lemma settings_sections_entries:
  "bt_wf (settings_sections vals) \<and> section_entries (settings_sections vals) = split_entry ` set vals"
proof -
  have "bt_wf found \<Longrightarrow> bt_wf (fold add_to_section vals found)
      \<and> section_entries (fold add_to_section vals found) = split_entry ` set vals \<union> section_entries found" for found
  proof (induction vals arbitrary: found)
    case (Cons entry vals)
    have "bt_wf (add_to_section entry found)" using Cons.prems by (simp add: add_to_section_def split: prod.split)
    then show ?case using Cons.IH [of "add_to_section entry found"] by (simp add: section_entries_add)
  qed simp
  moreover have "section_entries [] = {}" by (simp add: section_entries_def)
  ultimately show ?thesis using bt_wf_Nil by (metis Un_empty_right settings_sections_def)
qed


text \<open>
  The keys that come back: no slash at either end, and no group that spells the reserved name other than \<open>General\<close>. The lemmas at the end of
  the theory show what happens to the others.
\<close>

definition path_ok :: "string \<Rightarrow> bool" where
  "path_ok path \<longleftrightarrow> utf8_valid path \<and> (path = [] \<or> hd path \<noteq> CHR ''/'' \<and> last path \<noteq> CHR ''/'')
     \<and> (eq_ignore_ascii_case (fst (split_section path)) ''general'' \<longrightarrow> fst (split_section path) = ''General'')"

lemma path_parts:
  assumes "path_ok path"
  shows "name_ok (fst (split_section path))" "utf8_valid (snd (split_section path))"
    "snd (split_section path) = [] \<or> last (snd (split_section path)) \<noteq> CHR ''/''"
    "path_prefix (fst (split_section path)) @ snd (split_section path) = path"
proof -
  have valid: "utf8_valid path" using assms by (simp add: path_ok_def)
  have "name_ok (fst (split_section path)) \<and> utf8_valid (snd (split_section path))
    \<and> (snd (split_section path) = [] \<or> last (snd (split_section path)) \<noteq> CHR ''/'')
    \<and> path_prefix (fst (split_section path)) @ snd (split_section path) = path"
  proof (cases "split_once (CHR ''/'') path")
    case None
    then have "split_section path = ([], path)" by (simp add: split_section_def)
    then show ?thesis using assms by (auto simp: path_ok_def name_ok_def path_prefix_def eq_ignore_ascii_case_def to_ascii_lowercase_def)
  next
    case (Some parts)
    then obtain name key where parts: "parts = (name, key)" "path = name @ CHR ''/'' # key" "CHR ''/'' \<notin> set name"
      by (cases parts) (auto simp: split_once_Some)
    have "\<not> is_cont (CHR ''/'')" by code_simp
    then have "utf8_valid name \<and> utf8_valid (CHR ''/'' # key)"
      using utf8_valid_cut [OF valid, of "length name"] parts(2) by simp
    moreover have "split_section path = (name, key)" using Some parts(1) by (simp add: split_section_def)
    ultimately show ?thesis
      using assms parts by (cases name) (auto simp: path_ok_def name_ok_def path_prefix_def)
  qed
  then show "name_ok (fst (split_section path))" "utf8_valid (snd (split_section path))"
    "snd (split_section path) = [] \<or> last (snd (split_section path)) \<noteq> CHR ''/''"
    "path_prefix (fst (split_section path)) @ snd (split_section path) = path" by blast+
qed

definition store_ok :: "IniMap \<Rightarrow> bool" where
  "store_ok vals \<longleftrightarrow> bt_wf vals \<and> list_all (\<lambda>(path, stored). path_ok path \<and> value_valid stored) vals"

lemma sections_ok:
  assumes "store_ok vals"
  shows "list_all section_ok (settings_sections vals)"
proof -
  have "section_ok (name, entries)" if part: "(name, entries) \<in> set (settings_sections vals)" for name entries
  proof -
    note wf = settings_sections_entries [of vals]
    have in_store: "\<exists>path stored. (path, stored) \<in> set vals \<and> name = fst (split_section path) \<and> key = snd (split_section path) \<and> v = stored"
      if "(key, v) \<in> set entries" for key v
    proof -
      have "(name, key, v) \<in> section_entries (settings_sections vals)"
        using part that wf bt_get_Some_in [of "settings_sections vals" name entries] by (auto simp: section_entries_def)
      then show ?thesis using wf by (auto simp: split_entry_def)
    qed
    have entry: "name_ok name \<and> entry_ok (key, v)" if "(key, v) \<in> set entries" for key v
    proof -
      obtain path stored where p: "(path, stored) \<in> set vals" "name = fst (split_section path)" "key = snd (split_section path)" "v = stored"
        using in_store [OF \<open>(key, v) \<in> set entries\<close>] by blast
      then have "path_ok path" "value_valid v" using assms by (auto simp: store_ok_def list_all_iff)
      then show ?thesis using path_parts [of path] p(2,3) by (simp add: entry_ok_def)
    qed
    moreover have "entries \<noteq> []"
    proof -
      have "list_all (\<lambda>part. snd part \<noteq> []) (fold add_to_section vals found)" if "list_all (\<lambda>part. snd part \<noteq> []) found" for found
        using that
      proof (induction vals arbitrary: found)
        case (Cons entry vals)
        have "list_all (\<lambda>part. snd part \<noteq> []) (add_to_section entry found)"
          using Cons.prems set_bt_insert by (fastforce simp: add_to_section_def list_all_iff split: prod.split)
        then show ?case using Cons.IH by simp
      qed simp
      from this [of "[]"] show ?thesis using part by (auto simp: settings_sections_def list_all_iff)
    qed
    ultimately show ?thesis by (cases entries) (auto simp: section_ok_def list_all_iff)
  qed
  then show ?thesis by (auto simp: list_all_iff)
qed

lemma encode_lines:
  assumes "store_ok vals"
  shows "ini_lines (strip_bom (encode_settings vals)) = concat (map section_lines (settings_sections vals))"
proof -
  have "strip_bom (encode_settings vals) = encode_settings vals"
  proof (cases "settings_sections vals")
    case Nil
    then show ?thesis by (simp add: encode_settings_def strip_bom_def strip_prefix_def starts_with_def)
  next
    case (Cons part parts)
    then have "hd (section_header (fst part)) = CHR ''[''" "section_header (fst part) \<noteq> []"
      using sections_ok [OF assms] header_step(2,3) [of "fst part"] by (auto simp: section_ok_def)
    then obtain r where "encode_settings vals = CHR ''['' # r"
      using Cons by (cases "section_header (fst part)"; cases parts) (auto simp: encode_settings_def encode_section_def)
    then show ?thesis by (simp add: strip_bom_def strip_prefix_def starts_with_def)
  qed
  then show ?thesis using sections_read [OF sections_ok [OF assms]] by (simp add: encode_settings_def)
qed

lemma encode_well_formed:
  assumes "store_ok vals"
  shows "\<not> ini_bytes_are_malformed (encode_settings vals)"
proof -
  have "\<not> line_malformed line" if "part \<in> set (settings_sections vals)" "line \<in> set (section_lines part)" for part line
  proof -
    have ok: "name_ok (fst part)" using that(1) sections_ok [OF assms] by (auto simp: list_all_iff section_ok_def)
    have "\<not> line_malformed (entry_scanned entry)" for entry
      using escaped_key_bytes [of _ "fst entry"] key_byte_scanned(5)
      by (cases "ini_escaped_key (fst entry)") (auto simp: line_malformed_def entry_scanned_def)
    moreover have "\<not> line_malformed (section_header (fst part), None)"
      using header_step(2,3) [OF ok] by (simp add: line_malformed_def)
    ultimately show ?thesis using that(2) by (auto simp: section_lines_def)
  qed
  then show ?thesis using encode_lines [OF assms] by (auto simp: ini_bytes_are_malformed_def list_ex_iff)
qed

lemma section_entries_union:
  assumes "bt_wf parts"
  shows "section_entries parts = (\<Union>part \<in> set parts. Pair (fst part) ` set (snd part))"
  unfolding section_entries_def bt_get_Some_in [OF assms] by (auto simp: image_iff)

definition pair_of :: "string \<times> string \<times> IniValue \<Rightarrow> string \<times> IniValue" where
  "pair_of entry = (path_prefix (fst entry) @ fst (snd entry), read_back (snd (snd entry)))"

lemma section_pairs_set: "bt_wf parts \<Longrightarrow> set (concat (map section_pairs parts)) = pair_of ` section_entries parts"
  by (simp add: section_entries_union image_UN image_image section_pairs_def pair_of_def)

lemma file_pairs:
  assumes "store_ok vals"
  shows "set (concat (map section_pairs (settings_sections vals))) = (\<lambda>entry. (fst entry, read_back (snd entry))) ` set vals"
proof -
  have "pair_of (split_entry entry) = (fst entry, read_back (snd entry))" if "entry \<in> set vals" for entry
  proof -
    have "path_ok (fst entry)" using assms that by (auto simp: store_ok_def list_all_iff)
    then show ?thesis using path_parts(4) by (simp add: pair_of_def split_entry_def)
  qed
  then show ?thesis
    using settings_sections_entries [of vals] by (simp only: section_pairs_set image_image cong: image_cong)
qed

lemma file_roundtrip:
  assumes "store_ok vals"
  shows "bt_get (parse_settings_ini (encode_settings vals)) path = map_option read_back (bt_get vals path)"
proof -
  let ?pairs = "concat (map section_pairs (settings_sections vals))"
  have wf: "bt_wf vals" using assms by (simp add: store_ok_def)
  have parsed: "parse_settings_ini (encode_settings vals) = foldl put_pair [] ?pairs"
    unfolding parse_settings_ini_def encode_lines [OF assms] by (rule sections_fold [OF sections_ok [OF assms]])
  have pairs: "(p, w) \<in> set ?pairs \<longleftrightarrow> (\<exists>v. bt_get vals p = Some v \<and> w = read_back v)" for p w
    unfolding file_pairs [OF assms] bt_get_Some_in [OF wf] by force
  show ?thesis
  proof (cases "bt_get vals path")
    case None
    then have "bt_get (foldl put_pair [] ?pairs) path = None"
      using pairs [of path] put_pairs_get [of "[]" ?pairs path] by (cases "bt_get (foldl put_pair [] ?pairs) path") auto
    then show ?thesis using None parsed by simp
  next
    case (Some v)
    then have "path \<in> fst ` set ?pairs" using pairs [of path "read_back v"] by force
    then obtain w where w: "bt_get (foldl put_pair [] ?pairs) path = Some w" using put_pairs_defined [of path ?pairs "[]"] by auto
    then have "w = read_back v" using put_pairs_get [OF w] pairs [of path w] Some by auto
    then show ?thesis using Some parsed w by simp
  qed
qed


lemma encode_empty:
  assumes "store_ok vals" "encode_settings vals = []"
  shows "vals = []"
proof -
  have "section_lines part \<noteq> []" for part by (simp add: section_lines_def)
  moreover have "concat (map section_lines (settings_sections vals)) = []"
    using encode_lines [OF assms(1)] assms(2) by (simp add: strip_bom_def strip_prefix_def starts_with_def ini_lines_Nil)
  ultimately have "settings_sections vals = []" by (cases "settings_sections vals") auto
  moreover have "section_entries [] = {}" by (simp add: section_entries_def)
  ultimately have "split_entry ` set vals = {}" using settings_sections_entries [of vals] by simp
  then show ?thesis by simp
qed


definition sample_writer :: disk_writer where
  "sample_writer mode disk data = Some (DiskFile \<lparr>df_is_dir = False, df_read = Some data, df_readonly = False, df_opens = True\<rparr>)"


section \<open>What does not come back\<close>

text \<open>A group whose name spells the reserved name in other letters comes back under that name.\<close>

lemma reserved_group_renamed: "section_prefix (section_header ''general'') = ''General/''"
proof -
  have "ini_escaped_key ''general'' = ''general''"
    by (simp add: ini_escaped_key_def utf16_ascii escaped_unit_def key_literal_def, code_simp)
  moreover have "eq_ignore_ascii_case ''general'' ''general''" "\<not> eq_ignore_ascii_case ''%General'' ''general''"
    "eq_ignore_ascii_case ''%General'' ''%general''" by code_simp+
  ultimately show ?thesis
    using section_prefix_inner [of "''%General''"] by (simp add: section_header_def key_byte_def key_literal_def)
qed

text \<open>A list of one empty string comes back empty, and one whose item starts with two signs loses one.\<close>

lemma single_item_list_changed:
  "list_of_value (IniList [[]]) = [[]] \<and> list_of_value (read_back (IniList [[]])) = []"
  "list_of_value (IniList [''@@x'']) = [''@@x''] \<and> list_of_value (read_back (IniList [''@@x''])) = [''@x'']"
  by (simp_all add: list_of_value_def classify_text_def strip_prefix_def starts_with_def)

text \<open>A key that ends in a slash is written with a backslash before the separator, and the file is malformed from then on.\<close>

lemma trailing_slash_line: "ini_lines (ini_escaped_key ''b/'' @ ''=x'' @ [CHR 0x0A]) = [(ini_escaped_key ''b/'' @ ''=x'', None)]"
proof -
  have "ini_escaped_key ''b/'' = [CHR ''b'', CHR 0x5C]"
    by (simp add: ini_escaped_key_def utf16_ascii escaped_unit_def key_literal_def, code_simp)
  moreover have "line_step [CHR ''b'', CHR 0x5C, CHR ''='', CHR ''x''] None"
    by (simp add: line_step_def ini_space_def ini_scan.simps(2) ini_special_def is_line_end_def)
  ultimately show ?thesis
    using ini_lines_step [of "[CHR ''b'', CHR 0x5C, CHR ''='', CHR ''x'']" None "[]"] by (simp add: ini_lines_Nil)
qed

end
