(* ===== verification/TextFormat.thy ===== *)
theory TextFormat
  imports Utf8
begin

text \<open>
  \<^verbatim>\<open>client/src/irc/plaintext.rs\<close> and \<^verbatim>\<open>textformat.rs\<close>: the mIRC control codes of a message. A reader sees the text without them; the transcript
  paints runs, each with the attributes in force. Both walk the characters by index. What only tests compile (the emphasis projection) is left
  out. The lemmas show that the two walkers agree: the runs are the plain text, cut between characters.
\<close>

section \<open>Codes\<close>

definition BOLD :: scalar where "BOLD = 0x02"
definition COLOR :: scalar where "COLOR = 0x03"
definition HEX_COLOR :: scalar where "HEX_COLOR = 0x04"
definition RESET :: scalar where "RESET = 0x0f"
definition MONOSPACE :: scalar where "MONOSPACE = 0x11"
definition REVERSE :: scalar where "REVERSE = 0x16"
definition ITALIC :: scalar where "ITALIC = 0x1d"
definition STRIKETHROUGH :: scalar where "STRIKETHROUGH = 0x1e"
definition UNDERLINE :: scalar where "UNDERLINE = 0x1f"

lemmas control_codes = BOLD_def COLOR_def HEX_COLOR_def RESET_def MONOSPACE_def REVERSE_def ITALIC_def STRIKETHROUGH_def UNDERLINE_def

definition scalar_digit :: "scalar \<Rightarrow> bool" where
  "scalar_digit c \<longleftrightarrow> 48 \<le> c \<and> c \<le> 57"

definition scalar_hex :: "scalar \<Rightarrow> bool" where
  "scalar_hex c \<longleftrightarrow> scalar_digit c \<or> 65 \<le> c \<and> c \<le> 70 \<or> 97 \<le> c \<and> c \<le> 102"

text \<open>\<open>char::to_digit(16)\<close> of a hex digit.\<close>

definition hex_digit_of :: "scalar \<Rightarrow> nat" where
  "hex_digit_of c = (if scalar_digit c then c - 48 else if c \<le> 70 then c - 65 + 10 else c - 97 + 10)"

definition char_at :: "scalar list \<Rightarrow> nat \<Rightarrow> scalar option" where
  "char_at cs at = (if at < length cs then Some (cs ! at) else None)"

definition digit_at :: "scalar list \<Rightarrow> nat \<Rightarrow> bool" where
  "digit_at cs at \<longleftrightarrow> (case char_at cs at of Some c \<Rightarrow> scalar_digit c | None \<Rightarrow> False)"

definition consume_mirc_color :: "scalar list \<Rightarrow> nat \<Rightarrow> nat" where
  "consume_mirc_color cs index =
     (if \<not> digit_at cs (index + 1) then index
      else
        let at = (if digit_at cs (index + 2) then index + 3 else index + 2);
            at = (if char_at cs at = Some 44 \<and> digit_at cs (at + 1) then (if digit_at cs (at + 2) then at + 3 else at + 2) else at)
        in at - 1)"

definition six_hex_at :: "scalar list \<Rightarrow> nat \<Rightarrow> bool" where
  "six_hex_at cs start_at \<longleftrightarrow> start_at + 6 \<le> length cs \<and> list_all scalar_hex (take 6 (drop start_at cs))"

definition consume_hex_color :: "scalar list \<Rightarrow> nat \<Rightarrow> nat" where
  "consume_hex_color cs index =
     (if \<not> six_hex_at cs (index + 1) then index
      else let at = index + 7 in (if char_at cs at = Some 44 \<and> six_hex_at cs (at + 1) then at + 7 else at) - 1)"

lemma consume_mirc_ge: "index \<le> consume_mirc_color cs index"
  by (simp add: consume_mirc_color_def Let_def)

lemma consume_hex_ge: "index \<le> consume_hex_color cs index"
  by (simp add: consume_hex_color_def Let_def)

section \<open>Plain text\<close>

function strip_colors_from :: "scalar list \<Rightarrow> nat \<Rightarrow> scalar list" where
  "strip_colors_from cs index =
     (if length cs \<le> index then []
      else if cs ! index = COLOR then strip_colors_from cs (consume_mirc_color cs index + 1)
      else if cs ! index = HEX_COLOR then strip_colors_from cs (consume_hex_color cs index + 1)
      else cs ! index # strip_colors_from cs (index + 1))"
  by pat_completeness auto
termination
proof (relation "measure (\<lambda>(cs, index). length cs - index)", goal_cases)
  case (2 cs index)
  then show ?case using consume_mirc_ge [of index cs] by simp
next
  case (3 cs index)
  then show ?case using consume_hex_ge [of index cs] by simp
qed auto

declare strip_colors_from.simps [simp del]

definition strip_irc_colors :: "string \<Rightarrow> scalar list" where
  "strip_irc_colors shown = strip_colors_from (chars shown) 0"

definition plain_irc_text :: "string \<Rightarrow> string" where
  "plain_irc_text shown =
     encode_utf8 (filter (\<lambda>c. c \<notin> set [BOLD, RESET, MONOSPACE, REVERSE, ITALIC, STRIKETHROUGH, UNDERLINE]) (strip_irc_colors shown))"

section \<open>Styled runs\<close>

datatype IrcColor = Palette nat | Rgb nat nat nat

record IrcStyle =
  sty_bold :: bool
  sty_italic :: bool
  sty_underline :: bool
  sty_reverse :: bool
  sty_monospace :: bool
  sty_strikethrough :: bool
  sty_fg :: "IrcColor option"
  sty_bg :: "IrcColor option"

definition default_style :: IrcStyle where
  "default_style = \<lparr>sty_bold = False, sty_italic = False, sty_underline = False, sty_reverse = False, sty_monospace = False,
     sty_strikethrough = False, sty_fg = None, sty_bg = None\<rparr>"

record StyledRun =
  run_from :: nat
  run_until :: nat
  run_style :: IrcStyle

text \<open>One or two digits at an index: their value and the index after them.\<close>

definition read_code :: "scalar list \<Rightarrow> nat \<Rightarrow> (nat \<times> nat) option" where
  "read_code cs at =
     (if \<not> digit_at cs at then None
      else if digit_at cs (at + 1) then Some ((cs ! at - 48) * 10 + (cs ! (at + 1) - 48), at + 2)
      else Some (cs ! at - 48, at + 1))"

definition rgb_at :: "scalar list \<Rightarrow> nat \<Rightarrow> IrcColor option" where
  "rgb_at cs start_at =
     (if \<not> six_hex_at cs start_at then None
      else
        let number = foldl (\<lambda>acc digit. acc * 16 + hex_digit_of digit) 0 (take 6 (drop start_at cs))
        in Some (Rgb (number div 65536) (number div 256 mod 256) (number mod 256)))"

definition apply_mirc_color :: "scalar list \<Rightarrow> nat \<Rightarrow> IrcStyle \<Rightarrow> IrcStyle" where
  "apply_mirc_color cs start_at style =
     (case read_code cs (start_at + 1) of
        None \<Rightarrow> style\<lparr>sty_fg := None, sty_bg := None\<rparr>
      | Some (fg, at) \<Rightarrow>
          let style = (if fg \<le> 15 then style\<lparr>sty_fg := Some (Palette fg)\<rparr> else style) in
          if char_at cs at = Some 44 then
            (case read_code cs (at + 1) of
               Some (bg, _) \<Rightarrow> if bg \<le> 15 then style\<lparr>sty_bg := Some (Palette bg)\<rparr> else style
             | None \<Rightarrow> style)
          else style)"

definition apply_hex_color :: "scalar list \<Rightarrow> nat \<Rightarrow> IrcStyle \<Rightarrow> IrcStyle" where
  "apply_hex_color cs start_at style =
     (case rgb_at cs (start_at + 1) of
        None \<Rightarrow> style
      | Some fg \<Rightarrow>
          let style = style\<lparr>sty_fg := Some fg\<rparr>; comma = start_at + 7 in
          if char_at cs comma = Some 44 then
            (case rgb_at cs (comma + 1) of Some bg \<Rightarrow> style\<lparr>sty_bg := Some bg\<rparr> | None \<Rightarrow> style)
          else style)"

text \<open>The open run and the runs before it.\<close>

record RunState =
  rs_runs :: "StyledRun list"
  rs_style :: IrcStyle
  rs_plain_len :: nat
  rs_run_start :: nat

definition close_run :: "RunState \<Rightarrow> RunState" where
  "close_run st =
     st\<lparr>rs_runs := rs_runs st @ (if rs_run_start st < rs_plain_len st
          then [\<lparr>run_from = rs_run_start st, run_until = rs_plain_len st, run_style = rs_style st\<rparr>] else []),
        rs_run_start := rs_plain_len st\<rparr>"

text \<open>What a toggle does to the style; none for a character that is no toggle.\<close>

definition toggle_style :: "scalar \<Rightarrow> IrcStyle \<Rightarrow> IrcStyle option" where
  "toggle_style mark style =
     (if mark = BOLD then Some (style\<lparr>sty_bold := \<not> sty_bold style\<rparr>)
      else if mark = ITALIC then Some (style\<lparr>sty_italic := \<not> sty_italic style\<rparr>)
      else if mark = UNDERLINE then Some (style\<lparr>sty_underline := \<not> sty_underline style\<rparr>)
      else if mark = REVERSE then Some (style\<lparr>sty_reverse := \<not> sty_reverse style\<rparr>)
      else if mark = MONOSPACE then Some (style\<lparr>sty_monospace := \<not> sty_monospace style\<rparr>)
      else if mark = STRIKETHROUGH then Some (style\<lparr>sty_strikethrough := \<not> sty_strikethrough style\<rparr>)
      else if mark = RESET then Some default_style
      else None)"

function style_walk :: "scalar list \<Rightarrow> nat \<Rightarrow> RunState \<Rightarrow> RunState" where
  "style_walk cs index st =
     (if length cs \<le> index then st
      else if cs ! index = COLOR then
        let st = close_run st in
        style_walk cs (consume_mirc_color cs index + 1) (st\<lparr>rs_style := apply_mirc_color cs index (rs_style st)\<rparr>)
      else if cs ! index = HEX_COLOR then
        let st = close_run st; last_index = consume_hex_color cs index in
        style_walk cs (last_index + 1) (if index < last_index then st\<lparr>rs_style := apply_hex_color cs index (rs_style st)\<rparr> else st)
      else case toggle_style (cs ! index) (rs_style st) of
             Some style \<Rightarrow> style_walk cs (index + 1) ((close_run st)\<lparr>rs_style := style\<rparr>)
           | None \<Rightarrow> style_walk cs (index + 1) (st\<lparr>rs_plain_len := rs_plain_len st + length (encode_scalar (cs ! index))\<rparr>))"
  by pat_completeness auto
termination
proof (relation "measure (\<lambda>(cs, index, _). length cs - index)", goal_cases)
  case (2 cs index)
  then show ?case using consume_mirc_ge [of index cs] by simp
next
  case (3 cs index)
  then show ?case using consume_hex_ge [of index cs] by simp
qed auto

declare style_walk.simps [simp del]

definition styled_runs :: "string \<Rightarrow> StyledRun list" where
  "styled_runs shown =
     rs_runs (close_run (style_walk (chars shown) 0 \<lparr>rs_runs = [], rs_style = default_style, rs_plain_len = 0, rs_run_start = 0\<rparr>))"

section \<open>The runs are the plain text\<close>

definition is_format :: "scalar \<Rightarrow> bool" where
  "is_format c \<longleftrightarrow> c \<in> set [BOLD, RESET, MONOSPACE, REVERSE, ITALIC, STRIKETHROUGH, UNDERLINE]"

lemma toggle_format: "toggle_style c style = None \<longleftrightarrow> \<not> is_format c"
  by (auto simp: toggle_style_def is_format_def)

lemma encode_utf8_empty: "encode_utf8 cs = [] \<longleftrightarrow> cs = []"
  by (cases cs) (simp_all add: encode_utf8_def encode_scalar_def)

lemma encode_utf8_none: "encode_utf8 [] = []"
  by (simp add: encode_utf8_def)

text \<open>Runs that lie next to each other from an offset on, one for each piece of the text.\<close>

fun tiled :: "nat \<Rightarrow> StyledRun list \<Rightarrow> scalar list list \<Rightarrow> bool" where
  "tiled at [] [] = True"
| "tiled at (r # rs) (piece # pieces) =
     (run_from r = at \<and> run_until r = at + length (encode_utf8 piece) \<and> piece \<noteq> [] \<and> tiled (run_until r) rs pieces)"
| "tiled at _ _ = False"

lemma tiled_snoc:
  assumes "tiled at rs pieces" "piece \<noteq> []" "run_from r = at + length (encode_utf8 (concat pieces))"
    "run_until r = at + length (encode_utf8 (concat pieces)) + length (encode_utf8 piece)"
  shows "tiled at (rs @ [r]) (pieces @ [piece])"
  using assms(1,3,4)
proof (induction at rs pieces rule: tiled.induct)
  case (2 at r' rs first rest)
  have t: "run_from r' = at" "run_until r' = at + length (encode_utf8 first)" "first \<noteq> []" "tiled (run_until r') rs rest"
    using "2.prems"(1) unfolding tiled.simps by blast+
  have e: "length (encode_utf8 (concat (first # rest))) = length (encode_utf8 first) + length (encode_utf8 (concat rest))"
    by (simp only: concat.simps encode_utf8_append length_append)
  have "tiled (run_until r') (rs @ [r]) (rest @ [piece])"
    by (rule "2.IH" [OF t(4)]) (use "2.prems"(2,3) t(2) e in linarith)+
  then show ?case using t by (simp only: append_Cons tiled.simps simp_thms)
next
  case (1 at)
  then show ?case using assms(2) by (simp add: encode_utf8_none)
qed simp_all

definition walk_ok :: "RunState \<Rightarrow> scalar list list \<Rightarrow> scalar list \<Rightarrow> bool" where
  "walk_ok st pieces piece \<longleftrightarrow> tiled 0 (rs_runs st) pieces \<and> rs_run_start st = length (encode_utf8 (concat pieces))
     \<and> rs_plain_len st = rs_run_start st + length (encode_utf8 piece)"

lemma close_run_ok:
  assumes "walk_ok st pieces piece"
  obtains pieces' where "walk_ok (close_run st) pieces' []" "concat pieces' = concat pieces @ piece"
proof (cases "piece = []")
  case True
  then show thesis using assms that [of pieces] by (simp add: walk_ok_def close_run_def encode_utf8_def)
next
  case False
  then have "tiled 0 (rs_runs (close_run st)) (pieces @ [piece])"
    using assms tiled_snoc [of 0 "rs_runs st" pieces piece] encode_utf8_empty [of piece]
    by (simp add: walk_ok_def close_run_def)
  then show thesis
    using assms that [of "pieces @ [piece]"] by (simp add: walk_ok_def close_run_def encode_utf8_append) (simp add: encode_utf8_def)
qed

lemma walk_ok_style [simp]: "walk_ok (st\<lparr>rs_style := style\<rparr>) pieces piece = walk_ok st pieces piece"
  by (simp add: walk_ok_def)

lemma style_walk_ok:
  "walk_ok st pieces piece \<Longrightarrow> \<exists>pieces' piece'. walk_ok (style_walk cs index st) pieces' piece'
     \<and> concat pieces' @ piece' = concat pieces @ piece @ filter (\<lambda>c. \<not> is_format c) (strip_colors_from cs index)"
proof (induction cs index st arbitrary: pieces piece rule: style_walk.induct)
  case (1 cs index st)
  obtain closed where closed: "walk_ok (close_run st) closed []" "concat closed = concat pieces @ piece"
    using close_run_ok [OF "1.prems"] by blast
  have colors: "\<not> is_format COLOR" "\<not> is_format HEX_COLOR" "COLOR \<noteq> HEX_COLOR" by (simp_all add: is_format_def control_codes)
  consider (stop) "length cs \<le> index" | (color) "index < length cs" "cs ! index = COLOR" | (hex) "index < length cs" "cs ! index = HEX_COLOR"
    | (toggle) style where "index < length cs" "cs ! index \<noteq> COLOR" "cs ! index \<noteq> HEX_COLOR" "toggle_style (cs ! index) (rs_style st) = Some style"
    | (shown) "index < length cs" "cs ! index \<noteq> COLOR" "cs ! index \<noteq> HEX_COLOR" "toggle_style (cs ! index) (rs_style st) = None"
    by fastforce
  then show ?case
  proof cases
    case stop
    then show ?thesis using "1.prems" by (auto simp: style_walk.simps [of cs index] strip_colors_from.simps [of cs index])
  next
    case color
    then show ?thesis
      using "1.IH"(1) [OF _ _ refl, of closed "[]"] closed
      by (simp add: style_walk.simps [of cs index] strip_colors_from.simps [of cs index] Let_def)
  next
    case hex
    then show ?thesis
      using "1.IH"(2) [OF _ _ _ refl refl, of closed "[]"] closed colors(3)
      by (simp add: style_walk.simps [of cs index] strip_colors_from.simps [of cs index] Let_def)
  next
    case toggle
    then have "is_format (cs ! index)" using toggle_format by (metis option.distinct(1))
    then show ?thesis
      using toggle "1.IH"(4) [OF _ _ _ toggle(4), of closed "[]"] closed
      by (simp add: style_walk.simps [of cs index] strip_colors_from.simps [of cs index])
  next
    case shown
    let ?next = "st\<lparr>rs_plain_len := rs_plain_len st + length (encode_scalar (cs ! index))\<rparr>"
    have "walk_ok ?next pieces (piece @ [cs ! index])"
      using "1.prems" by (simp add: walk_ok_def encode_utf8_append) (simp add: encode_utf8_def)
    moreover have "\<not> is_format (cs ! index)" using shown(4) toggle_format by metis
    ultimately show ?thesis
      using shown "1.IH"(3) [of pieces "piece @ [cs ! index]"]
      by (simp add: style_walk.simps [of cs index] strip_colors_from.simps [of cs index])
  qed
qed

lemma strip_colors_scalars: "c \<in> set (strip_colors_from cs index) \<Longrightarrow> c \<in> set cs"
proof (induction cs index rule: strip_colors_from.induct)
  case (1 cs index)
  from "1.prems" show ?case
    by (subst (asm) strip_colors_from.simps) (use "1.IH" in \<open>auto split: if_splits\<close>)
qed

definition run_text :: "string \<Rightarrow> StyledRun \<Rightarrow> string" where
  "run_text plain r = take (run_until r - run_from r) (drop (run_from r) plain)"

lemma tiled_text:
  assumes "tiled (length before) rs pieces" "\<forall>c \<in> set (concat pieces). is_scalar c"
  shows "map (run_text (before @ encode_utf8 (concat pieces) @ after)) rs = map encode_utf8 pieces"
    "list_all (\<lambda>r. length before \<le> run_from r \<and> run_from r < run_until r) rs"
    "sorted_wrt (\<lambda>r r'. run_until r \<le> run_from r') rs"
proof -
  have "map (run_text (before @ encode_utf8 (concat pieces) @ after)) rs = map encode_utf8 pieces
      \<and> list_all (\<lambda>r. length before \<le> run_from r \<and> run_from r < run_until r) rs \<and> sorted_wrt (\<lambda>r r'. run_until r \<le> run_from r') rs"
    using assms(1)
  proof (induction rs arbitrary: pieces before)
    case Nil
    then show ?case by (cases pieces) simp_all
  next
    case (Cons r rs)
    then obtain piece rest where p: "pieces = piece # rest" "run_from r = length before" "piece \<noteq> []"
      "run_until r = length before + length (encode_utf8 piece)" "tiled (length (before @ encode_utf8 piece)) rs rest"
      by (cases pieces) auto
    from Cons.IH [OF p(5)] p(1-4) encode_utf8_empty [of piece]
    show ?case by (fastforce simp: run_text_def encode_utf8_append list_all_iff)
  qed
  then show "map (run_text (before @ encode_utf8 (concat pieces) @ after)) rs = map encode_utf8 pieces"
    "list_all (\<lambda>r. length before \<le> run_from r \<and> run_from r < run_until r) rs"
    "sorted_wrt (\<lambda>r r'. run_until r \<le> run_from r') rs" by blast+
qed

text \<open>
  C19: The styled runs of a message are its plain text: they are not empty, do not overlap, are cut between characters, and what they show one after
  the other is what \<open>plain_irc_text\<close> shows.
\<close>

theorem styled_runs_cover:
  "concat (map (run_text (plain_irc_text shown)) (styled_runs shown)) = plain_irc_text shown
    \<and> list_all (\<lambda>r. run_from r < run_until r \<and> utf8_valid (run_text (plain_irc_text shown) r)) (styled_runs shown)
    \<and> sorted_wrt (\<lambda>r r'. run_until r \<le> run_from r') (styled_runs shown)"
proof -
  let ?cs = "filter (\<lambda>c. \<not> is_format c) (strip_colors_from (chars shown) 0)"
  let ?st = "\<lparr>rs_runs = [], rs_style = default_style, rs_plain_len = 0, rs_run_start = 0\<rparr>"
  have "walk_ok ?st [] []" by (simp add: walk_ok_def encode_utf8_def)
  from style_walk_ok [OF this, of "chars shown" 0] obtain pieces piece where
    w: "walk_ok (style_walk (chars shown) 0 ?st) pieces piece" "concat pieces @ piece = ?cs" by auto
  from close_run_ok [OF w(1)] w(2) obtain closed where
    "walk_ok (close_run (style_walk (chars shown) 0 ?st)) closed []" "concat closed = ?cs" by metis
  then have t: "tiled (length ([] :: string)) (styled_runs shown) closed" "concat closed = ?cs"
    by (simp_all add: walk_ok_def styled_runs_def)
  have scalars: "\<forall>c \<in> set (concat closed). is_scalar c" unfolding t(2) using strip_colors_scalars chars_scalars by fastforce
  have plain: "plain_irc_text shown = encode_utf8 (concat closed)"
    unfolding t(2) plain_irc_text_def strip_irc_colors_def is_format_def by simp
  have tiles: "map (run_text (plain_irc_text shown)) (styled_runs shown) = map encode_utf8 closed"
    "list_all (\<lambda>r. run_from r < run_until r) (styled_runs shown)" "sorted_wrt (\<lambda>r r'. run_until r \<le> run_from r') (styled_runs shown)"
    using tiled_text(1) [OF t(1) scalars, of "[]"] tiled_text(2,3) [OF t(1) scalars] by (simp_all add: plain)
  have "list_all (\<lambda>r. utf8_valid (run_text (plain_irc_text shown) r)) (styled_runs shown)"
  proof -
    have "list_all utf8_valid (map encode_utf8 closed)" using scalars by (auto simp: list_all_iff utf8_valid_encode)
    then show ?thesis using tiles(1) by (metis list.pred_map comp_apply list.pred_mono_strong)
  qed
  moreover have "concat (map encode_utf8 closed) = encode_utf8 (concat closed)" by (induction closed) (simp_all add: encode_utf8_append, simp add: encode_utf8_def)
  ultimately show ?thesis using tiles plain by (simp add: list_all_iff)
qed

end
