(* ===== verification/StoragePath.thy ===== *)
theory StoragePath
  imports Message
begin

text \<open>
  \<^verbatim>\<open>client/src/irc/storagepath.rs\<close>: the name of the file a conversation is kept in. The hash of a long name is an argument, and so is its length.
  The decoders only tests compile are left out. The lemmas show that a name is one safe path segment and that two conversations share a file
  only in the cases named there.
\<close>

definition is_safe_storage_byte :: "char \<Rightarrow> bool \<Rightarrow> bool" where
  "is_safe_storage_byte b is_last_byte \<longleftrightarrow>
     (if is_ascii_lowercase b then True
      else if is_ascii_digit b then True
      else if b \<in> set ''#&+-_{}~[]^'' then True
      else b = CHR ''.'' \<and> \<not> is_last_byte)"

definition hex_nibble :: "nat \<Rightarrow> char" where
  "hex_nibble n = ''0123456789abcdef'' ! n"

definition percent_encode_byte :: "char \<Rightarrow> string" where
  "percent_encode_byte b = [CHR ''%'', hex_nibble (code b div 16), hex_nibble (code b mod 16)]"

fun encode_storage_bytes :: "bytes \<Rightarrow> string" where
  "encode_storage_bytes [] = []"
| "encode_storage_bytes (b # rest) =
     (if is_safe_storage_byte b (rest = []) then [b] else percent_encode_byte b) @ encode_storage_bytes rest"

definition encode_with_leading_escape :: "bytes \<Rightarrow> string" where
  "encode_with_leading_escape utf8 =
     (case utf8 of [] \<Rightarrow> [] | b # rest \<Rightarrow> percent_encode_byte b @ encode_storage_bytes rest)"

definition hex_bytes :: "bytes \<Rightarrow> string" where
  "hex_bytes raw = concat (map (\<lambda>b. [hex_nibble (code b div 16), hex_nibble (code b mod 16)]) raw)"

definition hash_long_segment :: "(bytes \<Rightarrow> bytes) \<Rightarrow> bytes \<Rightarrow> string" where
  "hash_long_segment sha256 utf8 = CHR ''h'' # hex_bytes (sha256 utf8)"

definition trim_trailing_spaces_and_dots :: "string \<Rightarrow> string" where
  "trim_trailing_spaces_and_dots name = rev (dropWhile (\<lambda>ch. ch = CHR '' '' \<or> ch = CHR ''.'') (rev name))"

definition device_base_token :: "string \<Rightarrow> string" where
  "device_base_token full_name =
     (let trimmed = trim_trailing_spaces_and_dots full_name in
      case split_once (CHR ''.'') trimmed of Some (base, _) \<Rightarrow> base | None \<Rightarrow> trimmed)"

definition device_base_matches :: "string \<Rightarrow> bool" where
  "device_base_matches stem =
     (let stem = trim_trailing_spaces_and_dots stem in
      if stem = [] then False
      else
        let lowered = to_ascii_lowercase stem in
        if lowered \<in> set [''con'', ''prn'', ''aux'', ''nul''] then True
        else
          let cs = chars lowered in
          if length cs \<noteq> 4 then False
          else
            let prefix = encode_utf8 (take 3 cs) in
            if prefix \<noteq> ''com'' \<and> prefix \<noteq> ''lpt'' then False
            else 48 \<le> cs ! 3 \<and> cs ! 3 \<le> 57 \<or> cs ! 3 \<in> set [0xb9, 0xb2, 0xb3])"

definition is_win32_device_name :: "string \<Rightarrow> string \<Rightarrow> bool" where
  "is_win32_device_name name extension \<longleftrightarrow> device_base_matches (device_base_token (name @ extension))"

definition storage_segment_is_hash :: "string \<Rightarrow> bool" where
  "storage_segment_is_hash segment \<longleftrightarrow>
     length segment = 65 \<and> hd segment = CHR ''h''
     \<and> list_all (\<lambda>c. is_ascii_digit c \<or> 97 \<le> code c \<and> code c \<le> 102) (tl segment)"

definition storage_segment :: "(bytes \<Rightarrow> bytes) \<Rightarrow> string \<Rightarrow> string option \<Rightarrow> string" where
  "storage_segment sha256 name extension_for_device_check =
     (let extension = (case extension_for_device_check of Some e \<Rightarrow> e | None \<Rightarrow> []) in
      if name = [] \<or> name = ''.'' \<or> name = ''..'' then ''_''
      else
        let segment = (if is_win32_device_name name extension then encode_with_leading_escape name else encode_storage_bytes name) in
        if length segment + length extension > 255 then hash_long_segment sha256 name
        else if storage_segment_is_hash segment then percent_encode_byte (CHR ''h'') @ tl segment
        else segment)"

definition wire_storage_segment :: "(bytes \<Rightarrow> bytes) \<Rightarrow> string \<Rightarrow> string option \<Rightarrow> string" where
  "wire_storage_segment sha256 name extension = storage_segment sha256 (wire_text name) extension"

text \<open>\<open>str::replace\<close> of one byte, and the names older versions gave.\<close>

definition replace_byte :: "char \<Rightarrow> string \<Rightarrow> string \<Rightarrow> string" where
  "replace_byte c by_text s = concat (map (\<lambda>b. if b = c then by_text else [b]) s)"

definition legacy_storage_segment :: "string \<Rightarrow> string" where
  "legacy_storage_segment name =
     (let name = replace_byte (CHR 0x00) ''%00'' (replace_byte (CHR 0x5C) ''%5c'' (replace_byte (CHR ''/'') ''%2f'' (replace_byte (CHR ''%'') ''%25'' name)))
      in if name = [] \<or> name = ''.'' \<or> name = ''..'' then ''_'' else name)"

section \<open>The bytes of a segment\<close>

definition segment_byte :: "char \<Rightarrow> bool" where
  "segment_byte c \<longleftrightarrow> is_ascii_lowercase c \<or> is_ascii_digit c \<or> c \<in> set ''#&+-_{}~[]^.%''"

lemma hex_nibble_byte: "n < 16 \<Longrightarrow> is_ascii_digit (hex_nibble n) \<or> 97 \<le> code (hex_nibble n) \<and> code (hex_nibble n) \<le> 102"
proof -
  have "list_all (\<lambda>n. is_ascii_digit (hex_nibble n) \<or> 97 \<le> code (hex_nibble n) \<and> code (hex_nibble n) \<le> 102) [0..<16]" by code_simp
  then show "n < 16 \<Longrightarrow> ?thesis" by (simp add: list_all_iff)
qed

lemma hex_nibble_inj: "n < 16 \<Longrightarrow> m < 16 \<Longrightarrow> hex_nibble n = hex_nibble m \<Longrightarrow> n = m"
proof -
  have "list_all (\<lambda>n. list_all (\<lambda>m. hex_nibble n = hex_nibble m \<longrightarrow> n = m) [0..<16]) [0..<16]" by code_simp
  then show "n < 16 \<Longrightarrow> m < 16 \<Longrightarrow> hex_nibble n = hex_nibble m \<Longrightarrow> n = m" by (simp add: list_all_iff)
qed

lemma nibbles: "code b div 16 < 16" "code b mod 16 < 16"
  using code_less_256 [of b] by (simp_all add: less_mult_imp_div_less)

lemma segment_hex: "n < 16 \<Longrightarrow> segment_byte (hex_nibble n) \<and> hex_nibble n \<noteq> CHR ''.''"
  using hex_nibble_byte [of n] by (auto simp: segment_byte_def is_ascii_lowercase_def is_ascii_digit_def)

lemma percent_encode_inj: "percent_encode_byte b = percent_encode_byte c \<longleftrightarrow> b = c"
proof
  assume "percent_encode_byte b = percent_encode_byte c"
  then have "code b div 16 = code c div 16" "code b mod 16 = code c mod 16"
    using hex_nibble_inj nibbles unfolding percent_encode_byte_def by blast+
  then have "code b = code c" by (metis div_mult_mod_eq)
  then show "b = c" by simp
qed simp

lemma safe_segment_byte: "is_safe_storage_byte b l \<Longrightarrow> segment_byte b \<and> b \<noteq> CHR ''%''"
  by (auto simp: is_safe_storage_byte_def segment_byte_def is_ascii_lowercase_def is_ascii_digit_def split: if_splits)

lemma percent_segment: "list_all segment_byte (percent_encode_byte b)" "last (percent_encode_byte b) \<noteq> CHR ''.''"
  using segment_hex nibbles [of b] by (simp_all add: percent_encode_byte_def) (simp add: segment_byte_def)

lemma encode_segment: "list_all segment_byte (encode_storage_bytes s)"
  using safe_segment_byte percent_segment(1) by (induction s) auto

lemma encode_nonempty: "encode_storage_bytes s = [] \<longleftrightarrow> s = []"
  by (cases s) (simp_all add: percent_encode_byte_def)

lemma safe_last_byte: "is_safe_storage_byte b True \<Longrightarrow> b \<noteq> CHR ''.''"
  by (auto simp: is_safe_storage_byte_def is_ascii_lowercase_def is_ascii_digit_def split: if_splits)

lemma encode_last: "s \<noteq> [] \<Longrightarrow> last (encode_storage_bytes s) \<noteq> CHR ''.''"
proof (induction s)
  case (Cons b rest)
  show ?case
  proof (cases "rest = []")
    case True
    then show ?thesis using percent_segment(2) [of b] safe_last_byte [of b] by simp
  next
    case False
    then show ?thesis using Cons.IH encode_nonempty [of rest] by (simp add: last_append)
  qed
qed simp

section \<open>Names are kept apart\<close>

text \<open>The encoding can be undone: a percent sign starts an escape, and every other byte stands for itself.\<close>

lemma encode_inj: "encode_storage_bytes s = encode_storage_bytes t \<Longrightarrow> s = t"
proof (induction s arbitrary: t)
  case Nil
  then show ?case using encode_nonempty [of t] by simp
next
  case (Cons b s)
  then obtain c u where t: "t = c # u" using encode_nonempty [of "b # s"] by (cases t) auto
  have p: "percent_encode_byte d = CHR ''%'' # tl (percent_encode_byte d)" "length (percent_encode_byte d) = 3" for d
    by (simp_all add: percent_encode_byte_def)
  consider (both) "is_safe_storage_byte b (s = [])" "is_safe_storage_byte c (u = [])"
    | (left) "is_safe_storage_byte b (s = [])" "\<not> is_safe_storage_byte c (u = [])"
    | (right) "\<not> is_safe_storage_byte b (s = [])" "is_safe_storage_byte c (u = [])"
    | (none) "\<not> is_safe_storage_byte b (s = [])" "\<not> is_safe_storage_byte c (u = [])" by blast
  then show ?case
  proof cases
    case both
    then show ?thesis using Cons t by simp
  next
    case left
    then have "b # encode_storage_bytes s = percent_encode_byte c @ encode_storage_bytes u" using Cons.prems t by simp
    then have "b = CHR ''%''" using p(1) [of c] by (metis append_Cons list.inject)
    then show ?thesis using safe_segment_byte [OF left(1)] by simp
  next
    case right
    then have "percent_encode_byte b @ encode_storage_bytes s = c # encode_storage_bytes u" using Cons.prems t by simp
    then have "c = CHR ''%''" using p(1) [of b] by (metis append_Cons list.inject)
    then show ?thesis using safe_segment_byte [OF right(2)] by simp
  next
    case none
    then have "percent_encode_byte b @ encode_storage_bytes s = percent_encode_byte c @ encode_storage_bytes u" using Cons.prems t by simp
    then have "percent_encode_byte b = percent_encode_byte c" "encode_storage_bytes s = encode_storage_bytes u" using p(2) by (simp_all add: append_eq_append_conv)
    then show ?thesis using Cons.IH t percent_encode_inj by blast
  qed
qed

lemma hex_bytes_inj: "hex_bytes s = hex_bytes t \<Longrightarrow> s = t"
proof (induction s arbitrary: t)
  case (Cons b s)
  then obtain c u where t: "t = c # u" by (cases t) (auto simp: hex_bytes_def)
  then have "hex_nibble (code b div 16) = hex_nibble (code c div 16)" "hex_nibble (code b mod 16) = hex_nibble (code c mod 16)"
    "hex_bytes s = hex_bytes u" using Cons.prems by (simp_all add: hex_bytes_def)
  then show ?case using Cons.IH t percent_encode_inj [of b c] by (simp add: percent_encode_byte_def)
qed (cases t; simp add: hex_bytes_def)

text \<open>A segment that is not a hash is one of the two encodings of the name, or one of those with a further escape in front; it never looks like a hash.\<close>

lemma percent_not_hash: "\<not> storage_segment_is_hash (percent_encode_byte b @ s)"
  by (simp add: storage_segment_is_hash_def percent_encode_byte_def)

lemma encode_hd:
  assumes "hd (encode_storage_bytes s) = CHR ''h''" "s \<noteq> []"
  shows "s = CHR ''h'' # tl s \<and> tl (encode_storage_bytes s) = encode_storage_bytes (tl s)"
  using assms by (cases s) (auto simp: percent_encode_byte_def split: if_splits)

lemma unhashed_segment:
  assumes "name \<notin> {[], ''.'', ''..''}"
  obtains "storage_segment sha256 name ext = hash_long_segment sha256 name"
  | "storage_segment sha256 name ext = encode_storage_bytes name" "\<not> storage_segment_is_hash (storage_segment sha256 name ext)"
      "\<not> is_win32_device_name name (case ext of Some e \<Rightarrow> e | None \<Rightarrow> [])"
  | "storage_segment sha256 name ext = encode_with_leading_escape name" "\<not> storage_segment_is_hash (storage_segment sha256 name ext)"
proof -
  define e where "e = (case ext of Some e \<Rightarrow> e | None \<Rightarrow> [])"
  obtain b r where name: "name = b # r" using assms by (cases name) auto
  have lead: "encode_with_leading_escape name = percent_encode_byte b @ encode_storage_bytes r"
    by (simp add: encode_with_leading_escape_def name)
  consider (device) "is_win32_device_name name e" | (hashed) "\<not> is_win32_device_name name e" "storage_segment_is_hash (encode_storage_bytes name)"
    | (plain) "\<not> is_win32_device_name name e" "\<not> storage_segment_is_hash (encode_storage_bytes name)" by blast
  then show thesis
  proof cases
    case device
    then have "storage_segment sha256 name ext = hash_long_segment sha256 name \<or> storage_segment sha256 name ext = encode_with_leading_escape name"
      using assms percent_not_hash by (auto simp: storage_segment_def e_def [symmetric] Let_def lead)
    then show thesis using that(1,3) percent_not_hash lead by metis
  next
    case hashed
    then have "hd (encode_storage_bytes name) = CHR ''h''" by (simp add: storage_segment_is_hash_def)
    then have "percent_encode_byte (CHR ''h'') @ tl (encode_storage_bytes name) = encode_with_leading_escape name"
      using encode_hd [of name] name lead by auto
    then have "storage_segment sha256 name ext = hash_long_segment sha256 name \<or> storage_segment sha256 name ext = encode_with_leading_escape name"
      using assms hashed by (auto simp: storage_segment_def e_def [symmetric] Let_def)
    then show thesis using that(1,3) percent_not_hash lead by metis
  next
    case plain
    then have "storage_segment sha256 name ext = hash_long_segment sha256 name \<or> storage_segment sha256 name ext = encode_storage_bytes name"
      using assms by (auto simp: storage_segment_def e_def [symmetric] Let_def)
    then show thesis using that(1,2) plain unfolding e_def by metis
  qed
qed

lemma length_hex_bytes [simp]: "length (hex_bytes raw) = 2 * length raw"
  by (induction raw) (simp_all add: hex_bytes_def)

lemma set_hex_bytes: "c \<in> set (hex_bytes raw) \<Longrightarrow> is_ascii_digit c \<or> 97 \<le> code c \<and> code c \<le> 102"
  using hex_nibble_byte [OF nibbles(1)] hex_nibble_byte [OF nibbles(2)] unfolding hex_bytes_def by fastforce

lemma hash_is_hash: "length (sha256 s) = 32 \<Longrightarrow> storage_segment_is_hash (hash_long_segment sha256 s)"
  using set_hex_bytes by (auto simp: storage_segment_is_hash_def hash_long_segment_def list_all_iff)

lemma leading_inj: "s \<noteq> [] \<Longrightarrow> t \<noteq> [] \<Longrightarrow> encode_with_leading_escape s = encode_with_leading_escape t \<Longrightarrow> s = t"
proof -
  assume "s \<noteq> []" "t \<noteq> []" and eq: "encode_with_leading_escape s = encode_with_leading_escape t"
  then obtain b r c u where st: "s = b # r" "t = c # u" by (meson neq_Nil_conv)
  then have "percent_encode_byte b = percent_encode_byte c" "encode_storage_bytes r = encode_storage_bytes u"
    using eq by (simp_all add: encode_with_leading_escape_def percent_encode_byte_def)
  then show "s = t" using st encode_inj percent_encode_inj by blast
qed

lemma leading_encode: "s \<noteq> [] \<Longrightarrow> encode_with_leading_escape s = encode_storage_bytes t \<Longrightarrow> s = t"
proof -
  assume "s \<noteq> []" and eq: "encode_with_leading_escape s = encode_storage_bytes t"
  then obtain b r where s: "s = b # r" by (meson neq_Nil_conv)
  then obtain c u where t: "t = c # u" using eq encode_nonempty [of t] by (cases t) (auto simp: encode_with_leading_escape_def percent_encode_byte_def)
  have "\<not> is_safe_storage_byte c (u = [])"
    using eq safe_segment_byte [of c "u = []"] by (auto simp: s t encode_with_leading_escape_def percent_encode_byte_def)
  then have "encode_storage_bytes t = encode_with_leading_escape t" by (simp add: t encode_with_leading_escape_def)
  then have "encode_with_leading_escape s = encode_with_leading_escape t" using eq by simp
  then show "s = t" by (rule leading_inj [rotated 2]) (simp_all add: s t)
qed

lemma segments_apart:
  assumes "\<And>t. length (sha256 t) = 32" "storage_segment sha256 a x = storage_segment sha256 b y"
    "a \<notin> {[], ''.'', ''..''}" "b \<notin> {[], ''.'', ''..''}"
  shows "a = b \<or> sha256 a = sha256 b"
proof (rule unhashed_segment [OF assms(3), of sha256 x]; rule unhashed_segment [OF assms(4), of sha256 y])
  assume "storage_segment sha256 a x = hash_long_segment sha256 a" "storage_segment sha256 b y = hash_long_segment sha256 b"
  then show ?thesis using assms(2) hex_bytes_inj by (simp add: hash_long_segment_def)
next
  assume "storage_segment sha256 a x = encode_with_leading_escape a" "storage_segment sha256 b y = encode_with_leading_escape b"
  then show ?thesis using assms leading_inj by simp
next
  assume "storage_segment sha256 a x = encode_with_leading_escape a" "storage_segment sha256 b y = encode_storage_bytes b"
  then show ?thesis using assms leading_encode [of a b] by simp
next
  assume "storage_segment sha256 a x = encode_storage_bytes a" "storage_segment sha256 b y = encode_with_leading_escape b"
  then show ?thesis using assms leading_encode [of b a] by simp
next
  assume "storage_segment sha256 a x = encode_storage_bytes a" "storage_segment sha256 b y = encode_storage_bytes b"
  then show ?thesis using assms(2) encode_inj by simp
qed (use assms hash_is_hash in metis)+

section \<open>Device names\<close>

text \<open>Whether a file name is a device depends only on what stands before its first dot.\<close>

lemma trim_append: "list_all (\<lambda>ch. ch = CHR '' '' \<or> ch = CHR ''.'') z \<Longrightarrow> trim_trailing_spaces_and_dots (y @ z) = trim_trailing_spaces_and_dots y"
  unfolding trim_trailing_spaces_and_dots_def rev_append by (subst dropWhile_append2) (auto simp: list_all_iff)

lemma trim_split:
  obtains z where "x = trim_trailing_spaces_and_dots x @ z" "list_all (\<lambda>ch. ch = CHR '' '' \<or> ch = CHR ''.'') z"
proof
  show "x = trim_trailing_spaces_and_dots x @ rev (takeWhile (\<lambda>ch. ch = CHR '' '' \<or> ch = CHR ''.'') (rev x))"
    by (simp add: trim_trailing_spaces_and_dots_def flip: rev_append)
qed (auto simp: list_all_iff dest: set_takeWhileD)

lemma trim_idem [simp]: "trim_trailing_spaces_and_dots (trim_trailing_spaces_and_dots x) = trim_trailing_spaces_and_dots x"
  using trim_split [of x] trim_append by metis

lemma trim_keeps: "c \<in> set x \<Longrightarrow> c \<noteq> CHR '' '' \<Longrightarrow> c \<noteq> CHR ''.'' \<Longrightarrow> c \<in> set (trim_trailing_spaces_and_dots x)"
proof (rule trim_split [of x])
  fix z
  assume c: "c \<in> set x" "c \<noteq> CHR '' ''" "c \<noteq> CHR ''.''"
    and x: "x = trim_trailing_spaces_and_dots x @ z" and z: "list_all (\<lambda>ch. ch = CHR '' '' \<or> ch = CHR ''.'') z"
  have "c \<notin> set z" using z c(2,3) unfolding list_all_iff by blast
  moreover have "set x = set (trim_trailing_spaces_and_dots x) \<union> set z" using arg_cong [OF x, of set] by (simp only: set_append)
  ultimately show ?thesis using c(1) by blast
qed

lemma set_trim: "set (trim_trailing_spaces_and_dots x) \<subseteq> set x"
  by (auto simp: trim_trailing_spaces_and_dots_def dest: set_dropWhileD)

lemma before_none: "CHR ''.'' \<notin> set x \<Longrightarrow> takeWhile (\<lambda>c. c \<noteq> CHR ''.'') x = x"
  by (subst takeWhile_eq_all_conv) blast

lemma before_dot: "device_base_token x = takeWhile (\<lambda>c. c \<noteq> CHR ''.'') (trim_trailing_spaces_and_dots x)"
proof (cases "split_once (CHR ''.'') (trim_trailing_spaces_and_dots x)")
  case None
  then have "CHR ''.'' \<notin> set (trim_trailing_spaces_and_dots x)" by (simp add: split_once_None)
  then show ?thesis unfolding device_base_token_def Let_def None option.case by (rule before_none [symmetric])
next
  case (Some p)
  obtain us vs where p: "p = (us, vs)" by (cases p)
  have x: "trim_trailing_spaces_and_dots x = us @ CHR ''.'' # vs" "CHR ''.'' \<notin> set us" using Some by (simp_all add: p split_once_Some)
  have "takeWhile (\<lambda>c. c \<noteq> CHR ''.'') (us @ CHR ''.'' # vs) = us @ takeWhile (\<lambda>c. c \<noteq> CHR ''.'') (CHR ''.'' # vs)"
    by (rule takeWhile_append2) (use x(2) in blast)
  then show ?thesis using Some by (simp add: device_base_token_def Let_def p x(1))
qed

lemma device_token:
  "trim_trailing_spaces_and_dots (device_base_token x) = trim_trailing_spaces_and_dots (takeWhile (\<lambda>c. c \<noteq> CHR ''.'') x)"
proof (rule trim_split [of x])
  fix z
  assume x: "x = trim_trailing_spaces_and_dots x @ z" and z: "list_all (\<lambda>ch. ch = CHR '' '' \<or> ch = CHR ''.'') z"
  show ?thesis
  proof (cases "CHR ''.'' \<in> set (trim_trailing_spaces_and_dots x)")
    case True
    then have "takeWhile (\<lambda>c. c \<noteq> CHR ''.'') x = takeWhile (\<lambda>c. c \<noteq> CHR ''.'') (trim_trailing_spaces_and_dots x)"
      using x takeWhile_append1 [of "CHR ''.''" "trim_trailing_spaces_and_dots x" "\<lambda>c. c \<noteq> CHR ''.''" z] by simp
    then show ?thesis by (simp add: before_dot)
  next
    case False
    have "takeWhile (\<lambda>c. c \<noteq> CHR ''.'') (trim_trailing_spaces_and_dots x @ z) = trim_trailing_spaces_and_dots x @ takeWhile (\<lambda>c. c \<noteq> CHR ''.'') z"
      by (rule takeWhile_append2) (use False in blast)
    then have "takeWhile (\<lambda>c. c \<noteq> CHR ''.'') x = trim_trailing_spaces_and_dots x @ takeWhile (\<lambda>c. c \<noteq> CHR ''.'') z" using x by argo
    moreover have "list_all (\<lambda>ch. ch = CHR '' '' \<or> ch = CHR ''.'') (takeWhile (\<lambda>c. c \<noteq> CHR ''.'') z)"
      using z set_takeWhileD unfolding list_all_iff by fast
    ultimately show ?thesis
      by (simp only: before_dot before_none [OF False] trim_idem trim_append)
  qed
qed

text \<open>A device name has three or four characters, none of them a percent sign or an underscore.\<close>

lemma device_base_shape:
  assumes "device_base_matches w" "list_all is_ascii_byte w"
  shows "length (trim_trailing_spaces_and_dots w) \<le> 4 \<and> CHR ''%'' \<notin> set w \<and> CHR ''_'' \<notin> set w"
proof -
  define v where "v = to_ascii_lowercase (trim_trailing_spaces_and_dots w)"
  have ascii: "\<forall>c \<in> set v. code c < 128"
    using assms(2) set_trim [of w] by (auto simp: v_def to_ascii_lowercase_def list_all_iff is_ascii_byte_def code_ascii_lower is_ascii_uppercase_def)
  have "length v \<le> 4 \<and> CHR ''%'' \<notin> set v \<and> CHR ''_'' \<notin> set v"
  proof (cases "v \<in> set [''con'', ''prn'', ''aux'', ''nul'']")
    case True
    then show ?thesis by auto
  next
    case False
    have m: "length (chars v) = 4" "encode_utf8 (take 3 (chars v)) \<in> {''com'', ''lpt''}"
      "48 \<le> chars v ! 3 \<and> chars v ! 3 \<le> 57 \<or> chars v ! 3 \<in> set [0xb9, 0xb2, 0xb3]"
      using assms(1) False by (auto simp: device_base_matches_def Let_def v_def [symmetric] simp del: list.set split: if_splits)
    have l: "length v = 4" using m(1) by (simp add: chars_ascii [OF ascii])
    then obtain a b c d where v: "v = [a, b, c, d]" by (auto simp: length_Suc_conv numeral_eq_Suc)
    have abc: "chars [a, b, c] = map of_char [a, b, c]" using ascii v by (intro chars_ascii) auto
    have "take 3 (chars v) = map of_char [a, b, c]" by (subst chars_ascii [OF ascii]) (simp add: v)
    then have "encode_utf8 (take 3 (chars v)) = encode_utf8 (chars [a, b, c])" by (simp only: abc)
    also have "\<dots> = [a, b, c]" using ascii v by (intro encode_chars utf8_valid_ascii) auto
    finally have abc: "[a, b, c] \<in> {''com'', ''lpt''}" using m(2) by simp
    have "d \<noteq> CHR ''%'' \<and> d \<noteq> CHR ''_''" using m(3) by (auto simp: v chars_ascii [OF ascii, unfolded v])
    then show ?thesis using abc by (auto simp: v)
  qed
  moreover have "c \<in> set w \<Longrightarrow> c = CHR ''%'' \<or> c = CHR ''_'' \<Longrightarrow> c \<in> set v" for c
  proof -
    assume "c \<in> set w" and c: "c = CHR ''%'' \<or> c = CHR ''_''"
    then have "c \<in> set (trim_trailing_spaces_and_dots w)" by (intro trim_keeps) auto
    moreover have "ascii_lower c = c" using c by (auto simp: ascii_lower_def is_ascii_uppercase_def)
    ultimately show ?thesis unfolding v_def to_ascii_lowercase_def by (metis imageI set_map)
  qed
  ultimately show ?thesis by (auto simp: v_def)
qed

lemma device_matches_trim: "trim_trailing_spaces_and_dots v = trim_trailing_spaces_and_dots w \<Longrightarrow> device_base_matches v = device_base_matches w"
  by (simp add: device_base_matches_def)

lemma device_name: "is_win32_device_name name ext = device_base_matches (takeWhile (\<lambda>c. c \<noteq> CHR ''.'') (name @ ext))"
  unfolding is_win32_device_name_def by (rule device_matches_trim [OF device_token])

lemma not_device:
  assumes "c \<in> set (takeWhile (\<lambda>c. c \<noteq> CHR ''.'') (s @ ext))" "c = CHR ''%'' \<or> c = CHR ''_''" "list_all segment_byte s" "list_all is_ascii_byte ext"
  shows "\<not> is_win32_device_name s ext"
proof -
  have "list_all is_ascii_byte (s @ ext)" using assms(3,4)
    by (auto simp: list_all_iff segment_byte_def is_ascii_byte_def is_ascii_lowercase_def is_ascii_digit_def)
  then have "list_all is_ascii_byte (takeWhile (\<lambda>c. c \<noteq> CHR ''.'') (s @ ext))" using set_takeWhileD unfolding list_all_iff by fast
  then show ?thesis using device_base_shape assms(1,2) unfolding device_name by blast
qed

text \<open>Encoding keeps what stands before the first dot, or puts a percent sign there.\<close>

lemma encode_before_dot:
  "takeWhile (\<lambda>c. c \<noteq> CHR ''.'') (encode_storage_bytes s @ ext) = takeWhile (\<lambda>c. c \<noteq> CHR ''.'') (s @ ext)
   \<or> CHR ''%'' \<in> set (takeWhile (\<lambda>c. c \<noteq> CHR ''.'') (encode_storage_bytes s @ ext))"
  by (induction s) (auto simp: percent_encode_byte_def)

lemma encode_not_device:
  assumes "\<not> is_win32_device_name s ext" "list_all is_ascii_byte ext"
  shows "\<not> is_win32_device_name (encode_storage_bytes s) ext"
  using encode_before_dot [of s ext] not_device [OF _ _ encode_segment assms(2), of "CHR ''%''" s] assms(1) by (auto simp: device_name)

lemma segment_ascii: "segment_byte c \<Longrightarrow> is_ascii_byte c"
  by (auto simp: segment_byte_def is_ascii_byte_def is_ascii_lowercase_def is_ascii_digit_def)

lemma segment_no_space: "\<not> segment_byte (CHR '' '')" by (simp add: segment_byte_def is_ascii_lowercase_def is_ascii_digit_def)

lemma segment_nibble: "n < 16 \<Longrightarrow> segment_byte (hex_nibble n)" "n < 16 \<Longrightarrow> hex_nibble n \<noteq> CHR ''.''"
  using segment_hex by simp_all

lemma hash_bytes: "c \<in> set (hash_long_segment sha256 s) \<Longrightarrow> segment_byte c \<and> c \<noteq> CHR ''.''"
proof -
  assume "c \<in> set (hash_long_segment sha256 s)"
  then consider "c = CHR ''h''" | b where "c = hex_nibble (code b div 16)" | b where "c = hex_nibble (code b mod 16)"
    by (auto simp: hash_long_segment_def hex_bytes_def)
  then show ?thesis
  proof cases
    case 1
    then show ?thesis by (simp add: segment_byte_def is_ascii_lowercase_def)
  next
    case (2 b)
    show ?thesis unfolding 2 using segment_nibble [OF nibbles(1)] by (rule conjI)
  next
    case (3 b)
    show ?thesis unfolding 3 using segment_nibble [OF nibbles(2)] by (rule conjI)
  qed
qed

lemma length_trim:
  assumes "s \<noteq> []" "last s \<noteq> CHR '' ''" "last s \<noteq> CHR ''.''"
  shows "length s \<le> length (trim_trailing_spaces_and_dots (s @ y))"
proof -
  have "rev (s @ y) = rev y @ last s # rev (butlast s)" using assms(1) by (metis append_butlast_last_id rev.simps(2) rev_append rev_rev_ident rev_swap snoc_eq_iff_butlast append.assoc append_Cons append_Nil)
  then have "trim_trailing_spaces_and_dots (s @ y) = rev (dropWhile (\<lambda>ch. ch = CHR '' '' \<or> ch = CHR ''.'') (rev y) @ last s # rev (butlast s))"
    using assms(2,3) by (simp only: trim_trailing_spaces_and_dots_def dropWhile_append3 de_Morgan_disj not_False_eq_True simp_thms)
  then show ?thesis using assms(1) by simp
qed

lemma hash_not_device:
  assumes "length (sha256 s) = 32" "list_all is_ascii_byte ext"
  shows "\<not> is_win32_device_name (hash_long_segment sha256 s) ext"
proof
  let ?h = "hash_long_segment sha256 s" and ?e = "takeWhile (\<lambda>c. c \<noteq> CHR ''.'') ext"
  assume d: "is_win32_device_name ?h ext"
  have h: "?h \<noteq> []" "length ?h = 65" using assms(1) by (simp_all add: hash_long_segment_def)
  have "takeWhile (\<lambda>c. c \<noteq> CHR ''.'') (?h @ ext) = ?h @ ?e"
    by (rule takeWhile_append2) (use hash_bytes in blast)
  then have "device_base_matches (?h @ ?e)" using d by (simp only: device_name)
  moreover have "list_all is_ascii_byte (?h @ ?e)"
    using hash_bytes segment_ascii assms(2) set_takeWhileD unfolding list_all_iff set_append by fast
  ultimately have "length (trim_trailing_spaces_and_dots (?h @ ?e)) \<le> 4" using device_base_shape by blast
  then show False using length_trim [OF h(1), of ?e] hash_bytes [OF last_in_set [OF h(1)]] segment_no_space h(2) by fastforce
qed

section \<open>Storage names are safe and kept apart\<close>

definition safe_file_name :: "string \<Rightarrow> string \<Rightarrow> bool" where
  "safe_file_name s extension \<longleftrightarrow>
     s \<noteq> [] \<and> s \<noteq> ''.'' \<and> s \<noteq> ''..'' \<and> list_all segment_byte s \<and> last s \<noteq> CHR ''.''
     \<and> length s + length extension \<le> 255 \<and> \<not> is_win32_device_name s extension"

lemma length_storage_segment:
  assumes "length (sha256 name) = 32" "length e \<le> 188"
  shows "length (storage_segment sha256 name (Some e)) + length e \<le> 255"
  using assms by (auto simp: storage_segment_def Let_def hash_long_segment_def storage_segment_is_hash_def percent_encode_byte_def)

lemma safe_file_nameI:
  assumes "s \<noteq> []" "list_all segment_byte s" "last s \<noteq> CHR ''.''" "length s + length e \<le> 255" "\<not> is_win32_device_name s e"
  shows "safe_file_name s e"
  using assms by (auto simp: safe_file_name_def)

lemma leading_segment:
  assumes "s \<noteq> []"
  shows "list_all segment_byte (encode_with_leading_escape s)" "last (encode_with_leading_escape s) \<noteq> CHR ''.''"
    "encode_with_leading_escape s = CHR ''%'' # tl (encode_with_leading_escape s)"
proof -
  obtain b r where s: "s = b # r" using assms by (meson neq_Nil_conv)
  show "list_all segment_byte (encode_with_leading_escape s)"
    using percent_segment(1) encode_segment by (simp add: s encode_with_leading_escape_def)
  show "last (encode_with_leading_escape s) \<noteq> CHR ''.''"
    using percent_segment(2) [of b] encode_last [of r] encode_nonempty [of r] by (auto simp: s encode_with_leading_escape_def last_append)
  show "encode_with_leading_escape s = CHR ''%'' # tl (encode_with_leading_escape s)"
    by (simp add: s encode_with_leading_escape_def percent_encode_byte_def)
qed

lemma storage_segment_safe:
  assumes "length (sha256 name) = 32" "list_all is_ascii_byte e" "length e \<le> 188"
  shows "safe_file_name (storage_segment sha256 name (Some e)) e"
proof (cases "name \<in> {[], ''.'', ''..''}")
  case True
  then have "storage_segment sha256 name (Some e) = ''_''" by (auto simp: storage_segment_def Let_def)
  moreover have "safe_file_name ''_'' e"
    using not_device [of "CHR ''_''" "''_''" e] assms by (intro safe_file_nameI) (simp_all add: segment_byte_def)
  ultimately show ?thesis by simp
next
  case False
  note len = length_storage_segment [of sha256 name e, OF assms(1,3)]
  show ?thesis
  proof (rule unhashed_segment [OF False, of sha256 "Some e"])
    assume h: "storage_segment sha256 name (Some e) = hash_long_segment sha256 name"
    have ne: "hash_long_segment sha256 name \<noteq> []" by (simp add: hash_long_segment_def)
    have "last (hash_long_segment sha256 name) \<noteq> CHR ''.''" using hash_bytes [OF last_in_set [OF ne]] by (rule conjunct2)
    then show ?thesis
      using ne len hash_not_device [of sha256 name e, OF assms(1,2)] hash_bytes unfolding h by (intro safe_file_nameI) (auto simp: list_all_iff)
  next
    assume p: "storage_segment sha256 name (Some e) = encode_storage_bytes name"
      and d: "\<not> is_win32_device_name name (case Some e of Some e \<Rightarrow> e | None \<Rightarrow> [])"
    have d: "\<not> is_win32_device_name name e" using d by simp
    have ne: "name \<noteq> []" using False by simp
    show ?thesis
      using len encode_segment encode_last [OF ne] ne encode_nonempty encode_not_device [OF d assms(2)] unfolding p
      by (intro safe_file_nameI) auto
  next
    assume l: "storage_segment sha256 name (Some e) = encode_with_leading_escape name"
    have ne: "name \<noteq> []" using False by simp
    have w: "encode_with_leading_escape name @ e = CHR ''%'' # tl (encode_with_leading_escape name) @ e"
      by (subst leading_segment(3) [OF ne]) simp
    have "CHR ''%'' \<in> set (takeWhile (\<lambda>c. c \<noteq> CHR ''.'') (encode_with_leading_escape name @ e))"
      unfolding w by simp
    then have "\<not> is_win32_device_name (encode_with_leading_escape name) e"
      using not_device leading_segment(1) [OF ne] assms(2) by blast
    moreover have "encode_with_leading_escape name \<noteq> []" by (subst leading_segment(3) [OF ne]) simp
    ultimately show ?thesis
      using len leading_segment(1,2) [OF ne] unfolding l by (intro safe_file_nameI)
  qed
qed

lemma underscore_segment:
  assumes "length (sha256 b) = 32" "storage_segment sha256 b (Some e) = ''_''"
  shows "b \<in> {[], ''.'', ''..'', ''_''}"
proof (rule ccontr)
  assume b: "b \<notin> {[], ''.'', ''..'', ''_''}"
  then have "b \<notin> {[], ''.'', ''..''}" by simp
  then show False
  proof (rule unhashed_segment [of _ sha256 "Some e"])
    assume "storage_segment sha256 b (Some e) = hash_long_segment sha256 b"
    then show False using assms by (simp add: hash_long_segment_def)
  next
    assume "storage_segment sha256 b (Some e) = encode_storage_bytes b"
    moreover have "encode_storage_bytes ''_'' = ''_''" by (simp add: is_safe_storage_byte_def)
    ultimately have "b = ''_''" using assms(2) encode_inj by metis
    then show False using b by simp
  next
    assume "storage_segment sha256 b (Some e) = encode_with_leading_escape b"
    then have "''_'' = CHR ''%'' # tl (encode_with_leading_escape b)" using assms(2) leading_segment(3) [of b] b by (metis insertCI)
    then show False by simp
  qed
qed

text \<open>
  C35: Over any 32-byte hash, and with an ASCII extension of at most 188 bytes, the name of a file is one safe path segment: not empty, not \<open>.\<close> or \<open>..\<close>,
  of lower-case letters, digits and harmless marks only (so neither a separator nor two names a case-folding file system would merge), not ending in a dot,
  within 255 bytes with the extension, and no Windows device. Two conversations get the same name only when they are the same, when their hashes collide,
  or when both are among the empty name, \<open>.\<close>, \<open>..\<close> and \<open>_\<close>.
\<close>

theorem storage_names_safe_and_apart:
  assumes "\<And>t. length (sha256 t) = 32" "list_all is_ascii_byte e" "length e \<le> 188"
  shows "safe_file_name (storage_segment sha256 a (Some e)) e
    \<and> (storage_segment sha256 a (Some e) = storage_segment sha256 b (Some e)
       \<longrightarrow> a = b \<or> sha256 a = sha256 b \<or> {a, b} \<subseteq> {[], ''.'', ''..'', ''_''})"
proof (intro conjI impI)
  show "safe_file_name (storage_segment sha256 a (Some e)) e" using assms by (rule storage_segment_safe)
  assume eq: "storage_segment sha256 a (Some e) = storage_segment sha256 b (Some e)"
  have dots: "storage_segment sha256 n (Some e) = ''_''" if "n \<in> {[], ''.'', ''..''}" for n
    using that by (auto simp: storage_segment_def Let_def)
  consider "a \<in> {[], ''.'', ''..''}" | "b \<in> {[], ''.'', ''..''}" | "a \<notin> {[], ''.'', ''..''}" "b \<notin> {[], ''.'', ''..''}" by blast
  then show "a = b \<or> sha256 a = sha256 b \<or> {a, b} \<subseteq> {[], ''.'', ''..'', ''_''}"
  proof cases
    case 1
    then show ?thesis using underscore_segment [of sha256 b e, OF assms(1)] dots [OF 1] eq by auto
  next
    case 2
    then show ?thesis using underscore_segment [of sha256 a e, OF assms(1)] dots [OF 2] eq by auto
  next
    case 3
    then show ?thesis using segments_apart [of sha256 a "Some e" b "Some e", OF assms(1) eq] by blast
  qed
qed

lemma storage_names_safe_and_apart_witness:
  "safe_file_name (storage_segment (\<lambda>t. take 32 (t @ replicate 32 (CHR 0x00))) ''con'' (Some ''.json'')) ''.json''
   \<and> storage_segment (\<lambda>t. take 32 (t @ replicate 32 (CHR 0x00))) ''con'' (Some ''.json'')
     \<noteq> storage_segment (\<lambda>t. take 32 (t @ replicate 32 (CHR 0x00))) ''Con'' (Some ''.json'')"
  using storage_names_safe_and_apart [of "\<lambda>t. take 32 (t @ replicate 32 (CHR 0x00))" "''.json''" "''con''" "''Con''"]
  by (auto simp: is_ascii_byte_def numeral_eq_Suc)

end
